(* ===== verification/Go_Prelude.thy ===== *)
theory Go_Prelude
  imports Main "HOL-Library.Word" "HOL-Library.AList"
begin

text \<open>
  Shared prelude of the development.  It fixes how the Go of the program is read:

  \<^item> \<^verbatim>\<open>log.Fatal\<close>, \<^verbatim>\<open>log.CheckFatal\<close> and a run-time panic end the process.  They are the
    \<open>Inl\<close> branch of \<open>'a res\<close>, with the constructor saying which of them it was.
  \<^item> A \<^verbatim>\<open>for _, x := range xs\<close> loop that may fail is \<open>rfold\<close>; one that cannot is \<open>foldl\<close>.
  \<^item> A Go map that is only looked up is a partial function; a map the code iterates over is
    an association list whose order stands for the order in which \<^verbatim>\<open>range\<close> happens to visit it.
  \<^item> Indexing a slice is \<open>go_index\<close>, which panics out of range.
  \<^item> \<^verbatim>\<open>big.Int.Quo\<close> truncates towards zero and panics on a zero divisor.
  \<^item> Block numbers and lengths (\<^verbatim>\<open>int64\<close>, \<^verbatim>\<open>int\<close>) are \<open>int\<close>; where the code wraps (\<^verbatim>\<open>uint16\<close>,
    \<^verbatim>\<open>uint64\<close> and \<^verbatim>\<open>int8\<close> arithmetic on inputs) the width is kept with \<open>word\<close>.
\<close>

named_theorems go_simps \<open>equations that run the Go prelude\<close>
named_theorems go_elims \<open>inversion of successful runs\<close>

section \<open>Failures\<close>

datatype fail =
    Fatal string           \<comment> \<open>\<^verbatim>\<open>log.Fatal\<close>, \<^verbatim>\<open>log.Fatalf\<close>, \<^verbatim>\<open>log.CheckFatal\<close> of a non-nil error\<close>
  | Panic string           \<comment> \<open>an explicit \<^verbatim>\<open>panic\<close>\<close>
  | IndexOutOfRange        \<comment> \<open>run-time panic of a slice access\<close>
  | NilDereference         \<comment> \<open>run-time panic of a nil pointer or nil interface\<close>
  | DivisionByZero         \<comment> \<open>run-time panic of an integer division\<close>
  | OutOfFuel              \<comment> \<open>not a Go failure: the bound of a modelled loop was too small\<close>

type_synonym 'a res = "fail + 'a"

type_synonym address = string
type_synonym txhash = string

definition rbind :: "'a res \<Rightarrow> ('a \<Rightarrow> 'b res) \<Rightarrow> 'b res" where
  "rbind m f = (case m of Inl e \<Rightarrow> Inl e | Inr x \<Rightarrow> f x)"

lemma rbind_simps [simp, go_simps]:
  "rbind (Inl e) f = Inl e"
  "rbind (Inr x) f = f x"
  by (simp_all add: rbind_def)

lemma rbind_cong [fundef_cong]:
  assumes "m = m'" and "\<And>x. m' = Inr x \<Longrightarrow> f x = f' x"
  shows "rbind m f = rbind m' f'"
  using assms by (cases m') (simp_all)

lemma rbind_eq_Inr [go_simps]:
  "rbind m f = Inr y \<longleftrightarrow> (\<exists>x. m = Inr x \<and> f x = Inr y)"
  by (cases m) auto

lemma rbind_eq_Inl:
  "rbind m f = Inl e \<longleftrightarrow> m = Inl e \<or> (\<exists>x. m = Inr x \<and> f x = Inl e)"
  by (cases m) auto

lemma rbind_InrE [go_elims, elim]:
  assumes "rbind m f = Inr y"
  obtains x where "m = Inr x" and "f x = Inr y"
  using assms by (auto simp: rbind_eq_Inr)

text \<open>A run that was evaluated to a success with a property.\<close>

lemma case_InrD: "(case r of Inl e \<Rightarrow> False | Inr x \<Rightarrow> P x) \<Longrightarrow> \<exists>x. r = Inr x \<and> P x"
  by (cases r) auto

lemma rbind_assoc: "rbind (rbind m f) g = rbind m (\<lambda>x. rbind (f x) g)"
  by (cases m) simp_all

section \<open>Loops over slices\<close>

primrec rfold :: "('a \<Rightarrow> 's \<Rightarrow> 's res) \<Rightarrow> 'a list \<Rightarrow> 's \<Rightarrow> 's res" where
  "rfold f [] s = Inr s"
| "rfold f (x # xs) s = rbind (f x s) (rfold f xs)"

lemma rfold_append: "rfold f (xs @ ys) s = rbind (rfold f xs s) (rfold f ys)"
proof (induction xs arbitrary: s)
  case (Cons x xs)
  then have "rfold f (xs @ ys) = (\<lambda>s. rbind (rfold f xs s) (rfold f ys))" by (intro ext)
  then show ?case by (simp add: rbind_assoc)
qed simp

lemma rfold_cong [fundef_cong]:
  assumes "xs = ys" and "s = t" and "\<And>x s. x \<in> set ys \<Longrightarrow> f x s = g x s"
  shows "rfold f xs s = rfold g ys t"
  using assms(3) unfolding assms(1,2)
proof (induction ys arbitrary: t)
  case (Cons y ys)
  have "rfold f ys = rfold g ys"
    using Cons by (intro ext) simp
  with Cons.prems show ?case by simp
qed simp

lemma rfold_map: "rfold f (map g xs) s = rfold (f \<circ> g) xs s"
  by (induction xs arbitrary: s) (auto simp: rbind_def split: sum.splits)

text \<open>An invariant kept by every iteration holds after the loop.\<close>

lemma rfold_invariant:
  assumes "rfold f xs s = Inr t" and "I s"
    and "\<And>x s s'. x \<in> set xs \<Longrightarrow> I s \<Longrightarrow> f x s = Inr s' \<Longrightarrow> I s'"
  shows "I t"
  using assms
proof (induction xs arbitrary: s)
  case (Cons x xs)
  from Cons.prems(1) obtain s' where s': "f x s = Inr s'" "rfold f xs s' = Inr t"
    by (auto elim: rbind_InrE)
  have "I s'" using Cons.prems(2,3) s'(1) by (meson list.set_intros(1))
  with s'(2) Cons.prems(3) show ?case by (intro Cons.IH) auto
qed simp

text \<open>A loop whose iterations cannot fail under the invariant does not fail.\<close>

lemma rfold_total:
  assumes "I s" and "\<And>x s. x \<in> set xs \<Longrightarrow> I s \<Longrightarrow> \<exists>s'. f x s = Inr s' \<and> I s'"
  shows "\<exists>t. rfold f xs s = Inr t \<and> I t"
  using assms
proof (induction xs arbitrary: s)
  case (Cons x xs)
  from Cons.prems obtain s' where "f x s = Inr s'" "I s'" by fastforce
  with Cons show ?case by fastforce
qed simp

lemma foldl_invariant:
  assumes "I s" and "\<And>x s. x \<in> set xs \<Longrightarrow> I s \<Longrightarrow> I (f s x)"
  shows "I (foldl f s xs)"
  using assms by (induction xs arbitrary: s) auto

text \<open>
  \<^verbatim>\<open>for next() { body }\<close>: the guard is a call that moves a cursor.  The loop may be fed by its
  own body, so it is run with fuel; the lemmas about it say how much is enough.
\<close>

fun for_next :: "nat \<Rightarrow> ('s \<Rightarrow> (bool \<times> 's) res) \<Rightarrow> ('s \<Rightarrow> 's res) \<Rightarrow> 's \<Rightarrow> 's res" where
  "for_next 0 next body s = Inl OutOfFuel"
| "for_next (Suc n) next body s =
     rbind (next s) (\<lambda>(more, s'). if more then rbind (body s') (for_next n next body) else Inr s')"

section \<open>Slices\<close>

definition go_index :: "'a list \<Rightarrow> int \<Rightarrow> 'a res" where
  "go_index xs i = (if 0 \<le> i \<and> i < int (length xs) then Inr (xs ! nat i) else Inl IndexOutOfRange)"

lemma go_index_Inr [simp, go_simps]:
  "0 \<le> i \<Longrightarrow> i < int (length xs) \<Longrightarrow> go_index xs i = Inr (xs ! nat i)"
  by (simp add: go_index_def)

lemma go_index_eq_Inr [go_simps]:
  "go_index xs i = Inr x \<longleftrightarrow> 0 \<le> i \<and> i < int (length xs) \<and> x = xs ! nat i"
  by (auto simp: go_index_def)

lemma go_index_nat [simp]: "n < length xs \<Longrightarrow> go_index xs (int n) = Inr (xs ! n)"
  by (simp add: go_index_def)

section \<open>Maps\<close>

text \<open>Reading a missing key of a Go map yields the zero value of the element type.\<close>

definition zget :: "'v \<Rightarrow> ('k \<rightharpoonup> 'v) \<Rightarrow> 'k \<Rightarrow> 'v" where
  "zget z m k = (case m k of None \<Rightarrow> z | Some v \<Rightarrow> v)"

lemma zget_upd [simp, go_simps]:
  "zget z (m(k \<mapsto> v)) k' = (if k' = k then v else zget z m k')"
  by (simp add: zget_def)

lemma zget_empty [simp, go_simps]: "zget z Map.empty k = z"
  by (simp add: zget_def)

lemma zget_Some [simp]: "m k = Some v \<Longrightarrow> zget z m k = v"
  by (simp add: zget_def)

lemma zget_None [simp]: "m k = None \<Longrightarrow> zget z m k = z"
  by (simp add: zget_def)

text \<open>A nil pointer dereference.\<close>

definition deref :: "'a option \<Rightarrow> 'a res" where
  "deref p = (case p of None \<Rightarrow> Inl NilDereference | Some x \<Rightarrow> Inr x)"

lemma deref_simps [simp, go_simps]:
  "deref None = Inl NilDereference"
  "deref (Some x) = Inr x"
  by (simp_all add: deref_def)

lemma deref_eq_Inr [simp]: "deref p = Inr x \<longleftrightarrow> p = Some x"
  by (cases p) auto

definition guard_fatal :: "bool \<Rightarrow> string \<Rightarrow> unit res" where
  "guard_fatal bad msg = (if bad then Inl (Fatal msg) else Inr ())"

lemma guard_fatal_Inr [simp]: "guard_fatal b m = Inr u \<longleftrightarrow> \<not> b"
  by (simp add: guard_fatal_def)

lemma guard_fatal_simps [simp, go_simps]:
  "guard_fatal True m = Inl (Fatal m)"
  "guard_fatal False m = Inr ()"
  by (simp_all add: guard_fatal_def)

section \<open>Integers\<close>

text \<open>\<^verbatim>\<open>big.Int.Quo\<close> and Go's \<^verbatim>\<open>/\<close>: truncation towards zero.\<close>

definition quo :: "int \<Rightarrow> int \<Rightarrow> int" where
  "quo a b = sgn a * sgn b * (\<bar>a\<bar> div \<bar>b\<bar>)"

definition Quo :: "int \<Rightarrow> int \<Rightarrow> int res" where
  "Quo a b = (if b = 0 then Inl DivisionByZero else Inr (quo a b))"

lemma quo_nonneg [simp]: "0 \<le> a \<Longrightarrow> 0 < b \<Longrightarrow> quo a b = a div b"
  by (cases "a = 0") (simp_all add: quo_def)

lemma Quo_pos [simp]: "0 < b \<Longrightarrow> Quo a b = Inr (quo a b)"
  by (simp add: Quo_def)

lemma quo_mono_nonneg: "0 \<le> a \<Longrightarrow> a \<le> a' \<Longrightarrow> 0 < b \<Longrightarrow> quo a b \<le> quo a' b"
  by (simp add: zdiv_mono1)

lemma quo_minus: "quo (- a) b = - quo a b"
  by (simp add: quo_def)

definition max_int64 :: int where
  "max_int64 = 2 ^ 63 - 1"

lemma max_int64_eq: "max_int64 = 9223372036854775807"
  by (simp add: max_int64_def)

section \<open>Sorted lists and search\<close>

text \<open>\<^verbatim>\<open>sort.Search n f\<close>: the least index whose predicate is true, \<open>n\<close> if there is none.\<close>

definition search_first :: "('a \<Rightarrow> bool) \<Rightarrow> 'a list \<Rightarrow> nat" where
  "search_first P xs = length (takeWhile (\<lambda>x. \<not> P x) xs)"

lemma search_first_take: "take (search_first P xs) xs = takeWhile (\<lambda>x. \<not> P x) xs"
  by (simp add: search_first_def takeWhile_eq_take[symmetric])

lemma search_first_drop: "drop (search_first P xs) xs = dropWhile (\<lambda>x. \<not> P x) xs"
  by (simp add: search_first_def dropWhile_eq_drop[symmetric])

lemma takeWhile_eq_filter_sorted:
  fixes f :: "'a \<Rightarrow> 'b::linorder"
  assumes "sorted (map f xs)"
  shows "takeWhile (\<lambda>x. f x < b) xs = filter (\<lambda>x. f x < b) xs"
  using assms
proof (induction xs)
  case (Cons x xs)
  show ?case
  proof (cases "f x < b")
    case False
    then have "\<forall>y \<in> set xs. \<not> f y < b" using Cons.prems by fastforce
    then show ?thesis using False by (simp add: filter_empty_conv)
  qed (use Cons in simp)
qed simp

lemma sorted_le_last: "sorted xs \<Longrightarrow> x \<in> set xs \<Longrightarrow> x \<le> last xs"
  by (induction xs) auto

section \<open>Iterated maps\<close>

text \<open>Reading a missing key of an iterated map: the zero value again.\<close>

definition aget :: "'v \<Rightarrow> ('k \<times> 'v) list \<Rightarrow> 'k \<Rightarrow> 'v" where
  "aget z m k = (case map_of m k of None \<Rightarrow> z | Some v \<Rightarrow> v)"

lemma aget_update [simp]: "aget z (AList.update k v m) k' = (if k' = k then v else aget z m k')"
  by (simp add: aget_def update_conv)

lemma aget_delete [simp]: "aget z (AList.delete k m) k' = (if k' = k then z else aget z m k')"
  by (simp add: aget_def delete_conv)

lemma aget_Nil [simp]: "aget z [] k = z"
  by (simp add: aget_def)

lemma aget_Cons [simp]: "aget z ((k, v) # m) k' = (if k' = k then v else aget z m k')"
  by (simp add: aget_def)

lemma map_of_update [simp]: "map_of (AList.update k v m) = (map_of m)(k \<mapsto> v)"
  by (rule update_conv')

lemma keys_update [simp]: "fst ` set (AList.update k v m) = insert k (fst ` set m)"
  by (simp add: dom_update)

lemma foldl_append_map: "foldl (\<lambda>acc x. acc @ f x) acc xs = acc @ concat (map f xs)"
  by (induction xs arbitrary: acc) auto

lemma dropWhile_dropWhile:
  assumes "\<And>x. P x \<Longrightarrow> Q x"
  shows "dropWhile Q (dropWhile P xs) = dropWhile Q xs"
  by (induction xs) (auto simp: assms)

end
