(* ===== verification/Adapter_Kit.thy ===== *)
theory Adapter_Kit
  imports Go_Prelude
begin

text \<open>
  The adapter kit: \<^verbatim>\<open>ds/level.go\<close>, \<^verbatim>\<open>ds/adapter_kit.go\<close>, \<^verbatim>\<open>ds/adapter_name.go\<close>.

  A level keeps, for each adapter type it is responsible for, the addresses of the adapters of that
  type, and a cursor with which the engine and the repository walk over all of them.  The kit is a
  list of levels with an address map.  The theory states the cursor as an interface (locale
  \<open>cursor\<close>: the elements still to be visited), proves the walk over such a cursor once, and
  interprets the interface on \<open>level_Next\<close> and \<open>level_Get\<close>.
\<close>

section \<open>Adapter names\<close>

abbreviation "AddressProvider \<equiv> ''AddressProvider''"
abbreviation "ContractRegister \<equiv> ''ContractRegister''"
abbreviation "PriceOracle \<equiv> ''PriceOracle''"
abbreviation "AccountFactory \<equiv> ''AccountFactory''"
abbreviation "ACL \<equiv> ''ACL''"
abbreviation "CreditManager \<equiv> ''CreditManager''"
abbreviation "Pool \<equiv> ''Pool''"
abbreviation "ChainlinkPriceFeed \<equiv> ''ChainlinkPriceFeed''"
abbreviation "QueryPriceFeed \<equiv> ''QueryPriceFeed''"
abbreviation "CreditFilter \<equiv> ''CreditFilter''"
abbreviation "GearToken \<equiv> ''GearToken''"
abbreviation "Treasury \<equiv> ''Treasury''"
abbreviation "AccountManager \<equiv> ''AccountManager''"
abbreviation "CreditConfigurator \<equiv> ''CreditConfigurator''"
abbreviation "PoolLMRewards \<equiv> ''PoolLMRewards''"
abbreviation "RebaseToken \<equiv> ''RebaseToken''"
abbreviation "AggregatedQueryFeedWrapper \<equiv> ''AggregatedQueryFeedWrapper''"
abbreviation "AdminWrapper \<equiv> ''AdminWrapper''"
abbreviation "CFWrapper \<equiv> ''CFWrapper''"
abbreviation "CMWrapper \<equiv> ''CMWrapper''"
abbreviation "PoolWrapper \<equiv> ''PoolWrapper''"
abbreviation "CompositeChainlinkPF \<equiv> ''CompositeChainlinkPF''"

text \<open>\<^verbatim>\<open>strings.HasSuffix\<close>\<close>

definition has_suffix :: "string \<Rightarrow> string \<Rightarrow> bool" where
  "has_suffix s suf \<longleftrightarrow> length suf \<le> length s \<and> drop (length s - length suf) s = suf"

definition IsWrapperAdapter :: "string \<Rightarrow> bool" where
  "IsWrapperAdapter name = has_suffix name ''Wrapper''"

abbreviation "FacadeMulticallCall \<equiv> ''FacadeMulticall''"
abbreviation "FacadeOpenMulticallCall \<equiv> ''FacadeOpenMulticall''"
abbreviation "FacadeLiquidateCall \<equiv> ''FacadeLiquidate''"
abbreviation "FacadeLiquidateExpiredCall \<equiv> ''FacadeLiquidateExpired''"
abbreviation "FacadeCloseAccountCall \<equiv> ''FacadeCloseAccount''"

definition FacadeAccountMethodSigToCallName :: "string \<Rightarrow> string res" where
  "FacadeAccountMethodSigToCallName funcSig =
    (if funcSig = ''openCreditAccountMulticall'' then Inr FacadeOpenMulticallCall
     else if funcSig = ''liquidateCreditAccount'' then Inr FacadeLiquidateCall
     else if funcSig = ''liquidateExpiredCreditAccount'' then Inr FacadeLiquidateExpiredCall
     else if funcSig = ''closeCreditAccount'' then Inr FacadeCloseAccountCall
     else if funcSig = ''multicall'' then Inr FacadeMulticallCall
     else Inl (Fatal ''''))"

section \<open>Level\<close>

record level =
  lvl_order :: "string list"
  lvl_adapters :: "string \<Rightarrow> address list"   \<comment> \<open>a missing name reads as the nil slice\<close>
  adapterTypeIndex :: int
  lvl_index :: int
  lvl_len :: int

definition NewLevel :: "string list \<Rightarrow> level" where
  "NewLevel lvl =
    \<lparr>lvl_order = lvl, lvl_adapters = (\<lambda>_. []), adapterTypeIndex = 0, lvl_index = -1, lvl_len = 0\<rparr>"

definition level_Add :: "string \<Rightarrow> address \<Rightarrow> level \<Rightarrow> level" where
  "level_Add name addr lvl =
    lvl\<lparr>lvl_adapters := (lvl_adapters lvl)(name := lvl_adapters lvl name @ [addr]),
        lvl_len := lvl_len lvl + 1\<rparr>"

text \<open>The inner loop of \<^verbatim>\<open>Next\<close>: skip the adapter types whose addresses are exhausted.\<close>

function level_skip :: "string \<Rightarrow> level \<Rightarrow> level res" where
  "level_skip name lvl =
    (if adapterTypeIndex lvl < int (length (lvl_order lvl)) \<and>
        int (length (lvl_adapters lvl name)) = lvl_index lvl
     then let lvl1 = lvl\<lparr>adapterTypeIndex := adapterTypeIndex lvl + 1\<rparr> in
       if adapterTypeIndex lvl1 < int (length (lvl_order lvl1))
       then rbind (go_index (lvl_order lvl1) (adapterTypeIndex lvl1))
              (\<lambda>name'. level_skip name' (lvl1\<lparr>lvl_index := 0\<rparr>))
       else level_skip name lvl1
     else Inr lvl)"
  by pat_completeness auto
termination
  by (relation "measure (\<lambda>(_, lvl). nat (int (length (lvl_order lvl)) - adapterTypeIndex lvl))") auto

declare level_skip.simps [simp del]

definition level_Next :: "level \<Rightarrow> (bool \<times> level) res" where
  "level_Next lvl =
    (if int (length (lvl_order lvl)) = adapterTypeIndex lvl then Inr (False, lvl)
     else rbind (go_index (lvl_order lvl) (adapterTypeIndex lvl)) (\<lambda>name.
       let lvl1 = lvl\<lparr>lvl_index := lvl_index lvl + 1\<rparr> in
       if lvl_index lvl1 < int (length (lvl_adapters lvl1 name)) then Inr (True, lvl1)
       else rbind (level_skip name lvl1) (\<lambda>lvl2.
         if int (length (lvl_order lvl2)) = adapterTypeIndex lvl2 then Inr (False, lvl2)
         else Inr (True, lvl2))))"

definition level_Get :: "level \<Rightarrow> address res" where
  "level_Get lvl =
    rbind (go_index (lvl_order lvl) (adapterTypeIndex lvl))
      (\<lambda>name. go_index (lvl_adapters lvl name) (lvl_index lvl))"

definition level_Reset :: "level \<Rightarrow> level" where
  "level_Reset lvl = lvl\<lparr>adapterTypeIndex := 0, lvl_index := -1\<rparr>"

definition level_Len :: "level \<Rightarrow> int" where
  "level_Len lvl = lvl_len lvl"

text \<open>\<^verbatim>\<open>First\<close> resets the cursor on every way out (\<^verbatim>\<open>defer lvl.Reset()\<close>).\<close>

definition level_First :: "level \<Rightarrow> (address \<times> level) res" where
  "level_First lvl =
    rbind (level_Next lvl) (\<lambda>(more, lvl1).
      if more then rbind (level_Get lvl1) (\<lambda>v. Inr (v, level_Reset lvl1))
      else Inr ('''', level_Reset lvl1))"

definition level_GetAddressByName :: "level \<Rightarrow> string \<Rightarrow> address list" where
  "level_GetAddressByName lvl name = lvl_adapters lvl name"

section \<open>The kit\<close>

record 'a adapter_kit =
  addressMap :: "address \<rightharpoonup> 'a"
  kit_levels :: "level list"
  adapterNameToLevel :: "string \<rightharpoonup> int"
  kit_len :: int

definition kit_AddLevel :: "string list \<Rightarrow> 'a adapter_kit \<Rightarrow> 'a adapter_kit" where
  "kit_AddLevel lvl kit =
    (let lvlIndex = int (length (kit_levels kit)) in
     kit\<lparr>kit_levels := kit_levels kit @ [NewLevel lvl],
         adapterNameToLevel := foldl (\<lambda>m adapterName. m(adapterName \<mapsto> lvlIndex)) (adapterNameToLevel kit) lvl,
         kit_len := kit_len kit + 1\<rparr>)"

text \<open>\<^verbatim>\<open>(kit *AdapterKit) init\<close>\<close>

definition kit_init :: "'a adapter_kit \<Rightarrow> 'a adapter_kit" where
  "kit_init kit0 =
    (let kit1 = kit_AddLevel [AddressProvider] kit0;
         kit2 = kit_AddLevel [PriceOracle, AdminWrapper, RebaseToken] kit1;
         kit3 = kit_AddLevel [PoolWrapper, AccountManager, ChainlinkPriceFeed, CompositeChainlinkPF] kit2;
         kit4 = kit_AddLevel [CMWrapper, AggregatedQueryFeedWrapper, PoolLMRewards] kit3;
         kit5 = kit_AddLevel [CFWrapper, CreditConfigurator, Treasury] kit4
     in kit5)"

definition NewAdapterKit :: "'a adapter_kit" where
  "NewAdapterKit =
    kit_init \<lparr>addressMap = Map.empty, kit_levels = [], adapterNameToLevel = Map.empty, kit_len = 0\<rparr>"

text \<open>
  \<^verbatim>\<open>Add\<close>: the adapter is an object with a name and an address.  The level of an unknown name is the
  zero value of the map, level 0.
\<close>

definition kit_Add :: "string \<Rightarrow> address \<Rightarrow> 'a \<Rightarrow> 'a adapter_kit \<Rightarrow> 'a adapter_kit res" where
  "kit_Add adapterName adapterAddress adapter kit =
    (let lvlIndex = zget 0 (adapterNameToLevel kit) adapterName in
     rbind (go_index (kit_levels kit) lvlIndex) (\<lambda>lvl.
       Inr (kit\<lparr>addressMap := (addressMap kit)(adapterAddress \<mapsto> adapter),
                kit_levels := (kit_levels kit)[nat lvlIndex := level_Add adapterName adapterAddress lvl]\<rparr>)))"

definition kit_Get :: "int \<Rightarrow> 'a adapter_kit \<Rightarrow> 'a option res" where
  "kit_Get lvl kit =
    rbind (go_index (kit_levels kit) lvl) (\<lambda>l.
      rbind (level_Get l) (\<lambda>adapterAddr. Inr (addressMap kit adapterAddr)))"

definition kit_Next :: "int \<Rightarrow> 'a adapter_kit \<Rightarrow> (bool \<times> 'a adapter_kit) res" where
  "kit_Next lvl kit =
    rbind (go_index (kit_levels kit) lvl) (\<lambda>l.
      rbind (level_Next l) (\<lambda>(more, l').
        Inr (more, kit\<lparr>kit_levels := (kit_levels kit)[nat lvl := l']\<rparr>)))"

definition kit_Reset :: "int \<Rightarrow> 'a adapter_kit \<Rightarrow> 'a adapter_kit res" where
  "kit_Reset lvl kit =
    rbind (go_index (kit_levels kit) lvl) (\<lambda>l.
      Inr (kit\<lparr>kit_levels := (kit_levels kit)[nat lvl := level_Reset l]\<rparr>))"

definition kit_LenOfLevel :: "int \<Rightarrow> 'a adapter_kit \<Rightarrow> int res" where
  "kit_LenOfLevel lvl kit = rbind (go_index (kit_levels kit) lvl) (\<lambda>l. Inr (level_Len l))"

definition kit_First :: "int \<Rightarrow> 'a adapter_kit \<Rightarrow> ('a option \<times> 'a adapter_kit) res" where
  "kit_First lvl kit =
    rbind (go_index (kit_levels kit) lvl) (\<lambda>l.
      rbind (level_First l) (\<lambda>(adapterAddr, l').
        Inr (addressMap kit adapterAddr, kit\<lparr>kit_levels := (kit_levels kit)[nat lvl := l']\<rparr>)))"

definition kit_GetAdapter :: "address \<Rightarrow> 'a adapter_kit \<Rightarrow> 'a option" where
  "kit_GetAdapter addr kit = addressMap kit addr"

definition kit_GetAdapterAddressByName :: "string \<Rightarrow> 'a adapter_kit \<Rightarrow> address list res" where
  "kit_GetAdapterAddressByName name kit =
    (let lvlIndex = zget 0 (adapterNameToLevel kit) name in
     rbind (go_index (kit_levels kit) lvlIndex) (\<lambda>l. Inr (level_GetAddressByName l name)))"

section \<open>The cursor interface\<close>

text \<open>
  What a client of a cursor relies on: a well-formed cursor has a list of elements still to visit,
  \<open>next\<close> says whether there is one and moves to it, and \<open>get\<close> reads it.
\<close>

locale cursor =
  fixes "next" :: "'s \<Rightarrow> (bool \<times> 's) res"
    and get :: "'s \<Rightarrow> 'a res"
    and reset :: "'s \<Rightarrow> 's"
    and rest :: "'s \<Rightarrow> 'a list"
    and elems :: "'s \<Rightarrow> 'a list"
    and wf :: "'s \<Rightarrow> bool"
  assumes next_Nil: "wf s \<Longrightarrow> rest s = [] \<Longrightarrow>
      \<exists>s'. next s = Inr (False, s') \<and> wf s' \<and> elems s' = elems s \<and> reset s' = reset s"
    and next_Cons: "wf s \<Longrightarrow> rest s = x # xs \<Longrightarrow>
      \<exists>s'. next s = Inr (True, s') \<and> wf s' \<and> rest s' = xs \<and> get s' = Inr x \<and>
        elems s' = elems s \<and> reset s' = reset s"
    and wf_reset: "wf s \<Longrightarrow> wf (reset s)"
    and rest_reset: "wf s \<Longrightarrow> rest (reset s) = elems s"
    and elems_reset: "wf s \<Longrightarrow> elems (reset s) = elems s"
begin

text \<open>
  The walk \<^verbatim>\<open>for c.Next() { acc = append(acc, c.Get()) }\<close> returns exactly the elements still to visit,
  in order, and one step more than their number is enough fuel.
\<close>

lemma walk_rest:
  assumes "wf s" and "length (rest s) < n"
  shows "\<exists>s'. for_next n (\<lambda>(acc, s). rbind (next s) (\<lambda>(m, s'). Inr (m, (acc, s'))))
              (\<lambda>(acc, s). rbind (get s) (\<lambda>x. Inr (acc @ [x], s))) (acc, s)
            = Inr (acc @ rest s, s') \<and> wf s' \<and> elems s' = elems s \<and> reset s' = reset s"
  using assms
proof (induction n arbitrary: acc s)
  case (Suc n)
  show ?case
  proof (cases "rest s")
    case Nil
    with next_Nil[OF Suc.prems(1)] show ?thesis by auto
  next
    case (Cons x xs)
    then obtain s' where s': "next s = Inr (True, s')" "wf s'" "rest s' = xs" "get s' = Inr x"
      "elems s' = elems s" "reset s' = reset s"
      using next_Cons[OF Suc.prems(1)] by blast
    with Suc.IH[of s' "acc @ [x]"] Suc.prems(2) Cons show ?thesis by auto
  qed
qed simp

text \<open>After a reset every element is visited, whatever was visited before.\<close>

lemma walk_after_reset:
  assumes "wf s" and "length (elems s) < n"
  shows "\<exists>s'. for_next n (\<lambda>(acc, s). rbind (next s) (\<lambda>(m, s'). Inr (m, (acc, s'))))
              (\<lambda>(acc, s). rbind (get s) (\<lambda>x. Inr (acc @ [x], s))) ([], reset s)
            = Inr (elems s, s') \<and> wf s' \<and> elems s' = elems s"
  using walk_rest[OF wf_reset[OF assms(1)], of n "[]"] assms
  by (auto simp: rest_reset elems_reset)

end

section \<open>The level implements the cursor\<close>

text \<open>All the addresses of a level in the order of its types.\<close>

definition level_elems :: "level \<Rightarrow> address list" where
  "level_elems lvl = concat (map (lvl_adapters lvl) (lvl_order lvl))"

text \<open>The addresses the cursor has not visited yet.\<close>

definition level_rest :: "level \<Rightarrow> address list" where
  "level_rest lvl =
    (let i = nat (adapterTypeIndex lvl) in
     if i < length (lvl_order lvl)
     then drop (nat (lvl_index lvl + 1)) (lvl_adapters lvl (lvl_order lvl ! i)) @
          concat (map (lvl_adapters lvl) (drop (Suc i) (lvl_order lvl)))
     else [])"

definition level_wf :: "level \<Rightarrow> bool" where
  "level_wf lvl \<longleftrightarrow>
    0 \<le> adapterTypeIndex lvl \<and> adapterTypeIndex lvl \<le> int (length (lvl_order lvl)) \<and>
    (adapterTypeIndex lvl < int (length (lvl_order lvl)) \<longrightarrow>
       -1 \<le> lvl_index lvl \<and>
       lvl_index lvl < int (length (lvl_adapters lvl (lvl_order lvl ! nat (adapterTypeIndex lvl)))))"

text \<open>
  What the skipping loop does: from a type whose addresses are used up it lands on the first later
  type that has an address, or at the end.
\<close>

definition level_lands :: "level \<Rightarrow> nat \<Rightarrow> int \<Rightarrow> int \<Rightarrow> bool" where
  "level_lands lvl n i j \<longleftrightarrow>
    (let tail = concat (map (lvl_adapters lvl) (drop (Suc n) (lvl_order lvl))) in
       tail = [] \<and> i = int (length (lvl_order lvl)) \<or>
       0 \<le> i \<and> i < int (length (lvl_order lvl)) \<and> j = 0 \<and> lvl_adapters lvl (lvl_order lvl ! nat i) \<noteq> [] \<and>
       tail = lvl_adapters lvl (lvl_order lvl ! nat i) @
                concat (map (lvl_adapters lvl) (drop (Suc (nat i)) (lvl_order lvl))))"

lemma level_skip_lands:
  assumes "n < length (lvl_order lvl)"
  shows "\<exists>i j. level_skip (lvl_order lvl ! n)
      (lvl\<lparr>adapterTypeIndex := int n, lvl_index := int (length (lvl_adapters lvl (lvl_order lvl ! n)))\<rparr>)
    = Inr (lvl\<lparr>adapterTypeIndex := i, lvl_index := j\<rparr>) \<and> level_lands lvl n i j"
  using assms
proof (induction "length (lvl_order lvl) - n" arbitrary: n)
  case (Suc k)
  let ?o = "lvl_order lvl" and ?a = "lvl_adapters lvl"
  let ?at = "\<lambda>i j. lvl\<lparr>adapterTypeIndex := i, lvl_index := j\<rparr>"
  show ?case
  proof (cases "Suc n < length ?o")
    case False
    then have n: "int n + 1 = int (length ?o)" "drop (Suc n) ?o = []" using Suc.prems by auto
    have sk: "level_skip m (lvl\<lparr>lvl_index := j, adapterTypeIndex := int (length ?o)\<rparr>) =
        Inr (?at (int (length ?o)) j)" for m j
      by (subst level_skip.simps) simp
    have "level_skip (?o ! n) (?at (int n) (int (length (?a (?o ! n))))) =
        Inr (?at (int (length ?o)) (int (length (?a (?o ! n)))))"
      using n by (subst level_skip.simps) (simp add: Let_def sk)
    moreover have "level_lands lvl n (int (length ?o)) (int (length (?a (?o ! n))))"
      using n by (simp add: level_lands_def)
    ultimately show ?thesis by blast
  next
    case True
    let ?m = "?o ! Suc n"
    have step: "level_skip (?o ! n) (?at (int n) (int (length (?a (?o ! n))))) =
        level_skip ?m (?at (int (Suc n)) 0)"
      using True by (subst level_skip.simps) (simp add: Let_def nat_add_distrib add.commute)
    have drop: "drop (Suc n) ?o = ?m # drop (Suc (Suc n)) ?o"
      using True by (simp add: Cons_nth_drop_Suc)
    show ?thesis
    proof (cases "?a ?m = []")
      case False
      have "level_skip ?m (?at (int (Suc n)) 0) = Inr (?at (int (Suc n)) 0)"
        using False by (subst level_skip.simps) simp
      moreover have "level_lands lvl n (int (Suc n)) 0"
        using False True drop by (simp add: level_lands_def del: of_nat_Suc)
      ultimately show ?thesis using step by auto
    next
      case empty: True
      have "k = length ?o - Suc n" using Suc.hyps(2) by simp
      from Suc.hyps(1)[OF this True] obtain i j where
        "level_skip ?m (?at (int (Suc n)) (int (length (?a ?m)))) = Inr (?at i j)" "level_lands lvl (Suc n) i j"
        by blast
      moreover have "level_lands lvl (Suc n) i j \<Longrightarrow> level_lands lvl n i j"
        using drop empty by (simp add: level_lands_def)
      ultimately show ?thesis using step empty by auto
    qed
  qed
qed simp

text \<open>The outcome of \<open>level_Next\<close>, by what is left to visit.\<close>

lemma level_Next_spec:
  assumes "level_wf lvl"
  shows "\<exists>i j. level_Next lvl = Inr (level_rest lvl \<noteq> [], lvl\<lparr>adapterTypeIndex := i, lvl_index := j\<rparr>) \<and>
    level_wf (lvl\<lparr>adapterTypeIndex := i, lvl_index := j\<rparr>) \<and>
    (\<forall>x xs. level_rest lvl = x # xs \<longrightarrow>
       level_rest (lvl\<lparr>adapterTypeIndex := i, lvl_index := j\<rparr>) = xs \<and>
       level_Get (lvl\<lparr>adapterTypeIndex := i, lvl_index := j\<rparr>) = Inr x)"
proof -
  let ?i = "adapterTypeIndex lvl" and ?j = "lvl_index lvl" and ?o = "lvl_order lvl" and ?a = "lvl_adapters lvl"
  show ?thesis
  proof (cases "?i = int (length ?o)")
    case True
    then show ?thesis using assms
      by (intro exI[of _ ?i] exI[of _ ?j]) (simp add: level_Next_def level_rest_def level_wf_def)
  next
    case False
    let ?n = "?o ! nat ?i" and ?lvl1 = "lvl\<lparr>lvl_index := ?j + 1\<rparr>"
    from False assms have wf: "0 \<le> ?i" "?i < int (length ?o)" "-1 \<le> ?j" "?j < int (length (?a ?n))"
      by (auto simp: level_wf_def)
    have ni: "nat ?i < length ?o" using wf by (simp add: nat_less_iff)
    show ?thesis
    proof (cases "?j + 1 < int (length (?a ?n))")
      case True
      have d: "drop (nat (?j + 1)) (?a ?n) = ?a ?n ! nat (?j + 1) # drop (nat (?j + 1 + 1)) (?a ?n)"
        using Cons_nth_drop_Suc[of "nat (?j + 1)" "?a ?n"] True wf(3)
        by (simp add: nat_less_iff Suc_nat_eq_nat_zadd1 add.commute)
      then show ?thesis using False True wf ni
        by (intro exI[of _ ?i] exI[of _ "?j + 1"])
          (simp add: level_Next_def level_rest_def level_wf_def level_Get_def Let_def nat_less_iff)
    next
      case last: False
      then have len: "int (length (?a ?n)) = ?j + 1" using wf by simp
      have "?lvl1 = lvl\<lparr>adapterTypeIndex := int (nat ?i), lvl_index := int (length (?a ?n))\<rparr>"
        using wf(1) len by simp
      with level_skip_lands[OF ni] obtain i j where
        sk: "level_skip ?n ?lvl1 = Inr (lvl\<lparr>adapterTypeIndex := i, lvl_index := j\<rparr>)"
        and land: "level_lands lvl (nat ?i) i j"
        by auto
      have rest: "level_rest lvl = concat (map ?a (drop (Suc (nat ?i)) ?o))"
        using ni len by (simp add: level_rest_def)
      have nxt: "level_Next lvl = Inr (i \<noteq> int (length ?o), lvl\<lparr>adapterTypeIndex := i, lvl_index := j\<rparr>)"
        using False last wf(1,2) sk by (simp add: level_Next_def Let_def)
      from land rest consider
        (fin) "level_rest lvl = []" "i = int (length ?o)"
        | (more) "0 \<le> i" "i < int (length ?o)" "j = 0" "?a (?o ! nat i) \<noteq> []"
            "level_rest lvl = ?a (?o ! nat i) @ concat (map ?a (drop (Suc (nat i)) ?o))"
        by (auto simp: Let_def level_lands_def)
      then show ?thesis
      proof cases
        case fin
        then show ?thesis using nxt by (intro exI[of _ i] exI[of _ j]) (simp add: level_wf_def)
      next
        case more
        then obtain y ys where y: "?a (?o ! nat i) = y # ys" by (cases "?a (?o ! nat i)") auto
        with more nxt show ?thesis
          by (intro exI[of _ i] exI[of _ j])
            (simp add: level_wf_def level_rest_def level_Get_def nat_less_iff)
      qed
    qed
  qed
qed

interpretation lc: cursor level_Next level_Get level_Reset level_rest level_elems level_wf
proof (unfold_locales, goal_cases)
  case (1 s)
  then show ?case using level_Next_spec[of s] by (auto simp: level_elems_def level_Reset_def)
next
  case (2 s x xs)
  then show ?case using level_Next_spec[of s] by (auto simp: level_elems_def level_Reset_def)
next
  case (3 s)
  then show ?case by (auto simp: level_wf_def level_Reset_def)
next
  case (4 s)
  then show ?case
    by (cases "lvl_order s") (auto simp: level_rest_def level_elems_def level_Reset_def)
next
  case (5 s)
  then show ?case by (simp add: level_elems_def level_Reset_def)
qed

section \<open>Reachable levels\<close>

text \<open>The states a level goes through: built by \<open>NewLevel\<close>, then any sequence of its operations.\<close>

inductive level_reach :: "level \<Rightarrow> bool" where
  new: "level_reach (NewLevel lvl)"
| add: "level_reach lvl \<Longrightarrow> level_reach (level_Add name addr lvl)"
| nxt: "level_reach lvl \<Longrightarrow> level_Next lvl = Inr (b, lvl') \<Longrightarrow> level_reach lvl'"
| reset: "level_reach lvl \<Longrightarrow> level_reach (level_Reset lvl)"
| first: "level_reach lvl \<Longrightarrow> level_First lvl = Inr (v, lvl') \<Longrightarrow> level_reach lvl'"

lemma level_wf_NewLevel [simp]: "level_wf (NewLevel lvl)"
  by (simp add: level_wf_def NewLevel_def)

lemma level_wf_Add: "level_wf lvl \<Longrightarrow> level_wf (level_Add name addr lvl)"
  by (auto simp: level_wf_def level_Add_def)

lemma level_wf_Next: "level_wf lvl \<Longrightarrow> level_Next lvl = Inr (b, lvl') \<Longrightarrow> level_wf lvl'"
  using level_Next_spec[of lvl] by auto

lemma level_First_reset:
  assumes "level_wf lvl" and "level_First lvl = Inr (v, lvl')"
  shows "lvl' = level_Reset lvl"
  using assms level_Next_spec[of lvl]
  by (auto simp: level_First_def level_Reset_def go_simps split: if_splits)

lemma level_reach_wf: "level_reach lvl \<Longrightarrow> level_wf lvl"
  by (induction rule: level_reach.induct)
    (auto intro: level_wf_Add level_wf_Next lc.wf_reset dest!: level_First_reset[rotated])

text \<open>The cursor moves do not touch the addresses of a level.\<close>

lemma level_Next_adapters:
  "level_wf lvl \<Longrightarrow> level_Next lvl = Inr (b, lvl') \<Longrightarrow>
     lvl_adapters lvl' = lvl_adapters lvl \<and> lvl_order lvl' = lvl_order lvl"
  using level_Next_spec[of lvl] by auto

text \<open>
  C29: whatever was done with a level before (adapters added in the middle of a walk included), a
  walk that starts with \<open>level_Reset\<close> neither panics nor runs on: it visits exactly the addresses
  added under the adapter types of the level, type by type in the order of the level and within
  a type in the order in which they were added.
\<close>

theorem level_walk_visits_all:
  assumes "level_reach lvl" and "length (level_elems lvl) < n"
  shows "\<exists>lvl'. for_next n (\<lambda>(acc, l). rbind (level_Next l) (\<lambda>(m, l'). Inr (m, (acc, l'))))
                (\<lambda>(acc, l). rbind (level_Get l) (\<lambda>x. Inr (acc @ [x], l))) ([], level_Reset lvl)
              = Inr (concat (map (level_GetAddressByName lvl) (lvl_order lvl)), lvl')"
  using lc.walk_after_reset[OF level_reach_wf[OF assms(1)] assms(2)]
  by (auto simp: level_elems_def level_GetAddressByName_def[abs_def])

theorem level_walk_visits_all_witness:
  "\<exists>lvl'. for_next 4 (\<lambda>(acc, l). rbind (level_Next l) (\<lambda>(m, l'). Inr (m, (acc, l'))))
      (\<lambda>(acc, l). rbind (level_Get l) (\<lambda>x. Inr (acc @ [x], l)))
      ([], level_Reset (level_Add ''A'' ''a2'' (level_Add ''C'' ''c1'' (level_Add ''A'' ''a1''
          (NewLevel [''A'', ''B'', ''C''])))))
    = Inr ([''a1'', ''a2'', ''c1''], lvl')"
proof -
  let ?l = "level_Add ''A'' ''a2'' (level_Add ''C'' ''c1'' (level_Add ''A'' ''a1'' (NewLevel [''A'', ''B'', ''C''])))"
  have "level_reach ?l" by (intro level_reach.intros)
  from level_walk_visits_all[OF this, of 4] show ?thesis
    by (simp add: level_elems_def level_GetAddressByName_def level_Add_def NewLevel_def)
qed

section \<open>Reachable kits\<close>

text \<open>An adapter is inserted under its own name and address; the cursors move freely.\<close>

inductive kit_reach :: "'a adapter_kit \<Rightarrow> bool" where
  new: "kit_reach NewAdapterKit"
| add: "kit_reach kit \<Longrightarrow> kit_Add name addr a kit = Inr kit' \<Longrightarrow> kit_reach kit'"
| nxt: "kit_reach kit \<Longrightarrow> kit_Next lvl kit = Inr (b, kit') \<Longrightarrow> kit_reach kit'"
| reset: "kit_reach kit \<Longrightarrow> kit_Reset lvl kit = Inr kit' \<Longrightarrow> kit_reach kit'"
| first: "kit_reach kit \<Longrightarrow> kit_First lvl kit = Inr (v, kit') \<Longrightarrow> kit_reach kit'"

text \<open>
  The invariant of the kit: five levels, each with a cursor in range, every name routed to one of
  them, and every address of a level known to the address map.
\<close>

definition level_known :: "(address \<rightharpoonup> 'a) \<Rightarrow> level \<Rightarrow> bool" where
  "level_known m l \<longleftrightarrow> level_wf l \<and> (\<forall>name. set (lvl_adapters l name) \<subseteq> dom m)"

definition kit_wf :: "'a adapter_kit \<Rightarrow> bool" where
  "kit_wf kit \<longleftrightarrow>
    length (kit_levels kit) = 5 \<and> kit_len kit = 5 \<and>
    adapterNameToLevel kit = adapterNameToLevel (NewAdapterKit :: 'a adapter_kit) \<and>
    map lvl_order (kit_levels kit) = map lvl_order (kit_levels (NewAdapterKit :: 'a adapter_kit)) \<and>
    (\<forall>l \<in> set (kit_levels kit). level_known (addressMap kit) l)"

lemmas kit_op_defs = kit_Add_def kit_Next_def kit_Reset_def kit_First_def kit_Get_def

lemma kit_AddLevel_fields [simp]:
  "kit_levels (kit_AddLevel lvl kit) = kit_levels kit @ [NewLevel lvl]"
  "kit_len (kit_AddLevel lvl kit) = kit_len kit + 1"
  "addressMap (kit_AddLevel lvl kit) = addressMap kit"
  by (simp_all add: kit_AddLevel_def Let_def)

lemma kit_wf_NewAdapterKit: "kit_wf NewAdapterKit"
  by (simp add: kit_wf_def NewAdapterKit_def kit_init_def Let_def) (simp add: level_known_def, simp add: NewLevel_def)

lemma level_Reset_order: "lvl_order (level_Reset l) = lvl_order l"
  by (simp add: level_Reset_def)

lemma level_known_mono: "level_known m l \<Longrightarrow> dom m \<subseteq> dom m' \<Longrightarrow> level_known m' l"
  unfolding level_known_def by blast

lemma level_known_Add: "level_known m l \<Longrightarrow> level_known (m(addr \<mapsto> a)) (level_Add name addr l)"
  using level_wf_Add[of l name addr] by (auto simp: level_known_def level_Add_def)

lemma level_known_Next: "level_known m l \<Longrightarrow> level_Next l = Inr (b, l') \<Longrightarrow> level_known m l'"
  using level_wf_Next[of l b l'] level_Next_adapters[of l b l'] by (simp add: level_known_def)

lemma level_known_Reset: "level_known m l \<Longrightarrow> level_known m (level_Reset l)"
  using lc.wf_reset[of l] by (simp add: level_known_def level_Reset_def)

text \<open>Replacing one level by one with the same adapter types keeps the invariant.\<close>

lemma kit_wf_upd:
  assumes "kit_wf kit" and "dom (addressMap kit) \<subseteq> dom m" and "level_known m l'"
    and "lvl_order l' = lvl_order (kit_levels kit ! nat i)" and "0 \<le> i" and "i < int (length (kit_levels kit))"
  shows "kit_wf (kit\<lparr>addressMap := m, kit_levels := (kit_levels kit)[nat i := l']\<rparr>)"
proof -
  have "map lvl_order ((kit_levels kit)[nat i := l']) = map lvl_order (kit_levels kit)"
    unfolding map_update assms(4) using assms(5,6)
    by (metis list_update_id nat_less_iff nth_map)
  moreover have "\<forall>l \<in> set ((kit_levels kit)[nat i := l']). level_known m l"
    using assms(1-3) set_update_subset_insert[of "kit_levels kit" "nat i" l']
    by (auto simp: kit_wf_def intro: level_known_mono)
  ultimately show ?thesis using assms(1) by (simp add: kit_wf_def)
qed

lemma kit_wf_cursor:
  assumes "kit_wf kit" and "0 \<le> i" and "i < int (length (kit_levels kit))"
    and "level_known (addressMap kit) (kit_levels kit ! nat i) \<Longrightarrow>
           level_known (addressMap kit) l' \<and> lvl_order l' = lvl_order (kit_levels kit ! nat i)"
  shows "kit_wf (kit\<lparr>kit_levels := (kit_levels kit)[nat i := l']\<rparr>)"
proof -
  have "level_known (addressMap kit) (kit_levels kit ! nat i)"
    using assms(1-3) by (auto simp: kit_wf_def nat_less_iff)
  then have "kit_wf (kit\<lparr>addressMap := addressMap kit, kit_levels := (kit_levels kit)[nat i := l']\<rparr>)"
    using assms by (intro kit_wf_upd) auto
  then show ?thesis by simp
qed

lemma level_known_wfD [dest]: "level_known m l \<Longrightarrow> level_wf l"
  by (simp add: level_known_def)

lemma kit_reach_wf: "kit_reach kit \<Longrightarrow> kit_wf kit"
proof (induction rule: kit_reach.induct)
  case new
  then show ?case by (rule kit_wf_NewAdapterKit)
next
  case (add kit name addr a kit')
  let ?i = "zget 0 (adapterNameToLevel kit) name"
  from add.hyps obtain l where l: "0 \<le> ?i" "?i < int (length (kit_levels kit))" "l = kit_levels kit ! nat ?i"
    "kit' = kit\<lparr>addressMap := (addressMap kit)(addr \<mapsto> a),
                kit_levels := (kit_levels kit)[nat ?i := level_Add name addr l]\<rparr>"
    by (auto simp: kit_Add_def Let_def go_simps)
  then have "level_known (addressMap kit) l"
    using add.IH by (auto simp: kit_wf_def nat_less_iff)
  then have "level_known ((addressMap kit)(addr \<mapsto> a)) (level_Add name addr l)"
    by (rule level_known_Add)
  moreover have "lvl_order (level_Add name addr l) = lvl_order (kit_levels kit ! nat ?i)"
    using l(3) by (simp add: level_Add_def)
  ultimately show ?case
    unfolding l(4) using l(1,2) add.IH by (intro kit_wf_upd) auto
next
  case (nxt kit lvl b kit')
  then obtain l' where "level_Next (kit_levels kit ! nat lvl) = Inr (b, l')"
    "kit' = kit\<lparr>kit_levels := (kit_levels kit)[nat lvl := l']\<rparr>" "0 \<le> lvl" "lvl < int (length (kit_levels kit))"
    by (auto simp: kit_Next_def go_simps)
  then show ?case
    using nxt.IH level_known_Next level_Next_adapters level_known_wfD by (metis kit_wf_cursor)
next
  case (reset kit lvl kit')
  then have "kit' = kit\<lparr>kit_levels := (kit_levels kit)[nat lvl := level_Reset (kit_levels kit ! nat lvl)]\<rparr>"
    "0 \<le> lvl" "lvl < int (length (kit_levels kit))"
    by (auto simp: kit_Reset_def go_simps)
  then show ?case
    using reset.IH level_known_Reset by (auto intro!: kit_wf_cursor) (simp add: level_Reset_def)
next
  case (first kit lvl v kit')
  then obtain a l' where "level_First (kit_levels kit ! nat lvl) = Inr (a, l')"
    "kit' = kit\<lparr>kit_levels := (kit_levels kit)[nat lvl := l']\<rparr>" "0 \<le> lvl" "lvl < int (length (kit_levels kit))"
    by (auto simp: kit_First_def go_simps)
  then show ?case
    using first.IH level_First_reset level_known_Reset level_known_wfD level_Reset_order
    by (metis kit_wf_cursor)
qed

text \<open>
  The engine's protocol with the kit is safe.  For every level of a reachable kit, \<open>kit_Next\<close>
  does not panic, and whenever it answers true, \<open>kit_Get\<close> returns an adapter: neither an index out
  of range nor the nil interface.
\<close>

theorem kit_walk_safe:
  assumes "kit_reach kit" and "0 \<le> lvl" and "lvl < kit_len kit"
  shows "\<exists>b kit'. kit_Next lvl kit = Inr (b, kit') \<and> (b \<longrightarrow> (\<exists>a. kit_Get lvl kit' = Inr (Some a)))"
proof -
  let ?l = "kit_levels kit ! nat lvl"
  from kit_reach_wf[OF assms(1)] assms(2,3) have i: "lvl < int (length (kit_levels kit))"
    and k: "level_known (addressMap kit) ?l"
    by (auto simp: kit_wf_def nat_less_iff)
  from k obtain b l' where n: "level_Next ?l = Inr (b, l')" "b \<Longrightarrow> \<exists>x. level_Get l' = Inr x"
    using level_Next_spec[of ?l] by (metis level_known_wfD list.exhaust)
  with i assms(2) have "kit_Next lvl kit = Inr (b, kit\<lparr>kit_levels := (kit_levels kit)[nat lvl := l']\<rparr>)"
    by (simp add: kit_Next_def)
  moreover have "\<exists>a. kit_Get lvl (kit\<lparr>kit_levels := (kit_levels kit)[nat lvl := l']\<rparr>) = Inr (Some a)" if "b"
  proof -
    from n(2)[OF that] obtain x where x: "level_Get l' = Inr x" by blast
    have "level_known (addressMap kit) l'" by (rule level_known_Next[OF k n(1)])
    moreover have "\<exists>name. x \<in> set (lvl_adapters l' name)"
      using x by (auto simp: level_Get_def go_simps nat_less_iff intro!: exI nth_mem)
    ultimately have "x \<in> dom (addressMap kit)" unfolding level_known_def by blast
    then show ?thesis using i assms(2) x by (auto simp: kit_Get_def nat_less_iff)
  qed
  ultimately show ?thesis by blast
qed

theorem kit_walk_safe_witness:
  "\<exists>b kit'. kit_Next 2 (NewAdapterKit :: nat adapter_kit) = Inr (b, kit') \<and>
     (b \<longrightarrow> (\<exists>a. kit_Get 2 kit' = Inr (Some a)))"
  using kit_wf_NewAdapterKit[where 'a = nat]
  by (intro kit_walk_safe[OF kit_reach.new]) (simp_all add: kit_wf_def)

text \<open>The names that have a level.\<close>

definition scheduled_names :: "string list" where
  "scheduled_names =
    [AddressProvider, PriceOracle, AdminWrapper, RebaseToken, PoolWrapper, AccountManager, ChainlinkPriceFeed,
     CompositeChainlinkPF, CMWrapper, AggregatedQueryFeedWrapper, PoolLMRewards, CFWrapper, CreditConfigurator,
     Treasury]"

lemma NewAdapterKit_levels:
  "list_all (\<lambda>name. case adapterNameToLevel (NewAdapterKit :: 'a adapter_kit) name of None \<Rightarrow> False
      | Some i \<Rightarrow> 0 \<le> i \<and> i < 5 \<and> name \<in> set (lvl_order (kit_levels (NewAdapterKit :: 'a adapter_kit) ! nat i)))
    scheduled_names"
  by code_simp

text \<open>
  Adding an adapter whose name has a level succeeds; the kit then finds the adapter by its
  address, lists its address last under its name, and the address is among those a walk over
  that level visits.
\<close>

theorem kit_Add_scheduled:
  assumes "kit_reach kit" and "name \<in> set scheduled_names"
  shows "\<exists>kit' i as. kit_Add name addr a kit = Inr kit' \<and> kit_GetAdapter addr kit' = Some a \<and>
    kit_GetAdapterAddressByName name kit = Inr as \<and> kit_GetAdapterAddressByName name kit' = Inr (as @ [addr]) \<and>
    0 \<le> i \<and> i < kit_len kit' \<and> addr \<in> set (level_elems (kit_levels kit' ! nat i))"
proof -
  note wf = kit_reach_wf[OF assms(1), unfolded kit_wf_def]
  from NewAdapterKit_levels assms(2) obtain i where
    i: "adapterNameToLevel kit name = Some i" "0 \<le> i" "i < 5"
      "name \<in> set (lvl_order (kit_levels (NewAdapterKit :: 'a adapter_kit) ! nat i))"
    using wf by (auto simp: list_all_iff split: option.splits)
  have "nat i < length (kit_levels kit)" using wf i by (simp add: nat_less_iff)
  then have "lvl_order (kit_levels kit ! nat i) = lvl_order (kit_levels (NewAdapterKit :: 'a adapter_kit) ! nat i)"
    using wf by (metis length_map nth_map)
  with i have ord: "name \<in> set (lvl_order (kit_levels kit ! nat i))" by simp
  show ?thesis
    using i ord wf
    by (auto simp: kit_Add_def kit_GetAdapter_def kit_GetAdapterAddressByName_def level_GetAddressByName_def
        level_elems_def level_Add_def Let_def zget_def nat_less_iff intro!: exI[of _ i])
qed

theorem kit_Add_scheduled_witness:
  "\<exists>kit' i as. kit_Add CMWrapper ''cmw'' (7 :: nat) NewAdapterKit = Inr kit' \<and> kit_GetAdapter ''cmw'' kit' = Some 7 \<and>
    kit_GetAdapterAddressByName CMWrapper (NewAdapterKit :: nat adapter_kit) = Inr as \<and>
    kit_GetAdapterAddressByName CMWrapper kit' = Inr (as @ [''cmw'']) \<and>
    0 \<le> i \<and> i < kit_len kit' \<and> ''cmw'' \<in> set (level_elems (kit_levels kit' ! nat i))"
  by (rule kit_Add_scheduled[OF kit_reach.new]) (simp add: scheduled_names_def)

end
