(* ===== verification/Sync_Adapter.thy ===== *)
theory Sync_Adapter
  imports Adapter_Kit
begin

text \<open>
  \<^verbatim>\<open>ds/sync_adapter.go\<close>: the state every adapter embeds (\<^verbatim>\<open>ds.SyncAdapter\<close> with the schema and contract
  records it embeds in turn) and the methods it provides.  Address values are identified with
  their checksummed hex form, so the conversions between \<^verbatim>\<open>common.Address\<close> and \<^verbatim>\<open>string\<close> are not
  written.  The RPC look-ups of \<^verbatim>\<open>NewSyncAdapter\<close> (first log of the contract, version) are
  parameters.
\<close>

section \<open>JSON details\<close>

datatype json =
    JString string
  | JAddress address
  | JInt int
  | JBool bool
  | JNull
  | JFloat int       \<comment> \<open>a \<^verbatim>\<open>float64\<close> that holds an integer\<close>
  | JList "json list"
  | JLists "json list list"   \<comment> \<open>a \<^verbatim>\<open>[][]interface{}\<close> made by the program, not read from the database\<close>
  | JMap "(string \<times> json) list"

type_synonym json_obj = "(string \<times> json) list"

section \<open>The adapter state\<close>

record sync_adapter =
  Address :: address
  ContractName :: string
  DiscoveredAt :: int
  FirstLogAt :: int
  LastSync :: int
  Disabled :: bool
  BlockToDisableOn :: int
  V :: int
  ErrorMsg :: string
  Details :: "json_obj option"
  UnderlyingStateToSave :: bool
  DataProcessType :: int
  WillSyncTill :: int

abbreviation (input) ViaLog :: int where "ViaLog \<equiv> 0"
abbreviation (input) ViaMultipleLogs :: int where "ViaMultipleLogs \<equiv> 1"
abbreviation (input) ViaQuery :: int where "ViaQuery \<equiv> 2"

definition InterfaceToAddr :: "json \<Rightarrow> address res" where
  "InterfaceToAddr v = (case v of JString obj \<Rightarrow> Inr obj | JAddress obj \<Rightarrow> Inr obj | _ \<Rightarrow> Inl (Panic ''''))"

text \<open>
  \<^verbatim>\<open>SyncAdapter.GetAllAddrsForLogs\<close>: the own address unless empty, then the secondary addresses of the
  details.  The type assertion of \<^verbatim>\<open>secAddrs\<close> to a map panics when it is something else.
\<close>

definition sa_GetAllAddrsForLogs :: "sync_adapter \<Rightarrow> address list res" where
  "sa_GetAllAddrsForLogs s =
    (let addrs = (if Address s \<noteq> '''' then [Address s] else []) in
     case Details s of
       None \<Rightarrow> Inr addrs
     | Some d \<Rightarrow>
        (case map_of d ''secAddrs'' of
           None \<Rightarrow> Inr addrs
         | Some (JMap m) \<Rightarrow>
             rfold (\<lambda>(_, v) acc. rbind (InterfaceToAddr v) (\<lambda>a. Inr (acc @ [a]))) m addrs
         | Some _ \<Rightarrow> Inl (Panic ''interface conversion'')))"

definition sa_WillBeSyncedTo :: "int \<Rightarrow> sync_adapter \<Rightarrow> sync_adapter" where
  "sa_WillBeSyncedTo blockNum s = s\<lparr>WillSyncTill := blockNum\<rparr>"

definition GetDetailsByKey :: "string \<Rightarrow> sync_adapter \<Rightarrow> string res" where
  "GetDetailsByKey key s =
    (case Details s of
       None \<Rightarrow> Inr ''''
     | Some d \<Rightarrow>
        (case map_of d key of
           Some (JString value) \<Rightarrow> Inr value
         | _ \<Rightarrow> Inl (Fatal ''Not able to parse detail field'')))"

definition disableOnBlock :: "int \<Rightarrow> sync_adapter \<Rightarrow> sync_adapter" where
  "disableOnBlock currentBlock s =
    (if BlockToDisableOn s \<noteq> 0 \<and> BlockToDisableOn s \<le> currentBlock then s\<lparr>Disabled := True\<rparr> else s)"

definition sa_SetBlockToDisableOn :: "int \<Rightarrow> sync_adapter \<Rightarrow> sync_adapter" where
  "sa_SetBlockToDisableOn blockNum s = s\<lparr>BlockToDisableOn := blockNum\<rparr>"

definition sa_GetBlockToDisableOn :: "sync_adapter \<Rightarrow> int" where
  "sa_GetBlockToDisableOn s = (if BlockToDisableOn s = 0 then max_int64 else BlockToDisableOn s)"

definition setLastSync :: "int \<Rightarrow> sync_adapter \<Rightarrow> sync_adapter" where
  "setLastSync lastSync s = s\<lparr>LastSync := lastSync\<rparr>"

definition SetError :: "string \<Rightarrow> sync_adapter \<Rightarrow> sync_adapter" where
  "SetError err s =
    (let msgLen = (if length err > 200 then 200 else length err)
     in s\<lparr>Disabled := True, ErrorMsg := take msgLen err\<rparr>)"

definition sa_AfterSyncHook :: "int \<Rightarrow> sync_adapter \<Rightarrow> sync_adapter" where
  "sa_AfterSyncHook syncTill s = disableOnBlock syncTill (setLastSync syncTill s)"

text \<open>
  \<^verbatim>\<open>NewSyncAdapter\<close>; \<open>firstLogAt\<close> and \<open>contractDiscoveredAt\<close> are what \<^verbatim>\<open>schemas.NewContract\<close> found on
  chain, \<open>fetchVersion\<close> is \<^verbatim>\<open>core.FetchVersion\<close>.
\<close>

definition NewSyncAdapter ::
  "(address \<Rightarrow> int \<Rightarrow> int \<times> int) \<Rightarrow> (address \<Rightarrow> int \<Rightarrow> int) \<Rightarrow> address \<Rightarrow> string \<Rightarrow> int \<Rightarrow> sync_adapter" where
  "NewSyncAdapter newContract fetchVersion addr name discoveredAt =
    (let (contractDiscoveredAt, firstLogAt) = newContract addr discoveredAt in
     \<lparr>Address = addr, ContractName = name, DiscoveredAt = contractDiscoveredAt, FirstLogAt = firstLogAt,
      LastSync = firstLogAt - 1, Disabled = False, BlockToDisableOn = 0,
      V = (if name \<noteq> ChainlinkPriceFeed \<and> name \<noteq> QueryPriceFeed then fetchVersion addr discoveredAt else 0),
      ErrorMsg = '''', Details = None, UnderlyingStateToSave = False, DataProcessType = ViaLog,
      WillSyncTill = 0\<rparr>)"

section \<open>Lemmas\<close>

lemma sa_AfterSyncHook_fields [simp]:
  "LastSync (sa_AfterSyncHook n s) = n"
  "BlockToDisableOn (sa_AfterSyncHook n s) = BlockToDisableOn s"
  "sa_GetBlockToDisableOn (sa_AfterSyncHook n s) = sa_GetBlockToDisableOn s"
  "Address (sa_AfterSyncHook n s) = Address s"
  "Disabled (sa_AfterSyncHook n s) \<longleftrightarrow> Disabled s \<or> (BlockToDisableOn s \<noteq> 0 \<and> BlockToDisableOn s \<le> n)"
  "Details (sa_AfterSyncHook n s) = Details s"
  by (simp_all add: sa_AfterSyncHook_def disableOnBlock_def setLastSync_def sa_GetBlockToDisableOn_def)

lemma sa_WillBeSyncedTo_fields [simp]:
  "LastSync (sa_WillBeSyncedTo n s) = LastSync s"
  "Disabled (sa_WillBeSyncedTo n s) = Disabled s"
  "BlockToDisableOn (sa_WillBeSyncedTo n s) = BlockToDisableOn s"
  "sa_GetBlockToDisableOn (sa_WillBeSyncedTo n s) = sa_GetBlockToDisableOn s"
  "DataProcessType (sa_WillBeSyncedTo n s) = DataProcessType s"
  "WillSyncTill (sa_WillBeSyncedTo n s) = n"
  by (simp_all add: sa_WillBeSyncedTo_def sa_GetBlockToDisableOn_def)

text \<open>
  An adapter is disabled by the hook exactly when it was disabled before or its disable block
  has been reached, and from then on it has been synced up to at least that block: a disable
  block that lies in the future leaves the adapter running.
\<close>

theorem AfterSyncHook_disables_at_block:
  "let s' = sa_AfterSyncHook n s in
     LastSync s' = n \<and>
     (Disabled s' \<longleftrightarrow> Disabled s \<or> sa_GetBlockToDisableOn s \<le> n \<and> BlockToDisableOn s \<noteq> 0)"
  by (auto simp: Let_def sa_GetBlockToDisableOn_def)

lemma SetError_bounded: "Disabled (SetError err s) \<and> length (ErrorMsg (SetError err s)) \<le> 200"
  by (simp add: SetError_def)

lemma GetDetailsByKey_nil [simp]: "Details s = None \<Longrightarrow> GetDetailsByKey k s = Inr ''''"
  by (simp add: GetDetailsByKey_def)

text \<open>The addresses to fetch depend on the own address and the details only.\<close>

lemma sa_GetAllAddrsForLogs_cong:
  "Address s = Address t \<Longrightarrow> Details s = Details t \<Longrightarrow> sa_GetAllAddrsForLogs s = sa_GetAllAddrsForLogs t"
  by (simp only: sa_GetAllAddrsForLogs_def)

lemma sa_GetAllAddrsForLogs_sync [simp]:
  "sa_GetAllAddrsForLogs (sa_WillBeSyncedTo n s) = sa_GetAllAddrsForLogs s"
  "sa_GetAllAddrsForLogs (sa_AfterSyncHook n s) = sa_GetAllAddrsForLogs s"
  by (rule sa_GetAllAddrsForLogs_cong; simp add: sa_WillBeSyncedTo_def)+

end
