(* ===== verification/Sync_Engine.thy ===== *)
theory Sync_Engine
  imports Sync_Adapter
begin

text \<open>
  \<^verbatim>\<open>engine/index.go\<close>: one round of the sync engine.  The adapter interface \<^verbatim>\<open>ds.SyncAdapterI\<close> is a
  record of methods over the state \<open>'w\<close> the objects live in (an object is named by its address);
  what the node, the repository and the debt engine do is an argument (\<open>'w engine_env\<close>).  The
  adapters of a level are run one after the other, as the engine does without \<^verbatim>\<open>UseThreads\<close>.
\<close>

record 'e txlog =
  BlockNumber :: int
  Index :: int
  TxIndex :: int
  TxHash :: txhash
  logAddress :: address
  topic0 :: string          \<comment> \<open>the event signature whose hash is the first topic\<close>
  payload :: 'e             \<comment> \<open>what the remaining topics and the data decode to\<close>

record ('w, 'e) adapter_i =
  IsDisabled :: "address \<Rightarrow> 'w \<Rightarrow> bool"
  GetDataProcessType :: "address \<Rightarrow> 'w \<Rightarrow> int"
  GetLastSync :: "address \<Rightarrow> 'w \<Rightarrow> int"
  GetBlockToDisableOn :: "address \<Rightarrow> 'w \<Rightarrow> int"
  GetAllAddrsForLogs :: "address \<Rightarrow> 'w \<Rightarrow> address list res"
  Topics :: "address \<Rightarrow> 'w \<Rightarrow> string list"
  WillBeSyncedTo :: "address \<Rightarrow> int \<Rightarrow> 'w \<Rightarrow> 'w"
  OnLog :: "address \<Rightarrow> 'e txlog \<Rightarrow> 'w \<Rightarrow> 'w res"
  OnLogs :: "address \<Rightarrow> 'e txlog list \<Rightarrow> 'w \<Rightarrow> 'w res"
  Query :: "address \<Rightarrow> int \<Rightarrow> 'w \<Rightarrow> 'w res"
  AfterSyncHook :: "address \<Rightarrow> int \<Rightarrow> 'w \<Rightarrow> 'w res"

text \<open>A DAO operation row, as far as the engine fills it.\<close>

datatype dao_type = Paused | UnPaused

record dao_pause =
  dp_BlockNumber :: int
  dp_LogID :: int
  dp_TxHash :: txhash
  dp_Contract :: address
  dp_Type :: dao_type
  dp_account :: address

record ('w, 'e) engine_env =
  GetLogs :: "int \<Rightarrow> int \<Rightarrow> address list \<Rightarrow> string list \<Rightarrow> 'e txlog list res"  \<comment> \<open>\<^verbatim>\<open>pkg.Node.GetLogs\<close>\<close>
  dataAddress :: "'e txlog \<Rightarrow> address"              \<comment> \<open>\<^verbatim>\<open>common.BytesToAddress(txLog.Data)\<close>\<close>
  AddPauseDAOOperation :: "dao_pause \<Rightarrow> 'w \<Rightarrow> 'w"    \<comment> \<open>\<^verbatim>\<open>repo.AddDAOOperation\<close>\<close>
  env_kit :: "'w \<Rightarrow> address adapter_kit"            \<comment> \<open>\<^verbatim>\<open>repo.GetKit()\<close>; the objects are named by address\<close>
  put_kit :: "address adapter_kit \<Rightarrow> 'w \<Rightarrow> 'w"
  AfterSync :: "int \<Rightarrow> 'w \<Rightarrow> 'w res"               \<comment> \<open>\<^verbatim>\<open>repo.AfterSync\<close>\<close>
  Flush :: "int \<Rightarrow> 'w \<Rightarrow> 'w res"                   \<comment> \<open>\<^verbatim>\<open>repo.Flush\<close>\<close>
  CalculateDebtAndClear :: "int \<Rightarrow> 'w \<Rightarrow> 'w res"   \<comment> \<open>\<^verbatim>\<open>debtEng.CalculateDebtAndClear\<close>\<close>
  GetLatestFinalizedBlock :: "int \<Rightarrow> 'w \<Rightarrow> int"

section \<open>One adapter\<close>

definition isEventPausedOrUnParsed :: "('w, 'e) engine_env \<Rightarrow> 'e txlog \<Rightarrow> 'w \<Rightarrow> bool \<times> 'w" where
  "isEventPausedOrUnParsed E txLog w =
    (let op = (\<lambda>ty. \<lparr>dp_BlockNumber = BlockNumber txLog, dp_LogID = Index txLog, dp_TxHash = TxHash txLog,
                     dp_Contract = logAddress txLog, dp_Type = ty, dp_account = dataAddress E txLog\<rparr>) in
     if topic0 txLog = ''Paused(address)'' then (True, AddPauseDAOOperation E (op Paused) w)
     else if topic0 txLog = ''Unpaused(address)'' then (True, AddPauseDAOOperation E (op UnPaused) w)
     else (False, w))"

definition SyncModel :: "('w, 'e) engine_env \<Rightarrow> ('w, 'e) adapter_i \<Rightarrow> address \<Rightarrow> int \<Rightarrow> 'w \<Rightarrow> 'w res" where
  "SyncModel E I mdl syncTill0 w =
    (let syncFrom = GetLastSync I mdl w + 1 in
     if syncFrom > syncTill0 then Inr w
     else
       let syncTill = min (GetBlockToDisableOn I mdl w) syncTill0;
           w1 = WillBeSyncedTo I mdl syncTill w
       in rbind (GetAllAddrsForLogs I mdl w1) (\<lambda>addrs.
          rbind (GetLogs E syncFrom syncTill addrs (Topics I mdl w1)) (\<lambda>txLogs.
          rbind (if GetDataProcessType I mdl w1 = ViaMultipleLogs
                 then OnLogs I mdl txLogs (foldl (\<lambda>w l. snd (isEventPausedOrUnParsed E l w)) w1 txLogs)
                 else rfold (\<lambda>l w. OnLog I mdl l (snd (isEventPausedOrUnParsed E l w))) txLogs w1) (\<lambda>w2.
          AfterSyncHook I mdl (min (GetBlockToDisableOn I mdl w2) syncTill) w2))))"

definition QueryModel :: "('w, 'e) adapter_i \<Rightarrow> address \<Rightarrow> int \<Rightarrow> 'w \<Rightarrow> 'w res" where
  "QueryModel I mdl queryTill0 w =
    (if GetLastSync I mdl w + 1 > queryTill0 then Inr w
     else
       let queryTill = min (GetBlockToDisableOn I mdl w) queryTill0 in
       rbind (Query I mdl queryTill w) (AfterSyncHook I mdl queryTill))"

section \<open>One round over the kit\<close>

definition sync_adapter_step :: "('w, 'e) engine_env \<Rightarrow> ('w, 'e) adapter_i \<Rightarrow> int \<Rightarrow> int \<Rightarrow> 'w \<Rightarrow> 'w res" where
  "sync_adapter_step E I lvlIndex syncTill w =
    rbind (kit_Get lvlIndex (env_kit E w)) (\<lambda>obj.
    rbind (deref obj) (\<lambda>adapter.
      if \<not> IsDisabled I adapter w then
        (if GetDataProcessType I adapter w = ViaQuery then QueryModel I adapter syncTill w
         else SyncModel E I adapter syncTill w)
      else Inr w))"

definition kit_step :: "('w, 'e) engine_env \<Rightarrow> int \<Rightarrow> 'w \<Rightarrow> (bool \<times> 'w) res" where
  "kit_step E lvlIndex w =
    rbind (kit_Next lvlIndex (env_kit E w)) (\<lambda>(more, kit). Inr (more, put_kit E kit w))"

definition sync_level :: "nat \<Rightarrow> ('w, 'e) engine_env \<Rightarrow> ('w, 'e) adapter_i \<Rightarrow> int \<Rightarrow> int \<Rightarrow> 'w \<Rightarrow> 'w res" where
  "sync_level fuel E I syncTill lvlIndex w =
    rbind (for_next fuel (kit_step E lvlIndex) (sync_adapter_step E I lvlIndex syncTill) w) (\<lambda>w1.
    rbind (kit_Reset lvlIndex (env_kit E w1)) (\<lambda>kit. Inr (put_kit E kit w1)))"

text \<open>
  \<^verbatim>\<open>Engine.Sync\<close>.  The number of levels does not change during a round: \<^verbatim>\<open>AddLevel\<close> is only called when
  the kit is built.
\<close>

definition Sync :: "nat \<Rightarrow> ('w, 'e) engine_env \<Rightarrow> ('w, 'e) adapter_i \<Rightarrow> int \<Rightarrow> 'w \<Rightarrow> 'w res" where
  "Sync fuel E I syncTill w =
    rbind (rfold (sync_level fuel E I syncTill) (map int [0..<nat (kit_len (env_kit E w))]) w)
      (AfterSync E syncTill)"

section \<open>The engine\<close>

record 'w engine_state =
  eng_world :: 'w
  syncedBlock :: "int option"

definition SyncAndFlush ::
  "nat \<Rightarrow> ('w, 'e) engine_env \<Rightarrow> ('w, 'e) adapter_i \<Rightarrow> int \<Rightarrow> 'w engine_state \<Rightarrow> 'w engine_state res" where
  "SyncAndFlush fuel E I syncTill e =
    rbind (Sync fuel E I syncTill (eng_world e)) (\<lambda>w1.
    rbind (Flush E syncTill w1) (\<lambda>w2.
    rbind (CalculateDebtAndClear E syncTill w2) (\<lambda>w3.
      Inr (e\<lparr>eng_world := w3, syncedBlock := Some syncTill\<rparr>))))"

definition LastSyncedBlock :: "'w engine_state \<Rightarrow> int" where
  "LastSyncedBlock e = (case syncedBlock e of None \<Rightarrow> 0 | Some v \<Rightarrow> v)"

text \<open>
  \<^verbatim>\<open>syncLoop\<close>, over the function it calls in each round.  With a batch size of zero or less the Go loop
  does not end; the model needs fuel, and the lemmas below give the amount for a positive size.
\<close>

fun syncLoop_from ::
  "nat \<Rightarrow> (int \<Rightarrow> 's \<Rightarrow> 's res) \<Rightarrow> int \<Rightarrow> int \<Rightarrow> int \<Rightarrow> int \<Rightarrow> 's \<Rightarrow> (int \<times> 's) res" where
  "syncLoop_from 0 round batch latest syncTarget syncedTill s = Inl OutOfFuel"
| "syncLoop_from (Suc n) round batch latest syncTarget syncedTill s =
    (if syncTarget \<le> latest
     then rbind (round syncTarget s) (syncLoop_from n round batch latest (syncTarget + batch) syncTarget)
     else Inr (syncedTill, s))"

definition syncLoop :: "nat \<Rightarrow> (int \<Rightarrow> 's \<Rightarrow> 's res) \<Rightarrow> int \<Rightarrow> int \<Rightarrow> int \<Rightarrow> 's \<Rightarrow> (int \<times> 's) res" where
  "syncLoop fuel round batch syncedTill latest s =
    syncLoop_from fuel round batch latest (syncedTill + batch) syncedTill s"

text \<open>
  The start of \<^verbatim>\<open>SyncHandler\<close>: catch up in batches when the chain is at least one batch ahead.  The
  endless loop after it calls \<open>SyncAndFlush\<close> with the latest finalised block.
\<close>

definition catch_up ::
  "nat \<Rightarrow> (int \<Rightarrow> 's \<Rightarrow> 's res) \<Rightarrow> int \<Rightarrow> int \<Rightarrow> int \<Rightarrow> 's \<Rightarrow> 's res" where
  "catch_up fuel round batch lastSyncedTill latest s =
    (if lastSyncedTill + batch \<le> latest
     then rbind (syncLoop fuel round batch lastSyncedTill latest s) (\<lambda>(_, s'). Inr s')
     else Inr s)"

section \<open>The batches of the sync loop\<close>

definition sync_targets :: "int \<Rightarrow> int \<Rightarrow> int \<Rightarrow> int list" where
  "sync_targets batch syncedTill latest =
    map (\<lambda>k. syncedTill + batch * (int k + 1)) [0..<nat ((latest - syncedTill) div batch)]"

lemma sync_targets_Nil: "0 < batch \<Longrightarrow> latest < syncedTill + batch \<Longrightarrow> sync_targets batch syncedTill latest = []"
proof -
  assume "0 < batch" "latest < syncedTill + batch"
  then have "(latest - syncedTill) div batch \<le> 0"
    by (smt (verit) div_pos_pos_trivial div_neg_pos_less0)
  then show ?thesis by (simp add: sync_targets_def)
qed

lemma sync_targets_Cons:
  assumes "0 < batch" and "syncedTill + batch \<le> latest"
  shows "sync_targets batch syncedTill latest =
    (syncedTill + batch) # sync_targets batch (syncedTill + batch) latest"
proof -
  define k where "k = nat ((latest - (syncedTill + batch)) div batch)"
  have "(latest - syncedTill) div batch = (latest - (syncedTill + batch)) div batch + 1"
    using assms(1) div_add_self1[of batch "latest - (syncedTill + batch)"] by (simp add: algebra_simps)
  moreover have "0 \<le> (latest - (syncedTill + batch)) div batch"
    using assms by (simp add: pos_imp_zdiv_nonneg_iff)
  ultimately have "nat ((latest - syncedTill) div batch) = Suc k"
    by (simp add: k_def nat_add_distrib)
  then have "sync_targets batch syncedTill latest =
      map (\<lambda>k. syncedTill + batch * (int k + 1)) (0 # map Suc [0..<k])"
    by (simp add: sync_targets_def map_Suc_upt upt_conv_Cons)
  moreover have "sync_targets batch (syncedTill + batch) latest =
      map (\<lambda>k. syncedTill + batch * (int (Suc k) + 1)) [0..<k]"
    unfolding sync_targets_def k_def[symmetric] by (simp add: algebra_simps)
  ultimately show ?thesis by simp
qed

lemma syncLoop_from_targets:
  assumes "0 < batch" and "length (sync_targets batch syncedTill latest) < fuel"
  shows "syncLoop_from fuel round batch latest (syncedTill + batch) syncedTill s =
    rbind (rfold round (sync_targets batch syncedTill latest) s)
      (\<lambda>s'. Inr (last (syncedTill # sync_targets batch syncedTill latest), s'))"
  using assms(2)
proof (induction fuel arbitrary: syncedTill s)
  case (Suc n)
  show ?case
  proof (cases "syncedTill + batch \<le> latest")
    case True
    note t = sync_targets_Cons[OF assms(1) True]
    have "syncLoop_from n round batch latest (syncedTill + batch + batch) (syncedTill + batch) =
        (\<lambda>s. rbind (rfold round (sync_targets batch (syncedTill + batch) latest) s)
            (\<lambda>s'. Inr (last ((syncedTill + batch) # sync_targets batch (syncedTill + batch) latest), s')))"
      by (intro ext, rule Suc.IH) (use Suc.prems t in simp)
    then show ?thesis using True t by (simp add: rbind_assoc)
  next
    case False
    then show ?thesis using sync_targets_Nil[OF assms(1)] by simp
  qed
qed simp

lemma sync_targets_bounds:
  assumes "0 < batch"
  shows "x \<in> set (sync_targets batch a latest) \<Longrightarrow> a < x \<and> x \<le> latest"
    and "a \<le> latest \<Longrightarrow> last (a # sync_targets batch a latest) \<le> latest"
    and "latest < last (a # sync_targets batch a latest) + batch"
proof -
  define k where "k = nat ((latest - a) div batch)"
  have le: "batch * int k \<le> latest - a" if "0 < k"
  proof -
    have "int k = (latest - a) div batch" using that by (simp add: k_def)
    moreover have "batch * ((latest - a) div batch) \<le> latest - a"
      using assms mult_div_mod_eq[of batch "latest - a"] pos_mod_sign[of batch "latest - a"] by linarith
    ultimately show ?thesis by simp
  qed
  show "a < x \<and> x \<le> latest" if x: "x \<in> set (sync_targets batch a latest)"
  proof -
    from x obtain i where i: "i < k" "x = a + batch * (int i + 1)"
      by (auto simp: sync_targets_def k_def)
    have "batch * (int i + 1) \<le> batch * int k" using i(1) assms by (intro mult_left_mono) auto
    moreover have "0 < batch * (int i + 1)" using assms by simp
    ultimately show ?thesis using le i by auto
  qed
  have last: "last (a # sync_targets batch a latest) = a + batch * int k"
    by (cases k) (simp_all add: sync_targets_def k_def[symmetric] algebra_simps)
  show "last (a # sync_targets batch a latest) \<le> latest" if "a \<le> latest"
    using le that unfolding last by (cases "k = 0") auto
  show "latest < last (a # sync_targets batch a latest) + batch"
  proof -
    have "latest - a < batch * ((latest - a) div batch) + batch"
      using assms mult_div_mod_eq[of batch "latest - a"] pos_mod_bound[of batch "latest - a"] by linarith
    moreover have "batch * ((latest - a) div batch) \<le> batch * int k"
      using assms by (intro mult_left_mono) (auto simp: k_def)
    ultimately show ?thesis unfolding last by linarith
  qed
qed

text \<open>
  C19: with a positive batch size the catch-up loop ends.  It calls \<open>round\<close> for exactly the block
  numbers \<open>syncedTill + batch, syncedTill + 2 * batch, \<dots>\<close> up to the latest block, in this order, and
  returns the last of them, which lies less than one batch behind the latest block; a failing
  round ends the loop with its failure.
\<close>

theorem syncLoop_batches:
  assumes "0 < batch" and "syncedTill \<le> latest" and "nat ((latest - syncedTill) div batch) < fuel"
  shows "\<exists>targets. targets = map (\<lambda>k. syncedTill + batch * (int k + 1)) [0..<nat ((latest - syncedTill) div batch)] \<and>
    syncLoop fuel round batch syncedTill latest s =
      rbind (rfold round targets s) (\<lambda>s'. Inr (last (syncedTill # targets), s')) \<and>
    last (syncedTill # targets) \<le> latest \<and> latest < last (syncedTill # targets) + batch \<and>
    list_all (\<lambda>t. syncedTill < t \<and> t \<le> latest) targets"
proof (intro exI conjI)
  let ?ts = "sync_targets batch syncedTill latest"
  show "?ts = map (\<lambda>k. syncedTill + batch * (int k + 1)) [0..<nat ((latest - syncedTill) div batch)]"
    by (simp add: sync_targets_def)
  show "syncLoop fuel round batch syncedTill latest s =
      rbind (rfold round ?ts s) (\<lambda>s'. Inr (last (syncedTill # ?ts), s'))"
    unfolding syncLoop_def using assms(3) by (intro syncLoop_from_targets[OF assms(1)]) (simp add: sync_targets_def)
  show "last (syncedTill # ?ts) \<le> latest" by (rule sync_targets_bounds(2)[OF assms(1,2)])
  show "latest < last (syncedTill # ?ts) + batch" by (rule sync_targets_bounds(3)[OF assms(1)])
  show "list_all (\<lambda>t. syncedTill < t \<and> t \<le> latest) ?ts"
    using sync_targets_bounds(1)[OF assms(1)] by (simp add: list_all_iff)
qed

theorem syncLoop_batches_witness:
  "\<exists>targets. targets = map (\<lambda>k. 100 + 10 * (int k + 1)) [0..<nat ((125 - 100) div 10)] \<and>
    syncLoop 3 (\<lambda>t ts. Inr (ts @ [t])) 10 100 125 [] =
      rbind (rfold (\<lambda>t ts. Inr (ts @ [t])) targets []) (\<lambda>s'. Inr (last (100 # targets), s')) \<and>
    last (100 # targets) \<le> 125 \<and> 125 < last (100 # targets) + 10 \<and>
    list_all (\<lambda>t. 100 < t \<and> t \<le> 125) targets"
  by (rule syncLoop_batches) simp_all

section \<open>The contract of an adapter\<close>

text \<open>
  What the engine relies on: processing logs does not move the last synced block of the adapter,
  only the hook after the sync does.  \<open>sync_progress\<close> adds what the hook of a plain adapter
  promises, \<open>sync_static\<close> what that of a wrapper does.
\<close>

lemma SyncModel_run:
  assumes "\<not> n \<le> GetLastSync I mdl w"
  shows "SyncModel E I mdl n w =
    rbind (GetAllAddrsForLogs I mdl (WillBeSyncedTo I mdl (min (GetBlockToDisableOn I mdl w) n) w)) (\<lambda>addrs.
    rbind (GetLogs E (GetLastSync I mdl w + 1) (min (GetBlockToDisableOn I mdl w) n) addrs
             (Topics I mdl (WillBeSyncedTo I mdl (min (GetBlockToDisableOn I mdl w) n) w))) (\<lambda>txLogs.
    rbind (if GetDataProcessType I mdl (WillBeSyncedTo I mdl (min (GetBlockToDisableOn I mdl w) n) w) = ViaMultipleLogs
           then OnLogs I mdl txLogs (foldl (\<lambda>w l. snd (isEventPausedOrUnParsed E l w))
                  (WillBeSyncedTo I mdl (min (GetBlockToDisableOn I mdl w) n) w) txLogs)
           else rfold (\<lambda>l w. OnLog I mdl l (snd (isEventPausedOrUnParsed E l w))) txLogs
                  (WillBeSyncedTo I mdl (min (GetBlockToDisableOn I mdl w) n) w)) (\<lambda>w2.
    AfterSyncHook I mdl (min (GetBlockToDisableOn I mdl w2) (min (GetBlockToDisableOn I mdl w) n)) w2)))"
proof -
  from assms have "\<not> GetLastSync I mdl w + 1 > n" by simp
  then show ?thesis unfolding SyncModel_def Let_def by (rule if_not_P)
qed

locale sync_contract =
  fixes E :: "('w, 'e) engine_env"
    and I :: "('w, 'e) adapter_i"
    and mdl :: address
  assumes will_keeps: "GetLastSync I mdl (WillBeSyncedTo I mdl n w) = GetLastSync I mdl w"
    and pause_keeps: "GetLastSync I mdl (AddPauseDAOOperation E d w) = GetLastSync I mdl w"
    and log_keeps: "OnLog I mdl l w = Inr w' \<Longrightarrow> GetLastSync I mdl w' = GetLastSync I mdl w"
    and logs_keeps: "OnLogs I mdl ls w = Inr w' \<Longrightarrow> GetLastSync I mdl w' = GetLastSync I mdl w"
begin

lemma paused_keeps: "GetLastSync I mdl (snd (isEventPausedOrUnParsed E l w)) = GetLastSync I mdl w"
  by (simp add: isEventPausedOrUnParsed_def pause_keeps)

lemma pauses_keep: "GetLastSync I mdl (foldl (\<lambda>w l. snd (isEventPausedOrUnParsed E l w)) w ls) = GetLastSync I mdl w"
  by (rule foldl_invariant) (simp_all add: paused_keeps)

text \<open>A round either does nothing, or ends with the hook on a world whose last sync is still the old one.\<close>

lemma SyncModel_cases:
  assumes "SyncModel E I mdl n w = Inr w'"
  obtains (idle) "n \<le> GetLastSync I mdl w" "w' = w"
    | (hook) w2 where "GetLastSync I mdl w < n" "GetLastSync I mdl w2 = GetLastSync I mdl w"
      "AfterSyncHook I mdl (min (GetBlockToDisableOn I mdl w2) (min (GetBlockToDisableOn I mdl w) n)) w2 = Inr w'"
proof (cases "n \<le> GetLastSync I mdl w")
  case True
  then have "SyncModel E I mdl n w = Inr w" by (simp add: SyncModel_def)
  with assms have "w' = w" by simp
  with True show ?thesis by (rule that(1))
next
  case False
  let ?t = "min (GetBlockToDisableOn I mdl w) n"
  let ?w1 = "WillBeSyncedTo I mdl ?t w"
  obtain ls w2 where
    run: "(if GetDataProcessType I mdl ?w1 = ViaMultipleLogs
           then OnLogs I mdl ls (foldl (\<lambda>w l. snd (isEventPausedOrUnParsed E l w)) ?w1 ls)
           else rfold (\<lambda>l w. OnLog I mdl l (snd (isEventPausedOrUnParsed E l w))) ls ?w1) = Inr w2"
    and hook: "AfterSyncHook I mdl (min (GetBlockToDisableOn I mdl w2) ?t) w2 = Inr w'"
    using assms unfolding SyncModel_run[OF False] by (elim rbind_InrE) (rule that)
  have "GetLastSync I mdl w2 = GetLastSync I mdl ?w1"
  proof (cases "GetDataProcessType I mdl ?w1 = ViaMultipleLogs")
    case True
    then show ?thesis using run logs_keeps pauses_keep by auto
  next
    case f: False
    then have "rfold (\<lambda>l w. OnLog I mdl l (snd (isEventPausedOrUnParsed E l w))) ls ?w1 = Inr w2" using run by simp
    then show ?thesis
      by (rule rfold_invariant[where I = "\<lambda>v. GetLastSync I mdl v = GetLastSync I mdl ?w1"])
        (auto dest: log_keeps simp: paused_keeps)
  qed
  then show ?thesis using that(2) False hook by (simp add: will_keeps)
qed

end

locale sync_progress = sync_contract +
  assumes hook_moves: "AfterSyncHook I mdl n w = Inr w' \<Longrightarrow> GetLastSync I mdl w' = n"
    and hook_block: "AfterSyncHook I mdl n w = Inr w' \<Longrightarrow> GetBlockToDisableOn I mdl w' = GetBlockToDisableOn I mdl w"
begin

lemma SyncModel_last:
  assumes "SyncModel E I mdl n w = Inr w'" and "GetLastSync I mdl w < n"
  shows "GetLastSync I mdl w' = min (GetBlockToDisableOn I mdl w') (min (GetBlockToDisableOn I mdl w) n)"
  using assms(1)
proof (cases rule: SyncModel_cases)
  case (hook w2)
  then show ?thesis using hook_moves hook_block by simp
qed (use assms in simp)

end

locale sync_static = sync_contract +
  assumes hook_static: "AfterSyncHook I mdl n w = Inr w' \<Longrightarrow> GetLastSync I mdl w' = GetLastSync I mdl w"
begin

lemma SyncModel_static: "SyncModel E I mdl n w = Inr w' \<Longrightarrow> GetLastSync I mdl w' = GetLastSync I mdl w"
  by (erule SyncModel_cases) (auto dest: hook_static)

end

end
