(* ===== verification/Sync_Wrapper.thy ===== *)
theory Sync_Wrapper
  imports Sync_Engine
begin

text \<open>
  \<^verbatim>\<open>models/wrappers\<close> and \<^verbatim>\<open>repository/handlers/kit_handler.go\<close>: adapters that are grouped behind one object so
  that their logs are fetched with one call, and the routing of adapters to the kit or to a wrapper.

  The state the objects live in is \<open>'r sync_world\<close>: the adapters (the embedded \<^verbatim>\<open>ds.SyncAdapter\<close> parts)
  by address, the wrappers by name, the kit, and the rest of the repository.  The handler of a
  contract type (\<^verbatim>\<open>OnLog\<close> of a pool, a credit manager and so on) is a parameter here: it reads the
  world, changes the repository and may set the disable block of an adapter, which is all such a
  handler can do to the embedded adapter states.
\<close>

section \<open>Ordered map\<close>

record 'v ordered_map =
  om_m :: "address \<rightharpoonup> 'v"
  om_allM :: "address \<rightharpoonup> 'v"
  om_a :: "'v list"

definition NewOrderedMap :: "'v ordered_map" where
  "NewOrderedMap = \<lparr>om_m = Map.empty, om_allM = Map.empty, om_a = []\<rparr>"

definition om_Get :: "'v ordered_map \<Rightarrow> address \<Rightarrow> 'v option" where
  "om_Get x addr = om_m x addr"

definition om_GetFromLogAddr :: "'v ordered_map \<Rightarrow> address \<Rightarrow> 'v option" where
  "om_GetFromLogAddr x name = om_allM x name"

definition om_Add :: "address \<Rightarrow> address list \<Rightarrow> 'v \<Rightarrow> 'v ordered_map \<Rightarrow> 'v ordered_map" where
  "om_Add addr allAddrsForAdapter val x =
    (let x1 = (if om_m x addr = None then x\<lparr>om_a := om_a x @ [val]\<rparr> else x) in
     x1\<lparr>om_allM := foldl (\<lambda>m a. m(a \<mapsto> val)) (om_allM x1) allAddrsForAdapter,
        om_m := (om_m x1)(addr \<mapsto> val)\<rparr>)"

definition om_GetAll :: "'v ordered_map \<Rightarrow> 'v list" where
  "om_GetAll x = om_a x"

section \<open>World and wrapper state\<close>

record sync_wrapper =
  sw_Adapters :: "address ordered_map"
  sw_ViaDataProcess :: int
  sw_name :: string
  sw_lastSync :: int
  sw_WillSyncTill :: int

definition NewSyncWrapper :: "string \<Rightarrow> sync_wrapper" where
  "NewSyncWrapper name =
    \<lparr>sw_Adapters = NewOrderedMap, sw_ViaDataProcess = -1, sw_name = name,
     sw_lastSync = max_int64 - 10, sw_WillSyncTill = 0\<rparr>"

record 'r sync_world =
  heap :: "address \<Rightarrow> sync_adapter"
  wrappers :: "string \<rightharpoonup> sync_wrapper"
  world_kit :: "address adapter_kit"
  pauses :: "dao_pause list"
  repo :: 'r

text \<open>What a contract handler does: new repository state and disable blocks it sets.\<close>

type_synonym ('r, 'e) handler =
  "address \<Rightarrow> 'e txlog \<Rightarrow> 'r sync_world \<Rightarrow> ('r \<times> (address \<times> int) list) res"

definition set_disable_blocks :: "(address \<times> int) list \<Rightarrow> 'r sync_world \<Rightarrow> 'r sync_world" where
  "set_disable_blocks ds w =
    w\<lparr>heap := foldl (\<lambda>h (a, n). h(a := sa_SetBlockToDisableOn n (h a))) (heap w) ds\<rparr>"

definition upd_adapter :: "address \<Rightarrow> (sync_adapter \<Rightarrow> sync_adapter) \<Rightarrow> 'r sync_world \<Rightarrow> 'r sync_world" where
  "upd_adapter a f w = w\<lparr>heap := (heap w)(a := f (heap w a))\<rparr>"

definition adapter_OnLog :: "('r, 'e) handler \<Rightarrow> address \<Rightarrow> 'e txlog \<Rightarrow> 'r sync_world \<Rightarrow> 'r sync_world res" where
  "adapter_OnLog h a l w = rbind (h a l w) (\<lambda>(r, ds). Inr (set_disable_blocks ds (w\<lparr>repo := r\<rparr>)))"

text \<open>
  What the wrapped pools contribute on a block change: an optional call (with the closure that
  processes its result) per pool, and the multicall that answers a list of calls.
\<close>

record ('r, 'c, 'd) block_change =
  isPool :: "address \<Rightarrow> bool"
  PoolOnBlockChange :: "address \<Rightarrow> int \<Rightarrow> 'r \<Rightarrow> ('c option \<times> 'r) res"
  MakeMultiCall :: "int \<Rightarrow> 'c list \<Rightarrow> 'd list"
  processFn :: "'c \<Rightarrow> 'd \<Rightarrow> 'r \<Rightarrow> 'r res"

section \<open>SyncWrapper\<close>

definition sw_AddSyncAdapter :: "sync_adapter \<Rightarrow> sync_wrapper \<Rightarrow> sync_wrapper res" where
  "sw_AddSyncAdapter adapter w =
    rbind (guard_fatal (sw_ViaDataProcess w = -1) ''SyncWrapper: ViaDataProcess not set'') (\<lambda>_.
    rbind (sa_GetAllAddrsForLogs adapter) (\<lambda>addrs.
      Inr (w\<lparr>sw_Adapters := om_Add (Address adapter) addrs (Address adapter) (sw_Adapters w),
             sw_lastSync := min (LastSync adapter) (sw_lastSync w)\<rparr>)))"

definition GetUnderlyingAdapterAddrs :: "sync_wrapper \<Rightarrow> 'r sync_world \<Rightarrow> address list" where
  "GetUnderlyingAdapterAddrs s w = filter (\<lambda>a. \<not> Disabled (heap w a)) (om_GetAll (sw_Adapters s))"

definition sw_GetDataProcessType :: "sync_wrapper \<Rightarrow> int" where
  "sw_GetDataProcessType s = (if sw_ViaDataProcess s = -1 then ViaLog else sw_ViaDataProcess s)"

definition sw_OnLog :: "('r, 'e) handler \<Rightarrow> sync_wrapper \<Rightarrow> 'e txlog \<Rightarrow> 'r sync_world \<Rightarrow> 'r sync_world res" where
  "sw_OnLog h s txLog w =
    rbind (deref (om_GetFromLogAddr (sw_Adapters s) (logAddress txLog))) (\<lambda>adapter.
      if LastSync (heap w adapter) < BlockNumber txLog then adapter_OnLog h adapter txLog w else Inr w)"

definition collect_calls ::
  "('r, 'c, 'd) block_change \<Rightarrow> sync_wrapper \<Rightarrow> int \<Rightarrow> 'r sync_world \<Rightarrow> ('c list \<times> 'r sync_world) res" where
  "collect_calls B s lastBlockNum w =
    rfold (\<lambda>adapter (calls, w).
        if LastSync (heap w adapter) \<ge> lastBlockNum then Inr (calls, w)
        else if isPool B adapter then
          rbind (PoolOnBlockChange B adapter lastBlockNum (repo w)) (\<lambda>(call, r).
            Inr (case call of Some c \<Rightarrow> calls @ [c] | None \<Rightarrow> calls, w\<lparr>repo := r\<rparr>))
        else Inr (calls, w))
      (om_GetAll (sw_Adapters s)) ([], w)"

definition onBlockChange ::
  "('r, 'c, 'd) block_change \<Rightarrow> sync_wrapper \<Rightarrow> int \<Rightarrow> 'r sync_world \<Rightarrow> 'r sync_world res" where
  "onBlockChange B s lastBlockNum w =
    rbind (collect_calls B s lastBlockNum w) (\<lambda>(calls, w1).
      let results = MakeMultiCall B lastBlockNum calls in
      rfold (\<lambda>(ind, result) w.
          rbind (go_index calls (int ind)) (\<lambda>c.
          rbind (processFn B c result (repo w)) (\<lambda>r. Inr (w\<lparr>repo := r\<rparr>))))
        (List.enumerate 0 results) w1)"

text \<open>\<^verbatim>\<open>SyncWrapper.OnLogs\<close>, with \<^verbatim>\<open>lastBlockNum == 0\<close> meaning no log has been seen.\<close>

fun sw_OnLogs_loop ::
  "('r, 'e) handler \<Rightarrow> ('r, 'c, 'd) block_change \<Rightarrow> sync_wrapper \<Rightarrow> int \<Rightarrow> 'e txlog list \<Rightarrow>
    'r sync_world \<Rightarrow> (int \<times> 'r sync_world) res" where
  "sw_OnLogs_loop h B s lastBlockNum [] w = Inr (lastBlockNum, w)"
| "sw_OnLogs_loop h B s lastBlockNum (txLog # txLogs) w =
    (let newBlockNum = BlockNumber txLog;
         last1 = (if lastBlockNum = 0 then newBlockNum else lastBlockNum)
     in rbind (if last1 \<noteq> newBlockNum then onBlockChange B s last1 w else Inr w) (\<lambda>w1.
        rbind (sw_OnLog h s txLog w1) (sw_OnLogs_loop h B s newBlockNum txLogs)))"

definition sw_OnLogs ::
  "('r, 'e) handler \<Rightarrow> ('r, 'c, 'd) block_change \<Rightarrow> sync_wrapper \<Rightarrow> 'e txlog list \<Rightarrow>
    'r sync_world \<Rightarrow> 'r sync_world res" where
  "sw_OnLogs h B s txLogs w =
    rbind (sw_OnLogs_loop h B s 0 txLogs w) (\<lambda>(lastBlockNum, w1).
      if lastBlockNum \<noteq> 0 then onBlockChange B s lastBlockNum w1 else Inr w1)"

definition sw_GetAllAddrsForLogs :: "sync_wrapper \<Rightarrow> 'r sync_world \<Rightarrow> address list res" where
  "sw_GetAllAddrsForLogs s w =
    rfold (\<lambda>cf acc. if \<not> Disabled (heap w cf)
                    then rbind (sa_GetAllAddrsForLogs (heap w cf)) (\<lambda>as. Inr (acc @ as)) else Inr acc)
      (om_GetAll (sw_Adapters s)) []"

definition sw_AfterSyncHook :: "sync_wrapper \<Rightarrow> int \<Rightarrow> 'r sync_world \<Rightarrow> 'r sync_world" where
  "sw_AfterSyncHook s syncTill w =
    foldl (\<lambda>w cf. if \<not> Disabled (heap w cf) then upd_adapter cf (sa_AfterSyncHook syncTill) w else w)
      w (om_GetAll (sw_Adapters s))"

definition sw_WillBeSyncedTo :: "sync_wrapper \<Rightarrow> int \<Rightarrow> 'r sync_world \<Rightarrow> 'r sync_world" where
  "sw_WillBeSyncedTo s blockNum w =
    foldl (\<lambda>w a. if LastSync (heap w a) < blockNum \<and> \<not> Disabled (heap w a)
                 then upd_adapter a (sa_WillBeSyncedTo blockNum) w else w)
      (w\<lparr>wrappers := (wrappers w)(sw_name s \<mapsto> s\<lparr>sw_WillSyncTill := blockNum\<rparr>)\<rparr>)
      (om_GetAll (sw_Adapters s))"

section \<open>The two kinds of objects behind the interface\<close>

text \<open>A plain adapter: the methods it inherits from \<^verbatim>\<open>ds.SyncAdapter\<close> and its own handlers.\<close>

definition plain_i :: "('r, 'e) handler \<Rightarrow> ('r sync_world, 'e) adapter_i" where
  "plain_i h =
    \<lparr>IsDisabled = (\<lambda>a w. Disabled (heap w a)),
     GetDataProcessType = (\<lambda>a w. DataProcessType (heap w a)),
     GetLastSync = (\<lambda>a w. LastSync (heap w a)),
     GetBlockToDisableOn = (\<lambda>a w. sa_GetBlockToDisableOn (heap w a)),
     GetAllAddrsForLogs = (\<lambda>a w. sa_GetAllAddrsForLogs (heap w a)),
     Topics = (\<lambda>_ _. []),
     WillBeSyncedTo = (\<lambda>a n w. upd_adapter a (sa_WillBeSyncedTo n) w),
     OnLog = adapter_OnLog h,
     OnLogs = (\<lambda>_ _ w. Inr w),
     Query = (\<lambda>_ _ w. Inr w),
     AfterSyncHook = (\<lambda>a n w. Inr (upd_adapter a (sa_AfterSyncHook n) w))\<rparr>"

definition the_wrapper :: "'r sync_world \<Rightarrow> address \<Rightarrow> sync_wrapper" where
  "the_wrapper w a = (case wrappers w a of Some s \<Rightarrow> s | None \<Rightarrow> NewSyncWrapper a)"

text \<open>
  A wrapper: never disabled, no disable block, and \<^verbatim>\<open>GetLastSync\<close> is the field that only
  \<^verbatim>\<open>AddSyncAdapter\<close> writes; \<^verbatim>\<open>AfterSyncHook\<close> moves the wrapped adapters only.
\<close>

definition wrapper_i ::
  "('r, 'e) handler \<Rightarrow> ('r, 'c, 'd) block_change \<Rightarrow> ('r sync_world, 'e) adapter_i" where
  "wrapper_i h B =
    \<lparr>IsDisabled = (\<lambda>_ _. False),
     GetDataProcessType = (\<lambda>a w. sw_GetDataProcessType (the_wrapper w a)),
     GetLastSync = (\<lambda>a w. sw_lastSync (the_wrapper w a)),
     GetBlockToDisableOn = (\<lambda>_ _. max_int64),
     GetAllAddrsForLogs = (\<lambda>a w. sw_GetAllAddrsForLogs (the_wrapper w a) w),
     Topics = (\<lambda>_ _. []),
     WillBeSyncedTo = (\<lambda>a n w. sw_WillBeSyncedTo (the_wrapper w a) n w),
     OnLog = (\<lambda>a l w. sw_OnLog h (the_wrapper w a) l w),
     OnLogs = (\<lambda>a ls w. sw_OnLogs h B (the_wrapper w a) ls w),
     Query = (\<lambda>_ _ w. Inr w),
     AfterSyncHook = (\<lambda>a n w. Inr (sw_AfterSyncHook (the_wrapper w a) n w))\<rparr>"

section \<open>The environment of a run over a chain\<close>

text \<open>
  The node as the list of its logs in block order: \<^verbatim>\<open>eth_getLogs\<close> returns those of the addresses and the
  block range, in order.  No topic filter is set by the adapters modelled here.
\<close>

definition chain_logs :: "'e txlog list \<Rightarrow> int \<Rightarrow> int \<Rightarrow> address list \<Rightarrow> 'e txlog list" where
  "chain_logs chain lo hi addrs =
    filter (\<lambda>l. lo \<le> BlockNumber l \<and> BlockNumber l \<le> hi \<and> logAddress l \<in> set addrs) chain"

record ('r, 'e) sync_params =
  p_chain :: "'e txlog list"
  p_dataAddress :: "'e txlog \<Rightarrow> address"
  p_AfterSync :: "int \<Rightarrow> 'r sync_world \<Rightarrow> 'r sync_world res"
  p_Flush :: "int \<Rightarrow> 'r sync_world \<Rightarrow> 'r sync_world res"
  p_CalculateDebtAndClear :: "int \<Rightarrow> 'r sync_world \<Rightarrow> 'r sync_world res"
  p_latest :: "int \<Rightarrow> 'r sync_world \<Rightarrow> int"

definition world_env :: "('r, 'e) sync_params \<Rightarrow> ('r sync_world, 'e) engine_env" where
  "world_env P =
    \<lparr>GetLogs = (\<lambda>lo hi addrs _. Inr (chain_logs (p_chain P) lo hi addrs)),
     dataAddress = p_dataAddress P,
     AddPauseDAOOperation = (\<lambda>d w. w\<lparr>pauses := pauses w @ [d]\<rparr>),
     env_kit = world_kit, put_kit = (\<lambda>k w. w\<lparr>world_kit := k\<rparr>),
     AfterSync = p_AfterSync P, Flush = p_Flush P, CalculateDebtAndClear = p_CalculateDebtAndClear P,
     GetLatestFinalizedBlock = p_latest P\<rparr>"

subsection \<open>Field lemmas\<close>

lemma upd_adapter_fields [simp]:
  "heap (upd_adapter a f w) = (heap w)(a := f (heap w a))"
  "wrappers (upd_adapter a f w) = wrappers w"
  "pauses (upd_adapter a f w) = pauses w"
  "repo (upd_adapter a f w) = repo w"
  by (simp_all add: upd_adapter_def)

lemma set_disable_blocks_fields [simp]:
  "wrappers (set_disable_blocks ds w) = wrappers w"
  "pauses (set_disable_blocks ds w) = pauses w"
  "repo (set_disable_blocks ds w) = repo w"
  "world_kit (set_disable_blocks ds w) = world_kit w"
  by (simp_all add: set_disable_blocks_def)

lemma set_disable_blocks_heap:
  "LastSync (heap (set_disable_blocks ds w) a) = LastSync (heap w a)"
  "Disabled (heap (set_disable_blocks ds w) a) = Disabled (heap w a)"
  "DataProcessType (heap (set_disable_blocks ds w) a) = DataProcessType (heap w a)"
  "Address (heap (set_disable_blocks ds w) a) = Address (heap w a)"
  "Details (heap (set_disable_blocks ds w) a) = Details (heap w a)"
proof -
  have "LastSync (h' a) = LastSync (h a) \<and> Disabled (h' a) = Disabled (h a) \<and>
      DataProcessType (h' a) = DataProcessType (h a) \<and> Address (h' a) = Address (h a) \<and> Details (h' a) = Details (h a)"
    if "h' = foldl (\<lambda>h (a, n). h(a := sa_SetBlockToDisableOn n (h a))) h ds" for h h'
    using that by (induction ds arbitrary: h) (auto simp: sa_SetBlockToDisableOn_def split: if_splits)
  then show "LastSync (heap (set_disable_blocks ds w) a) = LastSync (heap w a)"
    "Disabled (heap (set_disable_blocks ds w) a) = Disabled (heap w a)"
    "DataProcessType (heap (set_disable_blocks ds w) a) = DataProcessType (heap w a)"
    "Address (heap (set_disable_blocks ds w) a) = Address (heap w a)"
    "Details (heap (set_disable_blocks ds w) a) = Details (heap w a)"
    by (simp_all add: set_disable_blocks_def)
qed

lemma adapter_OnLog_keeps:
  assumes "adapter_OnLog h a l w = Inr w'"
  shows "LastSync (heap w' b) = LastSync (heap w b)" "Disabled (heap w' b) = Disabled (heap w b)"
    "DataProcessType (heap w' b) = DataProcessType (heap w b)" "wrappers w' = wrappers w" "pauses w' = pauses w"
    "Address (heap w' b) = Address (heap w b)" "Details (heap w' b) = Details (heap w b)"
  using assms by (auto simp: adapter_OnLog_def set_disable_blocks_heap elim!: rbind_InrE split: prod.splits)

lemma plain_i_sel [simp]:
  "IsDisabled (plain_i h) = (\<lambda>a w. Disabled (heap w a))"
  "GetDataProcessType (plain_i h) = (\<lambda>a w. DataProcessType (heap w a))"
  "GetLastSync (plain_i h) = (\<lambda>a w. LastSync (heap w a))"
  "GetBlockToDisableOn (plain_i h) = (\<lambda>a w. sa_GetBlockToDisableOn (heap w a))"
  "GetAllAddrsForLogs (plain_i h) = (\<lambda>a w. sa_GetAllAddrsForLogs (heap w a))"
  "Topics (plain_i h) = (\<lambda>_ _. [])"
  "WillBeSyncedTo (plain_i h) = (\<lambda>a n w. upd_adapter a (sa_WillBeSyncedTo n) w)"
  "OnLog (plain_i h) = adapter_OnLog h"
  "OnLogs (plain_i h) = (\<lambda>_ _ w. Inr w)"
  "AfterSyncHook (plain_i h) = (\<lambda>a n w. Inr (upd_adapter a (sa_AfterSyncHook n) w))"
  by (simp_all add: plain_i_def)

lemma wrapper_i_sel [simp]:
  "IsDisabled (wrapper_i h B) = (\<lambda>_ _. False)"
  "GetDataProcessType (wrapper_i h B) = (\<lambda>a w. sw_GetDataProcessType (the_wrapper w a))"
  "GetLastSync (wrapper_i h B) = (\<lambda>a w. sw_lastSync (the_wrapper w a))"
  "GetBlockToDisableOn (wrapper_i h B) = (\<lambda>_ _. max_int64)"
  "GetAllAddrsForLogs (wrapper_i h B) = (\<lambda>a w. sw_GetAllAddrsForLogs (the_wrapper w a) w)"
  "Topics (wrapper_i h B) = (\<lambda>_ _. [])"
  "WillBeSyncedTo (wrapper_i h B) = (\<lambda>a n w. sw_WillBeSyncedTo (the_wrapper w a) n w)"
  "OnLog (wrapper_i h B) = (\<lambda>a l w. sw_OnLog h (the_wrapper w a) l w)"
  "OnLogs (wrapper_i h B) = (\<lambda>a ls w. sw_OnLogs h B (the_wrapper w a) ls w)"
  "AfterSyncHook (wrapper_i h B) = (\<lambda>a n w. Inr (sw_AfterSyncHook (the_wrapper w a) n w))"
  by (simp_all add: wrapper_i_def)

lemma world_env_sel [simp]:
  "GetLogs (world_env P) = (\<lambda>lo hi addrs _. Inr (chain_logs (p_chain P) lo hi addrs))"
  "dataAddress (world_env P) = p_dataAddress P"
  "AddPauseDAOOperation (world_env P) = (\<lambda>d w. w\<lparr>pauses := pauses w @ [d]\<rparr>)"
  by (simp_all add: world_env_def)

text \<open>The pause rows the engine writes for a log.\<close>

definition pause_rows :: "('r, 'e) sync_params \<Rightarrow> 'e txlog \<Rightarrow> dao_pause list" where
  "pause_rows P l =
    (let row = (\<lambda>ty. \<lparr>dp_BlockNumber = BlockNumber l, dp_LogID = Index l, dp_TxHash = TxHash l,
                      dp_Contract = logAddress l, dp_Type = ty, dp_account = p_dataAddress P l\<rparr>) in
     if topic0 l = ''Paused(address)'' then [row Paused]
     else if topic0 l = ''Unpaused(address)'' then [row UnPaused] else [])"

lemma isEventPausedOrUnParsed_world:
  "isEventPausedOrUnParsed (world_env P) l w = (pause_rows P l \<noteq> [], w\<lparr>pauses := pauses w @ pause_rows P l\<rparr>)"
  by (simp add: isEventPausedOrUnParsed_def pause_rows_def Let_def)

section \<open>Plain adapters\<close>

interpretation plain: sync_progress "world_env P" "plain_i h" mdl for P h mdl
  by unfold_locales (auto simp: adapter_OnLog_keeps)

lemma plain_Disabled_step:
  assumes "SyncModel (world_env P) (plain_i h) a n w = Inr w'" and "LastSync (heap w a) < n"
  shows "Disabled (heap w' a) \<longleftrightarrow>
    Disabled (heap w a) \<or> (BlockToDisableOn (heap w' a) \<noteq> 0 \<and> BlockToDisableOn (heap w' a) \<le> LastSync (heap w' a))"
proof -
  let ?t = "min (sa_GetBlockToDisableOn (heap w a)) n"
  let ?w1 = "upd_adapter a (sa_WillBeSyncedTo ?t) w"
  let ?pause = "\<lambda>l w. w\<lparr>pauses := pauses w @ pause_rows P l\<rparr>"
  have "\<not> n \<le> GetLastSync (plain_i h) a w" using assms(2) by simp
  note run = assms(1)[unfolded SyncModel_run[OF this] plain_i_sel world_env_sel isEventPausedOrUnParsed_world snd_conv rbind_simps]
  from run obtain ls w2 where
    run: "(if DataProcessType (heap ?w1 a) = ViaMultipleLogs then Inr (foldl (\<lambda>w l. ?pause l w) ?w1 ls)
           else rfold (\<lambda>l w. adapter_OnLog h a l (?pause l w)) ls ?w1) = Inr w2"
    and w': "w' = upd_adapter a (sa_AfterSyncHook (min (sa_GetBlockToDisableOn (heap w2 a)) ?t)) w2"
    by (auto simp del: upd_adapter_fields split del: if_split elim!: rbind_InrE)
  have "Disabled (heap w2 a) = Disabled (heap ?w1 a)"
  proof (cases "DataProcessType (heap ?w1 a) = ViaMultipleLogs")
    case True
    then have "w2 = foldl (\<lambda>w l. ?pause l w) ?w1 ls" using run by simp
    then show ?thesis
      by (metis (mono_tags, lifting) foldl_invariant[of "\<lambda>v. Disabled (heap v a) = Disabled (heap ?w1 a)" ?w1 ls "\<lambda>w l. ?pause l w"]
          sync_world.select_convs(1) sync_world.surjective sync_world.update_convs(4))
  next
    case False
    then have "rfold (\<lambda>l w. adapter_OnLog h a l (?pause l w)) ls ?w1 = Inr w2" using run by simp
    then show ?thesis
      by (rule rfold_invariant[where I = "\<lambda>v. Disabled (heap v a) = Disabled (heap ?w1 a)"])
        (simp_all add: adapter_OnLog_keeps(2))
  qed
  then show ?thesis unfolding w' by simp
qed

text \<open>
  C8: a plain adapter that is behind is synced to the target or to its disable block, whichever
  comes first (also when a handler sets the block during this very round), and it comes out
  disabled exactly if it was disabled before or its disable block has been reached.
\<close>

theorem SyncModel_plain_stops_at_disable_block:
  assumes "SyncModel (world_env P) (plain_i h) a n w = Inr w'" and "LastSync (heap w a) < n"
  shows "LastSync (heap w' a) =
      min (sa_GetBlockToDisableOn (heap w' a)) (min (sa_GetBlockToDisableOn (heap w a)) n) \<and>
    (Disabled (heap w' a) \<longleftrightarrow> Disabled (heap w a) \<or>
       (BlockToDisableOn (heap w' a) \<noteq> 0 \<and> BlockToDisableOn (heap w' a) \<le> LastSync (heap w' a)))"
  using plain.SyncModel_last[OF assms(1)] plain_Disabled_step[OF assms] assms(2) by simp

text \<open>A concrete world for the witnesses: one adapter, with a handler that counts logs.\<close>

definition demo_adapter :: "address \<Rightarrow> int \<Rightarrow> sync_adapter" where
  "demo_adapter a n =
    \<lparr>Address = a, ContractName = ACL, DiscoveredAt = 1, FirstLogAt = 1, LastSync = n, Disabled = False,
     BlockToDisableOn = 0, V = 1, ErrorMsg = '''', Details = None, UnderlyingStateToSave = False,
     DataProcessType = 0, WillSyncTill = 0\<rparr>"

definition demo_world :: "(string \<rightharpoonup> sync_wrapper) \<Rightarrow> nat sync_world" where
  "demo_world ws =
    \<lparr>heap = (\<lambda>a. demo_adapter a 9), wrappers = ws, world_kit = NewAdapterKit, pauses = [], repo = 0\<rparr>"

definition demo_log :: "int \<Rightarrow> address \<Rightarrow> string \<Rightarrow> unit txlog" where
  "demo_log b a t =
    \<lparr>BlockNumber = b, Index = 0, TxIndex = 0, TxHash = ''t'', logAddress = a, topic0 = t, payload = ()\<rparr>"

definition demo_params :: "unit txlog list \<Rightarrow> (nat, unit) sync_params" where
  "demo_params chain =
    \<lparr>p_chain = chain, p_dataAddress = (\<lambda>_. ''acc''), p_AfterSync = (\<lambda>_. Inr), p_Flush = (\<lambda>_. Inr),
     p_CalculateDebtAndClear = (\<lambda>_. Inr), p_latest = (\<lambda>_ _. 0)\<rparr>"

definition demo_count :: "(nat, unit) handler" where
  "demo_count a l w = Inr (Suc (repo w), [])"

definition demo_disable :: "(nat, unit) handler" where
  "demo_disable a l w = Inr (Suc (repo w), [(a, 15)])"

definition demo_bc :: "(nat, unit, unit) block_change" where
  "demo_bc =
    \<lparr>isPool = (\<lambda>_. False), PoolOnBlockChange = (\<lambda>_ _ r. Inr (None, r)), MakeMultiCall = (\<lambda>_ _. []),
     processFn = (\<lambda>_ _. Inr)\<rparr>"

lemmas demo_defs = demo_adapter_def demo_world_def demo_log_def demo_params_def demo_count_def demo_disable_def

theorem SyncModel_plain_stops_at_disable_block_witness:
  "\<exists>w'. SyncModel (world_env (demo_params [demo_log 12 ''x'' ''E()''])) (plain_i demo_disable) ''x'' 20
          (demo_world Map.empty) = Inr w' \<and>
     LastSync (heap w' ''x'') = 15 \<and> Disabled (heap w' ''x'')"
proof -
  let ?P = "demo_params [demo_log 12 ''x'' ''E()'']" and ?w = "demo_world Map.empty"
  obtain w' where w': "SyncModel (world_env ?P) (plain_i demo_disable) ''x'' 20 ?w = Inr w'"
    "BlockToDisableOn (heap w' ''x'') = 15"
    by (simp add: SyncModel_def demo_defs Let_def sa_GetAllAddrsForLogs_def chain_logs_def
        isEventPausedOrUnParsed_world pause_rows_def adapter_OnLog_def set_disable_blocks_def
        sa_GetBlockToDisableOn_def sa_WillBeSyncedTo_def sa_SetBlockToDisableOn_def max_int64_eq)
  have "LastSync (heap ?w ''x'') < 20" by (simp add: demo_defs)
  from SyncModel_plain_stops_at_disable_block[OF w'(1) this] w' show ?thesis
    by (simp add: sa_GetBlockToDisableOn_def demo_defs max_int64_eq)
qed

subsection \<open>Syncing in two batches\<close>



















section \<open>Wrappers\<close>

lemma sw_OnLog_keeps:
  assumes "sw_OnLog h s l w = Inr w'"
  shows "LastSync (heap w' b) = LastSync (heap w b)" "Disabled (heap w' b) = Disabled (heap w b)"
    "wrappers w' = wrappers w" "pauses w' = pauses w"
    "Address (heap w' b) = Address (heap w b)" "Details (heap w' b) = Details (heap w b)"
  using assms by (auto simp: sw_OnLog_def adapter_OnLog_keeps elim!: rbind_InrE split: if_splits)

lemma sw_AfterSyncHook_wrappers [simp]: "wrappers (sw_AfterSyncHook s n w) = wrappers w"
  unfolding sw_AfterSyncHook_def by (rule foldl_invariant) auto

lemma sw_WillBeSyncedTo_wrappers [simp]:
  "wrappers (sw_WillBeSyncedTo s n w) = (wrappers w)(sw_name s \<mapsto> s\<lparr>sw_WillSyncTill := n\<rparr>)"
  unfolding sw_WillBeSyncedTo_def by (rule foldl_invariant) auto

lemma collect_calls_keeps:
  assumes "collect_calls B s n w = Inr (cs, w')"
  shows "wrappers w' = wrappers w \<and> heap w' = heap w"
proof -
  have "case p of (_, v) \<Rightarrow> wrappers v = wrappers w \<and> heap v = heap w" if "collect_calls B s n w = Inr p" for p
    using that unfolding collect_calls_def
    by (rule rfold_invariant) (auto simp: go_simps split: if_splits prod.splits)
  with assms show ?thesis by fastforce
qed

lemma onBlockChange_keeps:
  assumes "onBlockChange B s n w = Inr w'"
  shows "wrappers w' = wrappers w \<and> heap w' = heap w"
proof -
  from assms obtain cs w1 where c: "collect_calls B s n w = Inr (cs, w1)"
    and r: "rfold (\<lambda>(ind, result) w. rbind (go_index cs (int ind)) (\<lambda>c.
          rbind (processFn B c result (repo w)) (\<lambda>r. Inr (w\<lparr>repo := r\<rparr>))))
        (List.enumerate 0 (MakeMultiCall B n cs)) w1 = Inr w'"
    by (auto simp: onBlockChange_def elim!: rbind_InrE)
  have "wrappers w' = wrappers w1 \<and> heap w' = heap w1"
    using r by (rule rfold_invariant) (auto elim!: rbind_InrE)
  with collect_calls_keeps[OF c] show ?thesis by simp
qed

lemma sw_OnLogs_wrappers: "sw_OnLogs h B s ls w = Inr w' \<Longrightarrow> wrappers w' = wrappers w"
proof -
  have loop: "sw_OnLogs_loop h B s n ls w = Inr (m, v) \<Longrightarrow> wrappers v = wrappers w" for n m v
  proof (induction h B s n ls w rule: sw_OnLogs_loop.induct)
    case (2 h B s n l ls w)
    let ?last = "if n = 0 then BlockNumber l else n"
    from "2.prems" obtain w1 w2 where
      w1: "(if ?last \<noteq> BlockNumber l then onBlockChange B s ?last w else Inr w) = Inr w1"
      and w2: "sw_OnLog h s l w1 = Inr w2" and rest: "sw_OnLogs_loop h B s (BlockNumber l) ls w2 = Inr (m, v)"
      unfolding sw_OnLogs_loop.simps Let_def by (elim rbind_InrE)
    have "wrappers w1 = wrappers w"
      using w1 by (cases "?last \<noteq> BlockNumber l") (simp_all add: onBlockChange_keeps split del: if_split)
    with "2.IH"[OF refl refl w1 w2 rest] sw_OnLog_keeps(3)[OF w2] show ?case by simp
  qed simp
  show "sw_OnLogs h B s ls w = Inr w' \<Longrightarrow> wrappers w' = wrappers w"
    by (auto simp: sw_OnLogs_def dest!: loop onBlockChange_keeps elim!: rbind_InrE split: if_splits)
qed

interpretation wrapped: sync_static "world_env P" "wrapper_i h B" mdl for P h B mdl
proof (unfold_locales, goal_cases)
  case (1 n w)
  then show ?case by (auto simp: the_wrapper_def NewSyncWrapper_def split: option.splits)
qed (auto simp: the_wrapper_def sw_OnLog_keeps sw_OnLogs_wrappers)

text \<open>
  A wrapper never advances.  Whatever a successful round does, the block a wrapper starts to
  fetch from in the next round is the one it started from in this round, so its logs are fetched
  again and again; only \<open>sw_AddSyncAdapter\<close> moves the field, downwards.
\<close>

theorem SyncModel_wrapper_refetches:
  "SyncModel (world_env P) (wrapper_i h B) a n w = Inr w' \<Longrightarrow>
     sw_lastSync (the_wrapper w' a) = sw_lastSync (the_wrapper w a)"
  using wrapped.SyncModel_static[of P h B a n w w'] by simp

theorem SyncModel_wrapper_refetches_witness:
  "\<exists>w'. SyncModel (world_env (demo_params [])) (wrapper_i demo_count demo_bc) ''CFWrapper'' 20 (demo_world Map.empty) = Inr w' \<and>
     sw_lastSync (the_wrapper w' ''CFWrapper'') = max_int64 - 10"
proof -
  have run: "SyncModel (world_env (demo_params [])) (wrapper_i demo_count demo_bc) ''CFWrapper'' 20 (demo_world Map.empty)
      = Inr (demo_world Map.empty)"
    by (simp add: SyncModel_def the_wrapper_def NewSyncWrapper_def demo_defs max_int64_eq)
  from SyncModel_wrapper_refetches[OF run] show ?thesis
    using run by (simp add: the_wrapper_def NewSyncWrapper_def demo_defs)
qed

subsection \<open>Fetching again is harmless to the adapters\<close>

text \<open>
  The state of an adapter that the hook has moved to \<open>n\<close>: its last sync is \<open>n\<close>, and it is disabled
  if its disable block has been reached.
\<close>

definition settled :: "int \<Rightarrow> sync_adapter \<Rightarrow> bool" where
  "settled n x \<longleftrightarrow> LastSync x = n \<and> (BlockToDisableOn x \<noteq> 0 \<and> BlockToDisableOn x \<le> n \<longrightarrow> Disabled x)"

lemma settled_hook [simp]: "settled n (sa_AfterSyncHook n x)"
  by (simp add: settled_def)

lemma hook_settled: "settled n x \<Longrightarrow> \<not> Disabled x \<Longrightarrow> sa_AfterSyncHook n x = x"
  by (auto simp: settled_def sa_AfterSyncHook_def disableOnBlock_def setLastSync_def)

lemma sw_AfterSyncHook_settles:
  assumes "b \<in> set (om_GetAll (sw_Adapters s))" and "\<not> Disabled (heap w b)"
  shows "settled n (heap (sw_AfterSyncHook s n w) b)"
proof -
  let ?f = "\<lambda>w cf. if \<not> Disabled (heap w cf) then upd_adapter cf (sa_AfterSyncHook n) w else w"
  have keep: "settled n (heap v b) \<Longrightarrow> settled n (heap (foldl ?f v as) b)" for v as
    by (rule foldl_invariant) auto
  have "b \<in> set as \<Longrightarrow> \<not> Disabled (heap v b) \<Longrightarrow> settled n (heap (foldl ?f v as) b)" for v as
  proof (induction as arbitrary: v)
    case (Cons c as)
    show ?case
    proof (cases "b = c")
      case True
      then show ?thesis using Cons.prems keep[of "upd_adapter c (sa_AfterSyncHook n) v" as] by simp
    next
      case False
      then show ?thesis using Cons by simp
    qed
  qed simp
  with assms show ?thesis unfolding sw_AfterSyncHook_def by blast
qed

lemma sw_AfterSyncHook_mono:
  "Disabled (heap w b) \<Longrightarrow> Disabled (heap (sw_AfterSyncHook s n w) b)"
  "Address (heap (sw_AfterSyncHook s n w) b) = Address (heap w b) \<and>
   Details (heap (sw_AfterSyncHook s n w) b) = Details (heap w b)"
  unfolding sw_AfterSyncHook_def by (rule foldl_invariant; auto)+

lemma sw_AfterSyncHook_id:
  assumes "\<And>b. b \<in> set (om_GetAll (sw_Adapters s)) \<Longrightarrow> \<not> Disabled (heap w b) \<Longrightarrow> settled n (heap w b)"
  shows "sw_AfterSyncHook s n w = w"
  unfolding sw_AfterSyncHook_def
  by (rule foldl_invariant[where I = "\<lambda>v. v = w"]) (auto simp: hook_settled[OF assms] upd_adapter_def)

lemma sw_WillBeSyncedTo_id:
  assumes "\<And>b. b \<in> set (om_GetAll (sw_Adapters s)) \<Longrightarrow> \<not> Disabled (heap w b) \<Longrightarrow> settled n (heap w b)"
    and "wrappers w (sw_name s) = Some s" and "sw_WillSyncTill s = n"
  shows "sw_WillBeSyncedTo s n w = w"
proof -
  have w: "w\<lparr>wrappers := (wrappers w)(sw_name s \<mapsto> s\<lparr>sw_WillSyncTill := n\<rparr>)\<rparr> = w"
    using assms(2,3) by (simp add: fun_upd_idem)
  show ?thesis unfolding sw_WillBeSyncedTo_def w
    by (rule foldl_invariant[where I = "\<lambda>v. v = w"]) (use assms(1) in \<open>auto simp: settled_def\<close>)
qed

text \<open>
  Every address an enabled adapter of the wrapper fetches logs for is served by an enabled adapter
  of the wrapper.  \<open>sw_AddSyncAdapter\<close> registers the adapter under all its addresses.
\<close>

definition wrapper_serves :: "sync_wrapper \<Rightarrow> (address \<Rightarrow> sync_adapter) \<Rightarrow> bool" where
  "wrapper_serves s hp \<longleftrightarrow>
    (\<forall>b \<in> set (om_GetAll (sw_Adapters s)). \<not> Disabled (hp b) \<longrightarrow>
      (\<exists>as. sa_GetAllAddrsForLogs (hp b) = Inr as \<and>
        (\<forall>x \<in> set as. \<exists>c \<in> set (om_GetAll (sw_Adapters s)). om_GetFromLogAddr (sw_Adapters s) x = Some c \<and> \<not> Disabled (hp c))))"

lemma sw_GetAllAddrsForLogs_served:
  assumes "wrapper_serves s hp"
    and "\<And>b. \<not> Disabled (heap w b) \<Longrightarrow>
      \<not> Disabled (hp b) \<and> Address (heap w b) = Address (hp b) \<and> Details (heap w b) = Details (hp b)"
  shows "\<exists>as. sw_GetAllAddrsForLogs s w = Inr as \<and>
    (\<forall>x \<in> set as. \<exists>c \<in> set (om_GetAll (sw_Adapters s)). om_GetFromLogAddr (sw_Adapters s) x = Some c \<and> \<not> Disabled (hp c))"
  unfolding sw_GetAllAddrsForLogs_def
proof (rule rfold_total, goal_cases)
  case (2 b acc)
  show ?case
  proof (cases "Disabled (heap w b)")
    case False
    note eq = assms(2)[OF False]
    from eq 2(1) assms(1) obtain as where "sa_GetAllAddrsForLogs (hp b) = Inr as"
      "\<forall>x \<in> set as. \<exists>c \<in> set (om_GetAll (sw_Adapters s)). om_GetFromLogAddr (sw_Adapters s) x = Some c \<and> \<not> Disabled (hp c)"
      unfolding wrapper_serves_def by blast
    then show ?thesis using False 2(2) eq sa_GetAllAddrsForLogs_cong[of "heap w b" "hp b"] by auto
  qed (use 2 in simp)
qed simp

lemma rfold_skip:
  assumes "\<And>l ps. l \<in> set ls \<Longrightarrow> f l (w\<lparr>pauses := ps\<rparr>) = Inr (w\<lparr>pauses := ps\<rparr>)"
  shows "rfold (\<lambda>l v. f l (v\<lparr>pauses := pauses v @ pause_rows P l\<rparr>)) ls w =
    Inr (w\<lparr>pauses := pauses w @ concat (map (pause_rows P) ls)\<rparr>)"
proof -
  have "rfold (\<lambda>l v. f l (v\<lparr>pauses := pauses v @ pause_rows P l\<rparr>)) ls (w\<lparr>pauses := ps\<rparr>) =
      Inr (w\<lparr>pauses := ps @ concat (map (pause_rows P) ls)\<rparr>)" for ps
    using assms by (induction ls arbitrary: ps) simp_all
  from this[of "pauses w"] show ?thesis by simp
qed

lemma sw_WillBeSyncedTo_heap:
  "Disabled (heap (sw_WillBeSyncedTo s n w) b) = Disabled (heap w b) \<and>
   Address (heap (sw_WillBeSyncedTo s n w) b) = Address (heap w b) \<and>
   Details (heap (sw_WillBeSyncedTo s n w) b) = Details (heap w b)"
  unfolding sw_WillBeSyncedTo_def
  by (rule foldl_invariant) (auto simp: sa_WillBeSyncedTo_def)

text \<open>What a successful round of a wrapper leaves behind.\<close>

lemma SyncModel_wrapper_run:
  assumes "SyncModel (world_env P) (wrapper_i h B) a n w = Inr w'" and "sw_name (the_wrapper w a) = a"
    and "sw_GetDataProcessType (the_wrapper w a) = ViaLog" and "sw_lastSync (the_wrapper w a) < n" and "n \<le> max_int64"
  shows "wrappers w' a = Some ((the_wrapper w a)\<lparr>sw_WillSyncTill := n\<rparr>)"
    and "\<And>b. b \<in> set (om_GetAll (sw_Adapters (the_wrapper w a))) \<Longrightarrow> \<not> Disabled (heap w b) \<Longrightarrow> settled n (heap w' b)"
    and "\<And>b. \<not> Disabled (heap w' b) \<Longrightarrow>
      \<not> Disabled (heap w b) \<and> Address (heap w' b) = Address (heap w b) \<and> Details (heap w' b) = Details (heap w b)"
proof -
  let ?s = "the_wrapper w a" and ?pause = "\<lambda>l w. w\<lparr>pauses := pauses w @ pause_rows P l\<rparr>"
  let ?w1 = "sw_WillBeSyncedTo ?s n w"
  have m: "min max_int64 n = n" using assms(5) by simp
  have b: "\<not> n \<le> GetLastSync (wrapper_i h B) a w" using assms(4) by simp
  have s1: "wrappers ?w1 a = Some (?s\<lparr>sw_WillSyncTill := n\<rparr>)" using assms(2) by simp
  have via: "\<not> sw_GetDataProcessType (the_wrapper ?w1 a) = ViaMultipleLogs"
    using assms(3) s1 by (simp add: the_wrapper_def[of ?w1] sw_GetDataProcessType_def split: if_splits)
  note run = assms(1)[unfolded SyncModel_run[OF b] wrapper_i_sel world_env_sel isEventPausedOrUnParsed_world
      snd_conv rbind_simps m if_not_P[OF via]]
  from run obtain ls w2 where
    w2: "rfold (\<lambda>l w. sw_OnLog h (the_wrapper (?pause l w) a) l (?pause l w)) ls ?w1 = Inr w2"
    and w': "w' = sw_AfterSyncHook (the_wrapper w2 a) n w2"
    by (auto elim!: rbind_InrE)
  have inv: "wrappers w2 = wrappers ?w1 \<and> (\<forall>b. Disabled (heap w2 b) = Disabled (heap ?w1 b) \<and>
      Address (heap w2 b) = Address (heap ?w1 b) \<and> Details (heap w2 b) = Details (heap ?w1 b))"
    by (rule rfold_invariant[OF w2]) (auto simp: sw_OnLog_keeps)
  with s1 have s2: "the_wrapper w2 a = ?s\<lparr>sw_WillSyncTill := n\<rparr>" by (simp add: the_wrapper_def)
  show "wrappers w' a = Some (?s\<lparr>sw_WillSyncTill := n\<rparr>)" using inv s1 unfolding w' by simp
  show "settled n (heap w' b)" if "b \<in> set (om_GetAll (sw_Adapters ?s))" "\<not> Disabled (heap w b)" for b
    unfolding w' s2 using that inv sw_WillBeSyncedTo_heap[of ?s n w b]
    by (intro sw_AfterSyncHook_settles) auto
  show "\<not> Disabled (heap w b) \<and> Address (heap w' b) = Address (heap w b) \<and> Details (heap w' b) = Details (heap w b)"
    if "\<not> Disabled (heap w' b)" for b
    using that inv sw_WillBeSyncedTo_heap[of ?s n w b] sw_AfterSyncHook_mono[where w = w2 and b = b and s = "the_wrapper w2 a" and n = n]
    unfolding w' by auto
qed

text \<open>
  C7: fetching the same range again does not change what the adapters of a log-by-log wrapper have
  recorded.  A second round to the same block succeeds and leaves the repository, the adapters, the
  wrappers and the kit as they are; the only thing it adds are the pause and unpause rows of the
  logs it fetched, once more.
\<close>

theorem SyncModel_wrapper_again:
  assumes "SyncModel (world_env P) (wrapper_i h B) a n w = Inr w'" and "sw_name (the_wrapper w a) = a"
    and "sw_GetDataProcessType (the_wrapper w a) = ViaLog" and "sw_lastSync (the_wrapper w a) < n" and "n \<le> max_int64"
    and "wrapper_serves (the_wrapper w a) (heap w)"
  shows "\<exists>addrs. sw_GetAllAddrsForLogs (the_wrapper w' a) w' = Inr addrs \<and>
    SyncModel (world_env P) (wrapper_i h B) a n w' =
      Inr (w'\<lparr>pauses := pauses w' @ concat (map (pause_rows P)
              (chain_logs (p_chain P) (sw_lastSync (the_wrapper w a) + 1) n addrs))\<rparr>)"
proof -
  let ?s = "the_wrapper w a" and ?pause = "\<lambda>l w. w\<lparr>pauses := pauses w @ pause_rows P l\<rparr>"
  let ?s1 = "?s\<lparr>sw_WillSyncTill := n\<rparr>"
  note first = SyncModel_wrapper_run[OF assms(1-5)]
  have s1: "the_wrapper w' a = ?s1" using first(1) by (simp add: the_wrapper_def[of w'])
  have settled: "b \<in> set (om_GetAll (sw_Adapters ?s1)) \<Longrightarrow> \<not> Disabled (heap w' b) \<Longrightarrow> settled n (heap w' b)" for b
    using first(2,3) by simp
  have will: "sw_WillBeSyncedTo ?s1 n w' = w'"
    by (rule sw_WillBeSyncedTo_id[OF settled]) (use first(1) assms(2) in simp_all)
  from sw_GetAllAddrsForLogs_served[OF assms(6) first(3)] obtain addrs where
    addrs: "sw_GetAllAddrsForLogs ?s1 w' = Inr addrs"
    and served: "\<And>x. x \<in> set addrs \<Longrightarrow> \<exists>c \<in> set (om_GetAll (sw_Adapters ?s)).
        om_GetFromLogAddr (sw_Adapters ?s) x = Some c \<and> \<not> Disabled (heap w c)"
    by (auto simp: sw_GetAllAddrsForLogs_def)
  let ?logs = "chain_logs (p_chain P) (sw_lastSync ?s + 1) n addrs"
  have tw: "the_wrapper (w'\<lparr>pauses := ps\<rparr>) a = ?s1" for ps using s1 by (simp add: the_wrapper_def)
  have loop: "rfold (\<lambda>l w. sw_OnLog h (the_wrapper (?pause l w) a) l (?pause l w)) ?logs w' =
      Inr (w'\<lparr>pauses := pauses w' @ concat (map (pause_rows P) ?logs)\<rparr>)"
  proof (rule rfold_skip[where f = "\<lambda>l v. sw_OnLog h (the_wrapper v a) l v"])
    fix l ps
    assume "l \<in> set ?logs"
    then have l: "BlockNumber l \<le> n" "logAddress l \<in> set addrs" by (auto simp: chain_logs_def)
    from served[OF l(2)] obtain c where c: "c \<in> set (om_GetAll (sw_Adapters ?s))"
      "om_GetFromLogAddr (sw_Adapters ?s) (logAddress l) = Some c" "\<not> Disabled (heap w c)" by blast
    with first(2) have "LastSync (heap w' c) = n" by (auto simp: settled_def)
    with c(2) l(1) show "sw_OnLog h (the_wrapper (w'\<lparr>pauses := ps\<rparr>) a) l (w'\<lparr>pauses := ps\<rparr>) = Inr (w'\<lparr>pauses := ps\<rparr>)"
      by (simp add: sw_OnLog_def tw)
  qed
  have m: "min max_int64 n = n" using assms(5) by simp
  have b: "\<not> n \<le> GetLastSync (wrapper_i h B) a w'" using assms(4) s1 by simp
  have via: "\<not> sw_GetDataProcessType ?s1 = ViaMultipleLogs" using assms(3) by (simp add: sw_GetDataProcessType_def split: if_splits)
  have hook: "sw_AfterSyncHook ?s1 n (w'\<lparr>pauses := ps\<rparr>) = w'\<lparr>pauses := ps\<rparr>" for ps
    by (rule sw_AfterSyncHook_id) (use settled in simp)
  have last: "sw_lastSync ?s1 = sw_lastSync ?s" by simp
  have "SyncModel (world_env P) (wrapper_i h B) a n w' =
      Inr (w'\<lparr>pauses := pauses w' @ concat (map (pause_rows P) ?logs)\<rparr>)"
    unfolding SyncModel_run[OF b] wrapper_i_sel world_env_sel isEventPausedOrUnParsed_world snd_conv rbind_simps m
      s1 will addrs if_not_P[OF via] last
    by (simp only: loop rbind_simps tw hook)
  with addrs s1 show ?thesis by simp
qed

definition demo_wrapper :: sync_wrapper where
  "demo_wrapper =
    \<lparr>sw_Adapters = om_Add ''x'' [''x''] ''x'' NewOrderedMap, sw_ViaDataProcess = 0, sw_name = ''CFWrapper'',
     sw_lastSync = 9, sw_WillSyncTill = 0\<rparr>"

lemmas demo_wrapper_defs = demo_wrapper_def om_Add_def NewOrderedMap_def om_GetAll_def om_GetFromLogAddr_def

theorem SyncModel_wrapper_again_witness:
  "\<exists>w' addrs. SyncModel (world_env (demo_params [demo_log 12 ''x'' ''Paused(address)''])) (wrapper_i demo_count demo_bc) ''CFWrapper'' 20
        (demo_world [''CFWrapper'' \<mapsto> demo_wrapper]) = Inr w' \<and> repo w' = 1 \<and>
    SyncModel (world_env (demo_params [demo_log 12 ''x'' ''Paused(address)''])) (wrapper_i demo_count demo_bc) ''CFWrapper'' 20 w'
      = Inr (w'\<lparr>pauses := pauses w' @ concat (map (pause_rows (demo_params [demo_log 12 ''x'' ''Paused(address)'']))
          (chain_logs [demo_log 12 ''x'' ''Paused(address)''] 10 20 addrs))\<rparr>)"
proof -
  let ?P = "demo_params [demo_log 12 ''x'' ''Paused(address)'']"
  let ?w = "demo_world [''CFWrapper'' \<mapsto> demo_wrapper]"
  have tw: "the_wrapper ?w ''CFWrapper'' = demo_wrapper" by (simp add: the_wrapper_def demo_defs)
  obtain w' where w': "SyncModel (world_env ?P) (wrapper_i demo_count demo_bc) ''CFWrapper'' 20 ?w = Inr w'" "repo w' = 1"
    by (simp add: SyncModel_def tw)
      (simp add: demo_wrapper_defs demo_defs Let_def sw_GetAllAddrsForLogs_def sa_GetAllAddrsForLogs_def chain_logs_def
        isEventPausedOrUnParsed_world pause_rows_def adapter_OnLog_def sw_OnLog_def sw_WillBeSyncedTo_def
        sw_AfterSyncHook_def sw_GetDataProcessType_def the_wrapper_def max_int64_eq sa_WillBeSyncedTo_def)
  have "wrapper_serves (the_wrapper ?w ''CFWrapper'') (heap ?w)"
    unfolding tw by (simp add: wrapper_serves_def demo_wrapper_defs demo_defs sa_GetAllAddrsForLogs_def)
  moreover have "sw_name (the_wrapper ?w ''CFWrapper'') = ''CFWrapper''" "sw_lastSync (the_wrapper ?w ''CFWrapper'') < 20"
    "sw_GetDataProcessType (the_wrapper ?w ''CFWrapper'') = ViaLog" "(20::int) \<le> max_int64"
    unfolding tw by (simp_all add: demo_wrapper_def sw_GetDataProcessType_def max_int64_eq)
  ultimately obtain addrs where
    "SyncModel (world_env ?P) (wrapper_i demo_count demo_bc) ''CFWrapper'' 20 w' =
      Inr (w'\<lparr>pauses := pauses w' @ concat (map (pause_rows ?P)
              (chain_logs (p_chain ?P) (sw_lastSync demo_wrapper + 1) 20 addrs))\<rparr>)"
    using SyncModel_wrapper_again[OF w'(1)] unfolding tw by blast
  moreover have "p_chain ?P = [demo_log 12 ''x'' ''Paused(address)'']" "sw_lastSync demo_wrapper + 1 = 10"
    by (simp_all add: demo_params_def demo_wrapper_def)
  ultimately show ?thesis using w' by (intro exI[of _ w'] exI[of _ addrs]) simp
qed

end
