(* ===== verification/Multicalls.thy ===== *)
theory Multicalls
  imports Sync_Adapter "HOL-Library.Multiset" "HOL-Library.Sublist"
begin

text \<open>
  \<^verbatim>\<open>ds/multicall_processor.go\<close>, the call/event comparison of \<^verbatim>\<open>ds/execute_parser.go\<close> and the structure repair
  of \<^verbatim>\<open>models/credit_manager/facade_actions.go\<close>: how the events of one transaction on a credit facade are
  grouped into facade actions and matched with the calls of the transaction trace.

  An account operation that can carry a multicall is split in two: the operation and the list in its
  \<^verbatim>\<open>MultiCall\<close> field, which only the facade actions use (\<open>fa_MultiCall\<close>).
\<close>

section \<open>Account operations\<close>

record account_operation =
  ao_TxHash :: txhash
  ao_BlockNumber :: int
  ao_LogId :: int
  ao_Borrower :: address
  ao_SessionId :: string
  ao_Dapp :: address
  ao_Action :: string
  ao_Args :: "json_obj option"
  ao_AdapterCall :: bool
  ao_Transfers :: "(address \<times> int) list option"

record execute_params =
  ep_SessionId :: string
  ep_CreditAccount :: address
  ep_Protocol :: address
  ep_Borrower :: address
  ep_Index :: int
  ep_BlockNumber :: int

text \<open>A stored operation with its multicall.\<close>

type_synonym stored_operation = "account_operation \<times> account_operation list"

datatype facade_type = GBv2FacadeOpenEvent | GBv2FacadeMulticallEvent | GBv2FacadeCloseEvent

record facade_action =
  fa_Data :: account_operation
  fa_MultiCall :: "account_operation list"
  fa_Type :: facade_type
  withoutMC :: bool
  ended :: bool

definition LenofMulticalls :: "facade_action \<Rightarrow> nat" where
  "LenofMulticalls v = length (fa_MultiCall v)"

definition SetMulticalls :: "account_operation list \<Rightarrow> facade_action \<Rightarrow> facade_action" where
  "SetMulticalls ops v = v\<lparr>fa_MultiCall := ops\<rparr>"

section \<open>The processor\<close>

record multi_call_processor =
  running :: bool
  nonMultiCallEvents :: "account_operation list"
  noOfOpens :: nat
  facadeActions :: "facade_action list"

definition empty_processor :: multi_call_processor where
  "empty_processor = \<lparr>running = False, nonMultiCallEvents = [], noOfOpens = 0, facadeActions = []\<rparr>"

definition lastMainAction :: "multi_call_processor \<Rightarrow> facade_action option" where
  "lastMainAction p = (if facadeActions p \<noteq> [] then Some (last (facadeActions p)) else None)"

text \<open>Writing through the pointer \<^verbatim>\<open>lastMainAction\<close>.\<close>

definition set_last :: "facade_action \<Rightarrow> multi_call_processor \<Rightarrow> multi_call_processor" where
  "set_last a p = p\<lparr>facadeActions := butlast (facadeActions p) @ [a]\<rparr>"

abbreviation "AddCollateralEvent \<equiv> ''AddCollateral(address,address,uint256)''"
abbreviation "IncreaseBorrowEvent \<equiv> ''IncreaseBorrowedAmount(address,uint256)''"
abbreviation "DecreaseBorrowEvent \<equiv> ''DecreaseBorrowedAmount(address,uint256)''"
abbreviation "TokenEnabledEvent \<equiv> ''TokenEnabled(address,address)''"
abbreviation "TokenDisabledEvent \<equiv> ''TokenDisabled(address,address)''"
abbreviation "ExecuteOrderEvent \<equiv> ''ExecuteOrder''"
abbreviation "MultiCallStartedEvent \<equiv> ''MultiCallStarted(address)''"
abbreviation "OpenV2Event \<equiv> ''OpenCreditAccount(address,address,uint256,uint16)''"
abbreviation "LiquidateV2Event \<equiv> ''LiquidateCreditAccount(address,address,address,uint256)''"
abbreviation "CloseV2Event \<equiv> ''CloseCreditAccount(address,address)''"

definition AddMulticallEvent :: "account_operation \<Rightarrow> multi_call_processor \<Rightarrow> multi_call_processor res" where
  "AddMulticallEvent operation p =
    (if \<not> running p then
       (case lastMainAction p of
          Some a \<Rightarrow>
            if fa_Type a = GBv2FacadeOpenEvent \<and> ao_Action operation = AddCollateralEvent \<and> \<not> ended a
            then rbind (guard_fatal (fa_MultiCall a \<noteq> []) ''previous addcollateral for openevent found'') (\<lambda>_.
              Inr (set_last (a\<lparr>fa_MultiCall := [operation], withoutMC := True, ended := True\<rparr>) p))
            else Inr (p\<lparr>nonMultiCallEvents := nonMultiCallEvents p @ [operation]\<rparr>)
        | None \<Rightarrow> Inr (p\<lparr>nonMultiCallEvents := nonMultiCallEvents p @ [operation]\<rparr>))
     else
       rbind (deref (lastMainAction p)) (\<lambda>a.
         Inr (set_last (a\<lparr>fa_MultiCall := fa_MultiCall a @ [operation]\<rparr>) p)))"

definition AddOpenEvent :: "account_operation \<Rightarrow> multi_call_processor \<Rightarrow> multi_call_processor res" where
  "AddOpenEvent openEvent p =
    rbind (guard_fatal (noOfOpens p > 0) ''2 opencreditaccount event are in same txhash'') (\<lambda>_.
      Inr (p\<lparr>facadeActions := facadeActions p @
               [\<lparr>fa_Data = openEvent, fa_MultiCall = [], fa_Type = GBv2FacadeOpenEvent, withoutMC = False, ended = False\<rparr>],
             noOfOpens := noOfOpens p + 1\<rparr>))"

definition mc_Start :: "account_operation \<Rightarrow> multi_call_processor \<Rightarrow> multi_call_processor res" where
  "mc_Start startEvent p =
    rbind (guard_fatal (running p) ''Previously started multicall is not ended'') (\<lambda>_.
      let p1 = (if (case lastMainAction p of None \<Rightarrow> True | Some a \<Rightarrow> ended a)
                then p\<lparr>facadeActions := facadeActions p @
                       [\<lparr>fa_Data = startEvent, fa_MultiCall = [], fa_Type = GBv2FacadeMulticallEvent,
                         withoutMC = False, ended = False\<rparr>]\<rparr>
                else p)
      in Inr (p1\<lparr>running := True\<rparr>))"

definition AddCloseOrLiquidateEvent :: "account_operation \<Rightarrow> multi_call_processor \<Rightarrow> multi_call_processor" where
  "AddCloseOrLiquidateEvent event p =
    p\<lparr>facadeActions := facadeActions p @
        [\<lparr>fa_Data = event, fa_MultiCall = [], fa_Type = GBv2FacadeCloseEvent, withoutMC = False, ended = False\<rparr>]\<rparr>"

definition mc_End :: "multi_call_processor \<Rightarrow> multi_call_processor res" where
  "mc_End p =
    rbind (guard_fatal (\<not> running p) ''Multicall end called though multicall not running'') (\<lambda>_.
      let p1 = (case lastMainAction p of Some a \<Rightarrow> set_last (a\<lparr>ended := True\<rparr>) p | None \<Rightarrow> p)
      in Inr (p1\<lparr>running := False\<rparr>))"

text \<open>Returns the facade actions and the openings without a multicall.\<close>

definition PopMainActionsv2 ::
  "multi_call_processor \<Rightarrow> facade_action list \<times> facade_action list \<times> multi_call_processor" where
  "PopMainActionsv2 p =
    (let openWithoutMC = (\<lambda>entry. fa_Type entry = GBv2FacadeOpenEvent \<and> withoutMC entry) in
     (filter (\<lambda>entry. \<not> openWithoutMC entry) (facadeActions p), filter openWithoutMC (facadeActions p),
      p\<lparr>noOfOpens := 0, facadeActions := []\<rparr>))"

definition PopNonMulticallEventsV2 :: "multi_call_processor \<Rightarrow> account_operation list \<times> multi_call_processor" where
  "PopNonMulticallEventsV2 p = (nonMultiCallEvents p, p\<lparr>nonMultiCallEvents := []\<rparr>)"

section \<open>Comparing calls with events\<close>

text \<open>
  A main call of the trace.  The inner calls are given by the hex string of the first four bytes of
  their call data, which is all the comparison reads of them.
\<close>

record facade_call =
  fc_Name :: string
  fc_multiCalls :: "string list"
  TestLen :: nat

definition LenOfMulticalls :: "facade_call \<Rightarrow> nat" where
  "LenOfMulticalls f = (if TestLen f \<noteq> 0 then TestLen f else length (fc_multiCalls f))"

text \<open>The event a facade method of a multicall must be followed by, from the \<^verbatim>\<open>switch sig\<close>.\<close>

definition expected_event :: "string \<Rightarrow> string option" where
  "expected_event sig =
    (if sig = ''59781034'' then Some AddCollateralEvent
     else if sig = ''2b7c7b11'' then Some IncreaseBorrowEvent
     else if sig = ''2a7ba1f7'' then Some DecreaseBorrowEvent
     else if sig = ''c690908a'' then Some TokenEnabledEvent
     else if sig = ''23e27a64'' then Some TokenDisabledEvent
     else None)"

abbreviation "revertIfLessThan \<equiv> ''81314b59''"

definition is_execute_call :: "string \<Rightarrow> bool" where
  "is_execute_call sig \<longleftrightarrow>
    sig \<notin> set [''59781034'', ''2b7c7b11'', ''2a7ba1f7'', ''c690908a'', ''23e27a64'', ''81314b59'']"

function same_len_loop :: "bool \<Rightarrow> string list \<Rightarrow> string list \<Rightarrow> bool res" where
  "same_len_loop noEvents calls events =
    (case calls of
       [] \<Rightarrow> Inr (events = [])
     | sig # cs \<Rightarrow>
        if \<not> (noEvents \<or> events \<noteq> []) then Inr False
        else
          (case expected_event sig of
             Some action \<Rightarrow>
               rbind (go_index events 0) (\<lambda>e.
                 if e \<noteq> action then Inr False else same_len_loop noEvents cs (tl events))
           | None \<Rightarrow>
               if sig = revertIfLessThan then same_len_loop noEvents cs events
               else
                 let executeEvent = length (takeWhile (\<lambda>e. e = ExecuteOrderEvent) events);
                     executeCall = length (takeWhile is_execute_call calls)
                 in if executeEvent > executeCall then Inr False
                    else same_len_loop noEvents (dropWhile is_execute_call calls)
                           (dropWhile (\<lambda>e. e = ExecuteOrderEvent) events)))"
  by pat_completeness auto

lemma execute_call_other:
  "expected_event sig = None \<Longrightarrow> sig \<noteq> revertIfLessThan \<Longrightarrow> is_execute_call sig"
  by (auto simp: expected_event_def is_execute_call_def split: if_splits)

termination same_len_loop
  by (relation "measure (\<lambda>(_, calls, _). length calls)")
    (auto dest: execute_call_other intro!: le_less_trans[OF length_dropWhile_le])

declare same_len_loop.simps [simp del]

definition SameMulticallLenAsEvents :: "facade_call \<Rightarrow> account_operation list \<Rightarrow> bool res" where
  "SameMulticallLenAsEvents f events =
    (if TestLen f \<noteq> 0 then Inr (TestLen f = length events)
     else same_len_loop (events = []) (fc_multiCalls f) (map ao_Action events))"

section \<open>Structure of the facade actions\<close>

text \<open>
  \<^verbatim>\<open>fixFacadeActionStructureViaTenderlyCalls\<close>: the loop over the main calls with the index into the facade
  actions.
\<close>

fun fix_loop ::
  "facade_call list \<Rightarrow> facade_action list \<Rightarrow> int \<Rightarrow> facade_action list \<Rightarrow> (int \<times> facade_action list) res" where
  "fix_loop [] actions ind result = Inr (ind, result)"
| "fix_loop (mainCall # mainCalls) actions ind result =
    rbind (go_index actions ind) (\<lambda>action.
      if fc_Name mainCall = FacadeOpenMulticallCall then
        rbind (guard_fatal (fa_Type action \<noteq> GBv2FacadeOpenEvent) '''') (\<lambda>_.
          fix_loop mainCalls actions (ind + 1) (result @ [action]))
      else if fc_Name mainCall = FacadeMulticallCall then
        fix_loop mainCalls actions (ind + 1) (result @ [action])
      else if fc_Name mainCall \<in> {FacadeLiquidateCall, FacadeLiquidateExpiredCall, FacadeCloseAccountCall} then
        (if LenOfMulticalls mainCall \<noteq> 0 \<and> int (length actions) > ind + 1 then
           rbind (go_index actions (ind + 1)) (\<lambda>nextAction.
             fix_loop mainCalls actions (ind + 2) (result @ [SetMulticalls (fa_MultiCall action) nextAction]))
         else fix_loop mainCalls actions (ind + 1) (result @ [action]))
      else fix_loop mainCalls actions (ind + 1) result)"

definition fixFacadeActionStructureViaTenderlyCalls ::
  "facade_call list \<Rightarrow> facade_action list \<Rightarrow> facade_action list res" where
  "fixFacadeActionStructureViaTenderlyCalls mainCalls actions =
    rbind (guard_fatal (length mainCalls > length actions)
             ''Len of calls can't be more than separated close/liquidate and multicall'') (\<lambda>_.
    rbind (fix_loop mainCalls actions 0 []) (\<lambda>(ind, result).
    rbind (guard_fatal (ind \<noteq> int (length actions)) ''Not able to completely process facade action in tx'') (\<lambda>_.
      Inr result)))"

section \<open>The processor loses no event\<close>

text \<open>The calls of one transaction, as the log handlers make them.\<close>

datatype mc_call =
    McEvent account_operation
  | McOpen account_operation
  | McStart account_operation
  | McClose account_operation
  | McEnd

fun mc_step :: "mc_call \<Rightarrow> multi_call_processor \<Rightarrow> multi_call_processor res" where
  "mc_step (McEvent op) p = AddMulticallEvent op p"
| "mc_step (McOpen op) p = AddOpenEvent op p"
| "mc_step (McStart op) p = mc_Start op p"
| "mc_step (McClose op) p = Inr (AddCloseOrLiquidateEvent op p)"
| "mc_step McEnd p = mc_End p"

definition mc_run :: "mc_call list \<Rightarrow> multi_call_processor \<Rightarrow> multi_call_processor res" where
  "mc_run = rfold mc_step"

fun mc_added :: "mc_call \<Rightarrow> account_operation list" where
  "mc_added (McEvent op) = [op]"
| "mc_added _ = []"

fun mc_main :: "mc_call \<Rightarrow> bool" where
  "mc_main (McOpen op) = True"
| "mc_main (McClose op) = True"
| "mc_main _ = False"

text \<open>All the side events the processor holds, inside and outside of facade actions.\<close>

definition mc_events :: "multi_call_processor \<Rightarrow> account_operation multiset" where
  "mc_events p = mset (nonMultiCallEvents p) + mset (concat (map fa_MultiCall (facadeActions p)))"

definition opens :: "facade_action list \<Rightarrow> nat" where
  "opens as = length (filter (\<lambda>a. fa_Type a = GBv2FacadeOpenEvent) as)"

definition processor_wf :: "multi_call_processor \<Rightarrow> bool" where
  "processor_wf p \<longleftrightarrow>
    (running p \<longrightarrow> facadeActions p \<noteq> []) \<and> opens (facadeActions p) = noOfOpens p \<and> noOfOpens p \<le> 1 \<and>
    (\<forall>a \<in> set (facadeActions p). withoutMC a \<longrightarrow> fa_Type a = GBv2FacadeOpenEvent \<and> ended a \<and> fa_MultiCall a \<noteq> [])"

lemma processor_wf_empty [simp]: "processor_wf empty_processor"
  by (simp add: processor_wf_def empty_processor_def opens_def)

lemma mc_events_empty: "mc_events empty_processor = {#}"
  by (simp add: mc_events_def empty_processor_def)

lemma last_split: "lastMainAction p = Some a \<Longrightarrow> facadeActions p = butlast (facadeActions p) @ [a]"
  by (auto simp: lastMainAction_def split: if_splits)

lemma last_wf:
  assumes "processor_wf p" and "lastMainAction p = Some a"
  shows "withoutMC a \<longrightarrow> fa_Type a = GBv2FacadeOpenEvent \<and> ended a \<and> fa_MultiCall a \<noteq> []"
proof -
  have "a \<in> set (facadeActions p)" using assms(2) by (auto simp: lastMainAction_def split: if_splits)
  then show ?thesis using assms(1) by (simp add: processor_wf_def)
qed

lemma processor_stop:
  "processor_wf p \<Longrightarrow> processor_wf (p\<lparr>running := False\<rparr>)" "mc_events (p\<lparr>running := False\<rparr>) = mc_events p"
  by (simp_all add: processor_wf_def mc_events_def)

lemma set_last_wf:
  assumes "processor_wf p" and "lastMainAction p = Some a" and "fa_Type b = fa_Type a"
    and "withoutMC b \<longrightarrow> fa_Type b = GBv2FacadeOpenEvent \<and> ended b \<and> fa_MultiCall b \<noteq> []"
  shows "processor_wf (set_last b p)"
proof -
  define fs where "fs = butlast (facadeActions p)"
  have "facadeActions p = fs @ [a]" using last_split[OF assms(2)] by (simp add: fs_def)
  with assms show ?thesis by (auto simp: processor_wf_def set_last_def opens_def)
qed

lemma set_last_events:
  assumes "lastMainAction p = Some a"
  shows "mc_events (set_last b p) + mset (fa_MultiCall a) = mc_events p + mset (fa_MultiCall b)"
proof -
  define fs where "fs = butlast (facadeActions p)"
  have "facadeActions p = fs @ [a]" using last_split[OF assms] by (simp add: fs_def)
  then show ?thesis by (simp add: mc_events_def set_last_def)
qed

lemma mc_step_keeps:
  assumes "mc_step c p = Inr p'" and "processor_wf p"
  shows "processor_wf p' \<and> mc_events p' = mc_events p + mset (mc_added c)"
proof (cases c)
  case (McEvent op)
  have non: "processor_wf (p\<lparr>nonMultiCallEvents := nonMultiCallEvents p @ [op]\<rparr>)"
    "mc_events (p\<lparr>nonMultiCallEvents := nonMultiCallEvents p @ [op]\<rparr>) = mc_events p + {#op#}"
    using assms(2) by (auto simp: processor_wf_def mc_events_def)
  show ?thesis
  proof (cases "lastMainAction p")
    case None
    with assms McEvent non show ?thesis by (auto simp: AddMulticallEvent_def split: if_splits)
  next
    case (Some a)
    let ?b = "a\<lparr>fa_MultiCall := fa_MultiCall a @ [op]\<rparr>" and ?c = "a\<lparr>fa_MultiCall := [op], withoutMC := True, ended := True\<rparr>"
    have "processor_wf (set_last ?b p)" using last_wf[OF assms(2) Some] by (intro set_last_wf[OF assms(2) Some]) auto
    moreover have "fa_Type a = GBv2FacadeOpenEvent \<Longrightarrow> processor_wf (set_last ?c p)"
      by (intro set_last_wf[OF assms(2) Some]) auto
    ultimately show ?thesis
      using assms McEvent Some non set_last_events[OF Some, of ?b] set_last_events[OF Some, of ?c]
      by (auto simp: AddMulticallEvent_def split: if_splits)
  qed
next
  case (McEnd)
  show ?thesis
  proof (cases "lastMainAction p")
    case None
    with assms McEnd show ?thesis by (auto simp: mc_End_def processor_wf_def mc_events_def)
  next
    case (Some a)
    let ?b = "a\<lparr>ended := True\<rparr>"
    have "processor_wf (set_last ?b p)"
      using last_wf[OF assms(2) Some] by (intro set_last_wf[OF assms(2) Some]) auto
    moreover have "p' = (set_last ?b p)\<lparr>running := False\<rparr>"
      using assms(1) McEnd Some by (auto simp: mc_End_def elim!: rbind_InrE)
    ultimately show ?thesis
      using McEnd set_last_events[OF Some, of ?b] by (simp add: processor_stop)
  qed
qed (use assms in \<open>auto simp: AddOpenEvent_def mc_Start_def AddCloseOrLiquidateEvent_def processor_wf_def mc_events_def
      opens_def Let_def lastMainAction_def elim!: rbind_InrE split: if_splits\<close>)

lemma mc_run_keeps:
  assumes "mc_run cs p = Inr p'" and "processor_wf p"
  shows "processor_wf p' \<and> mc_events p' = mc_events p + mset (concat (map mc_added cs))"
  using assms
proof (induction cs arbitrary: p)
  case (Cons c cs)
  then obtain q where "mc_step c p = Inr q" "mc_run cs q = Inr p'" by (auto simp: mc_run_def elim: rbind_InrE)
  with mc_step_keeps[of c p q] Cons show ?case by auto
qed (simp add: mc_run_def)

text \<open>
  No side event of a transaction is lost or duplicated.  After any sequence of processor calls
  that does not end the process, the two pops hand out exactly the events that were added, as a
  multiset: some in the multicalls of the facade actions, some in that of an opening without
  multicall, the others as non-multicall events; at most one opening is among the actions.
\<close>

theorem processor_pops_all_events:
  assumes "mc_run cs empty_processor = Inr p" and "PopMainActionsv2 p = (actions, openWithoutMC, p')"
    and "PopNonMulticallEventsV2 p' = (events, p'')"
  shows "mset events + mset (concat (map fa_MultiCall actions)) + mset (concat (map fa_MultiCall openWithoutMC))
      = mset (concat (map mc_added cs)) \<and>
    length openWithoutMC \<le> 1 \<and> (\<forall>a \<in> set openWithoutMC. fa_MultiCall a \<noteq> []) \<and>
    nonMultiCallEvents p'' = [] \<and> facadeActions p'' = []"
proof -
  have wf: "processor_wf p" "mc_events p = mset (concat (map mc_added cs))"
    using mc_run_keeps[OF assms(1)] by (simp_all add: mc_events_empty)
  let ?P = "\<lambda>entry. fa_Type entry = GBv2FacadeOpenEvent \<and> withoutMC entry"
  have pops: "actions = filter (\<lambda>e. \<not> ?P e) (facadeActions p)" "openWithoutMC = filter ?P (facadeActions p)"
    "events = nonMultiCallEvents p" "nonMultiCallEvents p'' = []" "facadeActions p'' = []"
    using assms(2,3) by (auto simp: PopMainActionsv2_def PopNonMulticallEventsV2_def)
  have split: "mset (concat (map fa_MultiCall (filter (\<lambda>e. \<not> ?P e) fs))) + mset (concat (map fa_MultiCall (filter ?P fs)))
      = mset (concat (map fa_MultiCall fs))" for fs
    by (induction fs) auto
  have "length (filter ?P fs) \<le> opens fs" for fs
    unfolding opens_def by (induction fs) auto
  then have "length openWithoutMC \<le> 1" using wf(1) pops(2) unfolding processor_wf_def by (metis order_trans)
  moreover have "mset events + mset (concat (map fa_MultiCall actions)) + mset (concat (map fa_MultiCall openWithoutMC))
      = mset (concat (map mc_added cs))"
    unfolding pops(1-3) wf(2)[symmetric] mc_events_def add.assoc split ..
  moreover have "\<forall>a \<in> set openWithoutMC. fa_MultiCall a \<noteq> []"
    using wf(1) pops(2) by (auto simp: processor_wf_def)
  ultimately show ?thesis using pops(4,5) by blast
qed

definition demo_op :: "int \<Rightarrow> string \<Rightarrow> account_operation" where
  "demo_op l a =
    \<lparr>ao_TxHash = ''h'', ao_BlockNumber = 7, ao_LogId = l, ao_Borrower = ''u'', ao_SessionId = ''s_7_1'', ao_Dapp = ''d'',
     ao_Action = a, ao_Args = None, ao_AdapterCall = False, ao_Transfers = None\<rparr>"

theorem processor_pops_all_events_witness:
  "\<exists>p actions openWithoutMC p' events p''.
    mc_run [McOpen (demo_op 1 OpenV2Event), McEvent (demo_op 2 AddCollateralEvent), McEvent (demo_op 3 TokenEnabledEvent)]
      empty_processor = Inr p \<and>
    PopMainActionsv2 p = (actions, openWithoutMC, p') \<and> PopNonMulticallEventsV2 p' = (events, p'') \<and>
    length openWithoutMC = 1 \<and>
    mset events + mset (concat (map fa_MultiCall actions)) + mset (concat (map fa_MultiCall openWithoutMC))
      = mset [demo_op 2 AddCollateralEvent, demo_op 3 TokenEnabledEvent]"
proof -
  let ?cs = "[McOpen (demo_op 1 OpenV2Event), McEvent (demo_op 2 AddCollateralEvent), McEvent (demo_op 3 TokenEnabledEvent)]"
  obtain p actions openWithoutMC p' events p'' where
    r: "mc_run ?cs empty_processor = Inr p" and a: "PopMainActionsv2 p = (actions, openWithoutMC, p')"
      "PopNonMulticallEventsV2 p' = (events, p'')" and l: "length openWithoutMC = 1"
    by (simp add: mc_run_def AddOpenEvent_def AddMulticallEvent_def lastMainAction_def set_last_def empty_processor_def
        demo_op_def PopMainActionsv2_def PopNonMulticallEventsV2_def Let_def)
  from processor_pops_all_events[OF r a] r a l show ?thesis by auto
qed

text \<open>
  A multicall after a closing in the same transaction is attributed to the closed account.  A
  closing action is never marked as ended, so \<open>mc_Start\<close> opens no action of its own and the events
  of the new multicall go into the multicall of the closing action.
\<close>

theorem multicall_after_close_joins_it:
  "\<exists>p. mc_run [McClose c, McStart m, McEvent e, McEnd] empty_processor = Inr p \<and>
     map fa_Data (facadeActions p) = [c] \<and> map fa_MultiCall (facadeActions p) = [[e]]"
  by (simp add: mc_run_def AddCloseOrLiquidateEvent_def mc_Start_def AddMulticallEvent_def mc_End_def
      lastMainAction_def set_last_def empty_processor_def Let_def)

section \<open>Calls and events\<close>

text \<open>
  The order in which a multicall's calls can have produced its events: a facade method its event,
  \<open>revertIfLessThan\<close> none, any other call one \<open>ExecuteOrder\<close> or, when its order was not executed, none.
\<close>

inductive produces :: "string list \<Rightarrow> string list \<Rightarrow> bool" where
  nil: "produces [] []"
| facade: "expected_event sig = Some a \<Longrightarrow> produces cs es \<Longrightarrow> produces (sig # cs) (a # es)"
| revert: "produces cs es \<Longrightarrow> produces (revertIfLessThan # cs) es"
| order: "is_execute_call sig \<Longrightarrow> produces cs es \<Longrightarrow> produces (sig # cs) (ExecuteOrderEvent # es)"
| no_order: "is_execute_call sig \<Longrightarrow> produces cs es \<Longrightarrow> produces (sig # cs) es"

lemma produces_orders:
  assumes "produces cs es" and "length xs \<le> length sigs" and "list_all is_execute_call sigs"
    and "list_all (\<lambda>e. e = ExecuteOrderEvent) xs"
  shows "produces (sigs @ cs) (xs @ es)"
  using assms(2-4)
proof (induction sigs arbitrary: xs)
  case (Cons sig sigs)
  show ?case
  proof (cases xs)
    case Nil
    then show ?thesis using Cons.IH[of "[]"] Cons.prems by (auto intro: produces.no_order)
  next
    case (Cons x xs')
    then show ?thesis using Cons.IH[of xs'] Cons.prems by (auto intro: produces.order)
  qed
qed (use assms(1) in simp)

lemma takeWhile_list_all: "list_all P (takeWhile P xs)"
  by (induction xs) auto

lemma same_len_loop_sound: "same_len_loop z calls events = Inr True \<Longrightarrow> produces calls events"
proof (induction z calls events rule: same_len_loop.induct)
  case (1 z calls events)
  show ?case
  proof (cases calls)
    case Nil
    then show ?thesis using "1.prems" by (subst (asm) same_len_loop.simps) (simp add: produces.nil)
  next
    case (Cons sig cs)
    have guard: "z \<or> events \<noteq> []" using "1.prems" Cons by (subst (asm) same_len_loop.simps) (auto split: if_splits)
    have run: "(case expected_event sig of
             Some action \<Rightarrow> rbind (go_index events 0) (\<lambda>e. if e \<noteq> action then Inr False else same_len_loop z cs (tl events))
           | None \<Rightarrow>
               if sig = revertIfLessThan then same_len_loop z cs events
               else if length (takeWhile (\<lambda>e. e = ExecuteOrderEvent) events) > length (takeWhile is_execute_call calls)
                    then Inr False
                    else same_len_loop z (dropWhile is_execute_call calls) (dropWhile (\<lambda>e. e = ExecuteOrderEvent) events))
       = Inr True"
    proof -
      have g: "(\<not> (z \<or> events \<noteq> [])) = False" using guard by simp
      show ?thesis
        using "1.prems"[unfolded same_len_loop.simps[of z calls events] Let_def] unfolding Cons
        by (simp only: list.case g if_False)
    qed
    show ?thesis
    proof (cases "expected_event sig")
      case (Some a)
      then obtain es where "events = a # es" "same_len_loop z cs es = Inr True"
        using run by (cases events) (auto simp: go_simps split: if_splits)
      then show ?thesis using "1.IH"(3)[OF Cons _ Some] guard Cons Some by (auto intro: produces.facade)
    next
      case None
      show ?thesis
      proof (cases "sig = revertIfLessThan")
        case True
        then show ?thesis using run None "1.IH"(1)[OF Cons _ None True] guard Cons by (auto intro: produces.revert)
      next
        case False
        let ?E = "\<lambda>e. e = ExecuteOrderEvent"
        from run None False have len: "length (takeWhile ?E events) \<le> length (takeWhile is_execute_call calls)"
          and rec: "same_len_loop z (dropWhile is_execute_call calls) (dropWhile ?E events) = Inr True"
          by (auto simp: Let_def Cons split: if_splits)
        have "produces (dropWhile is_execute_call calls) (dropWhile ?E events)"
          using "1.IH"(2)[OF Cons _ None False refl refl] len rec guard by simp
        from produces_orders[OF this len] show ?thesis by (simp add: takeWhile_list_all)
      qed
    qed
  qed
qed

text \<open>
  When the comparison accepts the events of a facade action, the events are in an order the
  calls of the multicall can have produced; a longer, shorter or differently ordered list is
  never accepted.  (In test mode only the number is compared.)
\<close>

theorem SameMulticallLenAsEvents_sound:
  assumes "SameMulticallLenAsEvents f events = Inr True" and "TestLen f = 0"
  shows "produces (fc_multiCalls f) (map ao_Action events)"
  using assms by (auto simp: SameMulticallLenAsEvents_def dest: same_len_loop_sound)

theorem SameMulticallLenAsEvents_sound_witness:
  "produces [''59781034'', ''aaaaaaaa'', ''bbbbbbbb''] (map ao_Action [demo_op 1 AddCollateralEvent, demo_op 2 ExecuteOrderEvent])"
proof -
  let ?f = "\<lparr>fc_Name = FacadeMulticallCall, fc_multiCalls = [''59781034'', ''aaaaaaaa'', ''bbbbbbbb''], TestLen = 0\<rparr>"
  have "SameMulticallLenAsEvents ?f [demo_op 1 AddCollateralEvent, demo_op 2 ExecuteOrderEvent] = Inr True"
    by (simp add: SameMulticallLenAsEvents_def demo_op_def same_len_loop.simps expected_event_def is_execute_call_def)
  from SameMulticallLenAsEvents_sound[OF this] show ?thesis by simp
qed

text \<open>
  A multicall that ends with \<open>revertIfLessThan\<close> is rejected although that call emits no event:
  after the last event the loop stops, and the unread call makes the lengths differ.  A
  multicall that reported no event at all makes the comparison read past the end of the events
  when its first call is a facade method.
\<close>

theorem SameMulticallLenAsEvents_trailing_revert:
  "SameMulticallLenAsEvents \<lparr>fc_Name = n, fc_multiCalls = [''59781034'', revertIfLessThan], TestLen = 0\<rparr>
     [demo_op 1 AddCollateralEvent] = Inr False \<and>
   produces [''59781034'', revertIfLessThan] (map ao_Action [demo_op 1 AddCollateralEvent]) \<and>
   SameMulticallLenAsEvents \<lparr>fc_Name = n, fc_multiCalls = [''59781034''], TestLen = 0\<rparr> [] = Inl IndexOutOfRange"
proof (intro conjI)
  have "expected_event ''59781034'' = Some AddCollateralEvent" by (simp add: expected_event_def)
  then show "produces [''59781034'', revertIfLessThan] (map ao_Action [demo_op 1 AddCollateralEvent])"
    by (simp add: demo_op_def produces.intros)
qed (simp_all add: SameMulticallLenAsEvents_def demo_op_def same_len_loop.simps expected_event_def go_index_def)

section \<open>Structure repair\<close>

definition known_call :: "facade_call \<Rightarrow> bool" where
  "known_call c \<longleftrightarrow> fc_Name c \<in> {FacadeOpenMulticallCall, FacadeMulticallCall, FacadeLiquidateCall,
     FacadeLiquidateExpiredCall, FacadeCloseAccountCall}"

lemma fix_loop_spec:
  assumes "fix_loop calls actions ind result = Inr (ind', result')" and "list_all known_call calls" and "0 \<le> ind"
    and "ind \<le> int (length actions)" and "subseq (map fa_Data result) (map fa_Data (take (nat ind) actions))"
  shows "ind \<le> ind' \<and> ind' \<le> int (length actions) \<and> length result' = length result + length calls \<and>
    subseq (map fa_Data result') (map fa_Data (take (nat ind') actions))"
  using assms
proof (induction calls arbitrary: ind result)
  case (Cons c calls)
  from Cons.prems(1) have i: "ind < int (length actions)" by (auto simp: go_simps elim!: rbind_InrE)
  define a where "a = actions ! nat ind"
  have step: "subseq (map fa_Data (result @ [a])) (map fa_Data (take (nat (ind + 1)) actions))"
  proof -
    have "take (nat (ind + 1)) actions = take (nat ind) actions @ [a]"
      using i Cons.prems(3) by (simp add: a_def take_Suc_conv_app_nth nat_add_distrib)
    with Cons.prems(5) show ?thesis by (simp add: list_emb_append_mono)
  qed
  have step2: "subseq (map fa_Data (result @ [SetMulticalls m (actions ! nat (ind + 1))]))
      (map fa_Data (take (nat (ind + 2)) actions))" if "ind + 1 < int (length actions)" for m
  proof -
    have t: "take (nat (ind + 2)) actions = take (nat ind) actions @ [a, actions ! nat (ind + 1)]"
      using that Cons.prems(3) i
      by (simp add: a_def nat_add_distrib take_Suc_conv_app_nth flip: Suc_eq_plus1)
    have "subseq [fa_Data (actions ! nat (ind + 1))] (map fa_Data [a, actions ! nat (ind + 1)])" by simp
    with Cons.prems(5) show ?thesis unfolding t by (simp add: SetMulticalls_def list_emb_append_mono)
  qed
  have known: "known_call c" "list_all known_call calls" using Cons.prems(2) by simp_all
  have bounds: "0 \<le> ind + 1" "ind + 1 \<le> int (length actions)" "0 \<le> ind + 2" using i Cons.prems(3) by simp_all
  have idx: "go_index actions ind = Inr a" using i Cons.prems(3) by (simp add: a_def)
  note run = Cons.prems(1)[unfolded fix_loop.simps idx rbind_simps]
  show ?case
  proof (cases "fc_Name c \<in> {FacadeLiquidateCall, FacadeLiquidateExpiredCall, FacadeCloseAccountCall} \<and>
      LenOfMulticalls c \<noteq> 0 \<and> int (length actions) > ind + 1")
    case True
    then have "fix_loop calls actions (ind + 2)
        (result @ [SetMulticalls (fa_MultiCall a) (actions ! nat (ind + 1))]) = Inr (ind', result')"
      using run bounds by (auto split: if_splits)
    from Cons.IH[OF this known(2) bounds(3) _ step2] True show ?thesis by simp
  next
    case False
    then have "fix_loop calls actions (ind + 1) (result @ [a]) = Inr (ind', result')"
      using run known(1) by (auto simp: known_call_def split: if_splits)
    from Cons.IH[OF this known(2) bounds(1,2) step] show ?thesis by simp
  qed
qed auto

text \<open>
  When the repair succeeds (for main calls of the five known kinds), it returns one action per
  main call, in order, all facade actions have been used, and the main event of every returned
  action is that of one of the facade actions, with the order kept: no action is reported twice.
\<close>

theorem fixFacadeActionStructure_aligned:
  assumes "fixFacadeActionStructureViaTenderlyCalls calls actions = Inr result" and "list_all known_call calls"
  shows "length result = length calls \<and> subseq (map fa_Data result) (map fa_Data actions)"
proof -
  from assms(1) obtain ind where "fix_loop calls actions 0 [] = Inr (ind, result)" "ind = int (length actions)"
    by (auto simp: fixFacadeActionStructureViaTenderlyCalls_def elim!: rbind_InrE)
  from fix_loop_spec[OF this(1) assms(2)] this(2) show ?thesis by simp
qed

definition demo_fa :: "facade_type \<Rightarrow> account_operation list \<Rightarrow> facade_action" where
  "demo_fa t ops = \<lparr>fa_Data = demo_op 1 ''x'', fa_MultiCall = ops, fa_Type = t, withoutMC = False, ended = True\<rparr>"

theorem fixFacadeActionStructure_aligned_witness:
  "\<exists>result. fixFacadeActionStructureViaTenderlyCalls
        [\<lparr>fc_Name = FacadeCloseAccountCall, fc_multiCalls = [''aaaaaaaa''], TestLen = 0\<rparr>]
        [demo_fa GBv2FacadeMulticallEvent [demo_op 2 ExecuteOrderEvent], demo_fa GBv2FacadeCloseEvent []] = Inr result \<and>
      length result = 1 \<and> map fa_MultiCall result = [[demo_op 2 ExecuteOrderEvent]]"
proof -
  let ?calls = "[\<lparr>fc_Name = FacadeCloseAccountCall, fc_multiCalls = [''aaaaaaaa''], TestLen = 0\<rparr>]"
  obtain result where r: "fixFacadeActionStructureViaTenderlyCalls ?calls
      [demo_fa GBv2FacadeMulticallEvent [demo_op 2 ExecuteOrderEvent], demo_fa GBv2FacadeCloseEvent []] = Inr result"
    "map fa_MultiCall result = [[demo_op 2 ExecuteOrderEvent]]"
    by (simp add: fixFacadeActionStructureViaTenderlyCalls_def LenOfMulticalls_def demo_fa_def SetMulticalls_def go_index_def)
  from fixFacadeActionStructure_aligned[OF r(1)] r show ?thesis by (simp add: known_call_def)
qed

end
