(* ===== verification/Direct_Transfers.thy ===== *)
theory Direct_Transfers
  imports Go_Prelude
begin

text \<open>
  \<^verbatim>\<open>ds/direct_token_manager.go\<close>: token transfers to and from credit accounts that no credit manager
  operation explains.  Per account the manager keeps the transfers by block and transaction and the
  sessions of the account; a credit manager asks for the transfers of its own sessions in a
  block range and the answer is removed.  The mutex makes every method atomic, so the methods are
  functions of the manager state.
\<close>

section \<open>Data\<close>

record session_data =
  sd_Account :: address
  Since :: int
  sd_CreditManager :: address
  SessionID :: string
  ClosedAt :: int
  OpenTxHash :: txhash
  OpenLogId :: int
  ClosedTxHash :: txhash
  ClosedLogId :: int

record token_transfer =
  tt_TxHash :: txhash
  tt_BlockNum :: int
  tt_LogID :: int
  tt_From :: address
  tt_To :: address
  tt_Token :: address
  tt_Amount :: int
  IsFromAccount :: bool
  IsToAccount :: bool

type_synonym tx_transfers = "(txhash \<times> token_transfer list) list"
type_synonym session_transfers = "(string \<times> token_transfer list) list"

record account_data =
  ad_Address :: address
  blockNums :: "int list"
  blockPresent :: "int \<Rightarrow> bool"
  transfers :: "(int \<times> tx_transfers) list"
  ad_Details :: "session_data list"

definition newAccountData :: "address \<Rightarrow> account_data" where
  "newAccountData addr =
    \<lparr>ad_Address = addr, blockNums = [], blockPresent = (\<lambda>_. False), transfers = [], ad_Details = []\<rparr>"

section \<open>Account operations\<close>

definition ad_process :: "token_transfer \<Rightarrow> account_data \<Rightarrow> account_data" where
  "ad_process tt ad =
    (let txs = aget [] (transfers ad) (tt_BlockNum tt);
         ad1 = ad\<lparr>transfers := AList.update (tt_BlockNum tt)
                    (AList.update (tt_TxHash tt) (aget [] txs (tt_TxHash tt) @ [tt]) txs) (transfers ad)\<rparr>;
         ad2 = (if \<not> blockPresent ad1 (tt_BlockNum tt)
                then ad1\<lparr>blockNums := blockNums ad1 @ [tt_BlockNum tt]\<rparr> else ad1)
     in ad2\<lparr>blockPresent := (blockPresent ad2)(tt_BlockNum tt := True)\<rparr>)"

definition deleteTxHash :: "int \<Rightarrow> txhash \<Rightarrow> account_data \<Rightarrow> account_data" where
  "deleteTxHash blockNum txHash ad =
    (case map_of (transfers ad) blockNum of
       None \<Rightarrow> ad
     | Some txs \<Rightarrow> ad\<lparr>transfers := AList.update blockNum (AList.delete txHash txs) (transfers ad)\<rparr>)"

definition ad_Clear :: "account_data \<Rightarrow> account_data" where
  "ad_Clear ad = ad\<lparr>blockNums := [], blockPresent := (\<lambda>_. False), transfers := []\<rparr>"

definition ad_init :: "account_data \<Rightarrow> account_data" where
  "ad_init ad = ad\<lparr>blockNums := sort (blockNums ad)\<rparr>"

definition AddDetails :: "session_data \<Rightarrow> account_data \<Rightarrow> account_data" where
  "AddDetails sd ad = ad\<lparr>ad_Details := ad_Details ad @ [sd]\<rparr>"

definition SetClose :: "int \<Rightarrow> int \<Rightarrow> txhash \<Rightarrow> int \<Rightarrow> account_data \<Rightarrow> account_data" where
  "SetClose since closedAt closeTxHash closeLogID ad =
    ad\<lparr>ad_Details := map (\<lambda>details. if since = Since details
        then details\<lparr>ClosedAt := closedAt, ClosedTxHash := closeTxHash, ClosedLogId := closeLogID\<rparr>
        else details) (ad_Details ad)\<rparr>"

definition detailsAssigned :: "account_data \<Rightarrow> bool" where
  "detailsAssigned ad \<longleftrightarrow> ad_Details ad \<noteq> []"

text \<open>The condition under which the inner loop skips a transfer (\<^verbatim>\<open>continue\<close>).\<close>

definition outside_session :: "session_data \<Rightarrow> token_transfer \<Rightarrow> bool" where
  "outside_session details transfer \<longleftrightarrow>
    (tt_BlockNum transfer = Since details \<and>
       (tt_LogID transfer < OpenLogId details \<and> tt_TxHash transfer \<noteq> OpenTxHash details)) \<or>
    (ClosedAt details \<noteq> 0 \<and> tt_BlockNum transfer = ClosedAt details \<and>
       (tt_LogID transfer > ClosedLogId details \<and> tt_TxHash transfer \<noteq> ClosedTxHash details))"

text \<open>One transaction of the block: the loop over its transfers, then the optional delete.\<close>

definition take_tx ::
  "session_data \<Rightarrow> int \<Rightarrow> txhash \<times> token_transfer list \<Rightarrow> account_data \<times> session_transfers \<Rightarrow>
    account_data \<times> session_transfers" where
  "take_tx details blockNum = (\<lambda>(txHash, txs) (ad, extra).
    (let (del, extra') =
       foldl (\<lambda>(del, extra) transfer.
           if outside_session details transfer then (del, extra)
           else (True, AList.update (SessionID details) (aget [] extra (SessionID details) @ [transfer]) extra))
         (False, extra) txs
     in (if del then deleteTxHash blockNum txHash ad else ad, extra')))"

fun remaining_loop ::
  "address \<Rightarrow> int \<Rightarrow> int list \<Rightarrow> session_data list \<Rightarrow> account_data \<times> (int \<times> session_transfers) list \<Rightarrow>
    account_data \<times> (int \<times> session_transfers) list" where
  "remaining_loop cm from [] dets st = st"
| "remaining_loop cm from (blockNum # bs) dets (ad, extraTokenTransfers) =
    (if blockNum < from then (ad, extraTokenTransfers)
     else
       (case dropWhile (\<lambda>d. Since d > blockNum) dets of
          [] \<Rightarrow> (ad, extraTokenTransfers)
        | details # ds \<Rightarrow>
           if sd_CreditManager details \<noteq> cm
           then remaining_loop cm from bs (details # ds) (ad, extraTokenTransfers)
           else if blockNum \<ge> Since details \<and> (ClosedAt details = 0 \<or> ClosedAt details \<ge> blockNum)
           then
             let (ad', extra) =
               foldl (\<lambda>st tx. take_tx details blockNum tx st)
                 (ad, aget [] extraTokenTransfers blockNum) (aget [] (transfers ad) blockNum)
             in remaining_loop cm from bs (details # ds) (ad', AList.update blockNum extra extraTokenTransfers)
           else remaining_loop cm from bs (details # ds) (ad, extraTokenTransfers)))"

text \<open>
  \<^verbatim>\<open>GetRemainingTransfer\<close>.  The two index loops run from the end, here over the reversed lists: skip the
  blocks that are not below \<open>to\<close>, then walk down while they are at least \<open>from\<close>.
\<close>

definition GetRemainingTransfer ::
  "address \<Rightarrow> int \<Rightarrow> int \<Rightarrow> account_data \<Rightarrow> account_data \<times> (int \<times> session_transfers) list" where
  "GetRemainingTransfer cm from to ad =
    remaining_loop cm from (dropWhile (\<lambda>b. b \<ge> to) (rev (blockNums ad))) (rev (ad_Details ad)) (ad, [])"

definition ad_GetNoSessionTxs :: "account_data \<Rightarrow> txhash list" where
  "ad_GetNoSessionTxs ad = concat (map (\<lambda>(_, txs). map fst txs) (transfers ad))"

section \<open>The manager\<close>

record direct_transfer_manager =
  accountToData :: "(address \<times> account_data) list"
  txHashToAccounts :: "txhash \<Rightarrow> address list"
  txToTransfers :: "txhash \<Rightarrow> token_transfer list"

definition NewDirectTransferManager :: direct_transfer_manager where
  "NewDirectTransferManager =
    \<lparr>accountToData = [], txHashToAccounts = (\<lambda>_. []), txToTransfers = (\<lambda>_. [])\<rparr>"

definition record_for :: "address \<Rightarrow> token_transfer \<Rightarrow> direct_transfer_manager \<Rightarrow> direct_transfer_manager" where
  "record_for account tt mgr =
    (let ad = aget (newAccountData account) (accountToData mgr) account in
     mgr\<lparr>txHashToAccounts := (txHashToAccounts mgr)(tt_TxHash tt := txHashToAccounts mgr (tt_TxHash tt) @ [account]),
         accountToData := AList.update account (ad_process tt ad) (accountToData mgr)\<rparr>)"

definition AddTokenTransfer :: "token_transfer \<Rightarrow> direct_transfer_manager \<Rightarrow> direct_transfer_manager" where
  "AddTokenTransfer tt mgr =
    (let mgr1 = (if IsFromAccount tt then record_for (tt_From tt) tt mgr else mgr);
         mgr2 = (if IsToAccount tt then record_for (tt_To tt) tt mgr1 else mgr1)
     in mgr2\<lparr>txToTransfers := (txToTransfers mgr2)(tt_TxHash tt := txToTransfers mgr2 (tt_TxHash tt) @ [tt])\<rparr>)"

definition AddAccountDetails :: "session_data \<Rightarrow> direct_transfer_manager \<Rightarrow> direct_transfer_manager" where
  "AddAccountDetails sessionData mgr =
    (let account = sd_Account sessionData;
         ad = aget (newAccountData account) (accountToData mgr) account
     in mgr\<lparr>accountToData := AList.update account (AddDetails sessionData ad) (accountToData mgr)\<rparr>)"

definition CloseAccountDetails ::
  "address \<Rightarrow> int \<Rightarrow> int \<Rightarrow> txhash \<Rightarrow> int \<Rightarrow> direct_transfer_manager \<Rightarrow> direct_transfer_manager res" where
  "CloseAccountDetails account since closedAt closeTxHash logID mgr =
    rbind (deref (map_of (accountToData mgr) account)) (\<lambda>ad.
      Inr (mgr\<lparr>accountToData := AList.update account (SetClose since closedAt closeTxHash logID ad) (accountToData mgr)\<rparr>))"

text \<open>Merging one account's answer: \<^verbatim>\<open>result[blockNum][sessionID] = transfers\<close>.\<close>

definition merge_remaining ::
  "(int \<times> session_transfers) list \<Rightarrow> (int \<times> session_transfers) list \<Rightarrow> (int \<times> session_transfers) list" where
  "merge_remaining result remainingTransfers =
    foldl (\<lambda>result (blockNum, data).
        AList.update blockNum
          (foldl (\<lambda>m (sessionID, trs). AList.update sessionID trs m) (aget [] result blockNum) data) result)
      result remainingTransfers"

definition CheckTokenTransfer ::
  "address \<Rightarrow> int \<Rightarrow> int \<Rightarrow> direct_transfer_manager \<Rightarrow> direct_transfer_manager \<times> (int \<times> session_transfers) list" where
  "CheckTokenTransfer cm from to mgr =
    foldl (\<lambda>(mgr, result) (account, dataMdl).
        if \<not> detailsAssigned dataMdl then (mgr, result)
        else let (dataMdl', remainingTransfers) = GetRemainingTransfer cm from to dataMdl in
          (mgr\<lparr>accountToData := AList.update account dataMdl' (accountToData mgr)\<rparr>,
           merge_remaining result remainingTransfers))
      (mgr, []) (accountToData mgr)"

definition DeleteTxHash :: "int \<Rightarrow> txhash \<Rightarrow> direct_transfer_manager \<Rightarrow> direct_transfer_manager res" where
  "DeleteTxHash blockNum txHash mgr =
    rfold (\<lambda>account mgr.
        rbind (deref (map_of (accountToData mgr) account)) (\<lambda>ad.
          Inr (mgr\<lparr>accountToData := AList.update account (deleteTxHash blockNum txHash ad) (accountToData mgr)\<rparr>)))
      (txHashToAccounts mgr txHash) mgr"

definition dtm_Clear :: "direct_transfer_manager \<Rightarrow> direct_transfer_manager" where
  "dtm_Clear mgr =
    mgr\<lparr>accountToData := map (\<lambda>(a, d). (a, ad_Clear d)) (accountToData mgr),
        txHashToAccounts := (\<lambda>_. []), txToTransfers := (\<lambda>_. [])\<rparr>"

definition dtm_Init :: "direct_transfer_manager \<Rightarrow> direct_transfer_manager" where
  "dtm_Init mgr = mgr\<lparr>accountToData := map (\<lambda>(a, d). (a, ad_init d)) (accountToData mgr)\<rparr>"

definition dtm_GetNoSessionTxs :: "direct_transfer_manager \<Rightarrow> (txhash \<times> token_transfer list) list" where
  "dtm_GetNoSessionTxs mgr =
    foldl (\<lambda>tts (_, dataMdl).
        foldl (\<lambda>tts txHash. AList.update txHash (txToTransfers mgr txHash) tts) tts (ad_GetNoSessionTxs dataMdl))
      [] (accountToData mgr)"

section \<open>What a request returns\<close>

text \<open>
  What the loop does, in its own terms: the head of the sessions left over for a block, and the transfers its condition lets through.
  The reference for the result comes further down.
\<close>

definition in_charge :: "address \<Rightarrow> session_data list \<Rightarrow> int \<Rightarrow> session_data option" where
  "in_charge cm dets b =
    (case dropWhile (\<lambda>d. Since d > b) dets of
       [] \<Rightarrow> None
     | d # _ \<Rightarrow> if sd_CreditManager d = cm \<and> (ClosedAt d = 0 \<or> ClosedAt d \<ge> b) then Some d else None)"

definition passed_transfers :: "session_data \<Rightarrow> tx_transfers \<Rightarrow> token_transfer list" where
  "passed_transfers d txs = concat (map (\<lambda>(_, ts). filter (\<lambda>t. \<not> outside_session d t) ts) txs)"

definition for_session :: "session_data \<Rightarrow> token_transfer list \<Rightarrow> session_transfers" where
  "for_session d ts = (if ts = [] then [] else [(SessionID d, ts)])"

definition unpassed_txs :: "session_data \<Rightarrow> tx_transfers \<Rightarrow> tx_transfers" where
  "unpassed_txs d txs = filter (\<lambda>(_, ts). list_all (outside_session d) ts) txs"

definition block_wf :: "int \<Rightarrow> tx_transfers \<Rightarrow> bool" where
  "block_wf b txs \<longleftrightarrow>
    distinct (map fst txs) \<and>
    (\<forall>(h, ts) \<in> set txs. ts \<noteq> [] \<and> (\<forall>t \<in> set ts. tt_BlockNum t = b \<and> tt_TxHash t = h))"

definition account_wf :: "account_data \<Rightarrow> bool" where
  "account_wf ad \<longleftrightarrow>
    distinct (blockNums ad) \<and> set (blockNums ad) = {b. blockPresent ad b} \<and>
    fst ` set (transfers ad) \<subseteq> set (blockNums ad) \<and>
    (\<forall>b. block_wf b (aget [] (transfers ad) b))"

lemma block_wf_Nil [simp]: "block_wf b []"
  by (simp add: block_wf_def)

lemma block_wf_filter: "block_wf b txs \<Longrightarrow> block_wf b (filter P txs)"
  by (auto simp: block_wf_def distinct_map_filter)

lemma block_wf_distinct: "block_wf b txs \<Longrightarrow> distinct (map fst txs)"
  by (simp add: block_wf_def)

lemma for_session_snoc:
  "AList.update (SessionID d) (aget [] (for_session d pre) (SessionID d) @ [t]) (for_session d pre) = for_session d (pre @ [t])"
  by (simp add: for_session_def)

lemma take_tx_eq:
  "take_tx d b (h, ts) (ad, for_session d pre) =
    (if list_all (outside_session d) ts then ad else deleteTxHash b h ad,
     for_session d (pre @ filter (\<lambda>t. \<not> outside_session d t) ts))"
proof -
  let ?f = "\<lambda>(del, extra) transfer.
      if outside_session d transfer then (del, extra)
      else (True, AList.update (SessionID d) (aget [] extra (SessionID d) @ [transfer]) extra)"
  have "foldl ?f (b, for_session d pre) ts =
      (b \<or> \<not> list_all (outside_session d) ts, for_session d (pre @ filter (\<lambda>t. \<not> outside_session d t) ts))" for b
    by (induction ts arbitrary: b pre) (simp_all add: for_session_snoc)
  then show ?thesis by (simp add: take_tx_def)
qed

lemma aget_deleteTxHash [simp]:
  "aget [] (transfers (deleteTxHash b h ad)) b' =
    (if b' = b then filter (\<lambda>(k, _). k \<noteq> h) (aget [] (transfers ad) b) else aget [] (transfers ad) b')"
  by (auto simp: deleteTxHash_def aget_def AList.delete_eq intro!: filter_cong split: option.splits)

lemma deleteTxHash_fields [simp]:
  "ad_Details (deleteTxHash b h ad) = ad_Details ad"
  "blockNums (deleteTxHash b h ad) = blockNums ad"
  "blockPresent (deleteTxHash b h ad) = blockPresent ad"
  by (simp_all add: deleteTxHash_def split: option.splits)

lemma fst_set_deleteTxHash [simp]: "fst ` set (transfers (deleteTxHash b h ad)) = fst ` set (transfers ad)"
  by (auto simp: deleteTxHash_def insert_absorb map_of_SomeD image_iff split: option.splits) (metis fst_conv map_of_SomeD)

lemma block_fold:
  assumes "foldl (\<lambda>st tx. take_tx d b tx st) (ad, for_session d pre) txs = (ad', ex)"
  shows "ex = for_session d (pre @ passed_transfers d txs)"
    and "aget [] (transfers ad') b' =
      (if b' = b then filter (\<lambda>(h, _). \<forall>(k, ts) \<in> set txs. k = h \<longrightarrow> list_all (outside_session d) ts) (aget [] (transfers ad) b)
       else aget [] (transfers ad) b')"
    and "ad_Details ad' = ad_Details ad" "blockNums ad' = blockNums ad" "blockPresent ad' = blockPresent ad"
    and "fst ` set (transfers ad') = fst ` set (transfers ad)"
proof -
  have "ex = for_session d (pre @ passed_transfers d txs) \<and>
    aget [] (transfers ad') b' =
      (if b' = b then filter (\<lambda>(h, _). \<forall>(k, ts) \<in> set txs. k = h \<longrightarrow> list_all (outside_session d) ts) (aget [] (transfers ad) b)
       else aget [] (transfers ad) b') \<and>
    ad_Details ad' = ad_Details ad \<and> blockNums ad' = blockNums ad \<and> blockPresent ad' = blockPresent ad \<and>
    fst ` set (transfers ad') = fst ` set (transfers ad)"
    using assms
  proof (induction txs arbitrary: ad pre)
    case (Cons tx txs)
    obtain h ts where tx: "tx = (h, ts)" by fastforce
    let ?ad = "if list_all (outside_session d) ts then ad else deleteTxHash b h ad"
    let ?pre = "pre @ filter (\<lambda>t. \<not> outside_session d t) ts"
    have "foldl (\<lambda>st tx. take_tx d b tx st) (?ad, for_session d ?pre) txs = (ad', ex)"
      using Cons.prems by (simp add: tx take_tx_eq)
    note IH = Cons.IH[OF this]
    then show ?case
      by (auto simp: tx passed_transfers_def intro!: filter_cong split: if_splits)
  qed (simp add: passed_transfers_def case_prod_unfold)
  then show "ex = for_session d (pre @ passed_transfers d txs)"
    and "aget [] (transfers ad') b' =
      (if b' = b then filter (\<lambda>(h, _). \<forall>(k, ts) \<in> set txs. k = h \<longrightarrow> list_all (outside_session d) ts) (aget [] (transfers ad) b)
       else aget [] (transfers ad) b')"
    and "ad_Details ad' = ad_Details ad" "blockNums ad' = blockNums ad" "blockPresent ad' = blockPresent ad"
    and "fst ` set (transfers ad') = fst ` set (transfers ad)"
    by blast+
qed

lemma kept_by_key:
  assumes "distinct (map fst txs)"
  shows "filter (\<lambda>(h, _). \<forall>(k, ts) \<in> set txs. k = h \<longrightarrow> list_all (outside_session d) ts) txs = unpassed_txs d txs"
  unfolding unpassed_txs_def
proof (rule filter_cong[OF refl], clarify)
  fix h ts
  assume "(h, ts) \<in> set txs"
  moreover from this have "ts' = ts" if "(h, ts') \<in> set txs" for ts'
    using that assms by (metis eq_key_imp_eq_value)
  ultimately show "(\<forall>(k, ts)\<in>set txs. k = h \<longrightarrow> list_all (outside_session d) ts) = list_all (outside_session d) ts"
    by fast
qed

lemma in_charge_dropWhile:
  "b \<le> b0 \<Longrightarrow> in_charge cm (dropWhile (\<lambda>d. Since d > b0) dets) b = in_charge cm dets b"
  unfolding in_charge_def by (subst dropWhile_dropWhile) auto

lemma dropWhile_Cons_Since:
  "dropWhile (\<lambda>d. Since d > b) dets = d # ds \<Longrightarrow> Since d \<le> b"
  by (metis dropWhile_eq_Cons_conv not_le)

definition answered :: "address \<Rightarrow> int \<Rightarrow> int list \<Rightarrow> session_data list \<Rightarrow> int \<Rightarrow> session_data option" where
  "answered cm from bs dets b = (if b \<in> set bs \<and> from \<le> b then in_charge cm dets b else None)"

lemma answered_Cons:
  assumes "sorted_wrt (>) (b0 # bs)"
  shows "answered cm from bs (dropWhile (\<lambda>d. Since d > b0) dets) b =
    (if b = b0 then None else answered cm from (b0 # bs) dets b)"
  using assms by (auto simp: answered_def in_charge_dropWhile order.strict_implies_order)

lemma remaining_loop_spec:
  assumes "remaining_loop cm from bs dets (ad, extra) = (ad', extra')"
    and "sorted_wrt (>) bs" and "\<And>b. b \<in> set bs \<Longrightarrow> map_of extra b = None"
    and "\<And>b. distinct (map fst (aget [] (transfers ad) b))"
  shows "map_of extra' b = (case answered cm from bs dets b of
             Some d \<Rightarrow> Some (for_session d (passed_transfers d (aget [] (transfers ad) b)))
           | None \<Rightarrow> map_of extra b) \<and>
    aget [] (transfers ad') b = (case answered cm from bs dets b of
             Some d \<Rightarrow> unpassed_txs d (aget [] (transfers ad) b)
           | None \<Rightarrow> aget [] (transfers ad) b) \<and>
    ad_Details ad' = ad_Details ad \<and> blockNums ad' = blockNums ad \<and> blockPresent ad' = blockPresent ad \<and>
    fst ` set (transfers ad') = fst ` set (transfers ad)"
  using assms
proof (induction bs arbitrary: dets ad extra)
  case Nil
  then show ?case by (simp add: answered_def)
next
  case (Cons b0 bs)
  note b0_new = Cons.prems(3)[of b0, simplified]
  have desc: "sorted_wrt (>) bs" "\<And>x. x \<in> set bs \<Longrightarrow> x < b0" using Cons.prems(2) by auto
  show ?case
  proof (cases "b0 < from \<or> dropWhile (\<lambda>d. Since d > b0) dets = []")
    case True
    then have "answered cm from (b0 # bs) dets b = None"
    proof
      assume "b0 < from"
      then show ?thesis using desc(2) by (auto simp: answered_def dest!: desc(2))
    next
      assume e: "dropWhile (\<lambda>d. Since d > b0) dets = []"
      have "in_charge cm [] x = None" for x by (simp add: in_charge_def)
      then have "in_charge cm dets x = None" if "x \<le> b0" for x
        using in_charge_dropWhile[OF that, of cm dets, unfolded e] by simp
      then show ?thesis using desc(2) by (auto simp: answered_def dest!: desc(2) intro: order.strict_implies_order)
    qed
    moreover have "remaining_loop cm from (b0 # bs) dets (ad, extra) = (ad, extra)"
      using True by (auto simp del: dropWhile_eq_Nil_conv)
    ultimately show ?thesis using Cons.prems(1) by simp
  next
    case False
    then obtain d ds where ds: "dropWhile (\<lambda>d. Since d > b0) dets = d # ds" by (meson neq_Nil_conv)
    have since: "Since d \<le> b0" using dropWhile_Cons_Since[OF ds] .
    note ans = answered_Cons[OF Cons.prems(2), of cm "from" dets, unfolded ds]
    show ?thesis
    proof (cases "in_charge cm dets b0")
      case None
      then have "remaining_loop cm from bs (d # ds) (ad, extra) = (ad', extra')"
        using Cons.prems(1) False ds since by (auto simp: in_charge_def split: if_splits)
      moreover have "answered cm from (b0 # bs) dets b0 = None" using None by (simp add: answered_def)
      then have "answered cm from bs (d # ds) b = answered cm from (b0 # bs) dets b" by (simp add: ans)
      ultimately show ?thesis
        using Cons.IH[of "d # ds" ad extra, OF _ desc(1) _ Cons.prems(4)] Cons.prems(3) by simp
    next
      case (Some d')
      then have d': "d' = d" "sd_CreditManager d = cm" "ClosedAt d = 0 \<or> b0 \<le> ClosedAt d"
        using ds by (auto simp: in_charge_def split: if_splits)
      obtain ad1 ex where blk: "foldl (\<lambda>st tx. take_tx d b0 tx st) (ad, for_session d []) (aget [] (transfers ad) b0) = (ad1, ex)"
        by fastforce
      note bf = block_fold[OF blk]
      have kept: "aget [] (transfers ad1) x =
          (if x = b0 then unpassed_txs d (aget [] (transfers ad) b0) else aget [] (transfers ad) x)" for x
        by (simp add: bf(2) kept_by_key Cons.prems(4))
      have "remaining_loop cm from bs (d # ds) (ad1, AList.update b0 ex extra) = (ad', extra')"
        using Cons.prems(1) False ds since d' blk b0_new
        by (auto simp: aget_def[of "[]" extra] for_session_def split: prod.splits)
      moreover have "map_of (AList.update b0 ex extra) x = None" if "x \<in> set bs" for x
        using Cons.prems(3) desc(2)[OF that] that by auto
      moreover have "distinct (map fst (aget [] (transfers ad1) x))" for x
        using Cons.prems(4) by (cases "x = b0") (simp_all add: kept unpassed_txs_def distinct_map_filter)
      ultimately have IH: "map_of extra' b = (case answered cm from bs (d # ds) b of
             Some d \<Rightarrow> Some (for_session d (passed_transfers d (aget [] (transfers ad1) b)))
           | None \<Rightarrow> map_of (AList.update b0 ex extra) b) \<and>
        aget [] (transfers ad') b = (case answered cm from bs (d # ds) b of
             Some d \<Rightarrow> unpassed_txs d (aget [] (transfers ad1) b)
           | None \<Rightarrow> aget [] (transfers ad1) b) \<and>
        ad_Details ad' = ad_Details ad1 \<and> blockNums ad' = blockNums ad1 \<and> blockPresent ad' = blockPresent ad1 \<and>
        fst ` set (transfers ad') = fst ` set (transfers ad1)"
        by (intro Cons.IH desc(1))
      show ?thesis
      proof (cases "b = b0")
        case True
        have "answered cm from (b0 # bs) dets b0 = Some d" using Some d'(1) False by (simp add: answered_def)
        then show ?thesis using IH bf True by (simp add: ans kept)
      next
        case False
        then have "map_of (AList.update b0 ex extra) b = map_of extra b" "aget [] (transfers ad1) b = aget [] (transfers ad) b"
          by (simp_all add: kept)
        then show ?thesis using IH bf(3-6) False by (simp only: ans if_False)
      qed
    qed
  qed
qed

text \<open>The blocks for which a session answers, in terms of the loop.\<close>

definition asked :: "address \<Rightarrow> int \<Rightarrow> int \<Rightarrow> account_data \<Rightarrow> int \<Rightarrow> session_data option" where
  "asked cm from to ad b =
    (if b \<in> set (blockNums ad) \<and> from \<le> b \<and> b < to then in_charge cm (rev (ad_Details ad)) b else None)"

lemma set_dropWhile_desc: "sorted_wrt (>) bs \<Longrightarrow> set (dropWhile (\<lambda>b. b \<ge> to) bs) = {b \<in> set bs. b < (to :: int)}"
  by (induction bs) auto

lemma GetRemainingTransfer_spec:
  assumes "GetRemainingTransfer cm from to ad = (ad', extra)" and "account_wf ad" and "sorted (blockNums ad)"
  shows "map_of extra b = map_option (\<lambda>d. for_session d (passed_transfers d (aget [] (transfers ad) b))) (asked cm from to ad b) \<and>
    aget [] (transfers ad') b = (case asked cm from to ad b of
             Some d \<Rightarrow> unpassed_txs d (aget [] (transfers ad) b)
           | None \<Rightarrow> aget [] (transfers ad) b) \<and>
    ad_Details ad' = ad_Details ad \<and> blockNums ad' = blockNums ad \<and> blockPresent ad' = blockPresent ad \<and>
    fst ` set (transfers ad') = fst ` set (transfers ad)"
proof -
  have desc: "sorted_wrt (>) (rev (blockNums ad))"
    using assms(2,3) by (simp add: account_wf_def sorted_wrt_rev strict_sorted_iff)
  then have "sorted_wrt (>) (dropWhile (\<lambda>b. b \<ge> to) (rev (blockNums ad)))"
    by (rule sorted_wrt_dropWhile)
  moreover have "distinct (map fst (aget [] (transfers ad) b))" for b
    using assms(2) block_wf_distinct unfolding account_wf_def by blast
  ultimately
  have "map_of extra b = (case answered cm from (dropWhile (\<lambda>b. b \<ge> to) (rev (blockNums ad))) (rev (ad_Details ad)) b of
             Some d \<Rightarrow> Some (for_session d (passed_transfers d (aget [] (transfers ad) b)))
           | None \<Rightarrow> None) \<and>
    aget [] (transfers ad') b = (case answered cm from (dropWhile (\<lambda>b. b \<ge> to) (rev (blockNums ad))) (rev (ad_Details ad)) b of
             Some d \<Rightarrow> unpassed_txs d (aget [] (transfers ad) b)
           | None \<Rightarrow> aget [] (transfers ad) b) \<and>
    ad_Details ad' = ad_Details ad \<and> blockNums ad' = blockNums ad \<and> blockPresent ad' = blockPresent ad \<and>
    fst ` set (transfers ad') = fst ` set (transfers ad)"
    using remaining_loop_spec[OF assms(1)[unfolded GetRemainingTransfer_def], of b, unfolded map_of.simps(1)]
    by simp
  moreover have "answered cm from (dropWhile (\<lambda>b. b \<ge> to) (rev (blockNums ad))) (rev (ad_Details ad)) b = asked cm from to ad b"
    using set_dropWhile_desc[OF desc] by (simp add: answered_def asked_def)
  ultimately show ?thesis by (simp add: map_option_case)
qed

lemma account_wf_remaining:
  assumes "GetRemainingTransfer cm from to ad = (ad', extra)" and "account_wf ad" and "sorted (blockNums ad)"
  shows "account_wf ad'"
proof -
  have "block_wf b (aget [] (transfers ad') b)" for b
    using GetRemainingTransfer_spec[OF assms, of b] assms(2)
    by (cases "asked cm from to ad b") (simp_all add: account_wf_def unpassed_txs_def block_wf_filter)
  then show ?thesis
    using GetRemainingTransfer_spec[OF assms] assms(2) unfolding account_wf_def by metis
qed

subsection \<open>The reference\<close>

text \<open>
  The life of a session, from the log that opened it to the log that closed it, by block and by the position of the log in the block; the
  transactions that opened and closed it belong to it as a whole.
\<close>

definition after_open :: "session_data \<Rightarrow> token_transfer \<Rightarrow> bool" where
  "after_open d t \<longleftrightarrow> Since d < tt_BlockNum t \<or>
    Since d = tt_BlockNum t \<and> (OpenLogId d \<le> tt_LogID t \<or> tt_TxHash t = OpenTxHash d)"

definition before_close :: "session_data \<Rightarrow> token_transfer \<Rightarrow> bool" where
  "before_close d t \<longleftrightarrow> ClosedAt d = 0 \<or> tt_BlockNum t < ClosedAt d \<or>
    tt_BlockNum t = ClosedAt d \<and> (tt_LogID t \<le> ClosedLogId d \<or> tt_TxHash t = ClosedTxHash d)"

definition in_life :: "session_data \<Rightarrow> token_transfer \<Rightarrow> bool" where
  "in_life d t \<longleftrightarrow> after_open d t \<and> before_close d t"

text \<open>
  The session that answers for a block: the one of the account that was recorded last among those opened in the block or before it,
  if it belongs to the credit manager and was not closed in an earlier block.
\<close>

definition answers :: "address \<Rightarrow> int \<Rightarrow> int \<Rightarrow> account_data \<Rightarrow> int \<Rightarrow> session_data option" where
  "answers cm from to ad b =
    (let opened = filter (\<lambda>d. Since d \<le> b) (ad_Details ad); d = last opened in
     if b \<in> set (blockNums ad) \<and> b \<in> {from..<to} \<and> opened \<noteq> [] \<and> sd_CreditManager d = cm \<and> (ClosedAt d = 0 \<or> b \<le> ClosedAt d)
     then Some d else None)"

text \<open>Its transfers of the block, and the transactions without any.\<close>

definition life_transfers :: "session_data \<Rightarrow> tx_transfers \<Rightarrow> token_transfer list" where
  "life_transfers d txs = filter (in_life d) (concat (map snd txs))"

definition foreign_txs :: "session_data \<Rightarrow> tx_transfers \<Rightarrow> tx_transfers" where
  "foreign_txs d txs = filter (\<lambda>(_, ts). \<forall>t \<in> set ts. \<not> in_life d t) txs"

lemma outside_in_life:
  assumes "Since d \<le> tt_BlockNum t" and "ClosedAt d = 0 \<or> tt_BlockNum t \<le> ClosedAt d"
  shows "outside_session d t \<longleftrightarrow> \<not> in_life d t"
proof -
  have "tt_BlockNum t = Since d \<and> \<not> (OpenLogId d \<le> tt_LogID t \<or> tt_TxHash t = OpenTxHash d) \<longleftrightarrow> \<not> after_open d t"
    using assms(1) unfolding after_open_def by (cases "tt_BlockNum t = Since d") simp_all
  moreover have "ClosedAt d \<noteq> 0 \<and> tt_BlockNum t = ClosedAt d \<and> \<not> (tt_LogID t \<le> ClosedLogId d \<or> tt_TxHash t = ClosedTxHash d)
      \<longleftrightarrow> \<not> before_close d t"
    using assms(2) unfolding before_close_def by (cases "tt_BlockNum t = ClosedAt d") auto
  ultimately show ?thesis unfolding outside_session_def in_life_def not_less[symmetric] by blast
qed

lemma dropWhile_rev_last:
  "(case dropWhile P (rev xs) of [] \<Rightarrow> None | x # _ \<Rightarrow> Some x) =
    (if filter (\<lambda>x. \<not> P x) xs = [] then None else Some (last (filter (\<lambda>x. \<not> P x) xs)))"
proof (induction xs rule: rev_induct)
  case (snoc x xs)
  then show ?case by (cases "P x") (simp_all del: dropWhile_eq_Nil_conv)
qed simp

lemma asked_answers: "asked cm from to ad b = answers cm from to ad b"
proof -
  have "in_charge cm (rev (ad_Details ad)) b =
      Option.bind (case dropWhile (\<lambda>d. Since d > b) (rev (ad_Details ad)) of [] \<Rightarrow> None | d # _ \<Rightarrow> Some d)
        (\<lambda>d. if sd_CreditManager d = cm \<and> (ClosedAt d = 0 \<or> ClosedAt d \<ge> b) then Some d else None)"
    by (cases "dropWhile (\<lambda>d. Since d > b) (rev (ad_Details ad))") (simp_all add: in_charge_def del: dropWhile_eq_Nil_conv)
  then show ?thesis unfolding dropWhile_rev_last by (simp add: asked_def answers_def Let_def not_less)
qed

lemma answers_range:
  assumes "answers cm from to ad b = Some d"
  shows "Since d \<le> b" "ClosedAt d = 0 \<or> b \<le> ClosedAt d"
proof -
  let ?o = "filter (\<lambda>d. Since d \<le> b) (ad_Details ad)"
  have d: "?o \<noteq> []" "d = last ?o" "ClosedAt d = 0 \<or> b \<le> ClosedAt d"
    using assms by (auto simp: answers_def Let_def split: if_splits)
  have "last ?o \<in> set ?o" using d(1) by (rule last_in_set)
  then show "Since d \<le> b" "ClosedAt d = 0 \<or> b \<le> ClosedAt d" using d(2,3) by auto
qed

lemma passed_life:
  assumes "block_wf b txs" and "Since d \<le> b" and "ClosedAt d = 0 \<or> b \<le> ClosedAt d"
  shows "passed_transfers d txs = life_transfers d txs" "unpassed_txs d txs = foreign_txs d txs"
proof -
  have eq: "\<forall>(h, ts) \<in> set txs. \<forall>t \<in> set ts. outside_session d t \<longleftrightarrow> \<not> in_life d t"
  proof (clarify)
    fix h ts t assume "(h, ts) \<in> set txs" "t \<in> set ts"
    then have "tt_BlockNum t = b" using assms(1) by (auto simp: block_wf_def)
    then show "outside_session d t \<longleftrightarrow> \<not> in_life d t" using outside_in_life assms(2,3) by simp
  qed
  have "concat (map (\<lambda>(_, ts). filter (\<lambda>t. \<not> outside_session d t) ts) txs) = concat (map (\<lambda>(_, ts). filter (in_life d) ts) txs)"
    using eq by (intro arg_cong[where f = concat] map_cong refl) (auto intro!: filter_cong)
  then show "passed_transfers d txs = life_transfers d txs"
    by (simp add: passed_transfers_def life_transfers_def filter_concat comp_def case_prod_unfold)
  show "unpassed_txs d txs = foreign_txs d txs"
    unfolding unpassed_txs_def foreign_txs_def using eq by (intro filter_cong refl) (auto simp: list_all_iff)
qed

text \<open>
  C34: what a credit manager is told.  For an account that is well-formed (as all are in a reachable manager, \<open>dtm_reach_wf\<close>) and whose blocks are sorted (after \<open>dtm_Init\<close>), the
  request for \<open>[from, to)\<close> has an answer for exactly those recorded blocks of that range for which the session recorded last among those
  opened by then belongs to the credit manager and was not closed in an earlier block.  The answer is, under the id of that session, its transfers of the
  block: none before the log that opened it and none after the log that closed it, apart from those in the opening and the closing
  transaction.  The transactions with such a transfer are removed and all others stay.  In a block in which a session closes and the
  account is opened again only the new session is looked at: transfers before the close are not returned.
\<close>

theorem GetRemainingTransfer_returns:
  assumes "GetRemainingTransfer cm from to ad = (ad', extra)" and "account_wf ad" and "sorted (blockNums ad)"
  shows "map_of extra b = map_option (\<lambda>d. for_session d (life_transfers d (aget [] (transfers ad) b))) (answers cm from to ad b) \<and>
    aget [] (transfers ad') b = (case answers cm from to ad b of
             Some d \<Rightarrow> foreign_txs d (aget [] (transfers ad) b)
           | None \<Rightarrow> aget [] (transfers ad) b)"
proof -
  note s = GetRemainingTransfer_spec[OF assms, of b, unfolded asked_answers]
  have wf: "block_wf b (aget [] (transfers ad) b)" using assms(2) by (simp add: account_wf_def)
  show ?thesis
  proof (cases "answers cm from to ad b")
    case None
    then show ?thesis using s by simp
  next
    case (Some d)
    note r = answers_range[OF Some]
    show ?thesis using s Some passed_life[OF wf r] by simp
  qed
qed

lemma inside_kept: "passed_transfers d (unpassed_txs d txs) = []"
  by (auto simp: passed_transfers_def unpassed_txs_def list_all_iff filter_empty_conv)

text \<open>
  No transfer is handed out twice.  After a request, the same request by the same credit
  manager finds nothing more: every block it still reports comes with no transfers at all.
\<close>

theorem GetRemainingTransfer_once:
  assumes "account_wf ad" and "sorted (blockNums ad)"
  shows "\<forall>b ts. map_of (snd (GetRemainingTransfer cm from to (fst (GetRemainingTransfer cm from to ad)))) b = Some ts \<longrightarrow> ts = []"
proof (intro allI impI)
  fix b ts
  obtain ad' ex where g: "GetRemainingTransfer cm from to ad = (ad', ex)" by fastforce
  obtain ad'' ex' where g': "GetRemainingTransfer cm from to ad' = (ad'', ex')" by fastforce
  note s = GetRemainingTransfer_spec[OF g assms]
  have "account_wf ad'" "sorted (blockNums ad')" using account_wf_remaining[OF g assms] s assms(2) by simp_all
  note s' = GetRemainingTransfer_spec[OF g' this]
  have same: "asked cm from to ad' b = asked cm from to ad b" using s by (simp add: asked_def)
  assume "map_of (snd (GetRemainingTransfer cm from to (fst (GetRemainingTransfer cm from to ad)))) b = Some ts"
  then have "map_of ex' b = Some ts" by (simp add: g g')
  then obtain d where "asked cm from to ad b = Some d" "ts = for_session d (passed_transfers d (aget [] (transfers ad') b))"
    using s'[of b] same by auto
  then show "ts = []" using s[of b] by (simp add: inside_kept for_session_def)
qed

section \<open>The invariant of the manager\<close>

lemma account_wf_new [simp]: "account_wf (newAccountData a)"
  by (simp add: account_wf_def newAccountData_def)

lemma set_update_distinct:
  assumes "distinct (map fst m)" and "(k', v') \<in> set (AList.update k v m)"
  shows "k' = k \<and> v' = v \<or> (k', v') \<in> set m"
proof -
  have "map_of (AList.update k v m) k' = Some v'"
    using assms by (intro map_of_is_SomeI) (auto simp: distinct_update)
  then show ?thesis by (auto simp: map_of_SomeD split: if_splits)
qed

lemma block_wf_update:
  assumes "block_wf b txs" and "tt_BlockNum tt = b"
  shows "block_wf b (AList.update (tt_TxHash tt) (aget [] txs (tt_TxHash tt) @ [tt]) txs)"
proof -
  let ?new = "aget [] txs (tt_TxHash tt) @ [tt]"
  have new: "\<forall>t \<in> set ?new. tt_BlockNum t = b \<and> tt_TxHash t = tt_TxHash tt"
  proof (cases "map_of txs (tt_TxHash tt)")
    case (Some ts)
    with map_of_SomeD[OF Some] assms show ?thesis by (auto simp: block_wf_def aget_def)
  qed (use assms in \<open>simp add: aget_def\<close>)
  show ?thesis
    unfolding block_wf_def
  proof (intro conjI ballI, goal_cases)
    case (2 x)
    obtain h ts where x: "x = (h, ts)" by fastforce
    from set_update_distinct[OF block_wf_distinct[OF assms(1)] 2[unfolded x]] show ?case
    proof
      assume "h = tt_TxHash tt \<and> ts = ?new"
      with new show ?thesis by (simp add: x)
    next
      assume "(h, ts) \<in> set txs"
      with assms(1) show ?thesis unfolding block_wf_def x by blast
    qed
  qed (simp add: distinct_update block_wf_distinct[OF assms(1)])
qed

lemma account_wf_process:
  assumes "account_wf ad"
  shows "account_wf (ad_process tt ad)"
proof -
  note wf = assms[unfolded account_wf_def]
  have "block_wf b (aget [] (transfers (ad_process tt ad)) b)" for b
    using wf block_wf_update by (simp add: ad_process_def Let_def)
  then show ?thesis using wf by (auto simp: account_wf_def ad_process_def Let_def)
qed

lemma account_wf_ops:
  "account_wf ad \<Longrightarrow> account_wf (deleteTxHash b h ad)"
  "account_wf ad \<Longrightarrow> account_wf (ad_Clear ad)"
  "account_wf ad \<Longrightarrow> account_wf (ad_init ad)"
  "account_wf ad \<Longrightarrow> account_wf (AddDetails sd ad)"
  "account_wf ad \<Longrightarrow> account_wf (SetClose s c h l ad)"
  by (auto simp: account_wf_def ad_Clear_def ad_init_def AddDetails_def SetClose_def block_wf_filter)

lemma take_tx_wf: "account_wf ad \<Longrightarrow> account_wf (fst (take_tx d b tx (ad, ex)))"
  by (auto simp: take_tx_def account_wf_ops split: prod.splits)

lemma remaining_loop_wf: "account_wf (fst st) \<Longrightarrow> account_wf (fst (remaining_loop cm from bs dets st))"
proof (induction cm "from" bs dets st rule: remaining_loop.induct)
  case (2 cm "from" b bs dets ad extra)
  have blk: "account_wf (fst (foldl (\<lambda>st tx. take_tx d b tx st) (ad, ex) txs))" for d ex txs
    by (rule foldl_invariant[where I = "\<lambda>st. account_wf (fst st)"]) (use "2.prems" take_tx_wf in \<open>auto\<close>)
  show ?case
  proof (cases "b < from \<or> dropWhile (\<lambda>d. Since d > b) dets = []")
    case True
    then show ?thesis using "2.prems" by (auto simp del: dropWhile_eq_Nil_conv)
  next
    case False
    then obtain d ds where ds: "dropWhile (\<lambda>d. Since d > b) dets = d # ds" by (meson neq_Nil_conv)
    obtain ad' ex where f: "foldl (\<lambda>st tx. take_tx d b tx st) (ad, aget [] extra b) (aget [] (transfers ad) b) = (ad', ex)"
      by fastforce
    have "account_wf ad'" using blk[of d "aget [] extra b" "aget [] (transfers ad) b"] f by simp
    then show ?thesis using "2.IH" False ds f "2.prems" by auto
  qed
qed simp

lemma set_AList_update: "set (AList.update k v m) \<subseteq> insert (k, v) (set m)"
  by (induction m) auto

definition mgr_wf :: "direct_transfer_manager \<Rightarrow> bool" where
  "mgr_wf mgr \<longleftrightarrow>
    (\<forall>p \<in> set (accountToData mgr). account_wf (snd p)) \<and>
    (\<forall>h. set (txHashToAccounts mgr h) \<subseteq> fst ` set (accountToData mgr))"

lemma mgr_wfD: "mgr_wf mgr \<Longrightarrow> map_of (accountToData mgr) a = Some ad \<Longrightarrow> account_wf ad"
  by (auto simp: mgr_wf_def dest!: map_of_SomeD)

text \<open>Every sequence of calls of the manager's methods, from an empty manager.\<close>

inductive dtm_reach :: "direct_transfer_manager \<Rightarrow> bool" where
  new: "dtm_reach NewDirectTransferManager"
| transfer: "dtm_reach mgr \<Longrightarrow> dtm_reach (AddTokenTransfer tt mgr)"
| details: "dtm_reach mgr \<Longrightarrow> dtm_reach (AddAccountDetails sd mgr)"
| closed: "dtm_reach mgr \<Longrightarrow> CloseAccountDetails a s c h l mgr = Inr mgr' \<Longrightarrow> dtm_reach mgr'"
| check: "dtm_reach mgr \<Longrightarrow> CheckTokenTransfer cm from to mgr = (mgr', res) \<Longrightarrow> dtm_reach mgr'"
| delete: "dtm_reach mgr \<Longrightarrow> DeleteTxHash b h mgr = Inr mgr' \<Longrightarrow> dtm_reach mgr'"
| clear: "dtm_reach mgr \<Longrightarrow> dtm_reach (dtm_Clear mgr)"
| init: "dtm_reach mgr \<Longrightarrow> dtm_reach (dtm_Init mgr)"

lemma mgr_wf_put:
  assumes "mgr_wf mgr" and "account_wf ad"
  shows "mgr_wf (mgr\<lparr>accountToData := AList.update a ad (accountToData mgr)\<rparr>)"
proof -
  have "account_wf (snd p)" if "p \<in> set (AList.update a ad (accountToData mgr))" for p
    using that set_AList_update[of a ad "accountToData mgr"] assms unfolding mgr_wf_def by auto
  then show ?thesis using assms(1) unfolding mgr_wf_def by auto
qed

lemma mgr_wf_aget: "mgr_wf mgr \<Longrightarrow> account_wf (aget (newAccountData a) (accountToData mgr) a)"
  by (auto simp: aget_def mgr_wfD split: option.splits)

lemma mgr_wf_record_for: "mgr_wf mgr \<Longrightarrow> mgr_wf (record_for a tt mgr)"
  using mgr_wf_put[OF _ account_wf_process[OF mgr_wf_aget[of mgr a]], of mgr a tt]
  by (auto simp: record_for_def Let_def mgr_wf_def)

lemma mgr_wf_map:
  assumes "mgr_wf mgr" and "\<And>ad. account_wf ad \<Longrightarrow> account_wf (f ad)"
  shows "mgr_wf (mgr\<lparr>accountToData := map (\<lambda>(a, d). (a, f d)) (accountToData mgr)\<rparr>)"
  using assms unfolding mgr_wf_def by (auto simp: image_image case_prod_unfold)

lemma mgr_wf_DeleteTxHash: "mgr_wf mgr \<Longrightarrow> \<exists>mgr'. DeleteTxHash b h mgr = Inr mgr' \<and> mgr_wf mgr'"
proof -
  assume wf: "mgr_wf mgr"
  have "\<exists>mgr'. DeleteTxHash b h mgr = Inr mgr' \<and> (mgr_wf mgr' \<and> txHashToAccounts mgr' = txHashToAccounts mgr)"
    unfolding DeleteTxHash_def
  proof (rule rfold_total[where I = "\<lambda>m. mgr_wf m \<and> txHashToAccounts m = txHashToAccounts mgr"], goal_cases)
    case (2 a m)
    then have "a \<in> fst ` set (accountToData m)" unfolding mgr_wf_def by (metis subsetD)
    then obtain ad where "map_of (accountToData m) a = Some ad" by (auto dest: weak_map_of_SomeI)
    with 2 show ?case by (auto simp: mgr_wfD account_wf_ops intro!: mgr_wf_put)
  qed (use wf in simp)
  then show ?thesis by blast
qed

lemma mgr_wf_CheckTokenTransfer: "mgr_wf mgr \<Longrightarrow> mgr_wf (fst (CheckTokenTransfer cm from to mgr))"
proof -
  assume wf: "mgr_wf mgr"
  have acc: "account_wf ad'" if "GetRemainingTransfer cm from to ad = (ad', ex)" "account_wf ad" for ad ad' ex
    using remaining_loop_wf[of "(ad, [])"] that by (metis GetRemainingTransfer_def fst_conv)
  show ?thesis
    unfolding CheckTokenTransfer_def
  proof (rule foldl_invariant[where I = "\<lambda>p. mgr_wf (fst p)"], goal_cases)
    case (2 x p)
    have "account_wf (snd x)" using 2(1) wf by (simp add: mgr_wf_def)
    then show ?case using 2(2) acc by (auto simp: mgr_wf_put split: prod.splits)
  qed (use wf in simp)
qed

lemma dtm_reach_wf: "dtm_reach mgr \<Longrightarrow> mgr_wf mgr"
proof (induction rule: dtm_reach.induct)
  case new
  then show ?case by (simp add: mgr_wf_def NewDirectTransferManager_def)
next
  case (transfer mgr tt)
  then have "mgr_wf (if IsFromAccount tt then record_for (tt_From tt) tt mgr else mgr)" (is "mgr_wf ?m1")
    by (simp add: mgr_wf_record_for)
  then have "mgr_wf (if IsToAccount tt then record_for (tt_To tt) tt ?m1 else ?m1)"
    by (simp add: mgr_wf_record_for)
  then show ?case by (simp add: AddTokenTransfer_def Let_def mgr_wf_def)
next
  case (details mgr sd)
  then show ?case by (simp add: AddAccountDetails_def Let_def mgr_wf_put account_wf_ops mgr_wf_aget)
next
  case (closed mgr a s c h l mgr')
  then show ?case by (auto simp: CloseAccountDetails_def mgr_wfD intro!: mgr_wf_put account_wf_ops elim!: rbind_InrE)
next
  case (check mgr cm "from" "to" mgr' res)
  then show ?case using mgr_wf_CheckTokenTransfer by (metis fst_conv)
next
  case (delete mgr b h mgr')
  then show ?case using mgr_wf_DeleteTxHash[of mgr b h] by auto
next
  case (clear mgr)
  then show ?case using mgr_wf_map[OF clear.IH account_wf_ops(2)] by (simp add: dtm_Clear_def mgr_wf_def)
next
  case (init mgr)
  then show ?case using mgr_wf_map[OF init.IH account_wf_ops(3)] by (simp add: dtm_Init_def)
qed

text \<open>
  Removing the transactions that an operation explained is safe.  After any sequence of calls
  the manager knows every account a transaction hash points to, so \<open>DeleteTxHash\<close> does not
  dereference a nil account, and the account records stay consistent.
\<close>

theorem DeleteTxHash_safe:
  assumes "dtm_reach mgr"
  shows "\<exists>mgr'. DeleteTxHash b h mgr = Inr mgr' \<and>
    (\<forall>a ad. map_of (accountToData mgr') a = Some ad \<longrightarrow> account_wf ad)"
  using mgr_wf_DeleteTxHash[OF dtm_reach_wf[OF assms]] by (blast dest: mgr_wfD)

theorem DeleteTxHash_safe_witness:
  "\<exists>mgr'. DeleteTxHash 10 ''h'' (AddTokenTransfer
      \<lparr>tt_TxHash = ''h'', tt_BlockNum = 10, tt_LogID = 1, tt_From = ''a'', tt_To = ''b'', tt_Token = ''t'',
       tt_Amount = 5, IsFromAccount = True, IsToAccount = True\<rparr> NewDirectTransferManager) = Inr mgr'"
  using DeleteTxHash_safe[OF dtm_reach.intros(2)[OF dtm_reach.intros(1)]] by blast

section \<open>A concrete account\<close>

definition demo_tt :: "txhash \<Rightarrow> int \<Rightarrow> int \<Rightarrow> token_transfer" where
  "demo_tt h b l =
    \<lparr>tt_TxHash = h, tt_BlockNum = b, tt_LogID = l, tt_From = ''p'', tt_To = ''a'', tt_Token = ''t'',
     tt_Amount = 5, IsFromAccount = False, IsToAccount = True\<rparr>"

definition demo_session :: session_data where
  "demo_session =
    \<lparr>sd_Account = ''a'', Since = 10, sd_CreditManager = ''cm'', SessionID = ''s'', ClosedAt = 14,
     OpenTxHash = ''o'', OpenLogId = 5, ClosedTxHash = ''c'', ClosedLogId = 7\<rparr>"

text \<open>
  In the opening block one transfer before and one after the log of the opening, one in between, in the closing block one before and one
  after the log of the closing, and one out of range.
\<close>

definition demo_account :: account_data where
  "demo_account =
    ad_init (AddDetails demo_session
      (ad_process (demo_tt ''h6'' 30 1) (ad_process (demo_tt ''h5'' 14 8) (ad_process (demo_tt ''h4'' 14 6)
      (ad_process (demo_tt ''h3'' 12 1) (ad_process (demo_tt ''h2'' 10 6) (ad_process (demo_tt ''h1'' 10 3)
         (newAccountData ''a''))))))))"

lemma demo_account_wf: "account_wf demo_account"
  by (simp add: demo_account_def account_wf_ops account_wf_process)

lemma demo_account_sorted: "sorted (blockNums demo_account)"
  by (simp add: demo_account_def ad_init_def)

theorem GetRemainingTransfer_returns_witness:
  "\<exists>ad' extra. GetRemainingTransfer ''cm'' 0 20 demo_account = (ad', extra) \<and>
     map_of extra 10 = Some [(''s'', [demo_tt ''h2'' 10 6])] \<and> map_of extra 12 = Some [(''s'', [demo_tt ''h3'' 12 1])] \<and>
     map_of extra 14 = Some [(''s'', [demo_tt ''h4'' 14 6])] \<and> map_of extra 30 = None \<and>
     aget [] (transfers ad') 10 = [(''h1'', [demo_tt ''h1'' 10 3])] \<and> aget [] (transfers ad') 12 = [] \<and>
     aget [] (transfers ad') 14 = [(''h5'', [demo_tt ''h5'' 14 8])]"
proof -
  obtain ad' extra where g: "GetRemainingTransfer ''cm'' 0 20 demo_account = (ad', extra)" by fastforce
  note r = GetRemainingTransfer_returns[OF g demo_account_wf demo_account_sorted]
  have a: "answers ''cm'' 0 20 demo_account 10 = Some demo_session" "answers ''cm'' 0 20 demo_account 12 = Some demo_session"
    "answers ''cm'' 0 20 demo_account 14 = Some demo_session" "answers ''cm'' 0 20 demo_account 30 = None"
    by (code_simp)+
  have t: "aget [] (transfers demo_account) 10 = [(''h1'', [demo_tt ''h1'' 10 3]), (''h2'', [demo_tt ''h2'' 10 6])]"
    "aget [] (transfers demo_account) 12 = [(''h3'', [demo_tt ''h3'' 12 1])]"
    "aget [] (transfers demo_account) 14 = [(''h4'', [demo_tt ''h4'' 14 6]), (''h5'', [demo_tt ''h5'' 14 8])]"
    by (simp_all add: demo_account_def demo_tt_def ad_init_def AddDetails_def ad_process_def newAccountData_def Let_def)
  have l: "in_life demo_session (demo_tt ''h2'' 10 6)" "\<not> in_life demo_session (demo_tt ''h1'' 10 3)" "in_life demo_session (demo_tt ''h3'' 12 1)"
    "in_life demo_session (demo_tt ''h4'' 14 6)" "\<not> in_life demo_session (demo_tt ''h5'' 14 8)"
    by (simp_all add: in_life_def after_open_def before_close_def demo_session_def demo_tt_def)
  have i: "SessionID demo_session = ''s''" by (simp add: demo_session_def)
  show ?thesis
    using g r[of 10] r[of 12] r[of 14] r[of 30] by (simp add: a t l i for_session_def life_transfers_def foreign_txs_def)
qed

theorem GetRemainingTransfer_once_witness:
  "aget [] (snd (GetRemainingTransfer ''cm'' 0 20 (fst (GetRemainingTransfer ''cm'' 0 20 demo_account)))) 12 = []"
  using GetRemainingTransfer_once[OF demo_account_wf demo_account_sorted, of "''cm''" 0 20]
  by (auto simp: aget_def split: option.splits)

end
