(* ===== verification/Credit_Manager_State.thy ===== *)
theory Credit_Manager_State
  imports Complex_Main Multicalls Direct_Transfers Sync_Engine
begin

text \<open>
  The state of a credit manager (\<^verbatim>\<open>models/credit_manager\<close>) with the part of the repository it writes to, and
  the operations both contract versions share: the session store (\<^verbatim>\<open>repository/handlers/credit_session.go\<close>),
  the repay accumulator (\<^verbatim>\<open>pnl_cm.go\<close>), owners and counters (\<^verbatim>\<open>state.go\<close>, \<^verbatim>\<open>v2operation.go\<close>), pool ledger
  entries and collateral (\<^verbatim>\<open>v1operation.go\<close>).

  Sessions are objects in the repository, so they are read and written by id.  What the sdk, the
  contracts and the tracing service compute is in \<open>cm_env\<close>.  Floating point values are rationals and
  \<^verbatim>\<open>utils.GetFloat64Decimal\<close> is a parameter.
\<close>

section \<open>Data\<close>

datatype session_status = Active | Closed | Repaid | Liquidated | LiquidateExpired | LiquidatePaused

record balance =
  IsAllowed :: bool
  IsEnabled :: bool
  BI :: int
  bal_F :: rat
  bal_Ind :: int

record credit_session =
  cs_ID :: string
  cs_Status :: session_status
  cs_Borrower :: address
  cs_CreditManager :: address
  cs_Account :: address
  cs_Since :: int
  cs_ClosedAt :: int
  cs_InitialAmount :: "int option"
  cs_BorrowedAmount :: int
  cs_RemainingFunds :: "int option"
  cs_Liquidator :: address
  cs_Collateral :: "(address \<times> int) list"
  cs_CollateralInUSD :: rat
  cs_CollateralInUnderlying :: rat
  cs_Balances :: "(address \<times> balance) list"
  cs_CloseTransfers :: "(address \<times> rat) list"
  IsDirty :: bool
  cs_Version :: int

record parameters =
  par_BlockNum :: int
  par_CreditManager :: address
  par_MinAmount :: int
  par_MaxAmount :: int
  par_MaxLeverage :: int
  FeeInterest :: "16 word"
  FeeLiquidation :: "16 word"
  LiquidationDiscount :: "16 word"
  FeeLiquidationExpired :: "16 word"
  LiquidationDiscountExpired :: "16 word"

record pnl_on_repay =
  pnl_BlockNum :: int
  pnl_Profit :: int
  pnl_Loss :: int
  pnl_BorrowedAmount :: int

record close_details =
  cd_RemainingFunds :: "int option"
  cd_Status :: session_status
  cd_LogId :: int
  cd_TxHash :: txhash
  cd_Borrower :: address
  cd_AccountOperation :: "account_operation option"

record cm_state =
  PoolAddress :: address
  UnderlyingToken :: address
  Sessions :: "address \<rightharpoonup> string"
  st_Paused :: bool
  IsWETH :: bool
  OpenedAccountsCount :: int
  TotalOpenedAccounts :: int
  TotalClosedAccounts :: int
  TotalRepaidAccounts :: int
  TotalLiquidatedAccounts :: int
  TotalBorrowedBI :: int
  TotalBorrowed :: rat
  TotalRepaidBI :: int
  TotalRepaid :: rat
  TotalProfitBI :: int
  TotalProfit :: rat
  TotalLossesBI :: int
  TotalLosses :: rat
  st_MinAmount :: int
  st_MaxAmount :: int
  MaxLeverageFactor :: int
  AvailableLiquidityBI :: int
  AvailableLiquidity :: rat

record pool_ledger =
  pl_LogId :: int
  pl_BlockNumber :: int
  pl_TxHash :: txhash
  pl_Pool :: address
  pl_Event :: string
  pl_User :: address
  pl_SessionId :: string
  pl_AmountBI :: int
  pl_Amount :: rat

record session_snapshot =
  css_BlockNum :: int
  css_SessionId :: string
  css_CollateralInUSD :: rat
  css_CollateralInUnderlying :: rat
  css_Borrower :: address
  css_HealthFactor :: int
  css_TotalValueBI :: int
  css_TotalValue :: rat
  css_Balances :: "(address \<times> balance) list"
  css_BorrowedAmountBI :: int
  css_BorrowedAmount :: rat
  css_CumulativeIndexAtOpen :: int

text \<open>The statistics row: address, block and a copy of the state at that time.\<close>

record cm_stat =
  stat_Address :: address
  stat_BlockNum :: int
  stat_State :: cm_state

datatype dao_operation =
    NewParametersDAO int int txhash parameters address
  | NewConfiguratorDAO int int txhash address address address  \<comment> \<open>block, log, tx, contract, old, new\<close>

section \<open>The world of a credit manager\<close>

record cm_world =
  \<comment> \<open>the credit manager object\<close>
  cm_adapter :: sync_adapter
  State :: cm_state
  LastTxHash :: txhash
  lastEventBlock :: int
  executeParams :: "execute_params list"
  pnlOnCM :: "int \<rightharpoonup> pnl_on_repay"
  UpdatedSessions :: "(string \<times> int) list"
  ClosedSessions :: "(string \<times> close_details) list"
  borrowedAmountForBlock :: "int option"
  cm_params :: "parameters option"
  allowedProtocols :: "address \<Rightarrow> bool"
  multicall :: multi_call_processor
  addrChanged :: bool
  \<comment> \<open>the repository\<close>
  sessions :: "(string \<times> credit_session) list"
  accountManager :: direct_transfer_manager
  blocks :: "int list"
  operations :: "stored_operation list"
  poolLedger :: "pool_ledger list"
  snapshots :: "session_snapshot list"
  cmStats :: "cm_stat list"
  daoOperations :: "dao_operation list"
  transferAllowed :: "(address \<times> address \<times> bool \<times> int \<times> int) list"
  disableBlocks :: "(address \<times> int) list"     \<comment> \<open>calls of \<^verbatim>\<open>SetBlockToDisableOn\<close> on other adapters\<close>
  newAdapters :: "address list"               \<comment> \<open>credit configurators added as adapters\<close>

text \<open>What the data compressor returns for an account and for the manager.\<close>

record dc_balance =
  dcb_Token :: address
  dcb_Balance :: int
  dcb_IsAllowed :: bool
  dcb_IsEnabled :: bool

record dc_account =
  dc_BorrowedAmount :: int
  dc_BorrowedAmountPlusInterest :: int
  dc_TotalValue :: int
  dc_RepayAmount :: int
  dc_HealthFactor :: int
  dc_CumulativeIndexAtOpen :: int
  dc_Balances :: "dc_balance list"

record dc_manager =
  dcm_Adapters :: "address list"     \<comment> \<open>the allowed contracts\<close>
  dcm_IsWETH :: bool
  dcm_MinAmount :: int
  dcm_MaxAmount :: int
  dcm_AvailableLiquidity :: int

record known_call =
  kc_Name :: string
  kc_Args :: "json_obj option"
  kc_Transfers :: "(address \<times> int) list"

text \<open>The decoded events of the manager, the facade and the configurator.\<close>

datatype cm_event =
    OpenV1 address address int int          \<comment> \<open>onBehalfOf, account, amount, borrowAmount\<close>
  | CloseV1 address address int             \<comment> \<open>owner, to, remainingFunds\<close>
  | LiquidateV1 address address int         \<comment> \<open>owner, liquidator, remainingFunds\<close>
  | RepayV1 address address
  | IncreaseBorrowed address int
  | DecreaseBorrowed address int
  | AddCollateral address address int       \<comment> \<open>onBehalfOf, token, value\<close>
  | ExecuteOrder address address
  | NewParameters int int int int int int   \<comment> \<open>min, max, leverage, fee interest, fee liquidation, discount\<close>
  | TransferAccount address address
  | OpenV2 address address int
  | CloseV2 address address
  | LiquidateV2 address address int
  | TokenEnabled address address
  | TokenDisabled address address
  | MultiCallStarted address
  | MultiCallFinished
  | TransferAccountAllowed address address bool
  | NewConfigurator address
  | CreditFacadeUpgraded address
  | FeesUpdated int int int int int         \<comment> \<open>interest, liquidation, premium, liquidation and premium if expired\<close>
  | CMPaused
  | CMUnpaused
  | OtherEvent

type_synonym cm_log = "cm_event txlog"

record cm_env =
  GetFloat64Decimal :: "int \<Rightarrow> int \<Rightarrow> rat"
  GetFloat64 :: "int \<Rightarrow> int \<Rightarrow> rat"
  GetExpFloat :: "int \<Rightarrow> rat"
  Decimals :: "address \<Rightarrow> int"
  IsDieselToken :: "address \<Rightarrow> bool"
  GearTokenAddr :: address
  GetValueInCurrency :: "int \<Rightarrow> int \<Rightarrow> address \<Rightarrow> string \<Rightarrow> int \<Rightarrow> int res"
  GetPricesInUSD :: "int \<Rightarrow> address list \<Rightarrow> address \<Rightarrow> rat"
  ValueInUnderlying :: "(address \<times> rat) list \<Rightarrow> address \<Rightarrow> int \<Rightarrow> (address \<Rightarrow> rat) \<Rightarrow> int"
  ParseEvent :: "string \<Rightarrow> cm_log \<Rightarrow> string \<times> json_obj"
  GetExecuteCalls :: "txhash \<Rightarrow> address \<Rightarrow> execute_params list \<Rightarrow> known_call list"
  GetMainCalls :: "txhash \<Rightarrow> address \<Rightarrow> facade_call list"
  GetTransfersAtClosev2 :: "txhash \<Rightarrow> address \<Rightarrow> address \<Rightarrow> address \<Rightarrow> address \<Rightarrow> (address \<times> int) list"
  GetCreditAccountData :: "int \<Rightarrow> address \<Rightarrow> address \<Rightarrow> dc_account option"   \<comment> \<open>block, manager, borrower\<close>
  GetCreditManagerData :: "int \<Rightarrow> address \<Rightarrow> dc_manager option"
  CalCloseAmount :: "parameters option \<Rightarrow> int \<Rightarrow> int \<Rightarrow> session_status \<Rightarrow> int \<Rightarrow> int \<Rightarrow> int"  \<comment> \<open>the amount to the pool\<close>
  stETH :: address
  sharesOf :: "address \<Rightarrow> int \<Rightarrow> address \<Rightarrow> int res"
  SortTransfers :: "token_transfer list \<Rightarrow> token_transfer list"    \<comment> \<open>the order of \<^verbatim>\<open>schemas.TokenTransferList\<close>\<close>
  itoa :: "int \<Rightarrow> string"

abbreviation "NULL_ADDR \<equiv> ''0x0000000000000000000000000000000000000000''"

abbreviation cm_addr :: "cm_world \<Rightarrow> address" where
  "cm_addr w \<equiv> Address (cm_adapter w)"

abbreviation upd_State :: "(cm_state \<Rightarrow> cm_state) \<Rightarrow> cm_world \<Rightarrow> cm_world" where
  "upd_State f w \<equiv> w\<lparr>State := f (State w)\<rparr>"

section \<open>Blocks and the session store\<close>

definition SetBlock :: "int \<Rightarrow> cm_world \<Rightarrow> cm_world" where
  "SetBlock blockNum w = (if blockNum \<in> set (blocks w) then w else w\<lparr>blocks := blocks w @ [blockNum]\<rparr>)"

definition AddAccountOperation :: "account_operation \<Rightarrow> account_operation list \<Rightarrow> cm_world \<Rightarrow> cm_world res" where
  "AddAccountOperation op multicalls w =
    (if ao_SessionId op = '''' then Inl (Panic ''account operation'')
     else let w1 = SetBlock (ao_BlockNumber op) w in Inr (w1\<lparr>operations := operations w1 @ [(op, multicalls)]\<rparr>))"

definition AddPoolLedger :: "pool_ledger \<Rightarrow> cm_world \<Rightarrow> cm_world" where
  "AddPoolLedger pl w = (let w1 = SetBlock (pl_BlockNumber pl) w in w1\<lparr>poolLedger := poolLedger w1 @ [pl]\<rparr>)"

definition AddCreditSessionSnapshot :: "session_snapshot \<Rightarrow> cm_world \<Rightarrow> cm_world" where
  "AddCreditSessionSnapshot css w =
    (let w1 = SetBlock (css_BlockNum css) w in w1\<lparr>snapshots := snapshots w1 @ [css]\<rparr>)"

text \<open>\<^verbatim>\<open>SessionRepo.AddCreditSession\<close> and the account details \<^verbatim>\<open>Repository.AddCreditSession\<close> records with it.\<close>

definition AddCreditSession :: "credit_session \<Rightarrow> txhash \<Rightarrow> int \<Rightarrow> cm_world \<Rightarrow> cm_world res" where
  "AddCreditSession session txHash logID w =
    rbind (guard_fatal (map_of (sessions w) (cs_ID session) \<noteq> None) ''Credit session already present'') (\<lambda>_.
      Inr (w\<lparr>sessions := AList.update (cs_ID session) session (sessions w),
             accountManager := AddAccountDetails
               \<lparr>sd_Account = cs_Account session, Since = cs_Since session, sd_CreditManager = cs_CreditManager session,
                SessionID = cs_ID session, ClosedAt = 0, OpenTxHash = txHash, OpenLogId = logID,
                ClosedTxHash = '''', ClosedLogId = 0\<rparr> (accountManager w)\<rparr>))"

definition GetCreditSession :: "string \<Rightarrow> cm_world \<Rightarrow> credit_session option" where
  "GetCreditSession sessionId w = map_of (sessions w) sessionId"

text \<open>Writing fields of the session object; a missing session is a nil pointer.\<close>

definition upd_session :: "string \<Rightarrow> (credit_session \<Rightarrow> credit_session) \<Rightarrow> cm_world \<Rightarrow> cm_world res" where
  "upd_session sessionId f w =
    rbind (deref (GetCreditSession sessionId w)) (\<lambda>s.
      Inr (w\<lparr>sessions := AList.update sessionId (f s) (sessions w)\<rparr>))"

text \<open>\<^verbatim>\<open>UpdateCreditSession\<close>: marks the session dirty and sets the given fields.\<close>

definition UpdateCreditSession :: "string \<Rightarrow> (credit_session \<Rightarrow> credit_session) \<Rightarrow> cm_world \<Rightarrow> cm_world res" where
  "UpdateCreditSession sessionId values w = upd_session sessionId (\<lambda>s. values (s\<lparr>IsDirty := True\<rparr>)) w"

definition SessionRepo_Clear :: "int \<Rightarrow> cm_world \<Rightarrow> cm_world" where
  "SessionRepo_Clear closedBefore w =
    w\<lparr>sessions := filter (\<lambda>(_, s). \<not> (cs_ClosedAt s \<noteq> 0 \<and> closedBefore \<ge> cs_ClosedAt s)) (sessions w)\<rparr>"

section \<open>Repay accumulator\<close>

definition pnl_Get :: "int \<Rightarrow> (int \<rightharpoonup> pnl_on_repay) \<Rightarrow> pnl_on_repay option \<times> (int \<rightharpoonup> pnl_on_repay)" where
  "pnl_Get blockNum m = (m blockNum, m(blockNum := None))"

definition pnl_Set :: "pnl_on_repay \<Rightarrow> (int \<rightharpoonup> pnl_on_repay) \<Rightarrow> (int \<rightharpoonup> pnl_on_repay) res" where
  "pnl_Set pnl m =
    (case m (pnl_BlockNum pnl) of
       None \<Rightarrow> Inr (m(pnl_BlockNum pnl \<mapsto> pnl))
     | Some oldPnl \<Rightarrow>
         rbind (guard_fatal (pnl_BlockNum oldPnl \<noteq> pnl_BlockNum pnl) ''Pool repay event has different pnl for same block'') (\<lambda>_.
           Inr (m(pnl_BlockNum pnl \<mapsto>
             pnl\<lparr>pnl_Profit := pnl_Profit oldPnl + pnl_Profit pnl, pnl_Loss := pnl_Loss oldPnl + pnl_Loss pnl,
                 pnl_BorrowedAmount := pnl_BorrowedAmount oldPnl + pnl_BorrowedAmount pnl\<rparr>))))"

section \<open>Owners and counters\<close>

definition AddCreditOwnerSession :: "address \<Rightarrow> string \<Rightarrow> cm_world \<Rightarrow> cm_world" where
  "AddCreditOwnerSession own sessionId = upd_State (\<lambda>s. s\<lparr>Sessions := (Sessions s)(own \<mapsto> sessionId)\<rparr>)"

definition RemoveCreditOwnerSession :: "address \<Rightarrow> cm_world \<Rightarrow> cm_world" where
  "RemoveCreditOwnerSession own = upd_State (\<lambda>s. s\<lparr>Sessions := (Sessions s)(own := None)\<rparr>)"

definition GetCreditOwnerSession :: "address \<Rightarrow> bool \<Rightarrow> cm_world \<Rightarrow> string res" where
  "GetCreditOwnerSession own dontFail w =
    (let sessionId = zget '''' (Sessions (State w)) own in
     if \<not> dontFail \<and> sessionId = '''' then Inl (Panic ''session id not found'') else Inr sessionId)"

abbreviation GetUnderlyingToken :: "cm_world \<Rightarrow> address" where
  "GetUnderlyingToken w \<equiv> UnderlyingToken (State w)"

definition GetUnderlyingDecimal :: "cm_env \<Rightarrow> cm_world \<Rightarrow> int" where
  "GetUnderlyingDecimal E w = Decimals E (GetUnderlyingToken w)"

definition addBorrowAmountForBlock :: "int \<Rightarrow> cm_world \<Rightarrow> cm_world res" where
  "addBorrowAmountForBlock borrowAmount w =
    rbind (guard_fatal (borrowAmount < 0) ''Borrowed Amount can't be negative. As repaid amount is tracked on pool'') (\<lambda>_.
      let cur = (case borrowedAmountForBlock w of None \<Rightarrow> 0 | Some v \<Rightarrow> v)
      in Inr (w\<lparr>borrowedAmountForBlock := Some (cur + borrowAmount)\<rparr>))"

definition getBorrowAmountForBlockAndClear :: "cm_world \<Rightarrow> int \<times> cm_world" where
  "getBorrowAmountForBlockAndClear w =
    (case borrowedAmountForBlock w of
       None \<Rightarrow> (0, w)
     | Some lastValue \<Rightarrow> (lastValue, w\<lparr>borrowedAmountForBlock := Some 0\<rparr>))"

definition CMStatsOnOpenAccount :: "int \<Rightarrow> cm_world \<Rightarrow> cm_world res" where
  "CMStatsOnOpenAccount borrowAmount w =
    addBorrowAmountForBlock borrowAmount (upd_State (\<lambda>s. s\<lparr>TotalOpenedAccounts := TotalOpenedAccounts s + 1,
        OpenedAccountsCount := OpenedAccountsCount s + 1\<rparr>) w)"

definition setUpdateSession :: "string \<Rightarrow> cm_world \<Rightarrow> cm_world" where
  "setUpdateSession sessionId w =
    w\<lparr>UpdatedSessions := AList.update sessionId (aget 0 (UpdatedSessions w) sessionId + 1) (UpdatedSessions w)\<rparr>"

definition setLiquidateStatus :: "string \<Rightarrow> bool \<Rightarrow> cm_world \<Rightarrow> cm_world res" where
  "setLiquidateStatus sessionId isExpired w =
    (let status = (if st_Paused (State w) then LiquidatePaused else if isExpired then LiquidateExpired else Liquidated) in
     rbind (deref (map_of (ClosedSessions w) sessionId)) (\<lambda>d.
       Inr (w\<lparr>ClosedSessions := AList.update sessionId (d\<lparr>cd_Status := status\<rparr>) (ClosedSessions w)\<rparr>)))"

definition setParams :: "parameters \<Rightarrow> cm_world \<Rightarrow> cm_world" where
  "setParams params w = w\<lparr>cm_params := Some params\<rparr>"

section \<open>Pool ledger, closing, collateral\<close>

definition PoolBorrow :: "cm_env \<Rightarrow> cm_log \<Rightarrow> string \<Rightarrow> address \<Rightarrow> int \<Rightarrow> cm_world \<Rightarrow> cm_world" where
  "PoolBorrow E txLog sessionId brw amt w =
    AddPoolLedger
      \<lparr>pl_LogId = Index txLog, pl_BlockNumber = BlockNumber txLog, pl_TxHash = TxHash txLog,
       pl_Pool = PoolAddress (State w), pl_Event = ''Borrow'', pl_User = brw, pl_SessionId = sessionId,
       pl_AmountBI = amt, pl_Amount = GetFloat64Decimal E amt (GetUnderlyingDecimal E w)\<rparr> w"

definition PoolRepay :: "cm_env \<Rightarrow> int \<Rightarrow> int \<Rightarrow> txhash \<Rightarrow> string \<Rightarrow> address \<Rightarrow> int \<Rightarrow> cm_world \<Rightarrow> cm_world" where
  "PoolRepay E blockNum logId txHash sessionId brw amt w =
    AddPoolLedger
      \<lparr>pl_LogId = logId, pl_BlockNumber = blockNum, pl_TxHash = txHash,
       pl_Pool = PoolAddress (State w), pl_Event = ''Repay'', pl_User = brw, pl_SessionId = sessionId,
       pl_AmountBI = amt, pl_Amount = GetFloat64Decimal E amt (GetUnderlyingDecimal E w)\<rparr> w"

definition closeAccount :: "string \<Rightarrow> int \<Rightarrow> txhash \<Rightarrow> int \<Rightarrow> cm_world \<Rightarrow> cm_world res" where
  "closeAccount sessionID blockNum txHash logID w =
    rbind (deref (GetCreditSession sessionID w)) (\<lambda>session.
    rbind (CloseAccountDetails (cs_Account session) (cs_Since session) blockNum txHash logID (accountManager w)) (\<lambda>am.
      Inr (w\<lparr>accountManager := am\<rparr>)))"

definition AddCollateralToSession :: "cm_env \<Rightarrow> int \<Rightarrow> string \<Rightarrow> address \<Rightarrow> int \<Rightarrow> cm_world \<Rightarrow> cm_world res" where
  "AddCollateralToSession E blockNum sessionId tok amt w =
    (if \<not> IsDieselToken E tok \<and> GearTokenAddr E \<noteq> tok then
       rbind (deref (GetCreditSession sessionId w)) (\<lambda>session.
       rbind (GetValueInCurrency E blockNum (cs_Version session) tok ''USDC'' amt) (\<lambda>valueInUSD.
       rbind (GetValueInCurrency E blockNum (cs_Version session) tok (GetUnderlyingToken w) amt) (\<lambda>valueInUnderlyingAsset.
         upd_session sessionId (\<lambda>s. s\<lparr>
             cs_Collateral := AList.update tok (aget 0 (cs_Collateral s) tok + amt) (cs_Collateral s),
             cs_CollateralInUSD := cs_CollateralInUSD s + GetFloat64Decimal E valueInUSD 6,
             cs_CollateralInUnderlying := cs_CollateralInUnderlying s +
               GetFloat64Decimal E valueInUnderlyingAsset (GetUnderlyingDecimal E w)\<rparr>) w)))
     else Inr w)"

text \<open>Operation rows: what all the handlers fill in the same way.\<close>

definition log_operation ::
  "cm_log \<Rightarrow> address \<Rightarrow> string \<Rightarrow> string \<Rightarrow> json_obj option \<Rightarrow> (address \<times> int) list option \<Rightarrow> account_operation" where
  "log_operation txLog brw sessionId action args trs =
    \<lparr>ao_TxHash = TxHash txLog, ao_BlockNumber = BlockNumber txLog, ao_LogId = Index txLog, ao_Borrower = brw,
     ao_SessionId = sessionId, ao_Dapp = logAddress txLog, ao_Action = action, ao_Args = args,
     ao_AdapterCall = False, ao_Transfers = trs\<rparr>"

definition execute_operation :: "txhash \<Rightarrow> execute_params \<Rightarrow> known_call \<Rightarrow> account_operation" where
  "execute_operation txHash params call =
    \<lparr>ao_TxHash = txHash, ao_BlockNumber = ep_BlockNumber params, ao_LogId = ep_Index params,
     ao_Borrower = ep_Borrower params, ao_SessionId = ep_SessionId params, ao_Dapp = ep_Protocol params,
     ao_Action = kc_Name call, ao_Args = kc_Args call, ao_AdapterCall = True, ao_Transfers = Some (kc_Transfers call)\<rparr>"

text \<open>\<^verbatim>\<open>strings.Split(sessionId, "_")[0]\<close>\<close>

definition account_of :: "string \<Rightarrow> address" where
  "account_of sessionId = takeWhile (\<lambda>c. c \<noteq> CHR ''_'') sessionId"

definition session_id :: "cm_env \<Rightarrow> address \<Rightarrow> cm_log \<Rightarrow> string" where
  "session_id E acc txLog = acc @ ''_'' @ itoa E (BlockNumber txLog) @ ''_'' @ itoa E (Index txLog)"

text \<open>\<^verbatim>\<open>saveExecuteEvents\<close>: the calls of the trace, one per parameter entry.\<close>

definition saveExecuteEvents :: "cm_env \<Rightarrow> execute_params list \<Rightarrow> cm_world \<Rightarrow> cm_world res" where
  "saveExecuteEvents E eps w =
    (let calls = GetExecuteCalls E (LastTxHash w) (cm_addr w) eps in
     rfold (\<lambda>(i, call) w.
         rbind (go_index eps (int i)) (\<lambda>params.
         rbind (AddAccountOperation (execute_operation (LastTxHash w) params call) [] w) (\<lambda>w1.
           Inr (setUpdateSession (ep_SessionId params) w1))))
       (List.enumerate 0 calls) w)"

definition processExecuteEvents :: "cm_env \<Rightarrow> cm_world \<Rightarrow> cm_world res" where
  "processExecuteEvents E w =
    (if executeParams w \<noteq> [] then
       rbind (saveExecuteEvents E (executeParams w) w) (\<lambda>w1. Inr (w1\<lparr>executeParams := []\<rparr>))
     else Inr w)"

section \<open>Contract addresses\<close>

text \<open>\<open>onChain\<close> is what the manager contract answers for its configurator and facade at discovery.\<close>

definition set_detail :: "string \<Rightarrow> string \<Rightarrow> cm_world \<Rightarrow> cm_world" where
  "set_detail key v w =
    w\<lparr>cm_adapter := (cm_adapter w)\<lparr>Details := Some (AList.update key (JString v)
        (case Details (cm_adapter w) of None \<Rightarrow> [] | Some d \<Rightarrow> d))\<rparr>\<rparr>"

definition setv2AddrIfNotPresent :: "address \<times> address \<Rightarrow> cm_world \<Rightarrow> cm_world" where
  "setv2AddrIfNotPresent onChain w =
    (case Details (cm_adapter w) of
       Some d \<Rightarrow> if map_of d ''facade'' \<noteq> None then w
         else set_detail ''configurator'' (fst onChain) (set_detail ''facade'' (snd onChain) w)
     | None \<Rightarrow> set_detail ''configurator'' (fst onChain) (set_detail ''facade'' (snd onChain) w))"

text \<open>
  \<^verbatim>\<open>GetDetailsByKey\<close> after \<^verbatim>\<open>mdl.Details\<close> has been made non-nil: a missing key is fatal.
\<close>

definition set_syncer :: "string \<Rightarrow> address \<Rightarrow> cm_world \<Rightarrow> cm_world res" where
  "set_syncer key adr w =
    (let w1 = (case Details (cm_adapter w) of
                 None \<Rightarrow> w\<lparr>cm_adapter := (cm_adapter w)\<lparr>Details := Some []\<rparr>\<rparr> | Some _ \<Rightarrow> w) in
     rbind (GetDetailsByKey key (cm_adapter w1)) (\<lambda>old.
       if old \<noteq> '''' \<and> old = adr then Inr w1 else Inr ((set_detail key adr w1)\<lparr>addrChanged := True\<rparr>)))"

definition setCreditFacadeSyncer :: "address \<Rightarrow> cm_world \<Rightarrow> cm_world res" where
  "setCreditFacadeSyncer = set_syncer ''facade''"

definition setConfiguratorSyncer :: "address \<Rightarrow> cm_world \<Rightarrow> cm_world res" where
  "setConfiguratorSyncer = set_syncer ''configurator''"

definition IsAddrChanged :: "cm_world \<Rightarrow> bool \<times> cm_world" where
  "IsAddrChanged w = (addrChanged w, w\<lparr>addrChanged := False\<rparr>)"

definition cm_GetAllAddrsForLogs :: "cm_world \<Rightarrow> address list res" where
  "cm_GetAllAddrsForLogs w =
    rbind (GetDetailsByKey ''facade'' (cm_adapter w)) (\<lambda>f.
    rbind (GetDetailsByKey ''configurator'' (cm_adapter w)) (\<lambda>c.
      Inr ([cm_addr w] @ (if f \<noteq> '''' then [f] else []) @ (if c \<noteq> '''' then [c] else []))))"

end
