(* ===== verification/Credit_Manager_V1.thy ===== *)
theory Credit_Manager_V1
  imports Credit_Manager_State
begin

text \<open>
  The handlers of version 1 credit managers, \<^verbatim>\<open>models/credit_manager/v1operation.go\<close> and the dispatch of
  \<^verbatim>\<open>v1.go\<close>.
\<close>

definition onOpenCreditAccount ::
  "cm_env \<Rightarrow> cm_log \<Rightarrow> address \<Rightarrow> address \<Rightarrow> int \<Rightarrow> int \<Rightarrow> cm_world \<Rightarrow> cm_world res" where
  "onOpenCreditAccount E txLog onBehalfOf account collateral borrowAmount w =
    rbind (CMStatsOnOpenAccount borrowAmount w) (\<lambda>w1.
      let sessionId = session_id E account txLog;
          (action, args) = ParseEvent E ''OpenCreditAccount'' txLog;
          accountOperation = log_operation txLog onBehalfOf sessionId action (Some args)
            (Some [(GetUnderlyingToken w1, borrowAmount + collateral)]);
          w2 = PoolBorrow E txLog sessionId onBehalfOf borrowAmount w1
      in rbind (AddAccountOperation accountOperation [] w2) (\<lambda>w3.
         let w4 = AddCreditOwnerSession onBehalfOf sessionId (setUpdateSession sessionId w3);
             newSession =
               \<lparr>cs_ID = sessionId, cs_Status = Active, cs_Borrower = onBehalfOf, cs_CreditManager = cm_addr w4,
                cs_Account = account, cs_Since = BlockNumber txLog, cs_ClosedAt = 0,
                cs_InitialAmount = Some collateral, cs_BorrowedAmount = borrowAmount, cs_RemainingFunds = None,
                cs_Liquidator = '''', cs_Collateral = [], cs_CollateralInUSD = 0, cs_CollateralInUnderlying = 0,
                cs_Balances = [], cs_CloseTransfers = [], IsDirty = True, cs_Version = 1\<rparr>
         in rbind (AddCreditSession newSession (TxHash txLog) (Index txLog) w4) (\<lambda>w5.
            AddCollateralToSession E (BlockNumber txLog) sessionId (GetUnderlyingToken w5) collateral
              (setUpdateSession sessionId w5))))"

definition onCloseCreditAccount :: "cm_env \<Rightarrow> cm_log \<Rightarrow> address \<Rightarrow> int \<Rightarrow> cm_world \<Rightarrow> cm_world res" where
  "onCloseCreditAccount E txLog owner remainingFunds w =
    (let w1 = upd_State (\<lambda>s. s\<lparr>TotalClosedAccounts := TotalClosedAccounts s + 1\<rparr>) w in
     rbind (GetCreditOwnerSession owner False w1) (\<lambda>sessionId.
     rbind (upd_session sessionId (\<lambda>s. s\<lparr>cs_RemainingFunds := Some remainingFunds\<rparr>) w1) (\<lambda>w2.
       let (action, args) = ParseEvent E ''CloseCreditAccount'' txLog;
           accountOperation = log_operation txLog owner sessionId action (Some args)
             (Some [(GetUnderlyingToken w2, remainingFunds)])
       in rbind (AddAccountOperation accountOperation [] w2) (\<lambda>w3.
          let w4 = w3\<lparr>ClosedSessions := AList.update sessionId
                 \<lparr>cd_RemainingFunds = Some remainingFunds, cd_Status = Closed, cd_LogId = Index txLog,
                  cd_TxHash = TxHash txLog, cd_Borrower = owner, cd_AccountOperation = None\<rparr> (ClosedSessions w3)\<rparr>
          in closeAccount sessionId (BlockNumber txLog) (TxHash txLog) (Index txLog)
               (RemoveCreditOwnerSession owner w4)))))"

definition onLiquidateCreditAccount :: "cm_env \<Rightarrow> cm_log \<Rightarrow> address \<Rightarrow> address \<Rightarrow> int \<Rightarrow> cm_world \<Rightarrow> cm_world res" where
  "onLiquidateCreditAccount E txLog owner liquidator remainingFunds w =
    (let w1 = upd_State (\<lambda>s. s\<lparr>TotalLiquidatedAccounts := TotalLiquidatedAccounts s + 1\<rparr>) w in
     rbind (GetCreditOwnerSession owner False w1) (\<lambda>sessionId.
       let (action, args) = ParseEvent E ''LiquidateCreditAccount'' txLog;
           accountOperation = log_operation txLog owner sessionId action (Some args)
             (Some [(GetUnderlyingToken w1, remainingFunds)])
       in rbind (AddAccountOperation accountOperation [] w1) (\<lambda>w2.
          let w3 = w2\<lparr>ClosedSessions := AList.update sessionId
                 \<lparr>cd_RemainingFunds = Some remainingFunds, cd_Status = Liquidated, cd_LogId = Index txLog,
                  cd_TxHash = TxHash txLog, cd_Borrower = owner, cd_AccountOperation = None\<rparr> (ClosedSessions w2)\<rparr>
          in rbind (upd_session sessionId (\<lambda>s. s\<lparr>cs_Liquidator := liquidator, cs_RemainingFunds := Some remainingFunds\<rparr>) w3)
               (\<lambda>w4. closeAccount sessionId (BlockNumber txLog) (TxHash txLog) (Index txLog)
                 (RemoveCreditOwnerSession owner w4)))))"

definition onRepayCreditAccount :: "cm_env \<Rightarrow> cm_log \<Rightarrow> address \<Rightarrow> cm_world \<Rightarrow> cm_world res" where
  "onRepayCreditAccount E txLog owner w =
    (let w1 = upd_State (\<lambda>s. s\<lparr>TotalRepaidAccounts := TotalRepaidAccounts s + 1\<rparr>) w in
     rbind (GetCreditOwnerSession owner False w1) (\<lambda>sessionId.
       let (action, args) = ParseEvent E ''RepayCreditAccount'' txLog;
           accountOperation = log_operation txLog owner sessionId action (Some args) None;
           w2 = w1\<lparr>ClosedSessions := AList.update sessionId
                 \<lparr>cd_RemainingFunds = None, cd_Status = Repaid, cd_LogId = Index txLog,
                  cd_TxHash = TxHash txLog, cd_Borrower = owner, cd_AccountOperation = Some accountOperation\<rparr>
                 (ClosedSessions w1)\<rparr>
       in closeAccount sessionId (BlockNumber txLog) (TxHash txLog) (Index txLog) (RemoveCreditOwnerSession owner w2)))"

definition onAddCollateral :: "cm_env \<Rightarrow> cm_log \<Rightarrow> address \<Rightarrow> address \<Rightarrow> int \<Rightarrow> cm_world \<Rightarrow> cm_world res" where
  "onAddCollateral E txLog onBehalfOf token val w =
    rbind (GetCreditOwnerSession onBehalfOf False w) (\<lambda>sessionId.
      let (action, args) = ParseEvent E ''AddCollateral'' txLog;
          accountOperation = log_operation txLog onBehalfOf sessionId action (Some args) (Some [(token, val)])
      in rbind (AddAccountOperation accountOperation [] w) (\<lambda>w1.
         rbind (AddCollateralToSession E (BlockNumber txLog) sessionId token val w1) (\<lambda>w2.
           Inr (setUpdateSession sessionId w2))))"

definition onIncreaseBorrowedAmount :: "cm_env \<Rightarrow> cm_log \<Rightarrow> address \<Rightarrow> int \<Rightarrow> cm_world \<Rightarrow> cm_world res" where
  "onIncreaseBorrowedAmount E txLog borrower amount w =
    rbind (addBorrowAmountForBlock amount w) (\<lambda>w1.
    rbind (GetCreditOwnerSession borrower False w1) (\<lambda>sessionId.
      let (action, args) = ParseEvent E ''IncreaseBorrowedAmount'' txLog;
          accountOperation = log_operation txLog borrower sessionId action (Some args)
            (Some [(GetUnderlyingToken w1, amount)]);
          w2 = PoolBorrow E txLog sessionId borrower amount w1
      in rbind (AddAccountOperation accountOperation [] w2) (\<lambda>w3.
         rbind (UpdateCreditSession sessionId (\<lambda>s. s\<lparr>cs_BorrowedAmount := cs_BorrowedAmount s + amount\<rparr>) w3) (\<lambda>w4.
           Inr (setUpdateSession sessionId w4)))))"

definition onTransferAccount :: "cm_env \<Rightarrow> cm_log \<Rightarrow> address \<Rightarrow> address \<Rightarrow> cm_world \<Rightarrow> cm_world res" where
  "onTransferAccount E txLog owner newOwner w =
    rbind (GetCreditOwnerSession owner False w) (\<lambda>sessionId.
      let (action, args) = ParseEvent E ''TransferAccount'' txLog;
          accountOperation = log_operation txLog owner sessionId action (Some args) None
      in rbind (AddAccountOperation accountOperation [] w) (\<lambda>w1.
           UpdateCreditSession sessionId (\<lambda>s. s\<lparr>cs_Borrower := newOwner\<rparr>)
             (AddCreditOwnerSession newOwner sessionId (RemoveCreditOwnerSession owner w1))))"

definition AddExecuteParams :: "cm_log \<Rightarrow> address \<Rightarrow> address \<Rightarrow> cm_world \<Rightarrow> cm_world res" where
  "AddExecuteParams txLog borrower targetContract w =
    rbind (GetCreditOwnerSession borrower False w) (\<lambda>sessionId.
      Inr (w\<lparr>executeParams := executeParams w @
        [\<lparr>ep_SessionId = sessionId, ep_CreditAccount = account_of sessionId, ep_Protocol = targetContract,
          ep_Borrower = borrower, ep_Index = Index txLog, ep_BlockNumber = BlockNumber txLog\<rparr>]\<rparr>))"

text \<open>\<^verbatim>\<open>uint16(x.Int64())\<close> keeps the low 16 bits.\<close>

definition NewParametersV1 :: "cm_log \<Rightarrow> int \<Rightarrow> int \<Rightarrow> int \<Rightarrow> int \<Rightarrow> int \<Rightarrow> int \<Rightarrow> cm_world \<Rightarrow> cm_world" where
  "NewParametersV1 txLog mn mx lev fi fl disc w =
    (let w1 = upd_State (\<lambda>s. s\<lparr>st_MinAmount := mn, st_MaxAmount := mx, MaxLeverageFactor := lev\<rparr>) w;
         params = \<lparr>par_BlockNum = BlockNumber txLog, par_CreditManager = cm_addr w1, par_MinAmount = mn,
           par_MaxAmount = mx, par_MaxLeverage = lev, FeeInterest = word_of_int fi, FeeLiquidation = word_of_int fl,
           LiquidationDiscount = word_of_int disc, FeeLiquidationExpired = 0, LiquidationDiscountExpired = 0\<rparr>;
         w2 = SetBlock (BlockNumber txLog) w1
     in setParams params (w2\<lparr>daoOperations := daoOperations w2 @
          [NewParametersDAO (BlockNumber txLog) (Index txLog) (TxHash txLog) params (UnderlyingToken (State w2))]\<rparr>))"

definition checkLogV1 :: "cm_env \<Rightarrow> cm_log \<Rightarrow> cm_world \<Rightarrow> cm_world res" where
  "checkLogV1 E txLog w =
    (case payload txLog of
       OpenV1 onBehalfOf account amount borrowAmount \<Rightarrow> onOpenCreditAccount E txLog onBehalfOf account amount borrowAmount w
     | CloseV1 owner to remainingFunds \<Rightarrow> onCloseCreditAccount E txLog owner remainingFunds w
     | LiquidateV1 owner liquidator remainingFunds \<Rightarrow> onLiquidateCreditAccount E txLog owner liquidator remainingFunds w
     | RepayV1 owner to \<Rightarrow> onRepayCreditAccount E txLog owner w
     | IncreaseBorrowed borrower amount \<Rightarrow> onIncreaseBorrowedAmount E txLog borrower amount w
     | AddCollateral onBehalfOf token val \<Rightarrow> onAddCollateral E txLog onBehalfOf token val w
     | ExecuteOrder borrower target \<Rightarrow> AddExecuteParams txLog borrower target w
     | NewParameters mn mx lev fi fl disc \<Rightarrow> Inr (NewParametersV1 txLog mn mx lev fi fl disc w)
     | TransferAccount oldOwner newOwner \<Rightarrow> onTransferAccount E txLog oldOwner newOwner w
     | _ \<Rightarrow> Inr w)"

end
