(* ===== verification/Credit_Manager_V2.thy ===== *)
theory Credit_Manager_V2
  imports Credit_Manager_V1
begin

text \<open>
  The handlers of version 2 credit managers: \<^verbatim>\<open>models/credit_manager/v2operation.go\<close>, \<^verbatim>\<open>v2.go\<close> and
  \<^verbatim>\<open>facade_actions.go\<close>.  The events of a transaction go through the multicall processor and are turned into
  account operations when the next transaction starts.
\<close>

section \<open>Collateral of an opening\<close>

definition collateral_balances :: "account_operation list \<Rightarrow> (address \<times> int) list res" where
  "collateral_balances multicalls =
    rfold (\<lambda>event balances.
        if ao_Action event = AddCollateralEvent then
          rbind (deref (ao_Transfers event)) (\<lambda>trs.
            Inr (foldl (\<lambda>bs (tok, amt). AList.update tok (aget 0 bs tok + amt) bs) balances trs))
        else Inr balances)
      multicalls []"

text \<open>Truncation of a \<^verbatim>\<open>big.Float\<close> to an integer (\<^verbatim>\<open>Float.Int\<close>).\<close>

definition trunc :: "rat \<Rightarrow> int" where
  "trunc x = (if 0 \<le> x then \<lfloor>x\<rfloor> else \<lceil>x\<rceil>)"

text \<open>
  \<^verbatim>\<open>getCollateralAmount\<close>.  A zero price of the underlying token makes the quotient NaN (a panic) or
  infinite, whose integer part is nil.
\<close>

definition getCollateralAmount :: "cm_env \<Rightarrow> int \<Rightarrow> account_operation list \<Rightarrow> cm_world \<Rightarrow> int res" where
  "getCollateralAmount E blockNum multicalls w =
    rbind (collateral_balances multicalls) (\<lambda>balances.
      let underlyingToken = GetUnderlyingToken w;
          tokens = map fst balances @ (if map_of balances underlyingToken = None then [underlyingToken] else []);
          prices = GetPricesInUSD E blockNum tokens;
          totalValue = foldl (\<lambda>total (tok, amt).
              if tok = underlyingToken then total
              else total + GetFloat64 E amt (- GetUnderlyingDecimal E w) * prices tok / GetExpFloat E (Decimals E tok))
            0 balances;
          underlyingPrice = prices underlyingToken
      in if underlyingPrice = 0 then
           (if totalValue = 0 then Inl (Panic ''division of zero by zero'')
            else if map_of balances underlyingToken \<noteq> None then Inl NilDereference
            else Inl (Fatal ''Collateral for opencreditaccount v2 is zero or nil''))
         else
           let initialAmount = trunc (totalValue / underlyingPrice) + aget 0 balances underlyingToken
           in rbind (guard_fatal (initialAmount = 0) ''Collateral for opencreditaccount v2 is zero or nil'')
                (\<lambda>_. Inr initialAmount))"

text \<open>Sets the amount in the arguments of the main operation and in the session.\<close>

definition addCollteralForOpenCreditAccount ::
  "cm_env \<Rightarrow> int \<Rightarrow> account_operation \<Rightarrow> account_operation list \<Rightarrow> cm_world \<Rightarrow> (account_operation \<times> cm_world) res" where
  "addCollteralForOpenCreditAccount E blockNum mainAction multicalls w =
    rbind (getCollateralAmount E blockNum multicalls w) (\<lambda>collateral.
    rbind (deref (ao_Args mainAction)) (\<lambda>args.
    rbind (UpdateCreditSession (ao_SessionId mainAction) (\<lambda>s. s\<lparr>cs_InitialAmount := Some collateral\<rparr>) w) (\<lambda>w1.
      Inr (mainAction\<lparr>ao_Args := Some (AList.update ''amount'' (JString (itoa E collateral)) args)\<rparr>, w1))))"

section \<open>Main actions\<close>

definition lift_mc :: "(multi_call_processor \<Rightarrow> multi_call_processor res) \<Rightarrow> cm_world \<Rightarrow> cm_world res" where
  "lift_mc f w = rbind (f (multicall w)) (\<lambda>p. Inr (w\<lparr>multicall := p\<rparr>))"

definition onOpenCreditAccountV2 :: "cm_env \<Rightarrow> cm_log \<Rightarrow> address \<Rightarrow> address \<Rightarrow> int \<Rightarrow> cm_world \<Rightarrow> cm_world res" where
  "onOpenCreditAccountV2 E txLog onBehalfOf account borrowAmount w =
    rbind (CMStatsOnOpenAccount borrowAmount w) (\<lambda>w1.
      let sessionId = session_id E account txLog;
          (action, args) = ParseEvent E ''OpenCreditAccount'' txLog;
          accountOperation = log_operation txLog onBehalfOf sessionId action (Some args)
            (Some [(GetUnderlyingToken w1, borrowAmount)])
      in rbind (lift_mc (AddOpenEvent accountOperation) w1) (\<lambda>w2.
         let w3 = AddCreditOwnerSession onBehalfOf sessionId (PoolBorrow E txLog sessionId onBehalfOf borrowAmount w2);
             newSession =
               \<lparr>cs_ID = sessionId, cs_Status = Active, cs_Borrower = onBehalfOf, cs_CreditManager = cm_addr w3,
                cs_Account = account, cs_Since = BlockNumber txLog, cs_ClosedAt = 0,
                cs_InitialAmount = None, cs_BorrowedAmount = borrowAmount, cs_RemainingFunds = None,
                cs_Liquidator = '''', cs_Collateral = [], cs_CollateralInUSD = 0, cs_CollateralInUnderlying = 0,
                cs_Balances = [], cs_CloseTransfers = [], IsDirty = True, cs_Version = 2\<rparr>
         in AddCreditSession newSession (TxHash txLog) (Index txLog) w3))"

definition toJsonBalance :: "cm_env \<Rightarrow> (address \<times> int) list \<Rightarrow> (address \<times> rat) list" where
  "toJsonBalance E z = map (\<lambda>(tok, amt). (tok, GetFloat64Decimal E amt (Decimals E tok))) z"

definition onCloseCreditAccountV2 :: "cm_env \<Rightarrow> cm_log \<Rightarrow> address \<Rightarrow> address \<Rightarrow> cm_world \<Rightarrow> cm_world res" where
  "onCloseCreditAccountV2 E txLog owner receiver w =
    (let w1 = upd_State (\<lambda>s. s\<lparr>TotalClosedAccounts := TotalClosedAccounts s + 1\<rparr>) w in
     rbind (GetCreditOwnerSession owner False w1) (\<lambda>sessionId.
       let account = account_of sessionId;
           txTransfers = GetTransfersAtClosev2 E (TxHash txLog) account (GetUnderlyingToken w1) owner receiver;
           userTransfers = toJsonBalance E txTransfers;
           tokens = map fst userTransfers @ [GetUnderlyingToken w1];
           prices = GetPricesInUSD E (BlockNumber txLog) tokens;
           remainingFunds = ValueInUnderlying E userTransfers (GetUnderlyingToken w1) (GetUnderlyingDecimal E w1) prices;
           (action, args) = ParseEvent E ''CloseCreditAccount'' txLog;
           accountOperation = log_operation txLog owner sessionId action
             (Some (AList.update ''remainingFunds'' (JInt remainingFunds) args)) (Some txTransfers)
       in rbind (UpdateCreditSession sessionId (\<lambda>s. s\<lparr>cs_CloseTransfers := userTransfers,
                   cs_RemainingFunds := Some remainingFunds\<rparr>) w1) (\<lambda>w2.
          let w3 = w2\<lparr>multicall := AddCloseOrLiquidateEvent accountOperation (multicall w2),
                 ClosedSessions := AList.update sessionId
                   \<lparr>cd_RemainingFunds = Some remainingFunds, cd_Status = Closed, cd_LogId = Index txLog,
                    cd_TxHash = TxHash txLog, cd_Borrower = owner, cd_AccountOperation = None\<rparr> (ClosedSessions w2)\<rparr>
          in closeAccount sessionId (BlockNumber txLog) (TxHash txLog) (Index txLog)
               (RemoveCreditOwnerSession owner w3))))"

definition onLiquidateCreditAccountV2 :: "cm_env \<Rightarrow> cm_log \<Rightarrow> address \<Rightarrow> address \<Rightarrow> int \<Rightarrow> cm_world \<Rightarrow> cm_world res" where
  "onLiquidateCreditAccountV2 E txLog owner liquidator remainingFunds w =
    (let w1 = upd_State (\<lambda>s. s\<lparr>TotalLiquidatedAccounts := TotalLiquidatedAccounts s + 1\<rparr>) w in
     rbind (GetCreditOwnerSession owner False w1) (\<lambda>sessionId.
       let (action, args) = ParseEvent E ''LiquidateCreditAccount'' txLog;
           accountOperation = log_operation txLog owner sessionId action (Some args)
             (Some [(GetUnderlyingToken w1, remainingFunds)]);
           w2 = w1\<lparr>multicall := AddCloseOrLiquidateEvent accountOperation (multicall w1),
                 ClosedSessions := AList.update sessionId
                   \<lparr>cd_RemainingFunds = Some remainingFunds, cd_Status = Liquidated, cd_LogId = Index txLog,
                    cd_TxHash = TxHash txLog, cd_Borrower = owner, cd_AccountOperation = None\<rparr> (ClosedSessions w1)\<rparr>
       in rbind (upd_session sessionId (\<lambda>s. s\<lparr>cs_Liquidator := liquidator, cs_RemainingFunds := Some remainingFunds\<rparr>) w2)
            (\<lambda>w3. closeAccount sessionId (BlockNumber txLog) (TxHash txLog) (Index txLog)
              (RemoveCreditOwnerSession owner w3))))"

section \<open>Side actions\<close>

definition onAddCollateralV2 :: "cm_env \<Rightarrow> cm_log \<Rightarrow> address \<Rightarrow> address \<Rightarrow> int \<Rightarrow> cm_world \<Rightarrow> cm_world res" where
  "onAddCollateralV2 E txLog onBehalfOf token val w =
    rbind (GetCreditOwnerSession onBehalfOf False w) (\<lambda>sessionId.
      let (action, args) = ParseEvent E ''AddCollateral'' txLog;
          accountOperation = log_operation txLog onBehalfOf sessionId action (Some args) (Some [(token, val)])
      in rbind (lift_mc (AddMulticallEvent accountOperation) w)
           (AddCollateralToSession E (BlockNumber txLog) sessionId token val))"

definition onIncreaseBorrowedAmountV2 ::
  "cm_env \<Rightarrow> cm_log \<Rightarrow> address \<Rightarrow> int \<Rightarrow> string \<Rightarrow> cm_world \<Rightarrow> cm_world res" where
  "onIncreaseBorrowedAmountV2 E txLog borrower amount eventName w =
    rbind (if amount > 0 then addBorrowAmountForBlock amount w else Inr w) (\<lambda>w1.
    rbind (GetCreditOwnerSession borrower False w1) (\<lambda>sessionId.
      let (action, args) = ParseEvent E eventName txLog;
          accountOperation = log_operation txLog borrower sessionId action (Some args)
            (Some [(GetUnderlyingToken w1, amount)])
      in rbind (lift_mc (AddMulticallEvent accountOperation) w1) (\<lambda>w2.
         let w3 = (if amount < 0 then
                     let repayAmount = - amount;
                         v = upd_State (\<lambda>s. s\<lparr>TotalRepaidBI := TotalRepaidBI s + repayAmount,
                               TotalRepaid := GetFloat64Decimal E (TotalRepaidBI s + repayAmount) (GetUnderlyingDecimal E w2)\<rparr>) w2
                     in PoolRepay E (BlockNumber txLog) (Index txLog) (TxHash txLog) sessionId borrower repayAmount v
                   else PoolBorrow E txLog sessionId borrower amount w2)
         in UpdateCreditSession sessionId (\<lambda>s. s\<lparr>cs_BorrowedAmount := cs_BorrowedAmount s + amount\<rparr>) w3)))"

definition AddExecuteParamsV2 :: "cm_log \<Rightarrow> address \<Rightarrow> address \<Rightarrow> cm_world \<Rightarrow> cm_world res" where
  "AddExecuteParamsV2 txLog borrower targetContract w =
    rbind (GetCreditOwnerSession borrower True w) (\<lambda>sessionId.
      lift_mc (AddMulticallEvent
        \<lparr>ao_TxHash = TxHash txLog, ao_BlockNumber = BlockNumber txLog, ao_LogId = Index txLog, ao_Borrower = borrower,
         ao_SessionId = sessionId, ao_Dapp = targetContract, ao_Action = ExecuteOrderEvent, ao_Args = None,
         ao_AdapterCall = True, ao_Transfers = None\<rparr>) w)"

definition enableOrDisableToken :: "cm_log \<Rightarrow> address \<Rightarrow> address \<Rightarrow> string \<Rightarrow> cm_world \<Rightarrow> cm_world res" where
  "enableOrDisableToken txLog borrower token action w =
    rbind (GetCreditOwnerSession borrower False w) (\<lambda>sessionId.
      lift_mc (AddMulticallEvent (log_operation txLog borrower sessionId action (Some [(''token'', JString token)]) None)) w)"

definition startMulticall :: "cm_log \<Rightarrow> address \<Rightarrow> cm_world \<Rightarrow> cm_world res" where
  "startMulticall txLog borrower w =
    rbind (GetCreditOwnerSession borrower False w) (\<lambda>sessionId.
      lift_mc (mc_Start
        \<lparr>ao_TxHash = TxHash txLog, ao_BlockNumber = BlockNumber txLog, ao_LogId = TxIndex txLog, ao_Borrower = borrower,
         ao_SessionId = sessionId, ao_Dapp = logAddress txLog, ao_Action = MultiCallStartedEvent, ao_Args = None,
         ao_AdapterCall = False, ao_Transfers = None\<rparr>) w)"

definition newConfigurator :: "cm_log \<Rightarrow> address \<Rightarrow> cm_world \<Rightarrow> cm_world res" where
  "newConfigurator txLog new w =
    rbind (GetDetailsByKey ''configurator'' (cm_adapter w)) (\<lambda>oldConfigurator.
      let w1 = SetBlock (BlockNumber txLog) w;
          w2 = w1\<lparr>daoOperations := daoOperations w1 @
                 [NewConfiguratorDAO (BlockNumber txLog) (Index txLog) (TxHash txLog) (cm_addr w1) oldConfigurator new]\<rparr>
      in if oldConfigurator \<noteq> new then
           setConfiguratorSyncer new (w2\<lparr>disableBlocks := disableBlocks w2 @ [(oldConfigurator, BlockNumber txLog)],
             newAdapters := newAdapters w2 @ [new]\<rparr>)
         else Inr w2)"

definition checkLogV2 :: "cm_env \<Rightarrow> cm_log \<Rightarrow> cm_world \<Rightarrow> cm_world res" where
  "checkLogV2 E txLog w =
    (case payload txLog of
       AddCollateral onBehalfOf token val \<Rightarrow> onAddCollateralV2 E txLog onBehalfOf token val w
     | OpenV2 onBehalfOf account borrowAmount \<Rightarrow> onOpenCreditAccountV2 E txLog onBehalfOf account borrowAmount w
     | CloseV2 borrower receiver \<Rightarrow> onCloseCreditAccountV2 E txLog borrower receiver w
     | CMPaused \<Rightarrow> Inr (if logAddress txLog = cm_addr w then upd_State (\<lambda>s. s\<lparr>st_Paused := True\<rparr>) w else w)
     | CMUnpaused \<Rightarrow> Inr (if logAddress txLog = cm_addr w then upd_State (\<lambda>s. s\<lparr>st_Paused := False\<rparr>) w else w)
     | LiquidateV2 borrower liquidator remainingFunds \<Rightarrow> onLiquidateCreditAccountV2 E txLog borrower liquidator remainingFunds w
     | TokenEnabled borrower token \<Rightarrow> enableOrDisableToken txLog borrower token TokenEnabledEvent w
     | TokenDisabled borrower token \<Rightarrow> enableOrDisableToken txLog borrower token TokenDisabledEvent w
     | MultiCallStarted borrower \<Rightarrow> startMulticall txLog borrower w
     | MultiCallFinished \<Rightarrow> lift_mc mc_End w
     | IncreaseBorrowed borrower amount \<Rightarrow> onIncreaseBorrowedAmountV2 E txLog borrower amount ''IncreaseBorrowedAmount'' w
     | DecreaseBorrowed borrower amount \<Rightarrow> onIncreaseBorrowedAmountV2 E txLog borrower (- amount) ''DecreaseBorrowedAmount'' w
     | TransferAccount oldOwner newOwner \<Rightarrow> onTransferAccount E txLog oldOwner newOwner w
     | TransferAccountAllowed tfrom tto allowed \<Rightarrow>
         Inr (let w1 = SetBlock (BlockNumber txLog) w
              in w1\<lparr>transferAllowed := transferAllowed w1 @ [(tfrom, tto, allowed, Index txLog, BlockNumber txLog)]\<rparr>)
     | ExecuteOrder borrower target \<Rightarrow> AddExecuteParamsV2 txLog borrower target w
     | NewConfigurator new \<Rightarrow> newConfigurator txLog new w
     | _ \<Rightarrow> Inr w)"

section \<open>End of a transaction\<close>

definition execute_params_of :: "account_operation \<Rightarrow> execute_params" where
  "execute_params_of event =
    \<lparr>ep_SessionId = ao_SessionId event, ep_CreditAccount = account_of (ao_SessionId event), ep_Protocol = ao_Dapp event,
     ep_Borrower = ao_Borrower event, ep_Index = ao_LogId event, ep_BlockNumber = ao_BlockNumber event\<rparr>"

definition processNonMultiCalls :: "cm_world \<Rightarrow> (execute_params list \<times> cm_world) res" where
  "processNonMultiCalls w =
    (let (events, p) = PopNonMulticallEventsV2 (multicall w) in
     rfold (\<lambda>event (eps, w).
         if ao_Action event \<in> {AddCollateralEvent, IncreaseBorrowEvent, TokenEnabledEvent, TokenDisabledEvent, DecreaseBorrowEvent}
         then rbind (AddAccountOperation event [] (setUpdateSession (ao_SessionId event) w)) (\<lambda>w1. Inr (eps, w1))
         else if ao_Action event = ExecuteOrderEvent
         then Inr (eps @ [execute_params_of event], setUpdateSession (ao_SessionId event) w)
         else Inl (Fatal (ao_Action event)))
       events ([], w\<lparr>multicall := p\<rparr>))"

text \<open>The events of a multicall that are stored with the main event; the others are stored alone.\<close>

definition add_to_main_event ::
  "account_operation \<Rightarrow> account_operation \<Rightarrow> account_operation list \<times> cm_world \<Rightarrow> (account_operation list \<times> cm_world) res" where
  "add_to_main_event mainEvent event = (\<lambda>(eventsMulticalls, w).
    rbind (guard_fatal (ao_BlockNumber event \<noteq> ao_BlockNumber mainEvent \<or> ao_TxHash event \<noteq> ao_TxHash mainEvent)
             ''different blockNumber or txhash from opencreditaccount'') (\<lambda>_.
      if ao_Action event = AddCollateralEvent then
        (if ao_Borrower event = ao_Borrower mainEvent then Inr (eventsMulticalls @ [event], w)
         else rbind (AddAccountOperation event [] w) (\<lambda>w1. Inr (eventsMulticalls, w1)))
      else if ao_Action event \<in> {TokenEnabledEvent, TokenDisabledEvent, IncreaseBorrowEvent, DecreaseBorrowEvent}
      then Inr (eventsMulticalls @ [event], w)
      else if ao_AdapterCall event then Inr (eventsMulticalls @ [event], w)
      else Inl (Fatal '''')))"

definition addMulticallToMainEvent ::
  "cm_env \<Rightarrow> account_operation \<Rightarrow> account_operation list \<Rightarrow> cm_world \<Rightarrow>
    (account_operation \<times> account_operation list \<times> cm_world) res" where
  "addMulticallToMainEvent E mainEvent allMulticalls w =
    rbind (rfold (add_to_main_event mainEvent) allMulticalls ([], w)) (\<lambda>(eventsMulticalls, w1).
      if ao_Action mainEvent = OpenV2Event then
        rbind (addCollteralForOpenCreditAccount E (ao_BlockNumber mainEvent) mainEvent eventsMulticalls w1)
          (\<lambda>(mainEvent', w2). Inr (mainEvent', eventsMulticalls, w2))
      else Inr (mainEvent, eventsMulticalls, w1))"

definition getExecuteOrderAccountOperationFromParams ::
  "cm_env \<Rightarrow> txhash \<Rightarrow> execute_params list \<Rightarrow> cm_world \<Rightarrow> account_operation list res" where
  "getExecuteOrderAccountOperationFromParams E txHash eps w =
    rfold (\<lambda>(i, call) ops. rbind (go_index eps (int i)) (\<lambda>params. Inr (ops @ [execute_operation txHash params call])))
      (List.enumerate 0 (GetExecuteCalls E txHash (cm_addr w) eps)) []"

text \<open>The checks of one facade action against its main call.\<close>

definition check_facade_action ::
  "facade_action \<Rightarrow> facade_call \<Rightarrow> execute_params list \<times> cm_world \<Rightarrow> (execute_params list \<times> cm_world) res" where
  "check_facade_action mainAction mainCall = (\<lambda>(eps, w).
    (let mainEvent = fa_Data mainAction; sid = ao_SessionId mainEvent; name = fc_Name mainCall in
     rbind (if name = FacadeMulticallCall then Inr (setUpdateSession sid w, MultiCallStartedEvent)
            else if name = FacadeOpenMulticallCall then Inr (setUpdateSession sid w, OpenV2Event)
            else if name \<in> {FacadeLiquidateCall, FacadeLiquidateExpiredCall} then
              rbind (setLiquidateStatus sid (name = FacadeLiquidateExpiredCall) w) (\<lambda>w1. Inr (w1, LiquidateV2Event))
            else if name = FacadeCloseAccountCall then Inr (w, CloseV2Event)
            else Inr (w, '''')) (\<lambda>(w1, mainEventFromCall).
     rbind (guard_fatal (mainEventFromCall \<noteq> ao_Action mainEvent) ''Tenderly call is different from facade event'') (\<lambda>_.
     rbind (SameMulticallLenAsEvents mainCall (fa_MultiCall mainAction)) (\<lambda>same.
     rbind (guard_fatal (\<not> same) ''different number of multicalls'') (\<lambda>_.
       Inr (eps @ map (\<lambda>event. \<lparr>ep_SessionId = sid, ep_CreditAccount = account_of sid, ep_Protocol = ao_Dapp event,
                   ep_Borrower = ao_Borrower mainEvent, ep_Index = ao_LogId event, ep_BlockNumber = ao_BlockNumber event\<rparr>)
                 (filter (\<lambda>event. ao_Action event = ExecuteOrderEvent) (fa_MultiCall mainAction)), w1)))))))"

definition check_nth_action ::
  "facade_call list \<Rightarrow> nat \<times> facade_action \<Rightarrow> execute_params list \<times> cm_world \<Rightarrow> (execute_params list \<times> cm_world) res" where
  "check_nth_action mainCalls = (\<lambda>(ind, mainAction) st.
    rbind (go_index mainCalls (int ind)) (\<lambda>mainCall. check_facade_action mainAction mainCall st))"

text \<open>Splitting the executed operations into those outside and those inside of multicalls.\<close>

definition split_step ::
  "execute_params list \<Rightarrow> account_operation \<Rightarrow> nat \<times> account_operation list \<times> cm_world \<Rightarrow>
    (nat \<times> account_operation list \<times> cm_world) res" where
  "split_step nonMulti op = (\<lambda>(ind, remaining, w).
    if ind < length nonMulti \<and> ao_LogId op = ep_Index (nonMulti ! ind)
    then rbind (AddAccountOperation op [] w) (\<lambda>w1. Inr (ind + 1, remaining, w1))
    else Inr (ind, remaining @ [op], w))"

definition split_non_multicall ::
  "execute_params list \<Rightarrow> account_operation list \<Rightarrow> cm_world \<Rightarrow> (account_operation list \<times> cm_world) res" where
  "split_non_multicall nonMulti ops w =
    rbind (rfold (split_step nonMulti) ops (0, [], w)) (\<lambda>(_, remaining, w1). Inr (remaining, w1))"

text \<open>Replacing the \<open>ExecuteOrder\<close> events of a multicall by the operations of the trace.\<close>

definition fill_executes ::
  "account_operation list \<Rightarrow> account_operation list \<Rightarrow> int \<Rightarrow> (account_operation list \<times> int) res" where
  "fill_executes remaining multicalls ind0 =
    rfold (\<lambda>innerEvent (acc, ind).
        if ao_Action innerEvent = ExecuteOrderEvent then
          rbind (go_index remaining ind) (\<lambda>op.
            if ao_LogId innerEvent = ao_LogId op then Inr (acc @ [op], ind + 1)
            else Inl (Fatal ''execute order index mismatch''))
        else Inr (acc @ [innerEvent], ind))
      multicalls ([], ind0)"

text \<open>Storing one facade action with its multicalls.\<close>

definition save_facade_action ::
  "cm_env \<Rightarrow> account_operation list \<Rightarrow> facade_action \<Rightarrow> int \<times> cm_world \<Rightarrow> (int \<times> cm_world) res" where
  "save_facade_action E remaining mainAction = (\<lambda>(ind, w).
    rbind (fill_executes remaining (fa_MultiCall mainAction) ind) (\<lambda>(multicalls, ind').
    rbind (addMulticallToMainEvent E (fa_Data mainAction) multicalls w) (\<lambda>(mainEvent, stored, w').
    rbind (AddAccountOperation mainEvent stored w') (\<lambda>w''. Inr (ind', w'')))))"

definition validateAndSaveFacadeActions ::
  "cm_env \<Rightarrow> txhash \<Rightarrow> facade_action list \<Rightarrow> facade_call list \<Rightarrow> execute_params list \<Rightarrow> cm_world \<Rightarrow> cm_world res" where
  "validateAndSaveFacadeActions E txHash actions mainCalls nonMulti w =
    rbind (rfold (check_nth_action mainCalls) (List.enumerate 0 actions) ([], w)) (\<lambda>(eps, w1).
    rbind (getExecuteOrderAccountOperationFromParams E txHash (sort_key ep_Index (eps @ nonMulti)) w1) (\<lambda>ops.
    rbind (split_non_multicall nonMulti ops w1) (\<lambda>(remaining, w2).
    rbind (rfold (save_facade_action E remaining) actions (0, w2)) (\<lambda>(_, w3). Inr w3))))"

text \<open>
  \<^verbatim>\<open>processRemainingMultiCalls\<close>.  The opening without multicall is stored first and its arguments are
  written afterwards through the shared pointer, so the stored row is the one that is changed.
\<close>

definition store_open_without_mc :: "cm_env \<Rightarrow> facade_action \<Rightarrow> cm_world \<Rightarrow> cm_world res" where
  "store_open_without_mc E entry w =
    (let op = fa_Data entry in
     rbind (AddAccountOperation op (fa_MultiCall entry) (setUpdateSession (ao_SessionId op) w)) (\<lambda>w1.
     rbind (addCollteralForOpenCreditAccount E (ao_BlockNumber op) op (fa_MultiCall entry) w1) (\<lambda>(op', w2).
       Inr (w2\<lparr>operations := butlast (operations w2) @ [(op', fa_MultiCall entry)]\<rparr>))))"

definition processRemainingMultiCalls :: "cm_env \<Rightarrow> execute_params list \<Rightarrow> cm_world \<Rightarrow> cm_world res" where
  "processRemainingMultiCalls E nonMulti w =
    (let (actions, openEventWithoutMulticall, p) = PopMainActionsv2 (multicall w) in
     rbind (rfold (store_open_without_mc E) openEventWithoutMulticall (w\<lparr>multicall := p\<rparr>)) (\<lambda>w1.
       if actions \<noteq> [] then
         rbind (GetDetailsByKey ''facade'' (cm_adapter w1)) (\<lambda>facade.
           let mainCalls = GetMainCalls E (LastTxHash w1) facade in
           rbind (fixFacadeActionStructureViaTenderlyCalls mainCalls actions) (\<lambda>fixed.
             validateAndSaveFacadeActions E (LastTxHash w1) fixed mainCalls nonMulti w1))
       else if nonMulti \<noteq> [] then saveExecuteEvents E nonMulti w1
       else Inr w1))"

definition onNewTxHashV2 :: "cm_env \<Rightarrow> cm_world \<Rightarrow> cm_world res" where
  "onNewTxHashV2 E w = rbind (processNonMultiCalls w) (\<lambda>(eps, w1). processRemainingMultiCalls E eps w1)"

end
