(* ===== verification/Credit_Manager.thy ===== *)
theory Credit_Manager
  imports Credit_Manager_V2
begin

text \<open>
  What a credit manager does per log, per transaction and per block: \<^verbatim>\<open>models/credit_manager/on_log.go\<close>,
  \<^verbatim>\<open>credit_session_state.go\<close>, \<^verbatim>\<open>direct_transfer.go\<close> and the statistics of \<^verbatim>\<open>state.go\<close>.  A call to the data
  compressor that is answered later by a multicall is a value of \<open>dc_call\<close>, and \<open>process_result\<close> is the
  closure that handles its answer.
\<close>

section \<open>Session snapshots\<close>

definition addFloatValue :: "cm_env \<Rightarrow> address \<Rightarrow> int \<Rightarrow> dc_balance list \<Rightarrow> (address \<times> balance) list res" where
  "addFloatValue E account blockNum dcBalances =
    rfold (\<lambda>(ind, b) dbFormat.
        if dcb_IsEnabled b \<and> dcb_Balance b > 0 then
          let db1 = AList.update (dcb_Token b)
                \<lparr>IsAllowed = dcb_IsAllowed b, IsEnabled = dcb_IsEnabled b, BI = dcb_Balance b,
                 bal_F = GetFloat64Decimal E (dcb_Balance b) (Decimals E (dcb_Token b)), bal_Ind = int ind\<rparr> dbFormat
          in if stETH E = dcb_Token b then
               rbind (sharesOf E (dcb_Token b) blockNum account) (\<lambda>amt.
                 Inr (AList.update NULL_ADDR \<lparr>IsAllowed = False, IsEnabled = False, BI = amt,
                        bal_F = GetFloat64Decimal E amt 18, bal_Ind = -1\<rparr> db1))
             else Inr db1
        else Inr dbFormat)
      (List.enumerate 0 dcBalances) []"

definition snapshot_of ::
  "cm_env \<Rightarrow> int \<Rightarrow> credit_session \<Rightarrow> dc_account \<Rightarrow> (address \<times> balance) list \<Rightarrow> int \<Rightarrow> session_snapshot" where
  "snapshot_of E blockNum session data balances dec =
    \<lparr>css_BlockNum = blockNum, css_SessionId = cs_ID session, css_CollateralInUSD = cs_CollateralInUSD session,
     css_CollateralInUnderlying = cs_CollateralInUnderlying session, css_Borrower = cs_Borrower session,
     css_HealthFactor = dc_HealthFactor data, css_TotalValueBI = dc_TotalValue data,
     css_TotalValue = GetFloat64Decimal E (dc_TotalValue data) dec, css_Balances = balances,
     css_BorrowedAmountBI = cs_BorrowedAmount session,
     css_BorrowedAmount = GetFloat64Decimal E (dc_BorrowedAmount data) dec,
     css_CumulativeIndexAtOpen = dc_CumulativeIndexAtOpen data\<rparr>"

definition updateSession :: "cm_env \<Rightarrow> int \<Rightarrow> string \<Rightarrow> dc_account \<Rightarrow> cm_world \<Rightarrow> cm_world res" where
  "updateSession E blockNum sessionId data w =
    rbind (upd_session sessionId (\<lambda>s. s\<lparr>cs_BorrowedAmount := dc_BorrowedAmount data\<rparr>) w) (\<lambda>w1.
    rbind (deref (GetCreditSession sessionId w1)) (\<lambda>session.
    rbind (addFloatValue E (cs_Account session) blockNum (dc_Balances data)) (\<lambda>balances.
    rbind (upd_session sessionId (\<lambda>s. s\<lparr>cs_Balances := balances\<rparr>) w1) (\<lambda>w2.
      Inr (AddCreditSessionSnapshot (snapshot_of E blockNum session data balances (GetUnderlyingDecimal E w2)) w2)))))"

text \<open>The row of a repayment, completed with the repaid amount.\<close>

definition finish_repay :: "string \<Rightarrow> dc_account \<Rightarrow> close_details \<Rightarrow> cm_world \<Rightarrow> cm_world res" where
  "finish_repay sessionId data closeDetails w =
    (if cd_RemainingFunds closeDetails = None \<and> cd_Status closeDetails = Repaid then
       rbind (upd_session sessionId (\<lambda>s. s\<lparr>cs_RemainingFunds := Some (dc_TotalValue data - dc_RepayAmount data)\<rparr>) w) (\<lambda>w1.
       rbind (deref (cd_AccountOperation closeDetails)) (\<lambda>op.
       rbind (deref (ao_Args op)) (\<lambda>args.
         AddAccountOperation (op\<lparr>ao_Args := Some (AList.update ''repayAmount'' (JInt (dc_RepayAmount data)) args)\<rparr>) [] w1)))
     else Inr w)"

definition closeSession :: "cm_env \<Rightarrow> int \<Rightarrow> string \<Rightarrow> dc_account \<Rightarrow> close_details \<Rightarrow> cm_world \<Rightarrow> cm_world res" where
  "closeSession E blockNum sessionId data closeDetails w =
    rbind (upd_session sessionId (\<lambda>s. s\<lparr>cs_BorrowedAmount := dc_BorrowedAmount data\<rparr>) w) (\<lambda>w1.
    rbind (deref (GetCreditSession sessionId w1)) (\<lambda>session.
      let amountToPool = CalCloseAmount E (cm_params w1) (cs_Version session) (dc_TotalValue data)
            (cd_Status closeDetails) (dc_BorrowedAmountPlusInterest data) (dc_BorrowedAmount data);
          w2 = PoolRepay E blockNum (cd_LogId closeDetails) (cd_TxHash closeDetails) (cs_ID session)
                 (cd_Borrower closeDetails) amountToPool w1
      in rbind (finish_repay sessionId data closeDetails w2) (\<lambda>w3.
         let w4 = upd_State (\<lambda>s. s\<lparr>TotalRepaidBI := TotalRepaidBI s + amountToPool,
                   TotalRepaid := GetFloat64Decimal E (TotalRepaidBI s + amountToPool) (GetUnderlyingDecimal E w3)\<rparr>) w3;
             w5 = SetBlock (blockNum - 1) w4
         in rbind (addFloatValue E (cs_Account session) (blockNum - 1) (dc_Balances data)) (\<lambda>balances.
            rbind (upd_session sessionId (\<lambda>s. s\<lparr>cs_Balances := balances\<rparr>) w5) (\<lambda>w6.
              Inr (AddCreditSessionSnapshot
                (snapshot_of E (blockNum - 1) session data balances (GetUnderlyingDecimal E w6)) w6))))))"

section \<open>Calls to the data compressor\<close>

datatype dc_call =
    UpdateCall string address      \<comment> \<open>session and borrower\<close>
  | CMDataCall

definition updateSessionCallAndProcessFn :: "string \<Rightarrow> cm_world \<Rightarrow> (dc_call \<times> cm_world) res" where
  "updateSessionCallAndProcessFn sessionId w =
    rbind (UpdateCreditSession sessionId (\<lambda>s. s) w) (\<lambda>w1.
    rbind (deref (GetCreditSession sessionId w1)) (\<lambda>session.
      Inr (UpdateCall sessionId (cs_Borrower session), w1)))"

text \<open>
  \<^verbatim>\<open>closeSessionCallAndResultFn\<close>: no call for a session that lived within one block; the result is the
  borrower to ask for.
\<close>

definition closeSessionCallAndResultFn ::
  "int \<Rightarrow> string \<Rightarrow> close_details \<Rightarrow> cm_world \<Rightarrow> (address option \<times> cm_world) res" where
  "closeSessionCallAndResultFn blockNum sessionId closeDetails w =
    (let w0 = upd_State (\<lambda>s. s\<lparr>OpenedAccountsCount := OpenedAccountsCount s - 1\<rparr>) w in
     rbind (UpdateCreditSession sessionId (\<lambda>s. s\<lparr>cs_ClosedAt := blockNum, cs_Status := cd_Status closeDetails\<rparr>) w0) (\<lambda>w1.
     rbind (deref (GetCreditSession sessionId w1)) (\<lambda>session.
       Inr (if cs_Since session = cs_ClosedAt session then None else Some (cs_Borrower session), w1))))"

definition close_one ::
  "int \<Rightarrow> string \<times> close_details \<Rightarrow> (string \<times> address \<times> close_details) list \<times> cm_world \<Rightarrow>
    ((string \<times> address \<times> close_details) list \<times> cm_world) res" where
  "close_one blockNum = (\<lambda>(sessionId, closeDetails) (calls, w).
    rbind (closeSessionCallAndResultFn blockNum sessionId closeDetails w) (\<lambda>(call, w1).
      Inr (case call of None \<Rightarrow> calls | Some b \<Rightarrow> calls @ [(sessionId, b, closeDetails)], w1)))"

definition close_answer :: "cm_env \<Rightarrow> int \<Rightarrow> string \<times> address \<times> close_details \<Rightarrow> cm_world \<Rightarrow> cm_world res" where
  "close_answer E blockNum = (\<lambda>(sessionId, b, closeDetails) w.
    case GetCreditAccountData E (blockNum - 1) (cm_addr w) b of
      None \<Rightarrow> Inl (Fatal ''Failing GetAccount'')
    | Some data \<Rightarrow> closeSession E blockNum sessionId data closeDetails w)"

definition close_all :: "cm_env \<Rightarrow> int \<Rightarrow> cm_world \<Rightarrow> cm_world res" where
  "close_all E blockNum w =
    rbind (rfold (close_one blockNum) (ClosedSessions w) ([], w)) (\<lambda>(calls, w1). rfold (close_answer E blockNum) calls w1)"

definition update_one :: "string \<Rightarrow> dc_call list \<times> cm_world \<Rightarrow> (dc_call list \<times> cm_world) res" where
  "update_one sessionId = (\<lambda>(calls, w).
    if map_of (ClosedSessions w) sessionId = None then
      rbind (updateSessionCallAndProcessFn sessionId w) (\<lambda>(call, w1). Inr (calls @ [call], w1))
    else Inr (calls, w))"

definition FetchFromDCForChangedSessions :: "cm_env \<Rightarrow> int \<Rightarrow> cm_world \<Rightarrow> (dc_call list \<times> cm_world) res" where
  "FetchFromDCForChangedSessions E blockNum w =
    rbind (rfold update_one (map fst (UpdatedSessions w)) ([], w)) (\<lambda>(calls, w1).
    rbind (close_all E blockNum w1) (\<lambda>w2.
      Inr (calls, w2\<lparr>UpdatedSessions := [], ClosedSessions := []\<rparr>)))"

section \<open>Statistics\<close>

definition addProtocolAdapters :: "dc_manager \<Rightarrow> cm_world \<Rightarrow> cm_world" where
  "addProtocolAdapters state w = w\<lparr>allowedProtocols := (\<lambda>a. a \<in> set (dcm_Adapters state))\<rparr>"

definition calculateCMStat :: "cm_env \<Rightarrow> int \<Rightarrow> dc_manager \<Rightarrow> cm_world \<Rightarrow> cm_world" where
  "calculateCMStat E blockNum state w0 =
    (let w1 = upd_State (\<lambda>s. s\<lparr>IsWETH := dcm_IsWETH state\<rparr>) (addProtocolAdapters state w0);
         dec = GetUnderlyingDecimal E w1;
         (borrowed, w2) = getBorrowAmountForBlockAndClear w1;
         w3 = upd_State (\<lambda>s. s\<lparr>TotalBorrowedBI := TotalBorrowedBI s + borrowed,
                TotalBorrowed := GetFloat64Decimal E (TotalBorrowedBI s + borrowed) dec\<rparr>) w2;
         (pnl, pnls) = pnl_Get blockNum (pnlOnCM w3);
         w4 = w3\<lparr>pnlOnCM := pnls\<rparr>;
         w5 = (case pnl of
                 None \<Rightarrow> w4
               | Some p \<Rightarrow> upd_State (\<lambda>s. s\<lparr>
                   TotalBorrowedBI := TotalBorrowedBI s - pnl_BorrowedAmount p,
                   TotalBorrowed := GetFloat64Decimal E (TotalBorrowedBI s - pnl_BorrowedAmount p) dec,
                   TotalLossesBI := TotalLossesBI s + pnl_Loss p,
                   TotalLosses := GetFloat64Decimal E (TotalLossesBI s + pnl_Loss p) dec,
                   TotalProfitBI := TotalProfitBI s + pnl_Profit p,
                   TotalProfit := GetFloat64Decimal E (TotalProfitBI s + pnl_Profit p) dec\<rparr>) w4);
         w6 = upd_State (\<lambda>s. s\<lparr>st_MinAmount := dcm_MinAmount state, st_MaxAmount := dcm_MaxAmount state,
                AvailableLiquidityBI := dcm_AvailableLiquidity state,
                AvailableLiquidity := GetFloat64Decimal E (dcm_AvailableLiquidity state) dec\<rparr>) w5;
         w7 = SetBlock blockNum w6
     in w7\<lparr>cmStats := cmStats w7 @ [\<lparr>stat_Address = cm_addr w7, stat_BlockNum = blockNum, stat_State = State w7\<rparr>]\<rparr>)"

text \<open>The objects other components and the loader hand to a credit manager.\<close>

datatype underlying_obj =
    StateObj cm_state
  | SessionsObj "address \<rightharpoonup> string"
  | PnlObj pnl_on_repay
  | ParametersObj parameters
  | OtherObj

definition cm_SetUnderlyingState :: "underlying_obj \<Rightarrow> cm_world \<Rightarrow> cm_world res" where
  "cm_SetUnderlyingState obj w0 =
    (let w = w0\<lparr>cm_adapter := (cm_adapter w0)\<lparr>UnderlyingStateToSave := True\<rparr>\<rparr> in
     case obj of
       StateObj s \<Rightarrow> Inr (w\<lparr>State := s\<rparr>)
     | SessionsObj m \<Rightarrow> Inr (upd_State (\<lambda>s. s\<lparr>Sessions := m\<rparr>) w)
     | PnlObj pnl \<Rightarrow> rbind (pnl_Set pnl (pnlOnCM w)) (\<lambda>m. Inr (w\<lparr>pnlOnCM := m\<rparr>))
     | ParametersObj p \<Rightarrow> Inr (setParams p w)
     | OtherObj \<Rightarrow> Inl (Fatal ''Type assertion for credit manager state failed''))"

text \<open>The answer of a call made for \<open>blockNum\<close>.\<close>

definition process_result :: "cm_env \<Rightarrow> int \<Rightarrow> dc_call \<Rightarrow> cm_world \<Rightarrow> cm_world res" where
  "process_result E blockNum call w =
    (case call of
       UpdateCall sessionId b \<Rightarrow>
         (case GetCreditAccountData E blockNum (cm_addr w) b of
            None \<Rightarrow> Inl (Fatal ''Failing GetAccount'')
          | Some data \<Rightarrow> updateSession E blockNum sessionId data w)
     | CMDataCall \<Rightarrow>
         (case GetCreditManagerData E blockNum (cm_addr w) of
            None \<Rightarrow> Inl (Fatal ''Cant get data from data compressor'')
          | Some state \<Rightarrow> Inr (calculateCMStat E blockNum state w)))"

section \<open>Direct transfers\<close>

record reward_claim =
  rc_Args :: json_obj
  rc_TxHash :: txhash
  rc_LogID :: int
  rc_Transfers :: "(address \<times> int) list"

definition newRewardClaimDetails :: reward_claim where
  "newRewardClaimDetails = \<lparr>rc_Args = [], rc_TxHash = '''', rc_LogID = 0, rc_Transfers = []\<rparr>"

definition addRewardClaimAccountOperation ::
  "int \<Rightarrow> string \<Rightarrow> address \<Rightarrow> reward_claim \<Rightarrow> cm_world \<Rightarrow> cm_world res" where
  "addRewardClaimAccountOperation blockNum sessionId borrower claim w =
    AddAccountOperation
      \<lparr>ao_TxHash = rc_TxHash claim, ao_BlockNumber = blockNum, ao_LogId = rc_LogID claim, ao_Borrower = borrower,
       ao_SessionId = sessionId, ao_Dapp = NULL_ADDR, ao_Action = ''RewardClaimed'', ao_Args = Some (rc_Args claim),
       ao_AdapterCall = False, ao_Transfers = Some (rc_Transfers claim)\<rparr> [] w"

text \<open>
  One transfer of a session.  A transfer attributed to a session has the account as sender or
  receiver, so \<open>amount\<close> is nil in no row that is written; the model reads nil as 0.
\<close>

definition process_transfer ::
  "cm_env \<Rightarrow> int \<Rightarrow> string \<Rightarrow> credit_session \<Rightarrow> token_transfer \<Rightarrow> reward_claim \<times> cm_world \<Rightarrow> (reward_claim \<times> cm_world) res" where
  "process_transfer E blockNum sessionID session tx = (\<lambda>(claim, w).
    if cs_Account session = tt_From tx then
      (if tt_Amount tx = 0 then Inr (claim, w) else Inl (Fatal ''Token withdrawn directly from account''))
    else
      let w1 = setUpdateSession sessionID w;
          amount = (if tt_To tx = cs_Account session then tt_Amount tx else 0)
      in rbind (if tt_To tx = cs_Account session
                then AddCollateralToSession E (tt_BlockNum tx) sessionID (tt_Token tx) amount w1 else Inr w1) (\<lambda>w2.
         if tt_From tx = NULL_ADDR \<or> allowedProtocols w2 (tt_From tx) then
           rbind (if rc_TxHash claim \<noteq> '''' \<and> rc_TxHash claim \<noteq> tt_TxHash tx
                  then rbind (addRewardClaimAccountOperation blockNum sessionID (cs_Borrower session) claim w2)
                         (\<lambda>w3. Inr (newRewardClaimDetails, w3))
                  else Inr (claim, w2)) (\<lambda>(claim1, w3).
             Inr (claim1\<lparr>rc_Args := AList.update (tt_Token tx) (JString (tt_From tx)) (rc_Args claim1),
                         rc_Transfers := AList.update (tt_Token tx) amount (rc_Transfers claim1),
                         rc_TxHash := tt_TxHash tx, rc_LogID := tt_LogID tx\<rparr>, w3))
         else
           rbind (AddAccountOperation
             \<lparr>ao_TxHash = tt_TxHash tx, ao_BlockNumber = tt_BlockNum tx, ao_LogId = tt_LogID tx,
              ao_Borrower = cs_Borrower session, ao_SessionId = sessionID, ao_Dapp = tt_Token tx,
              ao_Action = ''DirectTokenTransfer'',
              ao_Args = Some [(''amount'', JInt amount), (''to'', JString (tt_To tx)), (''from'', JString (tt_From tx))],
              ao_AdapterCall = False, ao_Transfers = Some [(tt_Token tx, amount)]\<rparr> [] (SetBlock (tt_BlockNum tx) w2))
             (\<lambda>w3. Inr (claim, w3))))"

definition processDirectTransfersOnBlock ::
  "cm_env \<Rightarrow> int \<Rightarrow> session_transfers \<Rightarrow> cm_world \<Rightarrow> cm_world res" where
  "processDirectTransfersOnBlock E blockNum sessionIDToTxs w =
    rfold (\<lambda>(sessionID, txs) w.
        if txs = [] then Inr w
        else
          rbind (deref (GetCreditSession sessionID w)) (\<lambda>session.
          rbind (rfold (process_transfer E blockNum sessionID session) (SortTransfers E txs) (newRewardClaimDetails, w)) (\<lambda>(claim, w1).
            if rc_TxHash claim \<noteq> ''''
            then addRewardClaimAccountOperation blockNum sessionID (cs_Borrower session) claim w1 else Inr w1)))
      sessionIDToTxs w"

definition check_transfers :: "int \<Rightarrow> int \<Rightarrow> cm_world \<Rightarrow> (int \<times> session_transfers) list \<times> cm_world" where
  "check_transfers frm till w =
    (let (am, data) = CheckTokenTransfer (cm_addr w) frm till (accountManager w) in (data, w\<lparr>accountManager := am\<rparr>))"

definition transfers_on_block :: "cm_env \<Rightarrow> (int \<times> session_transfers) list \<Rightarrow> int \<Rightarrow> cm_world \<Rightarrow> cm_world res" where
  "transfers_on_block E data blockNum w =
    rbind (processDirectTransfersOnBlock E blockNum (aget [] data blockNum) w) (\<lambda>w1.
    rbind (FetchFromDCForChangedSessions E blockNum w1) (\<lambda>(calls, w2).
      rfold (process_result E blockNum) calls w2))"

definition UpdateSessionWithDirectTokenTransferBefore :: "cm_env \<Rightarrow> int \<Rightarrow> cm_world \<Rightarrow> cm_world res" where
  "UpdateSessionWithDirectTokenTransferBefore E tillBlock w =
    (let (data, w0) = check_transfers 0 tillBlock w
     in rfold (transfers_on_block E data) (sort (map fst data)) w0)"

section \<open>Transactions, logs and blocks\<close>

definition IsGBv1 :: "cm_world \<Rightarrow> bool" where
  "IsGBv1 w \<longleftrightarrow> V (cm_adapter w) = 1"

definition onTxHash :: "cm_env \<Rightarrow> txhash \<Rightarrow> cm_world \<Rightarrow> cm_world res" where
  "onTxHash E newTxHash w =
    rbind (if LastTxHash w \<noteq> '''' \<and> LastTxHash w \<noteq> newTxHash
           then (if IsGBv1 w then processExecuteEvents E w else onNewTxHashV2 E w)
           else Inr w) (\<lambda>w1. Inr (w1\<lparr>LastTxHash := newTxHash\<rparr>))"

text \<open>Configurator events; the premiums are subtracted from 10000 in 16 bits.\<close>

definition onConfiguratorLog :: "cm_log \<Rightarrow> cm_world \<Rightarrow> cm_world res" where
  "onConfiguratorLog txLog w =
    (case payload txLog of
       CreditFacadeUpgraded facade \<Rightarrow> setCreditFacadeSyncer facade w
     | FeesUpdated fi fl lp fle lpe \<Rightarrow>
         Inr (setParams
           \<lparr>par_BlockNum = BlockNumber txLog, par_CreditManager = cm_addr w, par_MinAmount = 0, par_MaxAmount = 0,
            par_MaxLeverage = 0, FeeInterest = word_of_int fi, FeeLiquidation = word_of_int fl,
            LiquidationDiscount = 10000 - word_of_int lp, FeeLiquidationExpired = word_of_int fle,
            LiquidationDiscountExpired = 10000 - word_of_int lpe\<rparr> w)
     | _ \<Rightarrow> Inr w)"

definition cm_OnLog :: "cm_env \<Rightarrow> cm_log \<Rightarrow> cm_world \<Rightarrow> cm_world res" where
  "cm_OnLog E txLog w =
    rbind (GetDetailsByKey ''configurator'' (cm_adapter w)) (\<lambda>configurator.
      if configurator = logAddress txLog then onConfiguratorLog txLog w
      else
        rbind (onTxHash E (TxHash txLog) w) (\<lambda>w1.
        rbind (DeleteTxHash (BlockNumber txLog) (TxHash txLog) (accountManager w1)) (\<lambda>am.
          let w2 = w1\<lparr>lastEventBlock := BlockNumber txLog, accountManager := am\<rparr>
          in if IsGBv1 w2 then checkLogV1 E txLog w2 else checkLogV2 E txLog w2)))"

definition cm_OnBlockChange :: "cm_env \<Rightarrow> int \<Rightarrow> cm_world \<Rightarrow> (dc_call list \<times> cm_world) res" where
  "cm_OnBlockChange E lastBlockNum w =
    (if lastEventBlock w \<noteq> 0 \<and> lastEventBlock w = lastBlockNum \<and> lastBlockNum \<ge> DiscoveredAt (cm_adapter w) then
       rbind (onTxHash E '''' w) (\<lambda>w1.
         let (data, w2) = check_transfers lastBlockNum (lastBlockNum + 1) w1 in
         rbind (processDirectTransfersOnBlock E lastBlockNum (aget [] data lastBlockNum) w2) (\<lambda>w3.
         rbind (FetchFromDCForChangedSessions E lastBlockNum w3) (\<lambda>(calls, w4).
           Inr (calls @ [CMDataCall], w4\<lparr>lastEventBlock := 0\<rparr>))))
     else Inr ([], w))"

text \<open>The whole end of a block for one manager: the calls, then their answers.\<close>

definition cm_end_of_block :: "cm_env \<Rightarrow> int \<Rightarrow> cm_world \<Rightarrow> cm_world res" where
  "cm_end_of_block E blockNum w =
    rbind (cm_OnBlockChange E blockNum w) (\<lambda>(calls, w1). rfold (process_result E blockNum) calls w1)"

end
