(* ===== verification/Credit_Manager_Steps.thy ===== *)
theory Credit_Manager_Steps
  imports Credit_Manager
begin

text \<open>
  What the bookkeeping of a credit manager can break.  Storing operations, changing fields of a stored
  session other than its identity, borrower, status and closing, marking sessions as updated and correcting the status of a closing
  are the only writes of a transaction end and of direct transfers.  The locale \<open>tx_steps\<close> is the contract of a
  predicate that these writes keep; every composed operation keeps it.
\<close>

text \<open>A session and a later version of it that stands for the same row of the open accounts and is still to be saved.\<close>

definition same_row :: "credit_session \<Rightarrow> credit_session \<Rightarrow> bool" where
  "same_row s s' \<longleftrightarrow> cs_ID s' = cs_ID s \<and> cs_Status s' = cs_Status s \<and> cs_Borrower s' = cs_Borrower s \<and>
    cs_CreditManager s' = cs_CreditManager s \<and> cs_ClosedAt s' = cs_ClosedAt s \<and> (IsDirty s \<longrightarrow> IsDirty s')"

locale tx_steps =
  fixes P :: "cm_world \<Rightarrow> bool"
  assumes P_blocks: "P w \<Longrightarrow> P (w\<lparr>blocks := bs\<rparr>)"
    and P_operations: "P w \<Longrightarrow> P (w\<lparr>operations := os\<rparr>)"
    and P_updated: "P w \<Longrightarrow> P (w\<lparr>UpdatedSessions := us\<rparr>)"
    and P_session: "P w \<Longrightarrow> map_of (sessions w) sid = Some s \<Longrightarrow> same_row s s' \<Longrightarrow>
      P (w\<lparr>sessions := AList.update sid s' (sessions w)\<rparr>)"
    and P_closing: "P w \<Longrightarrow> map_of (ClosedSessions w) sid = Some d \<Longrightarrow> st \<noteq> Active \<Longrightarrow>
      P (w\<lparr>ClosedSessions := AList.update sid (d\<lparr>cd_Status := st\<rparr>) (ClosedSessions w)\<rparr>)"
begin

lemma SetBlock_keeps: "P w \<Longrightarrow> P (SetBlock n w)"
  by (simp add: SetBlock_def P_blocks)

lemma setUpdateSession_keeps: "P w \<Longrightarrow> P (setUpdateSession s w)"
  by (simp add: setUpdateSession_def P_updated)

lemma AddAccountOperation_keeps: "AddAccountOperation op ms w = Inr w' \<Longrightarrow> P w \<longrightarrow> P w'"
  by (auto simp: AddAccountOperation_def Let_def P_operations SetBlock_keeps split: if_splits)

lemma upd_session_keeps: "upd_session sid f w = Inr w' \<Longrightarrow> (\<And>s. same_row s (f s)) \<Longrightarrow> P w \<longrightarrow> P w'"
  by (auto simp: upd_session_def GetCreditSession_def P_session)

lemma UpdateCreditSession_keeps: "UpdateCreditSession sid f w = Inr w' \<Longrightarrow> (\<And>s. same_row (s\<lparr>IsDirty := True\<rparr>) (f (s\<lparr>IsDirty := True\<rparr>))) \<Longrightarrow> P w \<longrightarrow> P w'"
  unfolding UpdateCreditSession_def by (rule upd_session_keeps) (auto simp: same_row_def)

lemma AddCollateralToSession_keeps: "AddCollateralToSession E b sid tok amt w = Inr w' \<Longrightarrow> P w \<longrightarrow> P w'"
  unfolding AddCollateralToSession_def
  by (auto simp: same_row_def elim!: rbind_InrE upd_session_keeps split: if_splits)

lemma setLiquidateStatus_keeps: "setLiquidateStatus sid e w = Inr w' \<Longrightarrow> P w \<longrightarrow> P w'"
  by (auto simp: setLiquidateStatus_def Let_def intro: P_closing elim!: rbind_InrE)

lemmas keeps_rules = AddAccountOperation_keeps AddCollateralToSession_keeps setLiquidateStatus_keeps

text \<open>A loop whose iterations keep the predicate keeps it; \<open>st\<close> selects the world from the loop state.\<close>

lemma rfold_keeps:
  assumes "rfold f xs s = Inr t" and "\<And>x s s'. x \<in> set xs \<Longrightarrow> f x s = Inr s' \<Longrightarrow> P (st s) \<Longrightarrow> P (st s')" and "P (st s)"
  shows "P (st t)"
  using assms(1) by (rule rfold_invariant[where I = "\<lambda>s'. P (st s')"]) (auto simp: assms(3) intro: assms(2))

lemma saveExecuteEvents_keeps:
  assumes "saveExecuteEvents E eps w = Inr w'"
  shows "P w \<longrightarrow> P w'"
proof
  assume P: "P w"
  show "P w'"
    using assms unfolding saveExecuteEvents_def Let_def
    by (rule rfold_keeps[where st = "\<lambda>w. w"])
      (auto dest!: keeps_rules simp: P setUpdateSession_keeps elim!: rbind_InrE split: prod.splits)
qed

lemma processNonMultiCalls_keeps:
  assumes "processNonMultiCalls w = Inr (eps, w')" and "P (w\<lparr>multicall := snd (PopNonMulticallEventsV2 (multicall w))\<rparr>)"
  shows "P w'"
proof -
  have "P (snd (eps, w'))"
    using assms(1) unfolding processNonMultiCalls_def case_prod_unfold Let_def
    by (rule rfold_keeps) (auto dest!: keeps_rules simp: assms(2) setUpdateSession_keeps elim!: rbind_InrE split: if_splits)
  then show ?thesis by simp
qed

lemma addCollteral_keeps: "addCollteralForOpenCreditAccount E b op ms w = Inr (op', w') \<Longrightarrow> P w \<longrightarrow> P w'"
  by (auto simp: addCollteralForOpenCreditAccount_def same_row_def elim!: rbind_InrE UpdateCreditSession_keeps)

lemma add_to_main_event_keeps: "add_to_main_event op ev (es, w) = Inr (es', w') \<Longrightarrow> P w \<longrightarrow> P w'"
  by (auto simp: add_to_main_event_def dest!: keeps_rules elim!: rbind_InrE split: if_splits)

lemma addMulticallToMainEvent_keeps:
  assumes "addMulticallToMainEvent E op ms w = Inr (op', stored, w')"
  shows "P w \<longrightarrow> P w'"
proof
  assume P: "P w"
  obtain evs w1 where run: "rfold (add_to_main_event op) ms ([], w) = Inr (evs, w1)"
    and w': "P w1 \<longrightarrow> P w'"
    using assms unfolding addMulticallToMainEvent_def by (auto elim!: rbind_InrE split: if_splits dest!: addCollteral_keeps)
  have "P (snd (evs, w1))" using run by (rule rfold_keeps) (auto simp: P dest!: add_to_main_event_keeps)
  then show "P w'" using w' by simp
qed

lemma check_facade_action_keeps: "check_facade_action a c (eps, w) = Inr (eps', w') \<Longrightarrow> P w \<longrightarrow> P w'"
  by (auto simp: check_facade_action_def Let_def setUpdateSession_keeps dest!: keeps_rules elim!: rbind_InrE split: if_splits)

lemma validateAndSave_keeps:
  assumes "validateAndSaveFacadeActions E h actions calls nm w = Inr w'"
  shows "P w \<longrightarrow> P w'"
proof
  assume P: "P w"
  obtain eps w1 ops ind rem w2 i where
    a: "rfold (check_nth_action calls) (List.enumerate 0 actions) ([], w) = Inr (eps, w1)"
    and b: "rfold (split_step nm) ops (0, [], w1) = Inr (ind, rem, w2)"
    and c: "rfold (save_facade_action E rem) actions (0, w2) = Inr (i, w')"
    using assms unfolding validateAndSaveFacadeActions_def split_non_multicall_def by (auto elim!: rbind_InrE)
  have 1: "P (snd (eps, w1))"
    using a by (rule rfold_keeps) (auto simp: P check_nth_action_def dest!: check_facade_action_keeps elim!: rbind_InrE)
  have 2: "P (snd (snd (ind, rem, w2)))"
    using b by (rule rfold_keeps[where st = "\<lambda>s. snd (snd s)"])
      (use 1 in \<open>auto simp: split_step_def dest!: keeps_rules elim!: rbind_InrE split: if_splits\<close>)
  have "P (snd (i, w'))"
    using c by (rule rfold_keeps)
      (use 2 in \<open>auto simp: save_facade_action_def dest!: keeps_rules addMulticallToMainEvent_keeps elim!: rbind_InrE\<close>)
  then show "P w'" by simp
qed

lemma store_open_keeps: "store_open_without_mc E entry w = Inr w' \<Longrightarrow> P w \<longrightarrow> P w'"
  by (auto simp: store_open_without_mc_def Let_def setUpdateSession_keeps P_operations
      dest!: keeps_rules addCollteral_keeps elim!: rbind_InrE)

lemma processRemaining_keeps:
  assumes "processRemainingMultiCalls E nm w = Inr w'" and "P (w\<lparr>multicall := snd (snd (PopMainActionsv2 (multicall w)))\<rparr>)"
  shows "P w'"
proof -
  obtain actions opens' p where pop: "PopMainActionsv2 (multicall w) = (actions, opens', p)" by (cases "PopMainActionsv2 (multicall w)")
  obtain w1 where a: "rfold (store_open_without_mc E) opens' (w\<lparr>multicall := p\<rparr>) = Inr w1"
    and b: "P w1 \<longrightarrow> P w'"
    using assms(1) pop unfolding processRemainingMultiCalls_def
    by (auto simp: Let_def elim!: rbind_InrE split: if_splits dest!: validateAndSave_keeps saveExecuteEvents_keeps)
  have "P w1"
    using a by (rule rfold_keeps[where st = "\<lambda>w. w"]) (use assms(2) pop in \<open>auto dest!: store_open_keeps\<close>)
  then show ?thesis using b by simp
qed

lemma process_transfer_keeps: "process_transfer E b sid s tx (c, w) = Inr (c', w') \<Longrightarrow> P w \<longrightarrow> P w'"
  by (auto simp: process_transfer_def addRewardClaimAccountOperation_def Let_def SetBlock_keeps setUpdateSession_keeps
      dest!: keeps_rules elim!: rbind_InrE split: if_splits)

lemma processDirectTransfers_keeps:
  assumes "processDirectTransfersOnBlock E b m w = Inr w'"
  shows "P w \<longrightarrow> P w'"
proof
  assume "P w"
  from assms show "P w'" unfolding processDirectTransfersOnBlock_def
  proof (rule rfold_keeps[where st = "\<lambda>w. w"])
  fix x :: "string \<times> token_transfer list" and s s'
  obtain sid txs where x: "x = (sid, txs)" by (cases x)
  assume step: "(case x of (sessionID, txs) \<Rightarrow> \<lambda>w. if txs = [] then Inr w else
      rbind (deref (GetCreditSession sessionID w)) (\<lambda>session.
      rbind (rfold (process_transfer E b sessionID session) (SortTransfers E txs) (newRewardClaimDetails, w)) (\<lambda>(claim, w1).
        if rc_TxHash claim \<noteq> '''' then addRewardClaimAccountOperation b sessionID (cs_Borrower session) claim w1 else Inr w1))) s = Inr s'"
    and P: "P s"
  show "P s'"
  proof (cases "txs = []")
    case False
    then obtain session claim w1 where
      loop: "rfold (process_transfer E b sid session) (SortTransfers E txs) (newRewardClaimDetails, s) = Inr (claim, w1)"
      and last: "P w1 \<longrightarrow> P s'"
      using step x by (auto simp: addRewardClaimAccountOperation_def elim!: rbind_InrE split: if_splits dest!: keeps_rules)
    have "P (snd (claim, w1))" using loop by (rule rfold_keeps) (auto simp: P dest!: process_transfer_keeps)
    then show ?thesis using last by simp
  qed (use step x P in simp)
  qed (rule \<open>P w\<close>)
qed

end

end
