(* ===== verification/Credit_Manager_Frame.thy ===== *)
theory Credit_Manager_Frame
  imports Credit_Manager_Steps
begin

text \<open>
  What the bookkeeping of a credit manager leaves alone.  The locale \<open>tx_frame\<close> is the contract of a view of the
  world that does not depend on the writes of a transaction end and of direct transfers.  That the view has a
  given value is then a predicate in the sense of \<open>tx_steps\<close>, so every composed operation keeps the view.
\<close>

lemma update_keys: "k \<in> fst ` set m \<Longrightarrow> map fst (AList.update k v m) = map fst m"
  by (induction m) auto

lemma map_of_key: "map_of m k = Some v \<Longrightarrow> k \<in> fst ` set m"
  by (metis domI dom_map_of_conv_image_fst)

locale tx_frame =
  fixes view :: "cm_world \<Rightarrow> 'v"
  assumes view_blocks: "view (w\<lparr>blocks := bs\<rparr>) = view w"
    and view_operations: "view (w\<lparr>operations := os\<rparr>) = view w"
    and view_updated: "view (w\<lparr>UpdatedSessions := us\<rparr>) = view w"
    and view_session: "map_of (sessions w) sid = Some s \<Longrightarrow> view (w\<lparr>sessions := AList.update sid s' (sessions w)\<rparr>) = view w"
    and view_closing: "map_of (ClosedSessions w) sid = Some d \<Longrightarrow>
      view (w\<lparr>ClosedSessions := AList.update sid d' (ClosedSessions w)\<rparr>) = view w"

sublocale tx_frame \<subseteq> steps: tx_steps "\<lambda>w. view w = v" for v
  by unfold_locales (simp_all add: view_blocks view_operations view_updated view_session view_closing)

context tx_frame begin

text \<open>Any change of a stored session keeps the view.\<close>

lemma upd_session_keeps: "upd_session sid f w = Inr w' \<Longrightarrow> view w' = view w"
  by (auto simp: upd_session_def GetCreditSession_def view_session)

lemma UpdateCreditSession_keeps: "UpdateCreditSession sid f w = Inr w' \<Longrightarrow> view w' = view w"
  by (auto simp: UpdateCreditSession_def dest: upd_session_keeps)

lemma AddAccountOperation_keeps: "AddAccountOperation op ms w = Inr w' \<Longrightarrow> view w' = view w"
  by (drule steps.AddAccountOperation_keeps) blast

lemma AddCollateralToSession_keeps: "AddCollateralToSession E b sid tok amt w = Inr w' \<Longrightarrow> view w' = view w"
  by (drule steps.AddCollateralToSession_keeps) blast

lemma saveExecuteEvents_keeps: "saveExecuteEvents E eps w = Inr w' \<Longrightarrow> view w' = view w"
  by (drule steps.saveExecuteEvents_keeps) blast

lemma processNonMultiCalls_keeps:
  "processNonMultiCalls w = Inr (eps, w') \<Longrightarrow> view w' = view (w\<lparr>multicall := snd (PopNonMulticallEventsV2 (multicall w))\<rparr>)"
  by (rule steps.processNonMultiCalls_keeps[OF _ refl])

lemma processRemaining_keeps:
  "processRemainingMultiCalls E nm w = Inr w' \<Longrightarrow> view w' = view (w\<lparr>multicall := snd (snd (PopMainActionsv2 (multicall w)))\<rparr>)"
  by (rule steps.processRemaining_keeps[OF _ refl])

lemma processDirectTransfers_keeps: "processDirectTransfersOnBlock E b m w = Inr w' \<Longrightarrow> view w' = view w"
  by (drule steps.processDirectTransfers_keeps) blast

end

text \<open>The multicall processor is such a view: nothing is added to it while a transaction is stored.\<close>

interpretation mc_view: tx_frame multicall
  by unfold_locales simp_all

end
