(* ===== verification/Credit_Accounts.thy ===== *)
theory Credit_Accounts
  imports Credit_Manager_State
begin

text \<open>
  An abstract specification of the accounts of a credit manager: who owns which session, which
  sessions wait for the end of their block, and the counters.  The credit manager refines it; the
  invariant of the counters is proved here.
\<close>

section \<open>Abstract accounts\<close>

text \<open>
  What the account counters promise, without operations, rows and multicalls: the owners of open
  accounts, the sessions that wait for the end of the block and the counters.
\<close>

record accounts =
  acc_version :: int
  acc_owners :: "address \<rightharpoonup> string"
  acc_closing :: "string list"
  acc_known :: "string set"
  acc_open_count :: int
  acc_opened :: int
  acc_closed :: int
  acc_repaid :: int
  acc_liquidated :: int

definition acc_open :: "address \<Rightarrow> string \<Rightarrow> accounts \<Rightarrow> accounts" where
  "acc_open own sid a = a\<lparr>acc_owners := (acc_owners a)(own \<mapsto> sid), acc_known := insert sid (acc_known a),
     acc_opened := acc_opened a + 1, acc_open_count := acc_open_count a + 1\<rparr>"

definition acc_leave :: "address \<Rightarrow> accounts \<Rightarrow> accounts" where
  "acc_leave own a = (let sid = zget '''' (acc_owners a) own in
     a\<lparr>acc_owners := (acc_owners a)(own := None),
       acc_closing := (if sid \<in> set (acc_closing a) then acc_closing a else acc_closing a @ [sid])\<rparr>)"

definition acc_transfer :: "address \<Rightarrow> address \<Rightarrow> accounts \<Rightarrow> accounts" where
  "acc_transfer own new a =
    a\<lparr>acc_owners := ((acc_owners a)(own := None))(new \<mapsto> zget '''' (acc_owners a) own)\<rparr>"

definition acc_flush :: "accounts \<Rightarrow> accounts" where
  "acc_flush a = a\<lparr>acc_closing := [], acc_open_count := acc_open_count a - int (length (acc_closing a))\<rparr>"

text \<open>What a log does to the accounts, and what must hold for it not to end the process.\<close>

definition acc_effect :: "cm_env \<Rightarrow> cm_log \<Rightarrow> accounts \<Rightarrow> accounts" where
  "acc_effect E txLog a =
    (case payload txLog of
       OpenV1 own account _ _ \<Rightarrow> if acc_version a = 1 then acc_open own (session_id E account txLog) a else a
     | CloseV1 own _ _ \<Rightarrow> if acc_version a = 1 then acc_leave own (a\<lparr>acc_closed := acc_closed a + 1\<rparr>) else a
     | LiquidateV1 own _ _ \<Rightarrow> if acc_version a = 1 then acc_leave own (a\<lparr>acc_liquidated := acc_liquidated a + 1\<rparr>) else a
     | RepayV1 own _ \<Rightarrow> if acc_version a = 1 then acc_leave own (a\<lparr>acc_repaid := acc_repaid a + 1\<rparr>) else a
     | OpenV2 own account _ \<Rightarrow> if acc_version a \<noteq> 1 then acc_open own (session_id E account txLog) a else a
     | CloseV2 own _ \<Rightarrow> if acc_version a \<noteq> 1 then acc_leave own (a\<lparr>acc_closed := acc_closed a + 1\<rparr>) else a
     | LiquidateV2 own _ _ \<Rightarrow> if acc_version a \<noteq> 1 then acc_leave own (a\<lparr>acc_liquidated := acc_liquidated a + 1\<rparr>) else a
     | TransferAccount own new \<Rightarrow> acc_transfer own new a
     | _ \<Rightarrow> a)"

definition acc_has :: "address \<Rightarrow> accounts \<Rightarrow> bool" where
  "acc_has own a \<longleftrightarrow> zget '''' (acc_owners a) own \<noteq> ''''"

definition acc_guard :: "cm_env \<Rightarrow> cm_log \<Rightarrow> accounts \<Rightarrow> bool" where
  "acc_guard E txLog a \<longleftrightarrow>
    (case payload txLog of
       OpenV1 own account _ _ \<Rightarrow> acc_version a = 1 \<longrightarrow> session_id E account txLog \<notin> acc_known a
     | CloseV1 own _ _ \<Rightarrow> acc_version a = 1 \<longrightarrow> acc_has own a
     | LiquidateV1 own _ _ \<Rightarrow> acc_version a = 1 \<longrightarrow> acc_has own a
     | RepayV1 own _ \<Rightarrow> acc_version a = 1 \<longrightarrow> acc_has own a
     | OpenV2 own account _ \<Rightarrow> acc_version a \<noteq> 1 \<longrightarrow> session_id E account txLog \<notin> acc_known a
     | CloseV2 own _ \<Rightarrow> acc_version a \<noteq> 1 \<longrightarrow> acc_has own a
     | LiquidateV2 own _ _ \<Rightarrow> acc_version a \<noteq> 1 \<longrightarrow> acc_has own a
     | TransferAccount own new \<Rightarrow> acc_has own a
     | _ \<Rightarrow> True)"

section \<open>The invariant of the accounts\<close>

definition acc_ok :: "accounts \<Rightarrow> bool" where
  "acc_ok a \<longleftrightarrow>
    finite (dom (acc_owners a)) \<and> inj_on (acc_owners a) (dom (acc_owners a)) \<and> distinct (acc_closing a) \<and>
    ran (acc_owners a) \<inter> set (acc_closing a) = {} \<and> ran (acc_owners a) \<union> set (acc_closing a) \<subseteq> acc_known a \<and>
    acc_opened a - acc_closed a - acc_repaid a - acc_liquidated a = int (card (dom (acc_owners a))) \<and>
    acc_open_count a = int (card (dom (acc_owners a))) + int (length (acc_closing a))"

lemma acc_okI:
  assumes "finite (dom (acc_owners a))" "inj_on (acc_owners a) (dom (acc_owners a))" "distinct (acc_closing a)"
    "ran (acc_owners a) \<inter> set (acc_closing a) = {}" "ran (acc_owners a) \<union> set (acc_closing a) \<subseteq> acc_known a"
    "acc_opened a - acc_closed a - acc_repaid a - acc_liquidated a = int (card (dom (acc_owners a)))"
    "acc_open_count a = int (card (dom (acc_owners a))) + int (length (acc_closing a))"
  shows "acc_ok a"
  using assms by (simp add: acc_ok_def)

lemma acc_okD:
  assumes "acc_ok a"
  shows "finite (dom (acc_owners a))" "inj_on (acc_owners a) (dom (acc_owners a))" "distinct (acc_closing a)"
    "ran (acc_owners a) \<inter> set (acc_closing a) = {}" "ran (acc_owners a) \<union> set (acc_closing a) \<subseteq> acc_known a"
    "acc_opened a - acc_closed a - acc_repaid a - acc_liquidated a = int (card (dom (acc_owners a)))"
    "acc_open_count a = int (card (dom (acc_owners a))) + int (length (acc_closing a))"
  using assms by (simp_all add: acc_ok_def)

lemma acc_open_ok:
  assumes "acc_ok a" and "acc_owners a own = None" and "sid \<notin> acc_known a"
  shows "acc_ok (acc_open own sid a)"
proof -
  note ok = acc_okD[OF assms(1)]
  have new: "own \<notin> dom (acc_owners a)" using assms(2) by auto
  have ran: "ran ((acc_owners a)(own \<mapsto> sid)) = insert sid (ran (acc_owners a))" using assms(2) by simp
  have notin: "sid \<notin> ran (acc_owners a)" "sid \<notin> set (acc_closing a)" using ok(5) assms(3) by auto
  have inj: "inj_on ((acc_owners a)(own \<mapsto> sid)) (insert own (dom (acc_owners a)))"
    using ok(2) notin(1) new by (auto simp: inj_on_def ran_def)
  show ?thesis
    using ok(1,3-7) new inj notin ran unfolding acc_open_def by (intro acc_okI) auto
qed

lemma zget_Some_iff: "zget '''' m k \<noteq> '''' \<Longrightarrow> m k = Some (zget '''' m k)"
  by (cases "m k") auto

lemma acc_leave_ok:
  assumes "acc_ok a" and "acc_has own a"
  shows "acc_ok ((acc_leave own a)\<lparr>acc_closed := c, acc_repaid := r, acc_liquidated := l\<rparr>) \<longleftrightarrow>
    c + r + l = acc_closed a + acc_repaid a + acc_liquidated a + 1"
proof -
  note ok = acc_okD[OF assms(1)]
  define sid where "sid = zget '''' (acc_owners a) own"
  have own: "acc_owners a own = Some sid"
    unfolding sid_def by (rule zget_Some_iff[OF assms(2)[unfolded acc_has_def]])
  then have sid: "sid \<in> ran (acc_owners a)" "own \<in> dom (acc_owners a)" by (auto simp: ran_def)
  then have notin: "sid \<notin> set (acc_closing a)" using ok(4) by blast
  let ?m = "(acc_owners a)(own := None)"
  have dom: "dom ?m = dom (acc_owners a) - {own}" by simp
  have card: "int (card (dom ?m)) = int (card (dom (acc_owners a))) - 1"
    using card_Suc_Diff1[OF ok(1) sid(2)] unfolding dom by simp
  have ran: "ran ?m \<subseteq> ran (acc_owners a)" "sid \<notin> ran ?m"
    using ok(2) own by (auto simp: ran_def inj_on_def dom_def split: if_splits)
  have inj: "inj_on ?m (dom ?m)" using ok(2) by (auto simp: inj_on_def dom_def)
  have rest: "finite (dom ?m)" "distinct (acc_closing a @ [sid])" "ran ?m \<inter> set (acc_closing a @ [sid]) = {}"
    "ran ?m \<union> set (acc_closing a @ [sid]) \<subseteq> acc_known a"
    using ok(1,3,4,5) notin ran sid(1) by auto
  define b where "b = (acc_leave own a)\<lparr>acc_closed := c, acc_repaid := r, acc_liquidated := l\<rparr>"
  have b: "acc_owners b = ?m" "acc_closing b = acc_closing a @ [sid]" "acc_known b = acc_known a" "acc_opened b = acc_opened a"
    "acc_closed b = c" "acc_repaid b = r" "acc_liquidated b = l" "acc_open_count b = acc_open_count a"
    using notin by (simp_all add: b_def acc_leave_def sid_def Let_def)
  have "acc_open_count a = int (card (dom ?m)) + int (length (acc_closing a @ [sid]))" using card ok(7) by simp
  moreover have "acc_opened a - c - r - l = int (card (dom ?m)) \<longleftrightarrow> c + r + l = acc_closed a + acc_repaid a + acc_liquidated a + 1"
    using card ok(6) by linarith
  ultimately show ?thesis unfolding b_def[symmetric] acc_ok_def b using inj rest by blast
qed

lemma acc_transfer_ok:
  assumes "acc_ok a" and "acc_has own a" and "new = own \<or> acc_owners a new = None"
  shows "acc_ok (acc_transfer own new a)"
proof -
  note ok = acc_okD[OF assms(1)]
  define sid where "sid = zget '''' (acc_owners a) own"
  have own: "acc_owners a own = Some sid"
    unfolding sid_def by (rule zget_Some_iff[OF assms(2)[unfolded acc_has_def]])
  then have sid: "sid \<in> ran (acc_owners a)" "own \<in> dom (acc_owners a)" by (auto simp: ran_def)
  let ?m = "((acc_owners a)(own := None))(new \<mapsto> sid)"
  have dom: "dom ?m = insert new (dom (acc_owners a) - {own})" by auto
  have new: "new \<notin> dom (acc_owners a) - {own}" using assms(3) by auto
  have card: "card (dom ?m) = card (dom (acc_owners a))"
    using ok(1) new card_Suc_Diff1[OF ok(1) sid(2)] unfolding dom by simp
  have ran: "ran ?m = ran (acc_owners a)"
  proof (intro equalityI subsetI)
    fix v assume "v \<in> ran ?m"
    then show "v \<in> ran (acc_owners a)" using own by (auto simp: ran_def split: if_splits)
  next
    fix v assume "v \<in> ran (acc_owners a)"
    then obtain k where k: "acc_owners a k = Some v" by (auto simp: ran_def)
    have "?m (if k = own then new else k) = Some v" using k own assms(3) by auto
    then show "v \<in> ran ?m" by (rule ranI)
  qed
  have inj: "inj_on ?m (dom ?m)"
  proof (rule inj_onI)
    fix x y assume "x \<in> dom ?m" "y \<in> dom ?m" "?m x = ?m y"
    moreover have "z \<noteq> own \<Longrightarrow> acc_owners a z \<noteq> Some sid" for z
      using ok(2) own by (metis domI inj_onD)
    ultimately show "x = y" using inj_onD[OF ok(2), of x y]
      by (cases "x = new"; cases "y = new"; cases "x = own"; cases "y = own") (auto dest: sym)
  qed
  define b where "b = acc_transfer own new a"
  have b: "acc_owners b = ?m" "acc_closing b = acc_closing a" "acc_known b = acc_known a" "acc_opened b = acc_opened a"
    "acc_closed b = acc_closed a" "acc_repaid b = acc_repaid a" "acc_liquidated b = acc_liquidated a"
    "acc_open_count b = acc_open_count a"
    by (simp_all add: b_def acc_transfer_def sid_def)
  have "finite (dom ?m)" using ok(1) unfolding dom by simp
  then show ?thesis unfolding b_def[symmetric] acc_ok_def b ran card using ok inj by blast
qed

lemma acc_flush_ok: "acc_ok a \<Longrightarrow> acc_ok (acc_flush a)"
  by (auto simp: acc_ok_def acc_flush_def)

end
