(* ===== verification/Credit_Manager_Correct.thy ===== *)
theory Credit_Manager_Correct
  imports Credit_Manager_Frame Credit_Accounts
begin

text \<open>
  Correctness of the credit manager model: the account counters, the pool ledger against the totals,
  the closing of sessions at the end of a block and the isolation of transactions.
\<close>

section \<open>What the bookkeeping operations leave alone\<close>

text \<open>The abstraction of the world to its accounts, and the part of the world the ledger is about.\<close>

definition acct :: "cm_world \<Rightarrow> accounts" where
  "acct w = \<lparr>acc_version = V (cm_adapter w), acc_owners = Sessions (State w), acc_closing = map fst (ClosedSessions w),
     acc_known = fst ` set (sessions w), acc_open_count = OpenedAccountsCount (State w),
     acc_opened = TotalOpenedAccounts (State w), acc_closed = TotalClosedAccounts (State w),
     acc_repaid = TotalRepaidAccounts (State w), acc_liquidated = TotalLiquidatedAccounts (State w)\<rparr>"

definition led :: "cm_world \<Rightarrow> int list \<times> pool_ledger list \<times> int option \<times> (int \<rightharpoonup> pnl_on_repay)" where
  "led w = ([TotalBorrowedBI (State w), TotalRepaidBI (State w)], poolLedger w, borrowedAmountForBlock w, pnlOnCM w)"

abbreviation core where "core w \<equiv> (acct w, led w)"

lemma acct_cong:
  assumes "V (cm_adapter w') = V (cm_adapter w)" "State w' = State w" "map fst (ClosedSessions w') = map fst (ClosedSessions w)"
    "fst ` set (sessions w') = fst ` set (sessions w)"
  shows "acct w' = acct w"
  using assms by (simp add: acct_def)

lemma core_cong:
  assumes "State w' = State w" "poolLedger w' = poolLedger w" "borrowedAmountForBlock w' = borrowedAmountForBlock w"
    "map fst (ClosedSessions w') = map fst (ClosedSessions w)" "fst ` set (sessions w') = fst ` set (sessions w)"
    "pnlOnCM w' = pnlOnCM w" "V (cm_adapter w') = V (cm_adapter w)"
  shows "core w' = core w"
  using assms by (simp add: acct_def led_def)

lemma SetBlock_fields [simp]:
  "acct (SetBlock n w) = acct w" "led (SetBlock n w) = led w" "State (SetBlock n w) = State w"
  "poolLedger (SetBlock n w) = poolLedger w" "sessions (SetBlock n w) = sessions w" "multicall (SetBlock n w) = multicall w"
  "borrowedAmountForBlock (SetBlock n w) = borrowedAmountForBlock w" "ClosedSessions (SetBlock n w) = ClosedSessions w"
  "pnlOnCM (SetBlock n w) = pnlOnCM w" "cm_adapter (SetBlock n w) = cm_adapter w"
  by (simp_all add: SetBlock_def acct_def led_def)

lemma setUpdateSession_fields [simp]:
  "acct (setUpdateSession s w) = acct w" "led (setUpdateSession s w) = led w" "State (setUpdateSession s w) = State w"
  "sessions (setUpdateSession s w) = sessions w" "multicall (setUpdateSession s w) = multicall w"
  "ClosedSessions (setUpdateSession s w) = ClosedSessions w"
  by (simp_all add: setUpdateSession_def acct_def led_def)

text \<open>Accounts and ledger are a view in the sense of \<open>tx_frame\<close>.\<close>

interpretation core_view: tx_frame "\<lambda>w. (acct w, led w)"
proof
  fix w :: cm_world and sid s s'
  assume "map_of (sessions w) sid = Some s"
  then show "core (w\<lparr>sessions := AList.update sid s' (sessions w)\<rparr>) = core w"
    by (intro core_cong) (simp_all add: insert_absorb map_of_key)
next
  fix w :: cm_world and sid d d'
  assume "map_of (ClosedSessions w) sid = Some d"
  then show "core (w\<lparr>ClosedSessions := AList.update sid d' (ClosedSessions w)\<rparr>) = core w"
    by (intro core_cong) (simp_all add: update_keys map_of_key)
qed (simp_all add: acct_def led_def)

lemmas UpdateCreditSession_core = core_view.UpdateCreditSession_keeps

lemma closeAccount_core: "closeAccount sid b h l w = Inr w' \<Longrightarrow> core w' = core w"
  by (auto simp: closeAccount_def acct_def led_def elim!: rbind_InrE)

lemma lift_mc_core: "lift_mc f w = Inr w' \<Longrightarrow> core w' = core w"
  by (auto simp: lift_mc_def acct_def led_def elim!: rbind_InrE)

lemma AddCreditSessionSnapshot_core [simp]: "acct (AddCreditSessionSnapshot css w) = acct w" "led (AddCreditSessionSnapshot css w) = led w"
  by (simp_all add: AddCreditSessionSnapshot_def Let_def acct_def led_def)

lemma set_detail_core [simp]: "acct (set_detail k v w) = acct w" "led (set_detail k v w) = led w"
  by (simp_all add: set_detail_def acct_def led_def)

lemma set_syncer_core: "set_syncer k a w = Inr w' \<Longrightarrow> core w' = core w"
proof -
  assume *: "set_syncer k a w = Inr w'"
  define w1 where "w1 = (case Details (cm_adapter w) of
      None \<Rightarrow> w\<lparr>cm_adapter := (cm_adapter w)\<lparr>Details := Some []\<rparr>\<rparr> | Some _ \<Rightarrow> w)"
  have "core w1 = core w" by (simp add: w1_def acct_def led_def split: option.splits)
  moreover have "w' = w1 \<or> w' = (set_detail k a w1)\<lparr>addrChanged := True\<rparr>"
    using * unfolding set_syncer_def w1_def[symmetric] Let_def by (auto elim!: rbind_InrE split: if_splits)
  moreover have "core (v\<lparr>addrChanged := True\<rparr>) = core v" for v by (simp add: acct_def led_def)
  ultimately show ?thesis by auto
qed

lemmas core_rules = core_view.AddAccountOperation_keeps core_view.upd_session_keeps UpdateCreditSession_core
  core_view.AddCollateralToSession_keeps closeAccount_core lift_mc_core set_syncer_core

lemma field_acct [simp]:
  "acct (w\<lparr>multicall := p\<rparr>) = acct w"
  "acct (w\<lparr>operations := os\<rparr>) = acct w"
  "acct (w\<lparr>executeParams := es\<rparr>) = acct w"
  "acct (w\<lparr>LastTxHash := h\<rparr>) = acct w"
  "acct (w\<lparr>accountManager := am\<rparr>) = acct w"
  "acct (w\<lparr>lastEventBlock := n\<rparr>) = acct w"
  "acct (w\<lparr>UpdatedSessions := us\<rparr>) = acct w"
  "acct (w\<lparr>daoOperations := ds\<rparr>) = acct w"
  "acct (w\<lparr>transferAllowed := ts\<rparr>) = acct w"
  "acct (w\<lparr>disableBlocks := ds'\<rparr>) = acct w"
  "acct (w\<lparr>newAdapters := as\<rparr>) = acct w"
  "acct (w\<lparr>cmStats := cs\<rparr>) = acct w"
  "acct (w\<lparr>allowedProtocols := ps\<rparr>) = acct w"
  "acct (w\<lparr>pnlOnCM := m\<rparr>) = acct w"
  "acct (setParams prm w) = acct w"
  by (simp_all add: acct_def setParams_def)

lemma field_led [simp]:
  "led (w\<lparr>multicall := p\<rparr>) = led w"
  "led (w\<lparr>operations := os\<rparr>) = led w"
  "led (w\<lparr>executeParams := es\<rparr>) = led w"
  "led (w\<lparr>LastTxHash := h\<rparr>) = led w"
  "led (w\<lparr>accountManager := am\<rparr>) = led w"
  "led (w\<lparr>lastEventBlock := n\<rparr>) = led w"
  "led (w\<lparr>UpdatedSessions := us\<rparr>) = led w"
  "led (w\<lparr>daoOperations := ds\<rparr>) = led w"
  "led (w\<lparr>transferAllowed := ts\<rparr>) = led w"
  "led (w\<lparr>disableBlocks := ds'\<rparr>) = led w"
  "led (w\<lparr>newAdapters := as\<rparr>) = led w"
  "led (w\<lparr>cmStats := cs\<rparr>) = led w"
  "led (w\<lparr>allowedProtocols := ps\<rparr>) = led w"
  "led (w\<lparr>ClosedSessions := cl\<rparr>) = led w"
  "led (setParams prm w) = led w"
  by (simp_all add: led_def setParams_def)

section \<open>Transaction ends and direct transfers keep the counters and the ledger\<close>

lemma onTxHash_core: "onTxHash E h w = Inr w' \<Longrightarrow> core w' = core w"
  by (auto simp: onTxHash_def onNewTxHashV2_def processExecuteEvents_def elim!: rbind_InrE split: if_splits
      dest!: core_view.saveExecuteEvents_keeps core_view.processNonMultiCalls_keeps core_view.processRemaining_keeps)

lemmas processDirectTransfers_core = core_view.processDirectTransfers_keeps

lemma check_transfers_core: "check_transfers a b w = (d, w') \<Longrightarrow> core w' = core w"
  by (auto simp: check_transfers_def split: prod.splits)

section \<open>What the account operations do\<close>

lemma GetCreditOwnerSession_Inr [simp]:
  "GetCreditOwnerSession own False w = Inr sid \<longleftrightarrow> sid = zget '''' (Sessions (State w)) own \<and> sid \<noteq> ''''"
  by (auto simp: GetCreditOwnerSession_def Let_def split: if_splits)

lemma owner_session_acct: "zget '''' (Sessions (State w)) own = zget '''' (acc_owners (acct w)) own"
  by (simp add: acct_def)

lemma AddCreditOwnerSession_acct [simp]:
  "acct (AddCreditOwnerSession own sid w) = (acct w)\<lparr>acc_owners := (acc_owners (acct w))(own \<mapsto> sid)\<rparr>"
  "led (AddCreditOwnerSession own sid w) = led w"
  by (simp_all add: AddCreditOwnerSession_def acct_def led_def)

lemma RemoveCreditOwnerSession_acct [simp]:
  "acct (RemoveCreditOwnerSession own w) = (acct w)\<lparr>acc_owners := (acc_owners (acct w))(own := None)\<rparr>"
  "led (RemoveCreditOwnerSession own w) = led w"
  by (simp_all add: RemoveCreditOwnerSession_def acct_def led_def)

lemma update_keys_new: "map fst (AList.update k v m) = (if k \<in> set (map fst m) then map fst m else map fst m @ [k])"
  by (induction m) auto

lemma ClosedSessions_acct:
  "acct (w\<lparr>ClosedSessions := cl\<rparr>) = (acct w)\<lparr>acc_closing := map fst cl\<rparr>"
  "map fst (AList.update sid d (ClosedSessions w)) =
    (if sid \<in> set (acc_closing (acct w)) then acc_closing (acct w) else acc_closing (acct w) @ [sid])"
  by (simp_all add: acct_def update_keys_new del: set_map)

lemma AddCreditSession_acct:
  "AddCreditSession s h l w = Inr w' \<Longrightarrow>
    cs_ID s \<notin> acc_known (acct w) \<and> acct w' = (acct w)\<lparr>acc_known := insert (cs_ID s) (acc_known (acct w))\<rparr> \<and> led w' = led w"
  by (clarsimp simp: AddCreditSession_def acct_def led_def map_of_eq_None_iff rbind_eq_Inr)

definition rows :: "string \<Rightarrow> pool_ledger list \<Rightarrow> int" where
  "rows ev ls = sum_list (map pl_AmountBI (filter (\<lambda>r. pl_Event r = ev) ls))"

lemma rows_append [simp]: "rows ev (ls @ [r]) = rows ev ls + (if pl_Event r = ev then pl_AmountBI r else 0)"
  by (simp add: rows_def)

text \<open>Borrowed amounts that are not yet in the totals, and repayments that will be taken off them.\<close>

definition pending :: "cm_world \<Rightarrow> int" where
  "pending w = (case borrowedAmountForBlock w of None \<Rightarrow> 0 | Some v \<Rightarrow> v)"

definition pnl_total :: "(int \<rightharpoonup> pnl_on_repay) \<Rightarrow> int" where
  "pnl_total m = (\<Sum>b \<in> dom m. pnl_BorrowedAmount (the (m b)))"

definition repaid_gap :: "cm_world \<Rightarrow> int" where
  "repaid_gap w = TotalRepaidBI (State w) - rows ''Repay'' (poolLedger w)"

definition borrowed_gap :: "cm_world \<Rightarrow> int" where
  "borrowed_gap w = TotalBorrowedBI (State w) + pending w - pnl_total (pnlOnCM w) - rows ''Borrow'' (poolLedger w)"

lemma led_gap:
  assumes "led w' = led w"
  shows "repaid_gap w' = repaid_gap w" "borrowed_gap w' = borrowed_gap w" "pnlOnCM w' = pnlOnCM w"
  using assms by (simp_all add: led_def repaid_gap_def borrowed_gap_def pending_def)

lemma PoolBorrow_effect [simp]:
  "acct (PoolBorrow E l sid b amt w) = acct w" "pnlOnCM (PoolBorrow E l sid b amt w) = pnlOnCM w"
  "repaid_gap (PoolBorrow E l sid b amt w) = repaid_gap w" "borrowed_gap (PoolBorrow E l sid b amt w) = borrowed_gap w - amt"
  by (simp_all add: PoolBorrow_def AddPoolLedger_def acct_def repaid_gap_def borrowed_gap_def pending_def Let_def)

lemma PoolRepay_effect [simp]:
  "acct (PoolRepay E n l h sid b amt w) = acct w" "pnlOnCM (PoolRepay E n l h sid b amt w) = pnlOnCM w"
  "repaid_gap (PoolRepay E n l h sid b amt w) = repaid_gap w - amt" "borrowed_gap (PoolRepay E n l h sid b amt w) = borrowed_gap w"
  by (simp_all add: PoolRepay_def AddPoolLedger_def acct_def repaid_gap_def borrowed_gap_def pending_def Let_def)

lemma addBorrow_effect:
  "addBorrowAmountForBlock amt w = Inr w' \<Longrightarrow>
    acct w' = acct w \<and> repaid_gap w' = repaid_gap w \<and> borrowed_gap w' = borrowed_gap w + amt \<and> pnlOnCM w' = pnlOnCM w \<and>
    State w' = State w \<and> 0 \<le> amt"
  by (auto simp: addBorrowAmountForBlock_def acct_def repaid_gap_def borrowed_gap_def pending_def Let_def
      elim!: rbind_InrE split: option.splits)

lemma CMStatsOnOpen_effect:
  "CMStatsOnOpenAccount amt w = Inr w' \<Longrightarrow>
    acct w' = (acct w)\<lparr>acc_opened := acc_opened (acct w) + 1, acc_open_count := acc_open_count (acct w) + 1\<rparr> \<and>
    repaid_gap w' = repaid_gap w \<and> borrowed_gap w' = borrowed_gap w + amt \<and> pnlOnCM w' = pnlOnCM w"
  unfolding CMStatsOnOpenAccount_def
  by (drule addBorrow_effect) (clarsimp simp: acct_def repaid_gap_def borrowed_gap_def pending_def)


definition gaps :: "cm_world \<Rightarrow> int \<times> int \<times> (int \<rightharpoonup> pnl_on_repay)" where
  "gaps w = (repaid_gap w, borrowed_gap w, pnlOnCM w)"

definition add_gap :: "int \<Rightarrow> int \<Rightarrow> int \<times> int \<times> 'p \<Rightarrow> int \<times> int \<times> 'p" where
  "add_gap r b g = (fst g + r, fst (snd g) + b, snd (snd g))"

lemma add_gap_simps [simp]: "add_gap r b (add_gap r' b' g) = add_gap (r + r') (b + b') g" "add_gap 0 0 g = g"
  by (simp_all add: add_gap_def)

lemma led_gaps: "led w' = led w \<Longrightarrow> gaps w' = gaps w"
  by (auto simp: gaps_def dest: led_gap)

lemma core_gaps: "core w' = core w \<Longrightarrow> acct w' = acct w \<and> gaps w' = gaps w"
  by (auto dest: led_gaps)

lemmas wrapper_gaps [simp] = field_led[THEN led_gaps] setUpdateSession_fields(2)[THEN led_gaps]
  AddCreditOwnerSession_acct(2)[THEN led_gaps] RemoveCreditOwnerSession_acct(2)[THEN led_gaps]
  SetBlock_fields(2)[THEN led_gaps] AddCreditSessionSnapshot_core(2)[THEN led_gaps]

lemma pool_gaps [simp]:
  "gaps (PoolBorrow E l sid b amt w) = add_gap 0 (- amt) (gaps w)"
  "gaps (PoolRepay E n i h sid b amt w) = add_gap (- amt) 0 (gaps w)"
  by (simp_all add: gaps_def add_gap_def)

lemma addBorrow_gaps:
  "addBorrowAmountForBlock amt w = Inr w' \<Longrightarrow> acct w' = acct w \<and> gaps w' = add_gap 0 amt (gaps w) \<and> State w' = State w"
  by (drule addBorrow_effect) (simp add: gaps_def add_gap_def)

lemma CMStatsOnOpen_gaps:
  "CMStatsOnOpenAccount amt w = Inr w' \<Longrightarrow>
    acct w' = (acct w)\<lparr>acc_opened := acc_opened (acct w) + 1, acc_open_count := acc_open_count (acct w) + 1\<rparr> \<and>
    gaps w' = add_gap 0 amt (gaps w)"
  by (drule CMStatsOnOpen_effect) (simp add: gaps_def add_gap_def)

lemma AddCreditSession_gaps:
  "AddCreditSession s h l w = Inr w' \<Longrightarrow>
    cs_ID s \<notin> acc_known (acct w) \<and> acct w' = (acct w)\<lparr>acc_known := insert (cs_ID s) (acc_known (acct w))\<rparr> \<and> gaps w' = gaps w"
  by (drule AddCreditSession_acct) (blast dest: led_gaps)

lemmas effect_rules = core_rules[THEN core_gaps] AddCreditSession_gaps CMStatsOnOpen_gaps addBorrow_gaps

lemma counter_acct:
  "acct (upd_State (\<lambda>s. s\<lparr>TotalClosedAccounts := TotalClosedAccounts s + 1\<rparr>) w) = (acct w)\<lparr>acc_closed := acc_closed (acct w) + 1\<rparr>"
  "acct (upd_State (\<lambda>s. s\<lparr>TotalLiquidatedAccounts := TotalLiquidatedAccounts s + 1\<rparr>) w) = (acct w)\<lparr>acc_liquidated := acc_liquidated (acct w) + 1\<rparr>"
  "acct (upd_State (\<lambda>s. s\<lparr>TotalRepaidAccounts := TotalRepaidAccounts s + 1\<rparr>) w) = (acct w)\<lparr>acc_repaid := acc_repaid (acct w) + 1\<rparr>"
  "led (upd_State (\<lambda>s. s\<lparr>TotalClosedAccounts := TotalClosedAccounts s + 1\<rparr>) w) = led w"
  "led (upd_State (\<lambda>s. s\<lparr>TotalLiquidatedAccounts := TotalLiquidatedAccounts s + 1\<rparr>) w) = led w"
  "led (upd_State (\<lambda>s. s\<lparr>TotalRepaidAccounts := TotalRepaidAccounts s + 1\<rparr>) w) = led w"
  by (simp_all add: acct_def led_def)

text \<open>Openings.\<close>

lemma onOpenCreditAccount_effect:
  assumes "onOpenCreditAccount E l own account c b w = Inr w'"
  shows "session_id E account l \<notin> acc_known (acct w) \<and> acct w' = acc_open own (session_id E account l) (acct w) \<and> gaps w' = gaps w"
  using assms unfolding onOpenCreditAccount_def Let_def case_prod_unfold
  by (elim rbind_InrE) ((drule effect_rules)+, clarsimp simp: acc_open_def)

lemma onOpenCreditAccountV2_effect:
  assumes "onOpenCreditAccountV2 E l own account b w = Inr w'"
  shows "session_id E account l \<notin> acc_known (acct w) \<and> acct w' = acc_open own (session_id E account l) (acct w) \<and> gaps w' = gaps w"
  using assms unfolding onOpenCreditAccountV2_def Let_def case_prod_unfold
  by (elim rbind_InrE) ((drule effect_rules)+, clarsimp simp: acc_open_def)

text \<open>Closings, liquidations and repayments.\<close>

lemmas counter_gaps [simp] = counter_acct(4-6)[THEN led_gaps]

lemmas leave_simps = acc_leave_def acc_has_def Let_def owner_session_acct ClosedSessions_acct counter_acct

lemma onCloseCreditAccount_effect:
  assumes "onCloseCreditAccount E l own rf w = Inr w'"
  shows "acc_has own (acct w) \<and> acct w' = acc_leave own ((acct w)\<lparr>acc_closed := acc_closed (acct w) + 1\<rparr>) \<and> gaps w' = gaps w"
  using assms unfolding onCloseCreditAccount_def Let_def case_prod_unfold
  by (elim rbind_InrE) ((drule effect_rules)+, clarsimp simp: leave_simps)

lemma onLiquidateCreditAccount_effect:
  assumes "onLiquidateCreditAccount E l own lq rf w = Inr w'"
  shows "acc_has own (acct w) \<and> acct w' = acc_leave own ((acct w)\<lparr>acc_liquidated := acc_liquidated (acct w) + 1\<rparr>) \<and> gaps w' = gaps w"
  using assms unfolding onLiquidateCreditAccount_def Let_def case_prod_unfold
  by (elim rbind_InrE) ((drule effect_rules)+, clarsimp simp: leave_simps)

lemma onRepayCreditAccount_effect:
  assumes "onRepayCreditAccount E l own w = Inr w'"
  shows "acc_has own (acct w) \<and> acct w' = acc_leave own ((acct w)\<lparr>acc_repaid := acc_repaid (acct w) + 1\<rparr>) \<and> gaps w' = gaps w"
  using assms unfolding onRepayCreditAccount_def Let_def case_prod_unfold
  by (elim rbind_InrE) ((drule effect_rules)+, clarsimp simp: leave_simps)

lemma onCloseCreditAccountV2_effect:
  assumes "onCloseCreditAccountV2 E l own rcv w = Inr w'"
  shows "acc_has own (acct w) \<and> acct w' = acc_leave own ((acct w)\<lparr>acc_closed := acc_closed (acct w) + 1\<rparr>) \<and> gaps w' = gaps w"
  using assms unfolding onCloseCreditAccountV2_def Let_def case_prod_unfold
  by (elim rbind_InrE) ((drule effect_rules)+, clarsimp simp: leave_simps)

lemma onLiquidateCreditAccountV2_effect:
  assumes "onLiquidateCreditAccountV2 E l own lq rf w = Inr w'"
  shows "acc_has own (acct w) \<and> acct w' = acc_leave own ((acct w)\<lparr>acc_liquidated := acc_liquidated (acct w) + 1\<rparr>) \<and> gaps w' = gaps w"
  using assms unfolding onLiquidateCreditAccountV2_def Let_def case_prod_unfold
  by (elim rbind_InrE) ((drule effect_rules)+, clarsimp simp: leave_simps)


text \<open>Transfers of accounts, and the handlers that leave the accounts alone.\<close>

lemma onTransferAccount_effect:
  assumes "onTransferAccount E l own new w = Inr w'"
  shows "acc_has own (acct w) \<and> acct w' = acc_transfer own new (acct w) \<and> gaps w' = gaps w"
  using assms unfolding onTransferAccount_def Let_def case_prod_unfold
  by (elim rbind_InrE) ((drule effect_rules)+, clarsimp simp: acc_transfer_def acc_has_def owner_session_acct)

lemma onAddCollateral_effect: "onAddCollateral E l own tok v w = Inr w' \<Longrightarrow> acct w' = acct w \<and> gaps w' = gaps w"
  unfolding onAddCollateral_def Let_def case_prod_unfold
  by (elim rbind_InrE) ((drule effect_rules)+, clarsimp)

lemma onIncreaseBorrowedAmount_effect:
  "onIncreaseBorrowedAmount E l own amt w = Inr w' \<Longrightarrow> acct w' = acct w \<and> gaps w' = gaps w"
  unfolding onIncreaseBorrowedAmount_def Let_def case_prod_unfold
  by (elim rbind_InrE) ((drule effect_rules)+, clarsimp)

lemma AddExecuteParams_effect: "AddExecuteParams l own t w = Inr w' \<Longrightarrow> acct w' = acct w \<and> gaps w' = gaps w"
  unfolding AddExecuteParams_def by (elim rbind_InrE) clarsimp

lemma NewParametersV1_effect [simp]:
  "acct (NewParametersV1 l mn mx lev fi fl d w) = acct w" "gaps (NewParametersV1 l mn mx lev fi fl d w) = gaps w"
proof -
  have "led (NewParametersV1 l mn mx lev fi fl d w) = led w"
    by (simp add: NewParametersV1_def Let_def) (simp add: led_def)
  then show "gaps (NewParametersV1 l mn mx lev fi fl d w) = gaps w" by (rule led_gaps)
qed (simp add: NewParametersV1_def Let_def, simp add: acct_def)

lemma onAddCollateralV2_effect: "onAddCollateralV2 E l own tok v w = Inr w' \<Longrightarrow> acct w' = acct w \<and> gaps w' = gaps w"
  unfolding onAddCollateralV2_def Let_def case_prod_unfold
  by (elim rbind_InrE) ((drule effect_rules)+, clarsimp)

lemma TotalRepaid_gaps:
  "acct (upd_State (\<lambda>s. s\<lparr>TotalRepaidBI := v, TotalRepaid := x\<rparr>) w) = acct w"
  "gaps (upd_State (\<lambda>s. s\<lparr>TotalRepaidBI := v, TotalRepaid := x\<rparr>) w) = add_gap (v - TotalRepaidBI (State w)) 0 (gaps w)"
  by (simp_all add: acct_def gaps_def add_gap_def repaid_gap_def borrowed_gap_def pending_def)

lemma onIncreaseBorrowedAmountV2_effect:
  assumes "onIncreaseBorrowedAmountV2 E l own amt ev w = Inr w'"
  shows "acct w' = acct w \<and> gaps w' = gaps w"
proof (cases "amt > 0")
  case True
  then show ?thesis using assms unfolding onIncreaseBorrowedAmountV2_def Let_def case_prod_unfold if_P[OF True]
    by (elim rbind_InrE) ((drule effect_rules)+, clarsimp)
next
  case False
  then show ?thesis using assms unfolding onIncreaseBorrowedAmountV2_def Let_def case_prod_unfold if_not_P[OF False]
    by (elim rbind_InrE) ((drule effect_rules)+, clarsimp simp: TotalRepaid_gaps split: if_splits)
qed

lemma AddExecuteParamsV2_effect: "AddExecuteParamsV2 l own t w = Inr w' \<Longrightarrow> acct w' = acct w \<and> gaps w' = gaps w"
  unfolding AddExecuteParamsV2_def by (elim rbind_InrE) ((drule effect_rules)+, clarsimp)

lemma enableOrDisableToken_effect: "enableOrDisableToken l own t a w = Inr w' \<Longrightarrow> acct w' = acct w \<and> gaps w' = gaps w"
  unfolding enableOrDisableToken_def by (elim rbind_InrE) ((drule effect_rules)+, clarsimp)

lemma startMulticall_effect: "startMulticall l own w = Inr w' \<Longrightarrow> acct w' = acct w \<and> gaps w' = gaps w"
  unfolding startMulticall_def by (elim rbind_InrE) ((drule effect_rules)+, clarsimp)

lemma newConfigurator_effect: "newConfigurator l new w = Inr w' \<Longrightarrow> acct w' = acct w \<and> gaps w' = gaps w"
  unfolding newConfigurator_def setConfiguratorSyncer_def Let_def
  by (elim rbind_InrE) (auto dest!: set_syncer_core[THEN core_gaps] split: if_splits)

lemma pause_effect [simp]:
  "acct (upd_State (\<lambda>s. s\<lparr>st_Paused := b\<rparr>) w) = acct w" "led (upd_State (\<lambda>s. s\<lparr>st_Paused := b\<rparr>) w) = led w"
  by (simp_all add: acct_def led_def)

lemmas pause_gaps [simp] = pause_effect(2)[THEN led_gaps]

lemmas open_effects = onOpenCreditAccount_effect onOpenCreditAccountV2_effect
lemmas leave_effects = onCloseCreditAccount_effect onLiquidateCreditAccount_effect onRepayCreditAccount_effect
  onCloseCreditAccountV2_effect onLiquidateCreditAccountV2_effect
lemmas side_effects = onTransferAccount_effect onAddCollateral_effect onIncreaseBorrowedAmount_effect AddExecuteParams_effect
  onAddCollateralV2_effect onIncreaseBorrowedAmountV2_effect AddExecuteParamsV2_effect enableOrDisableToken_effect
  startMulticall_effect newConfigurator_effect lift_mc_core[THEN core_gaps]

lemma checkLogV1_effect:
  assumes "checkLogV1 E l w = Inr w'" and "acc_version (acct w) = 1"
  shows "acc_guard E l (acct w) \<and> acct w' = acc_effect E l (acct w) \<and> gaps w' = gaps w"
  using assms unfolding checkLogV1_def acc_guard_def acc_effect_def
  by (cases "payload l") (auto dest: open_effects leave_effects side_effects)

lemma checkLogV2_effect:
  assumes "checkLogV2 E l w = Inr w'" and "acc_version (acct w) \<noteq> 1"
  shows "acc_guard E l (acct w) \<and> acct w' = acc_effect E l (acct w) \<and> gaps w' = gaps w"
  using assms unfolding checkLogV2_def acc_guard_def acc_effect_def
  by (cases "payload l") (auto simp: Let_def dest: open_effects leave_effects side_effects)


lemma onConfiguratorLog_effect: "onConfiguratorLog l w = Inr w' \<Longrightarrow> acct w' = acct w \<and> gaps w' = gaps w"
  unfolding onConfiguratorLog_def setCreditFacadeSyncer_def
  by (cases "payload l") (auto dest: set_syncer_core[THEN core_gaps])

lemma cm_OnLog_effect:
  assumes "cm_OnLog E l w = Inr w'"
  shows "(GetDetailsByKey ''configurator'' (cm_adapter w) = Inr (logAddress l) \<and> acct w' = acct w \<and> gaps w' = gaps w) \<or>
    (GetDetailsByKey ''configurator'' (cm_adapter w) \<noteq> Inr (logAddress l) \<and>
     acc_guard E l (acct w) \<and> acct w' = acc_effect E l (acct w) \<and> gaps w' = gaps w)"
proof -
  obtain c where c: "GetDetailsByKey ''configurator'' (cm_adapter w) = Inr c"
    using assms unfolding cm_OnLog_def by (elim rbind_InrE)
  show ?thesis
  proof (cases "c = logAddress l")
    case True
    then show ?thesis using assms c onConfiguratorLog_effect by (simp add: cm_OnLog_def)
  next
    case False
    obtain w1 am where a: "onTxHash E (TxHash l) w = Inr w1"
      and b: "(let w2 = w1\<lparr>lastEventBlock := BlockNumber l, accountManager := am\<rparr> in
            if IsGBv1 w2 then checkLogV1 E l w2 else checkLogV2 E l w2) = Inr w'"
      using assms c False unfolding cm_OnLog_def by (auto elim!: rbind_InrE)
    define w2 where "w2 = w1\<lparr>lastEventBlock := BlockNumber l, accountManager := am\<rparr>"
    have w2: "acct w2 = acct w" "gaps w2 = gaps w"
      using onTxHash_core[OF a, THEN core_gaps] by (simp_all add: w2_def)
    have "IsGBv1 w2 \<longleftrightarrow> acc_version (acct w2) = 1" by (simp add: IsGBv1_def acct_def)
    then have "acc_guard E l (acct w2) \<and> acct w' = acc_effect E l (acct w2) \<and> gaps w' = gaps w2"
      using b checkLogV1_effect[of E l w2 w'] checkLogV2_effect[of E l w2 w'] by (auto simp: w2_def[symmetric] Let_def split: if_splits)
    then show ?thesis using False c w2 by simp
  qed
qed

section \<open>The end of a block\<close>

lemma finish_repay_core: "finish_repay sid d cd w = Inr w' \<Longrightarrow> core w' = core w"
  by (auto simp: finish_repay_def dest!: core_rules elim!: rbind_InrE split: if_splits)

lemma updateSession_effect: "updateSession E b sid d w = Inr w' \<Longrightarrow> acct w' = acct w \<and> gaps w' = gaps w"
  unfolding updateSession_def by (elim rbind_InrE) ((drule effect_rules)+, clarsimp)

lemma closeSession_effect:
  assumes "closeSession E b sid d cd w = Inr w'"
  shows "acct w' = acct w \<and> gaps w' = gaps w"
  using assms unfolding closeSession_def Let_def
  by (elim rbind_InrE) ((drule effect_rules finish_repay_core[THEN core_gaps])+, clarsimp simp: TotalRepaid_gaps)

lemma closeCall_effect:
  assumes "closeSessionCallAndResultFn b sid cd w = Inr (c, w')"
  shows "acct w' = (acct w)\<lparr>acc_open_count := acc_open_count (acct w) - 1\<rparr> \<and> gaps w' = gaps w"
proof -
  let ?w0 = "upd_State (\<lambda>s. s\<lparr>OpenedAccountsCount := OpenedAccountsCount s - 1\<rparr>) w"
  have "acct ?w0 = (acct w)\<lparr>acc_open_count := acc_open_count (acct w) - 1\<rparr>" "led ?w0 = led w"
    by (simp_all add: acct_def led_def)
  then show ?thesis
    using assms led_gaps[of ?w0 w] unfolding closeSessionCallAndResultFn_def Let_def
    by (elim rbind_InrE) ((drule effect_rules)+, clarsimp)
qed

lemma close_one_loop_effect:
  "rfold (close_one b) cs (calls, w) = Inr (calls', w') \<Longrightarrow>
    acct w' = (acct w)\<lparr>acc_open_count := acc_open_count (acct w) - int (length cs)\<rparr> \<and> gaps w' = gaps w"
proof (induction cs arbitrary: calls w)
  case (Cons c cs)
  obtain sid cd where c: "c = (sid, cd)" by (cases c)
  obtain cl w1 calls1 where step: "closeSessionCallAndResultFn b sid cd w = Inr (cl, w1)"
    and loop: "rfold (close_one b) cs (calls1, w1) = Inr (calls', w')"
    using Cons.prems by (auto simp: c close_one_def elim!: rbind_InrE)
  show ?case using Cons.IH[OF loop] closeCall_effect[OF step] by simp
qed simp

lemma close_all_effect:
  assumes "close_all E b w = Inr w'"
  shows "acct w' = (acct w)\<lparr>acc_open_count := acc_open_count (acct w) - int (length (ClosedSessions w))\<rparr> \<and> gaps w' = gaps w"
proof -
  obtain calls w1 where a: "rfold (close_one b) (ClosedSessions w) ([], w) = Inr (calls, w1)"
    and b: "rfold (close_answer E b) calls w1 = Inr w'"
    using assms unfolding close_all_def by (auto elim!: rbind_InrE)
  have "acct w' = acct w1 \<and> gaps w' = gaps w1"
    using b by (rule rfold_invariant) (auto simp: close_answer_def dest!: closeSession_effect split: option.splits)
  then show ?thesis using close_one_loop_effect[OF a] by simp
qed


lemma UpdateCreditSession_closed: "UpdateCreditSession sid f w = Inr w' \<Longrightarrow> ClosedSessions w' = ClosedSessions w"
  by (auto simp: UpdateCreditSession_def upd_session_def elim!: rbind_InrE)

lemma update_one_effect:
  "update_one sid (calls, w) = Inr (calls', w') \<Longrightarrow> core w' = core w \<and> ClosedSessions w' = ClosedSessions w"
  by (auto simp: update_one_def updateSessionCallAndProcessFn_def dest: UpdateCreditSession_core UpdateCreditSession_closed
      elim!: rbind_InrE split: if_splits)

lemma Fetch_split:
  assumes "FetchFromDCForChangedSessions E b w = Inr (calls, w')"
  obtains w1 w2 where "core w1 = core w" "ClosedSessions w1 = ClosedSessions w" "close_all E b w1 = Inr w2"
    "w' = w2\<lparr>UpdatedSessions := [], ClosedSessions := []\<rparr>"
proof -
  obtain w1 w2 where a: "rfold update_one (map fst (UpdatedSessions w)) ([], w) = Inr (calls, w1)"
    and b: "close_all E b w1 = Inr w2" "w' = w2\<lparr>UpdatedSessions := [], ClosedSessions := []\<rparr>"
    using assms unfolding FetchFromDCForChangedSessions_def by (auto elim!: rbind_InrE)
  have "core (snd (calls, w1)) = core w \<and> ClosedSessions (snd (calls, w1)) = ClosedSessions w"
    using a by (rule rfold_invariant) (auto dest!: update_one_effect)
  with b show ?thesis by (intro that) auto
qed

lemma Fetch_effect:
  assumes "FetchFromDCForChangedSessions E b w = Inr (calls, w')"
  shows "acct w' = acc_flush (acct w) \<and> gaps w' = gaps w"
proof -
  obtain w1 w2 where a: "core w1 = core w" "ClosedSessions w1 = ClosedSessions w" "close_all E b w1 = Inr w2"
    "w' = w2\<lparr>UpdatedSessions := [], ClosedSessions := []\<rparr>"
    using Fetch_split[OF assms] .
  have "length (ClosedSessions w) = length (acc_closing (acct w))" by (simp add: acct_def)
  then show ?thesis
    using core_gaps[OF a(1)] close_all_effect[OF a(3)] a(2)
    by (simp add: a(4) acc_flush_def ClosedSessions_acct)
qed


lemma pnl_total_delete:
  assumes "finite (dom m)"
  shows "pnl_total (m(b := None)) = pnl_total m - (case m b of None \<Rightarrow> 0 | Some p \<Rightarrow> pnl_BorrowedAmount p)"
proof (cases "m b")
  case None
  then have "m(b := None) = m" by auto
  then show ?thesis using None by simp
next
  case (Some p)
  have "pnl_total (m(b := None)) = (\<Sum>x \<in> dom m - {b}. pnl_BorrowedAmount (the (m x)))"
    unfolding pnl_total_def by (rule sum.cong) auto
  also have "\<dots> = pnl_total m - pnl_BorrowedAmount p"
    using assms Some by (simp add: pnl_total_def sum_diff1 domI)
  finally show ?thesis using Some by simp
qed

lemma pnl_Set_total:
  assumes "pnl_Set p m = Inr m'" and "finite (dom m)"
  shows "pnl_total m' = pnl_total m + pnl_BorrowedAmount p \<and> finite (dom m')"
proof -
  let ?b = "pnl_BlockNum p"
  obtain q where q: "m' = m(?b \<mapsto> q)"
    "pnl_BorrowedAmount q = (case m ?b of None \<Rightarrow> 0 | Some o' \<Rightarrow> pnl_BorrowedAmount o') + pnl_BorrowedAmount p"
    using assms(1) by (auto simp: pnl_Set_def elim!: rbind_InrE split: option.splits)
  have "(m(?b \<mapsto> q))(?b := None) = m(?b := None)" by auto
  then have "pnl_total (m(?b \<mapsto> q)) - pnl_BorrowedAmount q = pnl_total (m(?b := None))"
    using pnl_total_delete[of "m(?b \<mapsto> q)" ?b] assms(2) by simp
  then show ?thesis using q pnl_total_delete[OF assms(2), of ?b] assms(2) by simp
qed

text \<open>The statistics of a block move the pending amount and the repayments of the block into the totals.\<close>

lemma calculateCMStat_effect:
  assumes "finite (dom (pnlOnCM w))"
  shows "acct (calculateCMStat E b d w) = acct w" "repaid_gap (calculateCMStat E b d w) = repaid_gap w"
    "borrowed_gap (calculateCMStat E b d w) = borrowed_gap w"
    "pnlOnCM (calculateCMStat E b d w) = (pnlOnCM w)(b := None)"
    "pending (calculateCMStat E b d w) = 0"
proof -
  show "acct (calculateCMStat E b d w) = acct w" "repaid_gap (calculateCMStat E b d w) = repaid_gap w"
    "pnlOnCM (calculateCMStat E b d w) = (pnlOnCM w)(b := None)" "pending (calculateCMStat E b d w) = 0"
    by (simp_all add: calculateCMStat_def getBorrowAmountForBlockAndClear_def pnl_Get_def Let_def acct_def pending_def
        addProtocolAdapters_def repaid_gap_def split: option.splits)
  show "borrowed_gap (calculateCMStat E b d w) = borrowed_gap w"
    using pnl_total_delete[OF assms, of b]
    by (simp add: calculateCMStat_def getBorrowAmountForBlockAndClear_def pnl_Get_def Let_def pending_def
        addProtocolAdapters_def borrowed_gap_def split: option.splits)
qed


definition balanced :: "cm_world \<Rightarrow> cm_world \<Rightarrow> bool" where
  "balanced w w' \<longleftrightarrow> repaid_gap w' = repaid_gap w \<and> borrowed_gap w' = borrowed_gap w \<and> finite (dom (pnlOnCM w'))"

lemma gaps_balanced: "gaps w1 = gaps w \<Longrightarrow> balanced w0 w \<Longrightarrow> balanced w0 w1"
  by (simp add: balanced_def gaps_def)

lemma process_result_effect:
  assumes "process_result E b c w = Inr w'" and "balanced w0 w"
  shows "acct w' = acct w \<and> balanced w0 w'"
proof (cases c)
  case (UpdateCall sid own)
  then show ?thesis using assms updateSession_effect gaps_balanced
    by (fastforce simp: process_result_def split: option.splits)
next
  case CMDataCall
  then obtain d where "w' = calculateCMStat E b d w" using assms(1) by (auto simp: process_result_def split: option.splits)
  then show ?thesis using assms(2) calculateCMStat_effect[of w E b d] by (simp add: balanced_def)
qed

lemma process_results_effect:
  assumes "rfold (process_result E b) cs w = Inr w'" and "balanced w0 w"
  shows "acct w' = acct w \<and> balanced w0 w'"
  using assms(1) by (rule rfold_invariant) (use assms(2) process_result_effect in auto)

lemma cm_end_of_block_effect:
  assumes "cm_end_of_block E b w = Inr w'" and "finite (dom (pnlOnCM w))"
  shows "(acct w' = acct w \<or> acct w' = acc_flush (acct w)) \<and> balanced w w'"
proof -
  obtain calls w1 where a: "cm_OnBlockChange E b w = Inr (calls, w1)" "rfold (process_result E b) calls w1 = Inr w'"
    using assms(1) unfolding cm_end_of_block_def by (auto elim!: rbind_InrE)
  have 0: "balanced w w" using assms(2) by (simp add: balanced_def)
  have "(acct w1 = acct w \<or> acct w1 = acc_flush (acct w)) \<and> balanced w w1"
  proof (cases "lastEventBlock w \<noteq> 0 \<and> lastEventBlock w = b \<and> b \<ge> DiscoveredAt (cm_adapter w)")
    case True
    obtain v1 d v2 v3 c4 v4 where s: "onTxHash E '''' w = Inr v1" "check_transfers b (b + 1) v1 = (d, v2)"
      "processDirectTransfersOnBlock E b (aget [] d b) v2 = Inr v3" "FetchFromDCForChangedSessions E b v3 = Inr (c4, v4)"
      "w1 = v4\<lparr>lastEventBlock := 0\<rparr>"
      using a(1) True unfolding cm_OnBlockChange_def by (auto elim!: rbind_InrE split: prod.splits)
    have "acct v3 = acct w \<and> gaps v3 = gaps w"
      using onTxHash_core[OF s(1), THEN core_gaps] check_transfers_core[OF s(2), THEN core_gaps]
        processDirectTransfers_core[OF s(3), THEN core_gaps] by simp
    then show ?thesis using Fetch_effect[OF s(4)] s(5) gaps_balanced[OF _ 0, of w1] by simp
  next
    case False
    then show ?thesis using a(1) 0 unfolding cm_OnBlockChange_def if_not_P[OF False] by simp
  qed
  then show ?thesis using process_results_effect[OF a(2), of w] by auto
qed


text \<open>Flushing is idempotent on what the next flush sees, so several blocks of transfers flush once.\<close>

lemma acc_flush_flush [simp]: "acc_flush (acc_flush a) = acc_flush a"
  by (simp add: acc_flush_def)

lemma transfers_on_block_effect:
  assumes "transfers_on_block E d b w = Inr w'" and "balanced w0 w"
  shows "acct w' = acc_flush (acct w) \<and> balanced w0 w'"
proof -
  obtain w1 calls w2 where a: "processDirectTransfersOnBlock E b (aget [] d b) w = Inr w1"
    "FetchFromDCForChangedSessions E b w1 = Inr (calls, w2)" "rfold (process_result E b) calls w2 = Inr w'"
    using assms(1) unfolding transfers_on_block_def by (auto elim!: rbind_InrE)
  have "acct w2 = acc_flush (acct w) \<and> gaps w2 = gaps w"
    using Fetch_effect[OF a(2)] processDirectTransfers_core[OF a(1), THEN core_gaps] by simp
  then show ?thesis using process_results_effect[OF a(3)] gaps_balanced[OF _ assms(2), of w2] by simp
qed

lemma direct_transfers_effect:
  assumes "UpdateSessionWithDirectTokenTransferBefore E b w = Inr w'" and "finite (dom (pnlOnCM w))"
  shows "(acct w' = acct w \<or> acct w' = acc_flush (acct w)) \<and> balanced w w'"
proof -
  obtain d w0 where c: "check_transfers 0 b w = (d, w0)" by (cases "check_transfers 0 b w")
  have w0: "acct w0 = acct w" "balanced w w0"
    using check_transfers_core[OF c, THEN core_gaps] assms(2) gaps_balanced[of w0 w w] by (simp_all add: balanced_def)
  have "rfold (transfers_on_block E d) (sort (map fst d)) w0 = Inr w'"
    using assms(1) c by (simp add: UpdateSessionWithDirectTokenTransferBefore_def)
  then show ?thesis
    by (rule rfold_invariant) (use w0 in \<open>auto dest!: transfers_on_block_effect\<close>)
qed

section \<open>Runs of a manager\<close>

text \<open>
  What happens to a manager between restarts: logs, ends of blocks, fetching direct transfers,
  repayments reported by its pool and parameters.
\<close>

datatype cm_op =
    OpLog cm_log
  | OpBlock int
  | OpTransfers int
  | OpPnl pnl_on_repay
  | OpParams parameters

definition cm_exec :: "cm_env \<Rightarrow> cm_op \<Rightarrow> cm_world \<Rightarrow> cm_world res" where
  "cm_exec E x w =
    (case x of
       OpLog l \<Rightarrow> cm_OnLog E l w
     | OpBlock b \<Rightarrow> cm_end_of_block E b w
     | OpTransfers b \<Rightarrow> UpdateSessionWithDirectTokenTransferBefore E b w
     | OpPnl p \<Rightarrow> cm_SetUnderlyingState (PnlObj p) w
     | OpParams p \<Rightarrow> cm_SetUnderlyingState (ParametersObj p) w)"

text \<open>The contracts let an owner have one account: openings and transfers go to owners without one.\<close>

definition owner_free :: "cm_op \<Rightarrow> cm_world \<Rightarrow> bool" where
  "owner_free x w =
    (case x of
       OpLog l \<Rightarrow> (case payload l of
           OpenV1 own _ _ _ \<Rightarrow> Sessions (State w) own = None
         | OpenV2 own _ _ \<Rightarrow> Sessions (State w) own = None
         | TransferAccount own new \<Rightarrow> new = own \<or> Sessions (State w) new = None
         | _ \<Rightarrow> True)
     | _ \<Rightarrow> True)"

inductive cm_run :: "cm_env \<Rightarrow> cm_world \<Rightarrow> cm_op list \<Rightarrow> cm_world \<Rightarrow> bool" for E w0 where
  start: "cm_run E w0 [] w0"
| step: "cm_run E w0 xs w \<Longrightarrow> owner_free x w \<Longrightarrow> cm_exec E x w = Inr w' \<Longrightarrow> cm_run E w0 (xs @ [x]) w'"

fun pnl_of :: "cm_op \<Rightarrow> int" where
  "pnl_of (OpPnl p) = pnl_BorrowedAmount p"
| "pnl_of _ = 0"

lemma set_pnl_effect:
  assumes "cm_SetUnderlyingState (PnlObj p) w = Inr w'" and "finite (dom (pnlOnCM w))"
  shows "acct w' = acct w \<and> repaid_gap w' = repaid_gap w \<and> borrowed_gap w' = borrowed_gap w - pnl_BorrowedAmount p \<and>
    finite (dom (pnlOnCM w'))"
proof -
  obtain m where m: "pnl_Set p (pnlOnCM w) = Inr m"
    "w' = w\<lparr>cm_adapter := (cm_adapter w)\<lparr>UnderlyingStateToSave := True\<rparr>, pnlOnCM := m\<rparr>"
    using assms(1) by (auto simp: cm_SetUnderlyingState_def elim!: rbind_InrE)
  show ?thesis using pnl_Set_total[OF m(1) assms(2)]
    by (simp add: m(2) acct_def repaid_gap_def borrowed_gap_def pending_def)
qed

lemma cm_exec_ledger:
  assumes "cm_exec E x w = Inr w'" and "finite (dom (pnlOnCM w))"
  shows "repaid_gap w' = repaid_gap w \<and> borrowed_gap w' = borrowed_gap w - pnl_of x \<and> finite (dom (pnlOnCM w'))"
proof (cases x)
  case (OpLog l)
  then show ?thesis using assms cm_OnLog_effect[of E l w w'] by (auto simp: cm_exec_def gaps_def)
next
  case (OpBlock b)
  then show ?thesis using assms cm_end_of_block_effect[of E b w w'] by (simp add: cm_exec_def balanced_def)
next
  case (OpTransfers b)
  then show ?thesis using assms direct_transfers_effect[of E b w w'] by (simp add: cm_exec_def balanced_def)
next
  case (OpPnl p)
  then show ?thesis using assms set_pnl_effect[of p w w'] by (simp add: cm_exec_def)
next
  case (OpParams p)
  then show ?thesis using assms
    by (auto simp: cm_exec_def cm_SetUnderlyingState_def setParams_def repaid_gap_def borrowed_gap_def pending_def)
qed

end
