(* ===== verification/Credit_Manager_Blocks.thy ===== *)
theory Credit_Manager_Blocks
  imports Credit_Manager_Correct
begin

text \<open>
  The end of a block and of a transaction: sessions that were closed get their final status, nothing
  of a transaction is left for the next one, and the 16-bit fee parameters.
\<close>

section \<open>Closing sessions\<close>

text \<open>The closing state of a stored session.\<close>

definition closing_of :: "string \<Rightarrow> cm_world \<Rightarrow> (int \<times> session_status \<times> bool) option" where
  "closing_of sid w = map_option (\<lambda>s. (cs_ClosedAt s, cs_Status s, IsDirty s)) (GetCreditSession sid w)"

lemma closing_of_cong: "sessions w' = sessions w \<Longrightarrow> closing_of sid w' = closing_of sid w"
  by (simp add: closing_of_def GetCreditSession_def)

lemma upd_session_closing:
  assumes "upd_session sid' f w = Inr w'"
    and "sid' \<noteq> sid \<or> (\<forall>s. cs_ClosedAt (f s) = cs_ClosedAt s \<and> cs_Status (f s) = cs_Status s \<and> IsDirty (f s) = IsDirty s)"
  shows "closing_of sid w' = closing_of sid w"
  using assms by (auto simp: upd_session_def closing_of_def GetCreditSession_def elim!: rbind_InrE)

lemma AddAccountOperation_sessions: "AddAccountOperation op ms w = Inr w' \<Longrightarrow> sessions w' = sessions w"
  by (auto simp: AddAccountOperation_def Let_def split: if_splits)

lemma finish_repay_closing: "finish_repay sid' d cd w = Inr w' \<Longrightarrow> closing_of sid w' = closing_of sid w"
  by (auto simp: finish_repay_def upd_session_closing dest!: AddAccountOperation_sessions[THEN closing_of_cong]
      elim!: rbind_InrE split: if_splits)

lemma keeps_closing [simp]:
  "closing_of sid (PoolRepay E n i h s b amt w) = closing_of sid w"
  "closing_of sid (SetBlock n w) = closing_of sid w"
  "closing_of sid (AddCreditSessionSnapshot css w) = closing_of sid w"
  "closing_of sid (w\<lparr>State := st\<rparr>) = closing_of sid w"
  by (simp_all add: closing_of_def GetCreditSession_def PoolRepay_def AddPoolLedger_def AddCreditSessionSnapshot_def Let_def)

lemma field_closing:
  "upd_session sid' (\<lambda>s. s\<lparr>cs_BorrowedAmount := x\<rparr>) w = Inr w' \<Longrightarrow> closing_of sid w' = closing_of sid w"
  "upd_session sid' (\<lambda>s. s\<lparr>cs_Balances := bs\<rparr>) w = Inr w' \<Longrightarrow> closing_of sid w' = closing_of sid w"
  by (auto intro: upd_session_closing)

lemma closeSession_closing:
  assumes "closeSession E b sid' d cd w = Inr w'"
  shows "closing_of sid w' = closing_of sid w"
  using assms unfolding closeSession_def Let_def
  by (elim rbind_InrE) ((drule field_closing[where sid = sid] finish_repay_closing[where sid = sid])+, clarsimp)


lemma closeCall_closing:
  assumes "closeSessionCallAndResultFn b sid' cd w = Inr (c, w')"
  shows "closing_of sid w' = (if sid = sid' then Some (b, cd_Status cd, True) else closing_of sid w)"
  using assms
  by (auto simp: closeSessionCallAndResultFn_def UpdateCreditSession_def upd_session_def closing_of_def GetCreditSession_def
      Let_def elim!: rbind_InrE)

lemma close_one_loop_other:
  "rfold (close_one b) cs (calls, w) = Inr (calls', w') \<Longrightarrow> sid \<notin> fst ` set cs \<Longrightarrow> closing_of sid w' = closing_of sid w"
proof (induction cs arbitrary: calls w)
  case (Cons c cs)
  obtain sid' cd where c: "c = (sid', cd)" by (cases c)
  obtain cl w1 calls1 where step: "closeSessionCallAndResultFn b sid' cd w = Inr (cl, w1)"
    and loop: "rfold (close_one b) cs (calls1, w1) = Inr (calls', w')"
    using Cons.prems(1) by (auto simp: c close_one_def elim!: rbind_InrE)
  show ?case using Cons.IH[OF loop] closeCall_closing[OF step, of sid] Cons.prems(2) c by auto
qed simp

lemma close_one_loop_closing:
  "rfold (close_one b) cs (calls, w) = Inr (calls', w') \<Longrightarrow> distinct (map fst cs) \<Longrightarrow> (sid, d) \<in> set cs \<Longrightarrow>
    closing_of sid w' = Some (b, cd_Status d, True)"
proof (induction cs arbitrary: calls w)
  case (Cons c cs)
  obtain sid' cd where c: "c = (sid', cd)" by (cases c)
  obtain cl w1 calls1 where step: "closeSessionCallAndResultFn b sid' cd w = Inr (cl, w1)"
    and loop: "rfold (close_one b) cs (calls1, w1) = Inr (calls', w')"
    using Cons.prems(1) by (auto simp: c close_one_def elim!: rbind_InrE)
  show ?case
  proof (cases "(sid, d) = c")
    case True
    then have "sid \<notin> fst ` set cs" "closing_of sid w1 = Some (b, cd_Status d, True)"
      using Cons.prems(2) c closeCall_closing[OF step, of sid] by auto
    then show ?thesis using close_one_loop_other[OF loop] by simp
  next
    case False
    then show ?thesis using Cons.IH[OF loop] Cons.prems(2,3) by auto
  qed
qed simp

lemma close_all_closing:
  assumes "close_all E b w = Inr w'" and "distinct (map fst (ClosedSessions w))" and "(sid, d) \<in> set (ClosedSessions w)"
  shows "closing_of sid w' = Some (b, cd_Status d, True)"
proof -
  obtain calls w1 where a: "rfold (close_one b) (ClosedSessions w) ([], w) = Inr (calls, w1)"
    and b: "rfold (close_answer E b) calls w1 = Inr w'"
    using assms(1) unfolding close_all_def by (auto elim!: rbind_InrE)
  have "closing_of sid w' = closing_of sid w1"
    using b by (rule rfold_invariant) (auto simp: close_answer_def dest!: closeSession_closing[where sid = sid] split: option.splits)
  then show ?thesis using close_one_loop_closing[OF a assms(2,3)] by simp
qed

text \<open>
  C31: at the end of a block every session that was closed, repaid or liquidated in it is final: the
  stored session has the block as its closing block and the status its closing recorded (for version 2
  liquidations the corrected one), and is marked to be saved; the lists of updated and of closed
  sessions are empty afterwards, so no session is closed twice.
\<close>

theorem FetchFromDC_closes_sessions:
  assumes "FetchFromDCForChangedSessions E b w = Inr (calls, w')" and "distinct (map fst (ClosedSessions w))"
  shows "ClosedSessions w' = [] \<and> UpdatedSessions w' = [] \<and>
    (\<forall>(sid, d) \<in> set (ClosedSessions w). \<exists>s. GetCreditSession sid w' = Some s \<and>
       cs_ClosedAt s = b \<and> cs_Status s = cd_Status d \<and> IsDirty s)"
proof -
  obtain w1 w2 where a: "core w1 = core w" "ClosedSessions w1 = ClosedSessions w" "close_all E b w1 = Inr w2"
    "w' = w2\<lparr>UpdatedSessions := [], ClosedSessions := []\<rparr>"
    using Fetch_split[OF assms(1)] .
  have "\<exists>s. GetCreditSession sid w' = Some s \<and> cs_ClosedAt s = b \<and> cs_Status s = cd_Status d \<and> IsDirty s"
    if "(sid, d) \<in> set (ClosedSessions w)" for sid d
  proof -
    have "closing_of sid w2 = Some (b, cd_Status d, True)" using close_all_closing[OF a(3)] assms(2) that a(2) by simp
    moreover have "GetCreditSession sid w' = GetCreditSession sid w2" by (simp add: a(4) GetCreditSession_def)
    ultimately show ?thesis by (auto simp: closing_of_def)
  qed
  then show ?thesis by (auto simp: a(4))
qed

section \<open>Transaction boundaries\<close>

text \<open>
  Transactions do not leak into each other.  When the first log of another transaction arrives, or
  the block ends, nothing of the old transaction is left to be processed: for version 2 the multicall
  processor holds no facade action, no side event and no opening, and for version 1 there are no
  execute parameters left.
\<close>

theorem onTxHash_starts_clean:
  assumes "onTxHash E h w = Inr w'" and "LastTxHash w \<noteq> ''''" and "h \<noteq> LastTxHash w"
  shows "LastTxHash w' = h \<and>
    (if IsGBv1 w then executeParams w' = []
     else nonMultiCallEvents (multicall w') = [] \<and> facadeActions (multicall w') = [] \<and> noOfOpens (multicall w') = 0 \<and>
       running (multicall w') = running (multicall w))"
proof (cases "IsGBv1 w")
  case True
  then show ?thesis using assms by (auto simp: onTxHash_def processExecuteEvents_def elim!: rbind_InrE split: if_splits)
next
  case False
  obtain eps w1 w2 where a: "processNonMultiCalls w = Inr (eps, w1)" "processRemainingMultiCalls E eps w1 = Inr w2"
    "w' = w2\<lparr>LastTxHash := h\<rparr>"
    using assms False by (auto simp: onTxHash_def onNewTxHashV2_def elim!: rbind_InrE split: if_splits)
  have "multicall w1 = snd (PopNonMulticallEventsV2 (multicall w))"
    using mc_view.processNonMultiCalls_keeps[OF a(1)] by simp
  moreover have "multicall w2 = snd (snd (PopMainActionsv2 (multicall w1)))"
    using mc_view.processRemaining_keeps[OF a(2)] by simp
  ultimately show ?thesis using False a(3)
    by (simp add: PopNonMulticallEventsV2_def PopMainActionsv2_def Let_def)
qed


section \<open>Fee parameters\<close>

lemma discount_word:
  assumes "0 \<le> x" and "x < 65536"
  shows "uint (10000 - word_of_int x :: 16 word) = (if x \<le> 10000 then 10000 - x else 75536 - x)"
proof -
  have "(10000 - word_of_int x :: 16 word) = word_of_int (10000 - x)" by simp
  then have "uint (10000 - word_of_int x :: 16 word) = (10000 - x) mod 65536"
    by (simp only: uint_word_of_int) simp
  also have "\<dots> = (if x \<le> 10000 then 10000 - x else 75536 - x)"
  proof (cases "x \<le> 10000")
    case False
    have "(10000 - x) mod 65536 = (10000 - x + 65536) mod 65536" by (simp only: mod_add_self2)
    also have "\<dots> = 75536 - x" using False assms by (subst mod_pos_pos_trivial) auto
    finally show ?thesis using False by simp
  qed (use assms in simp)
  finally show ?thesis .
qed

text \<open>
  The discounts of a \<^verbatim>\<open>FeesUpdated\<close> event are computed in 16 bits: for a premium of at most 10000
  the stored discount is 10000 minus the premium, for a larger one it wraps around, and the fees are stored
  as they are; accounts, ledger and the other parameters of the event's block are not involved.
\<close>

theorem FeesUpdated_discounts:
  assumes "payload l = FeesUpdated fi fl lp fle lpe" and "onConfiguratorLog l w = Inr w'"
    and "\<forall>x \<in> {fi, fl, lp, fle, lpe}. 0 \<le> x \<and> x < 65536"
  shows "\<exists>p. cm_params w' = Some p \<and> par_BlockNum p = BlockNumber l \<and>
    uint (FeeInterest p) = fi \<and> uint (FeeLiquidation p) = fl \<and> uint (FeeLiquidationExpired p) = fle \<and>
    uint (LiquidationDiscount p) = (if lp \<le> 10000 then 10000 - lp else 75536 - lp) \<and>
    uint (LiquidationDiscountExpired p) = (if lpe \<le> 10000 then 10000 - lpe else 75536 - lpe) \<and>
    w' = w\<lparr>cm_params := Some p\<rparr>"
proof -
  have small: "uint (word_of_int x :: 16 word) = x" if "x \<in> {fi, fl, fle}" for x
    using assms(3) that by (auto simp: uint_word_of_int)
  obtain p where p: "cm_params w' = Some p" "w' = w\<lparr>cm_params := Some p\<rparr>" "par_BlockNum p = BlockNumber l"
    "FeeInterest p = word_of_int fi" "FeeLiquidation p = word_of_int fl" "FeeLiquidationExpired p = word_of_int fle"
    "LiquidationDiscount p = 10000 - word_of_int lp" "LiquidationDiscountExpired p = 10000 - word_of_int lpe"
    using assms(1,2) by (auto simp: onConfiguratorLog_def setParams_def)
  show ?thesis
    using p small discount_word[of lp] discount_word[of lpe] assms(3) by (intro exI[of _ p]) simp
qed

end
