(* ===== verification/Credit_Manager_Theorems.thy ===== *)
theory Credit_Manager_Theorems
  imports Credit_Manager_Blocks
begin

text \<open>
  The properties of a credit manager: refinement of the abstract accounts, the counters and the ledger
  over any run, closing at the end of a block, transaction boundaries and the 16-bit fee parameters.
\<close>

section \<open>Accounts\<close>

lemma acc_leave_upd:
  "(acc_leave own a)\<lparr>acc_closed := acc_closed a + 1, acc_repaid := acc_repaid a, acc_liquidated := acc_liquidated a\<rparr>
    = acc_leave own (a\<lparr>acc_closed := acc_closed a + 1\<rparr>)"
  "(acc_leave own a)\<lparr>acc_closed := acc_closed a, acc_repaid := acc_repaid a + 1, acc_liquidated := acc_liquidated a\<rparr>
    = acc_leave own (a\<lparr>acc_repaid := acc_repaid a + 1\<rparr>)"
  "(acc_leave own a)\<lparr>acc_closed := acc_closed a, acc_repaid := acc_repaid a, acc_liquidated := acc_liquidated a + 1\<rparr>
    = acc_leave own (a\<lparr>acc_liquidated := acc_liquidated a + 1\<rparr>)"
  by (simp_all add: acc_leave_def Let_def)

lemma acc_leave_kinds:
  assumes "acc_ok a" and "acc_has own a"
  shows "acc_ok (acc_leave own (a\<lparr>acc_closed := acc_closed a + 1\<rparr>))"
    "acc_ok (acc_leave own (a\<lparr>acc_repaid := acc_repaid a + 1\<rparr>))"
    "acc_ok (acc_leave own (a\<lparr>acc_liquidated := acc_liquidated a + 1\<rparr>))"
  unfolding acc_leave_upd[symmetric] by (simp_all add: acc_leave_ok[OF assms])

lemma cm_OnLog_keeps_ok:
  assumes "cm_OnLog E l w = Inr w'" and "owner_free (OpLog l) w" and "acc_ok (acct w)"
  shows "acc_ok (acct w')"
proof -
  have free: "acc_owners (acct w) = Sessions (State w)" by (simp add: acct_def)
  from cm_OnLog_effect[OF assms(1)] show ?thesis
  proof (elim disjE conjE)
    assume "acc_guard E l (acct w)" and eff: "acct w' = acc_effect E l (acct w)"
    then show ?thesis
      using assms(2,3) acc_open_ok acc_leave_kinds acc_transfer_ok
      unfolding eff acc_effect_def acc_guard_def owner_free_def free[symmetric]
      by (cases "payload l") (auto split: if_splits)
  qed (use assms(3) in simp)
qed

lemma cm_exec_keeps_ok:
  assumes "cm_exec E x w = Inr w'" and "owner_free x w" and "acc_ok (acct w)" and "finite (dom (pnlOnCM w))"
  shows "acc_ok (acct w')"
proof (cases x)
  case (OpLog l)
  then show ?thesis using assms cm_OnLog_keeps_ok by (simp add: cm_exec_def)
next
  case (OpBlock b)
  then show ?thesis using assms(1,3,4) cm_end_of_block_effect[of E b w w'] acc_flush_ok by (auto simp: cm_exec_def)
next
  case (OpTransfers b)
  then show ?thesis using assms(1,3,4) direct_transfers_effect[of E b w w'] acc_flush_ok by (auto simp: cm_exec_def)
next
  case (OpPnl p)
  then show ?thesis using assms(1,3,4) set_pnl_effect[of p w w'] by (simp add: cm_exec_def)
next
  case (OpParams p)
  then show ?thesis using assms(1,3)
    by (auto simp: cm_exec_def cm_SetUnderlyingState_def setParams_def acct_def)
qed

lemma cm_run_invariant:
  assumes "cm_run E w0 xs w" and "acc_ok (acct w0)" and "finite (dom (pnlOnCM w0))"
  shows "acc_ok (acct w) \<and> finite (dom (pnlOnCM w)) \<and> repaid_gap w = repaid_gap w0 \<and>
    borrowed_gap w = borrowed_gap w0 - sum_list (map pnl_of xs)"
  using assms
proof (induction rule: cm_run.induct)
  case (step xs w x w')
  then show ?case using cm_exec_keeps_ok[OF step.hyps(3,2)] cm_exec_ledger[OF step.hyps(3)] by simp
qed simp

section \<open>A concrete manager\<close>

text \<open>
  A version 1 manager of one pool, an account opened in block 10 with 90 borrowed and closed in
  block 12 with 95 repaid.  The concrete environment is only used to evaluate the theorems.
\<close>

definition demo_dc_account :: dc_account where
  "demo_dc_account = \<lparr>dc_BorrowedAmount = 90, dc_BorrowedAmountPlusInterest = 95, dc_TotalValue = 120, dc_RepayAmount = 95,
     dc_HealthFactor = 12000, dc_CumulativeIndexAtOpen = 1, dc_Balances = []\<rparr>"

definition demo_manager :: dc_manager where
  "demo_manager = \<lparr>dcm_Adapters = [], dcm_IsWETH = False, dcm_MinAmount = 1, dcm_MaxAmount = 1000, dcm_AvailableLiquidity = 500\<rparr>"

definition demo_env :: cm_env where
  "demo_env = \<lparr>GetFloat64Decimal = (\<lambda>_ _. 0), GetFloat64 = (\<lambda>_ _. 0), GetExpFloat = (\<lambda>_. 1), Decimals = (\<lambda>_. 6),
     IsDieselToken = (\<lambda>_. False), GearTokenAddr = ''gear'', GetValueInCurrency = (\<lambda>_ _ _ _ v. Inr v),
     GetPricesInUSD = (\<lambda>_ _ _. 1), ValueInUnderlying = (\<lambda>_ _ _ _. 0), 
     ParseEvent = (\<lambda>n _. (if n = ''AddCollateral'' then AddCollateralEvent else n, [])),
     GetExecuteCalls = (\<lambda>_ _ _. []), GetMainCalls = (\<lambda>_ _. []), GetTransfersAtClosev2 = (\<lambda>_ _ _ _ _. []),
     GetCreditAccountData = (\<lambda>_ _ _. Some demo_dc_account), GetCreditManagerData = (\<lambda>_ _. Some demo_manager),
     CalCloseAmount = (\<lambda>_ _ _ _ owed _. owed), stETH = ''steth'', sharesOf = (\<lambda>_ _ _. Inr 0), SortTransfers = (\<lambda>ts. ts),
     itoa = (\<lambda>n. if n = 10 then ''10'' else ''1'')\<rparr>"

definition demo_state :: cm_state where
  "demo_state = \<lparr>PoolAddress = ''pool'', UnderlyingToken = ''usdc'', Sessions = Map.empty, st_Paused = False, IsWETH = False,
     OpenedAccountsCount = 0, TotalOpenedAccounts = 0, TotalClosedAccounts = 0, TotalRepaidAccounts = 0,
     TotalLiquidatedAccounts = 0, TotalBorrowedBI = 0, TotalBorrowed = 0, TotalRepaidBI = 0, TotalRepaid = 0,
     TotalProfitBI = 0, TotalProfit = 0, TotalLossesBI = 0, TotalLosses = 0, st_MinAmount = 0, st_MaxAmount = 0,
     MaxLeverageFactor = 0, AvailableLiquidityBI = 0, AvailableLiquidity = 0\<rparr>"

definition demo_cm :: "int \<Rightarrow> cm_world" where
  "demo_cm v = \<lparr>cm_adapter = NewSyncAdapter (\<lambda>_ n. (n, n)) (\<lambda>_ _. v) ''cm'' ''CreditManager'' 5, State = demo_state,
     LastTxHash = '''', lastEventBlock = 0, executeParams = [], pnlOnCM = Map.empty, UpdatedSessions = [], ClosedSessions = [],
     borrowedAmountForBlock = None, cm_params = None, allowedProtocols = (\<lambda>_. False), multicall = empty_processor,
     addrChanged = False, sessions = [], accountManager = NewDirectTransferManager, blocks = [], operations = [],
     poolLedger = [], snapshots = [], cmStats = [], daoOperations = [], transferAllowed = [], disableBlocks = [], newAdapters = []\<rparr>"

definition demo_cm_log :: "int \<Rightarrow> cm_event \<Rightarrow> cm_log" where
  "demo_cm_log b ev = \<lparr>BlockNumber = b, Index = 1, TxIndex = 0, TxHash = (if b = 10 then ''t10'' else ''t12''),
     logAddress = ''cm'', topic0 = '''', payload = ev\<rparr>"

definition demo_ops :: "cm_op list" where
  "demo_ops = [OpLog (demo_cm_log 10 (OpenV1 ''alice'' ''acc'' 30 90)),
     OpLog (demo_cm_log 12 (CloseV1 ''alice'' ''alice'' 25)), OpBlock 12]"

text \<open>Running a list of operations, for evaluation.\<close>

definition run_all :: "cm_env \<Rightarrow> cm_op list \<Rightarrow> cm_world \<Rightarrow> cm_world res" where
  "run_all E xs w = rfold (\<lambda>x w. if owner_free x w then cm_exec E x w else Inl (Panic ''owner'')) xs w"

lemma cm_run_cons:
  assumes "cm_run E w1 xs w2" and "owner_free x w" and "cm_exec E x w = Inr w1"
  shows "cm_run E w (x # xs) w2"
  using assms(1)
proof (induction rule: cm_run.induct)
  case start
  then show ?case using cm_run.step[OF cm_run.start assms(2,3)] by simp
next
  case (step xs w' x' w'')
  then show ?case using cm_run.step[of E w "x # xs"] by simp
qed

lemma run_all_cm_run: "run_all E xs w = Inr w' \<Longrightarrow> cm_run E w xs w'"
proof (induction xs arbitrary: w)
  case (Cons x xs)
  then show ?case by (auto simp: run_all_def elim!: rbind_InrE split: if_splits intro: cm_run_cons)
qed (simp add: run_all_def cm_run.start)


lemma demo_run:
  "case run_all demo_env demo_ops (demo_cm 1) of Inl _ \<Rightarrow> False
   | Inr w \<Rightarrow> TotalOpenedAccounts (State w) = 1 \<and> TotalClosedAccounts (State w) = 1 \<and> OpenedAccountsCount (State w) = 0 \<and>
       Sessions (State w) ''alice'' = None \<and> TotalBorrowedBI (State w) = 90 \<and> TotalRepaidBI (State w) = 95 \<and>
       map pl_AmountBI (poolLedger w) = [90, 95]"
  by code_simp


section \<open>Properties\<close>

text \<open>
  C2: every log of a credit manager refines the abstract accounts.  A log that is processed without
  ending the process satisfies the guard of its abstract operation (a new session id when an account
  is opened, an owner with an account when one is closed, repaid, liquidated or transferred) and has
  exactly its effect on owners, waiting sessions, known sessions and counters; a log of the
  configurator changes none of them.  This covers both contract versions, the transaction end that
  the log may trigger and all the side events.
\<close>

theorem cm_OnLog_refines_accounts:
  assumes "cm_OnLog E l w = Inr w'"
  shows "if GetDetailsByKey ''configurator'' (cm_adapter w) = Inr (logAddress l) then acct w' = acct w
    else acc_guard E l (acct w) \<and> acct w' = acc_effect E l (acct w)"
  using cm_OnLog_effect[OF assms] by auto

definition demo_log_result :: "cm_world res" where
  "demo_log_result = cm_OnLog demo_env (demo_cm_log 10 (OpenV1 ''alice'' ''acc'' 30 90)) (demo_cm 1)"

lemma demo_log_ok: "\<exists>w'. demo_log_result = Inr w' \<and> True"
  by (rule case_InrD) code_simp

theorem cm_OnLog_refines_accounts_witness:
  "\<exists>w'. cm_OnLog demo_env (demo_cm_log 10 (OpenV1 ''alice'' ''acc'' 30 90)) (demo_cm 1) = Inr w' \<and>
    acct w' = acc_open ''alice'' ''acc_10_1'' (acct (demo_cm 1)) \<and> Sessions (State w') ''alice'' = Some ''acc_10_1''"
proof -
  let ?l = "demo_cm_log 10 (OpenV1 ''alice'' ''acc'' 30 90)"
  obtain w' where w': "cm_OnLog demo_env ?l (demo_cm 1) = Inr w'"
    using demo_log_ok unfolding demo_log_result_def by blast
  have ver: "acc_version (acct (demo_cm 1)) = 1" and det: "Details (cm_adapter (demo_cm 1)) = None"
    by (simp_all add: acct_def demo_cm_def NewSyncAdapter_def)
  have "acct w' = acc_open ''alice'' ''acc_10_1'' (acct (demo_cm 1))"
    using cm_OnLog_refines_accounts[OF w'] ver det
    by (simp add: acc_effect_def demo_cm_log_def session_id_def demo_env_def)
  moreover from this have "Sessions (State w') ''alice'' = Some ''acc_10_1''"
    by (simp add: acct_def acc_open_def)
  ultimately show ?thesis using w' by blast
qed

text \<open>A manager as \<^verbatim>\<open>CommonInit\<close> leaves it: no sessions, all counters and totals zero.\<close>

definition new_manager :: "cm_world \<Rightarrow> bool" where
  "new_manager w \<longleftrightarrow> Sessions (State w) = Map.empty \<and> ClosedSessions w = [] \<and> pnlOnCM w = Map.empty \<and>
    OpenedAccountsCount (State w) = 0 \<and> TotalOpenedAccounts (State w) = 0 \<and> TotalClosedAccounts (State w) = 0 \<and>
    TotalRepaidAccounts (State w) = 0 \<and> TotalLiquidatedAccounts (State w) = 0 \<and> TotalBorrowedBI (State w) = 0 \<and>
    TotalRepaidBI (State w) = 0 \<and> borrowedAmountForBlock w = None \<and> poolLedger w = []"

lemma new_manager_ok: "new_manager w \<Longrightarrow> acc_ok (acct w) \<and> finite (dom (pnlOnCM w)) \<and> repaid_gap w = 0 \<and> borrowed_gap w = 0"
  by (simp add: new_manager_def acc_ok_def acct_def repaid_gap_def borrowed_gap_def pending_def rows_def pnl_total_def)

text \<open>
  C3: the account counters are right after any run of a manager from its creation: accounts opened
  minus accounts closed, repaid and liquidated is the number of owners with an account, the count of
  open accounts is that number plus the sessions that wait for the end of their block, no two owners
  share a session, and every session of an owner or waiting to be closed is in the session store.
  The contracts' promise that an owner has one account at a time is the condition of \<open>cm_run\<close>.
\<close>

theorem cm_run_counters:
  assumes "cm_run E w0 xs w" and "new_manager w0"
  shows "TotalOpenedAccounts (State w) - TotalClosedAccounts (State w) - TotalRepaidAccounts (State w)
      - TotalLiquidatedAccounts (State w) = int (card (dom (Sessions (State w)))) \<and>
    OpenedAccountsCount (State w) = int (card (dom (Sessions (State w)))) + int (length (ClosedSessions w)) \<and>
    inj_on (Sessions (State w)) (dom (Sessions (State w))) \<and>
    ran (Sessions (State w)) \<union> fst ` set (ClosedSessions w) \<subseteq> fst ` set (sessions w)"
  using cm_run_invariant[OF assms(1)] new_manager_ok[OF assms(2)] by (simp add: acc_ok_def acct_def)

lemma demo_new: "new_manager (demo_cm v)"
  by (simp add: new_manager_def demo_cm_def demo_state_def)

lemma demo_cm_run:
  obtains w where "cm_run demo_env (demo_cm 1) demo_ops w" "TotalOpenedAccounts (State w) = 1"
    "TotalClosedAccounts (State w) = 1" "OpenedAccountsCount (State w) = 0" "TotalRepaidBI (State w) = 95"
    "TotalBorrowedBI (State w) = 90"
  using case_InrD[OF demo_run] run_all_cm_run by blast

theorem cm_run_counters_witness:
  "\<exists>w. cm_run demo_env (demo_cm 1) demo_ops w \<and> TotalOpenedAccounts (State w) = 1 \<and> TotalClosedAccounts (State w) = 1 \<and>
    ClosedSessions w = [] \<and> inj_on (Sessions (State w)) (dom (Sessions (State w)))"
proof -
  obtain w where w: "cm_run demo_env (demo_cm 1) demo_ops w" "TotalOpenedAccounts (State w) = 1"
    "TotalClosedAccounts (State w) = 1" "OpenedAccountsCount (State w) = 0"
    using demo_cm_run by metis
  have "int (length (ClosedSessions w)) = 0" "inj_on (Sessions (State w)) (dom (Sessions (State w)))"
    using cm_run_counters[OF w(1) demo_new] w(4) by linarith+
  then show ?thesis using w by auto
qed

text \<open>
  C5: the totals of a manager agree with the rows it writes to the pool ledger.  After any run from
  its creation the repaid total is the sum of the Repay rows, and the borrowed total together with the
  amount still pending for the block is the sum of the Borrow rows less the repaid principal that the
  pool reported and that has been taken into the totals.
\<close>

theorem cm_run_ledger:
  assumes "cm_run E w0 xs w" and "new_manager w0"
  shows "TotalRepaidBI (State w) = rows ''Repay'' (poolLedger w) \<and>
    TotalBorrowedBI (State w) + pending w
      = rows ''Borrow'' (poolLedger w) - (sum_list (map pnl_of xs) - pnl_total (pnlOnCM w))"
  using cm_run_invariant[OF assms(1)] new_manager_ok[OF assms(2)] by (simp add: repaid_gap_def borrowed_gap_def)

theorem cm_run_ledger_witness:
  "\<exists>w. cm_run demo_env (demo_cm 1) demo_ops w \<and> rows ''Repay'' (poolLedger w) = 95"
proof -
  obtain w where w: "cm_run demo_env (demo_cm 1) demo_ops w" "TotalRepaidBI (State w) = 95"
    using demo_cm_run by metis
  then show ?thesis using cm_run_ledger[OF w(1) demo_new] by auto
qed


section \<open>Witnesses for the end of blocks and transactions\<close>

lemma demo_close:
  "case run_all demo_env (take 2 demo_ops) (demo_cm 1) of Inl _ \<Rightarrow> False
   | Inr w \<Rightarrow> map (\<lambda>(k, d). (k, cd_Status d)) (ClosedSessions w) = [(''acc_10_1'', Closed)] \<and>
       (case FetchFromDCForChangedSessions demo_env 12 w of Inl _ \<Rightarrow> False | Inr (calls, w') \<Rightarrow> True)"
  by code_simp

theorem FetchFromDC_closes_sessions_witness:
  "\<exists>w calls w' s. FetchFromDCForChangedSessions demo_env 12 w = Inr (calls, w') \<and>
    map fst (ClosedSessions w) = [''acc_10_1''] \<and> GetCreditSession ''acc_10_1'' w' = Some s \<and>
    cs_ClosedAt s = 12 \<and> cs_Status s = Closed"
proof -
  obtain w where w: "map (\<lambda>(k, d). (k, cd_Status d)) (ClosedSessions w) = [(''acc_10_1'', Closed)]"
    "case FetchFromDCForChangedSessions demo_env 12 w of Inl _ \<Rightarrow> False | Inr (calls, w') \<Rightarrow> True"
    using case_InrD[OF demo_close] by (elim exE conjE)
  obtain calls w' where f: "FetchFromDCForChangedSessions demo_env 12 w = Inr (calls, w')"
    using case_InrD[OF w(2)] by force
  obtain d where d: "ClosedSessions w = [(''acc_10_1'', d)]" "cd_Status d = Closed"
    using w(1) by (auto simp: map_eq_Cons_conv)
  have "map fst (ClosedSessions w) = [''acc_10_1'']" by (simp add: d)
  moreover obtain s where "GetCreditSession ''acc_10_1'' w' = Some s" "cs_ClosedAt s = 12" "cs_Status s = Closed"
    using FetchFromDC_closes_sessions[OF f] d by auto
  ultimately show ?thesis using f by (intro exI[of _ w] exI[of _ calls] exI[of _ w'] exI[of _ s] conjI)
qed

definition demo_v2 :: "cm_world res" where
  "demo_v2 = rfold (cm_OnLog demo_env) [demo_cm_log 10 (OpenV2 ''bob'' ''acc'' 90),
     demo_cm_log 10 (AddCollateral ''bob'' ''usdc'' 30)] (demo_cm 2)"

lemma demo_v2_ok:
  "case demo_v2 of Inl _ \<Rightarrow> False
   | Inr w \<Rightarrow> LastTxHash w = ''t10'' \<and> \<not> IsGBv1 w \<and> length (facadeActions (multicall w)) = 1 \<and>
       (case onTxHash demo_env ''t12'' w of Inl _ \<Rightarrow> False | Inr w' \<Rightarrow> length (operations w') = 1)"
  by code_simp

theorem onTxHash_starts_clean_witness:
  "\<exists>w w'. onTxHash demo_env ''t12'' w = Inr w' \<and> length (facadeActions (multicall w)) = 1 \<and>
    facadeActions (multicall w') = [] \<and> noOfOpens (multicall w') = 0 \<and> length (operations w') = 1"
proof -
  obtain w where w: "LastTxHash w = ''t10''" "\<not> IsGBv1 w" "length (facadeActions (multicall w)) = 1"
    "case onTxHash demo_env ''t12'' w of Inl _ \<Rightarrow> False | Inr w' \<Rightarrow> length (operations w') = 1"
    using case_InrD[OF demo_v2_ok] by blast
  obtain w' where w': "onTxHash demo_env ''t12'' w = Inr w'" "length (operations w') = 1"
    using case_InrD[OF w(4)] by blast
  then show ?thesis using onTxHash_starts_clean[OF w'(1)] w by force
qed

theorem FeesUpdated_discounts_witness:
  "\<exists>w' p. onConfiguratorLog (demo_cm_log 10 (FeesUpdated 1000 150 400 100 200)) (demo_cm 2) = Inr w' \<and>
    cm_params w' = Some p \<and> uint (LiquidationDiscount p) = 9600"
proof -
  let ?l = "demo_cm_log 10 (FeesUpdated 1000 150 400 100 200)"
  obtain w' where "onConfiguratorLog ?l (demo_cm 2) = Inr w'" by (simp add: onConfiguratorLog_def demo_cm_log_def)
  then show ?thesis using FeesUpdated_discounts[of ?l 1000 150 400 100 200 "demo_cm 2" w'] by (auto simp: demo_cm_log_def)
qed

end
