(* ===== verification/Session_Restart.thy ===== *)
theory Session_Restart
  imports Credit_Manager_Theorems
begin

text \<open>
  Saving the sessions of a credit manager and loading them after a restart: the session store
  (\<^verbatim>\<open>repository/handlers/credit_session.go\<close>) and what \<^verbatim>\<open>Repository.Init\<close> hands to a manager
  (\<^verbatim>\<open>repository/credit_manager.go\<close>).

  A table is a list of rows by their primary key.  What the database gives back for a stored session is the
  parameter \<open>col\<close>, as the columns are declared in the sdk; the theorems rely on the columns the queries name.
\<close>

section \<open>Saving and loading\<close>

type_synonym session_table = "(string \<times> credit_session) list"

definition save_session :: "(credit_session \<Rightarrow> credit_session) \<Rightarrow> string \<times> credit_session \<Rightarrow> session_table \<Rightarrow> session_table" where
  "save_session col = (\<lambda>(_, session) db. if IsDirty session then AList.update (cs_ID session) (col session) db else db)"

definition SessionRepo_Save :: "(credit_session \<Rightarrow> credit_session) \<Rightarrow> cm_world \<Rightarrow> session_table \<Rightarrow> cm_world \<times> session_table" where
  "SessionRepo_Save col w db =
    (w\<lparr>sessions := map (\<lambda>(k, s). (k, s\<lparr>IsDirty := False\<rparr>)) (sessions w)\<rparr>, fold (save_session col) (sessions w) db)"

text \<open>The latest snapshot of a session has its collateral; sessions without a snapshot are not loaded.\<close>

definition load_session ::
  "int \<Rightarrow> (string \<rightharpoonup> rat \<times> rat) \<Rightarrow> string \<times> credit_session \<Rightarrow> cm_world \<Rightarrow> cm_world res" where
  "load_session lastDebtSync css = (\<lambda>(_, cs) w.
    case css (cs_ID cs) of
      None \<Rightarrow> Inr w
    | Some (usd, underlying) \<Rightarrow>
        if cs_Status cs = Active \<or> cs_ClosedAt cs > lastDebtSync then
          rbind (guard_fatal (map_of (sessions w) (cs_ID cs) \<noteq> None) ''Credit session already present'') (\<lambda>_.
            Inr (w\<lparr>sessions := AList.update (cs_ID cs)
              (cs\<lparr>cs_CollateralInUSD := usd, cs_CollateralInUnderlying := underlying\<rparr>) (sessions w)\<rparr>))
        else Inr w)"

definition LoadCreditSessions ::
  "int \<Rightarrow> (string \<rightharpoonup> rat \<times> rat) \<Rightarrow> session_table \<Rightarrow> cm_world \<Rightarrow> cm_world res" where
  "LoadCreditSessions lastDebtSync css db w = rfold (load_session lastDebtSync css) db w"

definition add_borrower :: "string \<times> credit_session \<Rightarrow> (address \<rightharpoonup> address \<rightharpoonup> string) \<Rightarrow> (address \<rightharpoonup> address \<rightharpoonup> string)" where
  "add_borrower = (\<lambda>(_, cs) borrowerToSession.
    if cs_Status cs = Active then
      let hstore = (case borrowerToSession (cs_CreditManager cs) of None \<Rightarrow> Map.empty | Some h \<Rightarrow> h)
      in borrowerToSession(cs_CreditManager cs \<mapsto> hstore(cs_Borrower cs \<mapsto> cs_ID cs))
    else borrowerToSession)"

definition loadSessionIdToBorrower :: "session_table \<Rightarrow> cm_world \<Rightarrow> cm_world res" where
  "loadSessionIdToBorrower db w =
    (case fold add_borrower db Map.empty (cm_addr w) of
       None \<Rightarrow> Inr w
     | Some hstore \<Rightarrow> cm_SetUnderlyingState (SessionsObj hstore) w)"

text \<open>The latest parameters of the manager.\<close>

definition latest_params :: "address \<Rightarrow> parameters list \<Rightarrow> parameters option" where
  "latest_params cm entries = fold (\<lambda>p best.
      case best of None \<Rightarrow> Some p | Some q \<Rightarrow> if par_BlockNum q < par_BlockNum p then Some p else best)
    (filter (\<lambda>p. par_CreditManager p = cm) entries) None"

definition loadParametersToCM :: "parameters list \<Rightarrow> cm_world \<Rightarrow> cm_world res" where
  "loadParametersToCM entries w =
    (case latest_params (cm_addr w) entries of None \<Rightarrow> Inr w | Some entry \<Rightarrow> cm_SetUnderlyingState (ParametersObj entry) w)"

definition loadCreditManagers :: "cm_state option \<Rightarrow> session_table \<Rightarrow> parameters list \<Rightarrow> cm_world \<Rightarrow> cm_world res" where
  "loadCreditManagers row db entries w =
    rbind (case row of None \<Rightarrow> Inr w | Some cm \<Rightarrow> cm_SetUnderlyingState (StateObj (cm\<lparr>Sessions := Map.empty\<rparr>)) w) (\<lambda>w1.
    rbind (loadSessionIdToBorrower db w1) (loadParametersToCM entries))"

section \<open>Sessions, owners and rows\<close>

text \<open>
  Owners have exactly the active sessions that are not waiting to be closed; a session that is not dirty has its row,
  and no row of a session that is gone is active.
\<close>

definition row_of :: "credit_session \<Rightarrow> string \<times> session_status \<times> address \<times> address" where
  "row_of s = (cs_ID s, cs_Status s, cs_Borrower s, cs_CreditManager s)"

definition open_ok ::
  "address \<Rightarrow> session_table \<Rightarrow> (address \<rightharpoonup> string) \<Rightarrow> (string \<times> close_details) list \<Rightarrow> (string \<times> credit_session) list \<Rightarrow> bool" where
  "open_ok a db m cl ss \<longleftrightarrow>
    distinct (map fst ss) \<and> distinct (map fst db) \<and>
    (\<forall>own sid. m own = Some sid \<longrightarrow> (\<exists>s. map_of ss sid = Some s \<and> cs_Status s = Active \<and> cs_Borrower s = own)) \<and>
    (\<forall>sid s. map_of ss sid = Some s \<longrightarrow> cs_ID s = sid \<and> cs_CreditManager s = a \<and>
      (cs_Status s = Active \<longrightarrow> cs_ClosedAt s = 0 \<and> (sid \<notin> fst ` set cl \<longrightarrow> m (cs_Borrower s) = Some sid)) \<and>
      (\<not> IsDirty s \<longrightarrow> map_option row_of (map_of db sid) = Some (row_of s))) \<and>
    (\<forall>sid d. (sid, d) \<in> set cl \<longrightarrow> cd_Status d \<noteq> Active \<and> map_of ss sid \<noteq> None) \<and>
    (\<forall>sid r. map_of db sid = Some r \<longrightarrow> cs_ID r = sid \<and>
      (map_of ss sid = None \<and> cs_CreditManager r = a \<longrightarrow> cs_Status r \<noteq> Active))"

definition open_sync :: "address \<Rightarrow> session_table \<Rightarrow> cm_world \<Rightarrow> bool" where
  "open_sync a db w \<longleftrightarrow> cm_addr w = a \<and> open_ok a db (Sessions (State w)) (ClosedSessions w) (sessions w)"

lemma open_okI:
  assumes "distinct (map fst ss)" "distinct (map fst db)"
    "\<And>own sid. m own = Some sid \<Longrightarrow> \<exists>s. map_of ss sid = Some s \<and> cs_Status s = Active \<and> cs_Borrower s = own"
    "\<And>sid s. map_of ss sid = Some s \<Longrightarrow> cs_ID s = sid \<and> cs_CreditManager s = a"
    "\<And>sid s. map_of ss sid = Some s \<Longrightarrow> cs_Status s = Active \<Longrightarrow> cs_ClosedAt s = 0"
    "\<And>sid s. map_of ss sid = Some s \<Longrightarrow> cs_Status s = Active \<Longrightarrow> sid \<notin> fst ` set cl \<Longrightarrow> m (cs_Borrower s) = Some sid"
    "\<And>sid s. map_of ss sid = Some s \<Longrightarrow> \<not> IsDirty s \<Longrightarrow> map_option row_of (map_of db sid) = Some (row_of s)"
    "\<And>sid d. (sid, d) \<in> set cl \<Longrightarrow> cd_Status d \<noteq> Active \<and> map_of ss sid \<noteq> None"
    "\<And>sid r. map_of db sid = Some r \<Longrightarrow> cs_ID r = sid \<and> (map_of ss sid = None \<and> cs_CreditManager r = a \<longrightarrow> cs_Status r \<noteq> Active)"
  shows "open_ok a db m cl ss"
  using assms unfolding open_ok_def by blast

lemma open_okD:
  assumes "open_ok a db m cl ss"
  shows "distinct (map fst ss)" "distinct (map fst db)"
    "m own = Some sid \<Longrightarrow> \<exists>s. map_of ss sid = Some s \<and> cs_Status s = Active \<and> cs_Borrower s = own"
    "map_of ss sid = Some s \<Longrightarrow> cs_ID s = sid \<and> cs_CreditManager s = a"
    "map_of ss sid = Some s \<Longrightarrow> cs_Status s = Active \<Longrightarrow> cs_ClosedAt s = 0"
    "map_of ss sid = Some s \<Longrightarrow> cs_Status s = Active \<Longrightarrow> sid \<notin> fst ` set cl \<Longrightarrow> m (cs_Borrower s) = Some sid"
    "map_of ss sid = Some s \<Longrightarrow> \<not> IsDirty s \<Longrightarrow> map_option row_of (map_of db sid) = Some (row_of s)"
    "(sid, d) \<in> set cl \<Longrightarrow> cd_Status d \<noteq> Active \<and> map_of ss sid \<noteq> None"
    "map_of db sid = Some r \<Longrightarrow> cs_ID r = sid \<and> (map_of ss sid = None \<and> cs_CreditManager r = a \<longrightarrow> cs_Status r \<noteq> Active)"
  using assms unfolding open_ok_def by blast+

text \<open>A session is replaced: by one that stands for the same row, by one with a new borrower, by a closed one.\<close>

lemma open_ok_session:
  assumes "open_ok a db m cl ss" and "map_of ss sid = Some s" and "same_row s s'"
  shows "open_ok a db m cl (AList.update sid s' ss)"
proof -
  note ok = open_okD[OF assms(1)]
  have same: "cs_ID s' = cs_ID s" "cs_Status s' = cs_Status s" "cs_Borrower s' = cs_Borrower s" "cs_CreditManager s' = cs_CreditManager s"
    "cs_ClosedAt s' = cs_ClosedAt s" "IsDirty s \<Longrightarrow> IsDirty s'" "row_of s' = row_of s"
    using assms(3) by (simp_all add: same_row_def row_of_def)
  show ?thesis
  proof (rule open_okI)
    show "distinct (map fst (AList.update sid s' ss))" using ok(1) by (rule distinct_update)
    show "\<exists>t. map_of (AList.update sid s' ss) i = Some t \<and> cs_Status t = Active \<and> cs_Borrower t = own" if "m own = Some i" for own i
      using ok(3)[OF that] assms(2) same by (auto simp: map_of_update)
    show "map_option row_of (map_of db i) = Some (row_of t)" if "map_of (AList.update sid s' ss) i = Some t" "\<not> IsDirty t" for i t
      using that ok(7)[of i] assms(2) same(6,7) by (auto simp: map_of_update simp del: map_of_eq_Some_iff map_option_eq_Some split: if_splits)
  qed (use ok(2,9) ok(4-6,8) assms(2) same(1-5) in \<open>auto simp: map_of_update split: if_splits\<close>)
qed

lemma in_update: "(i, e) \<in> set (AList.update k v xs) \<Longrightarrow> (i, e) = (k, v) \<or> (i, e) \<in> set xs"
  by (induction xs) (auto split: if_splits)

lemma open_ok_closing:
  assumes "open_ok a db m cl ss" and "cd_Status d \<noteq> Active" and "map_of ss sid \<noteq> None"
  shows "open_ok a db m (AList.update sid d cl) ss"
proof -
  note ok = open_okD[OF assms(1)]
  show ?thesis
  proof (rule open_okI)
    show "cd_Status e \<noteq> Active \<and> map_of ss i \<noteq> None" if "(i, e) \<in> set (AList.update sid d cl)" for i e
      using in_update[OF that] ok(8) assms(2,3) by (elim disjE) (simp, blast)
    show "m (cs_Borrower s) = Some i" if "map_of ss i = Some s" "cs_Status s = Active" "i \<notin> fst ` set (AList.update sid d cl)" for i s
      using that ok(6) by (simp add: dom_update)
  qed (rule ok; assumption)+
qed

lemma open_ok_status:
  "open_ok a db m cl ss \<Longrightarrow> map_of cl sid = Some d \<Longrightarrow> st \<noteq> Active \<Longrightarrow> open_ok a db m (AList.update sid (d\<lparr>cd_Status := st\<rparr>) cl) ss"
  by (rule open_ok_closing) (auto dest: open_okD(8) map_of_SomeD)

lemma open_ok_owner_gone:
  assumes "open_ok a db m cl ss" and "m own = Some sid" and "sid \<in> fst ` set cl"
  shows "open_ok a db (m(own := None)) cl ss"
proof -
  note ok = open_okD[OF assms(1)]
  obtain t where t: "map_of ss sid = Some t" "cs_Borrower t = own" using ok(3)[OF assms(2)] by blast
  show ?thesis
  proof (rule open_okI)
    show "(m(own := None)) (cs_Borrower s) = Some i" if "map_of ss i = Some s" "cs_Status s = Active" "i \<notin> fst ` set cl" for i s
      using ok(6)[OF that] that(3) assms(2,3) by (cases "cs_Borrower s = own") simp_all
    show "\<exists>s. map_of ss i = Some s \<and> cs_Status s = Active \<and> cs_Borrower s = o'" if "(m(own := None)) o' = Some i" for o' i
      using that ok(3) by (auto split: if_splits)
  qed (rule ok; assumption)+
qed

lemma open_ok_open:
  assumes "open_ok a db m cl ss" and "m own = None" and "map_of ss (cs_ID s) = None"
    and "cs_Status s = Active" "cs_Borrower s = own" "cs_CreditManager s = a" "cs_ClosedAt s = 0" "IsDirty s"
  shows "open_ok a db (m(own \<mapsto> cs_ID s)) cl (AList.update (cs_ID s) s ss)"
proof -
  note ok = open_okD[OF assms(1)]
  show ?thesis
  proof (rule open_okI)
    show "distinct (map fst (AList.update (cs_ID s) s ss))" using ok(1) by (rule distinct_update)
    show "\<exists>t. map_of (AList.update (cs_ID s) s ss) i = Some t \<and> cs_Status t = Active \<and> cs_Borrower t = o'"
      if "(m(own \<mapsto> cs_ID s)) o' = Some i" for o' i
      using that ok(3)[of o' i] assms(3-5) by (auto simp: map_of_update split: if_splits)
    show "(m(own \<mapsto> cs_ID s)) (cs_Borrower t) = Some i"
      if "map_of (AList.update (cs_ID s) s ss) i = Some t" "cs_Status t = Active" "i \<notin> fst ` set cl" for i t
      using that ok(6)[of i t] assms(2,5) by (auto simp: map_of_update split: if_splits)
    show "cd_Status d \<noteq> Active \<and> map_of (AList.update (cs_ID s) s ss) i \<noteq> None" if "(i, d) \<in> set cl" for i d
      using ok(8)[OF that] by (simp add: map_of_update)
  qed (use ok(2) ok(4,5,7,9) assms(4-8) in \<open>force simp: map_of_update split: if_splits\<close>)+
qed

lemma open_ok_transfer:
  assumes "open_ok a db m cl ss" and "m own = Some sid" and "map_of ss sid = Some s" and "new = own \<or> m new = None"
    and "row_of s' = (cs_ID s, cs_Status s, new, cs_CreditManager s)" "cs_ClosedAt s' = cs_ClosedAt s" "IsDirty s'"
  shows "open_ok a db (m(own := None, new \<mapsto> sid)) cl (AList.update sid s' ss)"
proof -
  note ok = open_okD[OF assms(1)]
  have s': "cs_ID s' = cs_ID s" "cs_Status s' = cs_Status s" "cs_Borrower s' = new" "cs_CreditManager s' = cs_CreditManager s"
    using assms(5) by (simp_all add: row_of_def)
  have s: "cs_Status s = Active" "cs_Borrower s = own" using ok(3)[OF assms(2)] assms(3) by auto
  have inj: "o' = own" if "m o' = Some sid" for o' using ok(3)[OF that] assms(3) s(2) by auto
  show ?thesis
  proof (rule open_okI)
    show "distinct (map fst (AList.update sid s' ss))" using ok(1) by (rule distinct_update)
    show "\<exists>t. map_of (AList.update sid s' ss) i = Some t \<and> cs_Status t = Active \<and> cs_Borrower t = o'"
      if "(m(own := None, new \<mapsto> sid)) o' = Some i" for o' i
      using that ok(3)[of o' i] inj[of o'] s s' by (auto simp: map_of_update split: if_splits)
    show "(m(own := None, new \<mapsto> sid)) (cs_Borrower t) = Some i"
      if "map_of (AList.update sid s' ss) i = Some t" "cs_Status t = Active" "i \<notin> fst ` set cl" for i t
      using that ok(6)[of i t] assms(2,4) s' by (auto simp: map_of_update split: if_splits)
    show "cd_Status d \<noteq> Active \<and> map_of (AList.update sid s' ss) i \<noteq> None" if "(i, d) \<in> set cl" for i d
      using ok(8)[OF that] by (simp add: map_of_update)
  qed (use ok(2) ok(4,5,7,9) assms(3,6,7) s' in \<open>force simp: map_of_update split: if_splits\<close>)+
qed

lemma open_ok_close:
  assumes "open_ok a db m cl ss" and "map_of ss sid = Some s" and "sid \<notin> ran m"
    and "cs_ID s' = cs_ID s" "cs_CreditManager s' = cs_CreditManager s" "cs_Status s' \<noteq> Active" "IsDirty s'"
  shows "open_ok a db m cl (AList.update sid s' ss)"
proof -
  note ok = open_okD[OF assms(1)]
  show ?thesis
  proof (rule open_okI)
    show "distinct (map fst (AList.update sid s' ss))" using ok(1) by (rule distinct_update)
    show "\<exists>t. map_of (AList.update sid s' ss) i = Some t \<and> cs_Status t = Active \<and> cs_Borrower t = o'"
      if "m o' = Some i" for o' i
      using ok(3)[OF that] that assms(3) by (auto simp: map_of_update ran_def)
    show "cd_Status d \<noteq> Active \<and> map_of (AList.update sid s' ss) i \<noteq> None" if "(i, d) \<in> set cl" for i d
      using ok(8)[OF that] by (simp add: map_of_update)
  qed (use ok(2) ok(4-7,9) assms(2,4-7) in \<open>force simp: map_of_update split: if_splits\<close>)+
qed

section \<open>The invariant of a manager\<close>

lemma open_sync_cong:
  "cm_addr w' = cm_addr w \<Longrightarrow> Sessions (State w') = Sessions (State w) \<Longrightarrow> ClosedSessions w' = ClosedSessions w \<Longrightarrow>
    sessions w' = sessions w \<Longrightarrow> open_sync a db w' = open_sync a db w"
  by (simp add: open_sync_def)

text \<open>The invariant together with the value of the state is kept by all the bookkeeping.\<close>

interpretation sync_steps: tx_steps "\<lambda>w. open_sync a db w \<and> State w = st" for a db st
  by unfold_locales (auto simp: open_sync_def intro: open_ok_session open_ok_status)

text \<open>Steps that keep the invariant and leave the state as it is.\<close>

definition keeps :: "address \<Rightarrow> session_table \<Rightarrow> cm_world \<Rightarrow> cm_world \<Rightarrow> bool" where
  "keeps a db w w' \<longleftrightarrow> State w' = State w \<and> ClosedSessions w' = ClosedSessions w \<and> (open_sync a db w \<longrightarrow> open_sync a db w')"

lemma keepsI: "State w' = State w \<Longrightarrow> ClosedSessions w' = ClosedSessions w \<Longrightarrow> (open_sync a db w \<Longrightarrow> open_sync a db w') \<Longrightarrow> keeps a db w w'"
  by (simp add: keeps_def)

lemma keeps_same:
  "State w' = State w \<Longrightarrow> ClosedSessions w' = ClosedSessions w \<Longrightarrow> cm_adapter w' = cm_adapter w \<Longrightarrow> sessions w' = sessions w \<Longrightarrow> keeps a db w w'"
  by (simp add: keeps_def open_sync_def)

lemma upd_session_fields: "upd_session sid f w = Inr w' \<Longrightarrow> State w' = State w \<and> ClosedSessions w' = ClosedSessions w"
  by (auto simp: upd_session_def elim!: rbind_InrE)

lemma upd_session_row:
  assumes "upd_session sid f w = Inr w'" and "\<And>s. same_row s (f s)"
  shows "keeps a db w w'"
  using upd_session_fields[OF assms(1)] sync_steps.upd_session_keeps[OF assms, of a db "State w"] by (simp add: keeps_def)

lemma UpdateCreditSession_row:
  assumes "UpdateCreditSession sid f w = Inr w'" and "\<And>s. same_row s (f s)"
  shows "keeps a db w w'"
  using assms(1) unfolding UpdateCreditSession_def
  by (rule upd_session_row) (use assms(2) in \<open>auto simp: same_row_def\<close>)

lemma AddAccountOperation_row: "AddAccountOperation op ms w = Inr w' \<Longrightarrow> keeps a db w w'"
  by (rule keeps_same) (auto simp: AddAccountOperation_def Let_def split: if_splits)

lemma AddCollateralToSession_row:
  assumes "AddCollateralToSession E b sid tok amt w = Inr w'"
  shows "keeps a db w w'"
proof (rule keepsI)
  show "State w' = State w" "ClosedSessions w' = ClosedSessions w"
    using assms by (auto simp: AddCollateralToSession_def dest!: upd_session_fields elim!: rbind_InrE split: if_splits)
  show "open_sync a db w \<Longrightarrow> open_sync a db w'"
    using sync_steps.AddCollateralToSession_keeps[OF assms, of a db "State w"] by simp
qed

lemma closeAccount_row: "closeAccount sid b h l w = Inr w' \<Longrightarrow> keeps a db w w'"
  by (rule keeps_same) (auto simp: closeAccount_def elim!: rbind_InrE)

lemma lift_mc_row: "lift_mc f w = Inr w' \<Longrightarrow> keeps a db w w'"
  by (rule keeps_same) (auto simp: lift_mc_def elim!: rbind_InrE)

lemma set_syncer_row: "set_syncer k x w = Inr w' \<Longrightarrow> keeps a db w w'"
  by (auto simp: keeps_def open_sync_def set_syncer_def set_detail_def Let_def elim!: rbind_InrE split: if_splits option.splits)

lemma addBorrow_row: "addBorrowAmountForBlock amt w = Inr w' \<Longrightarrow> keeps a db w w'"
  by (rule keeps_same) (auto simp: addBorrowAmountForBlock_def Let_def elim!: rbind_InrE)

lemmas row_rules = AddAccountOperation_row AddCollateralToSession_row closeAccount_row lift_mc_row set_syncer_row addBorrow_row

text \<open>Pure changes the invariant does not see.\<close>

lemma open_sync_simps [simp]:
  "open_sync a db (setUpdateSession s w) = open_sync a db w"
  "open_sync a db (SetBlock n w) = open_sync a db w"
  "open_sync a db (AddPoolLedger pl w) = open_sync a db w"
  "open_sync a db (PoolBorrow E l s b amt w) = open_sync a db w"
  "open_sync a db (PoolRepay E n i h s b amt w) = open_sync a db w"
  "open_sync a db (AddCreditSessionSnapshot css w) = open_sync a db w"
  "open_sync a db (setParams p w) = open_sync a db w"
  "open_sync a db (w\<lparr>multicall := mc\<rparr>) = open_sync a db w"
  "open_sync a db (w\<lparr>executeParams := es\<rparr>) = open_sync a db w"
  "open_sync a db (w\<lparr>LastTxHash := h\<rparr>) = open_sync a db w"
  "open_sync a db (w\<lparr>accountManager := am\<rparr>) = open_sync a db w"
  "open_sync a db (w\<lparr>lastEventBlock := n\<rparr>) = open_sync a db w"
  "open_sync a db (w\<lparr>UpdatedSessions := us\<rparr>) = open_sync a db w"
  "open_sync a db (w\<lparr>daoOperations := ds\<rparr>) = open_sync a db w"
  "open_sync a db (w\<lparr>transferAllowed := ts\<rparr>) = open_sync a db w"
  "open_sync a db (w\<lparr>disableBlocks := dbs\<rparr>) = open_sync a db w"
  "open_sync a db (w\<lparr>newAdapters := as\<rparr>) = open_sync a db w"
  "open_sync a db (w\<lparr>pnlOnCM := pm\<rparr>) = open_sync a db w"
  "open_sync a db (w\<lparr>borrowedAmountForBlock := bb\<rparr>) = open_sync a db w"
  "Sessions st = Sessions (State w) \<Longrightarrow> open_sync a db (w\<lparr>State := st\<rparr>) = open_sync a db w"
  by (simp_all add: open_sync_def setUpdateSession_def SetBlock_def AddPoolLedger_def PoolBorrow_def PoolRepay_def
      AddCreditSessionSnapshot_def setParams_def Let_def)

text \<open>An opening, the two parts of a closing, and a transfer.\<close>

lemma open_step:
  assumes "AddCreditSession s h l (AddCreditOwnerSession own sid w) = Inr w'" and "open_sync a db w" and "Sessions (State w) own = None"
    and "sid = cs_ID s" "cs_Status s = Active" "cs_Borrower s = own" "cs_CreditManager s = cm_addr w" "cs_ClosedAt s = 0" "IsDirty s"
  shows "open_sync a db w'"
proof -
  have "map_of (sessions w) (cs_ID s) = None" and w': "sessions w' = AList.update (cs_ID s) s (sessions w)" "ClosedSessions w' = ClosedSessions w"
    "cm_addr w' = cm_addr w" "Sessions (State w') = (Sessions (State w))(own \<mapsto> cs_ID s)"
    using assms(1,4) by (auto simp: AddCreditSession_def AddCreditOwnerSession_def elim!: rbind_InrE)
  then show ?thesis using assms(2-9) open_ok_open[of a db "Sessions (State w)" "ClosedSessions w" "sessions w" own s]
    unfolding open_sync_def w' by simp
qed

lemma owner_session: "GetCreditOwnerSession own False w = Inr sid \<Longrightarrow> Sessions (State w) own = Some sid"
  unfolding GetCreditOwnerSession_Inr by (elim conjE, hypsubst, rule zget_Some_iff)

lemma closing_step:
  assumes "open_sync a db w" and "Sessions (State w) own = Some sid" and "cd_Status d \<noteq> Active"
  shows "open_sync a db (w\<lparr>ClosedSessions := AList.update sid d (ClosedSessions w)\<rparr>)"
proof -
  have ok: "open_ok a db (Sessions (State w)) (ClosedSessions w) (sessions w)" using assms(1) by (simp add: open_sync_def)
  then have "map_of (sessions w) sid \<noteq> None" using open_okD(3)[OF ok assms(2)] by auto
  then show ?thesis using open_ok_closing[OF ok assms(3)] assms(1) by (simp add: open_sync_def)
qed

lemma owner_gone_step:
  assumes "open_sync a db w" and "Sessions (State w) own = Some sid" and "sid \<in> fst ` set (ClosedSessions w)"
  shows "open_sync a db (RemoveCreditOwnerSession own w)"
  using assms open_ok_owner_gone[of a db "Sessions (State w)" "ClosedSessions w" "sessions w" own sid]
  by (simp add: open_sync_def RemoveCreditOwnerSession_def)

lemma transfer_step:
  assumes "UpdateCreditSession sid (\<lambda>s. s\<lparr>cs_Borrower := new\<rparr>) (AddCreditOwnerSession new sid (RemoveCreditOwnerSession own w)) = Inr w'"
    and "open_sync a db w" and "Sessions (State w) own = Some sid" and "new = own \<or> Sessions (State w) new = None"
  shows "open_sync a db w'"
proof -
  have ok: "open_ok a db (Sessions (State w)) (ClosedSessions w) (sessions w)" "cm_addr w = a" using assms(2) by (simp_all add: open_sync_def)
  obtain s where s: "map_of (sessions w) sid = Some s"
    and w': "sessions w' = AList.update sid (s\<lparr>IsDirty := True, cs_Borrower := new\<rparr>) (sessions w)" "ClosedSessions w' = ClosedSessions w"
    "cm_addr w' = cm_addr w" "Sessions (State w') = (Sessions (State w))(own := None, new \<mapsto> sid)"
    using assms(1) by (auto simp: UpdateCreditSession_def upd_session_def GetCreditSession_def AddCreditOwnerSession_def
        RemoveCreditOwnerSession_def elim!: rbind_InrE)
  show ?thesis unfolding open_sync_def w'
    using open_ok_transfer[OF ok(1) assms(3) s assms(4), of "s\<lparr>IsDirty := True, cs_Borrower := new\<rparr>"] ok(2) by (simp add: row_of_def)
qed

section \<open>The handlers\<close>

lemma State_simps [simp]:
  "State (PoolBorrow E l s b amt w) = State w" "State (PoolRepay E n i h s b amt w) = State w"
  "ClosedSessions (PoolBorrow E l s b amt w) = ClosedSessions w" "ClosedSessions (PoolRepay E n i h s b amt w) = ClosedSessions w"
  by (simp_all add: PoolBorrow_def PoolRepay_def AddPoolLedger_def Let_def)

lemma keepsD: "keeps a db w w' \<Longrightarrow> open_sync a db w \<Longrightarrow> open_sync a db w'" "keeps a db w w' \<Longrightarrow> State w' = State w"
  "keeps a db w w' \<Longrightarrow> ClosedSessions w' = ClosedSessions w"
  by (simp_all add: keeps_def)

lemma CMStatsOnOpen_row:
  assumes "CMStatsOnOpenAccount amt w = Inr w'"
  shows "Sessions (State w') = Sessions (State w)" "open_sync a db w \<Longrightarrow> open_sync a db w'"
proof -
  note k = addBorrow_row[OF assms[unfolded CMStatsOnOpenAccount_def], of a db]
  show "Sessions (State w') = Sessions (State w)" using keepsD(2)[OF k] by simp
  show "open_sync a db w \<Longrightarrow> open_sync a db w'" by (rule keepsD(1)[OF k]) simp
qed

lemma onOpen_sync:
  assumes "onOpenCreditAccount E l own account c b w = Inr w'" and "open_sync a db w" and "Sessions (State w) own = None"
  shows "open_sync a db w'"
proof -
  let ?sid = "session_id E account l"
  obtain w1 op w3 s w5 where 1: "CMStatsOnOpenAccount b w = Inr w1"
    and 3: "AddAccountOperation op [] (PoolBorrow E l ?sid own b w1) = Inr w3"
    and 5: "AddCreditSession s (TxHash l) (Index l) (AddCreditOwnerSession own ?sid (setUpdateSession ?sid w3)) = Inr w5"
    and s: "cs_ID s = ?sid" "cs_Status s = Active" "cs_Borrower s = own" "cs_CreditManager s = cm_addr w3" "cs_ClosedAt s = 0" "IsDirty s"
    and 6: "AddCollateralToSession E (BlockNumber l) ?sid (GetUnderlyingToken w5) c (setUpdateSession ?sid w5) = Inr w'"
    using assms(1) unfolding onOpenCreditAccount_def Let_def case_prod_unfold
    by (elim rbind_InrE) (rule that, assumption+, simp_all add: AddCreditOwnerSession_def setUpdateSession_def)
  have "open_sync a db (PoolBorrow E l ?sid own b w1)" using CMStatsOnOpen_row(2)[OF 1 assms(2)] by simp
  then have w3: "open_sync a db w3" "Sessions (State w3) own = None"
    using keepsD(1,2)[OF AddAccountOperation_row[OF 3]] CMStatsOnOpen_row(1)[OF 1] assms(3) by simp_all
  have "open_sync a db w5"
    by (rule open_step[OF 5]) (use w3 s in \<open>simp_all add: setUpdateSession_def\<close>)
  then show ?thesis using keepsD(1)[OF AddCollateralToSession_row[OF 6]] by simp
qed

lemma onOpenV2_sync:
  assumes "onOpenCreditAccountV2 E l own account b w = Inr w'" and "open_sync a db w" and "Sessions (State w) own = None"
  shows "open_sync a db w'"
proof -
  let ?sid = "session_id E account l"
  obtain w1 f w2 s where 1: "CMStatsOnOpenAccount b w = Inr w1" and 2: "lift_mc f w1 = Inr w2"
    and 5: "AddCreditSession s (TxHash l) (Index l) (AddCreditOwnerSession own ?sid (PoolBorrow E l ?sid own b w2)) = Inr w'"
    and s: "cs_ID s = ?sid" "cs_Status s = Active" "cs_Borrower s = own" "cs_CreditManager s = cm_addr (PoolBorrow E l ?sid own b w2)"
      "cs_ClosedAt s = 0" "IsDirty s"
    using assms(1) unfolding onOpenCreditAccountV2_def Let_def case_prod_unfold
    by (elim rbind_InrE) (rule that, assumption+, simp_all add: AddCreditOwnerSession_def)
  have w2: "open_sync a db w2" "Sessions (State w2) own = None"
    using keepsD(1,2)[OF lift_mc_row[OF 2]] CMStatsOnOpen_row[OF 1] assms(2,3) by simp_all
  show ?thesis by (rule open_step[OF 5]) (use w2 s in simp_all)
qed

text \<open>What every closing ends with.\<close>

lemma leave_end:
  assumes "closeAccount sid b h n (RemoveCreditOwnerSession own w) = Inr w'" and "open_sync a db w"
    and "Sessions (State w) own = Some sid" and "sid \<in> fst ` set (ClosedSessions w)"
  shows "open_sync a db w'"
  by (rule keepsD(1)[OF closeAccount_row[OF assms(1)]]) (rule owner_gone_step[OF assms(2-4)])

lemma in_closing: "sid \<in> fst ` set (AList.update sid d cl)"
  by (simp add: dom_update)

lemma onClose_sync:
  assumes "onCloseCreditAccount E l own rf w = Inr w'" and "open_sync a db w"
  shows "open_sync a db w'"
proof -
  let ?w1 = "upd_State (\<lambda>s. s\<lparr>TotalClosedAccounts := TotalClosedAccounts s + 1\<rparr>) w"
  obtain sid w2 op w3 d where 1: "GetCreditOwnerSession own False ?w1 = Inr sid"
    and 2: "upd_session sid (\<lambda>s. s\<lparr>cs_RemainingFunds := Some rf\<rparr>) ?w1 = Inr w2" and 3: "AddAccountOperation op [] w2 = Inr w3"
    and 4: "closeAccount sid (BlockNumber l) (TxHash l) (Index l)
      (RemoveCreditOwnerSession own (w3\<lparr>ClosedSessions := AList.update sid d (ClosedSessions w3)\<rparr>)) = Inr w'" and d: "cd_Status d \<noteq> Active"
    using assms(1) unfolding onCloseCreditAccount_def Let_def case_prod_unfold
    by (elim rbind_InrE) (rule that, assumption+, simp)
  have k2: "keeps a db ?w1 w2" by (rule upd_session_row[OF 2]) (simp add: same_row_def)
  note k3 = AddAccountOperation_row[OF 3, of a db]
  have own: "Sessions (State w3) own = Some sid"
    using owner_session[OF 1] keepsD(2)[OF k2] keepsD(2)[OF k3] by simp
  have "open_sync a db w3" using keepsD(1)[OF k3] keepsD(1)[OF k2] assms(2) by simp
  from closing_step[OF this own d] show ?thesis by (rule leave_end[OF 4]) (simp_all add: own in_closing)
qed

lemma onCloseV2_sync:
  assumes "onCloseCreditAccountV2 E l own rcv w = Inr w'" and "open_sync a db w"
  shows "open_sync a db w'"
proof -
  let ?w1 = "upd_State (\<lambda>s. s\<lparr>TotalClosedAccounts := TotalClosedAccounts s + 1\<rparr>) w"
  obtain sid tr rf w2 mc d where 1: "GetCreditOwnerSession own False ?w1 = Inr sid"
    and 2: "UpdateCreditSession sid (\<lambda>s. s\<lparr>cs_CloseTransfers := tr, cs_RemainingFunds := Some rf\<rparr>) ?w1 = Inr w2"
    and 4: "closeAccount sid (BlockNumber l) (TxHash l) (Index l) (RemoveCreditOwnerSession own
      (w2\<lparr>multicall := mc, ClosedSessions := AList.update sid d (ClosedSessions w2)\<rparr>)) = Inr w'" and d: "cd_Status d \<noteq> Active"
    using assms(1) unfolding onCloseCreditAccountV2_def Let_def case_prod_unfold
    by (elim rbind_InrE) (rule that, assumption+, simp)
  have k2: "keeps a db ?w1 w2" by (rule UpdateCreditSession_row[OF 2]) (simp add: same_row_def)
  have own: "Sessions (State w2) own = Some sid" using owner_session[OF 1] keepsD(2)[OF k2] by simp
  have "open_sync a db (w2\<lparr>multicall := mc\<rparr>)" using keepsD(1)[OF k2] assms(2) by simp
  from closing_step[OF this, of own sid d] own d
  have "open_sync a db (w2\<lparr>multicall := mc, ClosedSessions := AList.update sid d (ClosedSessions w2)\<rparr>)" by simp
  then show ?thesis by (rule leave_end[OF 4]) (simp_all add: own in_closing)
qed

lemma onLiquidate_sync:
  assumes "onLiquidateCreditAccount E l own lq rf w = Inr w'" and "open_sync a db w"
  shows "open_sync a db w'"
proof -
  let ?w1 = "upd_State (\<lambda>s. s\<lparr>TotalLiquidatedAccounts := TotalLiquidatedAccounts s + 1\<rparr>) w"
  obtain sid op w2 d w4 where 1: "GetCreditOwnerSession own False ?w1 = Inr sid" and 2: "AddAccountOperation op [] ?w1 = Inr w2"
    and 3: "upd_session sid (\<lambda>s. s\<lparr>cs_Liquidator := lq, cs_RemainingFunds := Some rf\<rparr>)
      (w2\<lparr>ClosedSessions := AList.update sid d (ClosedSessions w2)\<rparr>) = Inr w4"
    and 4: "closeAccount sid (BlockNumber l) (TxHash l) (Index l) (RemoveCreditOwnerSession own w4) = Inr w'" and d: "cd_Status d \<noteq> Active"
    using assms(1) unfolding onLiquidateCreditAccount_def Let_def case_prod_unfold
    by (elim rbind_InrE) (rule that, assumption+, simp)
  note k2 = AddAccountOperation_row[OF 2, of a db]
  have own: "Sessions (State w2) own = Some sid" using owner_session[OF 1] keepsD(2)[OF k2] by simp
  have "open_sync a db w2" using keepsD(1)[OF k2] assms(2) by simp
  note c = closing_step[OF this own d]
  have k3: "keeps a db (w2\<lparr>ClosedSessions := AList.update sid d (ClosedSessions w2)\<rparr>) w4"
    by (rule upd_session_row[OF 3]) (simp add: same_row_def)
  show ?thesis
    by (rule leave_end[OF 4 keepsD(1)[OF k3 c]]) (simp_all add: own in_closing keepsD(2,3)[OF k3])
qed

lemma onLiquidateV2_sync:
  assumes "onLiquidateCreditAccountV2 E l own lq rf w = Inr w'" and "open_sync a db w"
  shows "open_sync a db w'"
proof -
  let ?w1 = "upd_State (\<lambda>s. s\<lparr>TotalLiquidatedAccounts := TotalLiquidatedAccounts s + 1\<rparr>) w"
  obtain sid mc d w3 where 1: "GetCreditOwnerSession own False ?w1 = Inr sid"
    and 3: "upd_session sid (\<lambda>s. s\<lparr>cs_Liquidator := lq, cs_RemainingFunds := Some rf\<rparr>)
      (?w1\<lparr>multicall := mc, ClosedSessions := AList.update sid d (ClosedSessions ?w1)\<rparr>) = Inr w3"
    and 4: "closeAccount sid (BlockNumber l) (TxHash l) (Index l) (RemoveCreditOwnerSession own w3) = Inr w'" and d: "cd_Status d \<noteq> Active"
    using assms(1) unfolding onLiquidateCreditAccountV2_def Let_def case_prod_unfold
    by (elim rbind_InrE) (rule that, assumption+, simp)
  have own: "Sessions (State ?w1) own = Some sid" using owner_session[OF 1] by simp
  have "open_sync a db (?w1\<lparr>multicall := mc\<rparr>)" using assms(2) by simp
  from closing_step[OF this, of own sid d] own d
  have c: "open_sync a db (?w1\<lparr>multicall := mc, ClosedSessions := AList.update sid d (ClosedSessions ?w1)\<rparr>)" by simp
  have k3: "keeps a db (?w1\<lparr>multicall := mc, ClosedSessions := AList.update sid d (ClosedSessions ?w1)\<rparr>) w3"
    by (rule upd_session_row[OF 3]) (simp add: same_row_def)
  show ?thesis
    by (rule leave_end[OF 4 keepsD(1)[OF k3 c]]) (use own in \<open>simp_all add: in_closing keepsD(2,3)[OF k3]\<close>)
qed

lemma onRepay_sync:
  assumes "onRepayCreditAccount E l own w = Inr w'" and "open_sync a db w"
  shows "open_sync a db w'"
proof -
  let ?w1 = "upd_State (\<lambda>s. s\<lparr>TotalRepaidAccounts := TotalRepaidAccounts s + 1\<rparr>) w"
  obtain sid d where 1: "GetCreditOwnerSession own False ?w1 = Inr sid"
    and 4: "closeAccount sid (BlockNumber l) (TxHash l) (Index l)
      (RemoveCreditOwnerSession own (?w1\<lparr>ClosedSessions := AList.update sid d (ClosedSessions ?w1)\<rparr>)) = Inr w'" and d: "cd_Status d \<noteq> Active"
    using assms(1) unfolding onRepayCreditAccount_def Let_def case_prod_unfold
    by (elim rbind_InrE) (rule that, assumption+, simp)
  have own: "Sessions (State ?w1) own = Some sid" using owner_session[OF 1] by simp
  have "open_sync a db ?w1" using assms(2) by simp
  from closing_step[OF this own d] show ?thesis by (rule leave_end[OF 4]) (use own in \<open>simp_all add: in_closing\<close>)
qed

lemma onTransfer_sync:
  assumes "onTransferAccount E l own new w = Inr w'" and "open_sync a db w" and "new = own \<or> Sessions (State w) new = None"
  shows "open_sync a db w'"
proof -
  obtain sid op w1 where 1: "GetCreditOwnerSession own False w = Inr sid" and 2: "AddAccountOperation op [] w = Inr w1"
    and 3: "UpdateCreditSession sid (\<lambda>s. s\<lparr>cs_Borrower := new\<rparr>) (AddCreditOwnerSession new sid (RemoveCreditOwnerSession own w1)) = Inr w'"
    using assms(1) unfolding onTransferAccount_def Let_def case_prod_unfold
    by (elim rbind_InrE) (rule that, assumption+)
  note k = AddAccountOperation_row[OF 2, of a db]
  show ?thesis
    using transfer_step[OF 3 keepsD(1)[OF k assms(2)]] owner_session[OF 1] assms(3) keepsD(2)[OF k] by simp
qed

text \<open>The handlers that open and close nothing.\<close>

lemma keeps_imp: "keeps a db w w' \<Longrightarrow> open_sync a db w \<longrightarrow> open_sync a db w'"
  by (simp add: keeps_def)

lemma borrowed_row:
  "UpdateCreditSession sid (\<lambda>s. s\<lparr>cs_BorrowedAmount := cs_BorrowedAmount s + amount\<rparr>) w = Inr w' \<Longrightarrow> keeps a db w w'"
  by (erule UpdateCreditSession_row) (simp add: same_row_def)

lemmas row_imps = row_rules[THEN keeps_imp] borrowed_row[THEN keeps_imp]

lemma onAddCollateral_sync: "onAddCollateral E l own tok v w = Inr w' \<Longrightarrow> open_sync a db w \<longrightarrow> open_sync a db w'"
  unfolding onAddCollateral_def Let_def case_prod_unfold by (elim rbind_InrE) ((drule row_imps[where a = a and db = db])+, clarsimp)

lemma onIncreaseBorrowedAmount_sync: "onIncreaseBorrowedAmount E l own amt w = Inr w' \<Longrightarrow> open_sync a db w \<longrightarrow> open_sync a db w'"
  unfolding onIncreaseBorrowedAmount_def Let_def case_prod_unfold by (elim rbind_InrE) ((drule row_imps[where a = a and db = db])+, clarsimp)

lemma onAddCollateralV2_sync: "onAddCollateralV2 E l own tok v w = Inr w' \<Longrightarrow> open_sync a db w \<longrightarrow> open_sync a db w'"
  unfolding onAddCollateralV2_def Let_def case_prod_unfold by (elim rbind_InrE) ((drule row_imps[where a = a and db = db])+, clarsimp)

lemma AddExecuteParamsV2_sync: "AddExecuteParamsV2 l own t w = Inr w' \<Longrightarrow> open_sync a db w \<longrightarrow> open_sync a db w'"
  unfolding AddExecuteParamsV2_def by (elim rbind_InrE) ((drule row_imps[where a = a and db = db])+, clarsimp)

lemma enableOrDisableToken_sync: "enableOrDisableToken l own tok act w = Inr w' \<Longrightarrow> open_sync a db w \<longrightarrow> open_sync a db w'"
  unfolding enableOrDisableToken_def by (elim rbind_InrE) ((drule row_imps[where a = a and db = db])+, clarsimp)

lemma startMulticall_sync: "startMulticall l own w = Inr w' \<Longrightarrow> open_sync a db w \<longrightarrow> open_sync a db w'"
  unfolding startMulticall_def by (elim rbind_InrE) ((drule row_imps[where a = a and db = db])+, clarsimp)

lemma AddExecuteParams_sync: "AddExecuteParams l own t w = Inr w' \<Longrightarrow> open_sync a db w \<longrightarrow> open_sync a db w'"
  unfolding AddExecuteParams_def by (elim rbind_InrE) clarsimp

lemma NewParametersV1_sync [simp]: "open_sync a db (NewParametersV1 l mn mx lev fi fl d w) = open_sync a db w"
  by (simp add: NewParametersV1_def Let_def)

lemma onIncreaseBorrowedAmountV2_sync:
  assumes "onIncreaseBorrowedAmountV2 E l own amt ev w = Inr w'"
  shows "open_sync a db w \<longrightarrow> open_sync a db w'"
proof (cases "amt > 0")
  case True
  then show ?thesis using assms unfolding onIncreaseBorrowedAmountV2_def Let_def case_prod_unfold if_P[OF True]
    by (elim rbind_InrE) ((drule row_imps[where a = a and db = db])+, clarsimp)
next
  case False
  then show ?thesis using assms unfolding onIncreaseBorrowedAmountV2_def Let_def case_prod_unfold if_not_P[OF False]
    by (elim rbind_InrE) ((drule row_imps[where a = a and db = db])+, clarsimp split: if_splits)
qed

lemma newConfigurator_sync: "newConfigurator l new w = Inr w' \<Longrightarrow> open_sync a db w \<longrightarrow> open_sync a db w'"
  unfolding newConfigurator_def setConfiguratorSyncer_def Let_def
  by (elim rbind_InrE) (auto dest!: set_syncer_row[THEN keeps_imp, where a = a and db = db] split: if_splits)

lemma onConfiguratorLog_sync: "onConfiguratorLog l w = Inr w' \<Longrightarrow> open_sync a db w \<longrightarrow> open_sync a db w'"
  unfolding onConfiguratorLog_def setCreditFacadeSyncer_def
  by (cases "payload l") (auto dest: set_syncer_row[THEN keeps_imp, where a = a and db = db])

lemma onTxHash_sync: "onTxHash E h w = Inr w' \<Longrightarrow> open_sync a db w \<Longrightarrow> open_sync a db w'"
  using sync_steps.saveExecuteEvents_keeps[of E _ _ _ a db "State w"]
    sync_steps.processNonMultiCalls_keeps[of w _ _ a db "State w"]
    sync_steps.processRemaining_keeps[of E _ _ _ a db "State w"]
  by (auto simp: onTxHash_def onNewTxHashV2_def processExecuteEvents_def elim!: rbind_InrE split: if_splits)

lemmas side_sync = onAddCollateral_sync onIncreaseBorrowedAmount_sync AddExecuteParams_sync onAddCollateralV2_sync
  onIncreaseBorrowedAmountV2_sync AddExecuteParamsV2_sync enableOrDisableToken_sync startMulticall_sync newConfigurator_sync
  lift_mc_row[THEN keeps_imp]

lemmas account_sync = onOpen_sync onOpenV2_sync onClose_sync onCloseV2_sync onLiquidate_sync onLiquidateV2_sync onRepay_sync onTransfer_sync

lemma checkLogV1_sync:
  "checkLogV1 E l w = Inr w' \<Longrightarrow> owner_free (OpLog l) w \<Longrightarrow> open_sync a db w \<Longrightarrow> open_sync a db w'"
  unfolding checkLogV1_def owner_free_def
  by (cases "payload l"; simp; (rule account_sync side_sync[THEN mp], assumption+)?; (hypsubst, simp)?)

lemma checkLogV2_sync:
  "checkLogV2 E l w = Inr w' \<Longrightarrow> owner_free (OpLog l) w \<Longrightarrow> open_sync a db w \<Longrightarrow> open_sync a db w'"
  unfolding checkLogV2_def owner_free_def
  by (cases "payload l"; simp add: Let_def; (rule account_sync side_sync[THEN mp], assumption+)?; (hypsubst, simp)?)

lemma onTxHash_State:
  assumes "onTxHash E h w = Inr w'"
  shows "Sessions (State w') = Sessions (State w)"
  using onTxHash_core[OF assms] by (simp add: acct_def)

lemma cm_OnLog_sync:
  assumes "cm_OnLog E l w = Inr w'" and "owner_free (OpLog l) w" and "open_sync a db w"
  shows "open_sync a db w'"
proof -
  obtain c where c: "GetDetailsByKey ''configurator'' (cm_adapter w) = Inr c"
    using assms(1) unfolding cm_OnLog_def by (elim rbind_InrE)
  show ?thesis
  proof (cases "c = logAddress l")
    case True
    then show ?thesis using assms(1,3) c onConfiguratorLog_sync[of l w w' a db] by (simp add: cm_OnLog_def)
  next
    case False
    obtain w1 am where 1: "onTxHash E (TxHash l) w = Inr w1"
      and 2: "(let w2 = w1\<lparr>lastEventBlock := BlockNumber l, accountManager := am\<rparr> in
            if IsGBv1 w2 then checkLogV1 E l w2 else checkLogV2 E l w2) = Inr w'"
      using assms(1) c False unfolding cm_OnLog_def by (auto elim!: rbind_InrE)
    define w2 where "w2 = w1\<lparr>lastEventBlock := BlockNumber l, accountManager := am\<rparr>"
    have "open_sync a db w2" using onTxHash_sync[OF 1 assms(3)] by (simp add: w2_def)
    moreover have "owner_free (OpLog l) w2"
      using assms(2) onTxHash_State[OF 1] by (simp add: owner_free_def w2_def split: cm_event.splits)
    ultimately show ?thesis
      using 2 checkLogV1_sync[of E l w2 w' a db] checkLogV2_sync[of E l w2 w' a db] by (simp add: w2_def[symmetric] Let_def split: if_splits)
  qed
qed

section \<open>The end of a block\<close>

lemma field_row:
  "upd_session sid (\<lambda>s. s\<lparr>cs_BorrowedAmount := x\<rparr>) w = Inr w' \<Longrightarrow> keeps a db w w'"
  "upd_session sid (\<lambda>s. s\<lparr>cs_Balances := bs\<rparr>) w = Inr w' \<Longrightarrow> keeps a db w w'"
  "upd_session sid (\<lambda>s. s\<lparr>cs_RemainingFunds := rf\<rparr>) w = Inr w' \<Longrightarrow> keeps a db w w'"
  "UpdateCreditSession sid (\<lambda>s. s) w = Inr w' \<Longrightarrow> keeps a db w w'"
  by (auto elim!: upd_session_row UpdateCreditSession_row simp: same_row_def)

lemmas field_imps = field_row[THEN keeps_imp]

lemma updateSession_sync: "updateSession E b sid d w = Inr w' \<Longrightarrow> open_sync a db w \<longrightarrow> open_sync a db w'"
  unfolding updateSession_def by (elim rbind_InrE) ((drule field_imps[where a = a and db = db])+, clarsimp)

lemma finish_repay_sync: "finish_repay sid d cd w = Inr w' \<Longrightarrow> open_sync a db w \<longrightarrow> open_sync a db w'"
  unfolding finish_repay_def
  by (auto dest!: field_imps[where a = a and db = db] row_imps[where a = a and db = db] elim!: rbind_InrE split: if_splits)

lemma closeSession_sync: "closeSession E b sid d cd w = Inr w' \<Longrightarrow> open_sync a db w \<longrightarrow> open_sync a db w'"
  unfolding closeSession_def Let_def
  by (elim rbind_InrE) ((drule field_imps[where a = a and db = db] finish_repay_sync[where a = a and db = db])+, clarsimp)

lemma calculateCMStat_sync [simp]: "open_sync a db (calculateCMStat E b d w) = open_sync a db w"
  by (rule open_sync_cong)
    (simp_all add: calculateCMStat_def getBorrowAmountForBlockAndClear_def pnl_Get_def Let_def addProtocolAdapters_def SetBlock_def split: option.splits)

lemma process_result_sync: "process_result E b c w = Inr w' \<Longrightarrow> open_sync a db w \<Longrightarrow> open_sync a db w'"
  by (auto simp: process_result_def dest!: updateSession_sync[where a = a and db = db] split: dc_call.splits option.splits)

lemma process_results_sync: "rfold (process_result E b) cs w = Inr w' \<Longrightarrow> open_sync a db w \<Longrightarrow> open_sync a db w'"
  by (erule rfold_invariant) (auto dest: process_result_sync)

text \<open>Closing the waiting sessions; owners do not share a session with one that waits.\<close>

lemma close_one_sync:
  assumes "close_one b (sid, cd) (calls, w) = Inr (calls', w')" and "open_sync a db w" and "sid \<notin> ran (Sessions (State w))" and "cd_Status cd \<noteq> Active"
  shows "open_sync a db w' \<and> Sessions (State w') = Sessions (State w)"
proof -
  obtain s where s: "map_of (sessions w) sid = Some s"
    and w': "sessions w' = AList.update sid (s\<lparr>IsDirty := True, cs_ClosedAt := b, cs_Status := cd_Status cd\<rparr>) (sessions w)"
      "ClosedSessions w' = ClosedSessions w" "cm_addr w' = cm_addr w" "Sessions (State w') = Sessions (State w)"
    using assms(1)
    by (auto simp: close_one_def closeSessionCallAndResultFn_def UpdateCreditSession_def upd_session_def GetCreditSession_def Let_def elim!: rbind_InrE)
  have "open_ok a db (Sessions (State w)) (ClosedSessions w) (sessions w)" and a: "cm_addr w = a" using assms(2) by (simp_all add: open_sync_def)
  from open_ok_close[OF this(1) s assms(3), of "s\<lparr>IsDirty := True, cs_ClosedAt := b, cs_Status := cd_Status cd\<rparr>"]
  show ?thesis unfolding open_sync_def w' using assms(4) a by simp
qed

lemma close_all_sync:
  assumes "close_all E b w = Inr w'" and "open_sync a db w" and "ran (Sessions (State w)) \<inter> fst ` set (ClosedSessions w) = {}"
  shows "open_sync a db w'"
proof -
  obtain calls w1 where 1: "rfold (close_one b) (ClosedSessions w) ([], w) = Inr (calls, w1)"
    and 2: "rfold (close_answer E b) calls w1 = Inr w'"
    using assms(1) unfolding close_all_def by (auto elim!: rbind_InrE)
  let ?I = "\<lambda>st. open_sync a db (snd st) \<and> Sessions (State (snd st)) = Sessions (State w)"
  have ok: "open_ok a db (Sessions (State w)) (ClosedSessions w) (sessions w)" using assms(2) by (simp add: open_sync_def)
  have "?I (calls, w1)"
  proof (rule rfold_invariant[where I = ?I, OF 1])
    fix c and st st' :: "(string \<times> address \<times> close_details) list \<times> cm_world"
    assume c: "c \<in> set (ClosedSessions w)" and I: "?I st" and step: "close_one b c st = Inr st'"
    obtain sid d where sd: "c = (sid, d)" by (cases c)
    have "sid \<notin> ran (Sessions (State w))" using c sd assms(3) by (metis IntI emptyE fst_conv image_eqI)
    moreover have "cd_Status d \<noteq> Active" using open_okD(8)[OF ok, of sid d] c sd by simp
    ultimately show "?I st'" using close_one_sync[of b sid d "fst st" "snd st" "fst st'" "snd st'" a db] step I sd by simp
  qed (use assms(2) in simp)
  then have "open_sync a db w1" by simp
  with 2 show ?thesis
    by (rule rfold_invariant) (auto simp: close_answer_def dest!: closeSession_sync[where a = a and db = db] split: option.splits)
qed

lemma open_ok_flush:
  assumes "open_ok a db m cl ss" and "\<And>sid s. sid \<in> fst ` set cl \<Longrightarrow> map_of ss sid = Some s \<Longrightarrow> cs_Status s \<noteq> Active"
  shows "open_ok a db m [] ss"
proof -
  note ok = open_okD[OF assms(1)]
  show ?thesis
  proof (rule open_okI)
    show "m (cs_Borrower s) = Some i" if "map_of ss i = Some s" "cs_Status s = Active" for i s
      using ok(6)[OF that] assms(2)[OF _ that(1)] that(2) by blast
    show "cd_Status d \<noteq> Active \<and> map_of ss sid \<noteq> None" if "(sid, d) \<in> set []" for sid d using that by simp
  qed (rule ok; assumption)+
qed

lemma acc_closing:
  assumes "acc_ok (acct w)"
  shows "distinct (map fst (ClosedSessions w))" "ran (Sessions (State w)) \<inter> fst ` set (ClosedSessions w) = {}"
  using acc_okD(3,4)[OF assms] by (simp_all add: acct_def)

lemma update_one_sync:
  assumes "update_one sid (calls, w) = Inr (calls', w')"
  shows "keeps a db w w'"
proof (cases "map_of (ClosedSessions w) sid = None")
  case True
  then obtain w1 where "UpdateCreditSession sid (\<lambda>s. s) w = Inr w1" "w' = w1"
    using assms by (auto simp: update_one_def updateSessionCallAndProcessFn_def elim!: rbind_InrE)
  then show ?thesis using field_row(4) by blast
next
  case False
  then show ?thesis using assms by (auto simp: update_one_def keeps_def)
qed

lemma acct_closing: "acc_closing (acct w) = map fst (ClosedSessions w)"
  by (simp add: acct_def)

lemma acc_closing_count: "acc_closing (a\<lparr>acc_open_count := n\<rparr>) = acc_closing a"
  by simp

lemma Fetch_sync:
  assumes "FetchFromDCForChangedSessions E b w = Inr (calls, w')" and "open_sync a db w" and "acc_ok (acct w)"
  shows "open_sync a db w'"
proof -
  obtain w1 w2 where 1: "rfold update_one (map fst (UpdatedSessions w)) ([], w) = Inr (calls, w1)"
    and 2: "close_all E b w1 = Inr w2" and w': "w' = w2\<lparr>UpdatedSessions := [], ClosedSessions := []\<rparr>"
    using assms(1) unfolding FetchFromDCForChangedSessions_def by (auto elim!: rbind_InrE)
  have "open_sync a db (snd (calls, w1)) \<and> State (snd (calls, w1)) = State w \<and> ClosedSessions (snd (calls, w1)) = ClosedSessions w"
    using 1 by (rule rfold_invariant) (use assms(2) in \<open>auto dest!: update_one_sync[where a = a and db = db] simp: keeps_def\<close>)
  then have w1: "open_sync a db w1" "State w1 = State w" "ClosedSessions w1 = ClosedSessions w" by simp_all
  note cl = acc_closing[OF assms(3)]
  have w2: "open_sync a db w2" using close_all_sync[OF 2 w1(1)] cl(2) w1 by simp
  have closed: "cs_Status s \<noteq> Active" if "sid \<in> fst ` set (ClosedSessions w)" "map_of (sessions w2) sid = Some s" for sid s
  proof -
    obtain d where d: "(sid, d) \<in> set (ClosedSessions w)" using \<open>sid \<in> _\<close> by auto
    have "cd_Status d \<noteq> Active" using open_okD(8)[of a db "Sessions (State w)" "ClosedSessions w" "sessions w" sid d] assms(2) d by (simp add: open_sync_def)
    moreover have "closing_of sid w2 = Some (b, cd_Status d, True)" using close_all_closing[OF 2, of sid d] cl(1) d w1(3) by simp
    ultimately show ?thesis using that(2) by (auto simp: closing_of_def GetCreditSession_def)
  qed
  have "map fst (ClosedSessions w2) = map fst (ClosedSessions w)"
    using close_all_effect[OF 2] w1(3) by (metis acct_closing acc_closing_count)
  then have "fst ` set (ClosedSessions w2) = fst ` set (ClosedSessions w)" by (metis list.set_map)
  then have "open_ok a db (Sessions (State w2)) [] (sessions w2)"
    by (intro open_ok_flush[of a db _ "ClosedSessions w2"]) (use w2 closed in \<open>simp_all add: open_sync_def\<close>)
  then show ?thesis using w2 unfolding w' by (simp add: open_sync_def)
qed

lemma check_transfers_sync: "check_transfers x y w = (d, w') \<Longrightarrow> open_sync a db w' = open_sync a db w"
  by (auto simp: check_transfers_def split: prod.splits)

lemma processDirectTransfers_sync: "processDirectTransfersOnBlock E b m w = Inr w' \<Longrightarrow> open_sync a db w \<Longrightarrow> open_sync a db w'"
  using sync_steps.processDirectTransfers_keeps[of E b m w w' a db "State w"] by simp

lemma cm_end_of_block_sync:
  assumes "cm_end_of_block E b w = Inr w'" and "open_sync a db w" and "acc_ok (acct w)"
  shows "open_sync a db w'"
proof -
  obtain calls w1 where 1: "cm_OnBlockChange E b w = Inr (calls, w1)" and 2: "rfold (process_result E b) calls w1 = Inr w'"
    using assms(1) unfolding cm_end_of_block_def by (auto elim!: rbind_InrE)
  have "open_sync a db w1"
  proof (cases "lastEventBlock w \<noteq> 0 \<and> lastEventBlock w = b \<and> b \<ge> DiscoveredAt (cm_adapter w)")
    case True
    obtain v1 d v2 v3 c4 v4 where s: "onTxHash E '''' w = Inr v1" "check_transfers b (b + 1) v1 = (d, v2)"
      "processDirectTransfersOnBlock E b (aget [] d b) v2 = Inr v3" "FetchFromDCForChangedSessions E b v3 = Inr (c4, v4)"
      "w1 = v4\<lparr>lastEventBlock := 0\<rparr>"
      using 1 True unfolding cm_OnBlockChange_def by (auto elim!: rbind_InrE split: prod.splits)
    have "acct v3 = acct w"
      using onTxHash_core[OF s(1)] check_transfers_core[OF s(2)] processDirectTransfers_core[OF s(3)] by simp
    then show ?thesis
      using Fetch_sync[OF s(4) processDirectTransfers_sync[OF s(3)]] check_transfers_sync[OF s(2)] onTxHash_sync[OF s(1) assms(2)] assms(3) s(5)
      by simp
  next
    case False
    then show ?thesis using 1 assms(2) unfolding cm_OnBlockChange_def if_not_P[OF False] by simp
  qed
  then show ?thesis by (rule process_results_sync[OF 2])
qed

lemma transfers_on_block_sync:
  assumes "transfers_on_block E d b w = Inr w'" and "open_sync a db w" and "acc_ok (acct w)"
  shows "open_sync a db w'"
proof -
  obtain w1 calls w2 where s: "processDirectTransfersOnBlock E b (aget [] d b) w = Inr w1"
    "FetchFromDCForChangedSessions E b w1 = Inr (calls, w2)" "rfold (process_result E b) calls w2 = Inr w'"
    using assms(1) unfolding transfers_on_block_def by (auto elim!: rbind_InrE)
  have "acct w1 = acct w" using processDirectTransfers_core[OF s(1)] by simp
  then show ?thesis
    using process_results_sync[OF s(3) Fetch_sync[OF s(2) processDirectTransfers_sync[OF s(1) assms(2)]]] assms(3) by simp
qed

lemma direct_transfers_sync:
  assumes "UpdateSessionWithDirectTokenTransferBefore E b w = Inr w'" and "open_sync a db w" and "acc_ok (acct w)" and "finite (dom (pnlOnCM w))"
  shows "open_sync a db w'"
proof -
  obtain d w0 where c: "check_transfers 0 b w = (d, w0)" by (cases "check_transfers 0 b w")
  have run: "rfold (transfers_on_block E d) (sort (map fst d)) w0 = Inr w'"
    using assms(1) c by (simp add: UpdateSessionWithDirectTokenTransferBefore_def)
  let ?I = "\<lambda>v. open_sync a db v \<and> acc_ok (acct v) \<and> balanced w v"
  have "?I w0" using assms(2-4) check_transfers_sync[OF c] check_transfers_core[OF c, THEN core_gaps] gaps_balanced[of w0 w w]
    by (simp add: balanced_def)
  then have "?I w'"
  proof (rule rfold_invariant[where I = ?I, OF run])
    fix x v v' assume I: "?I v" and step: "transfers_on_block E d x v = Inr v'"
    show "?I v'" using transfers_on_block_sync[OF step, of a db] transfers_on_block_effect[OF step, of w] I acc_flush_ok by simp
  qed
  then show ?thesis by simp
qed

lemma cm_exec_sync:
  assumes "cm_exec E x w = Inr w'" and "owner_free x w" and "open_sync a db w" and "acc_ok (acct w)" and "finite (dom (pnlOnCM w))"
  shows "open_sync a db w'"
proof (cases x)
  case (OpLog l)
  then show ?thesis using assms cm_OnLog_sync[of E l w w' a db] by (simp add: cm_exec_def)
next
  case (OpBlock b)
  then show ?thesis using assms cm_end_of_block_sync[of E b w w' a db] by (simp add: cm_exec_def)
next
  case (OpTransfers b)
  then show ?thesis using assms direct_transfers_sync[of E b w w' a db] by (simp add: cm_exec_def)
next
  case (OpPnl p)
  then show ?thesis using assms(1,3) by (auto simp: cm_exec_def cm_SetUnderlyingState_def open_sync_def elim!: rbind_InrE)
next
  case (OpParams p)
  then show ?thesis using assms(1,3) by (auto simp: cm_exec_def cm_SetUnderlyingState_def open_sync_def setParams_def)
qed

end
