(* ===== verification/Session_Restart_Correct.thy ===== *)
theory Session_Restart_Correct
  imports Session_Restart
begin

text \<open>
  A restart restores the open accounts: what saving, dropping and loading sessions do to the invariant of
  \<open>Session_Restart\<close>, and the life of a manager with saves in between.
\<close>

section \<open>Saving\<close>

lemma map_of_save:
  assumes "distinct (map fst ss)" and "\<And>k s. (k, s) \<in> set ss \<Longrightarrow> cs_ID s = k"
  shows "map_of (fold (save_session col) ss db) sid =
    (case map_of ss sid of Some s \<Rightarrow> if IsDirty s then Some (col s) else map_of db sid | None \<Rightarrow> map_of db sid)"
  using assms
proof (induction ss arbitrary: db)
  case (Cons x ss)
  obtain k s where x: "x = (k, s)" by (cases x)
  have "cs_ID s = k" using Cons.prems(2) x by simp
  moreover have "map_of ss k = None" using Cons.prems(1) x by (simp add: map_of_eq_None_iff)
  moreover have "map_of (fold (save_session col) ss db') sid =
      (case map_of ss sid of Some s \<Rightarrow> if IsDirty s then Some (col s) else map_of db' sid | None \<Rightarrow> map_of db' sid)" for db'
  proof (rule Cons.IH)
    show "distinct (map fst ss)" using Cons.prems(1) by simp
    show "cs_ID t = i" if "(i, t) \<in> set ss" for i t using Cons.prems(2) that by (meson list.set_intros(2))
  qed
  ultimately show ?case by (cases "sid = k") (simp_all add: x save_session_def map_of_update split: option.split)
qed simp

lemma distinct_save: "distinct (map fst db) \<Longrightarrow> distinct (map fst (fold (save_session col) ss db))"
proof (induction ss arbitrary: db)
  case (Cons x ss)
  have "distinct (map fst (save_session col x db))"
    using Cons.prems by (cases x) (simp add: save_session_def distinct_update del: distinct_map)
  then show ?case using Cons.IH by (simp del: distinct_map)
qed simp

lemma map_of_clean: "map_of (map (\<lambda>(k, s). (k, f s)) ss) sid = map_option f (map_of ss sid)"
  by (induction ss) auto

lemma map_of_kept:
  "distinct (map fst ss) \<Longrightarrow> map_of (filter (\<lambda>(_, s). Q s) ss) sid = (case map_of ss sid of Some s \<Rightarrow> if Q s then Some s else None | None \<Rightarrow> None)"
proof (induction ss)
  case (Cons x ss)
  obtain k s where x: "x = (k, s)" by (cases x)
  have "map_of ss k = None" using Cons.prems x by (simp add: map_of_eq_None_iff)
  then show ?case using Cons by (cases "sid = k") (simp_all add: x)
qed simp

text \<open>\<^verbatim>\<open>Flush\<close> and, after the debts of the new blocks, \<^verbatim>\<open>Clear\<close>.\<close>

definition repo_flush :: "(credit_session \<Rightarrow> credit_session) \<Rightarrow> int \<Rightarrow> cm_world \<Rightarrow> session_table \<Rightarrow> cm_world \<times> session_table" where
  "repo_flush col b w db = (let (w1, db1) = SessionRepo_Save col w db in (SessionRepo_Clear b w1, db1))"

definition all_saved :: "cm_world \<Rightarrow> bool" where
  "all_saved w \<longleftrightarrow> (\<forall>sid s. map_of (sessions w) sid = Some s \<longrightarrow> \<not> IsDirty s)"

lemma Save_sync:
  assumes "open_sync a db w" and "\<And>s. row_of (col s) = row_of s" and "SessionRepo_Save col w db = (w', db')"
  shows "open_sync a db' w'" "all_saved w'" "State w' = State w" "ClosedSessions w' = ClosedSessions w"
proof -
  have w': "sessions w' = map (\<lambda>(k, s). (k, s\<lparr>IsDirty := False\<rparr>)) (sessions w)" "State w' = State w" "ClosedSessions w' = ClosedSessions w"
    "cm_addr w' = cm_addr w" and db': "db' = fold (save_session col) (sessions w) db"
    using assms(3) by (auto simp: SessionRepo_Save_def)
  show "State w' = State w" "ClosedSessions w' = ClosedSessions w" by (fact w')+
  have w: "cm_addr w = a" and ok': "open_ok a db (Sessions (State w)) (ClosedSessions w) (sessions w)" using assms(1) by (simp_all add: open_sync_def)
  note ok = open_okD[OF ok']
  have get: "map_of (sessions w') i = map_option (\<lambda>s. s\<lparr>IsDirty := False\<rparr>) (map_of (sessions w) i)" for i
    unfolding w' by (rule map_of_clean)
  have row: "map_of db' i = (case map_of (sessions w) i of Some s \<Rightarrow> if IsDirty s then Some (col s) else map_of db i | None \<Rightarrow> map_of db i)" for i
    unfolding db' by (rule map_of_save) (use ok(1,4) in auto)
  show "all_saved w'" by (auto simp: all_saved_def get)
  have "open_ok a db' (Sessions (State w)) (ClosedSessions w) (sessions w')"
  proof (rule open_okI)
    show "distinct (map fst (sessions w'))" using ok(1) by (simp add: w' comp_def case_prod_unfold)
    show "distinct (map fst db')" unfolding db' by (rule distinct_save[OF ok(2)])
    show "map_option row_of (map_of db' i) = Some (row_of t)" if t: "map_of (sessions w') i = Some t" for i t
    proof -
      obtain s where s: "map_of (sessions w) i = Some s" "t = s\<lparr>IsDirty := False\<rparr>" using t by (auto simp: get)
      then have "row_of t = row_of s" by (simp add: row_of_def)
      then show ?thesis using ok(7)[OF s(1)] s(1) assms(2) by (simp add: row)
    qed
    show "cs_ID r = i \<and> (map_of (sessions w') i = None \<and> cs_CreditManager r = a \<longrightarrow> cs_Status r \<noteq> Active)"
      if "map_of db' i = Some r" for i r
    proof (cases "map_of (sessions w) i")
      case None
      then show ?thesis using that ok(9)[of i r] by (simp add: row get)
    next
      case (Some s)
      then have "row_of r = row_of s" using that ok(7)[OF Some] assms(2) by (auto simp: row split: if_splits)
      then show ?thesis using ok(4)[OF Some] Some by (simp add: row_of_def get)
    qed
    show "cd_Status d \<noteq> Active \<and> map_of (sessions w') i \<noteq> None" if "(i, d) \<in> set (ClosedSessions w)" for i d
      using ok(8)[OF that] by (simp add: get)
    show "\<exists>s. map_of (sessions w') i = Some s \<and> cs_Status s = Active \<and> cs_Borrower s = own" if o': "Sessions (State w) own = Some i" for own i
    proof -
      obtain s where "map_of (sessions w) i = Some s" "cs_Status s = Active" "cs_Borrower s = own" using ok(3)[OF o'] by blast
      then show ?thesis by (simp add: get)
    qed
  qed (use ok(4-6) in \<open>auto simp: get\<close>)
  then show "open_sync a db' w'" using w w'(2-4) by (simp add: open_sync_def)
qed

lemma Clear_sync:
  assumes "open_sync a db w" and "all_saved w" and "ClosedSessions w = []"
  shows "open_sync a db (SessionRepo_Clear b w)" "all_saved (SessionRepo_Clear b w)"
proof -
  let ?Q = "\<lambda>s. \<not> (cs_ClosedAt s \<noteq> 0 \<and> b \<ge> cs_ClosedAt s)"
  have w: "cm_addr w = a" and ok': "open_ok a db (Sessions (State w)) [] (sessions w)" using assms(1,3) by (simp_all add: open_sync_def)
  note ok = open_okD[OF ok']
  have get: "map_of (sessions (SessionRepo_Clear b w)) i = (case map_of (sessions w) i of Some s \<Rightarrow> if ?Q s then Some s else None | None \<Rightarrow> None)" for i
    unfolding SessionRepo_Clear_def using map_of_kept[OF ok(1), of ?Q i] by simp
  show "all_saved (SessionRepo_Clear b w)" using assms(2) by (auto simp: all_saved_def get split: option.splits if_splits)
  have "open_ok a db (Sessions (State w)) [] (sessions (SessionRepo_Clear b w))"
  proof (rule open_okI)
    show "distinct (map fst (sessions (SessionRepo_Clear b w)))" using ok(1) by (simp add: SessionRepo_Clear_def distinct_map_filter)
    show "\<exists>s. map_of (sessions (SessionRepo_Clear b w)) i = Some s \<and> cs_Status s = Active \<and> cs_Borrower s = own"
      if o': "Sessions (State w) own = Some i" for own i
    proof -
      obtain s where "map_of (sessions w) i = Some s" "cs_Status s = Active" "cs_Borrower s = own" using ok(3)[OF o'] by blast
      moreover from this have "cs_ClosedAt s = 0" using ok(5) by blast
      ultimately show ?thesis by (simp add: get)
    qed
    show "cs_ID r = i \<and> (map_of (sessions (SessionRepo_Clear b w)) i = None \<and> cs_CreditManager r = a \<longrightarrow> cs_Status r \<noteq> Active)"
      if r: "map_of db i = Some r" for i r
    proof (cases "map_of (sessions w) i")
      case None
      then show ?thesis using ok(9)[OF r] by simp
    next
      case (Some s)
      then have "row_of r = row_of s" using ok(7)[OF Some] assms(2) r by (simp add: all_saved_def)
      then show ?thesis using ok(4)[OF Some] ok(5)[OF Some] Some by (auto simp: row_of_def get)
    qed
  qed (use ok(2,4-7) in \<open>auto simp: get split: option.splits if_splits\<close>)
  then show "open_sync a db (SessionRepo_Clear b w)" using w assms(3) by (simp add: open_sync_def SessionRepo_Clear_def)
qed

lemma flush_sync:
  assumes "open_sync a db w" and "\<And>s. row_of (col s) = row_of s" and "ClosedSessions w = []" and "repo_flush col b w db = (w', db')"
  shows "open_sync a db' w' \<and> all_saved w' \<and> State w' = State w \<and> ClosedSessions w' = []"
proof -
  obtain w1 where s: "SessionRepo_Save col w db = (w1, db')" and w': "w' = SessionRepo_Clear b w1"
    using assms(4) by (auto simp: repo_flush_def Let_def split: prod.splits)
  note k = Save_sync[OF assms(1,2) s]
  show ?thesis using Clear_sync[OF k(1,2), of b] k(3,4) assms(3) by (simp add: w') (simp add: SessionRepo_Clear_def)
qed

section \<open>Loading\<close>

text \<open>The entry of a borrower in the maps that are built from the rows.\<close>

definition entry :: "address \<Rightarrow> address \<Rightarrow> (address \<rightharpoonup> address \<rightharpoonup> string) \<Rightarrow> string option" where
  "entry a own m = (case m a of None \<Rightarrow> None | Some h \<Rightarrow> h own)"

lemma entry_add:
  "entry a own (add_borrower (k, r) m) =
    (if cs_Status r = Active \<and> cs_CreditManager r = a \<and> cs_Borrower r = own then Some (cs_ID r) else entry a own m)"
  by (auto simp: entry_def add_borrower_def Let_def split: option.splits)

lemma entry_fold:
  assumes "\<And>k r. (k, r) \<in> set db \<Longrightarrow> cs_Status r = Active \<Longrightarrow> cs_CreditManager r = a \<Longrightarrow> cs_Borrower r = own \<Longrightarrow> cs_ID r = sid"
  shows "entry a own (fold add_borrower db Map.empty) =
    (if \<exists>(k, r) \<in> set db. cs_Status r = Active \<and> cs_CreditManager r = a \<and> cs_Borrower r = own then Some sid else None)"
  using assms
proof (induction db rule: rev_induct)
  case (snoc x db)
  obtain k r where x: "x = (k, r)" by (cases x)
  show ?case
  proof (cases "cs_Status r = Active \<and> cs_CreditManager r = a \<and> cs_Borrower r = own")
    case True
    then show ?thesis using snoc.prems[of k r] x by (auto simp: entry_add)
  next
    case False
    have "entry a own (fold add_borrower db Map.empty) =
      (if \<exists>(k, r) \<in> set db. cs_Status r = Active \<and> cs_CreditManager r = a \<and> cs_Borrower r = own then Some sid else None)"
      using snoc.prems by (intro snoc.IH) auto
    then show ?thesis using False x by (auto simp: entry_add)
  qed
qed (simp add: entry_def)

text \<open>The rows of the active sessions are the owners.\<close>

lemma active_rows:
  assumes "open_sync a db w" and "all_saved w" and "ClosedSessions w = []"
  shows "Sessions (State w) own = Some sid \<longleftrightarrow>
    (\<exists>r. map_of db sid = Some r \<and> cs_Status r = Active \<and> cs_CreditManager r = a \<and> cs_Borrower r = own)"
proof -
  have ok': "open_ok a db (Sessions (State w)) [] (sessions w)" using assms(1,3) by (simp add: open_sync_def)
  note ok = open_okD[OF ok']
  have row: "row_of r = row_of s" if "map_of (sessions w) sid = Some s" "map_of db sid = Some r" for s r
    using ok(7)[OF that(1)] assms(2) that by (simp add: all_saved_def)
  show ?thesis
  proof
    assume "Sessions (State w) own = Some sid"
    then obtain s where s: "map_of (sessions w) sid = Some s" "cs_Status s = Active" "cs_Borrower s = own" using ok(3) by blast
    have "map_option row_of (map_of db sid) = Some (row_of s)" using ok(7)[OF s(1)] assms(2) s(1) by (simp add: all_saved_def)
    then obtain r where r: "map_of db sid = Some r" "row_of r = row_of s" by (cases "map_of db sid") auto
    then show "\<exists>r. map_of db sid = Some r \<and> cs_Status r = Active \<and> cs_CreditManager r = a \<and> cs_Borrower r = own"
      using s ok(4)[OF s(1)] by (intro exI[of _ r]) (simp add: row_of_def)
  next
    assume "\<exists>r. map_of db sid = Some r \<and> cs_Status r = Active \<and> cs_CreditManager r = a \<and> cs_Borrower r = own"
    then obtain r where r: "map_of db sid = Some r" "cs_Status r = Active" "cs_CreditManager r = a" "cs_Borrower r = own" by blast
    then obtain s where s: "map_of (sessions w) sid = Some s" using ok(9)[OF r(1)] by (cases "map_of (sessions w) sid") auto
    then show "Sessions (State w) own = Some sid" using row[OF s r(1)] r ok(6)[OF s] by (simp add: row_of_def)
  qed
qed

lemma loadSessionIdToBorrower_owners:
  assumes "open_sync a db w" and "all_saved w" and "ClosedSessions w = []" and "cm_addr v = a" and "Sessions (State v) = Map.empty"
  shows "\<exists>v'. loadSessionIdToBorrower db v = Inr v' \<and> Sessions (State v') = Sessions (State w) \<and> cm_addr v' = a \<and> sessions v' = sessions v"
proof -
  let ?m = "fold add_borrower db Map.empty"
  have ids: "cs_ID r = k" if "map_of db k = Some r" for k r
    using assms(1) that open_okD(9)[of a db "Sessions (State w)" "ClosedSessions w" "sessions w"] by (auto simp: open_sync_def)
  have dist: "distinct (map fst db)" using assms(1) open_okD(2) by (auto simp: open_sync_def)
  have iff: "Sessions (State w) own = Some sid \<longleftrightarrow>
      (\<exists>r. (sid, r) \<in> set db \<and> cs_Status r = Active \<and> cs_CreditManager r = a \<and> cs_Borrower r = own)" for own sid
    unfolding active_rows[OF assms(1-3)] using dist by simp
  have entry: "entry a own ?m = Sessions (State w) own" for own
  proof (cases "Sessions (State w) own")
    case None
    then have no: "\<not> (\<exists>(k, r) \<in> set db. cs_Status r = Active \<and> cs_CreditManager r = a \<and> cs_Borrower r = own)" using iff[of own] by auto
    then show ?thesis using None entry_fold[of db a own "''''"] by auto
  next
    case (Some sid)
    have one: "cs_ID r = sid" if "(k, r) \<in> set db" "cs_Status r = Active" "cs_CreditManager r = a" "cs_Borrower r = own" for k r
    proof -
      have "Sessions (State w) own = Some k" using iff[of own k] that by blast
      then show ?thesis using Some ids[OF map_of_is_SomeI[OF dist that(1)]] by simp
    qed
    obtain r where r: "(sid, r) \<in> set db" "cs_Status r = Active \<and> cs_CreditManager r = a \<and> cs_Borrower r = own" using iff[of own sid] Some by blast
    have e: "\<exists>(k, r) \<in> set db. cs_Status r = Active \<and> cs_CreditManager r = a \<and> cs_Borrower r = own"
      by (rule bexI[OF _ r(1)]) (use r(2) in simp)
    have "entry a own ?m = (if \<exists>(k, r) \<in> set db. cs_Status r = Active \<and> cs_CreditManager r = a \<and> cs_Borrower r = own then Some sid else None)"
      by (rule entry_fold) (rule one)
    then show ?thesis unfolding if_P[OF e] Some .
  qed
  show ?thesis
  proof (cases "?m a")
    case None
    then have "Sessions (State w) = Map.empty" using entry by (intro ext) (simp add: entry_def)
    then show ?thesis using None assms(4,5) by (simp add: loadSessionIdToBorrower_def)
  next
    case (Some h)
    then have "h = Sessions (State w)" using entry by (intro ext) (simp add: entry_def)
    then show ?thesis using Some assms(4) by (simp add: loadSessionIdToBorrower_def cm_SetUnderlyingState_def)
  qed
qed

lemma loadCreditManagers_owners:
  assumes "open_sync a db w" and "all_saved w" and "ClosedSessions w = []" and "cm_addr v = a"
  shows "\<exists>v'. loadCreditManagers (Some row) db prs v = Inr v' \<and> Sessions (State v') = Sessions (State w) \<and> sessions v' = sessions v"
proof -
  let ?v1 = "v\<lparr>cm_adapter := (cm_adapter v)\<lparr>UnderlyingStateToSave := True\<rparr>, State := row\<lparr>Sessions := Map.empty\<rparr>\<rparr>"
  obtain v2 where v2: "loadSessionIdToBorrower db ?v1 = Inr v2" "Sessions (State v2) = Sessions (State w)" "sessions v2 = sessions v"
    using loadSessionIdToBorrower_owners[OF assms(1-3), of ?v1] assms(4) by auto
  show ?thesis
    by (cases "latest_params (cm_addr v2) prs")
      (simp_all add: loadCreditManagers_def cm_SetUnderlyingState_def loadParametersToCM_def setParams_def v2)
qed

definition loaded :: "int \<Rightarrow> (string \<rightharpoonup> rat \<times> rat) \<Rightarrow> credit_session \<Rightarrow> credit_session option" where
  "loaded lds css r = (case css (cs_ID r) of
     None \<Rightarrow> None
   | Some (usd, und) \<Rightarrow> if cs_Status r = Active \<or> cs_ClosedAt r > lds
       then Some (r\<lparr>cs_CollateralInUSD := usd, cs_CollateralInUnderlying := und\<rparr>) else None)"

lemma load_session_loads:
  assumes "map_of (sessions v) (cs_ID r) = None"
  shows "\<exists>v1. load_session lds css (k, r) v = Inr v1 \<and> State v1 = State v \<and>
    (\<forall>sid. map_of (sessions v1) sid = (if sid = cs_ID r then loaded lds css r else map_of (sessions v) sid))"
  using assms by (auto simp: load_session_def loaded_def map_of_update split: option.splits)

lemma LoadCreditSessions_loads:
  assumes "distinct (map fst db)" and "\<And>k r. (k, r) \<in> set db \<Longrightarrow> cs_ID r = k" and "\<And>k. k \<in> fst ` set db \<Longrightarrow> map_of (sessions v) k = None"
  shows "\<exists>v'. LoadCreditSessions lds css db v = Inr v' \<and> State v' = State v \<and>
    (\<forall>sid. map_of (sessions v') sid = (case map_of db sid of Some r \<Rightarrow> loaded lds css r | None \<Rightarrow> map_of (sessions v) sid))"
  using assms unfolding LoadCreditSessions_def
proof (induction db arbitrary: v)
  case (Cons x db)
  obtain k r where x: "x = (k, r)" by (cases x)
  have k: "cs_ID r = k" "map_of db k = None" using Cons.prems(1,2) x by (auto simp: map_of_eq_None_iff)
  have "map_of (sessions v) (cs_ID r) = None" using Cons.prems(3) k x by simp
  then obtain v1 where v1: "load_session lds css x v = Inr v1" "State v1 = State v"
    "\<And>sid. map_of (sessions v1) sid = (if sid = cs_ID r then loaded lds css r else map_of (sessions v) sid)"
    using load_session_loads[of v r lds css k] x by blast
  have "\<exists>v'. rfold (load_session lds css) db v1 = Inr v' \<and> State v' = State v1 \<and>
    (\<forall>sid. map_of (sessions v') sid = (case map_of db sid of Some r \<Rightarrow> loaded lds css r | None \<Rightarrow> map_of (sessions v1) sid))"
  proof (rule Cons.IH)
    show "distinct (map fst db)" using Cons.prems(1) by simp
    show "cs_ID r' = i" if "(i, r') \<in> set db" for i r' using Cons.prems(2) that by (meson list.set_intros(2))
    show "map_of (sessions v1) i = None" if i: "i \<in> fst ` set db" for i
    proof -
      have "i \<noteq> k" using i k(2) by (auto simp: map_of_eq_None_iff)
      then show ?thesis using Cons.prems(3)[of i] i by (simp add: v1(3) k)
    qed
  qed
  then obtain v' where "rfold (load_session lds css) db v1 = Inr v'" "State v' = State v1"
    "\<And>sid. map_of (sessions v') sid = (case map_of db sid of Some r \<Rightarrow> loaded lds css r | None \<Rightarrow> map_of (sessions v1) sid)" by blast
  then show ?case
    using v1 k by (intro exI[of _ v']) (simp add: x split: option.split)
qed simp

section \<open>A manager over its life\<close>

text \<open>A manager works; after the ends of blocks everything is saved and what is over is dropped.\<close>

inductive service_run ::
  "(credit_session \<Rightarrow> credit_session) \<Rightarrow> cm_env \<Rightarrow> cm_world \<times> session_table \<Rightarrow> cm_world \<times> session_table \<Rightarrow> bool"
  for col E s0 where
  started: "service_run col E s0 s0"
| worked: "service_run col E s0 (w, db) \<Longrightarrow> owner_free x w \<Longrightarrow> cm_exec E x w = Inr w' \<Longrightarrow> service_run col E s0 (w', db)"
| flushed: "service_run col E s0 (w, db) \<Longrightarrow> ClosedSessions w = [] \<Longrightarrow> service_run col E s0 (repo_flush col b w db)"

text \<open>What \<^verbatim>\<open>Init\<close> loads for a manager, in its order.\<close>

definition repo_load ::
  "cm_state option \<Rightarrow> session_table \<Rightarrow> parameters list \<Rightarrow> int \<Rightarrow> (string \<rightharpoonup> rat \<times> rat) \<Rightarrow> cm_world \<Rightarrow> cm_world res" where
  "repo_load row db prs lastDebtSync css w = rbind (loadCreditManagers row db prs w) (LoadCreditSessions lastDebtSync css db)"

text \<open>A table without rows of the manager.\<close>

definition foreign_rows :: "address \<Rightarrow> session_table \<Rightarrow> bool" where
  "foreign_rows a db \<longleftrightarrow> distinct (map fst db) \<and> (\<forall>(k, r) \<in> set db. cs_ID r = k \<and> cs_CreditManager r \<noteq> a)"

lemma new_open_sync:
  assumes "new_manager w" and "sessions w = []" and "foreign_rows (cm_addr w) db"
  shows "open_sync (cm_addr w) db w"
proof -
  have "open_ok (cm_addr w) db (Sessions (State w)) [] []"
    by (rule open_okI) (use assms in \<open>auto simp: new_manager_def foreign_rows_def dest!: map_of_SomeD\<close>)
  then show ?thesis using assms(1,2) by (simp add: open_sync_def new_manager_def)
qed

lemma flush_acc_ok:
  assumes "open_sync a db' w'" and "acc_ok (acct w)" and "State w' = State w" and "ClosedSessions w' = []"
    and "ClosedSessions w = []" and "V (cm_adapter w') = V (cm_adapter w)"
  shows "acc_ok (acct w')"
proof -
  have "ran (Sessions (State w')) \<subseteq> fst ` set (sessions w')"
    using assms(1) open_okD(3)[of a db' "Sessions (State w')" "ClosedSessions w'" "sessions w'"]
    by (auto simp: open_sync_def ran_def dest!: map_of_key)
  then show ?thesis using assms(2-6) by (simp add: acc_ok_def acct_def)
qed

lemma repo_flush_fields:
  "repo_flush col b w db = (w', db') \<Longrightarrow> cm_adapter w' = cm_adapter w \<and> pnlOnCM w' = pnlOnCM w"
  by (auto simp: repo_flush_def SessionRepo_Save_def SessionRepo_Clear_def)

lemma service_run_sync:
  assumes "service_run col E (w0, db0) s" and "new_manager w0" and "sessions w0 = []" and "foreign_rows (cm_addr w0) db0"
    and "\<And>s. row_of (col s) = row_of s"
  shows "open_sync (cm_addr w0) (snd s) (fst s) \<and> acc_ok (acct (fst s)) \<and> finite (dom (pnlOnCM (fst s)))"
  using assms(1)
proof (induction rule: service_run.induct)
  case started
  then show ?case using new_open_sync[OF assms(2-4)] new_manager_ok[OF assms(2)] by simp
next
  case (worked w db x w')
  then show ?case
    using cm_exec_sync[OF worked.hyps(3,2)] cm_exec_keeps_ok[OF worked.hyps(3,2)] cm_exec_ledger[OF worked.hyps(3)] by simp
next
  case (flushed w db b)
  obtain w' db' where f: "repo_flush col b w db = (w', db')" by (cases "repo_flush col b w db")
  note k = flush_sync[OF _ assms(5) flushed.hyps(2) f, of "cm_addr w0"]
  show ?case
    using k flush_acc_ok[of "cm_addr w0" db' w' w] flushed repo_flush_fields[OF f] by (simp add: f)
qed

text \<open>
  C4: A restart restores who owns which account.  However a manager has worked, with saves in between, after a save at the end of
  a block the loaders of \<^verbatim>\<open>Init\<close> succeed on the saved tables and give the manager the same open accounts as
  before, and every one of them that has a snapshot is back in the session store, active and with its owner.  No change of
  a session is lost by saving only the dirty ones and dropping those that are over.
\<close>

theorem restart_restores_owners:
  assumes "service_run col E (w0, db0) (w, db)" and "new_manager w0" and "sessions w0 = []" and "foreign_rows (cm_addr w0) db0"
    and "\<forall>s. row_of (col s) = row_of s" and "ClosedSessions w = []" and "repo_flush col b w db = (w', db')"
    and "cm_addr v = cm_addr w0" and "sessions v = []"
  shows "\<exists>v'. repo_load (Some row) db' prs lds css v = Inr v' \<and> Sessions (State v') = Sessions (State w) \<and>
    (\<forall>own sid. Sessions (State w) own = Some sid \<and> css sid \<noteq> None \<longrightarrow>
      (\<exists>s. GetCreditSession sid v' = Some s \<and> cs_Status s = Active \<and> cs_Borrower s = own))"
proof -
  have sync: "open_sync (cm_addr w0) db w" using service_run_sync[OF assms(1-4)] assms(5) by simp
  have f: "open_sync (cm_addr w0) db' w'" "all_saved w'" "State w' = State w" "ClosedSessions w' = []"
    using flush_sync[OF sync _ assms(6,7)] assms(5) by simp_all
  obtain v1 where v1: "loadCreditManagers (Some row) db' prs v = Inr v1" "Sessions (State v1) = Sessions (State w)" "sessions v1 = []"
    using loadCreditManagers_owners[OF f(1,2,4) assms(8), of row prs] f(3) assms(9) by auto
  have db': "distinct (map fst db')" "map_of db' k = Some r \<Longrightarrow> cs_ID r = k" for k r
    using f(1) open_okD(2,9)[of "cm_addr w0" db' "Sessions (State w')" "ClosedSessions w'" "sessions w'"] by (auto simp: open_sync_def)
  obtain v' where v': "LoadCreditSessions lds css db' v1 = Inr v'" "State v' = State v1"
    "\<And>sid. map_of (sessions v') sid = (case map_of db' sid of Some r \<Rightarrow> loaded lds css r | None \<Rightarrow> map_of (sessions v1) sid)"
    using LoadCreditSessions_loads[of db' v1 lds css] db' v1(3) by auto
  have "\<exists>s. GetCreditSession sid v' = Some s \<and> cs_Status s = Active \<and> cs_Borrower s = own"
    if own: "Sessions (State w) own = Some sid" "css sid \<noteq> None" for own sid
  proof -
    obtain r where r: "map_of db' sid = Some r" "cs_Status r = Active" "cs_Borrower r = own"
      using active_rows[OF f(1,2,4), of own sid] own(1) f(3) by auto
    then show ?thesis using own(2) db'(2)[OF r(1)] by (auto simp: GetCreditSession_def v'(3) loaded_def)
  qed
  then show ?thesis using v1 v' by (intro exI[of _ v']) (simp add: repo_load_def)
qed

section \<open>A concrete restart\<close>

definition demo_open :: "cm_op list" where
  "demo_open = [OpLog (demo_cm_log 10 (OpenV1 ''alice'' ''acc'' 30 90)), OpBlock 10]"

lemma demo_open_ok:
  "case run_all demo_env demo_open (demo_cm 1) of Inl _ \<Rightarrow> False
   | Inr w \<Rightarrow> ClosedSessions w = [] \<and> Sessions (State w) ''alice'' = Some ''acc_10_1''"
  by code_simp

lemma cm_run_service: "cm_run E w0 xs w \<Longrightarrow> service_run col E (w0, db0) (w, db0)"
  by (induction rule: cm_run.induct) (auto intro: service_run.intros)

theorem restart_restores_owners_witness:
  "\<exists>w v' s. service_run id demo_env (demo_cm 1, []) (w, []) \<and>
    repo_load (Some demo_state) (snd (repo_flush id 10 w [])) [] 10 (\<lambda>_. Some (0, 0)) (demo_cm 1) = Inr v' \<and>
    Sessions (State v') ''alice'' = Some ''acc_10_1'' \<and> GetCreditSession ''acc_10_1'' v' = Some s \<and> cs_Borrower s = ''alice''"
proof -
  obtain w where w: "run_all demo_env demo_open (demo_cm 1) = Inr w" "ClosedSessions w = []" "Sessions (State w) ''alice'' = Some ''acc_10_1''"
    using case_InrD[OF demo_open_ok] by blast
  have run: "service_run id demo_env (demo_cm 1, []) (w, [])" by (rule cm_run_service[OF run_all_cm_run[OF w(1)]])
  have e: "repo_flush id 10 w [] = (fst (repo_flush id 10 w []), snd (repo_flush id 10 w []))" by simp
  have s: "sessions (demo_cm 1) = []" by (simp add: demo_cm_def)
  from restart_restores_owners[OF run demo_new s _ _ w(2) e refl s, of demo_state "[]" 10 "\<lambda>_. Some (0, 0)"]
  obtain v' where v': "repo_load (Some demo_state) (snd (repo_flush id 10 w [])) [] 10 (\<lambda>_. Some (0, 0)) (demo_cm 1) = Inr v'"
    "Sessions (State v') = Sessions (State w)"
    "\<And>own sid. Sessions (State w) own = Some sid \<Longrightarrow> \<exists>s. GetCreditSession sid v' = Some s \<and> cs_Status s = Active \<and> cs_Borrower s = own"
    by (auto simp: foreign_rows_def)
  obtain s where "GetCreditSession ''acc_10_1'' v' = Some s" "cs_Borrower s = ''alice''" using v'(3)[OF w(3)] by blast
  then show ?thesis using run w(3) v'(1,2) by (intro exI[of _ w] exI[of _ v'] exI[of _ s]) simp
qed

end
