(* ===== verification/Debt_State.thy ===== *)
theory Debt_State
  imports Credit_Manager_State
begin

text \<open>
  The debt engine of \<^verbatim>\<open>debts/\<close>: its state, the updates it takes from a block, prices, cumulative
  indexes and the value functions (\<^verbatim>\<open>index.go\<close>, \<^verbatim>\<open>engine.go\<close>, \<^verbatim>\<open>token_threshold.go\<close>, \<^verbatim>\<open>pool.go\<close>,
  \<^verbatim>\<open>parameters.go\<close>, \<^verbatim>\<open>credit_session_snapshots.go\<close>).

  The calculator of the sdk (\<^verbatim>\<open>calc\<close>), the number conversions, the chain and the data compressor are
  fields of \<open>debt_env\<close>.  The calculator reads balances, prices and thresholds through the interface it is
  given; it asks for the balances once, and this adjusts the rebase token of the snapshot in place.
\<close>

section \<open>Data\<close>

record price_feed =
  pf_BlockNumber :: int
  pf_Token :: address
  pf_Feed :: address
  pf_RoundId :: int
  pf_PriceBI :: int
  pf_Price :: rat
  IsPriceInUSD :: bool

record pool_interest_data =
  pid_Address :: address
  pid_BlockNum :: int
  CumulativeIndexRAY :: int
  pid_AvailableLiquidityBI :: int
  BorrowAPYBI :: int
  pid_Timestamp :: "64 word"

record allowed_token =
  at_BlockNumber :: int
  at_CreditManager :: address
  at_Token :: address
  LiquidityThreshold :: int

record cum_index_and_token =
  CumulativeIndex :: "int option"
  ciu_Token :: address
  ciu_Decimals :: int
  ciu_Symbol :: string
  PoolAddr :: address

record debt =
  d_BlockNumber :: int
  d_SessionId :: string
  CalHealthFactor :: int
  CalTotalValueBI :: int
  CalDebtBI :: int
  CalBorrowedWithInterestBI :: int
  CalThresholdValueBI :: int
  d_CollateralInUnderlying :: rat
  AmountToPoolBI :: int
  RepayAmountBI :: int
  ProfitInUnderlying :: rat
  d_CollateralInUSD :: rat
  ProfitInUSD :: rat
  TotalValueInUSD :: rat
  FarmingValUSD :: rat

text \<open>A current debt: the debt, the values as floats and the index; a quotient that is no number is \<open>None\<close>.\<close>

record current_debt =
  cd_Debt :: debt
  CalTotalValue :: rat
  CalDebt :: rat
  CalThresholdValue :: rat
  AmountToPool :: rat
  RepayAmount :: rat
  TFIndex :: "rat option"

record liquidable_account =
  la_SessionId :: string
  la_BlockNum :: int
  NotifiedIfLiquidable :: bool
  la_Updated :: bool

record tvl_snapshot =
  tvl_BlockNum :: int
  tvl_AvailableLiquidity :: rat
  CATotalValue :: rat

text \<open>What the engine reads of a block of the repository.\<close>

record debt_block =
  db_Timestamp :: "64 word"
  GetParams :: "parameters list"
  RebaseDetailsForDB :: "int list"         \<comment> \<open>the rebase details, by an identifier\<close>
  GetPoolStats :: "pool_interest_data list" \<comment> \<open>their time stamp is that of the block\<close>
  GetCSS :: "session_snapshot list"
  GetAllowedTokens :: "allowed_token list"
  GetPriceFeeds :: "price_feed list"

datatype debt_msg =
    SafeAgain int string             \<comment> \<open>block and session\<close>
  | LowHealthNotLiquidated int string
  | LiquidationAlert int string int  \<comment> \<open>closing block, session, liquidable since\<close>

record debt_engine =
  lastCSS :: "(string \<times> session_snapshot) list"
  tokenLastPrice :: "address \<rightharpoonup> price_feed"
  tokenLastPriceV2 :: "address \<rightharpoonup> price_feed"
  allowedTokensThreshold :: "address \<Rightarrow> address \<rightharpoonup> int"
  poolLastInterestData :: "(address \<times> pool_interest_data) list"
  debts :: "debt list"
  tvlSnapshots :: "tvl_snapshot list"
  lastDebts :: "string \<rightharpoonup> debt"
  currentDebts :: "current_debt list"
  liquidableBlockTracker :: "(string \<times> liquidable_account) list"
  lastParameters :: "address \<rightharpoonup> parameters"
  lastTvlSnapshot :: "tvl_snapshot option"
  lastRebaseDetails :: "int option"
  debt_msgs :: "debt_msg list"       \<comment> \<open>what is sent with \<^verbatim>\<open>RecentMsgf\<close>\<close>
  \<comment> \<open>rows in the database\<close>
  db_debts :: "debt list"
  db_tvl :: "tvl_snapshot list"
  db_liquidable :: "liquidable_account list"
  db_debt_sync :: "int option"
  db_current :: "current_debt list"

text \<open>A credit manager as the engine sees it: \<^verbatim>\<open>GetCMState\<close>.\<close>

record debt_env =
  dGetFloat64Decimal :: "int \<Rightarrow> int \<Rightarrow> rat"
  GetInt64 :: "int \<Rightarrow> int \<Rightarrow> int"                   \<comment> \<open>scaling down by a power of ten\<close>
  GetExpInt :: "int \<Rightarrow> int"
  dGetExpFloat :: "int \<Rightarrow> rat"
  TokenSymbol :: "address \<Rightarrow> string"
  TokenDecimals :: "address \<Rightarrow> int"
  USDCAddr :: address
  WETHAddr :: address
  WETHPrice :: int
  stETHAddr :: address
  NoOfBlocksPerHr :: int
  CalcAccountFields :: "int \<Rightarrow> int \<Rightarrow> address \<Rightarrow> (address \<times> balance) list \<Rightarrow> int \<Rightarrow> int \<Rightarrow>
      (address \<Rightarrow> int res) \<Rightarrow> (address \<Rightarrow> int res) \<Rightarrow> int option \<Rightarrow> address \<Rightarrow> 16 word \<Rightarrow> (int \<times> int \<times> int \<times> int \<times> int) res"
    \<comment> \<open>version, block, manager, balances, borrowed amount, index at open, prices, thresholds, pool index, underlying, fee:
        health factor, debt, total value, threshold value, borrowed amount with interest\<close>
  AdjustRebaseToken :: "(address \<times> balance) list \<Rightarrow> address \<Rightarrow> int option \<Rightarrow> (address \<times> balance) list"
  dCalCloseAmount :: "parameters option \<Rightarrow> int \<Rightarrow> int \<Rightarrow> session_status \<Rightarrow> int \<Rightarrow> int \<Rightarrow> int \<times> int"
  dValueInUnderlying :: "(address \<times> rat) list \<Rightarrow> address \<Rightarrow> int \<Rightarrow> (address \<times> rat) list \<Rightarrow> int"
  AlmostSameBigInt :: "int \<Rightarrow> int \<Rightarrow> int \<Rightarrow> bool"
  GetPrecision :: "string \<Rightarrow> int"
  ValueDifferSideOf10000 :: "int \<Rightarrow> int \<Rightarrow> bool"
  DiffMoreThanFraction :: "int \<Rightarrow> int \<Rightarrow> rat \<Rightarrow> bool"
  IntGreaterThanEqualTo :: "int \<Rightarrow> int \<Rightarrow> bool"
  IsStatusLiquidated :: "session_status \<Rightarrow> bool"
  HasBalanceMoreThanOne :: "balance \<Rightarrow> bool"
  YearnFeedAddrs :: "address list"
  LatestRoundData :: "address \<Rightarrow> int \<Rightarrow> int \<times> int"      \<comment> \<open>feed and block: round and answer\<close>
  dGetCreditAccountData :: "int \<Rightarrow> address \<Rightarrow> address \<Rightarrow> dc_account option"
  GetCMState :: "(address \<times> (address \<times> address) option) list"
    \<comment> \<open>the credit managers in the order of the kit, with pool and underlying token of their state if they have one\<close>
  PoolUnderlying :: "address \<rightharpoonup> address"
  tradingTokens :: "address \<Rightarrow> bool"
  BlockTime :: "int \<Rightarrow> 64 word"
  \<comment> \<open>configuration\<close>
  isTesting :: bool
  DebtDCMatching :: bool
  ThrottleDebtCal :: bool
  ThrottleByHrs :: int
  DisableDebtEngine :: bool

section \<open>Taking a block\<close>

definition addLastParameters :: "parameters \<Rightarrow> debt_engine \<Rightarrow> debt_engine" where
  "addLastParameters params eng = eng\<lparr>lastParameters := (lastParameters eng)(par_CreditManager params \<mapsto> params)\<rparr>"

definition AddPoolLastInterestData :: "pool_interest_data \<Rightarrow> debt_engine \<Rightarrow> debt_engine" where
  "AddPoolLastInterestData pd eng =
    eng\<lparr>poolLastInterestData := AList.update (pid_Address pd) pd (poolLastInterestData eng)\<rparr>"

definition AddLastCSS :: "session_snapshot \<Rightarrow> debt_engine \<Rightarrow> debt_engine" where
  "AddLastCSS css eng = eng\<lparr>lastCSS := AList.update (css_SessionId css) css (lastCSS eng)\<rparr>"

definition AddAllowedTokenThreshold :: "allowed_token \<Rightarrow> debt_engine \<Rightarrow> debt_engine" where
  "AddAllowedTokenThreshold atoken eng =
    eng\<lparr>allowedTokensThreshold := (allowedTokensThreshold eng)(at_CreditManager atoken :=
      (allowedTokensThreshold eng (at_CreditManager atoken))(at_Token atoken \<mapsto> LiquidityThreshold atoken))\<rparr>"

definition AddTokenLastPrice :: "price_feed \<Rightarrow> debt_engine \<Rightarrow> debt_engine" where
  "AddTokenLastPrice pf eng =
    (if \<not> IsPriceInUSD pf then eng\<lparr>tokenLastPrice := (tokenLastPrice eng)(pf_Token pf \<mapsto> pf)\<rparr>
     else eng\<lparr>tokenLastPriceV2 := (tokenLastPriceV2 eng)(pf_Token pf \<mapsto> pf)\<rparr>)"

text \<open>\<^verbatim>\<open>updateLocalState\<close>: the pools, tokens and sessions with new data, and the new state.\<close>

definition updateLocalState :: "debt_block \<Rightarrow> debt_engine \<Rightarrow> address list \<times> address list \<times> string list \<times> debt_engine" where
  "updateLocalState block eng =
    (let e1 = foldl (\<lambda>e p. addLastParameters p e) eng (GetParams block);
         e2 = foldl (\<lambda>e r. e\<lparr>lastRebaseDetails := Some r\<rparr>) e1 (RebaseDetailsForDB block);
         e3 = foldl (\<lambda>e ps. AddPoolLastInterestData (ps\<lparr>pid_Timestamp := db_Timestamp block\<rparr>) e) e2 (GetPoolStats block);
         e4 = foldl (\<lambda>e css. AddLastCSS css e) e3 (GetCSS block);
         e5 = foldl (\<lambda>e t. AddAllowedTokenThreshold t e) e4 (GetAllowedTokens block);
         e6 = foldl (\<lambda>e pf. AddTokenLastPrice pf e) e5 (GetPriceFeeds block)
     in (map pid_Address (GetPoolStats block), map at_Token (GetAllowedTokens block) @ map pf_Token (GetPriceFeeds block),
         remdups (map css_SessionId (GetCSS block)), e6))"

section \<open>Prices and indexes\<close>

definition getTokenPriceFeed :: "address \<Rightarrow> int \<Rightarrow> debt_engine \<Rightarrow> price_feed option" where
  "getTokenPriceFeed token version eng =
    (if version = 1 then tokenLastPrice eng token else tokenLastPriceV2 eng token)"

definition GetTokenLastPrice :: "debt_env \<Rightarrow> address \<Rightarrow> int \<Rightarrow> debt_engine \<Rightarrow> int res" where
  "GetTokenLastPrice E addr version eng =
    (if version = 1 \<and> tokenLastPrice eng addr \<noteq> None then Inr (pf_PriceBI (the (tokenLastPrice eng addr)))
     else if version = 1 \<and> WETHAddr E = addr then Inr (WETHPrice E)
     else if version = 2 \<and> tokenLastPriceV2 eng addr \<noteq> None then Inr (pf_PriceBI (the (tokenLastPriceV2 eng addr)))
     else Inl (Fatal ''Price not found''))"

definition GetAmountInUSD :: "debt_env \<Rightarrow> address \<Rightarrow> int \<Rightarrow> int \<Rightarrow> debt_engine \<Rightarrow> int res" where
  "GetAmountInUSD E tokenAddr amount version eng =
    rbind (GetTokenLastPrice E tokenAddr version eng) (\<lambda>tokenPrice.
      if version = 2 then Inr (GetInt64 E (tokenPrice * amount) (TokenDecimals E tokenAddr))
      else
        rbind (GetTokenLastPrice E (USDCAddr E) version eng) (\<lambda>usdcPrice.
        rbind (Quo (GetInt64 E (amount * tokenPrice) (TokenDecimals E tokenAddr - TokenDecimals E (USDCAddr E))) usdcPrice)
          (\<lambda>v. Inr (v * 100))))"

text \<open>
  The cumulative index of a pool at a time.  \<^verbatim>\<open>int64(ts - poolInterestData.Timestamp)\<close> subtracts
  unsigned numbers and reads the result as signed.
\<close>

definition cum_index_at :: "debt_env \<Rightarrow> 64 word \<Rightarrow> pool_interest_data \<Rightarrow> int" where
  "cum_index_at E ts pd =
    (let tsDiff = sint (ts - pid_Timestamp pd);
         newInterestPerSec = quo (BorrowAPYBI pd * tsDiff) (3600 * 365 * 24);
         predicate = newInterestPerSec + GetExpInt E 27
     in GetInt64 E (CumulativeIndexRAY pd * predicate) 27)"

definition GetCumulativeIndexAndDecimalForCMs :: "debt_env \<Rightarrow> 64 word \<Rightarrow> debt_engine \<Rightarrow> (address \<rightharpoonup> cum_index_and_token)" where
  "GetCumulativeIndexAndDecimalForCMs E ts eng =
    foldl (\<lambda>m (cmAddr, cmState).
        case cmState of
          None \<Rightarrow> m
        | Some (poolAddr, tokenAddr) \<Rightarrow> m(cmAddr \<mapsto>
            \<lparr>CumulativeIndex = map_option (cum_index_at E ts) (map_of (poolLastInterestData eng) poolAddr),
             ciu_Token = tokenAddr, ciu_Decimals = TokenDecimals E tokenAddr, ciu_Symbol = TokenSymbol E tokenAddr,
             PoolAddr = poolAddr\<rparr>))
      Map.empty (GetCMState E)"

definition CompareBalance :: "debt_env \<Rightarrow> int \<Rightarrow> int \<Rightarrow> cum_index_and_token \<Rightarrow> bool" where
  "CompareBalance E a b token = AlmostSameBigInt E a b (ciu_Decimals token - GetPrecision E (ciu_Symbol token))"

end
