(* ===== verification/Debt_Engine.thy ===== *)
theory Debt_Engine
  imports Debt_State
begin

text \<open>
  The calculation of debts: \<^verbatim>\<open>engine.go\<close>, \<^verbatim>\<open>debt_db.go\<close>, \<^verbatim>\<open>tf_index.go\<close>, \<^verbatim>\<open>current_debt.go\<close> and the batches of
  \<^verbatim>\<open>index.go\<close>.
\<close>

section \<open>Farming value, profit and repay amount\<close>

definition counted :: "debt_env \<Rightarrow> balance \<Rightarrow> bool" where
  "counted E b \<longleftrightarrow> IsEnabled b \<and> HasBalanceMoreThanOne E b"

definition addFarmingVal :: "debt_env \<Rightarrow> credit_session \<Rightarrow> session_snapshot \<Rightarrow> debt_engine \<Rightarrow> debt \<Rightarrow> debt res" where
  "addFarmingVal E session css eng debt =
    (if isTesting E \<or> cs_Status session \<noteq> Active then Inr debt
     else
       let priceDecimals = (if cs_Version session = 1 then 18 else 8) in
       rbind (rfold (\<lambda>(token, balance) farmingVal.
           if counted E balance \<and> \<not> tradingTokens E token then
             rbind (GetTokenLastPrice E token (cs_Version session) eng) (\<lambda>price.
               Inr (farmingVal + bal_F balance * dGetFloat64Decimal E price priceDecimals))
           else Inr farmingVal) (css_Balances css) 0) (\<lambda>farmingVal.
         if cs_Version session = 1 then
           rbind (GetTokenLastPrice E (USDCAddr E) (cs_Version session) eng) (\<lambda>price.
             Inr (debt\<lparr>FarmingValUSD := farmingVal / dGetFloat64Decimal E price 18\<rparr>))
         else Inr (debt\<lparr>FarmingValUSD := farmingVal\<rparr>)))"

definition trunc_rat :: "rat \<Rightarrow> int" where
  "trunc_rat x = (if 0 \<le> x then \<lfloor>x\<rfloor> else \<lceil>x\<rceil>)"

text \<open>The prices of the transfers at the closing and the amount the borrower paid in.\<close>

definition close_transfers ::
  "debt_env \<Rightarrow> credit_session \<Rightarrow> debt_engine \<Rightarrow> ((address \<times> rat) list \<times> int) res" where
  "close_transfers E session eng =
    rfold (\<lambda>(token, transferAmt) (prices, repayAmount).
        rbind (GetTokenLastPrice E token (cs_Version session) eng) (\<lambda>tokenPrice.
          Inr (AList.update token (dGetFloat64Decimal E tokenPrice 8) prices,
               if transferAmt < 0 then trunc_rat (transferAmt * (- 1) * dGetExpFloat E (TokenDecimals E token)) else repayAmount)))
      (cs_CloseTransfers session) ([], 0)"

text \<open>
  Remaining funds and repay amount.  \<open>closing\<close> says that the session is closed in the next block;
  a session without remaining funds has a nil pointer there.
\<close>

definition remaining_and_repay ::
  "debt_env \<Rightarrow> credit_session \<Rightarrow> session_snapshot \<Rightarrow> cum_index_and_token \<Rightarrow> int \<Rightarrow> int \<Rightarrow> int \<Rightarrow> bool \<Rightarrow> debt_engine \<Rightarrow> (int \<times> int) res" where
  "remaining_and_repay E session css token totalValue amountToPool calRemainingFunds closing eng =
    (if cs_Version session = 2 then
       (if cs_Status session = Closed \<and> closing then
          rbind (close_transfers E session eng) (\<lambda>(prices, repayAmount).
          rbind (GetTokenLastPrice E (ciu_Token token) (cs_Version session) eng) (\<lambda>p.
            Inr (dValueInUnderlying E (cs_CloseTransfers session) (ciu_Token token) (ciu_Decimals token)
                   (AList.update (ciu_Token token) (dGetFloat64Decimal E p 8) prices), repayAmount)))
        else if closing \<and> IsStatusLiquidated E (cs_Status session) then
          rbind (deref (cs_RemainingFunds session)) (\<lambda>funds. Inr (funds, 0))
        else
          let underlyingBalance = (case map_of (css_Balances css) (ciu_Token token) of None \<Rightarrow> 0 | Some b \<Rightarrow> BI b);
              needed = amountToPool + calRemainingFunds
          in Inr (totalValue - amountToPool, if underlyingBalance - needed > 1 then 0 else needed - underlyingBalance))
     else
       rbind (if closing \<and> (cs_Status session = Closed \<or> cs_Status session = Liquidated)
              then deref (cs_RemainingFunds session) else Inr calRemainingFunds) (\<lambda>remainingFunds.
         Inr (remainingFunds,
              if cs_Status session = Liquidated \<and> closing then amountToPool + remainingFunds
              else if cs_Status session = Closed \<and> closing then 0
              else amountToPool)))"

definition calAmountToPoolAndProfit ::
  "debt_env \<Rightarrow> credit_session \<Rightarrow> session_snapshot \<Rightarrow> cum_index_and_token \<Rightarrow> debt_engine \<Rightarrow> debt \<Rightarrow> debt res" where
  "calAmountToPoolAndProfit E session css token eng debt =
    (let closing = (cs_ClosedAt session = d_BlockNumber debt + 1);
         status = (if IsStatusLiquidated E (cs_Status session) \<and> closing then cs_Status session else Active);
         (amountToPool, calRemainingFunds) = dCalCloseAmount E (lastParameters eng (cs_CreditManager session))
           (cs_Version session) (CalTotalValueBI debt) status (CalBorrowedWithInterestBI debt) (css_BorrowedAmountBI css)
     in
     rbind (remaining_and_repay E session css token (CalTotalValueBI debt) amountToPool calRemainingFunds closing eng)
       (\<lambda>(remainingFunds, repayAmount).
     rbind (GetAmountInUSD E (ciu_Token token) remainingFunds (cs_Version session) eng) (\<lambda>remainingFundsInUSD.
     rbind (GetAmountInUSD E (ciu_Token token) (CalTotalValueBI debt) (cs_Version session) eng) (\<lambda>totalValueInUSD.
       Inr (debt\<lparr>AmountToPoolBI := amountToPool, RepayAmountBI := repayAmount,
         ProfitInUnderlying := dGetFloat64Decimal E remainingFunds (ciu_Decimals token) - d_CollateralInUnderlying debt,
         d_CollateralInUnderlying := css_CollateralInUnderlying css,
         d_CollateralInUSD := css_CollateralInUSD css,
         ProfitInUSD := dGetFloat64Decimal E remainingFundsInUSD 8 - css_CollateralInUSD css,
         TotalValueInUSD := dGetFloat64Decimal E totalValueInUSD 8\<rparr>)))))"

section \<open>The debt of a session\<close>

text \<open>The tokens of a profile; every allowed token must have a price.\<close>

definition profile_tokens ::
  "debt_env \<Rightarrow> credit_session \<Rightarrow> (address \<times> balance) list \<Rightarrow> debt_engine \<Rightarrow> (address \<times> int \<times> int \<times> int option) list res" where
  "profile_tokens E session balances eng =
    rfold (\<lambda>(tokenAddr, details) tokens.
        if IsAllowed details then
          rbind (GetTokenLastPrice E tokenAddr (cs_Version session) eng) (\<lambda>price.
            Inr (tokens @ [(tokenAddr, price, TokenDecimals E tokenAddr,
              allowedTokensThreshold eng (cs_CreditManager session) tokenAddr)]))
        else Inr tokens) balances []"

text \<open>Whether the calculated values differ from the data compressor or the snapshot.\<close>

definition not_matched ::
  "debt_env \<Rightarrow> int \<Rightarrow> credit_session \<Rightarrow> session_snapshot \<Rightarrow> cum_index_and_token \<Rightarrow> debt \<Rightarrow> bool res" where
  "not_matched E blockNum session css token debt =
    (if DebtDCMatching E then
       (case dGetCreditAccountData E blockNum (cs_CreditManager session) (css_Borrower css) of
          None \<Rightarrow> Inl (Fatal ''Failed multicall'')
        | Some data \<Rightarrow> Inr (\<not> CompareBalance E (CalTotalValueBI debt) (dc_TotalValue data) token \<or>
            \<not> CompareBalance E (CalBorrowedWithInterestBI debt) (dc_BorrowedAmountPlusInterest data) token \<or>
            ValueDifferSideOf10000 E (CalHealthFactor debt) (dc_HealthFactor data)))
     else if css_BlockNum css = blockNum then
       Inr (\<not> CompareBalance E (CalTotalValueBI debt) (css_TotalValueBI css) token \<or>
         ValueDifferSideOf10000 E (CalHealthFactor debt) (css_HealthFactor css) \<or>
         DiffMoreThanFraction E (CalHealthFactor debt) (css_HealthFactor css) (4 / 100))
     else Inr False)"

definition CalculateSessionDebt ::
  "debt_env \<Rightarrow> int \<Rightarrow> credit_session \<Rightarrow> cum_index_and_token \<Rightarrow> debt_engine \<Rightarrow> (debt \<times> bool \<times> debt_engine) res" where
  "CalculateSessionDebt E blockNum session token eng0 =
    (let sessionId = cs_ID session; cm = cs_CreditManager session in
     rbind (deref (lastParameters eng0 cm)) (\<lambda>params.
     rbind (deref (map_of (lastCSS eng0) sessionId)) (\<lambda>css0.
       let css = css0\<lparr>css_Balances := AdjustRebaseToken E (css_Balances css0) (stETHAddr E) (lastRebaseDetails eng0)\<rparr>;
           eng = eng0\<lparr>lastCSS := AList.update sessionId css (lastCSS eng0)\<rparr>
       in
       rbind (CalcAccountFields E (cs_Version session) blockNum cm (css_Balances css) (css_BorrowedAmountBI css)
                (css_CumulativeIndexAtOpen css) (\<lambda>t. GetTokenLastPrice E t (cs_Version session) eng)
                (\<lambda>t. deref (allowedTokensThreshold eng cm t)) (CumulativeIndex token) (ciu_Token token) (FeeInterest params))
         (\<lambda>(calHF, calDebt, calTotalValue, calThresholdValue, calBorrowedWithInterest).
       let debt0 = \<lparr>d_BlockNumber = blockNum, d_SessionId = sessionId, CalHealthFactor = calHF,
             CalTotalValueBI = calTotalValue, CalDebtBI = calDebt, CalBorrowedWithInterestBI = calBorrowedWithInterest,
             CalThresholdValueBI = calThresholdValue, d_CollateralInUnderlying = css_CollateralInUnderlying css,
             AmountToPoolBI = 0, RepayAmountBI = 0, ProfitInUnderlying = 0, d_CollateralInUSD = 0, ProfitInUSD = 0,
             TotalValueInUSD = 0, FarmingValUSD = 0\<rparr>
       in
       rbind (profile_tokens E session (css_Balances css) eng) (\<lambda>_.
       rbind (not_matched E blockNum session css token debt0) (\<lambda>notMatched.
       rbind (calAmountToPoolAndProfit E session css token eng debt0) (\<lambda>debt1.
       rbind (addFarmingVal E session css eng debt1) (\<lambda>debt2.
         Inr (debt2, notMatched, eng)))))))))"

section \<open>Liquidation tracking, storing debts\<close>

definition addLiquidableAccount :: "string \<Rightarrow> int \<Rightarrow> debt_engine \<Rightarrow> debt_engine" where
  "addLiquidableAccount sessionId newBlockNum eng =
    eng\<lparr>liquidableBlockTracker := AList.update sessionId
      (case map_of (liquidableBlockTracker eng) sessionId of
         None \<Rightarrow> \<lparr>la_SessionId = sessionId, la_BlockNum = newBlockNum, NotifiedIfLiquidable = False, la_Updated = True\<rparr>
       | Some la \<Rightarrow> la\<lparr>la_BlockNum := newBlockNum, la_Updated := True\<rparr>) (liquidableBlockTracker eng)\<rparr>"

definition notifiedIfLiquidable :: "string \<Rightarrow> bool \<Rightarrow> debt_engine \<Rightarrow> debt_engine res" where
  "notifiedIfLiquidable sessionId notified eng =
    rbind (deref (map_of (liquidableBlockTracker eng) sessionId)) (\<lambda>la.
      Inr (eng\<lparr>liquidableBlockTracker := AList.update sessionId (la\<lparr>NotifiedIfLiquidable := notified, la_Updated := True\<rparr>)
        (liquidableBlockTracker eng)\<rparr>))"

definition send_msg :: "debt_msg \<Rightarrow> debt_engine \<Rightarrow> debt_engine" where
  "send_msg m eng = eng\<lparr>debt_msgs := debt_msgs eng @ [m]\<rparr>"

abbreviation safe :: "debt_env \<Rightarrow> debt \<Rightarrow> bool" where
  "safe E d \<equiv> IntGreaterThanEqualTo E (CalHealthFactor d) 10000"

definition track_crossing :: "debt_env \<Rightarrow> debt \<Rightarrow> debt_engine \<Rightarrow> debt_engine res" where
  "track_crossing E debt eng =
    (let sid = d_SessionId debt in
     case lastDebts eng sid of
       None \<Rightarrow> Inr eng
     | Some lastDebt \<Rightarrow>
         if \<not> safe E lastDebt \<and> safe E debt then
           let eng1 = (case map_of (liquidableBlockTracker eng) sid of
                 Some la \<Rightarrow> if d_BlockNumber debt - la_BlockNum la \<ge> 20 then send_msg (SafeAgain (d_BlockNumber debt) sid) eng else eng
               | None \<Rightarrow> eng)
           in notifiedIfLiquidable sid False (addLiquidableAccount sid 0 eng1)
         else if safe E lastDebt \<and> \<not> safe E debt then Inr (addLiquidableAccount sid (d_BlockNumber debt) eng)
         else Inr eng)"

definition notify_liquidable :: "debt_env \<Rightarrow> debt \<Rightarrow> debt_engine \<Rightarrow> debt_engine res" where
  "notify_liquidable E debt eng =
    (let sid = d_SessionId debt in
     case map_of (liquidableBlockTracker eng) sid of
       Some la \<Rightarrow>
         if \<not> safe E debt \<and> d_BlockNumber debt - la_BlockNum la \<ge> 20 \<and> \<not> NotifiedIfLiquidable la then
           rbind (notifiedIfLiquidable sid True eng) (\<lambda>eng1. Inr (send_msg (LowHealthNotLiquidated (d_BlockNumber debt) sid) eng1))
         else Inr eng
     | None \<Rightarrow> Inr eng)"

definition liquidationCheck :: "debt_env \<Rightarrow> debt \<Rightarrow> debt_engine \<Rightarrow> debt_engine res" where
  "liquidationCheck E debt eng = rbind (track_crossing E debt eng) (notify_liquidable E debt)"

text \<open>A quotient of floats: \<open>None\<close> when it is no finite number; \<^verbatim>\<open>+Inf\<close> is cut to 1 like every value from 1 on.\<close>

definition tf_index :: "rat \<Rightarrow> rat \<Rightarrow> rat option" where
  "tf_index farming val =
    (if val = 0 then (if farming > 0 then Some 1 else None)
     else Some (if farming / val \<ge> 1 then 1 else farming / val))"

definition addCurrentDebt :: "debt_env \<Rightarrow> debt \<Rightarrow> int \<Rightarrow> debt_engine \<Rightarrow> debt_engine" where
  "addCurrentDebt E debt decimals eng =
    eng\<lparr>currentDebts := currentDebts eng @
      [\<lparr>cd_Debt = debt, CalTotalValue = dGetFloat64Decimal E (CalTotalValueBI debt) decimals,
        CalDebt = dGetFloat64Decimal E (CalDebtBI debt) decimals,
        CalThresholdValue = dGetFloat64Decimal E (CalThresholdValueBI debt) decimals,
        AmountToPool = dGetFloat64Decimal E (AmountToPoolBI debt) decimals,
        RepayAmount = dGetFloat64Decimal E (RepayAmountBI debt) decimals,
        TFIndex = tf_index (FarmingValUSD debt) (TotalValueInUSD debt)\<rparr>]\<rparr>"

definition addLastDebt :: "debt \<Rightarrow> debt_engine \<Rightarrow> debt_engine" where
  "addLastDebt debt eng = eng\<lparr>lastDebts := (lastDebts eng)(d_SessionId debt \<mapsto> debt)\<rparr>"

definition addDebt :: "debt \<Rightarrow> debt_engine \<Rightarrow> debt_engine" where
  "addDebt debt eng = (addLastDebt debt eng)\<lparr>debts := debts eng @ [debt]\<rparr>"

definition debt_changed :: "debt_env \<Rightarrow> debt \<Rightarrow> debt \<Rightarrow> bool" where
  "debt_changed E lastDebt debt \<longleftrightarrow>
    d_BlockNumber debt - d_BlockNumber lastDebt \<ge> NoOfBlocksPerHr E * ThrottleByHrs E \<or>
    DiffMoreThanFraction E (CalTotalValueBI lastDebt) (CalTotalValueBI debt) (5 / 100) \<or>
    DiffMoreThanFraction E (CalDebtBI lastDebt) (CalDebtBI debt) (5 / 100) \<or>
    ValueDifferSideOf10000 E (CalHealthFactor debt) (CalHealthFactor lastDebt)"

definition AddDebt :: "debt_env \<Rightarrow> debt \<Rightarrow> bool \<Rightarrow> debt_engine \<Rightarrow> debt_engine" where
  "AddDebt E debt forceAdd eng =
    (if ThrottleDebtCal E then
       (case lastDebts eng (d_SessionId debt) of
          None \<Rightarrow> addDebt debt eng
        | Some lastDebt \<Rightarrow> if forceAdd \<or> debt_changed E lastDebt debt then addDebt debt eng else eng)
     else addDebt debt eng)"

definition ifAccountLiquidated :: "debt_env \<Rightarrow> credit_session \<Rightarrow> debt_engine \<Rightarrow> debt_engine" where
  "ifAccountLiquidated E session eng =
    (if IsStatusLiquidated E (cs_Status session) then
       send_msg (LiquidationAlert (cs_ClosedAt session) (cs_ID session)
         (case map_of (liquidableBlockTracker eng) (cs_ID session) of None \<Rightarrow> 0 | Some la \<Rightarrow> la_BlockNum la)) eng
     else eng)"

definition requestPriceFeed :: "debt_env \<Rightarrow> int \<Rightarrow> address \<Rightarrow> address \<Rightarrow> bool \<Rightarrow> debt_engine \<Rightarrow> debt_engine" where
  "requestPriceFeed E blockNum feed token isPriceInUSD eng =
    (let (roundId, answer) = LatestRoundData E feed blockNum in
     AddTokenLastPrice \<lparr>pf_BlockNumber = blockNum, pf_Token = token, pf_Feed = feed, pf_RoundId = roundId,
       pf_PriceBI = answer, pf_Price = dGetFloat64Decimal E answer (if isPriceInUSD then 8 else 18),
       IsPriceInUSD = isPriceInUSD\<rparr> eng)"

definition refresh_yearn :: "debt_env \<Rightarrow> int \<Rightarrow> credit_session \<Rightarrow> (address \<times> balance) list \<Rightarrow> debt_engine \<Rightarrow> debt_engine res" where
  "refresh_yearn E blockNum session balances eng =
    rfold (\<lambda>(tokenAddr, details) eng.
        if counted E details \<and> tokenAddr \<noteq> WETHAddr E then
          rbind (deref (getTokenPriceFeed tokenAddr (cs_Version session) eng)) (\<lambda>lastPriceEvent.
            if pf_BlockNumber lastPriceEvent \<noteq> blockNum \<and> pf_Feed lastPriceEvent \<in> set (YearnFeedAddrs E)
            then Inr (requestPriceFeed E blockNum (pf_Feed lastPriceEvent) tokenAddr (IsPriceInUSD lastPriceEvent) eng)
            else Inr eng)
        else Inr eng) balances eng"

definition SessionDebtHandler ::
  "debt_env \<Rightarrow> int \<Rightarrow> credit_session \<Rightarrow> cum_index_and_token \<Rightarrow> debt_engine \<Rightarrow> debt_engine res" where
  "SessionDebtHandler E blockNum session token eng =
    rbind (CalculateSessionDebt E blockNum session token eng) (\<lambda>(debt0, profile0, eng0).
    rbind (if profile0 then
             rbind (deref (map_of (lastCSS eng0) (cs_ID session))) (\<lambda>css.
             rbind (refresh_yearn E blockNum session (css_Balances css) eng0) (\<lambda>eng1.
             rbind (CalculateSessionDebt E blockNum session token eng1) (\<lambda>(debt1, profile1, eng2).
             rbind (guard_fatal profile1 ''Debt fields different from data compressor fields'') (\<lambda>_. Inr (debt1, eng2)))))
           else Inr (debt0, eng0)) (\<lambda>(debt, eng3).
    rbind (liquidationCheck E debt eng3) (\<lambda>eng4.
      let eng5 = (if cs_ClosedAt session = blockNum + 1
                  then addCurrentDebt E debt (ciu_Decimals token) (ifAccountLiquidated E session eng4) else eng4)
      in rbind (deref (map_of (lastCSS eng5) (cs_ID session))) (\<lambda>css.
           Inr (AddDebt E debt (css_BlockNum css = blockNum) eng5)))))"

section \<open>Blocks and batches\<close>

definition live_at :: "int \<Rightarrow> credit_session \<Rightarrow> bool" where
  "live_at blockNum session \<longleftrightarrow>
    \<not> ((cs_ClosedAt session \<noteq> 0 \<and> cs_ClosedAt session \<le> blockNum) \<or> cs_Since session > blockNum)"

text \<open>
  The first loop: whether a live session has to be recalculated, and its share of the total value.
\<close>

definition check_session ::
  "debt_env \<Rightarrow> int \<Rightarrow> (address \<rightharpoonup> cum_index_and_token) \<Rightarrow> address list \<Rightarrow> address list \<Rightarrow> debt_engine \<Rightarrow>
    credit_session \<Rightarrow> string list \<times> rat \<Rightarrow> (string list \<times> rat) res" where
  "check_session E blockNum details poolsUpdated tokensUpdated eng session = (\<lambda>(sessionsUpdated, total).
    if \<not> live_at blockNum session then Inr (sessionsUpdated, total)
    else
      rbind (deref (details (cs_CreditManager session))) (\<lambda>token.
      rbind (deref (map_of (lastCSS eng) (cs_ID session))) (\<lambda>css.
      rbind (GetAmountInUSD E (ciu_Token token) (css_TotalValueBI css) (cs_Version session) eng) (\<lambda>usd.
        let updated = PoolAddr token \<in> set poolsUpdated \<or>
              (\<exists>(t, b) \<in> set (css_Balances css). counted E b \<and> t \<in> set tokensUpdated) \<or>
              ciu_Token token \<in> set tokensUpdated
        in Inr (if updated \<and> cs_ID session \<notin> set sessionsUpdated then sessionsUpdated @ [cs_ID session] else sessionsUpdated,
                total + dGetFloat64Decimal E usd 8)))))"

definition createTvlSnapshots :: "debt_env \<Rightarrow> int \<Rightarrow> rat \<Rightarrow> debt_engine \<Rightarrow> debt_engine res" where
  "createTvlSnapshots E blockNum caTotalValueInUSD eng =
    (if (case lastTvlSnapshot eng of None \<Rightarrow> False | Some t \<Rightarrow> blockNum - tvl_BlockNum t < NoOfBlocksPerHr E) then Inr eng
     else
       rbind (rfold (\<lambda>(_, entry) total.
           case PoolUnderlying E (pid_Address entry) of
             None \<Rightarrow> Inl (Fatal ''State for pool not found for address: '')
           | Some underlyingToken \<Rightarrow>
               let version = (if tokenLastPriceV2 eng underlyingToken \<noteq> None then 2 else 1) in
               rbind (GetAmountInUSD E underlyingToken (pid_AvailableLiquidityBI entry) version eng) (\<lambda>usd.
                 Inr (total + dGetFloat64Decimal E usd 8)))
         (poolLastInterestData eng) 0) (\<lambda>total.
         let tvls = \<lparr>tvl_BlockNum = blockNum, tvl_AvailableLiquidity = total, CATotalValue = caTotalValueInUSD\<rparr>
         in Inr (eng\<lparr>tvlSnapshots := tvlSnapshots eng @ [tvls], lastTvlSnapshot := Some tvls\<rparr>)))"

text \<open>The second loop: the debt of a session that has to be recalculated.\<close>

definition calc_session ::
  "debt_env \<Rightarrow> int \<Rightarrow> (address \<rightharpoonup> cum_index_and_token) \<Rightarrow> (string \<times> credit_session) list \<Rightarrow> string \<Rightarrow> debt_engine \<Rightarrow> debt_engine res" where
  "calc_session E blockNum details sess sessionId eng =
    rbind (deref (map_of sess sessionId)) (\<lambda>session.
      if \<not> live_at blockNum session then Inr eng
      else
        case details (cs_CreditManager session) of
          Some token \<Rightarrow> SessionDebtHandler E blockNum session token eng
        | None \<Rightarrow> Inl (Fatal ''pool is missing stats''))"

definition calc_block ::
  "debt_env \<Rightarrow> (string \<times> credit_session) list \<Rightarrow> int \<Rightarrow> debt_block \<Rightarrow> debt_engine \<Rightarrow> debt_engine res" where
  "calc_block E sess blockNum block eng0 =
    (let (poolsUpdated, tokensUpdated, sessionsUpdated, eng) = updateLocalState block eng0;
         details = GetCumulativeIndexAndDecimalForCMs E (db_Timestamp block) eng
     in
     rbind (rfold (\<lambda>(_, session). check_session E blockNum details poolsUpdated tokensUpdated eng session) sess
              (sessionsUpdated, 0)) (\<lambda>(updated, total).
     rbind (rfold (calc_session E blockNum details sess) updated eng) (\<lambda>eng1.
       createTvlSnapshots E blockNum total eng1)))"

definition CalculateDebt ::
  "debt_env \<Rightarrow> (string \<times> credit_session) list \<Rightarrow> (int \<times> debt_block) list \<Rightarrow> debt_engine \<Rightarrow> debt_engine res" where
  "CalculateDebt E sess blks eng =
    rfold (\<lambda>(blockNum, block). calc_block E sess blockNum block) (sort_key fst blks) eng"

definition flushDebt :: "int \<Rightarrow> debt_engine \<Rightarrow> debt_engine" where
  "flushDebt newDebtSyncTill eng =
    (if debts eng = [] then eng
     else eng\<lparr>db_debt_sync := Some newDebtSyncTill,
            db_liquidable := db_liquidable eng @ filter la_Updated (map snd (liquidableBlockTracker eng)),
            liquidableBlockTracker := map (\<lambda>(k, la). (k, la\<lparr>la_Updated := False\<rparr>)) (liquidableBlockTracker eng),
            db_debts := db_debts eng @ debts eng, db_tvl := db_tvl eng @ tvlSnapshots eng, debts := [], tvlSnapshots := []\<rparr>)"

definition CalCurrentDebts :: "debt_env \<Rightarrow> (string \<times> credit_session) list \<Rightarrow> int \<Rightarrow> debt_engine \<Rightarrow> debt_engine res" where
  "CalCurrentDebts E sess to eng0 =
    (let details = (if lastCSS eng0 \<noteq> [] then GetCumulativeIndexAndDecimalForCMs E (BlockTime E to) eng0 else Map.empty) in
     rfold (\<lambda>(_, session) eng.
         if (cs_ClosedAt session = 0 \<or> cs_ClosedAt session > to + 1) \<and> cs_Since session \<le> to then
           rbind (deref (details (cs_CreditManager session))) (\<lambda>token.
           rbind (CalculateSessionDebt E to session token eng) (\<lambda>(debt, _, eng1).
             Inr (addCurrentDebt E debt (ciu_Decimals token) eng1)))
         else Inr eng) sess eng0)"

definition flushCurrentDebts :: "debt_engine \<Rightarrow> debt_engine" where
  "flushCurrentDebts eng = eng\<lparr>db_current := db_current eng @ currentDebts eng, currentDebts := []\<rparr>"

definition CalculateDebtAndClear ::
  "debt_env \<Rightarrow> (string \<times> credit_session) list \<Rightarrow> (int \<times> debt_block) list \<Rightarrow> int \<Rightarrow> debt_engine \<Rightarrow> debt_engine res" where
  "CalculateDebtAndClear E sess blks to eng =
    rbind (if \<not> DisableDebtEngine E then
             rbind (CalculateDebt E sess blks eng) (\<lambda>eng1.
             rbind (CalCurrentDebts E sess to (flushDebt to eng1)) (\<lambda>eng2.
               Inr (flushCurrentDebts eng2)))
           else Inr eng) (\<lambda>eng3. Inr (eng3\<lparr>debts := []\<rparr>))"

text \<open>
  \<^verbatim>\<open>ProcessBackLogs\<close>: the batches it hands to \<^verbatim>\<open>processBlocksInBatch\<close>.  With a batch size of at most 0 the
  loop of the source does not end; the fuel of the model is the distance to go.
\<close>

fun backlog_batches :: "nat \<Rightarrow> int \<Rightarrow> int \<Rightarrow> int \<Rightarrow> (int \<times> int) list res" where
  "backlog_batches 0 batchSize synced till = Inl OutOfFuel"
| "backlog_batches (Suc n) batchSize synced till =
    (if synced + batchSize < till
     then rbind (backlog_batches n batchSize (synced + batchSize) till) (\<lambda>bs. Inr ((synced, synced + batchSize) # bs))
     else Inr [(synced, till)])"

definition processBlocksInBatch ::
  "debt_env \<Rightarrow> (string \<times> credit_session) list \<Rightarrow> (int \<Rightarrow> int \<Rightarrow> (int \<times> debt_block) list) \<Rightarrow> int \<times> int \<Rightarrow> debt_engine \<Rightarrow> debt_engine res" where
  "processBlocksInBatch E sess LoadBlocks = (\<lambda>(from, to) eng.
    if from = to then Inr eng
    else if LoadBlocks from to \<noteq> [] then CalculateDebtAndClear E sess (LoadBlocks from to) to eng
    else Inr eng)"

definition ProcessBackLogs ::
  "debt_env \<Rightarrow> (string \<times> credit_session) list \<Rightarrow> (int \<Rightarrow> int \<Rightarrow> (int \<times> debt_block) list) \<Rightarrow> bool \<Rightarrow> nat \<Rightarrow> int \<Rightarrow> int \<Rightarrow> int \<Rightarrow>
    debt_engine \<Rightarrow> debt_engine res" where
  "ProcessBackLogs E sess LoadBlocks synchronized fuel lastDebtSynced adaptersSyncedTill batchSize eng =
    (if \<not> synchronized \<or> DisableDebtEngine E then Inr eng
     else rbind (backlog_batches fuel batchSize lastDebtSynced adaptersSyncedTill) (\<lambda>bs.
       rfold (processBlocksInBatch E sess LoadBlocks) bs eng))"

end
