(* ===== verification/Debt_Correct.thy ===== *)
theory Debt_Correct
  imports Debt_Engine
begin

text \<open>
  Correctness of the debt engine: which sessions get a debt in a block, the tracking of liquidable
  accounts under throttling, the cumulative index, repay amounts and the batches of the backlog.
\<close>

section \<open>Which sessions get a debt\<close>

text \<open>What the bookkeeping leaves of the stored debts.\<close>

lemma calAmount_ids:
  "calAmountToPoolAndProfit E s css t eng d = Inr d' \<Longrightarrow> d_SessionId d' = d_SessionId d \<and> d_BlockNumber d' = d_BlockNumber d"
  by (auto simp: calAmountToPoolAndProfit_def Let_def elim!: rbind_InrE split: prod.splits)

lemma addFarmingVal_ids:
  "addFarmingVal E s css eng d = Inr d' \<Longrightarrow> d_SessionId d' = d_SessionId d \<and> d_BlockNumber d' = d_BlockNumber d"
  by (auto simp: addFarmingVal_def Let_def elim!: rbind_InrE split: if_splits)

lemma CalculateSessionDebt_effect:
  assumes "CalculateSessionDebt E b s t eng = Inr (d, p, eng')"
  shows "\<exists>m. eng' = eng\<lparr>lastCSS := m\<rparr>" "d_SessionId d = cs_ID s" "d_BlockNumber d = b"
  using assms unfolding CalculateSessionDebt_def Let_def
  by (auto elim!: rbind_InrE dest!: calAmount_ids addFarmingVal_ids)

lemma refresh_yearn_debts: "refresh_yearn E b s bs eng = Inr eng' \<Longrightarrow> debts eng' = debts eng"
  unfolding refresh_yearn_def
  by (erule rfold_invariant[where I = "\<lambda>e. debts e = debts eng"])
    (auto simp: requestPriceFeed_def AddTokenLastPrice_def elim!: rbind_InrE split: if_splits prod.splits)

lemma tracker_ops_debts [simp]:
  "debts (addLiquidableAccount sid n eng) = debts eng" "debts (send_msg m eng) = debts eng"
  "debts (addCurrentDebt E d dec eng) = debts eng" "debts (ifAccountLiquidated E s eng) = debts eng"
  by (simp_all add: addLiquidableAccount_def send_msg_def addCurrentDebt_def ifAccountLiquidated_def)

lemma notified_debts: "notifiedIfLiquidable sid n eng = Inr eng' \<Longrightarrow> debts eng' = debts eng"
  by (auto simp: notifiedIfLiquidable_def elim!: rbind_InrE)

lemma liquidationCheck_debts: "liquidationCheck E d eng = Inr eng' \<Longrightarrow> debts eng' = debts eng"
  by (auto simp: liquidationCheck_def track_crossing_def notify_liquidable_def Let_def dest!: notified_debts
      elim!: rbind_InrE split: option.splits if_splits)

lemma CalculateSessionDebt_debts:
  "CalculateSessionDebt E b s t eng = Inr (d, p, eng') \<Longrightarrow> debts eng' = debts eng \<and> d_SessionId d = cs_ID s \<and> d_BlockNumber d = b"
  by (frule CalculateSessionDebt_effect(1)) (auto dest: CalculateSessionDebt_effect(2,3))

lemma SessionDebtHandler_debts:
  assumes "SessionDebtHandler E b s t eng = Inr eng'" and "\<not> ThrottleDebtCal E"
  shows "\<exists>d. debts eng' = debts eng @ [d] \<and> d_SessionId d = cs_ID s \<and> d_BlockNumber d = b"
  using assms unfolding SessionDebtHandler_def
  by (auto simp: Let_def AddDebt_def addDebt_def addLastDebt_def elim!: rbind_InrE split: if_splits
      dest!: CalculateSessionDebt_debts refresh_yearn_debts liquidationCheck_debts)


text \<open>
  When a session has to be recalculated although no snapshot of it is in the block: its pool has new
  data, or its underlying token or a counted token of its last snapshot has a new price or threshold.
\<close>

definition session_changed ::
  "debt_env \<Rightarrow> (address \<rightharpoonup> cum_index_and_token) \<Rightarrow> address list \<Rightarrow> address list \<Rightarrow> debt_engine \<Rightarrow> credit_session \<Rightarrow> bool" where
  "session_changed E details pools toks eng s \<longleftrightarrow>
    (\<exists>token css. details (cs_CreditManager s) = Some token \<and> map_of (lastCSS eng) (cs_ID s) = Some css \<and>
      (PoolAddr token \<in> set pools \<or> (\<exists>(t, b) \<in> set (css_Balances css). counted E b \<and> t \<in> set toks) \<or> ciu_Token token \<in> set toks))"

lemma check_session_Inr:
  assumes "check_session E b details pools toks eng s (upd, tot) = Inr (upd', tot')"
  shows "set upd' = set upd \<union> (if live_at b s \<and> session_changed E details pools toks eng s then {cs_ID s} else {})"
    and "distinct upd \<Longrightarrow> distinct upd'"
    and "live_at b s \<Longrightarrow> details (cs_CreditManager s) \<noteq> None"
  using assms by (auto simp: check_session_def session_changed_def Let_def elim!: rbind_InrE split: if_splits)

lemma check_loop:
  "rfold (\<lambda>(_, s). check_session E b details pools toks eng s) sess (upd, tot) = Inr (upd', tot') \<Longrightarrow>
    set upd' = set upd \<union> {cs_ID s | k s. (k, s) \<in> set sess \<and> live_at b s \<and> session_changed E details pools toks eng s} \<and>
    (distinct upd \<longrightarrow> distinct upd')"
proof (induction sess arbitrary: upd tot)
  case (Cons x sess)
  obtain k s where x: "x = (k, s)" by (cases x)
  obtain u t where step: "check_session E b details pools toks eng s (upd, tot) = Inr (u, t)"
    and rest: "rfold (\<lambda>(_, s). check_session E b details pools toks eng s) sess (u, t) = Inr (upd', tot')"
    using Cons.prems x by (auto elim!: rbind_InrE)
  have "{cs_ID s' | k' s'. (k', s') \<in> set (x # sess) \<and> live_at b s' \<and> session_changed E details pools toks eng s'}
      = (if live_at b s \<and> session_changed E details pools toks eng s then {cs_ID s} else {}) \<union>
        {cs_ID s' | k' s'. (k', s') \<in> set sess \<and> live_at b s' \<and> session_changed E details pools toks eng s'}"
    using x by auto
  then show ?case using Cons.IH[OF rest] check_session_Inr(1,2)[OF step] by (simp add: Un_assoc)
qed simp

lemma calc_loop:
  assumes "\<not> ThrottleDebtCal E" and "\<forall>(k, s) \<in> set sess. cs_ID s = k"
  shows "rfold (calc_session E b details sess) upd eng = Inr eng' \<Longrightarrow>
    \<exists>new. debts eng' = debts eng @ new \<and> (\<forall>d \<in> set new. d_BlockNumber d = b) \<and>
      map d_SessionId new = filter (\<lambda>sid. case map_of sess sid of None \<Rightarrow> False | Some s \<Rightarrow> live_at b s) upd"
proof (induction upd arbitrary: eng)
  case (Cons sid upd)
  obtain e1 where step: "calc_session E b details sess sid eng = Inr e1"
    and rest: "rfold (calc_session E b details sess) upd e1 = Inr eng'"
    using Cons.prems by (auto elim!: rbind_InrE)
  obtain s where s: "map_of sess sid = Some s" using step by (auto simp: calc_session_def elim!: rbind_InrE)
  then have id: "cs_ID s = sid" using assms(2) by (auto dest!: map_of_SomeD)
  obtain new where new: "debts eng' = debts e1 @ new" "\<forall>d \<in> set new. d_BlockNumber d = b"
    "map d_SessionId new = filter (\<lambda>sid. case map_of sess sid of None \<Rightarrow> False | Some s \<Rightarrow> live_at b s) upd"
    using Cons.IH[OF rest] by blast
  show ?case
  proof (cases "live_at b s")
    case False
    then show ?thesis using step s new by (auto simp: calc_session_def)
  next
    case True
    then obtain t where "SessionDebtHandler E b s t eng = Inr e1"
      using step s by (auto simp: calc_session_def split: option.splits)
    then obtain d where d: "debts e1 = debts eng @ [d]" "d_SessionId d = sid" "d_BlockNumber d = b"
      using SessionDebtHandler_debts[OF _ assms(1)] id by blast
    show ?thesis using new d s True by (intro exI[of _ "d # new"]) simp
  qed
qed simp

lemma foldl_debts: "(\<And>e x. debts (f e x) = debts e) \<Longrightarrow> debts (foldl f e xs) = debts e"
  by (induction xs arbitrary: e) simp_all

lemma updateLocalState_debts:
  assumes "updateLocalState block eng = (pools, toks, upd, eng1)"
  shows "debts eng1 = debts eng" "set upd = css_SessionId ` set (GetCSS block)" "distinct upd"
  using assms by (auto simp: updateLocalState_def Let_def addLastParameters_def AddPoolLastInterestData_def AddLastCSS_def
      AddAllowedTokenThreshold_def AddTokenLastPrice_def foldl_debts)

lemma createTvlSnapshots_debts: "createTvlSnapshots E b t eng = Inr eng' \<Longrightarrow> debts eng' = debts eng"
  by (auto simp: createTvlSnapshots_def Let_def elim!: rbind_InrE split: if_splits)

text \<open>
  Reference definitions, from the rows of the block and the state before it.  The pool and the underlying token of a manager are those
  of its state; a token has new data if the block has a threshold or a price of it.
\<close>

definition open_at :: "int \<Rightarrow> credit_session \<Rightarrow> bool" where
  "open_at b s \<longleftrightarrow> cs_Since s \<le> b \<and> (cs_ClosedAt s = 0 \<or> b < cs_ClosedAt s)"

definition token_news :: "debt_block \<Rightarrow> address \<Rightarrow> bool" where
  "token_news block t \<longleftrightarrow>
    (\<exists>row \<in> set (GetAllowedTokens block). at_Token row = t) \<or> (\<exists>row \<in> set (GetPriceFeeds block). pf_Token row = t)"

definition pool_news :: "debt_block \<Rightarrow> address \<Rightarrow> bool" where
  "pool_news block p \<longleftrightarrow> (\<exists>row \<in> set (GetPoolStats block). pid_Address row = p)"

definition snapshot_news :: "debt_block \<Rightarrow> string \<Rightarrow> bool" where
  "snapshot_news block sid \<longleftrightarrow> (\<exists>row \<in> set (GetCSS block). css_SessionId row = sid)"

text \<open>News of a balance that counts: of a token that is enabled and of which there is more than one unit.\<close>

definition balance_news :: "debt_env \<Rightarrow> debt_block \<Rightarrow> session_snapshot \<Rightarrow> bool" where
  "balance_news E block css \<longleftrightarrow> (\<exists>(t, bal) \<in> set (css_Balances css). IsEnabled bal \<and> HasBalanceMoreThanOne E bal \<and> token_news block t)"

definition session_news :: "debt_env \<Rightarrow> debt_block \<Rightarrow> debt_engine \<Rightarrow> credit_session \<Rightarrow> bool" where
  "session_news E block eng s \<longleftrightarrow>
    snapshot_news block (cs_ID s) \<or>
    (\<exists>pool underlying. map_of (GetCMState E) (cs_CreditManager s) = Some (Some (pool, underlying)) \<and>
      (pool_news block pool \<or> token_news block underlying)) \<or>
    (\<exists>css. map_of (lastCSS eng) (cs_ID s) = Some css \<and> balance_news E block css)"

text \<open>The code's state and sets in these terms.\<close>

lemma live_open: "live_at b s = open_at b s"
  by (auto simp: live_at_def open_at_def)

lemma lastCSS_foldl:
  "map_of (lastCSS (foldl (\<lambda>e css. AddLastCSS css e) eng rs)) sid = map_of (lastCSS eng) sid \<or> (\<exists>r \<in> set rs. css_SessionId r = sid)"
proof (induction rs arbitrary: eng)
  case (Cons r rs)
  show ?case using Cons.IH[of "AddLastCSS r eng"] by (cases "css_SessionId r = sid") (auto simp: AddLastCSS_def)
qed simp

lemma foldl_lastCSS: "(\<And>e x. lastCSS (f e x) = lastCSS e) \<Longrightarrow> lastCSS (foldl f e xs) = lastCSS e"
  by (induction xs arbitrary: e) simp_all

lemma updateLocalState_news:
  assumes "updateLocalState block eng = (pools, toks, upd, eng1)"
  shows "p \<in> set pools \<longleftrightarrow> pool_news block p" "t \<in> set toks \<longleftrightarrow> token_news block t" "sid \<in> set upd \<longleftrightarrow> snapshot_news block sid"
    and "\<not> snapshot_news block sid \<Longrightarrow> map_of (lastCSS eng1) sid = map_of (lastCSS eng) sid"
proof -
  show "p \<in> set pools \<longleftrightarrow> pool_news block p" "t \<in> set toks \<longleftrightarrow> token_news block t" "sid \<in> set upd \<longleftrightarrow> snapshot_news block sid"
    using assms by (auto simp: updateLocalState_def Let_def pool_news_def token_news_def snapshot_news_def)
  let ?e3 = "foldl (\<lambda>e ps. AddPoolLastInterestData (ps\<lparr>pid_Timestamp := db_Timestamp block\<rparr>) e)
    (foldl (\<lambda>e r. e\<lparr>lastRebaseDetails := Some r\<rparr>) (foldl (\<lambda>e p. addLastParameters p e) eng (GetParams block)) (RebaseDetailsForDB block))
    (GetPoolStats block)"
  have "eng1 = foldl (\<lambda>e pf. AddTokenLastPrice pf e) (foldl (\<lambda>e t. AddAllowedTokenThreshold t e)
      (foldl (\<lambda>e css. AddLastCSS css e) ?e3 (GetCSS block)) (GetAllowedTokens block)) (GetPriceFeeds block)"
    using assms by (simp add: updateLocalState_def Let_def)
  then have "lastCSS eng1 = lastCSS (foldl (\<lambda>e css. AddLastCSS css e) ?e3 (GetCSS block))" "lastCSS ?e3 = lastCSS eng"
    by (simp_all add: foldl_lastCSS AddTokenLastPrice_def AddAllowedTokenThreshold_def AddPoolLastInterestData_def addLastParameters_def)
  then show "\<not> snapshot_news block sid \<Longrightarrow> map_of (lastCSS eng1) sid = map_of (lastCSS eng) sid"
    using lastCSS_foldl[of ?e3 "GetCSS block" sid] by (simp add: snapshot_news_def)
qed

lemma cm_details_foldl:
  assumes "distinct (map fst xs)"
  shows "foldl (\<lambda>m (cmAddr, cmState). case cmState of None \<Rightarrow> m | Some (p, t) \<Rightarrow> m(cmAddr \<mapsto> g p t)) m xs cm =
    (case map_of xs cm of Some (Some (p, t)) \<Rightarrow> Some (g p t) | _ \<Rightarrow> m cm)"
  using assms
proof (induction xs arbitrary: m)
  case (Cons x xs)
  obtain k st where x: "x = (k, st)" by fastforce
  have no: "map_of xs k = None" using Cons.prems x by (simp add: map_of_eq_None_iff)
  have "distinct (map fst xs)" using Cons.prems by simp
  note IH = Cons.IH[OF this]
  show ?case using no by (cases st) (auto simp: x IH split: option.splits)
qed simp

lemma cm_details:
  assumes "distinct (map fst (GetCMState E))" and "details = GetCumulativeIndexAndDecimalForCMs E ts eng" and "details cm = Some token"
  shows "map_of (GetCMState E) cm = Some (Some (PoolAddr token, ciu_Token token))"
proof -
  note g = cm_details_foldl[OF assms(1)]
  show ?thesis
    using assms(3) unfolding assms(2) GetCumulativeIndexAndDecimalForCMs_def g by (auto split: option.splits)
qed

lemma check_session_found:
  assumes "check_session E b details pools toks eng s x = Inr y" and "live_at b s"
  shows "details (cs_CreditManager s) \<noteq> None" "map_of (lastCSS eng) (cs_ID s) \<noteq> None"
  using assms by (cases x; auto simp: check_session_def elim!: rbind_InrE)+

lemma check_loop_found:
  assumes "rfold (\<lambda>(_, s). check_session E b details pools toks eng s) sess x = Inr y" and "(k, s) \<in> set sess" and "live_at b s"
  shows "details (cs_CreditManager s) \<noteq> None \<and> map_of (lastCSS eng) (cs_ID s) \<noteq> None"
  using assms(1,2)
proof (induction sess arbitrary: x)
  case (Cons z sess)
  from Cons.prems(1) obtain x1 where x1: "(case z of (_, s) \<Rightarrow> check_session E b details pools toks eng s) x = Inr x1"
    "rfold (\<lambda>(_, s). check_session E b details pools toks eng s) sess x1 = Inr y" by (auto elim: rbind_InrE)
  show ?case
  proof (cases "z = (k, s)")
    case True
    then show ?thesis using check_session_found[OF _ assms(3)] x1(1) by simp
  next
    case False
    then show ?thesis using Cons.IH[OF x1(2)] Cons.prems(2) by auto
  qed
qed simp

text \<open>What is recalculated is what has news.\<close>

lemma changed_news:
  assumes "updateLocalState block eng = (pools, toks, upd, eng1)" and "distinct (map fst (GetCMState E))"
    and d: "details = GetCumulativeIndexAndDecimalForCMs E (db_Timestamp block) eng1"
    and "details (cs_CreditManager s) \<noteq> None" and "map_of (lastCSS eng1) (cs_ID s) \<noteq> None"
  shows "snapshot_news block (cs_ID s) \<or> session_changed E details pools toks eng1 s \<longleftrightarrow> session_news E block eng s"
proof (cases "snapshot_news block (cs_ID s)")
  case True
  then show ?thesis by (simp add: session_news_def)
next
  case False
  note news = updateLocalState_news[OF assms(1)]
  obtain token css where t: "details (cs_CreditManager s) = Some token" "map_of (lastCSS eng1) (cs_ID s) = Some css"
    using assms(4,5) by blast
  have m: "map_of (GetCMState E) (cs_CreditManager s) = Some (Some (PoolAddr token, ciu_Token token))"
    by (rule cm_details[OF assms(2) d t(1)])
  have c: "map_of (lastCSS eng) (cs_ID s) = Some css" using news(4)[OF False] t(2) by simp
  have "session_changed E details pools toks eng1 s \<longleftrightarrow>
      pool_news block (PoolAddr token) \<or> balance_news E block css \<or> token_news block (ciu_Token token)"
    unfolding session_changed_def t option.inject by (simp add: news(1,2) balance_news_def counted_def)
  moreover have "session_news E block eng s \<longleftrightarrow>
      pool_news block (PoolAddr token) \<or> token_news block (ciu_Token token) \<or> balance_news E block css"
    unfolding session_news_def m c option.inject prod.inject using False by simp
  ultimately show ?thesis using False by blast
qed

text \<open>
  C20: in every block the engine calculates exactly the debts it should.  With throttling off, the debts
  added for a block are one each for the sessions that are open at the block and have news in it: a new snapshot, a row of the
  pool of their manager, a price or threshold of its underlying token, or one of a token that counts in their last snapshot before the block; all
  of them carry the number of the block.
\<close>

theorem calc_block_debts:
  assumes "calc_block E sess b block eng = Inr eng'" and "\<not> ThrottleDebtCal E"
    and "\<forall>(k, s) \<in> set sess. cs_ID s = k" and "distinct (map fst sess)" and "distinct (map fst (GetCMState E))"
  shows "\<exists>new. debts eng' = debts eng @ new \<and> distinct (map d_SessionId new) \<and> (\<forall>d \<in> set new. d_BlockNumber d = b) \<and>
    d_SessionId ` set new = {sid. \<exists>s. (sid, s) \<in> set sess \<and> open_at b s \<and> session_news E block eng s}"
proof -
  obtain pools toks upd eng1 where local_state: "updateLocalState block eng = (pools, toks, upd, eng1)"
    by (cases "updateLocalState block eng")
  define details where "details = GetCumulativeIndexAndDecimalForCMs E (db_Timestamp block) eng1"
  obtain upd' tot e2 where check: "rfold (\<lambda>(_, s). check_session E b details pools toks eng1 s) sess (upd, 0) = Inr (upd', tot)"
    and calc: "rfold (calc_session E b details sess) upd' eng1 = Inr e2" and tvl: "createTvlSnapshots E b tot e2 = Inr eng'"
    using assms(1) unfolding calc_block_def local_state details_def by (auto simp: Let_def elim!: rbind_InrE)
  obtain new where new: "debts e2 = debts eng1 @ new" "\<forall>d \<in> set new. d_BlockNumber d = b"
    "map d_SessionId new = filter (\<lambda>sid. case map_of sess sid of None \<Rightarrow> False | Some s \<Rightarrow> live_at b s) upd'"
    using calc_loop[OF assms(2,3) calc] by blast
  note st = updateLocalState_debts[OF local_state]
  note ck = check_loop[OF check]
  have key: "map_of sess k = Some s \<longleftrightarrow> (k, s) \<in> set sess" for k s
    using assms(4) by (metis map_of_SomeD map_of_is_SomeI)
  have id: "(k, s) \<in> set sess \<Longrightarrow> cs_ID s = k" for k s using assms(3) by auto
  have up: "sid \<in> set upd' \<longleftrightarrow> session_news E block eng s" if s: "(sid, s) \<in> set sess" "live_at b s" for sid s
  proof -
    have uniq: "(sid, s') \<in> set sess \<Longrightarrow> s' = s" for s' using key s(1) by (metis option.inject)
    have "sid \<in> set upd' \<longleftrightarrow> snapshot_news block sid \<or> session_changed E details pools toks eng1 s"
    proof -
      have "sid \<in> {cs_ID s | k s. (k, s) \<in> set sess \<and> live_at b s \<and> session_changed E details pools toks eng1 s} \<longleftrightarrow>
          session_changed E details pools toks eng1 s" (is "sid \<in> ?S \<longleftrightarrow> ?c")
      proof
        assume "sid \<in> ?S"
        then obtain k s' where s': "sid = cs_ID s'" "(k, s') \<in> set sess" "session_changed E details pools toks eng1 s'" by blast
        then show ?c using uniq[of s'] id[OF s'(2)] by simp
      next
        assume ?c
        then show "sid \<in> ?S" using s id[OF s(1)] by blast
      qed
      then show ?thesis using ck updateLocalState_news(3)[OF local_state, of sid] by simp
    qed
    then show ?thesis
      using changed_news[OF local_state assms(5) details_def, of s] check_loop_found[OF check s] id[OF s(1)] by simp
  qed
  have "d_SessionId ` set new = set (map d_SessionId new)" by simp
  also have "\<dots> = {sid \<in> set upd'. case map_of sess sid of None \<Rightarrow> False | Some s \<Rightarrow> live_at b s}" unfolding new(3) by simp
  also have "\<dots> = {sid. \<exists>s. (sid, s) \<in> set sess \<and> open_at b s \<and> session_news E block eng s}"
  proof (rule Collect_cong)
    fix sid
    show "(sid \<in> set upd' \<and> (case map_of sess sid of None \<Rightarrow> False | Some s \<Rightarrow> live_at b s)) \<longleftrightarrow>
        (\<exists>s. (sid, s) \<in> set sess \<and> open_at b s \<and> session_news E block eng s)"
    proof (cases "map_of sess sid")
      case None
      then show ?thesis unfolding key[symmetric] by simp
    next
      case (Some s)
      then have "(sid, s) \<in> set sess" by (simp add: key)
      then show ?thesis using up Some unfolding key[symmetric] live_open by auto
    qed
  qed
  finally have ids: "d_SessionId ` set new = {sid. \<exists>s. (sid, s) \<in> set sess \<and> open_at b s \<and> session_news E block eng s}" .
  have "distinct (map d_SessionId new)" unfolding new(3) using ck st(3) by simp
  then show ?thesis using new(1,2) st(1) createTvlSnapshots_debts[OF tvl] ids by auto
qed

section \<open>A manager the kit does not know\<close>

text \<open>
  A live session whose credit manager has no state or is not in the kit stops the process with a nil
  dereference in the first loop over the sessions; the check of the second loop that would report
  the missing pool is never reached with such a session.
\<close>

theorem calc_block_unknown_manager:
  assumes "updateLocalState block eng = (pools, toks, upd, eng1)"
    and "details = GetCumulativeIndexAndDecimalForCMs E (db_Timestamp block) eng1"
    and "sess = pre @ (k, s) # post" and "live_at b s" and "details (cs_CreditManager s) = None"
    and "rfold (\<lambda>(_, s). check_session E b details pools toks eng1 s) pre (upd, 0) = Inr r"
  shows "calc_block E sess b block eng = Inl NilDereference"
proof -
  have "check_session E b details pools toks eng1 s r = Inl NilDereference"
    using assms(4,5) by (cases r) (simp add: check_session_def)
  then show ?thesis
    unfolding calc_block_def assms(1) using assms(6) unfolding assms(2,3) by (simp add: Let_def rfold_append)
qed

section \<open>Liquidable accounts\<close>

text \<open>The two calls of the handler that keep track of the health of a session.\<close>

definition record_debt :: "debt_env \<Rightarrow> debt \<times> bool \<Rightarrow> debt_engine \<Rightarrow> debt_engine res" where
  "record_debt E = (\<lambda>(d, force) eng. rbind (liquidationCheck E d eng) (\<lambda>e. Inr (AddDebt E d force e)))"

text \<open>
  The crossings of the health factor over 10000 in a history of debts: block and whether the account became
  liquidable; and the block a tracker should hold.
\<close>

definition crossings :: "debt list \<Rightarrow> (int \<times> bool) list" where
  "crossings ds = map (\<lambda>(d, d'). (d_BlockNumber d', CalHealthFactor d' < 10000))
     (filter (\<lambda>(d, d'). (CalHealthFactor d < 10000) \<noteq> (CalHealthFactor d' < 10000)) (zip ds (tl ds)))"

definition liquidable_since :: "debt list \<Rightarrow> int option" where
  "liquidable_since ds =
    (if crossings ds = [] then None else Some (case last (crossings ds) of (b, liquidable) \<Rightarrow> if liquidable then b else 0))"

lemma zip_tl_snoc: "ds \<noteq> [] \<Longrightarrow> zip (ds @ [d]) (tl (ds @ [d])) = zip ds (tl ds) @ [(last ds, d)]"
proof (induction ds)
  case (Cons a ds)
  then show ?case by (cases ds) auto
qed simp

lemma crossings_snoc:
  "ds \<noteq> [] \<Longrightarrow> crossings (ds @ [d]) = crossings ds @
    (if (CalHealthFactor (last ds) < 10000) \<noteq> (CalHealthFactor d < 10000) then [(d_BlockNumber d, CalHealthFactor d < 10000)] else [])"
  unfolding crossings_def zip_tl_snoc by simp

lemma notify_block:
  "notify_liquidable E d eng = Inr e \<Longrightarrow>
    map_option la_BlockNum (map_of (liquidableBlockTracker e) sid) = map_option la_BlockNum (map_of (liquidableBlockTracker eng) sid) \<and>
    lastDebts e = lastDebts eng"
  by (auto simp: notify_liquidable_def notifiedIfLiquidable_def send_msg_def Let_def elim!: rbind_InrE split: option.splits if_splits)

lemma track_block:
  assumes "track_crossing E d eng = Inr e" and "\<And>x n. IntGreaterThanEqualTo E x n = (x \<ge> n)" and "d_SessionId d = sid"
  shows "lastDebts e = lastDebts eng"
    "map_option la_BlockNum (map_of (liquidableBlockTracker e) sid) =
      (case lastDebts eng sid of
         None \<Rightarrow> map_option la_BlockNum (map_of (liquidableBlockTracker eng) sid)
       | Some l \<Rightarrow> if (CalHealthFactor l < 10000) = (CalHealthFactor d < 10000)
                   then map_option la_BlockNum (map_of (liquidableBlockTracker eng) sid)
                   else Some (if CalHealthFactor d < 10000 then d_BlockNumber d else 0))"
  using assms(1,3)
  by (auto simp: track_crossing_def notifiedIfLiquidable_def addLiquidableAccount_def send_msg_def Let_def assms(2) not_le
      elim!: rbind_InrE split: option.splits if_splits)

text \<open>
  C35: the tracker of a session holds the block of its last crossing below a health factor of 1, and 0 after
  the session recovered, whether or not debts are throttled: over any sequence of debts that the handler
  records for a new session, with any forced additions, the entry is the last crossing of the whole calculated
  history, although only some of the debts are kept as last debts.  The comparisons of the sdk are taken as
  documented.
\<close>

theorem liquidable_tracker_is_last_crossing:
  assumes "rfold (record_debt E) ds eng = Inr eng'" and "\<forall>(d, f) \<in> set ds. d_SessionId d = sid"
    and "lastDebts eng sid = None" and "map_of (liquidableBlockTracker eng) sid = None"
    and "\<And>x n. IntGreaterThanEqualTo E x n = (x \<ge> n)"
    and "\<And>x y. ValueDifferSideOf10000 E x y = ((x < 10000) \<noteq> (y < 10000))"
  shows "map_option la_BlockNum (map_of (liquidableBlockTracker eng') sid) = liquidable_since (map fst ds)"
proof -
  have "map_option la_BlockNum (map_of (liquidableBlockTracker eng') sid) = liquidable_since (map fst ds) \<and>
    (if ds = [] then lastDebts eng' sid = None
     else \<exists>l. lastDebts eng' sid = Some l \<and> (CalHealthFactor l < 10000) = (CalHealthFactor (last (map fst ds)) < 10000))"
    using assms(1,2)
  proof (induction ds arbitrary: eng' rule: rev_induct)
    case Nil
    then show ?case using assms(3,4) by (simp add: liquidable_since_def crossings_def)
  next
    case (snoc x ds)
    obtain d f where x: "x = (d, f)" by (cases x)
    obtain e e1 e2 where pre: "rfold (record_debt E) ds eng = Inr e" and tr: "track_crossing E d e = Inr e1"
      and nt: "notify_liquidable E d e1 = Inr e2" and e': "eng' = AddDebt E d f e2"
      using snoc.prems(1) x by (auto simp: rfold_append record_debt_def liquidationCheck_def elim!: rbind_InrE)
    have sid: "d_SessionId d = sid" using snoc.prems(2) x by simp
    note IH = snoc.IH[OF pre]
    note T = track_block[OF tr assms(5) sid]
    note N = notify_block[OF nt, of sid]
    have trk: "liquidableBlockTracker eng' = liquidableBlockTracker e2"
      by (simp add: e' AddDebt_def addDebt_def addLastDebt_def split: option.splits)
    have lst: "\<exists>l. lastDebts eng' sid = Some l \<and> (CalHealthFactor l < 10000) = (CalHealthFactor d < 10000)"
      using sid by (auto simp: e' AddDebt_def addDebt_def addLastDebt_def debt_changed_def assms(6) split: option.splits)
    have "map_option la_BlockNum (map_of (liquidableBlockTracker eng') sid) = liquidable_since (map fst ds @ [d])"
    proof (cases "ds = []")
      case True
      then show ?thesis using IH T N trk snoc.prems(2) by (simp add: liquidable_since_def crossings_def)
    next
      case False
      then obtain l where l: "lastDebts e sid = Some l"
        "(CalHealthFactor l < 10000) = (CalHealthFactor (last (map fst ds)) < 10000)"
        "map_option la_BlockNum (map_of (liquidableBlockTracker e) sid) = liquidable_since (map fst ds)"
        using IH snoc.prems(2) by auto
      show ?thesis using T(2) N trk l False
        by (simp add: liquidable_since_def crossings_snoc split: if_splits)
    qed
    then show ?case using lst x by simp
  qed
  then show ?thesis by simp
qed


section \<open>Cumulative index\<close>

lemma sint_diff:
  fixes a b :: "64 word"
  assumes "b \<le> a" and "a < 2 ^ 63"
  shows "sint (a - b) = uint a - uint b"
proof -
  have "uint (a - b) = uint a - uint b" using assms(1) by (rule uint_sub_lem[THEN iffD1, unfolded word_le_def[symmetric]])
  moreover have "uint a < 2 ^ 63" using assms(2) unfolding word_less_def by simp
  ultimately have "uint (a - b) < 2 ^ 63" by (smt (verit) uint_nonnegative)
  moreover have "- (2 ^ 63) \<le> uint (a - b)" by (rule order_trans[OF _ uint_nonnegative]) simp
  ultimately have "signed_take_bit 63 (uint (a - b)) = uint (a - b)" by (intro signed_take_bit_int_eq_self)
  then show ?thesis using \<open>uint (a - b) = uint a - uint b\<close> by (simp add: sint_uint)
qed


lemma cum_index_nonneg:
  assumes "GetExpInt E 27 = 10 ^ 27" and "\<And>x. GetInt64 E x 27 = quo x (10 ^ 27)"
    and "0 \<le> BorrowAPYBI pd" and "0 \<le> CumulativeIndexRAY pd" and "pid_Timestamp pd \<le> ts" and "ts < 2 ^ 63"
  shows "cum_index_at E ts pd =
    CumulativeIndexRAY pd * (BorrowAPYBI pd * (uint ts - uint (pid_Timestamp pd)) div (3600 * 365 * 24) + 10 ^ 27) div 10 ^ 27"
proof -
  have "0 \<le> uint ts - uint (pid_Timestamp pd)" using assms(5) by (simp add: word_le_def)
  then have "0 \<le> BorrowAPYBI pd * (uint ts - uint (pid_Timestamp pd))" using assms(3) by simp
  then show ?thesis
    using assms(4) unfolding cum_index_at_def Let_def sint_diff[OF assms(5,6)] assms(1,2)
    by (subst (1 2) quo_nonneg) (simp_all add: pos_imp_zdiv_nonneg_iff)
qed

text \<open>
  C40: the cumulative index the engine uses for a pool starts at the index of the last pool data and never
  falls: at the time of the data it is that index, and it grows with the time of the block, for every
  non-negative rate, as long as times are below \<open>2 ^ 63\<close> and blocks are not older than the data.
\<close>

theorem cum_index_grows:
  assumes "GetExpInt E 27 = 10 ^ 27" and "\<And>x. GetInt64 E x 27 = quo x (10 ^ 27)"
    and "0 \<le> BorrowAPYBI pd" and "0 \<le> CumulativeIndexRAY pd"
    and "pid_Timestamp pd \<le> ts" and "ts \<le> ts'" and "ts' < 2 ^ 63"
  shows "cum_index_at E (pid_Timestamp pd) pd = CumulativeIndexRAY pd \<and>
    CumulativeIndexRAY pd \<le> cum_index_at E ts pd \<and> cum_index_at E ts pd \<le> cum_index_at E ts' pd"
proof -
  have lt: "ts < 2 ^ 63" "pid_Timestamp pd < 2 ^ 63" "pid_Timestamp pd \<le> ts'" using assms(5-7) by simp_all
  note idx = cum_index_nonneg[OF assms(1-4)]
  have mono: "CumulativeIndexRAY pd * (BorrowAPYBI pd * x div (3600 * 365 * 24) + 10 ^ 27) div 10 ^ 27
      \<le> CumulativeIndexRAY pd * (BorrowAPYBI pd * y div (3600 * 365 * 24) + 10 ^ 27) div 10 ^ 27" if "x \<le> y" for x y
    using that assms(3,4) by (intro zdiv_mono1 mult_left_mono add_mono) auto
  have same: "cum_index_at E (pid_Timestamp pd) pd = CumulativeIndexRAY pd"
    using idx[of "pid_Timestamp pd"] lt(2) by simp
  have "cum_index_at E (pid_Timestamp pd) pd \<le> cum_index_at E ts pd"
    using idx[OF _ lt(2)] idx[OF assms(5) lt(1)] mono[of 0 "uint ts - uint (pid_Timestamp pd)"] assms(5)
    by (simp add: word_le_def)
  moreover have "cum_index_at E ts pd \<le> cum_index_at E ts' pd"
    unfolding idx[OF assms(5) lt(1)] idx[OF lt(3) assms(7)] by (rule mono) (use assms(6) in \<open>simp add: word_le_def\<close>)
  ultimately show ?thesis using same by simp
qed

section \<open>Repay amounts\<close>

text \<open>
  For an open account of version 2 the amount the borrower has to bring is what the pool and the
  remaining funds need beyond the underlying balance of the account.  It is never below -1, and it is -1
  exactly when the balance exceeds the need by one: the comparison with one lets that case through.
\<close>

theorem repay_amount_bounds:
  assumes "cs_Version s = 2" and "remaining_and_repay E s css token tv atp rf False eng = Inr (funds, repay)"
    and "have = (case map_of (css_Balances css) (ciu_Token token) of None \<Rightarrow> 0 | Some b \<Rightarrow> BI b)"
  shows "funds = tv - atp \<and> -1 \<le> repay \<and> (repay = -1 \<longleftrightarrow> have = atp + rf + 1) \<and>
    repay = (if have = atp + rf + 1 then -1 else max 0 (atp + rf - have))"
proof -
  have "funds = tv - atp" "repay = (if have - (atp + rf) > 1 then 0 else atp + rf - have)"
    using assms(1,2) by (auto simp: remaining_and_repay_def Let_def assms(3))
  then show ?thesis by auto
qed

section \<open>The backlog\<close>

text \<open>Consecutive batches from \<open>a\<close> to \<open>b\<close>.\<close>

fun chained :: "int \<Rightarrow> (int \<times> int) list \<Rightarrow> int \<Rightarrow> bool" where
  "chained a [] b \<longleftrightarrow> a = b"
| "chained a ((x, y) # bs) b \<longleftrightarrow> x = a \<and> chained y bs b"

text \<open>
  The backlog ends and leaves no gap: with a positive batch size and enough fuel for the distance, the
  batches run from the last calculated block to the last synced one, each starts where the one before ended,
  and none is longer than the batch size.
\<close>

theorem backlog_batches_cover:
  assumes "0 < batchSize" and "synced \<le> till" and "nat (till - synced) < n"
  shows "\<exists>bs. backlog_batches n batchSize synced till = Inr bs \<and> chained synced bs till \<and>
    (\<forall>(a, b) \<in> set bs. a \<le> b \<and> b - a \<le> batchSize)"
  using assms(2,3)
proof (induction n arbitrary: synced)
  case (Suc n)
  show ?case
  proof (cases "synced + batchSize < till")
    case True
    then obtain bs where bs: "backlog_batches n batchSize (synced + batchSize) till = Inr bs"
      "chained (synced + batchSize) bs till" "\<forall>(a, b) \<in> set bs. a \<le> b \<and> b - a \<le> batchSize"
      using Suc.IH[of "synced + batchSize"] Suc.prems(2) assms(1) by (auto simp: nat_less_iff)
    have "backlog_batches (Suc n) batchSize synced till = Inr ((synced, synced + batchSize) # bs)"
      using True bs(1) by simp
    then show ?thesis using bs(2,3) assms(1) by (intro exI[of _ "(synced, synced + batchSize) # bs"]) auto
  next
    case False
    then show ?thesis using Suc.prems by (intro exI[of _ "[(synced, till)]"]) auto
  qed
qed simp


section \<open>A concrete engine\<close>

text \<open>One credit manager of version 2 with one session; the calculator answers with the total value of the snapshot.\<close>

definition demo_denv :: debt_env where
  "demo_denv = \<lparr>dGetFloat64Decimal = (\<lambda>_ _. 0), GetInt64 = (\<lambda>x n. quo x (10 ^ nat n)), GetExpInt = (\<lambda>n. 10 ^ nat n),
     dGetExpFloat = (\<lambda>_. 1), TokenSymbol = (\<lambda>_. ''T''), TokenDecimals = (\<lambda>_. 6), USDCAddr = ''usdc'', WETHAddr = ''weth'',
     WETHPrice = 1, stETHAddr = ''steth'', NoOfBlocksPerHr = 280,
     CalcAccountFields = (\<lambda>_ _ _ _ borrowed _ _ _ _ _ _. Inr (12000, borrowed, borrowed + 30, borrowed, borrowed)),
     AdjustRebaseToken = (\<lambda>bs _ _. bs), dCalCloseAmount = (\<lambda>_ _ _ _ owed _. (owed, 0)), dValueInUnderlying = (\<lambda>_ _ _ _. 0),
     AlmostSameBigInt = (\<lambda>_ _ _. True), GetPrecision = (\<lambda>_. 2), ValueDifferSideOf10000 = (\<lambda>x y. (x < 10000) \<noteq> (y < 10000)),
     DiffMoreThanFraction = (\<lambda>_ _ _. False), IntGreaterThanEqualTo = (\<lambda>x n. n \<le> x), IsStatusLiquidated = (\<lambda>st. st = Liquidated),
     HasBalanceMoreThanOne = (\<lambda>b. BI b > 1), YearnFeedAddrs = [], LatestRoundData = (\<lambda>_ _. (0, 0)),
     dGetCreditAccountData = (\<lambda>_ _ _. None), GetCMState = [(''cm'', Some (''pool'', ''usdc''))],
     PoolUnderlying = (\<lambda>_. Some ''usdc''), tradingTokens = (\<lambda>_. True), BlockTime = (\<lambda>_. 0), isTesting = True,
     DebtDCMatching = False, ThrottleDebtCal = False, ThrottleByHrs = 1, DisableDebtEngine = False\<rparr>"

definition demo_dsession :: credit_session where
  "demo_dsession = \<lparr>cs_ID = ''s'', cs_Status = Active, cs_Borrower = ''bob'', cs_CreditManager = ''cm'', cs_Account = ''a'',
     cs_Since = 10, cs_ClosedAt = 0, cs_InitialAmount = None, cs_BorrowedAmount = 90, cs_RemainingFunds = None,
     cs_Liquidator = '''', cs_Collateral = [], cs_CollateralInUSD = 0, cs_CollateralInUnderlying = 0, cs_Balances = [],
     cs_CloseTransfers = [], IsDirty = False, cs_Version = 2\<rparr>"

definition demo_css :: session_snapshot where
  "demo_css = \<lparr>css_BlockNum = 10, css_SessionId = ''s'', css_CollateralInUSD = 0, css_CollateralInUnderlying = 0,
     css_Borrower = ''bob'', css_HealthFactor = 12000, css_TotalValueBI = 120, css_TotalValue = 0, css_Balances = [],
     css_BorrowedAmountBI = 90, css_BorrowedAmount = 0, css_CumulativeIndexAtOpen = 1\<rparr>"

definition demo_dparams :: parameters where
  "demo_dparams = \<lparr>par_BlockNum = 1, par_CreditManager = ''cm'', par_MinAmount = 0, par_MaxAmount = 0, par_MaxLeverage = 0,
     FeeInterest = 1000, FeeLiquidation = 0, LiquidationDiscount = 0, FeeLiquidationExpired = 0, LiquidationDiscountExpired = 0\<rparr>"

definition demo_block :: debt_block where
  "demo_block = \<lparr>db_Timestamp = 1000, GetParams = [demo_dparams], RebaseDetailsForDB = [],
     GetPoolStats = [\<lparr>pid_Address = ''pool'', pid_BlockNum = 10, CumulativeIndexRAY = 10 ^ 27, pid_AvailableLiquidityBI = 500,
       BorrowAPYBI = 10 ^ 25, pid_Timestamp = 0\<rparr>], GetCSS = [demo_css], GetAllowedTokens = [],
     GetPriceFeeds = [\<lparr>pf_BlockNumber = 10, pf_Token = ''usdc'', pf_Feed = ''f'', pf_RoundId = 1, pf_PriceBI = 10 ^ 8,
       pf_Price = 1, IsPriceInUSD = True\<rparr>]\<rparr>"

definition demo_engine :: debt_engine where
  "demo_engine = \<lparr>lastCSS = [], tokenLastPrice = Map.empty, tokenLastPriceV2 = Map.empty, allowedTokensThreshold = (\<lambda>_. Map.empty),
     poolLastInterestData = [], debts = [], tvlSnapshots = [], lastDebts = Map.empty, currentDebts = [],
     liquidableBlockTracker = [], lastParameters = Map.empty, lastTvlSnapshot = None, lastRebaseDetails = None, debt_msgs = [],
     db_debts = [], db_tvl = [], db_liquidable = [], db_debt_sync = None, db_current = []\<rparr>"

lemma demo_calc_block:
  "case calc_block demo_denv [(''s'', demo_dsession)] 10 demo_block demo_engine of Inl _ \<Rightarrow> False
   | Inr eng \<Rightarrow> map d_SessionId (debts eng) = [''s'']"
  by code_simp


lemma demo_dsession_sel [simp]:
  "cs_ID demo_dsession = ''s''" "cs_ClosedAt demo_dsession = 0" "cs_Since demo_dsession = 10"
  "cs_CreditManager demo_dsession = ''cm''" "cs_Version demo_dsession = 2" "cs_Status demo_dsession = Active"
  by (simp_all add: demo_dsession_def)

lemma demo_denv_sel [simp]: "\<not> ThrottleDebtCal demo_denv" "GetCMState demo_denv = [(''cm'', Some (''pool'', ''usdc''))]"
  by (simp_all add: demo_denv_def)

text \<open>
  A second manager with two sessions, and a later block with a row of the first pool and a price of the token that one of the two
  holds.
\<close>

definition demo_denv2 :: debt_env where
  "demo_denv2 = demo_denv\<lparr>GetCMState := [(''cm'', Some (''pool'', ''usdc'')), (''cm2'', Some (''pool2'', ''dai''))]\<rparr>"

definition demo_holder :: session_snapshot where
  "demo_holder = demo_css\<lparr>css_SessionId := ''q'', css_Balances := [(''x'', \<lparr>IsAllowed = True, IsEnabled = True, BI = 91, bal_F = 0, bal_Ind = 0\<rparr>)]\<rparr>"

definition demo_sessions :: "(string \<times> credit_session) list" where
  "demo_sessions = [(''s'', demo_dsession), (''q'', demo_dsession\<lparr>cs_ID := ''q'', cs_CreditManager := ''cm2''\<rparr>),
     (''r'', demo_dsession\<lparr>cs_ID := ''r'', cs_CreditManager := ''cm2''\<rparr>)]"

definition demo_price :: "address \<Rightarrow> price_feed" where
  "demo_price t = \<lparr>pf_BlockNumber = 20, pf_Token = t, pf_Feed = ''f'', pf_RoundId = 1, pf_PriceBI = 10 ^ 8, pf_Price = 1, IsPriceInUSD = True\<rparr>"

definition demo_block2 :: debt_block where
  "demo_block2 = \<lparr>db_Timestamp = 2000, GetParams = [], RebaseDetailsForDB = [],
     GetPoolStats = [\<lparr>pid_Address = ''pool'', pid_BlockNum = 20, CumulativeIndexRAY = 10 ^ 27, pid_AvailableLiquidityBI = 500,
       BorrowAPYBI = 10 ^ 25, pid_Timestamp = 0\<rparr>], GetCSS = [], GetAllowedTokens = [], GetPriceFeeds = [demo_price ''x'']\<rparr>"

definition demo_engine2 :: debt_engine where
  "demo_engine2 = demo_engine\<lparr>lastCSS := [(''s'', demo_css), (''q'', demo_holder), (''r'', demo_css\<lparr>css_SessionId := ''r''\<rparr>)],
     tokenLastPriceV2 := [''usdc'' \<mapsto> demo_price ''usdc'', ''dai'' \<mapsto> demo_price ''dai''],
     allowedTokensThreshold := (\<lambda>_ _. Some 9000), lastParameters := (\<lambda>_. Some demo_dparams)\<rparr>"

lemma demo_calc_block2:
  "case calc_block demo_denv2 demo_sessions 20 demo_block2 demo_engine2 of Inl _ \<Rightarrow> False | Inr eng \<Rightarrow> length (debts eng) = 2"
  by code_simp

theorem calc_block_debts_witness:
  "\<exists>eng'. calc_block demo_denv2 demo_sessions 20 demo_block2 demo_engine2 = Inr eng' \<and>
    d_SessionId ` set (debts eng') = {''s'', ''q''} \<and> (\<forall>d \<in> set (debts eng'). d_BlockNumber d = 20)"
proof -
  obtain eng' where run: "calc_block demo_denv2 demo_sessions 20 demo_block2 demo_engine2 = Inr eng'"
    using case_InrD[OF demo_calc_block2] by (elim exE conjE)
  have h: "\<not> ThrottleDebtCal demo_denv2" "\<forall>(k, s) \<in> set demo_sessions. cs_ID s = k" "distinct (map fst demo_sessions)"
    "distinct (map fst (GetCMState demo_denv2))"
    by (simp_all add: demo_denv2_def demo_sessions_def)
  have cm: "GetCMState demo_denv2 = [(''cm'', Some (''pool'', ''usdc'')), (''cm2'', Some (''pool2'', ''dai''))]"
    "HasBalanceMoreThanOne demo_denv2 = (\<lambda>b. BI b > 1)" by (simp_all add: demo_denv2_def demo_denv_def)
  have news: "pool_news demo_block2 p \<longleftrightarrow> p = ''pool''" "token_news demo_block2 t \<longleftrightarrow> t = ''x''" "\<not> snapshot_news demo_block2 i" for p t i
    by (auto simp: pool_news_def token_news_def snapshot_news_def demo_block2_def demo_price_def)
  have css: "lastCSS demo_engine2 = [(''s'', demo_css), (''q'', demo_holder), (''r'', demo_css\<lparr>css_SessionId := ''r''\<rparr>)]"
    "debts demo_engine2 = []" by (simp_all add: demo_engine2_def demo_engine_def)
  have bal: "balance_news demo_denv2 demo_block2 demo_holder" "\<not> balance_news demo_denv2 demo_block2 (demo_css\<lparr>css_SessionId := i\<rparr>)"
    "\<not> balance_news demo_denv2 demo_block2 demo_css" for i
    by (simp_all add: balance_news_def news(2) cm(2) demo_holder_def demo_css_def)
  let ?P = "\<lambda>s. open_at 20 s \<and> session_news demo_denv2 demo_block2 demo_engine2 s"
  have which: "?P demo_dsession" "?P (demo_dsession\<lparr>cs_ID := ''q'', cs_CreditManager := ''cm2''\<rparr>)"
    "\<not> ?P (demo_dsession\<lparr>cs_ID := ''r'', cs_CreditManager := ''cm2''\<rparr>)"
    by (simp_all add: open_at_def session_news_def news cm(1) css(1) bal)
  have "{sid. \<exists>s. (sid, s) \<in> set demo_sessions \<and> open_at 20 s \<and> session_news demo_denv2 demo_block2 demo_engine2 s} =
      fst ` set (filter (\<lambda>(_, s). ?P s) demo_sessions)" by force
  also have "\<dots> = {''s'', ''q''}" unfolding demo_sessions_def filter.simps prod.case if_P[OF which(1)] if_P[OF which(2)] if_not_P[OF which(3)] by (simp add: insert_commute)
  finally have "{sid. \<exists>s. (sid, s) \<in> set demo_sessions \<and> open_at 20 s \<and> session_news demo_denv2 demo_block2 demo_engine2 s} = {''s'', ''q''}" .
  with calc_block_debts[OF run h] run show ?thesis by (auto simp: css(2))
qed

definition demo_stranger :: credit_session where
  "demo_stranger = demo_dsession\<lparr>cs_CreditManager := ''other''\<rparr>"

lemma demo_stranger_sel [simp]:
  "cs_ID demo_stranger = ''s''" "cs_ClosedAt demo_stranger = 0" "cs_Since demo_stranger = 10" "cs_CreditManager demo_stranger = ''other''"
  by (simp_all add: demo_stranger_def)

theorem calc_block_unknown_manager_witness:
  "calc_block demo_denv [(''s'', demo_stranger)] 10 demo_block demo_engine = Inl NilDereference"
proof -
  obtain pools toks upd eng1 where st: "updateLocalState demo_block demo_engine = (pools, toks, upd, eng1)" by (cases "updateLocalState demo_block demo_engine")
  show ?thesis
    by (rule calc_block_unknown_manager[OF st refl, where pre = "[]" and post = "[]" and s = demo_stranger and k = "''s''" and r = "(upd, 0)"])
      (simp_all add: live_at_def GetCumulativeIndexAndDecimalForCMs_def)
qed

definition demo_debt :: "int \<Rightarrow> int \<Rightarrow> debt" where
  "demo_debt b hf = \<lparr>d_BlockNumber = b, d_SessionId = ''s'', CalHealthFactor = hf, CalTotalValueBI = 0, CalDebtBI = 0,
     CalBorrowedWithInterestBI = 0, CalThresholdValueBI = 0, d_CollateralInUnderlying = 0, AmountToPoolBI = 0, RepayAmountBI = 0,
     ProfitInUnderlying = 0, d_CollateralInUSD = 0, ProfitInUSD = 0, TotalValueInUSD = 0, FarmingValUSD = 0\<rparr>"

definition demo_history :: "(debt \<times> bool) list" where
  "demo_history = [(demo_debt 10 12000, False), (demo_debt 20 9000, False), (demo_debt 50 8000, False)]"

lemma demo_record:
  "case rfold (record_debt (demo_denv\<lparr>ThrottleDebtCal := True\<rparr>)) demo_history demo_engine of Inl _ \<Rightarrow> False
   | Inr eng \<Rightarrow> debt_msgs eng = [LowHealthNotLiquidated 50 ''s'']"
  by code_simp

theorem liquidable_tracker_is_last_crossing_witness:
  "\<exists>eng'. rfold (record_debt (demo_denv\<lparr>ThrottleDebtCal := True\<rparr>)) demo_history demo_engine = Inr eng' \<and>
    map_option la_BlockNum (map_of (liquidableBlockTracker eng') ''s'') = Some 20 \<and>
    debt_msgs eng' = [LowHealthNotLiquidated 50 ''s'']"
proof -
  obtain eng' where r: "rfold (record_debt (demo_denv\<lparr>ThrottleDebtCal := True\<rparr>)) demo_history demo_engine = Inr eng'"
    "debt_msgs eng' = [LowHealthNotLiquidated 50 ''s'']"
    using case_InrD[OF demo_record] by (elim exE conjE)
  have "liquidable_since (map fst demo_history) = Some 20"
    by (simp add: liquidable_since_def crossings_def demo_history_def demo_debt_def)
  moreover have "map_option la_BlockNum (map_of (liquidableBlockTracker eng') ''s'') = liquidable_since (map fst demo_history)"
    by (rule liquidable_tracker_is_last_crossing[OF r(1)])
      (simp_all add: demo_history_def demo_debt_def demo_engine_def demo_denv_def)
  ultimately show ?thesis using r by (intro exI[of _ eng']) simp
qed

theorem cum_index_grows_witness:
  "cum_index_at demo_denv 1000 \<lparr>pid_Address = ''pool'', pid_BlockNum = 10, CumulativeIndexRAY = 10 ^ 27, pid_AvailableLiquidityBI = 0,
     BorrowAPYBI = 10 ^ 25, pid_Timestamp = 500\<rparr> \<ge> 10 ^ 27"
proof -
  let ?pd = "\<lparr>pid_Address = ''pool'', pid_BlockNum = 10, CumulativeIndexRAY = 10 ^ 27, pid_AvailableLiquidityBI = 0,
     BorrowAPYBI = 10 ^ 25, pid_Timestamp = 500 :: 64 word\<rparr>"
  have "CumulativeIndexRAY ?pd \<le> cum_index_at demo_denv 1000 ?pd"
    using cum_index_grows[of demo_denv ?pd 1000 1000] by (simp add: demo_denv_def word_le_def word_less_def)
  then show ?thesis by simp
qed

theorem repay_amount_bounds_witness:
  "\<exists>funds repay. remaining_and_repay demo_denv demo_dsession (demo_css\<lparr>css_Balances := [(''usdc'',
      \<lparr>IsAllowed = True, IsEnabled = True, BI = 91, bal_F = 0, bal_Ind = 0\<rparr>)]\<rparr>)
      \<lparr>CumulativeIndex = None, ciu_Token = ''usdc'', ciu_Decimals = 6, ciu_Symbol = ''USDC'', PoolAddr = ''pool''\<rparr>
      120 90 0 False demo_engine = Inr (funds, repay) \<and> repay = -1"
proof -
  let ?css = "demo_css\<lparr>css_Balances := [(''usdc'', \<lparr>IsAllowed = True, IsEnabled = True, BI = 91, bal_F = 0, bal_Ind = 0\<rparr>)]\<rparr>"
  let ?t = "\<lparr>CumulativeIndex = None, ciu_Token = ''usdc'', ciu_Decimals = 6, ciu_Symbol = ''USDC'', PoolAddr = ''pool''\<rparr>"
  obtain funds repay where r: "remaining_and_repay demo_denv demo_dsession ?css ?t 120 90 0 False demo_engine = Inr (funds, repay)"
    by (simp add: remaining_and_repay_def Let_def)
  have "repay = -1" using repay_amount_bounds[OF _ r refl] by simp
  then show ?thesis using r by blast
qed

theorem backlog_batches_cover_witness:
  "\<exists>bs. backlog_batches 101 30 0 100 = Inr bs \<and> chained 0 bs 100"
  using backlog_batches_cover[of 30 0 100 101] by auto

end
