(* ===== verification/Repo_Blocks.thy ===== *)
theory Repo_Blocks
  imports Debt_State "HOL-Library.Multiset"
begin

text \<open>
  The block store of the repository: \<^verbatim>\<open>repository/handlers/blocks.go\<close> with the prices it keeps
  (\<^verbatim>\<open>prev_price.go\<close>).  A block holds the rows added to it in order; the rows the sdk keeps in one slice per
  kind are one list here, with a constructor per kind.  Rows that other components go on writing through a
  pointer are object numbers.

  The chain (time of a block, spot prices), the end of a day in UTC and the present time are parameters.
\<close>

section \<open>Rows\<close>

record dao_row =
  dao_BlockNumber :: int
  dao_LogID :: int
  dao_TxHash :: txhash
  dao_Contract :: address
  dao_Type :: string
  dao_Args :: json_obj

record token_oracle =
  to_Token :: address
  to_Oracle :: address
  to_Feed :: address
  to_BlockNumber :: int
  to_Version :: int
  to_FeedType :: string

record fast_check_params =
  fc_BlockNum :: int
  fc_CreditManager :: address
  ChiThreshold :: int
  HFCheckInterval :: int

record protocol =
  pr_BlockNumber :: int
  pr_CreditManager :: address
  pr_Protocol :: address
  pr_Adapter :: address
  pr_Configurator :: address

record pool_stat =
  ps_BlockNum :: int
  ps_Address :: address
  UniqueUsers :: nat
  ps_TotalBorrowedBI :: int
  ps_TotalBorrowed :: rat
  ExpectedLiquidityBI :: int
  ExpectedLiquidity :: rat
  ExpectedLiquidityLimitBI :: int
  ps_AvailableLiquidityBI :: int
  ps_AvailableLiquidity :: rat
  DepositAPYBI :: int
  DepositAPY :: rat
  ps_BorrowAPYBI :: int
  BorrowAPY :: rat
  DieselRateBI :: int
  DieselRate :: rat
  ps_WithdrawFee :: int
  ps_CumulativeIndexRAY :: int

record diesel_transfer =
  dt_From :: address
  dt_To :: address
  dt_LogId :: int
  dt_TokenSymbol :: string
  dt_Amount :: rat
  dt_BlockNum :: int

text \<open>Pooled ether and shares of a rebasing token.\<close>

record rebase_row =
  rd_BlockNum :: int
  rd_TotalETH :: int
  rd_TotalShares :: int

record treasury_transfer =
  trt_BlockNum :: int
  trt_LogID :: int
  trt_Token :: address
  trt_Amount :: int
  OperationalTransfer :: bool

type_synonym json_float_map = "(address \<times> rat) list"

record treasury_snapshot =
  tss_Date :: string
  tss_BlockNum :: int
  PricesInUSD :: json_float_map
  tss_Balances :: json_float_map
  OperationalBalances :: json_float_map
  ValueInUSD :: rat
  OperationalValueInUSD :: rat

datatype row =
    PriceFeedRow price_feed
  | DAORow dao_row
  | AllowedTokenRow nat
  | ParamsRow nat
  | FastCheckRow fast_check_params
  | ProtocolRow protocol
  | TokenOracleRow token_oracle
  | PoolStatRow pool_stat
  | PoolLedgerRow pool_ledger
  | DieselTransferRow diesel_transfer
  | RebaseRow rebase_row
  | TreasuryTransferRow treasury_transfer
  | TreasurySnapshotRow treasury_snapshot
  | NoSessionTxRow token_transfer

record repo_block =
  rb_Timestamp :: "64 word"
  rb_rows :: "row list"

record block_date =
  bd_BlockNum :: int
  bd_Timestamp :: int

datatype price_src = SOURCE_CHAINLINK | SOURCE_SPOT

record current_price =
  cp_Save :: bool
  cp_PriceBI :: int
  cp_Price :: rat
  cp_BlockNum :: int
  cp_Token :: address
  PriceSrc :: price_src

text \<open>The keys of the previous prices: in USD or not, token, feed.\<close>

type_synonym pf_key = "bool \<times> address \<times> address"

record blocks_repo =
  br_blocks :: "(int \<times> repo_block) list"
  blockDatePairs :: "int \<rightharpoonup> block_date"
  prevPriceFeeds :: "pf_key \<rightharpoonup> price_feed"
  currentPrices :: "(address \<times> current_price) list"
  sentMsgs :: "(int \<times> string) list"                 \<comment> \<open>alerts sent, by block and code\<close>
  dbBlocks :: "(int \<times> repo_block) list"             \<comment> \<open>blocks saved\<close>
  dbCurrentPrices :: "current_price list"

record chain_env =
  BlockByNumber :: "int \<Rightarrow> 64 word res"      \<comment> \<open>the time of a block\<close>
  TimeToDateEndTs :: "int \<Rightarrow> int"           \<comment> \<open>the end of the day of a time\<close>
  cNow :: int
  SpotPrices :: "int \<Rightarrow> (address \<times> int) list"   \<comment> \<open>the prices of the spot oracle at a block, none where there is no oracle\<close>
  cGetFloat64Decimal :: "int \<Rightarrow> int \<Rightarrow> rat"

definition NewBlocksRepo :: blocks_repo where
  "NewBlocksRepo = \<lparr>br_blocks = [], blockDatePairs = Map.empty, prevPriceFeeds = Map.empty, currentPrices = [],
     sentMsgs = [], dbBlocks = [], dbCurrentPrices = []\<rparr>"

section \<open>Blocks and dates\<close>

definition addBlockDate :: "chain_env \<Rightarrow> block_date \<Rightarrow> blocks_repo \<Rightarrow> blocks_repo" where
  "addBlockDate C entry r =
    (let ts = TimeToDateEndTs C (bd_Timestamp entry) in
     case blockDatePairs r ts of
       None \<Rightarrow> r\<lparr>blockDatePairs := (blockDatePairs r)(ts \<mapsto> entry)\<rparr>
     | Some previousEntry \<Rightarrow>
         if bd_BlockNum previousEntry < bd_BlockNum entry
         then r\<lparr>blockDatePairs := (blockDatePairs r)(ts \<mapsto> entry)\<rparr> else r)"

definition GetBlockDatePairs :: "int \<Rightarrow> blocks_repo \<Rightarrow> block_date option" where
  "GetBlockDatePairs ts r = blockDatePairs r ts"

definition loadBlockDatePair :: "chain_env \<Rightarrow> block_date list \<Rightarrow> blocks_repo \<Rightarrow> blocks_repo" where
  "loadBlockDatePair C data r = foldl (\<lambda>r entry. addBlockDate C entry r) r data"

definition setBlock :: "chain_env \<Rightarrow> int \<Rightarrow> blocks_repo \<Rightarrow> blocks_repo res" where
  "setBlock C blockNum r =
    (case map_of (br_blocks r) blockNum of
       Some _ \<Rightarrow> Inr r
     | None \<Rightarrow>
         rbind (BlockByNumber C blockNum) (\<lambda>time.
           Inr (addBlockDate C \<lparr>bd_BlockNum = blockNum, bd_Timestamp = sint time\<rparr>
             (r\<lparr>br_blocks := AList.update blockNum \<lparr>rb_Timestamp = time, rb_rows = []\<rparr> (br_blocks r)\<rparr>))))"

text \<open>\<^verbatim>\<open>SetAndGetBlock(blockNum).Add...(row)\<close>.\<close>

definition add_row :: "chain_env \<Rightarrow> int \<Rightarrow> row \<Rightarrow> blocks_repo \<Rightarrow> blocks_repo res" where
  "add_row C blockNum row r =
    rbind (setBlock C blockNum r) (\<lambda>r1.
    rbind (deref (map_of (br_blocks r1) blockNum)) (\<lambda>block.
      Inr (r1\<lparr>br_blocks := AList.update blockNum (block\<lparr>rb_rows := rb_rows block @ [row]\<rparr>) (br_blocks r1)\<rparr>)))"

definition AddDAOOperation :: "chain_env \<Rightarrow> dao_row \<Rightarrow> blocks_repo \<Rightarrow> blocks_repo res" where
  "AddDAOOperation C operation = add_row C (dao_BlockNumber operation) (DAORow operation)"

definition AddPoolStat :: "chain_env \<Rightarrow> pool_stat \<Rightarrow> blocks_repo \<Rightarrow> blocks_repo res" where
  "AddPoolStat C ps = add_row C (ps_BlockNum ps) (PoolStatRow ps)"

definition AddDieselTransfer :: "chain_env \<Rightarrow> diesel_transfer \<Rightarrow> blocks_repo \<Rightarrow> blocks_repo res" where
  "AddDieselTransfer C transfer = add_row C (dt_BlockNum transfer) (DieselTransferRow transfer)"

definition AddRebaseDetailsForDB :: "chain_env \<Rightarrow> rebase_row \<Rightarrow> blocks_repo \<Rightarrow> blocks_repo res" where
  "AddRebaseDetailsForDB C transfer = add_row C (rd_BlockNum transfer) (RebaseRow transfer)"

text \<open>
  An alert is sent only for blocks less than an hour old.  \<^verbatim>\<open>int64(ts)\<close> reads the unsigned time as signed.
\<close>

definition RecentMsgf :: "chain_env \<Rightarrow> int \<Rightarrow> string \<Rightarrow> blocks_repo \<Rightarrow> blocks_repo res" where
  "RecentMsgf C blockNum code r =
    rbind (setBlock C blockNum r) (\<lambda>r1.
    rbind (deref (map_of (br_blocks r1) blockNum)) (\<lambda>block.
      Inr (if cNow C - sint (rb_Timestamp block) < 3600
           then r1\<lparr>sentMsgs := sentMsgs r1 @ [(blockNum, code)]\<rparr> else r1)))"

definition BlocksRepo_Clear :: "blocks_repo \<Rightarrow> blocks_repo" where
  "BlocksRepo_Clear r = r\<lparr>br_blocks := []\<rparr>"

section \<open>Prices\<close>

definition pf_key :: "price_feed \<Rightarrow> pf_key" where
  "pf_key pf = (IsPriceInUSD pf, pf_Token pf, pf_Feed pf)"

text \<open>\<^verbatim>\<open>big.Int.Int64\<close>.\<close>

definition Int64 :: "int \<Rightarrow> int" where
  "Int64 x = sint (word_of_int x :: 64 word)"

definition addPrevPriceFeed :: "price_feed \<Rightarrow> blocks_repo \<Rightarrow> blocks_repo res" where
  "addPrevPriceFeed pf r =
    (let price = Int64 (pf_PriceBI pf);
         tooOld = (case prevPriceFeeds r (pf_key pf) of
           None \<Rightarrow> False
         | Some oldPF \<Rightarrow> pf_BlockNumber oldPF \<ge> pf_BlockNumber pf \<and> \<not> (price = 0 \<or> price = 100))
     in rbind (guard_fatal tooOld ''oldPF'') (\<lambda>_.
          Inr (r\<lparr>prevPriceFeeds := (prevPriceFeeds r)(pf_key pf \<mapsto> pf)\<rparr>)))"

definition addCurrentPrice :: "price_feed \<Rightarrow> bool \<Rightarrow> blocks_repo \<Rightarrow> blocks_repo" where
  "addCurrentPrice pf save r =
    (if \<not> IsPriceInUSD pf then r
     else r\<lparr>currentPrices := AList.update (pf_Token pf)
       \<lparr>cp_Save = save, cp_PriceBI = pf_PriceBI pf, cp_Price = pf_Price pf, cp_BlockNum = pf_BlockNumber pf,
        cp_Token = pf_Token pf, PriceSrc = SOURCE_CHAINLINK\<rparr> (currentPrices r)\<rparr>)"

definition canAddPF :: "price_feed \<Rightarrow> blocks_repo \<Rightarrow> (bool \<times> blocks_repo) res" where
  "canAddPF pf r =
    (let new = rbind (addPrevPriceFeed pf r) (\<lambda>r1. Inr (True, addCurrentPrice pf True r1)) in
     case prevPriceFeeds r (pf_key pf) of
       None \<Rightarrow> new
     | Some prevPF \<Rightarrow>
         rbind (guard_fatal (pf_BlockNumber prevPF \<ge> pf_BlockNumber pf) ''oldPF'') (\<lambda>_.
           if pf_PriceBI prevPF = pf_PriceBI pf then rbind (addPrevPriceFeed pf r) (\<lambda>r1. Inr (False, r1))
           else new))"

definition AddPriceFeed :: "chain_env \<Rightarrow> price_feed \<Rightarrow> blocks_repo \<Rightarrow> blocks_repo res" where
  "AddPriceFeed C pf r =
    rbind (canAddPF pf r) (\<lambda>(can, r1).
      if can then add_row C (pf_BlockNumber pf) (PriceFeedRow pf) r1 else Inr r1)"

definition GetPrice :: "address \<Rightarrow> blocks_repo \<Rightarrow> int option" where
  "GetPrice token r = map_option cp_PriceBI (map_of (currentPrices r) token)"

definition loadPrevPriceFeed :: "price_feed list \<Rightarrow> blocks_repo \<Rightarrow> blocks_repo res" where
  "loadPrevPriceFeed data r =
    rfold (\<lambda>pf r. rbind (addPrevPriceFeed pf r) (\<lambda>r1. Inr (addCurrentPrice pf False r1))) data r"

text \<open>Saving: prices marked for saving, and with them the spot prices of the block.\<close>

definition saveCurrentPrices :: "chain_env \<Rightarrow> int \<Rightarrow> blocks_repo \<Rightarrow> blocks_repo" where
  "saveCurrentPrices C blockNum r =
    (let toSync = map (\<lambda>(_, p). p\<lparr>cp_Save := False\<rparr>) (filter (\<lambda>(_, p). cp_Save p) (currentPrices r));
         r1 = r\<lparr>currentPrices := map (\<lambda>(t, p). (t, p\<lparr>cp_Save := False\<rparr>)) (currentPrices r)\<rparr>
     in if toSync = [] then r1
        else r1\<lparr>dbCurrentPrices := dbCurrentPrices r1 @ toSync @
          map (\<lambda>(token, priceBI). \<lparr>cp_Save = False, cp_PriceBI = priceBI, cp_Price = cGetFloat64Decimal C priceBI 8,
            cp_BlockNum = blockNum, cp_Token = token, PriceSrc = SOURCE_SPOT\<rparr>) (SpotPrices C blockNum)\<rparr>)"

definition BlocksRepo_Save :: "chain_env \<Rightarrow> int \<Rightarrow> blocks_repo \<Rightarrow> blocks_repo" where
  "BlocksRepo_Save C blockNum r = saveCurrentPrices C blockNum (r\<lparr>dbBlocks := dbBlocks r @ br_blocks r\<rparr>)"

end
