(* ===== verification/Repo_Blocks_Correct.thy ===== *)
theory Repo_Blocks_Correct
  imports Repo_Blocks
begin

text \<open>
  Correctness of the block store: rows are added and nothing else, the stored prices are the reported ones
  without repetitions, and the last block of every day is known.
\<close>

section \<open>Rows\<close>

definition all_rows :: "blocks_repo \<Rightarrow> row list" where
  "all_rows r = concat (map (\<lambda>(_, b). rb_rows b) (br_blocks r))"

lemma rows_update:
  "map_of al k = Some b \<Longrightarrow>
   mset (concat (map (\<lambda>(_, b). rb_rows b) (AList.update k (b\<lparr>rb_rows := rb_rows b @ [x]\<rparr>) al)))
   = add_mset x (mset (concat (map (\<lambda>(_, b). rb_rows b) al)))"
  by (induction al) (auto split: if_splits)

lemma rows_new:
  "map_of al k = None \<Longrightarrow>
   concat (map (\<lambda>(_, b). rb_rows b) (AList.update k \<lparr>rb_Timestamp = t, rb_rows = []\<rparr> al)) = concat (map (\<lambda>(_, b). rb_rows b) al)"
  by (induction al) (auto split: if_splits)

lemma addBlockDate_keeps [simp]:
  "br_blocks (addBlockDate C e r) = br_blocks r" "prevPriceFeeds (addBlockDate C e r) = prevPriceFeeds r"
  "all_rows (addBlockDate C e r) = all_rows r"
  by (simp_all add: addBlockDate_def all_rows_def Let_def split: option.split)

lemma setBlock_keeps:
  assumes "setBlock C b r = Inr r'"
  shows "mset (all_rows r') = mset (all_rows r)" "prevPriceFeeds r' = prevPriceFeeds r" "\<exists>blk. map_of (br_blocks r') b = Some blk"
    "currentPrices r' = currentPrices r"
  using assms by (auto simp: setBlock_def all_rows_def rows_new addBlockDate_def Let_def elim!: rbind_InrE split: option.splits)

lemma add_row_effect:
  assumes "add_row C b x r = Inr r'"
  shows "mset (all_rows r') = add_mset x (mset (all_rows r))" "prevPriceFeeds r' = prevPriceFeeds r" "currentPrices r' = currentPrices r"
proof -
  obtain r1 blk where r1: "setBlock C b r = Inr r1" "map_of (br_blocks r1) b = Some blk"
    "r' = r1\<lparr>br_blocks := AList.update b (blk\<lparr>rb_rows := rb_rows blk @ [x]\<rparr>) (br_blocks r1)\<rparr>"
    using assms by (auto simp: add_row_def elim!: rbind_InrE)
  show "mset (all_rows r') = add_mset x (mset (all_rows r))" "prevPriceFeeds r' = prevPriceFeeds r" "currentPrices r' = currentPrices r"
    using setBlock_keeps[OF r1(1)] rows_update[OF r1(2)] by (simp_all add: r1(3) all_rows_def)
qed

lemma add_row_total:
  assumes "\<And>b. \<exists>t. BlockByNumber C b = Inr t"
  shows "\<exists>r'. add_row C b x r = Inr r'"
proof -
  obtain t where "BlockByNumber C b = Inr t" using assms by blast
  then obtain r1 where r1: "setBlock C b r = Inr r1" by (cases "map_of (br_blocks r) b") (auto simp: setBlock_def)
  then obtain blk where "map_of (br_blocks r1) b = Some blk" using setBlock_keeps(3) by blast
  with r1 show ?thesis by (simp add: add_row_def)
qed

section \<open>Price rows\<close>

definition row_price :: "row \<Rightarrow> price_feed list" where
  "row_price x = (case x of PriceFeedRow pf \<Rightarrow> [pf] | _ \<Rightarrow> [])"

text \<open>The stored prices of a key by block.\<close>

definition stored_prices :: "pf_key \<Rightarrow> blocks_repo \<Rightarrow> price_feed list" where
  "stored_prices k r = sort_key pf_BlockNumber (filter (\<lambda>pf. pf_key pf = k) (concat (map row_price (all_rows r))))"

definition reported :: "pf_key \<Rightarrow> price_feed list \<Rightarrow> price_feed list" where
  "reported k pfs = filter (\<lambda>pf. pf_key pf = k) pfs"

text \<open>The price a history gives for a block: that of its last entry up to the block.\<close>

definition price_at :: "price_feed list \<Rightarrow> int \<Rightarrow> int option" where
  "price_at pfs b =
    (let old = filter (\<lambda>pf. pf_BlockNumber pf \<le> b) pfs in if old = [] then None else Some (pf_PriceBI (last old)))"

text \<open>The entries of a history at which the price changes.\<close>

primrec changes :: "int option \<Rightarrow> price_feed list \<Rightarrow> price_feed list" where
  "changes p [] = []"
| "changes p (x # xs) = (if p = Some (pf_PriceBI x) then [] else [x]) @ changes (Some (pf_PriceBI x)) xs"

lemma changes_snoc:
  "changes p (xs @ [x]) = changes p xs @
    (if (if xs = [] then p else Some (pf_PriceBI (last xs))) = Some (pf_PriceBI x) then [] else [x])"
  by (induction xs arbitrary: p) auto

lemma changes_subset: "set (changes p xs) \<subseteq> set xs"
  by (induction xs arbitrary: p) auto

lemma changes_prices_from:
  "map pf_PriceBI (changes (Some p) xs) = tl (remdups_adj (p # map pf_PriceBI xs))"
  by (induction xs arbitrary: p) (auto simp: remdups_adj_Cons split: list.splits)

lemma changes_prices: "map pf_PriceBI (changes None xs) = remdups_adj (map pf_PriceBI xs)"
proof (cases xs)
  case (Cons x xs')
  have "remdups_adj (pf_PriceBI x # ys) = pf_PriceBI x # tl (remdups_adj (pf_PriceBI x # ys))" for ys
    by (metis list.collapse hd_remdups_adj list.sel(1) remdups_adj_Nil_iff list.distinct(1))
  then show ?thesis using Cons by (simp add: changes_prices_from)
qed simp

lemma changes_sorted:
  "sorted_wrt (<) (map pf_BlockNumber xs) \<Longrightarrow> sorted_wrt (<) (map pf_BlockNumber (changes p xs))"
proof (induction xs arbitrary: p)
  case (Cons x xs)
  then have "\<forall>y \<in> set (changes (Some (pf_PriceBI x)) xs). pf_BlockNumber x < pf_BlockNumber y"
    using changes_subset by fastforce
  with Cons show ?case by simp
qed simp

lemma changes_last:
  "xs \<noteq> [] \<Longrightarrow> changes None xs \<noteq> [] \<and> pf_PriceBI (last (changes None xs)) = pf_PriceBI (last xs)"
proof (induction xs rule: rev_induct)
  case (snoc x xs)
  then show ?case by (cases "xs = []") (auto simp: changes_snoc)
qed simp

lemma price_at_changes:
  assumes "sorted_wrt (<) (map pf_BlockNumber xs)"
  shows "\<forall>pf \<in> set xs. price_at (changes None xs) (pf_BlockNumber pf) = Some (pf_PriceBI pf)"
  using assms
proof (induction xs rule: rev_induct)
  case (snoc x xs)
  have lt: "pf_BlockNumber y < pf_BlockNumber x" if "y \<in> set xs" for y
    using snoc.prems that by (auto simp: sorted_wrt_append)
  then have all: "filter (\<lambda>pf. pf_BlockNumber pf \<le> pf_BlockNumber x) (changes None xs) = changes None xs"
    using changes_subset[of None xs] by (fastforce intro: filter_True)
  have old: "price_at (changes None (xs @ [x])) (pf_BlockNumber y) = price_at (changes None xs) (pf_BlockNumber y)" if "y \<in> set xs" for y
    using lt[OF that] by (simp add: price_at_def changes_snoc)
  have new: "price_at (changes None (xs @ [x])) (pf_BlockNumber x) = Some (pf_PriceBI x)"
  proof (cases "xs = []")
    case False
    then show ?thesis using changes_last[OF False] by (auto simp: price_at_def changes_snoc all)
  qed (simp add: price_at_def changes_snoc)
  show ?case using snoc old new by (auto simp: sorted_wrt_append)
qed simp

text \<open>Leaving out repetitions does not change what a history says of any block.\<close>

lemma price_at_changes_any:
  assumes "sorted_wrt (<) (map pf_BlockNumber xs)"
  shows "price_at (changes None xs) b = price_at xs b"
  using assms
proof (induction xs rule: rev_induct)
  case (snoc x xs)
  have IH: "price_at (changes None xs) b = price_at xs b" using snoc by (simp add: sorted_wrt_append)
  show ?case
  proof (cases "pf_BlockNumber x \<le> b")
    case False
    then show ?thesis using IH by (simp add: price_at_def changes_snoc)
  next
    case True
    then have le: "pf_BlockNumber y \<le> b" if "y \<in> set (xs @ [x])" for y
      using snoc.prems that by (fastforce simp: sorted_wrt_append)
    then have "filter (\<lambda>pf. pf_BlockNumber pf \<le> b) (changes None (xs @ [x])) = changes None (xs @ [x])"
      using changes_subset[of None "xs @ [x]"] by (blast intro: filter_True)
    then show ?thesis using changes_last[of "xs @ [x]"] True by (simp add: price_at_def)
  qed
qed simp

lemma mset_concat_add:
  assumes "mset xs' = add_mset x (mset xs)"
  shows "mset (concat (map f xs')) = mset (f x) + mset (concat (map f xs))"
proof -
  have *: "mset (concat (map f ys)) = sum_mset (image_mset (\<lambda>y. mset (f y)) (mset ys))" for ys
    by (induction ys) auto
  show ?thesis unfolding * assms by simp
qed

lemma sort_key_unique:
  assumes "mset xs = mset ys" and "sorted_wrt (<) (map f ys)"
  shows "sort_key f xs = ys"
proof -
  have "inj_on f (set ys)" using assms(2)
    by (metis distinct_map strict_sorted_iff)
  moreover have "sorted (map f ys)" using assms(2) by (simp add: strict_sorted_iff)
  moreover have "set xs = set ys" using assms(1) by (metis set_mset_mset)
  ultimately show ?thesis using assms(1)
    by (metis properties_for_sort_key sort_key_inj_key_eq)
qed

lemma stored_prices_mset:
  "mset (stored_prices k r) = filter_mset (\<lambda>pf. pf_key pf = k) (mset (concat (map row_price (all_rows r))))"
  by (simp add: stored_prices_def)

text \<open>What holds of a key after prices were reported.\<close>

definition price_inv :: "pf_key \<Rightarrow> price_feed list \<Rightarrow> blocks_repo \<Rightarrow> bool" where
  "price_inv k pfs r \<longleftrightarrow>
    prevPriceFeeds r k = (if reported k pfs = [] then None else Some (last (reported k pfs))) \<and>
    mset (stored_prices k r) = mset (changes None (reported k pfs))"

lemma canAddPF_ok:
  assumes "\<And>old. prevPriceFeeds r (pf_key pf) = Some old \<Longrightarrow> pf_BlockNumber old < pf_BlockNumber pf"
  shows "\<exists>r1. canAddPF pf r = Inr (map_option pf_PriceBI (prevPriceFeeds r (pf_key pf)) \<noteq> Some (pf_PriceBI pf), r1) \<and>
    prevPriceFeeds r1 = (prevPriceFeeds r)(pf_key pf \<mapsto> pf) \<and> br_blocks r1 = br_blocks r"
  using assms by (cases "prevPriceFeeds r (pf_key pf)")
    (auto simp: canAddPF_def addPrevPriceFeed_def addCurrentPrice_def Let_def guard_fatal_def)

lemma AddPriceFeed_inv:
  assumes "\<And>b. \<exists>t. BlockByNumber C b = Inr t" and "\<And>k. price_inv k pfs r"
    and "\<And>k. sorted_wrt (<) (map pf_BlockNumber (reported k (pfs @ [pf])))"
  shows "\<exists>r'. AddPriceFeed C pf r = Inr r' \<and> (\<forall>k. price_inv k (pfs @ [pf]) r')"
proof -
  let ?k = "pf_key pf" let ?h = "reported (pf_key pf) pfs"
  let ?add = "map_option pf_PriceBI (prevPriceFeeds r ?k) \<noteq> Some (pf_PriceBI pf)"
  have prev: "prevPriceFeeds r ?k = (if ?h = [] then None else Some (last ?h))" using assms(2)[of ?k] by (simp add: price_inv_def)
  have "sorted_wrt (<) (map pf_BlockNumber (?h @ [pf]))" using assms(3)[of ?k] by (simp add: reported_def)
  then have "pf_BlockNumber old < pf_BlockNumber pf" if "prevPriceFeeds r ?k = Some old" for old
    using that prev by (auto simp: sorted_wrt_append split: if_splits)
  then obtain r1 where r1: "canAddPF pf r = Inr (?add, r1)" "prevPriceFeeds r1 = (prevPriceFeeds r)(?k \<mapsto> pf)"
    "br_blocks r1 = br_blocks r" using canAddPF_ok by blast
  have rows1: "all_rows r1 = all_rows r" using r1(3) by (simp add: all_rows_def)
  obtain r' where r': "AddPriceFeed C pf r = Inr r'" "prevPriceFeeds r' = (prevPriceFeeds r)(?k \<mapsto> pf)"
    "mset (all_rows r') = (if ?add then add_mset (PriceFeedRow pf) (mset (all_rows r)) else mset (all_rows r))"
  proof (cases ?add)
    case True
    obtain r2 where r2: "add_row C (pf_BlockNumber pf) (PriceFeedRow pf) r1 = Inr r2" using add_row_total[OF assms(1)] by blast
    show ?thesis using True add_row_effect[OF r2] r2 r1 rows1 by (intro that[of r2]) (simp_all add: AddPriceFeed_def)
  next
    case False
    then show ?thesis using that[of r1] r1 rows1 by (simp add: AddPriceFeed_def)
  qed
  have new: "mset (concat (map row_price (all_rows r'))) =
      (if ?add then add_mset pf (mset (concat (map row_price (all_rows r)))) else mset (concat (map row_price (all_rows r))))"
    using r'(3) mset_concat_add[of "all_rows r'" "PriceFeedRow pf" "all_rows r" row_price]
      mset_concat_add[of "PriceFeedRow pf # all_rows r'" "PriceFeedRow pf" "all_rows r" row_price]
    by (auto simp: row_price_def split: if_splits)
  have "price_inv k (pfs @ [pf]) r'" for k
  proof (cases "k = ?k")
    case True
    have "(if ?h = [] then None else Some (pf_PriceBI (last ?h))) = Some (pf_PriceBI pf) \<longleftrightarrow> \<not> ?add" using prev by simp
    then show ?thesis using True assms(2)[of ?k] r'(2) new
      by (simp add: price_inv_def reported_def stored_prices_mset changes_snoc split del: if_split split: if_splits)
  next
    case False
    then show ?thesis using assms(2)[of k] r'(2) new
      by (simp add: price_inv_def reported_def stored_prices_mset split del: if_split split: if_splits)
  qed
  with r'(1) show ?thesis by blast
qed

section \<open>Stored prices\<close>

text \<open>Any reports in which the blocks of each token and feed increase are accepted, and stored where the price changes.\<close>

lemma AddPriceFeed_stores:
  assumes "\<And>b. \<exists>t. BlockByNumber C b = Inr t"
    and "\<And>k. sorted_wrt (<) (map pf_BlockNumber (reported k pfs))"
  shows "\<exists>r. rfold (AddPriceFeed C) pfs NewBlocksRepo = Inr r \<and> (\<forall>k. stored_prices k r = changes None (reported k pfs))"
proof -
  have "\<exists>r. rfold (AddPriceFeed C) pfs NewBlocksRepo = Inr r \<and> (\<forall>k. price_inv k pfs r)"
    using assms(2)
  proof (induction pfs rule: rev_induct)
    case Nil
    show ?case by (simp add: price_inv_def reported_def NewBlocksRepo_def stored_prices_def all_rows_def)
  next
    case (snoc pf pfs)
    have "sorted_wrt (<) (map pf_BlockNumber (reported k pfs))" for k
      using snoc.prems[of k] by (auto simp: reported_def sorted_wrt_append split: if_splits)
    then obtain r where r: "rfold (AddPriceFeed C) pfs NewBlocksRepo = Inr r" "\<And>k. price_inv k pfs r" using snoc.IH by blast
    show ?case using AddPriceFeed_inv[OF assms(1) r(2) snoc.prems] r(1) by (auto simp: rfold_append)
  qed
  then obtain r where run: "rfold (AddPriceFeed C) pfs NewBlocksRepo = Inr r" and inv: "\<And>k. price_inv k pfs r" by blast
  have st: "stored_prices k r = changes None (reported k pfs)" for k
    unfolding stored_prices_def using inv[of k] changes_sorted[OF assms(2)]
    by (intro sort_key_unique) (simp_all add: price_inv_def stored_prices_def)
  then show ?thesis using run by blast
qed

text \<open>
  C22: the stored prices are the reported ones without repetitions, and nothing is lost by leaving those
  out.  For any sequence of reports in which the blocks of each token and feed increase, every
  report is accepted; the rows of a token and feed by block carry the reported prices with adjacent
  repetitions removed, their blocks increase, and reading the history at the block of any report gives its
  price.
\<close>

theorem AddPriceFeed_history:
  assumes "\<And>b. \<exists>t. BlockByNumber C b = Inr t"
    and "\<And>k. sorted_wrt (<) (map pf_BlockNumber (reported k pfs))"
  shows "\<exists>r. rfold (AddPriceFeed C) pfs NewBlocksRepo = Inr r \<and>
    (\<forall>k. map pf_PriceBI (stored_prices k r) = remdups_adj (map pf_PriceBI (reported k pfs)) \<and>
      sorted_wrt (<) (map pf_BlockNumber (stored_prices k r)) \<and>
      (\<forall>pf \<in> set (reported k pfs). price_at (stored_prices k r) (pf_BlockNumber pf) = Some (pf_PriceBI pf)))"
proof -
  obtain r where run: "rfold (AddPriceFeed C) pfs NewBlocksRepo = Inr r" and st: "\<And>k. stored_prices k r = changes None (reported k pfs)"
    using AddPriceFeed_stores[OF assms] by blast
  show ?thesis using run assms(2) changes_prices changes_sorted price_at_changes by (auto simp: st)
qed

section \<open>The last block of a day\<close>

text \<open>A history of the store: blocks set in any order, and clears between them.\<close>

datatype block_op = SetBlockOp int | ClearOp

definition block_op :: "chain_env \<Rightarrow> block_op \<Rightarrow> blocks_repo \<Rightarrow> blocks_repo res" where
  "block_op C op r = (case op of SetBlockOp b \<Rightarrow> setBlock C b r | ClearOp \<Rightarrow> Inr (BlocksRepo_Clear r))"

definition day_of :: "chain_env \<Rightarrow> int \<Rightarrow> int \<Rightarrow> bool" where
  "day_of C ts b \<longleftrightarrow> (\<exists>t. BlockByNumber C b = Inr t \<and> TimeToDateEndTs C (sint t) = ts)"

definition dates_inv :: "chain_env \<Rightarrow> block_op list \<Rightarrow> blocks_repo \<Rightarrow> bool" where
  "dates_inv C ops r \<longleftrightarrow>
    (\<forall>b. map_of (br_blocks r) b \<noteq> None \<longrightarrow> SetBlockOp b \<in> set ops) \<and>
    (\<forall>ts. case blockDatePairs r ts of
       None \<Rightarrow> (\<forall>b. SetBlockOp b \<in> set ops \<longrightarrow> \<not> day_of C ts b)
     | Some e \<Rightarrow> SetBlockOp (bd_BlockNum e) \<in> set ops \<and> day_of C ts (bd_BlockNum e) \<and>
         (\<forall>b. SetBlockOp b \<in> set ops \<and> day_of C ts b \<longrightarrow> b \<le> bd_BlockNum e))"

lemma dates_inv_old:
  assumes "dates_inv C ops r" and "SetBlockOp b \<in> set ops"
  shows "dates_inv C (ops @ [SetBlockOp b]) r"
proof -
  have same: "set (ops @ [SetBlockOp b]) = set ops" using assms(2) by auto
  show ?thesis using assms(1) unfolding dates_inv_def same .
qed

lemma dates_inv_new:
  assumes inv: "dates_inv C ops r" and t: "BlockByNumber C b = Inr t"
  shows "dates_inv C (ops @ [SetBlockOp b]) (addBlockDate C \<lparr>bd_BlockNum = b, bd_Timestamp = sint t\<rparr>
    (r\<lparr>br_blocks := AList.update b blk (br_blocks r)\<rparr>))"
    (is "dates_inv C ?ops ?r")
proof -
  let ?day = "TimeToDateEndTs C (sint t)"
  have day: "day_of C ts b \<longleftrightarrow> ts = ?day" for ts using t by (auto simp: day_of_def)
  have pairs: "blockDatePairs ?r ts = (if ts = ?day \<and> (\<forall>e. blockDatePairs r ts = Some e \<longrightarrow> bd_BlockNum e < b)
      then Some \<lparr>bd_BlockNum = b, bd_Timestamp = sint t\<rparr> else blockDatePairs r ts)" for ts
    by (auto simp: addBlockDate_def Let_def split: option.splits)
  have "case blockDatePairs ?r ts of
       None \<Rightarrow> (\<forall>b. SetBlockOp b \<in> set ?ops \<longrightarrow> \<not> day_of C ts b)
     | Some e \<Rightarrow> SetBlockOp (bd_BlockNum e) \<in> set ?ops \<and> day_of C ts (bd_BlockNum e) \<and>
         (\<forall>b. SetBlockOp b \<in> set ?ops \<and> day_of C ts b \<longrightarrow> b \<le> bd_BlockNum e)" for ts
    using inv[unfolded dates_inv_def, THEN conjunct2, THEN spec, of ts] day
    by (cases "blockDatePairs r ts") (auto simp: pairs)
  moreover have "\<forall>c. map_of (br_blocks ?r) c \<noteq> None \<longrightarrow> SetBlockOp c \<in> set ?ops"
    using inv by (auto simp: dates_inv_def)
  ultimately show ?thesis unfolding dates_inv_def by blast
qed

lemma block_op_dates:
  assumes "block_op C op r = Inr r'" and "dates_inv C ops r"
  shows "dates_inv C (ops @ [op]) r'"
proof (cases op)
  case (SetBlockOp b)
  show ?thesis
  proof (cases "map_of (br_blocks r) b")
    case None
    then show ?thesis using assms dates_inv_new SetBlockOp by (auto simp: block_op_def setBlock_def elim!: rbind_InrE)
  next
    case (Some blk)
    then have "SetBlockOp b \<in> set ops" using assms(2) by (simp add: dates_inv_def)
    then show ?thesis using assms dates_inv_old Some SetBlockOp by (simp add: block_op_def setBlock_def)
  qed
next
  case ClearOp
  have ops: "SetBlockOp b \<in> set (ops @ [op]) \<longleftrightarrow> SetBlockOp b \<in> set ops" for b using ClearOp by simp
  have "r' = r\<lparr>br_blocks := []\<rparr>" using assms(1) ClearOp by (simp add: block_op_def BlocksRepo_Clear_def)
  then show ?thesis using assms(2) unfolding dates_inv_def ops by simp
qed

text \<open>
  The treasury finds the last block of a day.  After blocks were set in any order, with the store
  cleared any number of times between them, the entry of a day is the largest block of that day that was ever
  set, and a day has no entry only if no block of it was set.
\<close>

theorem block_dates_last:
  assumes "rfold (block_op C) ops NewBlocksRepo = Inr r"
  shows "case GetBlockDatePairs ts r of
      None \<Rightarrow> \<forall>b. SetBlockOp b \<in> set ops \<longrightarrow> \<not> day_of C ts b
    | Some e \<Rightarrow> SetBlockOp (bd_BlockNum e) \<in> set ops \<and> day_of C ts (bd_BlockNum e) \<and>
        (\<forall>b. SetBlockOp b \<in> set ops \<and> day_of C ts b \<longrightarrow> b \<le> bd_BlockNum e)"
proof -
  have "dates_inv C ops r" using assms
  proof (induction ops arbitrary: r rule: rev_induct)
    case Nil
    then show ?case by (auto simp: NewBlocksRepo_def dates_inv_def)
  next
    case (snoc op ops)
    then show ?case using block_op_dates by (force simp: rfold_append elim!: rbind_InrE)
  qed
  then show ?thesis by (simp add: dates_inv_def GetBlockDatePairs_def)
qed

section \<open>A concrete store\<close>

definition demo_chain :: chain_env where
  "demo_chain = \<lparr>BlockByNumber = (\<lambda>b. Inr (word_of_int (b * 12))), TimeToDateEndTs = (\<lambda>t. (t div 100 + 1) * 100),
     cNow = 0, SpotPrices = (\<lambda>_. []), cGetFloat64Decimal = (\<lambda>x _. of_int x)\<rparr>"

definition demo_price :: "int \<Rightarrow> int \<Rightarrow> price_feed" where
  "demo_price b p = \<lparr>pf_BlockNumber = b, pf_Token = ''t'', pf_Feed = ''f'', pf_RoundId = 0, pf_PriceBI = p, pf_Price = 0, IsPriceInUSD = True\<rparr>"

theorem AddPriceFeed_history_witness:
  "\<exists>r. rfold (AddPriceFeed demo_chain) [demo_price 5 7, demo_price 6 7, demo_price 9 8] NewBlocksRepo = Inr r \<and>
    map pf_PriceBI (stored_prices (True, ''t'', ''f'') r) = [7, 8] \<and>
    price_at (stored_prices (True, ''t'', ''f'') r) 6 = Some 7"
proof -
  let ?pfs = "[demo_price 5 7, demo_price 6 7, demo_price 9 8]"
  have mem: "demo_price 6 7 \<in> set (reported (True, ''t'', ''f'') ?pfs)" "pf_BlockNumber (demo_price 6 7) = 6" "pf_PriceBI (demo_price 6 7) = 7"
    by (simp_all add: reported_def pf_key_def demo_price_def)
  have chg: "remdups_adj (map pf_PriceBI (reported (True, ''t'', ''f'') ?pfs)) = [7, 8]"
    by (simp add: reported_def pf_key_def demo_price_def)
  have "\<exists>t. BlockByNumber demo_chain b = Inr t" for b by (simp add: demo_chain_def)
  moreover have "sorted_wrt (<) (map pf_BlockNumber (reported k ?pfs))" for k
    by (simp add: reported_def demo_price_def)
  ultimately obtain r where r: "rfold (AddPriceFeed demo_chain) ?pfs NewBlocksRepo = Inr r"
    and h: "\<And>k. map pf_PriceBI (stored_prices k r) = remdups_adj (map pf_PriceBI (reported k ?pfs))"
    "\<And>k pf. pf \<in> set (reported k ?pfs) \<Longrightarrow> price_at (stored_prices k r) (pf_BlockNumber pf) = Some (pf_PriceBI pf)"
    using AddPriceFeed_history[of demo_chain ?pfs] by metis
  show ?thesis using r h(1)[of "(True, ''t'', ''f'')"] h(2)[OF mem(1)] chg mem(2,3) by (intro exI[of _ r]) simp
qed

lemma demo_block_dates:
  "case rfold (block_op demo_chain) [SetBlockOp 8, ClearOp, SetBlockOp 2, SetBlockOp 1] NewBlocksRepo of Inl _ \<Rightarrow> False
   | Inr r \<Rightarrow> map_option bd_BlockNum (GetBlockDatePairs 100 r) = Some 8"
  by code_simp

theorem block_dates_last_witness:
  "\<exists>r e. rfold (block_op demo_chain) [SetBlockOp 8, ClearOp, SetBlockOp 2, SetBlockOp 1] NewBlocksRepo = Inr r \<and>
    GetBlockDatePairs 100 r = Some e \<and> bd_BlockNum e = 8 \<and> day_of demo_chain 100 8"
proof -
  obtain r where r: "rfold (block_op demo_chain) [SetBlockOp 8, ClearOp, SetBlockOp 2, SetBlockOp 1] NewBlocksRepo = Inr r"
    "map_option bd_BlockNum (GetBlockDatePairs 100 r) = Some 8"
    using case_InrD[OF demo_block_dates] by (elim exE conjE)
  then obtain e where e: "GetBlockDatePairs 100 r = Some e" "bd_BlockNum e = 8" by auto
  have "day_of demo_chain 100 8" using block_dates_last[OF r(1), of 100] e by simp
  then show ?thesis using r(1) e by blast
qed

end
