(* ===== verification/Repo_Config.thy ===== *)
theory Repo_Config
  imports Repo_Blocks_Correct
begin

text \<open>
  Configuration of credit managers in the repository: tokens (\<^verbatim>\<open>repository/handlers/tokens.go\<close>), allowed tokens
  (\<^verbatim>\<open>allowed_tokens.go\<close>), parameters (\<^verbatim>\<open>params.go\<close>) and allowed protocols (\<^verbatim>\<open>repository/allowed_protocols.go\<close>).

  Allowed tokens and parameters are objects that the current state, the blocks and the list of disabled tokens
  point to, and that are written after they were handed out.  They live in two stores here and are
  named by their position.
\<close>

section \<open>Tokens\<close>

record token =
  tok_Address :: address
  tok_Symbol :: string
  tok_Decimals :: int

record tokens_repo =
  wethAddr :: address
  usdcAddr :: address
  gearTokenAddr :: address
  tr_tokens :: "(address \<times> token) list"
  dieselTokens :: "(address \<times> address \<times> address) list"    \<comment> \<open>underlying token and pool\<close>

definition addTokenObj :: "token \<Rightarrow> tokens_repo \<Rightarrow> tokens_repo" where
  "addTokenObj t0 r =
    (let t = (if tok_Address t0 = ''0xEe8Adf657c5EF8e10622b6B47014D2C6f6993E5E'' then t0\<lparr>tok_Symbol := ''yvWETH''\<rparr> else t0);
         r1 = (if tok_Symbol t = ''USDC'' then r\<lparr>usdcAddr := tok_Address t\<rparr> else r);
         r2 = (if tok_Symbol t = ''WETH'' then r1\<lparr>wethAddr := tok_Address t\<rparr> else r1);
         r3 = (if tok_Symbol t = ''GEAR'' then r2\<lparr>gearTokenAddr := tok_Address t\<rparr> else r2)
     in if map_of (tr_tokens r3) (tok_Address t) = None
        then r3\<lparr>tr_tokens := AList.update (tok_Address t) t (tr_tokens r3)\<rparr> else r3)"

text \<open>\<open>NewToken\<close> is \<^verbatim>\<open>schemas.NewToken\<close>, which asks the chain; \<^verbatim>\<open>addToken\<close> returns its error.\<close>

definition addToken :: "(address \<Rightarrow> token option) \<Rightarrow> address \<Rightarrow> tokens_repo \<Rightarrow> token option option \<times> tokens_repo" where
  "addToken NewToken addr r =
    (if map_of (tr_tokens r) addr = None then
       (case NewToken addr of
          None \<Rightarrow> (None, r)
        | Some t \<Rightarrow> let r1 = addTokenObj t r in (Some (map_of (tr_tokens r1) addr), r1))
     else (Some (map_of (tr_tokens r) addr), r))"

definition GetToken :: "(address \<Rightarrow> token option) \<Rightarrow> address \<Rightarrow> tokens_repo \<Rightarrow> (token option \<times> tokens_repo) res" where
  "GetToken NewToken addr r =
    (case map_of (tr_tokens r) addr of
       Some t \<Rightarrow> Inr (Some t, r)
     | None \<Rightarrow> (case addToken NewToken addr r of
         (None, _) \<Rightarrow> Inl (Panic ''token'')
       | (Some t, r1) \<Rightarrow> Inr (t, r1)))"

definition GetTokens :: "tokens_repo \<Rightarrow> address list" where
  "GetTokens r = map fst (tr_tokens r) @ (if gearTokenAddr r \<noteq> '''' then [gearTokenAddr r] else [])"

definition AddDieselToken :: "(address \<Rightarrow> token option) \<Rightarrow> address \<Rightarrow> address \<Rightarrow> address \<Rightarrow> tokens_repo \<Rightarrow> tokens_repo" where
  "AddDieselToken NewToken dieselToken underlyingToken pool r =
    snd (addToken NewToken dieselToken
      (r\<lparr>dieselTokens := AList.update dieselToken (underlyingToken, pool) (dieselTokens r)\<rparr>))"

definition GetDieselToken :: "address \<Rightarrow> tokens_repo \<Rightarrow> (address \<times> address) option" where
  "GetDieselToken dieselToken r = map_of (dieselTokens r) dieselToken"

definition tr_IsDieselToken :: "address \<Rightarrow> tokens_repo \<Rightarrow> bool" where
  "tr_IsDieselToken token r \<longleftrightarrow> map_of (dieselTokens r) token \<noteq> None"

section \<open>State\<close>

record allowed_obj =
  alt_BlockNumber :: int
  alt_CreditManager :: address
  alt_Token :: address
  alt_Threshold :: "int option"
  alt_Configurator :: address
  DisableBlock :: int

record cfg_parameters = parameters +
  EmergencyLiqDiscount :: "16 word"

record cfg_world =
  cw_blocks :: blocks_repo
  cw_tokens :: tokens_repo
  at_heap :: "allowed_obj list"
  allowedTokens :: "address \<times> address \<rightharpoonup> nat"      \<comment> \<open>manager and token\<close>
  disabledTokens :: "nat list"
  db_disabled :: "allowed_obj list"
  par_heap :: "cfg_parameters list"
  cmParams :: "address \<rightharpoonup> nat"
  cmFastCheckParams :: "address \<rightharpoonup> fast_check_params"

text \<open>What the sdk provides: differences of parameters as JSON, and the parameters of a manager without any.\<close>

record cfg_env =
  cfg_chain :: chain_env
  cfg_NewToken :: "address \<Rightarrow> token option"
  NewParams :: cfg_parameters
  Diffv1 :: "cfg_parameters \<Rightarrow> cfg_parameters \<Rightarrow> json_obj"
  Diffv2 :: "cfg_parameters \<Rightarrow> cfg_parameters \<Rightarrow> json_obj"
  NewFastCheckParams :: fast_check_params
  DiffFC :: "fast_check_params \<Rightarrow> fast_check_params \<Rightarrow> json_obj"

definition cfg_row :: "cfg_env \<Rightarrow> int \<Rightarrow> row \<Rightarrow> cfg_world \<Rightarrow> cfg_world res" where
  "cfg_row E blockNum row w = rbind (add_row (cfg_chain E) blockNum row (cw_blocks w)) (\<lambda>r. Inr (w\<lparr>cw_blocks := r\<rparr>))"

definition cfg_dao :: "cfg_env \<Rightarrow> int \<Rightarrow> int \<Rightarrow> txhash \<Rightarrow> address \<Rightarrow> string \<Rightarrow> json_obj \<Rightarrow> cfg_world \<Rightarrow> cfg_world res" where
  "cfg_dao E blockNum logID txHash contract ty args w =
    rbind (AddDAOOperation (cfg_chain E) \<lparr>dao_BlockNumber = blockNum, dao_LogID = logID, dao_TxHash = txHash,
        dao_Contract = contract, dao_Type = ty, dao_Args = args\<rparr> (cw_blocks w)) (\<lambda>r. Inr (w\<lparr>cw_blocks := r\<rparr>))"

definition cfg_GetToken :: "cfg_env \<Rightarrow> address \<Rightarrow> cfg_world \<Rightarrow> cfg_world res" where
  "cfg_GetToken E addr w = rbind (GetToken (cfg_NewToken E) addr (cw_tokens w)) (\<lambda>(_, r). Inr (w\<lparr>cw_tokens := r\<rparr>))"

definition jnum :: "int option \<Rightarrow> json" where
  "jnum n = (case n of None \<Rightarrow> JNull | Some i \<Rightarrow> JInt i)"

section \<open>Allowed tokens\<close>

definition addAllowedTokenState :: "nat \<Rightarrow> cfg_world \<Rightarrow> cfg_world" where
  "addAllowedTokenState n w =
    (let entry = at_heap w ! n in
     w\<lparr>allowedTokens := (allowedTokens w)((alt_CreditManager entry, alt_Token entry) \<mapsto> n)\<rparr>)"

definition getPreviousLiqThreshold :: "address \<Rightarrow> address \<Rightarrow> cfg_world \<Rightarrow> int option" where
  "getPreviousLiqThreshold cm tok w =
    (case allowedTokens w (cm, tok) of None \<Rightarrow> Some 0 | Some n \<Rightarrow> alt_Threshold (at_heap w ! n))"

definition isAllowedTokenDisabled :: "address \<Rightarrow> address \<Rightarrow> cfg_world \<Rightarrow> bool" where
  "isAllowedTokenDisabled cm tok w =
    (case allowedTokens w (cm, tok) of None \<Rightarrow> False | Some n \<Rightarrow> DisableBlock (at_heap w ! n) \<noteq> 0)"

text \<open>\<^verbatim>\<open>addAllowedToken\<close>: the object becomes known to its block.\<close>

definition addAllowedToken :: "cfg_env \<Rightarrow> allowed_obj \<Rightarrow> cfg_world \<Rightarrow> (nat \<times> cfg_world) res" where
  "addAllowedToken E atoken w =
    rbind (cfg_GetToken E (alt_Token atoken) w) (\<lambda>w1.
      let n = length (at_heap w1); w2 = w1\<lparr>at_heap := at_heap w1 @ [atoken]\<rparr> in
      rbind (cfg_row E (alt_BlockNumber atoken) (AllowedTokenRow n) w2) (\<lambda>w3. Inr (n, w3)))"

definition AddAllowedToken :: "cfg_env \<Rightarrow> int \<Rightarrow> txhash \<Rightarrow> address \<Rightarrow> allowed_obj \<Rightarrow> cfg_world \<Rightarrow> cfg_world res" where
  "AddAllowedToken E logID txHash creditFilter atoken w =
    rbind (addAllowedToken E atoken w) (\<lambda>(n, w1).
      let prevLiqThreshold = getPreviousLiqThreshold (alt_CreditManager atoken) (alt_Token atoken) w1;
          args = [(''liquidityThreshold'', jnum (alt_Threshold atoken)), (''token'', JString (alt_Token atoken)),
            (''creditManager'', JString (alt_CreditManager atoken)), (''prevLiquidationThreshold'', jnum prevLiqThreshold)]
      in cfg_dao E (alt_BlockNumber atoken) logID txHash creditFilter ''TokenAllowed'' args (addAllowedTokenState n w1))"

text \<open>
  The end of the entry that is replaced: it is disabled at the block of the new one, unless it was
  disabled before.
\<close>

definition disable_previous :: "cfg_env \<Rightarrow> int \<Rightarrow> address \<Rightarrow> address \<Rightarrow> cfg_world \<Rightarrow> cfg_world res" where
  "disable_previous E blockNum cm tok w =
    (case allowedTokens w (cm, tok) of
       None \<Rightarrow> Inr w
     | Some p \<Rightarrow>
         rbind (setBlock (cfg_chain E) blockNum (cw_blocks w)) (\<lambda>r.
           Inr (w\<lparr>cw_blocks := r, at_heap := (at_heap w)[p := (at_heap w ! p)\<lparr>DisableBlock := blockNum\<rparr>],
             disabledTokens := disabledTokens w @ [p]\<rparr>)))"

definition AddAllowedTokenV2 :: "cfg_env \<Rightarrow> int \<Rightarrow> txhash \<Rightarrow> address \<Rightarrow> allowed_obj \<Rightarrow> cfg_world \<Rightarrow> cfg_world res" where
  "AddAllowedTokenV2 E logID txHash creditFilter atoken0 w =
    (let cm = alt_CreditManager atoken0; tok = alt_Token atoken0; blockNum = alt_BlockNumber atoken0;
         prevLiqThreshold = getPreviousLiqThreshold cm tok w;
         isAllowTokenEvent = (alt_Threshold atoken0 = None)
     in
     rbind (deref prevLiqThreshold) (\<lambda>prev.
     if Int64 prev = 0 \<and> isAllowTokenEvent then
       cfg_dao E blockNum logID txHash creditFilter ''TokenAllowedV2''
         [(''token'', JString tok), (''creditManager'', JString cm), (''prevLiquidationThreshold'', JString ''0'')] w
     else
       let atoken = atoken0\<lparr>alt_Threshold := (case alt_Threshold atoken0 of None \<Rightarrow> Some prev | Some x \<Rightarrow> Some x)\<rparr> in
       rbind (addAllowedToken E atoken w) (\<lambda>(n, w1).
         let canReEnable = isAllowedTokenDisabled cm tok w1;
             args = [(''liquidityThreshold'', jnum (alt_Threshold atoken)), (''token'', JString tok),
               (''creditManager'', JString cm), (''prevLiquidationThreshold'', JInt prev)] @
               (if canReEnable then [(''type'', JString ''reEnabled'')] else [])
         in
         rbind (if canReEnable then Inr w1 else disable_previous E blockNum cm tok w1) (\<lambda>w2.
           cfg_dao E blockNum logID txHash creditFilter (if isAllowTokenEvent then ''TokenAllowedV2'' else ''LTUpdated'') args
             (addAllowedTokenState n w2)))))"

definition DisableAllowedToken :: "cfg_env \<Rightarrow> int \<Rightarrow> int \<Rightarrow> txhash \<Rightarrow> address \<Rightarrow> address \<Rightarrow> address \<Rightarrow> cfg_world \<Rightarrow> cfg_world res" where
  "DisableAllowedToken E blockNum logID txHash cm creditFilter tok w =
    rbind (deref (allowedTokens w (cm, tok))) (\<lambda>p.
      cfg_dao E blockNum logID txHash creditFilter ''TokenForbidden'' [(''token'', JString tok), (''creditManager'', JString cm)]
        (w\<lparr>at_heap := (at_heap w)[p := (at_heap w ! p)\<lparr>DisableBlock := blockNum\<rparr>],
           disabledTokens := disabledTokens w @ [p]\<rparr>))"

definition AllowedTokenRepo_Save :: "cfg_world \<Rightarrow> cfg_world" where
  "AllowedTokenRepo_Save w =
    (if disabledTokens w = [] then w
     else w\<lparr>db_disabled := db_disabled w @ map ((!) (at_heap w)) (disabledTokens w), disabledTokens := []\<rparr>)"

section \<open>Parameters\<close>

definition AddFastCheckParams :: "cfg_env \<Rightarrow> int \<Rightarrow> txhash \<Rightarrow> address \<Rightarrow> address \<Rightarrow> fast_check_params \<Rightarrow> cfg_world \<Rightarrow> cfg_world res" where
  "AddFastCheckParams E logID txHash cm creditFilter fcParams w =
    rbind (cfg_row E (fc_BlockNum fcParams) (FastCheckRow fcParams) w) (\<lambda>w1.
      let old = zget (NewFastCheckParams E) (cmFastCheckParams w1) (fc_CreditManager fcParams);
          args = AList.update ''creditManager'' (JString cm) (DiffFC E old fcParams)
      in cfg_dao E (fc_BlockNum fcParams) logID txHash creditFilter ''NewFastCheckParameters'' args
           (w1\<lparr>cmFastCheckParams := (cmFastCheckParams w1)(fc_CreditManager fcParams \<mapsto> fcParams)\<rparr>))"

definition old_params :: "cfg_env \<Rightarrow> address \<Rightarrow> cfg_world \<Rightarrow> cfg_parameters" where
  "old_params E cm w = (case cmParams w cm of None \<Rightarrow> NewParams E | Some p \<Rightarrow> par_heap w ! p)"

definition AddParameters :: "cfg_env \<Rightarrow> int \<Rightarrow> txhash \<Rightarrow> cfg_parameters \<Rightarrow> address \<Rightarrow> cfg_world \<Rightarrow> cfg_world res" where
  "AddParameters E logID txHash params tok w =
    (let n = length (par_heap w); cm = par_CreditManager params in
     rbind (cfg_row E (par_BlockNum params) (ParamsRow n) (w\<lparr>par_heap := par_heap w @ [params]\<rparr>)) (\<lambda>w1.
       let args = AList.update ''token'' (JString tok)
             (AList.delete ''liquidationDiscountExpired'' (AList.delete ''feeLiquidationExpired'' (Diffv1 E (old_params E cm w1) params)))
       in cfg_dao E (par_BlockNum params) logID txHash cm ''EventNewParameters'' args (w1\<lparr>cmParams := (cmParams w1)(cm \<mapsto> n)\<rparr>)))"

definition paramsDAOV2 :: "cfg_env \<Rightarrow> int \<Rightarrow> txhash \<Rightarrow> address \<Rightarrow> cfg_parameters \<Rightarrow> string list \<Rightarrow> string \<Rightarrow> cfg_world \<Rightarrow> cfg_world res" where
  "paramsDAOV2 E logID txHash creditConfigurator params fieldsToKeep daoEventType w =
    (let cm = par_CreditManager params; args = Diffv2 E (old_params E cm w) params in
     rbind (guard_fatal (\<exists>field \<in> set fieldsToKeep. map_of args field = None) ''Wrong parameter field name'') (\<lambda>_.
       cfg_dao E (par_BlockNum params) logID txHash creditConfigurator daoEventType
         (AList.update ''creditManager'' (JString cm) (filter (\<lambda>(field, _). field \<in> set fieldsToKeep) args)) w))"

text \<open>
  The common end of the three updates: the object of the manager (a fresh one if it has none) is written, and
  the same object is added to the block.
\<close>

definition write_params :: "cfg_env \<Rightarrow> cfg_parameters \<Rightarrow> (cfg_parameters \<Rightarrow> cfg_parameters) \<Rightarrow> cfg_world \<Rightarrow> cfg_world res" where
  "write_params E params f w =
    (let cm = par_CreditManager params;
         (p, heap) = (case cmParams w cm of None \<Rightarrow> (length (par_heap w), par_heap w @ [NewParams E]) | Some p \<Rightarrow> (p, par_heap w));
         newParams = (f (heap ! p))\<lparr>par_BlockNum := par_BlockNum params, par_CreditManager := cm\<rparr>
     in cfg_row E (par_BlockNum params) (ParamsRow p)
          (w\<lparr>par_heap := heap[p := newParams], cmParams := (cmParams w)(cm \<mapsto> p)\<rparr>))"

definition UpdateLimits :: "cfg_env \<Rightarrow> int \<Rightarrow> txhash \<Rightarrow> address \<Rightarrow> cfg_parameters \<Rightarrow> cfg_world \<Rightarrow> cfg_world res" where
  "UpdateLimits E logID txHash creditConfigurator params w =
    rbind (paramsDAOV2 E logID txHash creditConfigurator params [''minAmount'', ''maxAmount''] ''LimitsUpdated'' w)
      (write_params E params (\<lambda>p. p\<lparr>par_MinAmount := par_MinAmount params, par_MaxAmount := par_MaxAmount params\<rparr>))"

definition UpdateEmergencyLiqDiscount :: "cfg_env \<Rightarrow> int \<Rightarrow> txhash \<Rightarrow> address \<Rightarrow> cfg_parameters \<Rightarrow> cfg_world \<Rightarrow> cfg_world res" where
  "UpdateEmergencyLiqDiscount E logID txHash creditConfigurator params w =
    rbind (paramsDAOV2 E logID txHash creditConfigurator params [''emergencyLiqDiscount''] ''NewEmergencyLiquidationDiscount'' w)
      (write_params E params (\<lambda>p. p\<lparr>EmergencyLiqDiscount := EmergencyLiqDiscount params\<rparr>))"

definition UpdateFees :: "cfg_env \<Rightarrow> int \<Rightarrow> txhash \<Rightarrow> address \<Rightarrow> cfg_parameters \<Rightarrow> cfg_world \<Rightarrow> cfg_world res" where
  "UpdateFees E logID txHash creditConfigurator params w =
    rbind (paramsDAOV2 E logID txHash creditConfigurator params
        [''feeInterest'', ''feeLiquidation'', ''liquidationDiscount'', ''liquidationDiscountExpired'', ''feeLiquidationExpired'']
        ''FeesUpdated'' w)
      (write_params E params (\<lambda>p. p\<lparr>FeeInterest := FeeInterest params, FeeLiquidation := FeeLiquidation params,
         LiquidationDiscount := LiquidationDiscount params, LiquidationDiscountExpired := LiquidationDiscountExpired params,
         FeeLiquidationExpired := FeeLiquidationExpired params\<rparr>))"

section \<open>Protocols\<close>

definition AddAllowedProtocol :: "cfg_env \<Rightarrow> int \<Rightarrow> txhash \<Rightarrow> address \<Rightarrow> protocol \<Rightarrow> cfg_world \<Rightarrow> cfg_world res" where
  "AddAllowedProtocol E logID txHash creditFilter p w =
    rbind (cfg_row E (pr_BlockNumber p) (ProtocolRow p) w) (\<lambda>w1.
      cfg_dao E (pr_BlockNumber p) logID txHash creditFilter ''ContractAllowed''
        [(''adapter'', JString (pr_Adapter p)), (''protocol'', JString (pr_Protocol p)), (''creditManager'', JString (pr_CreditManager p))] w1)"

definition DisableProtocol :: "cfg_env \<Rightarrow> int \<Rightarrow> int \<Rightarrow> txhash \<Rightarrow> address \<Rightarrow> address \<Rightarrow> address \<Rightarrow> cfg_world \<Rightarrow> cfg_world res" where
  "DisableProtocol E blockNum logID txHash cm creditFilter prot w =
    cfg_dao E blockNum logID txHash creditFilter ''ContractForbidden'' [(''protocol'', JString prot), (''creditManager'', JString cm)] w"

end
