(* ===== verification/Credit_Filter.thy ===== *)
theory Credit_Filter
  imports Repo_Config
begin

text \<open>
  The credit filter of version 1 and the credit configurator of version 2 (\<^verbatim>\<open>models/credit_filter\<close>): both are
  one model that writes the configuration of its credit manager to the repository.  The events are decoded.
  Numbers read from the data of a log go through \<^verbatim>\<open>big.Int.Int64\<close> where the code does that; a number the
  code writes as a decimal string is the number here.
\<close>

datatype cf_event =
    ContractAllowed address address          \<comment> \<open>protocol, adapter\<close>
  | TokenForbidden address
  | ContractForbidden address
  | NewFastCheckParameters int int           \<comment> \<open>chi threshold, check delay\<close>
  | TokenAllowed address int
  | PriceOracleUpdated address
  | TransferPluginAllowed address bool
  | TokenAllowedV2 address
  | TokenLiquidationThresholdUpdated address "16 word"
  | LimitsUpdated int int
  | CfgFeesUpdated "16 word" "16 word" "16 word" "16 word" "16 word"
      \<comment> \<open>interest, liquidation, premium, liquidation and premium if expired\<close>
  | CfgCreditFacadeUpgraded address
  | AdapterForbidden address
  | PriceOracleUpgraded address
  | IncreaseDebtForbiddenModeChanged int
  | ExpirationDateUpdated int
  | MaxEnabledTokensUpdated int
  | LimitPerBlockUpdated int
  | AddedToUpgradeable address
  | RemovedFromUpgradeable address
  | EmergencyLiquidatorAdded address
  | EmergencyLiquidatorRemoved address
  | NewMaxCumulativeLoss int
  | CumulativeLossReset
  | NewEmergencyLiquidationDiscount int
  | OtherCfgEvent

type_synonym cf_log = "cf_event txlog"

definition cf_GetCM :: "sync_adapter \<Rightarrow> address res" where
  "cf_GetCM s =
    (case Details s of
       Some d \<Rightarrow> (case map_of d ''creditManager'' of
         Some (JString cm) \<Rightarrow> Inr cm
       | _ \<Rightarrow> Inl (Fatal ''Failed in asserting credit manager''))
     | None \<Rightarrow> Inl (Fatal ''Failed in asserting credit manager''))"

definition NewCreditFilter :: "(address \<Rightarrow> string \<Rightarrow> int \<Rightarrow> sync_adapter) \<Rightarrow> address \<Rightarrow> string \<Rightarrow> address \<Rightarrow> int \<Rightarrow> sync_adapter" where
  "NewCreditFilter newAdapter addr contractName cm discoveredAt =
    (newAdapter addr contractName discoveredAt)\<lparr>Details := Some [(''creditManager'', JString cm)]\<rparr>"

definition allowed_entry :: "cf_log \<Rightarrow> address \<Rightarrow> address \<Rightarrow> address \<Rightarrow> int option \<Rightarrow> allowed_obj" where
  "allowed_entry txLog cm addr tok threshold =
    \<lparr>alt_BlockNumber = BlockNumber txLog, alt_CreditManager = cm, alt_Token = tok, alt_Threshold = threshold,
     alt_Configurator = addr, DisableBlock = 0\<rparr>"

text \<open>An event recorded as an operation of the DAO only.\<close>

definition dao_only :: "cfg_env \<Rightarrow> cf_log \<Rightarrow> address \<Rightarrow> string \<Rightarrow> json_obj \<Rightarrow> cfg_world \<Rightarrow> cfg_world res" where
  "dao_only E txLog contract ty args = cfg_dao E (BlockNumber txLog) (Index txLog) (TxHash txLog) contract ty args"

text \<open>The parameters of an event: the fields the event does not carry are zero.\<close>

definition event_params :: "cf_log \<Rightarrow> address \<Rightarrow> cfg_parameters" where
  "event_params txLog cm =
    \<lparr>par_BlockNum = BlockNumber txLog, par_CreditManager = cm, par_MinAmount = 0, par_MaxAmount = 0, par_MaxLeverage = 0,
     FeeInterest = 0, FeeLiquidation = 0, LiquidationDiscount = 0, FeeLiquidationExpired = 0, LiquidationDiscountExpired = 0,
     EmergencyLiqDiscount = 0\<rparr>"

definition cf_OnLogv2 :: "cfg_env \<Rightarrow> sync_adapter \<Rightarrow> cf_log \<Rightarrow> cfg_world \<Rightarrow> cfg_world res" where
  "cf_OnLogv2 E s txLog w =
    (let addr = Address s; logged = logAddress txLog in
     rbind (cf_GetCM s) (\<lambda>cm.
     case payload txLog of
       TokenAllowedV2 tok \<Rightarrow> AddAllowedTokenV2 E (Index txLog) (TxHash txLog) addr (allowed_entry txLog cm addr tok None) w
     | TokenLiquidationThresholdUpdated tok threshold \<Rightarrow>
         AddAllowedTokenV2 E (Index txLog) (TxHash txLog) addr (allowed_entry txLog cm addr tok (Some (uint threshold))) w
     | LimitsUpdated minAmount maxAmount \<Rightarrow>
         UpdateLimits E (Index txLog) (TxHash txLog) addr
           ((event_params txLog cm)\<lparr>par_MinAmount := minAmount, par_MaxAmount := maxAmount\<rparr>) w
     | CfgFeesUpdated feeInterest feeLiq premium feeLiqExpired premiumExpired \<Rightarrow>
         UpdateFees E (Index txLog) (TxHash txLog) addr
           ((event_params txLog cm)\<lparr>FeeInterest := feeInterest, FeeLiquidation := feeLiq, LiquidationDiscount := 10000 - premium,
             FeeLiquidationExpired := feeLiqExpired, LiquidationDiscountExpired := 10000 - premiumExpired\<rparr>) w
     | CfgCreditFacadeUpgraded facade \<Rightarrow>
         dao_only E txLog logged ''CreditFacadeUpgraded'' [(''facade'', JString facade), (''creditManager'', JString cm)] w
     | AdapterForbidden adapter \<Rightarrow>
         dao_only E txLog logged ''AdapterForbidden'' [(''adapter'', JString adapter), (''creditManager'', JString cm)] w
     | PriceOracleUpgraded oracle \<Rightarrow>
         dao_only E txLog logged ''PriceOracleUpdated'' [(''newPriceOracle'', JString oracle), (''creditManager'', JString cm)] w
     | IncreaseDebtForbiddenModeChanged m \<Rightarrow>
         dao_only E txLog logged ''IncreaseDebtForbiddenModeChanged''
           [(''creditManager'', JString cm), (''increaseDebtForbiddenMode'', JInt (Int64 m))] w
     | ExpirationDateUpdated date \<Rightarrow>
         dao_only E txLog logged ''ExpirationDateUpdated'' [(''creditManager'', JString cm), (''date'', JInt (Int64 date))] w
     | MaxEnabledTokensUpdated n \<Rightarrow>
         dao_only E txLog logged ''MaxEnabledTokensUpdated'' [(''creditManager'', JString cm), (''maxEnabledTokens'', JInt (Int64 n))] w
     | LimitPerBlockUpdated limit \<Rightarrow>
         dao_only E txLog logged ''LimitPerBlockUpdated'' [(''creditManager'', JString cm), (''limitPerBlock'', JInt (Int64 limit))] w
     | AddedToUpgradeable contract \<Rightarrow>
         dao_only E txLog logged ''AddedToUpgradeable'' [(''creditManager'', JString cm), (''contract'', JString contract)] w
     | RemovedFromUpgradeable contract \<Rightarrow>
         dao_only E txLog logged ''RemovedFromUpgradeable'' [(''creditManager'', JString cm), (''contract'', JString contract)] w
     | EmergencyLiquidatorAdded liquidator \<Rightarrow>
         dao_only E txLog logged ''EmergencyLiquidatorAdded'' [(''creditManager'', JString cm), (''emergencyLiquidator'', JString liquidator)] w
     | EmergencyLiquidatorRemoved liquidator \<Rightarrow>
         dao_only E txLog logged ''EmergencyLiquidatorRemoved'' [(''creditManager'', JString cm), (''emergencyLiquidator'', JString liquidator)] w
     | NewMaxCumulativeLoss maxLoss \<Rightarrow> dao_only E txLog logged ''NewMaxCumulativeLoss'' [(''maxLoss'', JInt maxLoss)] w
     | CumulativeLossReset \<Rightarrow> dao_only E txLog logged ''CumulativeLossReset'' [] w
     | NewEmergencyLiquidationDiscount discount \<Rightarrow>
         UpdateEmergencyLiqDiscount E (Index txLog) (TxHash txLog) addr
           ((event_params txLog cm)\<lparr>EmergencyLiqDiscount := word_of_int (Int64 discount)\<rparr>) w
     | _ \<Rightarrow> Inr w))"

definition cf_OnLog :: "cfg_env \<Rightarrow> sync_adapter \<Rightarrow> cf_log \<Rightarrow> cfg_world \<Rightarrow> cfg_world res" where
  "cf_OnLog E s txLog w =
    (let addr = Address s in
     rbind (cf_GetCM s) (\<lambda>cm.
     rbind (case payload txLog of
       ContractAllowed prot adapter \<Rightarrow>
         AddAllowedProtocol E (Index txLog) (TxHash txLog) addr
           \<lparr>pr_BlockNumber = BlockNumber txLog, pr_CreditManager = cm, pr_Protocol = prot, pr_Adapter = adapter, pr_Configurator = addr\<rparr> w
     | TokenForbidden tok \<Rightarrow> DisableAllowedToken E (BlockNumber txLog) (Index txLog) (TxHash txLog) cm addr tok w
     | ContractForbidden prot \<Rightarrow> DisableProtocol E (BlockNumber txLog) (Index txLog) (TxHash txLog) cm addr prot w
     | NewFastCheckParameters chi delay \<Rightarrow>
         AddFastCheckParams E (Index txLog) (TxHash txLog) cm addr
           \<lparr>fc_BlockNum = BlockNumber txLog, fc_CreditManager = cm, ChiThreshold = chi, HFCheckInterval = delay\<rparr> w
     | TokenAllowed tok threshold \<Rightarrow>
         rbind (AddAllowedToken E (Index txLog) (TxHash txLog) addr (allowed_entry txLog cm addr tok (Some threshold)) w)
           (cfg_GetToken E tok)
     | PriceOracleUpdated oracle \<Rightarrow>
         dao_only E txLog addr ''PriceOracleUpdated'' [(''newPriceOracle'', JString oracle), (''creditManager'', JString cm)] w
     | TransferPluginAllowed plugin state \<Rightarrow>
         dao_only E txLog addr ''TransferPluginAllowed''
           [(''plugin'', JString plugin), (''state'', JBool state), (''creditManager'', JString cm)] w
     | _ \<Rightarrow> Inr w)
     (cf_OnLogv2 E s txLog)))"

end
