(* ===== verification/Refinement.thy ===== *)
theory Refinement
  imports Go_Prelude
begin

text \<open>
  Contracts of components that take events: an event handler that may stop the process refines a
  specification on a view of the state, step by step, as long as an invariant holds.  The second contract adds
  the order of blocks: the invariant may speak about the last block seen.
\<close>

locale event_refinement =
  fixes step :: "'e \<Rightarrow> 'w \<Rightarrow> 'w res" and allowed :: "'e \<Rightarrow> bool"
    and inv :: "'w \<Rightarrow> bool" and view :: "'w \<Rightarrow> 'v" and spec :: "'e \<Rightarrow> 'v \<Rightarrow> 'v"
  assumes step_inv: "\<lbrakk>inv w; allowed e; step e w = Inr w'\<rbrakk> \<Longrightarrow> inv w'"
    and step_view: "\<lbrakk>inv w; allowed e; step e w = Inr w'\<rbrakk> \<Longrightarrow> view w' = spec e (view w)"
begin

lemma run_refines:
  assumes "rfold step es w = Inr w'" and "inv w" and "\<forall>e \<in> set es. allowed e"
  shows "inv w' \<and> view w' = fold spec es (view w)"
  using assms
proof (induction es arbitrary: w)
  case (Cons e es)
  from Cons.prems(1) obtain w1 where w1: "step e w = Inr w1" "rfold step es w1 = Inr w'" by (auto elim: rbind_InrE)
  have "inv w1" "view w1 = spec e (view w)" using step_inv step_view w1(1) Cons.prems by auto
  then show ?case using Cons.IH[OF w1(2)] Cons.prems by simp
qed simp

end

locale block_refinement =
  fixes step :: "'e \<Rightarrow> 'w \<Rightarrow> 'w res" and block_of :: "'e \<Rightarrow> int" and allowed :: "'e \<Rightarrow> bool"
    and binv :: "int \<Rightarrow> 'w \<Rightarrow> bool" and view :: "'w \<Rightarrow> 'v" and spec :: "'e \<Rightarrow> 'v \<Rightarrow> 'v"
  assumes bstep_inv: "\<lbrakk>binv b w; b \<le> block_of e; allowed e; step e w = Inr w'\<rbrakk> \<Longrightarrow> binv (block_of e) w'"
    and bstep_view: "\<lbrakk>binv b w; b \<le> block_of e; allowed e; step e w = Inr w'\<rbrakk> \<Longrightarrow> view w' = spec e (view w)"
begin

lemma block_run_refines:
  assumes "rfold step es w = Inr w'" and "binv b w" and "\<forall>e \<in> set es. allowed e"
    and "sorted (b # map block_of es)"
  shows "\<exists>b'. binv b' w' \<and> view w' = fold spec es (view w)"
  using assms
proof (induction es arbitrary: w b)
  case (Cons e es)
  from Cons.prems(1) obtain w1 where w1: "step e w = Inr w1" "rfold step es w1 = Inr w'" by (auto elim: rbind_InrE)
  have "binv (block_of e) w1" "view w1 = spec e (view w)"
    using bstep_inv bstep_view w1(1) Cons.prems by auto
  then show ?case using Cons.IH[OF w1(2)] Cons.prems by auto
qed auto

end

end
