(* ===== verification/Credit_Filter_Correct.thy ===== *)
theory Credit_Filter_Correct
  imports Credit_Filter Refinement
begin

text \<open>
  Correctness of the configuration: the allowed tokens of a manager over time, and the parameter objects that
  blocks share.
\<close>

section \<open>What the operations change\<close>

definition tokens_view :: "cfg_world \<Rightarrow> allowed_obj list \<times> (address \<times> address \<rightharpoonup> nat)" where
  "tokens_view w = (at_heap w, allowedTokens w)"

definition params_view :: "cfg_world \<Rightarrow> cfg_parameters list \<times> (address \<rightharpoonup> nat)" where
  "params_view w = (par_heap w, cmParams w)"

lemma cfg_dao_keeps: "cfg_dao E b l t c ty args w = Inr w' \<Longrightarrow> tokens_view w' = tokens_view w \<and> params_view w' = params_view w"
  by (auto simp: cfg_dao_def tokens_view_def params_view_def elim!: rbind_InrE)

lemma cfg_row_keeps: "cfg_row E b x w = Inr w' \<Longrightarrow> tokens_view w' = tokens_view w \<and> params_view w' = params_view w"
  by (auto simp: cfg_row_def tokens_view_def params_view_def elim!: rbind_InrE)

lemma cfg_GetToken_keeps: "cfg_GetToken E a w = Inr w' \<Longrightarrow> tokens_view w' = tokens_view w \<and> params_view w' = params_view w"
  by (auto simp: cfg_GetToken_def tokens_view_def params_view_def elim!: rbind_InrE split: prod.splits)

lemma write_params_tokens: "write_params E p f w = Inr w' \<Longrightarrow> tokens_view w' = tokens_view w"
  unfolding write_params_def Let_def by (auto dest!: cfg_row_keeps simp: tokens_view_def split: prod.splits)

lemma paramsDAOV2_keeps: "paramsDAOV2 E l t c p fs ty w = Inr w' \<Longrightarrow> tokens_view w' = tokens_view w \<and> params_view w' = params_view w"
  unfolding paramsDAOV2_def Let_def by (elim rbind_InrE) (rule cfg_dao_keeps)

lemma param_updates_tokens:
  "UpdateLimits E l t c p w = Inr w' \<Longrightarrow> tokens_view w' = tokens_view w"
  "UpdateEmergencyLiqDiscount E l t c p w = Inr w' \<Longrightarrow> tokens_view w' = tokens_view w"
  "UpdateFees E l t c p w = Inr w' \<Longrightarrow> tokens_view w' = tokens_view w"
  unfolding UpdateLimits_def UpdateEmergencyLiqDiscount_def UpdateFees_def
  by (elim rbind_InrE, auto dest!: paramsDAOV2_keeps write_params_tokens)+

lemma other_updates_tokens:
  "AddAllowedProtocol E l t c pr w = Inr w' \<Longrightarrow> tokens_view w' = tokens_view w"
  "DisableProtocol E b l t cm c p w = Inr w' \<Longrightarrow> tokens_view w' = tokens_view w"
  "AddFastCheckParams E l t cm c fc w = Inr w' \<Longrightarrow> tokens_view w' = tokens_view w"
  "dao_only E lg c ty args w = Inr w' \<Longrightarrow> tokens_view w' = tokens_view w"
  unfolding AddAllowedProtocol_def DisableProtocol_def AddFastCheckParams_def dao_only_def Let_def
  by (auto dest!: cfg_dao_keeps cfg_row_keeps simp: tokens_view_def elim!: rbind_InrE)

section \<open>Allowed tokens\<close>

abbreviation alt_key :: "allowed_obj \<Rightarrow> address \<times> address" where
  "alt_key x \<equiv> (alt_CreditManager x, alt_Token x)"

text \<open>The entry a manager and token point to ends at a block, unless it ended before.\<close>

definition end_previous :: "int \<Rightarrow> nat option \<Rightarrow> allowed_obj list \<Rightarrow> allowed_obj list" where
  "end_previous b p heap =
    (case p of None \<Rightarrow> heap | Some q \<Rightarrow> if DisableBlock (heap ! q) = 0 then heap[q := (heap ! q)\<lparr>DisableBlock := b\<rparr>] else heap)"

lemma nth_update_read: "j < length xs \<Longrightarrow> xs[i := x] ! j = (if i = j then x else xs ! j)"
  by (cases "i = j") simp_all

lemma end_previous_props [simp]: "length (end_previous b p heap) = length heap"
  "i < length heap \<Longrightarrow> alt_CreditManager (end_previous b p heap ! i) = alt_CreditManager (heap ! i)"
  "i < length heap \<Longrightarrow> alt_Token (end_previous b p heap ! i) = alt_Token (heap ! i)"
  "i < length heap \<Longrightarrow> alt_BlockNumber (end_previous b p heap ! i) = alt_BlockNumber (heap ! i)"
  "i < length heap \<Longrightarrow> alt_Threshold (end_previous b p heap ! i) = alt_Threshold (heap ! i)"
  by (auto simp: end_previous_def nth_update_read split: option.splits)

lemma DisableBlock_end_previous:
  "i < length heap \<Longrightarrow> DisableBlock (end_previous b p heap ! i) = (if p = Some i \<and> DisableBlock (heap ! i) = 0 then b else DisableBlock (heap ! i))"
  by (auto simp: end_previous_def nth_update_read split: option.splits)

lemma AddAllowedTokenV2_effect:
  assumes run: "AddAllowedTokenV2 E l t c a w = Inr w'"
    and ptr: "\<And>q. allowedTokens w (alt_key a) = Some q \<Longrightarrow> q < length (at_heap w)"
  shows "\<exists>prev. getPreviousLiqThreshold (alt_CreditManager a) (alt_Token a) w = Some prev \<and>
    (if Int64 prev = 0 \<and> alt_Threshold a = None then tokens_view w' = tokens_view w
     else at_heap w' = end_previous (alt_BlockNumber a) (allowedTokens w (alt_key a)) (at_heap w) @
         [a\<lparr>alt_Threshold := (case alt_Threshold a of None \<Rightarrow> Some prev | Some x \<Rightarrow> Some x)\<rparr>] \<and>
       allowedTokens w' = (allowedTokens w)(alt_key a \<mapsto> length (at_heap w)))"
proof -
  let ?cm = "alt_CreditManager a" and ?tok = "alt_Token a"
  obtain prev where prev: "getPreviousLiqThreshold ?cm ?tok w = Some prev"
    using run unfolding AddAllowedTokenV2_def Let_def by (auto elim!: rbind_InrE)
  show ?thesis
  proof (cases "Int64 prev = 0 \<and> alt_Threshold a = None")
    case True
    then have "tokens_view w' = tokens_view w"
      using run prev unfolding AddAllowedTokenV2_def Let_def by (auto dest!: cfg_dao_keeps)
    then show ?thesis using prev True by auto
  next
    case False
    define a' where "a' = a\<lparr>alt_Threshold := (case alt_Threshold a of None \<Rightarrow> Some prev | Some x \<Rightarrow> Some x)\<rparr>"
    have keys [simp]: "alt_CreditManager a' = ?cm" "alt_Token a' = ?tok" "alt_BlockNumber a' = alt_BlockNumber a" by (simp_all add: a'_def)
    obtain n w1 where w1: "addAllowedToken E a' w = Inr (n, w1)"
      and rest: "\<exists>ty args. rbind (if isAllowedTokenDisabled ?cm ?tok w1 then Inr w1
          else disable_previous E (alt_BlockNumber a) ?cm ?tok w1) (\<lambda>w2. cfg_dao E (alt_BlockNumber a) l t c ty args (addAllowedTokenState n w2)) = Inr w'"
    proof (cases "addAllowedToken E a' w")
      case (Inl e)
      then show ?thesis using run prev False by (simp add: AddAllowedTokenV2_def Let_def a'_def split: if_splits)
    next
      case (Inr nw)
      obtain n w1 where nw: "nw = (n, w1)" by (cases nw)
      have "\<exists>ty args. rbind (if isAllowedTokenDisabled ?cm ?tok w1 then Inr w1
          else disable_previous E (alt_BlockNumber a) ?cm ?tok w1) (\<lambda>w2. cfg_dao E (alt_BlockNumber a) l t c ty args (addAllowedTokenState n w2)) = Inr w'"
        using run False unfolding AddAllowedTokenV2_def Let_def prev a'_def[symmetric] Inr nw deref_simps rbind_simps if_not_P[OF False] prod.case
        by blast
      then show ?thesis using that[of n w1] Inr nw by simp
    qed
    have v1: "n = length (at_heap w)" "at_heap w1 = at_heap w @ [a']" "allowedTokens w1 = allowedTokens w"
      using w1 unfolding addAllowedToken_def Let_def
      by (auto dest!: cfg_GetToken_keeps cfg_row_keeps simp: tokens_view_def elim!: rbind_InrE)
    obtain w2 where w2: "(if isAllowedTokenDisabled ?cm ?tok w1 then Inr w1 else disable_previous E (alt_BlockNumber a) ?cm ?tok w1) = Inr w2"
      and v': "tokens_view w' = tokens_view (addAllowedTokenState n w2)"
      using rest by (auto dest: cfg_dao_keeps elim!: rbind_InrE)
    have v2: "at_heap w2 = end_previous (alt_BlockNumber a) (allowedTokens w (alt_key a)) (at_heap w) @ [a']" "allowedTokens w2 = allowedTokens w"
      using w2 ptr v1(2,3)
      by (auto simp: isAllowedTokenDisabled_def disable_previous_def end_previous_def nth_append list_update_append
          elim!: rbind_InrE split: option.splits if_splits)
    have "at_heap w' = at_heap w2" "allowedTokens w' = (allowedTokens w)(alt_key a \<mapsto> length (at_heap w))"
      using v' v1(1) v2 by (simp_all add: tokens_view_def addAllowedTokenState_def Let_def nth_append)
    then show ?thesis using prev False v2(1) by (auto simp: a'_def)
  qed
qed

text \<open>
  The entries of one manager and token follow each other: every entry but the last has ended, not later than the
  next begins; the current state points to the last one.
\<close>

definition timeline :: "int \<Rightarrow> allowed_obj list \<times> (address \<times> address \<rightharpoonup> nat) \<Rightarrow> bool" where
  "timeline b v \<longleftrightarrow> (case v of (heap, m) \<Rightarrow>
    (\<forall>k n. m k = Some n \<longrightarrow> n < length heap \<and> alt_key (heap ! n) = k \<and> alt_Threshold (heap ! n) \<noteq> None) \<and>
    (\<forall>i < length heap. 0 < alt_BlockNumber (heap ! i) \<and> alt_BlockNumber (heap ! i) \<le> b \<and>
       (DisableBlock (heap ! i) = 0 \<or> alt_BlockNumber (heap ! i) \<le> DisableBlock (heap ! i) \<and> DisableBlock (heap ! i) \<le> b)) \<and>
    (\<forall>i j. i < j \<and> j < length heap \<and> alt_key (heap ! i) = alt_key (heap ! j) \<longrightarrow>
       DisableBlock (heap ! i) \<noteq> 0 \<and> DisableBlock (heap ! i) \<le> alt_BlockNumber (heap ! j)) \<and>
    (\<forall>i < length heap. \<exists>n. m (alt_key (heap ! i)) = Some n \<and> i \<le> n))"

lemma timelineD:
  assumes "timeline b (heap, m)"
  shows "m k = Some n \<Longrightarrow> n < length heap \<and> alt_key (heap ! n) = k \<and> alt_Threshold (heap ! n) \<noteq> None"
    and "i < length heap \<Longrightarrow> 0 < alt_BlockNumber (heap ! i) \<and> alt_BlockNumber (heap ! i) \<le> b \<and>
       (DisableBlock (heap ! i) = 0 \<or> alt_BlockNumber (heap ! i) \<le> DisableBlock (heap ! i) \<and> DisableBlock (heap ! i) \<le> b)"
    and "i < j \<Longrightarrow> j < length heap \<Longrightarrow> alt_key (heap ! i) = alt_key (heap ! j) \<Longrightarrow>
       DisableBlock (heap ! i) \<noteq> 0 \<and> DisableBlock (heap ! i) \<le> alt_BlockNumber (heap ! j)"
    and "i < length heap \<Longrightarrow> \<exists>n. m (alt_key (heap ! i)) = Some n \<and> i \<le> n"
  using assms unfolding timeline_def by (simp_all only: prod.case) blast+

lemma timeline_later: "timeline b v \<Longrightarrow> b \<le> b' \<Longrightarrow> timeline b' v"
  by (cases v) (fastforce simp: timeline_def)

lemma timeline_append:
  assumes tl: "timeline b (heap, m)" and a: "b \<le> alt_BlockNumber a" "0 < alt_BlockNumber a" "DisableBlock a = 0" "alt_Threshold a \<noteq> None"
  shows "timeline (alt_BlockNumber a) (end_previous (alt_BlockNumber a) (m (alt_key a)) heap @ [a], m(alt_key a \<mapsto> length heap))"
    (is "timeline ?B (?heap @ [a], ?m)")
proof -
  note D = timelineD[OF tl]
  have dis: "DisableBlock (?heap ! i) = (if m (alt_key a) = Some i \<and> DisableBlock (heap ! i) = 0 then ?B else DisableBlock (heap ! i))"
    if "i < length heap" for i using that by (rule DisableBlock_end_previous)
  have t1: "n < length (?heap @ [a]) \<and> alt_key ((?heap @ [a]) ! n) = k \<and> alt_Threshold ((?heap @ [a]) ! n) \<noteq> None" if "?m k = Some n" for k n
    using that D(1) a(4) by (cases "k = alt_key a") (fastforce simp: nth_append)+
  have t2: "0 < alt_BlockNumber ((?heap @ [a]) ! i) \<and> alt_BlockNumber ((?heap @ [a]) ! i) \<le> ?B \<and>
      (DisableBlock ((?heap @ [a]) ! i) = 0 \<or> alt_BlockNumber ((?heap @ [a]) ! i) \<le> DisableBlock ((?heap @ [a]) ! i) \<and> DisableBlock ((?heap @ [a]) ! i) \<le> ?B)"
    if "i < length (?heap @ [a])" for i
  proof (cases "i < length heap")
    case True
    then show ?thesis using D(2)[OF True] a(1,2) by (auto simp: nth_append dis)
  next
    case False
    then have "i = length heap" using that by simp
    then show ?thesis using a(2,3) by (simp add: nth_append)
  qed
  have last: "DisableBlock (?heap ! i) \<noteq> 0 \<and> DisableBlock (?heap ! i) \<le> ?B" if i: "i < length heap" "alt_key (heap ! i) = alt_key a" for i
  proof -
    obtain n where n: "m (alt_key a) = Some n" "i \<le> n" using D(4)[OF i(1)] i(2) by auto
    have "n < length heap" "alt_key (heap ! n) = alt_key a" using D(1)[OF n(1)] by auto
    then have "i = n \<or> DisableBlock (heap ! i) \<noteq> 0" using D(3)[of i n] n(2) i by fastforce
    then show ?thesis using D(2)[OF i(1)] a(1,2) n(1) i(1) by (auto simp: DisableBlock_end_previous)
  qed
  have t3: "DisableBlock ((?heap @ [a]) ! i) \<noteq> 0 \<and> DisableBlock ((?heap @ [a]) ! i) \<le> alt_BlockNumber ((?heap @ [a]) ! j)"
    if "i < j \<and> j < length (?heap @ [a]) \<and> alt_key ((?heap @ [a]) ! i) = alt_key ((?heap @ [a]) ! j)" for i j
  proof (cases "j < length heap")
    case True
    have "i < length heap" using True that by simp
    then show ?thesis using D(3)[of i j] that True by (auto simp: nth_append dis)
  next
    case False
    then have "j = length heap" using that by simp
    then show ?thesis using last[of i] that by (auto simp: nth_append)
  qed
  have t4: "\<exists>n. ?m (alt_key ((?heap @ [a]) ! i)) = Some n \<and> i \<le> n" if "i < length (?heap @ [a])" for i
  proof (cases "i < length heap")
    case True
    then show ?thesis using D(4)[OF True] by (auto simp: nth_append)
  next
    case False
    then have "i = length heap" using that by simp
    then show ?thesis by (simp add: nth_append)
  qed
  show ?thesis unfolding timeline_def prod.case using t1 t2 t3 t4 by blast
qed

lemma timeline_disable:
  assumes tl: "timeline b (heap, m)" and p: "m k = Some p" and B: "b \<le> B" "0 < B"
  shows "timeline B (heap[p := (heap ! p)\<lparr>DisableBlock := B\<rparr>], m)" (is "timeline B (?heap, m)")
proof -
  note D = timelineD[OF tl]
  have rd: "?heap ! i = (if p = i then (heap ! p)\<lparr>DisableBlock := B\<rparr> else heap ! i)" if "i < length heap" for i
    using that by (rule nth_update_read)
  have no_later: "\<not> (p < j \<and> j < length heap \<and> alt_key (heap ! p) = alt_key (heap ! j))" for j
  proof
    assume j: "p < j \<and> j < length heap \<and> alt_key (heap ! p) = alt_key (heap ! j)"
    then have "m (alt_key (heap ! j)) = Some p" using D(1)[OF p] p by auto
    then show False using D(4)[of j] j by auto
  qed
  have t3: "DisableBlock (?heap ! i) \<noteq> 0 \<and> DisableBlock (?heap ! i) \<le> alt_BlockNumber (?heap ! j)"
    if "i < j \<and> j < length ?heap \<and> alt_key (?heap ! i) = alt_key (?heap ! j)" for i j
    using that D(3)[of i j] no_later[of j] by (auto simp: rd split: if_splits)
  show ?thesis unfolding timeline_def prod.case
  proof (intro conjI allI impI)
    fix i j assume "i < j \<and> j < length ?heap \<and> alt_key (?heap ! i) = alt_key (?heap ! j)"
    then show "DisableBlock (?heap ! i) \<noteq> 0" "DisableBlock (?heap ! i) \<le> alt_BlockNumber (?heap ! j)" using t3 by blast+
  next
    fix i assume i: "i < length ?heap"
    show "0 < alt_BlockNumber (?heap ! i)" "alt_BlockNumber (?heap ! i) \<le> B"
      "DisableBlock (?heap ! i) = 0 \<or> alt_BlockNumber (?heap ! i) \<le> DisableBlock (?heap ! i) \<and> DisableBlock (?heap ! i) \<le> B"
      using D(2)[of i] B i by (auto simp: rd)
    show "\<exists>n. m (alt_key (?heap ! i)) = Some n \<and> i \<le> n" using D(4)[of i] i by (auto simp: rd)
  next
    fix k n assume "m k = Some n"
    then show "n < length ?heap" "alt_key (?heap ! n) = k" "alt_Threshold (?heap ! n) \<noteq> None" using D(1)[of k n] by (auto simp: rd)
  qed
qed

section \<open>The configurator\<close>

text \<open>
  What the configurators promise: the threshold of a token and whether it is allowed.  An allowing
  event without a threshold on record changes nothing; setting a threshold allows the token.
\<close>

definition token_status :: "allowed_obj list \<times> (address \<times> address \<rightharpoonup> nat) \<Rightarrow> address \<times> address \<rightharpoonup> int \<times> bool" where
  "token_status v k = (case v of (heap, m) \<Rightarrow>
    map_option (\<lambda>n. (the (alt_Threshold (heap ! n)), DisableBlock (heap ! n) = 0)) (m k))"

definition token_spec :: "sync_adapter \<times> cf_log \<Rightarrow> (address \<times> address \<rightharpoonup> int \<times> bool) \<Rightarrow> (address \<times> address \<rightharpoonup> int \<times> bool)" where
  "token_spec ev st = (case ev of (s, txLog) \<Rightarrow> (case cf_GetCM s of Inl _ \<Rightarrow> st | Inr cm \<Rightarrow>
     (case payload txLog of
        TokenAllowedV2 tok \<Rightarrow> (case st (cm, tok) of
            Some (x, _) \<Rightarrow> if Int64 x = 0 then st else st((cm, tok) \<mapsto> (x, True))
          | None \<Rightarrow> st)
      | TokenLiquidationThresholdUpdated tok x \<Rightarrow> st((cm, tok) \<mapsto> (uint x, True))
      | TokenForbidden tok \<Rightarrow> (case st (cm, tok) of Some (x, _) \<Rightarrow> st((cm, tok) \<mapsto> (x, False)) | None \<Rightarrow> st)
      | _ \<Rightarrow> st)))"

definition v2_event :: "sync_adapter \<times> cf_log \<Rightarrow> bool" where
  "v2_event ev \<longleftrightarrow> 0 < BlockNumber (snd ev) \<and> (case payload (snd ev) of TokenAllowed _ _ \<Rightarrow> False | _ \<Rightarrow> True)"

lemma token_status_append:
  assumes "timeline b (heap, m)" and "0 < alt_BlockNumber a" and "DisableBlock a = 0"
  shows "token_status (end_previous B (m (alt_key a)) heap @ [a], m(alt_key a \<mapsto> length heap)) =
    (token_status (heap, m))(alt_key a \<mapsto> (the (alt_Threshold a), True))"
proof
  fix k
  show "token_status (end_previous B (m (alt_key a)) heap @ [a], m(alt_key a \<mapsto> length heap)) k =
    ((token_status (heap, m))(alt_key a \<mapsto> (the (alt_Threshold a), True))) k"
  proof (cases "k = alt_key a")
    case True
    then show ?thesis using assms(3) by (simp add: token_status_def nth_append)
  next
    case False
    have "m k = Some n \<Longrightarrow> n < length heap \<and> m (alt_key a) \<noteq> Some n" for n
      using timelineD(1)[OF assms(1), of k n] timelineD(1)[OF assms(1), of "alt_key a" n] False by auto
    then show ?thesis using False by (cases "m k") (auto simp: token_status_def nth_append DisableBlock_end_previous)
  qed
qed

lemma token_status_disable:
  assumes "timeline b (heap, m)" and "m k = Some p" and "B \<noteq> 0"
  shows "token_status (heap[p := (heap ! p)\<lparr>DisableBlock := B\<rparr>], m) =
    (token_status (heap, m))(k \<mapsto> (the (alt_Threshold (heap ! p)), False))"
proof
  fix k'
  have "m k' = Some n \<Longrightarrow> n < length heap \<and> (n = p \<longleftrightarrow> k' = k)" for n
    using timelineD(1)[OF assms(1), of k' n] timelineD(1)[OF assms(1) assms(2)] assms(2) by (metis option.inject)
  then show "token_status (heap[p := (heap ! p)\<lparr>DisableBlock := B\<rparr>], m) k' =
    ((token_status (heap, m))(k \<mapsto> (the (alt_Threshold (heap ! p)), False))) k'"
    using assms(2,3) by (cases "m k'") (auto simp: token_status_def nth_update_read)
qed

lemma AddAllowedTokenV2_step:
  assumes run: "AddAllowedTokenV2 E l t c a w = Inr w'" and tl: "timeline b (tokens_view w)"
    and a: "b \<le> alt_BlockNumber a" "0 < alt_BlockNumber a" "DisableBlock a = 0"
  shows "timeline (alt_BlockNumber a) (tokens_view w') \<and> token_status (tokens_view w') =
    (case alt_Threshold a of
       Some x \<Rightarrow> (token_status (tokens_view w))(alt_key a \<mapsto> (x, True))
     | None \<Rightarrow> (case token_status (tokens_view w) (alt_key a) of
         None \<Rightarrow> token_status (tokens_view w)
       | Some (x, _) \<Rightarrow> if Int64 x = 0 then token_status (tokens_view w) else (token_status (tokens_view w))(alt_key a \<mapsto> (x, True))))"
proof -
  let ?h = "at_heap w" and ?m = "allowedTokens w"
  have tl': "timeline b (?h, ?m)" using tl by (simp add: tokens_view_def)
  obtain prev where prev: "getPreviousLiqThreshold (alt_CreditManager a) (alt_Token a) w = Some prev"
    and eff: "if Int64 prev = 0 \<and> alt_Threshold a = None then tokens_view w' = tokens_view w
     else at_heap w' = end_previous (alt_BlockNumber a) (?m (alt_key a)) ?h @
         [a\<lparr>alt_Threshold := (case alt_Threshold a of None \<Rightarrow> Some prev | Some x \<Rightarrow> Some x)\<rparr>] \<and>
       allowedTokens w' = ?m(alt_key a \<mapsto> length ?h)"
    using AddAllowedTokenV2_effect[OF run] timelineD(1)[OF tl'] by blast
  have st: "token_status (tokens_view w) (alt_key a) = (if ?m (alt_key a) = None then None else
      Some (prev, DisableBlock (?h ! the (?m (alt_key a))) = 0))" "?m (alt_key a) = None \<Longrightarrow> prev = 0"
    using prev by (auto simp: token_status_def tokens_view_def getPreviousLiqThreshold_def split: option.splits)
  show ?thesis
  proof (cases "Int64 prev = 0 \<and> alt_Threshold a = None")
    case True
    then show ?thesis using eff timeline_later[OF tl a(1)] by (simp add: st split: option.splits)
  next
    case False
    define a' where "a' = a\<lparr>alt_Threshold := (case alt_Threshold a of None \<Rightarrow> Some prev | Some x \<Rightarrow> Some x)\<rparr>"
    have a': "alt_BlockNumber a' = alt_BlockNumber a" "alt_key a' = alt_key a" "DisableBlock a' = 0" "alt_Threshold a' \<noteq> None"
      "the (alt_Threshold a') = (case alt_Threshold a of None \<Rightarrow> prev | Some x \<Rightarrow> x)"
      using a by (auto simp: a'_def split: option.splits)
    have v': "tokens_view w' = (end_previous (alt_BlockNumber a') (?m (alt_key a')) ?h @ [a'], ?m(alt_key a' \<mapsto> length ?h))"
      using eff False by (simp add: tokens_view_def a'_def)
    have "?m (alt_key a) = None \<Longrightarrow> alt_Threshold a \<noteq> None" using False st(2) by (auto simp: Int64_def)
    then show ?thesis
      using timeline_append[OF tl', of a'] token_status_append[OF tl', of a' "alt_BlockNumber a'"] a a' False v' st(1)
      by (auto simp: tokens_view_def split: option.splits)
  qed
qed

lemma DisableAllowedToken_step:
  assumes run: "DisableAllowedToken E blk l t cm c tok w = Inr w'" and tl: "timeline b (tokens_view w)"
    and B: "b \<le> blk" "0 < blk"
  shows "timeline blk (tokens_view w') \<and> token_status (tokens_view w') =
    (case token_status (tokens_view w) (cm, tok) of None \<Rightarrow> token_status (tokens_view w)
     | Some (x, _) \<Rightarrow> (token_status (tokens_view w))((cm, tok) \<mapsto> (x, False)))"
proof -
  have tl': "timeline b (at_heap w, allowedTokens w)" using tl by (simp add: tokens_view_def)
  obtain p where p: "allowedTokens w (cm, tok) = Some p"
    and v': "tokens_view w' = ((at_heap w)[p := (at_heap w ! p)\<lparr>DisableBlock := blk\<rparr>], allowedTokens w)"
    using run unfolding DisableAllowedToken_def by (auto dest!: cfg_dao_keeps simp: tokens_view_def elim!: rbind_InrE)
  show ?thesis using timeline_disable[OF tl' p B] token_status_disable[OF tl' p, of blk] B(2) p v'
    by (simp add: tokens_view_def token_status_def)
qed

text \<open>One log of a configurator.\<close>

lemma cf_step:
  assumes run: "cf_OnLog E s lg w = Inr w'" and tl: "timeline b (tokens_view w)" and ev: "v2_event (s, lg)" and b: "b \<le> BlockNumber lg"
  shows "timeline (BlockNumber lg) (tokens_view w') \<and> token_status (tokens_view w') = token_spec (s, lg) (token_status (tokens_view w))"
proof -
  obtain cm where cm: "cf_GetCM s = Inr cm" using run by (cases "cf_GetCM s") (simp_all add: cf_OnLog_def)
  note tl1 = timeline_later[OF tl b]
  have pos: "0 < BlockNumber lg" using ev by (simp add: v2_event_def)
  show ?thesis
  proof (cases "payload lg")
    case (TokenForbidden tok)
    then show ?thesis using run cm DisableAllowedToken_step[OF _ tl b pos]
      by (auto simp: cf_OnLog_def cf_OnLogv2_def token_spec_def Let_def elim!: rbind_InrE)
  next
    case (TokenAllowedV2 tok)
    then have "AddAllowedTokenV2 E (Index lg) (TxHash lg) (Address s) (allowed_entry lg cm (Address s) tok None) w = Inr w'"
      using run cm by (simp add: cf_OnLog_def cf_OnLogv2_def Let_def)
    from AddAllowedTokenV2_step[OF this tl] show ?thesis using TokenAllowedV2 cm pos b
      by (simp add: allowed_entry_def token_spec_def split: option.split)
  next
    case (TokenLiquidationThresholdUpdated tok x)
    then have "AddAllowedTokenV2 E (Index lg) (TxHash lg) (Address s) (allowed_entry lg cm (Address s) tok (Some (uint x))) w = Inr w'"
      using run cm by (simp add: cf_OnLog_def cf_OnLogv2_def Let_def)
    from AddAllowedTokenV2_step[OF this tl] show ?thesis using TokenLiquidationThresholdUpdated cm pos b
      by (simp add: allowed_entry_def token_spec_def)
  qed (use run cm tl1 ev in \<open>auto simp: cf_OnLog_def cf_OnLogv2_def token_spec_def v2_event_def Let_def elim!: rbind_InrE
        dest!: other_updates_tokens param_updates_tokens\<close>)
qed

interpretation configurator: block_refinement
  "\<lambda>(s, lg). cf_OnLog E s lg" "\<lambda>(s, lg). BlockNumber lg" v2_event "\<lambda>b w. timeline b (tokens_view w)"
  "\<lambda>w. token_status (tokens_view w)" token_spec for E
  by unfold_locales (auto dest: cf_step)

text \<open>The entries of the table for a manager and a token that are in force at a block.\<close>

definition in_force :: "cfg_world \<Rightarrow> address \<times> address \<Rightarrow> int \<Rightarrow> nat set" where
  "in_force w k b = {i. i < length (at_heap w) \<and> alt_key (at_heap w ! i) = k \<and> alt_BlockNumber (at_heap w ! i) \<le> b \<and>
     (DisableBlock (at_heap w ! i) = 0 \<or> b < DisableBlock (at_heap w ! i))}"

lemma in_force_unique:
  assumes "timeline b (tokens_view w)" and "i \<in> in_force w k x" and "j \<in> in_force w k x"
  shows "i = j"
proof (rule ccontr)
  assume "i \<noteq> j"
  then obtain p q where pq: "p < q" "p \<in> in_force w k x" "q \<in> in_force w k x" using assms(2,3) by (metis linorder_neqE_nat)
  have "timeline b (at_heap w, allowedTokens w)" using assms(1) by (simp add: tokens_view_def)
  from timelineD(3)[OF this pq(1)] pq show False by (auto simp: in_force_def)
qed

text \<open>
  C21: the configurators keep the allowed tokens of every manager as the events say.  From an empty
  repository, for logs of any configurators of version 2 in the order of blocks, the current threshold of every
  token and whether it is allowed are those of the specification, and the rows written for a token never
  overlap: at any block at most one entry of a manager and token is in force, also for the past.
\<close>

theorem configurator_tokens:
  assumes "rfold (\<lambda>(s, lg). cf_OnLog E s lg) logs w = Inr w'" and "at_heap w = []" and "allowedTokens w = Map.empty"
    and "\<forall>ev \<in> set logs. v2_event ev" and "sorted (map (\<lambda>(s, lg). BlockNumber lg) logs)"
  shows "token_status (tokens_view w') = fold token_spec logs Map.empty \<and>
    (\<forall>k b i j. i \<in> in_force w' k b \<longrightarrow> j \<in> in_force w' k b \<longrightarrow> i = j)"
proof -
  have "timeline 0 (tokens_view w)" using assms(2,3) by (simp add: tokens_view_def timeline_def)
  moreover have "sorted (0 # map (\<lambda>(s, lg). BlockNumber lg) logs)"
    using assms(4,5) by (fastforce simp: v2_event_def)
  ultimately obtain b' where b': "timeline b' (tokens_view w')"
    "token_status (tokens_view w') = fold token_spec logs (token_status (tokens_view w))"
    using configurator.block_run_refines[OF assms(1)] assms(4) by blast
  have "token_status (tokens_view w) = Map.empty" using assms(3) by (auto simp: token_status_def tokens_view_def)
  then show ?thesis using b' in_force_unique by simp
qed

section \<open>Shared parameter rows\<close>

lemma write_params_effect:
  assumes "write_params E params f w = Inr w'" and "cmParams w (par_CreditManager params) = Some p" and "p < length (par_heap w)"
  shows "par_heap w' = (par_heap w)[p := (f (par_heap w ! p))\<lparr>par_BlockNum := par_BlockNum params, par_CreditManager := par_CreditManager params\<rparr>]"
    "cmParams w' = (cmParams w)(par_CreditManager params \<mapsto> p)"
    "mset (all_rows (cw_blocks w')) = add_mset (ParamsRow p) (mset (all_rows (cw_blocks w)))"
  using assms(1) unfolding write_params_def Let_def assms(2)
  by (auto simp: cfg_row_def add_row_effect elim!: rbind_InrE)

text \<open>
  Two updates of the parameters of a manager share one row object.  When the limits are updated in
  one block and the fees in a later block before the rows are saved, the object added to the first
  block is the object added to the second: what the first block holds carries the number of the second block and its
  fees, and the values at the first block are gone.
\<close>

theorem parameter_rows_shared:
  assumes "cmParams w cm = Some p" and "p < length (par_heap w)"
    and "par_CreditManager lms = cm" and "par_CreditManager fees = cm"
    and "UpdateLimits E l1 t1 c lms w = Inr w1" and "UpdateFees E l2 t2 c fees w1 = Inr w2"
  shows "par_heap w1 ! p = (par_heap w ! p)\<lparr>par_MinAmount := par_MinAmount lms, par_MaxAmount := par_MaxAmount lms,
       par_BlockNum := par_BlockNum lms, par_CreditManager := cm\<rparr> \<and>
    count (mset (all_rows (cw_blocks w2))) (ParamsRow p) = count (mset (all_rows (cw_blocks w))) (ParamsRow p) + 2 \<and>
    par_BlockNum (par_heap w2 ! p) = par_BlockNum fees \<and> FeeInterest (par_heap w2 ! p) = FeeInterest fees \<and>
    par_MinAmount (par_heap w2 ! p) = par_MinAmount lms \<and> length (par_heap w2) = length (par_heap w)"
proof -
  have dao_rows: "count (mset (all_rows (cw_blocks y))) (ParamsRow p) = count (mset (all_rows (cw_blocks x))) (ParamsRow p)"
    if "paramsDAOV2 E l t c q fs ty x = Inr y" for l t q fs ty x y
    using that by (auto simp: paramsDAOV2_def cfg_dao_def AddDAOOperation_def Let_def add_row_effect(1) elim!: rbind_InrE)
  obtain v1 where v1: "paramsDAOV2 E l1 t1 c lms [''minAmount'', ''maxAmount''] ''LimitsUpdated'' w = Inr v1"
    "write_params E lms (\<lambda>p. p\<lparr>par_MinAmount := par_MinAmount lms, par_MaxAmount := par_MaxAmount lms\<rparr>) v1 = Inr w1"
    using assms(5) unfolding UpdateLimits_def by (elim rbind_InrE)
  obtain v2 where v2: "paramsDAOV2 E l2 t2 c fees [''feeInterest'', ''feeLiquidation'', ''liquidationDiscount'', ''liquidationDiscountExpired'', ''feeLiquidationExpired''] ''FeesUpdated'' w1 = Inr v2"
    "write_params E fees (\<lambda>p. p\<lparr>FeeInterest := FeeInterest fees, FeeLiquidation := FeeLiquidation fees,
         LiquidationDiscount := LiquidationDiscount fees, LiquidationDiscountExpired := LiquidationDiscountExpired fees,
         FeeLiquidationExpired := FeeLiquidationExpired fees\<rparr>) v2 = Inr w2"
    using assms(6) unfolding UpdateFees_def by (elim rbind_InrE)
  have k1: "par_heap v1 = par_heap w" "cmParams v1 = cmParams w" using paramsDAOV2_keeps[OF v1(1)] by (simp_all add: params_view_def)
  note e1 = write_params_effect[OF v1(2), unfolded k1 assms(3), OF assms(1,2)]
  have k2: "par_heap v2 = par_heap w1" "cmParams v2 = cmParams w1" using paramsDAOV2_keeps[OF v2(1)] by (simp_all add: params_view_def)
  have p2: "cmParams v2 (par_CreditManager fees) = Some p" "p < length (par_heap v2)"
    using e1 assms(2,4) k2 by simp_all
  note e2 = write_params_effect[OF v2(2) p2]
  show ?thesis using e1 e2 k2 assms(2) dao_rows[OF v1(1)] dao_rows[OF v2(1)] by simp
qed

section \<open>A concrete configurator\<close>

definition demo_cfg_env :: cfg_env where
  "demo_cfg_env = \<lparr>cfg_chain = demo_chain, cfg_NewToken = (\<lambda>a. Some \<lparr>tok_Address = a, tok_Symbol = ''T'', tok_Decimals = 6\<rparr>),
     NewParams = \<lparr>par_BlockNum = 0, par_CreditManager = '''', par_MinAmount = 0, par_MaxAmount = 0, par_MaxLeverage = 0,
       FeeInterest = 0, FeeLiquidation = 0, LiquidationDiscount = 0, FeeLiquidationExpired = 0, LiquidationDiscountExpired = 0,
       EmergencyLiqDiscount = 0\<rparr>,
     Diffv1 = (\<lambda>_ _. []),
     Diffv2 = (\<lambda>_ _. map (\<lambda>k. (k, JNull)) [''minAmount'', ''maxAmount'', ''feeInterest'', ''feeLiquidation'', ''liquidationDiscount'',
       ''liquidationDiscountExpired'', ''feeLiquidationExpired'', ''emergencyLiqDiscount'']),
     NewFastCheckParams = \<lparr>fc_BlockNum = 0, fc_CreditManager = '''', ChiThreshold = 0, HFCheckInterval = 0\<rparr>, DiffFC = (\<lambda>_ _. [])\<rparr>"

definition demo_cfg :: cfg_world where
  "demo_cfg = \<lparr>cw_blocks = NewBlocksRepo,
     cw_tokens = \<lparr>wethAddr = '''', usdcAddr = '''', gearTokenAddr = '''', tr_tokens = [], dieselTokens = []\<rparr>,
     at_heap = [], allowedTokens = Map.empty, disabledTokens = [], db_disabled = [], par_heap = [NewParams demo_cfg_env],
     cmParams = [''cm'' \<mapsto> 0], cmFastCheckParams = Map.empty\<rparr>"

definition demo_cf :: sync_adapter where
  "demo_cf = \<lparr>Address = ''cfg'', ContractName = ''CreditConfigurator'', DiscoveredAt = 1, FirstLogAt = 1, LastSync = 0, Disabled = False,
     BlockToDisableOn = 0, V = 2, ErrorMsg = '''', Details = Some [(''creditManager'', JString ''cm'')],
     UnderlyingStateToSave = False, DataProcessType = 0, WillSyncTill = 0\<rparr>"

definition demo_cf_log :: "int \<Rightarrow> cf_event \<Rightarrow> cf_log" where
  "demo_cf_log b e = \<lparr>BlockNumber = b, Index = 0, TxIndex = 0, TxHash = ''tx'', logAddress = ''cfg'', topic0 = '''', payload = e\<rparr>"

definition demo_cf_logs :: "(sync_adapter \<times> cf_log) list" where
  "demo_cf_logs = map (Pair demo_cf) [demo_cf_log 3 (TokenAllowedV2 ''t''), demo_cf_log 3 (TokenLiquidationThresholdUpdated ''t'' 8000),
     demo_cf_log 5 (TokenForbidden ''t''), demo_cf_log 7 (TokenAllowedV2 ''t''), demo_cf_log 9 (TokenLiquidationThresholdUpdated ''t'' 9000)]"

lemma demo_cf_run:
  "case rfold (\<lambda>(s, lg). cf_OnLog demo_cfg_env s lg) demo_cf_logs demo_cfg of Inl _ \<Rightarrow> False
   | Inr w \<Rightarrow> map (\<lambda>x. (alt_BlockNumber x, DisableBlock x, alt_Threshold x)) (at_heap w) =
       [(3, 5, Some 8000), (7, 9, Some 8000), (9, 0, Some 9000)]"
  by code_simp

theorem configurator_tokens_witness:
  "\<exists>w'. rfold (\<lambda>(s, lg). cf_OnLog demo_cfg_env s lg) demo_cf_logs demo_cfg = Inr w' \<and>
    token_status (tokens_view w') (''cm'', ''t'') = Some (9000, True) \<and>
    map (\<lambda>x. (alt_BlockNumber x, DisableBlock x)) (at_heap w') = [(3, 5), (7, 9), (9, 0)]"
proof -
  obtain w' where w': "rfold (\<lambda>(s, lg). cf_OnLog demo_cfg_env s lg) demo_cf_logs demo_cfg = Inr w'"
    "map (\<lambda>x. (alt_BlockNumber x, DisableBlock x, alt_Threshold x)) (at_heap w') = [(3, 5, Some 8000), (7, 9, Some 8000), (9, 0, Some 9000)]"
    using case_InrD[OF demo_cf_run] by (elim exE conjE)
  have "token_status (tokens_view w') = fold token_spec demo_cf_logs Map.empty"
    using configurator_tokens[OF w'(1)] by (simp add: demo_cfg_def demo_cf_logs_def demo_cf_log_def v2_event_def)
  moreover have "fold token_spec demo_cf_logs Map.empty (''cm'', ''t'') = Some (9000, True)" by code_simp
  moreover have "map (\<lambda>x. (alt_BlockNumber x, DisableBlock x)) (at_heap w') = [(3, 5), (7, 9), (9, 0)]"
    using arg_cong[OF w'(2), of "map (\<lambda>(a, b, c). (a, b))"] by (simp add: comp_def)
  ultimately show ?thesis using w'(1) by (intro exI[of _ w']) simp
qed

definition demo_lms :: cfg_parameters where
  "demo_lms = (event_params (demo_cf_log 4 OtherCfgEvent) ''cm'')\<lparr>par_MinAmount := 5, par_MaxAmount := 50\<rparr>"

definition demo_fees :: cfg_parameters where
  "demo_fees = (event_params (demo_cf_log 8 OtherCfgEvent) ''cm'')\<lparr>FeeInterest := 1000\<rparr>"

lemma demo_params_run:
  "case UpdateLimits demo_cfg_env 0 ''tx'' ''cfg'' demo_lms demo_cfg of Inl _ \<Rightarrow> False
   | Inr w1 \<Rightarrow> (case UpdateFees demo_cfg_env 0 ''tx'' ''cfg'' demo_fees w1 of Inl _ \<Rightarrow> False | Inr w2 \<Rightarrow> True)"
  by code_simp

theorem parameter_rows_shared_witness:
  "\<exists>w1 w2. UpdateLimits demo_cfg_env 0 ''tx'' ''cfg'' demo_lms demo_cfg = Inr w1 \<and> par_BlockNum (par_heap w1 ! 0) = 4 \<and>
    UpdateFees demo_cfg_env 0 ''tx'' ''cfg'' demo_fees w1 = Inr w2 \<and>
    count (mset (all_rows (cw_blocks w2))) (ParamsRow 0) = 2 \<and> par_BlockNum (par_heap w2 ! 0) = 8 \<and> FeeInterest (par_heap w2 ! 0) = 1000"
proof -
  obtain w1 where w1: "UpdateLimits demo_cfg_env 0 ''tx'' ''cfg'' demo_lms demo_cfg = Inr w1"
    "case UpdateFees demo_cfg_env 0 ''tx'' ''cfg'' demo_fees w1 of Inl _ \<Rightarrow> False | Inr w2 \<Rightarrow> True"
    using case_InrD[OF demo_params_run] by (elim exE conjE)
  obtain w2 where w2: "UpdateFees demo_cfg_env 0 ''tx'' ''cfg'' demo_fees w1 = Inr w2"
    using case_InrD[OF w1(2)] by (elim exE conjE)
  have st: "cmParams demo_cfg ''cm'' = Some 0" "0 < length (par_heap demo_cfg)" "all_rows (cw_blocks demo_cfg) = []"
    "par_CreditManager demo_lms = ''cm''" "par_CreditManager demo_fees = ''cm''" "par_BlockNum demo_lms = 4" "par_BlockNum demo_fees = 8"
    "FeeInterest demo_fees = 1000"
    by (simp_all add: demo_cfg_def NewBlocksRepo_def all_rows_def demo_lms_def demo_fees_def event_params_def demo_cf_log_def)
  show ?thesis using parameter_rows_shared[OF st(1,2,4,5) w1(1) w2] w1(1) w2 st by (intro exI[of _ w1] exI[of _ w2]) simp
qed

end
