(* ===== verification/Pools.thy ===== *)
theory Pools
  imports Repo_Config
begin

text \<open>
  Pools (\<^verbatim>\<open>models/pool\<close>) with the users and ledger rows of the repository (\<^verbatim>\<open>repository/pool.go\<close>,
  \<^verbatim>\<open>handlers/pool_users.go\<close>).  A removal of liquidity is emitted in diesel tokens and may name a gateway instead of
  the user, so it waits until the block is over: the gateway event that follows gives the user, the data
  compressor the rate.

  The answer of the data compressor is a parameter.  The repay that a pool reports to a credit manager is
  recorded as a call.
\<close>

section \<open>Data\<close>

record pool_state =
  pst_Address :: address
  DieselToken :: address
  pst_UnderlyingToken :: address
  pst_IsWETH :: bool
  pst_BorrowAPYBI :: "int option"
  pst_DepositAPYBI :: "int option"
  WithdrawFee :: "int option"
  ExpectedLiquidityLimit :: "int option"

record gateway_handler =
  lastEntry :: "pool_ledger option"
  Gateway :: address
  gw_Token :: address
  UserCantBe :: address
  removeLiqEvents :: "pool_ledger list"

record pool_data =
  pd_IsWETH :: bool
  BorrowAPYRAY :: int
  DepositAPYRAY :: int
  pd_TotalBorrowed :: int
  pd_ExpectedLiquidity :: int
  pd_ExpectedLiquidityLimit :: int
  pd_AvailableLiquidity :: int
  DieselRateRAY :: int
  pd_WithdrawFee :: int
  LinearCumulativeIndex :: int

datatype pool_event =
    AddLiquidity address int                  \<comment> \<open>onBehalfOf, amount\<close>
  | RemoveLiquidity address int               \<comment> \<open>sender, amount of diesel tokens\<close>
  | BorrowEvent
  | RepayEvent address int int int            \<comment> \<open>manager, borrowed amount, profit, loss\<close>
  | NewInterestRateModel address
  | NewCreditManagerConnected address
  | BorrowForbidden address
  | NewWithdrawFee int
  | NewExpectedLiquidityLimit int
  | WithdrawETH address address               \<comment> \<open>pool, user\<close>
  | TransferEvent address address             \<comment> \<open>from, to\<close>
  | OtherPoolEvent

type_synonym pool_log = "pool_event txlog"

record pool_world =
  p_adapter :: sync_adapter
  p_lastEventBlock :: int
  p_State :: pool_state
  dieselRate :: "int option"
  gatewayHandler :: gateway_handler
  \<comment> \<open>the repository\<close>
  pw_blocks :: blocks_repo
  pw_tokens :: tokens_repo
  poolUniqueUsers :: "address \<Rightarrow> address list"
  repaysOnCM :: "(address \<times> pnl_on_repay) list"

record pool_env =
  p_chain :: chain_env
  p_NewToken :: "address \<Rightarrow> token option"
  p_GetFloat64Decimal :: "int \<Rightarrow> int \<Rightarrow> rat"

definition p_Decimals :: "pool_env \<Rightarrow> address \<Rightarrow> pool_world \<Rightarrow> (int \<times> pool_world) res" where
  "p_Decimals E tok w =
    rbind (GetToken (p_NewToken E) tok (pw_tokens w)) (\<lambda>(t, r).
    rbind (deref t) (\<lambda>t. Inr (tok_Decimals t, w\<lparr>pw_tokens := r\<rparr>)))"

definition on_blocks :: "(blocks_repo \<Rightarrow> blocks_repo res) \<Rightarrow> pool_world \<Rightarrow> pool_world res" where
  "on_blocks f w = rbind (f (pw_blocks w)) (\<lambda>r. Inr (w\<lparr>pw_blocks := r\<rparr>))"

section \<open>Users and ledger\<close>

definition AddPoolUniqueUser :: "address \<Rightarrow> address \<Rightarrow> pool_world \<Rightarrow> pool_world" where
  "AddPoolUniqueUser pool user w = w\<lparr>poolUniqueUsers := (poolUniqueUsers w)(pool := List.insert user (poolUniqueUsers w pool))\<rparr>"

definition GetPoolUniqueUserLen :: "address \<Rightarrow> pool_world \<Rightarrow> nat" where
  "GetPoolUniqueUserLen pool w = length (poolUniqueUsers w pool)"

definition repo_AddPoolLedger :: "pool_env \<Rightarrow> pool_ledger \<Rightarrow> pool_world \<Rightarrow> pool_world res" where
  "repo_AddPoolLedger E pl w =
    (let w1 = (if pl_Event pl = ''AddLiquidity'' then AddPoolUniqueUser (pl_Pool pl) (pl_User pl) w else w)
     in on_blocks (add_row (p_chain E) (pl_BlockNumber pl) (PoolLedgerRow pl)) w1)"

section \<open>The gateway handler\<close>

definition addLastEventToArr :: "gateway_handler \<Rightarrow> gateway_handler" where
  "addLastEventToArr g =
    (case lastEntry g of
       None \<Rightarrow> g
     | Some entry \<Rightarrow> g\<lparr>removeLiqEvents := removeLiqEvents g @ [entry], lastEntry := None\<rparr>)"

definition addRemoveLiqEvent :: "pool_ledger \<Rightarrow> gateway_handler \<Rightarrow> gateway_handler" where
  "addRemoveLiqEvent entry g = (addLastEventToArr g)\<lparr>lastEntry := Some entry\<rparr>"

definition getRemoveLiqEventsAndClear :: "gateway_handler \<Rightarrow> pool_ledger list \<times> gateway_handler" where
  "getRemoveLiqEventsAndClear g = (let g1 = addLastEventToArr g in (removeLiqEvents g1, g1\<lparr>removeLiqEvents := []\<rparr>))"

definition checkWithdrawETH :: "int \<Rightarrow> address \<Rightarrow> address \<Rightarrow> gateway_handler \<Rightarrow> gateway_handler res" where
  "checkWithdrawETH blockNum pool user g =
    (if Gateway g = NULL_ADDR then Inr g
     else case lastEntry g of
       Some entry \<Rightarrow>
         if pl_BlockNumber entry = blockNum \<and> pl_User entry = Gateway g \<and> pl_Pool entry = pool
         then Inr (g\<lparr>lastEntry := Some (entry\<lparr>pl_User := user\<rparr>)\<rparr>)
         else Inl (Fatal ''WithdrawalWETH event on gateway but no matching last pool Remove Liquidity'')
     | None \<Rightarrow> Inl (Fatal ''WithdrawalWETH event on gateway but no matching last pool Remove Liquidity''))"

section \<open>Events\<close>

definition pool_dao :: "pool_env \<Rightarrow> pool_log \<Rightarrow> string \<Rightarrow> json_obj \<Rightarrow> pool_world \<Rightarrow> pool_world res" where
  "pool_dao E txLog ty args w =
    on_blocks (AddDAOOperation (p_chain E) \<lparr>dao_BlockNumber = BlockNumber txLog, dao_LogID = Index txLog, dao_TxHash = TxHash txLog,
      dao_Contract = Address (p_adapter w), dao_Type = ty, dao_Args = args\<rparr>) w"

definition checkIfAmountMoreThan1Mil :: "pool_env \<Rightarrow> int \<Rightarrow> int \<Rightarrow> pool_world \<Rightarrow> pool_world res" where
  "checkIfAmountMoreThan1Mil E amount blockNum w =
    (let tok = pst_UnderlyingToken (p_State w) in
     case GetPrice tok (pw_blocks w) of
       None \<Rightarrow> Inr w
     | Some priceInUSD \<Rightarrow>
         rbind (p_Decimals E tok w) (\<lambda>(decimals, w1).
           if p_GetFloat64Decimal E (priceInUSD * amount) (decimals + 8) > 1000000
           then on_blocks (RecentMsgf (p_chain E) blockNum ''AMQP'') w1 else Inr w1))"

definition pool_entry :: "pool_log \<Rightarrow> string \<Rightarrow> address \<Rightarrow> int \<Rightarrow> rat \<Rightarrow> pool_world \<Rightarrow> pool_ledger" where
  "pool_entry txLog event user amount f w =
    \<lparr>pl_LogId = Index txLog, pl_BlockNumber = BlockNumber txLog, pl_TxHash = TxHash txLog, pl_Pool = Address (p_adapter w),
     pl_Event = event, pl_User = user, pl_SessionId = '''', pl_AmountBI = amount, pl_Amount = f\<rparr>"

definition pool_OnLog :: "pool_env \<Rightarrow> pool_log \<Rightarrow> pool_world \<Rightarrow> pool_world res" where
  "pool_OnLog E txLog w =
    (let blockNum = BlockNumber txLog in
     case payload txLog of
       AddLiquidity onBehalfOf amount \<Rightarrow>
         rbind (p_Decimals E (pst_UnderlyingToken (p_State w)) w) (\<lambda>(decimals, w1).
         rbind (repo_AddPoolLedger E (pool_entry txLog ''AddLiquidity'' onBehalfOf amount (p_GetFloat64Decimal E amount decimals) w1) w1) (\<lambda>w2.
         rbind (checkIfAmountMoreThan1Mil E amount blockNum w2) (\<lambda>w3.
           Inr (w3\<lparr>p_lastEventBlock := blockNum\<rparr>))))
     | RemoveLiquidity sender amount \<Rightarrow>
         let w1 = w\<lparr>gatewayHandler := addRemoveLiqEvent (pool_entry txLog ''RemoveLiquidity'' sender amount 0 w) (gatewayHandler w),
                    p_lastEventBlock := blockNum\<rparr>
         in checkIfAmountMoreThan1Mil E amount blockNum w1
     | BorrowEvent \<Rightarrow> Inr (w\<lparr>p_lastEventBlock := blockNum\<rparr>)
     | RepayEvent cm borrowed profit loss \<Rightarrow>
         Inr (w\<lparr>repaysOnCM := repaysOnCM w @ [(cm, \<lparr>pnl_BlockNum = blockNum, pnl_Profit = profit, pnl_Loss = loss,
             pnl_BorrowedAmount = borrowed\<rparr>)], p_lastEventBlock := blockNum\<rparr>)
     | NewInterestRateModel model \<Rightarrow>
         rbind (pool_dao E txLog ''NewInterestRateModel'' [(''newInterestRateModel'', JString model)] w) (\<lambda>w1.
           Inr (w1\<lparr>p_lastEventBlock := blockNum\<rparr>))
     | NewCreditManagerConnected cm \<Rightarrow> pool_dao E txLog ''NewCreditManagerConnected'' [(''creditManager'', JString cm)] w
     | BorrowForbidden cm \<Rightarrow> pool_dao E txLog ''BorrowForbidden'' [(''creditManager'', JString cm)] w
     | NewWithdrawFee fee \<Rightarrow>
         let oldFee = (case WithdrawFee (p_State w) of None \<Rightarrow> 0 | Some f \<Rightarrow> f) in
         rbind (pool_dao E txLog ''NewWithdrawFee''
             [(''token'', JString (pst_UnderlyingToken (p_State w))), (''oldFee'', JInt oldFee), (''newFee'', JInt fee)] w) (\<lambda>w1.
           Inr (w1\<lparr>p_State := (p_State w1)\<lparr>WithdrawFee := Some fee\<rparr>\<rparr>))
     | NewExpectedLiquidityLimit limit \<Rightarrow>
         rbind (pool_dao E txLog ''NewExpectedLiquidityLimit''
             [(''oldLimit'', jnum (ExpectedLiquidityLimit (p_State w))), (''newLimit'', JInt limit),
              (''token'', JString (pst_UnderlyingToken (p_State w)))] w) (\<lambda>w1.
           Inr (w1\<lparr>p_State := (p_State w1)\<lparr>ExpectedLiquidityLimit := Some limit\<rparr>\<rparr>))
     | WithdrawETH pool user \<Rightarrow>
         rbind (checkWithdrawETH blockNum pool user (gatewayHandler w)) (\<lambda>g. Inr (w\<lparr>gatewayHandler := g\<rparr>))
     | TransferEvent tfrom tto \<Rightarrow>
         if \<not> (tfrom = Gateway (gatewayHandler w) \<and> tto \<noteq> UserCantBe (gatewayHandler w)) then Inr w
         else rbind (checkWithdrawETH blockNum (Address (p_adapter w)) tto (gatewayHandler w)) (\<lambda>g. Inr (w\<lparr>gatewayHandler := g\<rparr>))
     | OtherPoolEvent \<Rightarrow> Inr w)"

section \<open>The end of a block\<close>

text \<open>The amount of a removal in the underlying token.\<close>

definition removed_amount :: "int \<Rightarrow> int \<Rightarrow> int" where
  "removed_amount amount rate = quo (amount * rate) (10 ^ 27)"

definition fix_event :: "pool_env \<Rightarrow> pool_ledger \<Rightarrow> pool_world \<Rightarrow> pool_world res" where
  "fix_event E event w =
    rbind (deref (dieselRate w)) (\<lambda>rate.
    rbind (p_Decimals E (pst_UnderlyingToken (p_State w)) w) (\<lambda>(decimals, w1).
      let amount = removed_amount (pl_AmountBI event) rate in
      repo_AddPoolLedger E (event\<lparr>pl_AmountBI := amount, pl_Amount := p_GetFloat64Decimal E amount decimals\<rparr>) w1))"

definition fixPoolLedgerAddrForGateway :: "pool_env \<Rightarrow> pool_world \<Rightarrow> pool_world res" where
  "fixPoolLedgerAddrForGateway E w =
    (case getRemoveLiqEventsAndClear (gatewayHandler w) of
       (events, g) \<Rightarrow> rfold (fix_event E) events (w\<lparr>gatewayHandler := g\<rparr>))"

definition createSnapshot :: "pool_env \<Rightarrow> int \<Rightarrow> pool_data \<Rightarrow> pool_world \<Rightarrow> pool_world res" where
  "createSnapshot E blockNum state w =
    rbind (p_Decimals E (pst_UnderlyingToken (p_State w)) w) (\<lambda>(decimals, w1).
      let w2 = w1\<lparr>p_State := (p_State w1)\<lparr>pst_IsWETH := pd_IsWETH state, pst_BorrowAPYBI := Some (BorrowAPYRAY state),
            pst_DepositAPYBI := Some (DepositAPYRAY state)\<rparr>\<rparr>;
          addr = Address (p_adapter w2)
      in rbind (on_blocks (AddPoolStat (p_chain E)
           \<lparr>ps_BlockNum = blockNum, ps_Address = addr, UniqueUsers = GetPoolUniqueUserLen addr w2,
            ps_TotalBorrowedBI = pd_TotalBorrowed state, ps_TotalBorrowed = p_GetFloat64Decimal E (pd_TotalBorrowed state) decimals,
            ExpectedLiquidityBI = pd_ExpectedLiquidity state, ExpectedLiquidity = p_GetFloat64Decimal E (pd_ExpectedLiquidity state) decimals,
            ExpectedLiquidityLimitBI = pd_ExpectedLiquidityLimit state,
            ps_AvailableLiquidityBI = pd_AvailableLiquidity state,
            ps_AvailableLiquidity = p_GetFloat64Decimal E (pd_AvailableLiquidity state) decimals,
            DepositAPYBI = DepositAPYRAY state, DepositAPY = p_GetFloat64Decimal E (DepositAPYRAY state) 25,
            ps_BorrowAPYBI = BorrowAPYRAY state, BorrowAPY = p_GetFloat64Decimal E (BorrowAPYRAY state) 25,
            DieselRateBI = DieselRateRAY state, DieselRate = p_GetFloat64Decimal E (DieselRateRAY state) 27,
            ps_WithdrawFee = Int64 (pd_WithdrawFee state), ps_CumulativeIndexRAY = LinearCumulativeIndex state\<rparr>) w2) (\<lambda>w3.
         Inr (w3\<lparr>dieselRate := Some (DieselRateRAY state)\<rparr>)))"

text \<open>
  \<^verbatim>\<open>OnBlockChange\<close> decides whether the data compressor is called; \<^verbatim>\<open>processFn\<close> takes its answer, which is \<open>None\<close> when
  the call failed or could not be decoded.
\<close>

definition pool_OnBlockChange :: "int \<Rightarrow> pool_world \<Rightarrow> (bool \<times> pool_world) res" where
  "pool_OnBlockChange inputBlock w =
    (if p_lastEventBlock w = 0 \<or> p_lastEventBlock w < DiscoveredAt (p_adapter w) then Inr (False, w)
     else rbind (guard_fatal (inputBlock \<noteq> p_lastEventBlock w) ''OnBlockChange called with wrong block number'') (\<lambda>_.
       Inr (True, w\<lparr>p_lastEventBlock := 0\<rparr>)))"

definition pool_process :: "pool_env \<Rightarrow> int \<Rightarrow> pool_data option \<Rightarrow> pool_world \<Rightarrow> pool_world res" where
  "pool_process E inputB result w =
    (case result of
       None \<Rightarrow> Inl (Fatal ''Cant process result for data compressor'')
     | Some poolState \<Rightarrow> rbind (createSnapshot E inputB poolState w) (fixPoolLedgerAddrForGateway E))"

definition onBlockChangeInternally :: "pool_env \<Rightarrow> int \<Rightarrow> pool_data option \<Rightarrow> pool_world \<Rightarrow> pool_world res" where
  "onBlockChangeInternally E inputB result w = rbind (pool_process E inputB result w) (fixPoolLedgerAddrForGateway E)"

definition pool_SetUnderlyingState :: "pool_env \<Rightarrow> pool_state \<Rightarrow> pool_world \<Rightarrow> pool_world" where
  "pool_SetUnderlyingState E state w =
    w\<lparr>p_adapter := (p_adapter w)\<lparr>UnderlyingStateToSave := True\<rparr>, p_State := state,
      pw_tokens := AddDieselToken (p_NewToken E) (DieselToken state) (pst_UnderlyingToken state) (Address (p_adapter w)) (pw_tokens w)\<rparr>"

definition pool_GetAllAddrsForLogs :: "pool_world \<Rightarrow> address list res" where
  "pool_GetAllAddrsForLogs w =
    rbind (sa_GetAllAddrsForLogs (p_adapter w)) (\<lambda>addrs.
      Inr (if Gateway (gatewayHandler w) = NULL_ADDR then addrs
           else addrs @ [Gateway (gatewayHandler w), gw_Token (gatewayHandler w)]))"

end
