(* ===== verification/Pools_Correct.thy ===== *)
theory Pools_Correct
  imports Pools Refinement
begin

text \<open>
  Correctness of the pool ledger: deposits are stored at once, removals when their block is over, each exactly
  once, with the user the gateway names and the amount at the rate of the block.
\<close>

section \<open>The ledger\<close>

definition row_ledger :: "row \<Rightarrow> pool_ledger list" where
  "row_ledger x = (case x of PoolLedgerRow pl \<Rightarrow> [pl\<lparr>pl_Amount := 0\<rparr>] | _ \<Rightarrow> [])"

text \<open>The ledger rows of the repository, without their floating point amount.\<close>

definition ledger :: "blocks_repo \<Rightarrow> pool_ledger multiset" where
  "ledger r = mset (concat (map row_ledger (all_rows r)))"

definition pending :: "gateway_handler \<Rightarrow> pool_ledger list" where
  "pending g = removeLiqEvents g @ (case lastEntry g of None \<Rightarrow> [] | Some e \<Rightarrow> [e])"

type_synonym ledger_view = "address \<times> address \<times> address \<times> pool_ledger list \<times> pool_ledger multiset"

definition ledger_view :: "pool_world \<Rightarrow> ledger_view" where
  "ledger_view w = (Address (p_adapter w), Gateway (gatewayHandler w), UserCantBe (gatewayHandler w),
     pending (gatewayHandler w), ledger (pw_blocks w))"

lemma ledger_add_row: "add_row C b x r = Inr r' \<Longrightarrow> ledger r' = mset (row_ledger x) + ledger r"
  unfolding ledger_def by (rule mset_concat_add) (rule add_row_effect)

lemma ledger_same_rows: "mset (all_rows r') = mset (all_rows r) \<Longrightarrow> ledger r' = ledger r"
  using mset_concat_add[of "x # all_rows r'" x "all_rows r" row_ledger for x] by (simp add: ledger_def)

lemma RecentMsgf_ledger: "RecentMsgf C b code r = Inr r' \<Longrightarrow> ledger r' = ledger r"
proof -
  assume "RecentMsgf C b code r = Inr r'"
  then obtain r1 where "setBlock C b r = Inr r1" "all_rows r' = all_rows r1"
    by (auto simp: RecentMsgf_def all_rows_def elim!: rbind_InrE)
  then show ?thesis using setBlock_keeps(1) by (metis ledger_same_rows)
qed

lemma p_Decimals_keeps: "p_Decimals E tok w = Inr (d, w') \<Longrightarrow> \<exists>r. w' = w\<lparr>pw_tokens := r\<rparr>"
  by (auto simp: p_Decimals_def elim!: rbind_InrE)

lemma ledger_view_tokens [simp]: "ledger_view (w\<lparr>pw_tokens := r\<rparr>) = ledger_view w"
  by (simp add: ledger_view_def)

lemma ledger_view_event [simp]: "ledger_view (w\<lparr>p_lastEventBlock := b\<rparr>) = ledger_view w"
  by (simp add: ledger_view_def)

lemma ledger_view_State [simp]: "ledger_view (w\<lparr>p_State := st\<rparr>) = ledger_view w"
  by (simp add: ledger_view_def)

lemma ledger_view_rate [simp]: "ledger_view (w\<lparr>dieselRate := st\<rparr>) = ledger_view w"
  by (simp add: ledger_view_def)

lemma checkIfAmount_view: "checkIfAmountMoreThan1Mil E a b w = Inr w' \<Longrightarrow> ledger_view w' = ledger_view w"
  by (auto simp: checkIfAmountMoreThan1Mil_def on_blocks_def ledger_view_def Let_def dest!: p_Decimals_keeps RecentMsgf_ledger
      elim!: rbind_InrE split: option.splits if_splits)

lemma pool_dao_view: "pool_dao E lg ty args w = Inr w' \<Longrightarrow> ledger_view w' = ledger_view w"
  by (auto simp: pool_dao_def on_blocks_def AddDAOOperation_def ledger_view_def row_ledger_def dest!: ledger_add_row elim!: rbind_InrE)

lemma repo_AddPoolLedger_view:
  assumes "repo_AddPoolLedger E pl w = Inr w'"
  shows "\<exists>bs us. w' = w\<lparr>pw_blocks := bs, poolUniqueUsers := us\<rparr> \<and> ledger bs = add_mset (pl\<lparr>pl_Amount := 0\<rparr>) (ledger (pw_blocks w))"
proof -
  let ?w = "if pl_Event pl = ''AddLiquidity'' then AddPoolUniqueUser (pl_Pool pl) (pl_User pl) w else w"
  obtain r where r: "add_row (p_chain E) (pl_BlockNumber pl) (PoolLedgerRow pl) (pw_blocks ?w) = Inr r" "w' = ?w\<lparr>pw_blocks := r\<rparr>"
    using assms by (auto simp: repo_AddPoolLedger_def on_blocks_def Let_def elim!: rbind_InrE)
  have "ledger r = add_mset (pl\<lparr>pl_Amount := 0\<rparr>) (ledger (pw_blocks w))"
    using ledger_add_row[OF r(1)] by (simp add: row_ledger_def AddPoolUniqueUser_def)
  then show ?thesis using r(2) by (intro exI[of _ r] exI[of _ "poolUniqueUsers ?w"]) (simp add: AddPoolUniqueUser_def)
qed

section \<open>Events of a block\<close>

text \<open>What the ledger should get: the specification of the events.\<close>

definition fix_last :: "address \<Rightarrow> pool_ledger list \<Rightarrow> pool_ledger list" where
  "fix_last user es = (if es = [] then [] else butlast es @ [(last es)\<lparr>pl_User := user\<rparr>])"

definition ledger_entry :: "pool_log \<Rightarrow> address \<Rightarrow> string \<Rightarrow> address \<Rightarrow> int \<Rightarrow> pool_ledger" where
  "ledger_entry lg addr event user amount =
    \<lparr>pl_LogId = Index lg, pl_BlockNumber = BlockNumber lg, pl_TxHash = TxHash lg, pl_Pool = addr, pl_Event = event, pl_User = user,
     pl_SessionId = '''', pl_AmountBI = amount, pl_Amount = 0\<rparr>"

definition ledger_spec :: "pool_log \<Rightarrow> ledger_view \<Rightarrow> ledger_view" where
  "ledger_spec lg v = (case v of (addr, gateway, cant, waiting, led) \<Rightarrow>
    (case payload lg of
       AddLiquidity user amount \<Rightarrow> (addr, gateway, cant, waiting, add_mset (ledger_entry lg addr ''AddLiquidity'' user amount) led)
     | RemoveLiquidity user amount \<Rightarrow> (addr, gateway, cant, waiting @ [ledger_entry lg addr ''RemoveLiquidity'' user amount], led)
     | WithdrawETH pool user \<Rightarrow> (addr, gateway, cant, if gateway = NULL_ADDR then waiting else fix_last user waiting, led)
     | TransferEvent tfrom user \<Rightarrow> (addr, gateway, cant,
         if gateway \<noteq> NULL_ADDR \<and> tfrom = gateway \<and> user \<noteq> cant then fix_last user waiting else waiting, led)
     | _ \<Rightarrow> v))"

lemma pending_addRemove: "pending (addRemoveLiqEvent e g) = pending g @ [e]" "Gateway (addRemoveLiqEvent e g) = Gateway g"
  "UserCantBe (addRemoveLiqEvent e g) = UserCantBe g"
  by (simp_all add: pending_def addRemoveLiqEvent_def addLastEventToArr_def split: option.split)

lemma checkWithdrawETH_effect:
  "checkWithdrawETH b pool user g = Inr g' \<Longrightarrow> Gateway g' = Gateway g \<and> UserCantBe g' = UserCantBe g \<and>
    pending g' = (if Gateway g = NULL_ADDR then pending g else fix_last user (pending g))"
  by (auto simp: checkWithdrawETH_def pending_def fix_last_def butlast_append split: option.splits if_splits)

lemma pool_OnLog_view:
  assumes "pool_OnLog E lg w = Inr w'"
  shows "ledger_view w' = ledger_spec lg (ledger_view w)"
proof (cases "payload lg")
  case (AddLiquidity user amount)
  obtain d w1 w2 w3 where w: "p_Decimals E (pst_UnderlyingToken (p_State w)) w = Inr (d, w1)"
    "repo_AddPoolLedger E (pool_entry lg ''AddLiquidity'' user amount (p_GetFloat64Decimal E amount d) w1) w1 = Inr w2"
    "checkIfAmountMoreThan1Mil E amount (BlockNumber lg) w2 = Inr w3" "w' = w3\<lparr>p_lastEventBlock := BlockNumber lg\<rparr>"
    using assms AddLiquidity by (auto simp: pool_OnLog_def Let_def elim!: rbind_InrE)
  obtain r where r: "w1 = w\<lparr>pw_tokens := r\<rparr>" using p_Decimals_keeps[OF w(1)] by blast
  obtain bs us where bs: "w2 = w1\<lparr>pw_blocks := bs, poolUniqueUsers := us\<rparr>"
    "ledger bs = add_mset ((pool_entry lg ''AddLiquidity'' user amount (p_GetFloat64Decimal E amount d) w1)\<lparr>pl_Amount := 0\<rparr>) (ledger (pw_blocks w1))"
    using repo_AddPoolLedger_view[OF w(2)] by blast
  have "ledger_view w' = ledger_view w2" using checkIfAmount_view[OF w(3)] w(4) by simp
  then show ?thesis using r bs AddLiquidity
    by (simp add: ledger_view_def ledger_spec_def pool_entry_def ledger_entry_def)
next
  case (RemoveLiquidity user amount)
  then have "ledger_view w' = ledger_view (w\<lparr>gatewayHandler := addRemoveLiqEvent (pool_entry lg ''RemoveLiquidity'' user amount 0 w) (gatewayHandler w),
      p_lastEventBlock := BlockNumber lg\<rparr>)"
    using assms checkIfAmount_view by (simp add: pool_OnLog_def Let_def)
  then show ?thesis using RemoveLiquidity
    by (simp add: ledger_view_def ledger_spec_def pending_addRemove pool_entry_def ledger_entry_def)
next
  case (WithdrawETH pool user)
  then obtain g where "checkWithdrawETH (BlockNumber lg) pool user (gatewayHandler w) = Inr g" "w' = w\<lparr>gatewayHandler := g\<rparr>"
    using assms by (auto simp: pool_OnLog_def Let_def elim!: rbind_InrE)
  then show ?thesis using checkWithdrawETH_effect WithdrawETH by (simp add: ledger_view_def ledger_spec_def)
next
  case (TransferEvent tfrom user)
  show ?thesis
  proof (cases "tfrom = Gateway (gatewayHandler w) \<and> user \<noteq> UserCantBe (gatewayHandler w)")
    case True
    then obtain g where "checkWithdrawETH (BlockNumber lg) (Address (p_adapter w)) user (gatewayHandler w) = Inr g" "w' = w\<lparr>gatewayHandler := g\<rparr>"
      using assms TransferEvent by (auto simp: pool_OnLog_def Let_def elim!: rbind_InrE)
    then show ?thesis using checkWithdrawETH_effect TransferEvent True by (simp add: ledger_view_def ledger_spec_def)
  next
    case False
    then show ?thesis using assms TransferEvent by (auto simp: pool_OnLog_def ledger_view_def ledger_spec_def Let_def)
  qed
qed (use assms in \<open>auto simp: pool_OnLog_def ledger_spec_def Let_def split: prod.splits elim!: rbind_InrE dest!: pool_dao_view\<close>,
     simp_all add: ledger_view_def)

interpretation pool_events: event_refinement "pool_OnLog E" "\<lambda>_. True" "\<lambda>_. True" ledger_view ledger_spec for E
  by unfold_locales (auto dest: pool_OnLog_view)

section \<open>The end of a block\<close>

text \<open>A removal at a rate.\<close>

definition at_rate :: "int \<Rightarrow> pool_ledger \<Rightarrow> pool_ledger" where
  "at_rate rate pl = pl\<lparr>pl_AmountBI := removed_amount (pl_AmountBI pl) rate, pl_Amount := 0\<rparr>"

lemma fix_event_effect:
  assumes "fix_event E e w = Inr w'" and "dieselRate w = Some rate"
  shows "ledger (pw_blocks w') = add_mset (at_rate rate e) (ledger (pw_blocks w)) \<and> gatewayHandler w' = gatewayHandler w \<and>
    dieselRate w' = dieselRate w"
proof -
  obtain d v where v: "p_Decimals E (pst_UnderlyingToken (p_State w)) w = Inr (d, v)"
    "repo_AddPoolLedger E (e\<lparr>pl_AmountBI := removed_amount (pl_AmountBI e) rate,
       pl_Amount := p_GetFloat64Decimal E (removed_amount (pl_AmountBI e) rate) d\<rparr>) v = Inr w'"
    using assms by (auto simp: fix_event_def Let_def elim!: rbind_InrE)
  show ?thesis using p_Decimals_keeps[OF v(1)] repo_AddPoolLedger_view[OF v(2)] by (auto simp: at_rate_def)
qed

lemma fix_loop_effect:
  assumes "rfold (fix_event E) es w = Inr w'" and "dieselRate w = Some rate"
  shows "ledger (pw_blocks w') = ledger (pw_blocks w) + mset (map (at_rate rate) es) \<and> gatewayHandler w' = gatewayHandler w"
  using assms
proof (induction es arbitrary: w)
  case (Cons e es)
  obtain v where v: "fix_event E e w = Inr v" "rfold (fix_event E) es v = Inr w'" using Cons.prems(1) by (auto elim: rbind_InrE)
  show ?case using Cons.IH[OF v(2)] fix_event_effect[OF v(1) Cons.prems(2)] Cons.prems(2) by simp
qed simp

lemma createSnapshot_effect:
  "createSnapshot E b pd w = Inr w' \<Longrightarrow> ledger_view w' = ledger_view w \<and> dieselRate w' = Some (DieselRateRAY pd)"
  by (auto simp: createSnapshot_def on_blocks_def AddPoolStat_def Let_def ledger_view_def row_ledger_def
      dest!: p_Decimals_keeps ledger_add_row elim!: rbind_InrE)

lemma pool_process_effect:
  assumes "pool_process E b (Some pd) w = Inr w'"
  shows "pending (gatewayHandler w') = [] \<and>
    ledger (pw_blocks w') = ledger (pw_blocks w) + mset (map (at_rate (DieselRateRAY pd)) (pending (gatewayHandler w)))"
proof -
  obtain w1 where w1: "createSnapshot E b pd w = Inr w1" "fixPoolLedgerAddrForGateway E w1 = Inr w'"
    using assms by (auto simp: pool_process_def elim!: rbind_InrE)
  obtain evs g where g: "getRemoveLiqEventsAndClear (gatewayHandler w1) = (evs, g)" by (cases "getRemoveLiqEventsAndClear (gatewayHandler w1)")
  have eg: "evs = pending (gatewayHandler w1)" "pending g = []"
    using g by (auto simp: getRemoveLiqEventsAndClear_def addLastEventToArr_def pending_def Let_def split: option.splits)
  have "ledger (pw_blocks w') = ledger (pw_blocks w1) + mset (map (at_rate (DieselRateRAY pd)) evs) \<and> gatewayHandler w' = g"
    using fix_loop_effect[OF w1(2)[unfolded fixPoolLedgerAddrForGateway_def g prod.case], of "DieselRateRAY pd"]
      createSnapshot_effect[OF w1(1)] by simp
  then show ?thesis using eg createSnapshot_effect[OF w1(1)] by (auto simp: ledger_view_def)
qed

text \<open>
  C23: every deposit and every removal of a block is stored exactly once.  When the logs of a block were
  handled and the data compressor has answered, the ledger has got the deposits, and the removals with the
  amount in the underlying token at the rate of the block and with the user that a gateway event named
  after the removal, if there was one; nothing waits any more.
\<close>

theorem pool_block_ledger:
  assumes "rfold (pool_OnLog E) logs w = Inr w1" and "pool_process E b (Some pd) w1 = Inr w2"
    and "pending (gatewayHandler w) = []"
    and "fold ledger_spec logs (Address (p_adapter w), Gateway (gatewayHandler w), UserCantBe (gatewayHandler w), [], ledger (pw_blocks w))
      = (addr, gateway, cant, removals, led)"
  shows "ledger (pw_blocks w2) = led + mset (map (at_rate (DieselRateRAY pd)) removals) \<and> pending (gatewayHandler w2) = []"
proof -
  have "ledger_view w1 = (addr, gateway, cant, removals, led)"
    using pool_events.run_refines[OF assms(1)] assms(3,4) by (simp add: ledger_view_def)
  then show ?thesis using pool_process_effect[OF assms(2)] by (simp add: ledger_view_def)
qed

section \<open>A concrete pool\<close>

definition demo_pool_env :: pool_env where
  "demo_pool_env = \<lparr>p_chain = demo_chain, p_NewToken = (\<lambda>a. Some \<lparr>tok_Address = a, tok_Symbol = ''T'', tok_Decimals = 6\<rparr>),
     p_GetFloat64Decimal = (\<lambda>x _. of_int x)\<rparr>"

definition demo_pool :: pool_world where
  "demo_pool = \<lparr>p_adapter = \<lparr>Address = ''pool'', ContractName = ''Pool'', DiscoveredAt = 1, FirstLogAt = 1, LastSync = 0, Disabled = False,
       BlockToDisableOn = 0, V = 2, ErrorMsg = '''', Details = None, UnderlyingStateToSave = False, DataProcessType = 0, WillSyncTill = 0\<rparr>,
     p_lastEventBlock = 0,
     p_State = \<lparr>pst_Address = ''pool'', DieselToken = ''d'', pst_UnderlyingToken = ''u'', pst_IsWETH = True, pst_BorrowAPYBI = None,
       pst_DepositAPYBI = None, WithdrawFee = None, ExpectedLiquidityLimit = None\<rparr>,
     dieselRate = None,
     gatewayHandler = \<lparr>lastEntry = None, Gateway = ''gw'', gw_Token = NULL_ADDR, UserCantBe = NULL_ADDR, removeLiqEvents = []\<rparr>,
     pw_blocks = NewBlocksRepo,
     pw_tokens = \<lparr>wethAddr = '''', usdcAddr = '''', gearTokenAddr = '''', tr_tokens = [], dieselTokens = []\<rparr>,
     poolUniqueUsers = (\<lambda>_. []), repaysOnCM = []\<rparr>"

definition demo_pool_log :: "int \<Rightarrow> pool_event \<Rightarrow> pool_log" where
  "demo_pool_log i e = \<lparr>BlockNumber = 5, Index = i, TxIndex = 0, TxHash = ''tx'', logAddress = ''pool'', topic0 = '''', payload = e\<rparr>"

definition demo_pool_logs :: "pool_log list" where
  "demo_pool_logs = [demo_pool_log 1 (AddLiquidity ''ann'' 100), demo_pool_log 2 (RemoveLiquidity ''gw'' 10),
     demo_pool_log 3 (WithdrawETH ''pool'' ''bob''), demo_pool_log 4 (RemoveLiquidity ''eve'' 20)]"

definition demo_pool_data :: pool_data where
  "demo_pool_data = \<lparr>pd_IsWETH = True, BorrowAPYRAY = 0, DepositAPYRAY = 0, pd_TotalBorrowed = 0, pd_ExpectedLiquidity = 0,
     pd_ExpectedLiquidityLimit = 0, pd_AvailableLiquidity = 0, DieselRateRAY = 11 * 10 ^ 26, pd_WithdrawFee = 0, LinearCumulativeIndex = 0\<rparr>"

lemma demo_pool_run:
  "case rfold (pool_OnLog demo_pool_env) demo_pool_logs demo_pool of Inl _ \<Rightarrow> False
   | Inr w1 \<Rightarrow> (case pool_process demo_pool_env 5 (Some demo_pool_data) w1 of Inl _ \<Rightarrow> False | Inr w2 \<Rightarrow> True)"
  by code_simp

lemma demo_pool_spec:
  "fold ledger_spec demo_pool_logs (''pool'', ''gw'', NULL_ADDR, [], {#}) =
    (''pool'', ''gw'', NULL_ADDR,
     [ledger_entry (demo_pool_log 2 (RemoveLiquidity ''gw'' 10)) ''pool'' ''RemoveLiquidity'' ''bob'' 10,
      ledger_entry (demo_pool_log 4 (RemoveLiquidity ''eve'' 20)) ''pool'' ''RemoveLiquidity'' ''eve'' 20],
     {#ledger_entry (demo_pool_log 1 (AddLiquidity ''ann'' 100)) ''pool'' ''AddLiquidity'' ''ann'' 100#})"
  by (simp add: demo_pool_logs_def demo_pool_log_def ledger_spec_def ledger_entry_def fix_last_def)

theorem pool_block_ledger_witness:
  "\<exists>w1 w2. rfold (pool_OnLog demo_pool_env) demo_pool_logs demo_pool = Inr w1 \<and>
    pool_process demo_pool_env 5 (Some demo_pool_data) w1 = Inr w2 \<and>
    image_mset (\<lambda>pl. (pl_User pl, pl_AmountBI pl)) (ledger (pw_blocks w2)) = {#(''ann'', 100), (''bob'', 11), (''eve'', 22)#}"
proof -
  obtain w1 where w1: "rfold (pool_OnLog demo_pool_env) demo_pool_logs demo_pool = Inr w1"
    "case pool_process demo_pool_env 5 (Some demo_pool_data) w1 of Inl _ \<Rightarrow> False | Inr w2 \<Rightarrow> True"
    using case_InrD[OF demo_pool_run] by (elim exE conjE)
  obtain w2 where w2: "pool_process demo_pool_env 5 (Some demo_pool_data) w1 = Inr w2"
    using case_InrD[OF w1(2)] by (elim exE conjE)
  have start: "Address (p_adapter demo_pool) = ''pool''" "Gateway (gatewayHandler demo_pool) = ''gw''"
    "UserCantBe (gatewayHandler demo_pool) = NULL_ADDR" "ledger (pw_blocks demo_pool) = {#}" "pending (gatewayHandler demo_pool) = []"
    by (simp_all add: demo_pool_def ledger_def all_rows_def NewBlocksRepo_def pending_def)
  note end_ledger = pool_block_ledger[OF w1(1) w2 start(5), unfolded start, OF demo_pool_spec]
  show ?thesis using w1(1) w2 end_ledger
    by (intro exI[of _ w1] exI[of _ w2]) (simp add: at_rate_def removed_amount_def demo_pool_data_def ledger_entry_def)
qed

end
