(* ===== verification/LM_Rewards.thy ===== *)
theory LM_Rewards
  imports Repo_Config
begin

text \<open>
  Liquidity mining rewards of the holders of diesel tokens (\<^verbatim>\<open>models/pool_lmrewards\<close>).  Balances and supplies follow the
  transfers; the rewards of a range of blocks are added when a transfer in a later block arrives or a
  sync ends.  The reward snapshots (\<^verbatim>\<open>pkg.GetRewardPerToken\<close>) are a parameter.
\<close>

section \<open>Data\<close>

record reward_snapshot =
  rs_Block :: int
  RewardPerBlock :: "string \<rightharpoonup> int"       \<comment> \<open>by symbol\<close>

record lm_world =
  lm_adapter :: sync_adapter
  pendingCalcBlock :: int
  dieselBalances :: "(string \<times> (address \<times> int) list) list"   \<comment> \<open>by symbol and user\<close>
  lm_rewards :: "(address \<times> (address \<times> int) list) list"       \<comment> \<open>by pool and user\<close>
  totalSupplies :: "(string \<times> int) list"
  decimalsAndPool :: "string \<rightharpoonup> int \<times> address"
  hasDataToSave :: bool
  lm_blocks :: blocks_repo
  lm_tokens :: tokens_repo

record lm_env =
  lm_chain :: chain_env
  lm_NewToken :: "address \<Rightarrow> token option"
  lm_GetFloat64Decimal :: "int \<Rightarrow> int \<Rightarrow> rat"
  GetRewardPerToken :: "int \<Rightarrow> int \<Rightarrow> reward_snapshot list"    \<comment> \<open>from, to\<close>
  ParseDecimal :: "string \<Rightarrow> int option"

text \<open>The event: from, to, amount.\<close>

type_synonym lm_log = "(address \<times> address \<times> int) txlog"

section \<open>Rewards\<close>

definition add_at :: "'k \<Rightarrow> 'u \<Rightarrow> int \<Rightarrow> ('k \<times> ('u \<times> int) list) list \<Rightarrow> ('k \<times> ('u \<times> int) list) list" where
  "add_at k u amount m = (let inner = aget [] m k in AList.update k (AList.update u (aget 0 inner u + amount) inner) m)"

definition addUserReward :: "address \<Rightarrow> address \<Rightarrow> int \<Rightarrow> lm_world \<Rightarrow> lm_world" where
  "addUserReward pool user reward w = w\<lparr>lm_rewards := add_at pool user reward (lm_rewards w)\<rparr>"

text \<open>The share of a user for a number of blocks.\<close>

definition user_reward :: "int option \<Rightarrow> int \<Rightarrow> int \<Rightarrow> int \<Rightarrow> int res" where
  "user_reward supply balance rewardPerBlock blocks_n =
    (case supply of None \<Rightarrow> Inr 0 | Some s \<Rightarrow> Quo (balance * rewardPerBlock * blocks_n) s)"

definition reward_diesel :: "reward_snapshot \<Rightarrow> int \<Rightarrow> string \<times> (address \<times> int) list \<Rightarrow> lm_world \<Rightarrow> lm_world res" where
  "reward_diesel snapshot blocks_n entry w =
    (case entry of (dieselSym, userAndBalance) \<Rightarrow>
     rbind (deref (decimalsAndPool w dieselSym)) (\<lambda>(_, pool).
       let rewardPerBlock = zget 0 (RewardPerBlock snapshot) dieselSym in
       rfold (\<lambda>(user, balance) w.
           rbind (user_reward (map_of (totalSupplies w) dieselSym) balance rewardPerBlock blocks_n) (\<lambda>reward.
             Inr (addUserReward pool user reward w)))
         userAndBalance w))"

primrec calc_snapshots :: "reward_snapshot list \<Rightarrow> int \<Rightarrow> int \<Rightarrow> lm_world \<Rightarrow> lm_world res" where
  "calc_snapshots [] snapStart to w = Inr w"
| "calc_snapshots (snapshot # rest) snapStart to w =
    (let snapEnd = (case rest of [] \<Rightarrow> to | n # _ \<Rightarrow> rs_Block n - 1) in
     rbind (rfold (reward_diesel snapshot (snapEnd - snapStart + 1)) (dieselBalances w) w)
       (calc_snapshots rest (snapEnd + 1) to))"

definition calculateRewards :: "lm_env \<Rightarrow> int \<Rightarrow> int \<Rightarrow> lm_world \<Rightarrow> lm_world res" where
  "calculateRewards E from to w =
    (let snapshots = GetRewardPerToken E from to;
         snapStart = (case snapshots of [] \<Rightarrow> from | s # _ \<Rightarrow> if from < rs_Block s then rs_Block s else from)
     in calc_snapshots snapshots snapStart to w)"

section \<open>Transfers\<close>

definition addBalance :: "string \<Rightarrow> address \<Rightarrow> int \<Rightarrow> lm_world \<Rightarrow> lm_world" where
  "addBalance tokenSym user amount w = w\<lparr>dieselBalances := add_at tokenSym user amount (dieselBalances w)\<rparr>"

definition addSupply :: "string \<Rightarrow> int \<Rightarrow> lm_world \<Rightarrow> lm_world" where
  "addSupply tokenSym amount w =
    w\<lparr>totalSupplies := AList.update tokenSym (aget 0 (totalSupplies w) tokenSym + amount) (totalSupplies w)\<rparr>"

text \<open>The booking of a transfer, after the rewards of the blocks before it.\<close>

definition lm_transfer :: "lm_env \<Rightarrow> lm_log \<Rightarrow> lm_world \<Rightarrow> lm_world res" where
  "lm_transfer E txLog w =
    (case payload txLog of (tfrom, tto, amount) \<Rightarrow>
       rbind (GetToken (lm_NewToken E) (logAddress txLog) (lm_tokens w)) (\<lambda>(t, r).
       rbind (deref t) (\<lambda>tok.
         let tokenSym = tok_Symbol tok;
             w2 = w\<lparr>lm_tokens := r\<rparr>;
             w3 = (if tto = NULL_ADDR then addSupply tokenSym (- amount) w2 else addBalance tokenSym tto amount w2)
         in rbind (AddDieselTransfer (lm_chain E) \<lparr>dt_From = tfrom, dt_To = tto, dt_LogId = Index txLog, dt_TokenSymbol = tokenSym,
                dt_Amount = lm_GetFloat64Decimal E amount (tok_Decimals tok), dt_BlockNum = BlockNumber txLog\<rparr> (lm_blocks w3)) (\<lambda>bs.
            let w4 = w3\<lparr>lm_blocks := bs\<rparr> in
            Inr (if tfrom = NULL_ADDR then addSupply tokenSym amount w4 else addBalance tokenSym tfrom (- amount) w4)))))"

definition lm_OnLog :: "lm_env \<Rightarrow> lm_log \<Rightarrow> lm_world \<Rightarrow> lm_world res" where
  "lm_OnLog E txLog w =
    (if snd (snd (payload txLog)) = 0 then Inr w
     else
       let currentBlock = BlockNumber txLog in
       rbind (if currentBlock \<noteq> pendingCalcBlock w
              then rbind (calculateRewards E (pendingCalcBlock w) (currentBlock - 1) w) (\<lambda>w1. Inr (w1\<lparr>pendingCalcBlock := currentBlock\<rparr>))
              else Inr w)
         (lm_transfer E txLog))"

definition totalSuppliesToDetails :: "lm_world \<Rightarrow> lm_world" where
  "totalSuppliesToDetails w =
    w\<lparr>lm_adapter := (lm_adapter w)\<lparr>Details := Some (map (\<lambda>(sym, s). (sym, JInt s)) (totalSupplies w))\<rparr>\<rparr>"

text \<open>Supplies are read back from decimal strings; a value of another type is nil, which reads like a missing one.\<close>

definition detailsToTotalSupplies :: "lm_env \<Rightarrow> lm_world \<Rightarrow> lm_world res" where
  "detailsToTotalSupplies E w =
    rbind (rfold (\<lambda>(sym, v) acc. case v of
          JString s \<Rightarrow> (case ParseDecimal E s of None \<Rightarrow> Inl (Fatal '''') | Some n \<Rightarrow> Inr (AList.update sym n acc))
        | _ \<Rightarrow> Inr acc) (case Details (lm_adapter w) of None \<Rightarrow> [] | Some d \<Rightarrow> d) []) (\<lambda>supplies.
      Inr (w\<lparr>totalSupplies := supplies\<rparr>))"

definition lm_AfterSyncHook :: "lm_env \<Rightarrow> int \<Rightarrow> lm_world \<Rightarrow> lm_world res" where
  "lm_AfterSyncHook E syncedTill w =
    rbind (calculateRewards E (pendingCalcBlock w) syncedTill w) (\<lambda>w1.
      let w2 = totalSuppliesToDetails (w1\<lparr>pendingCalcBlock := syncedTill + 1\<rparr>)
      in Inr (w2\<lparr>lm_adapter := sa_AfterSyncHook syncedTill (lm_adapter w2), hasDataToSave := True\<rparr>))"

definition lm_GetAllAddrsForLogs :: "lm_env \<Rightarrow> lm_world \<Rightarrow> (address list \<times> lm_world) res" where
  "lm_GetAllAddrsForLogs E w =
    rfold (\<lambda>(addr, _, pool) (addrs, w).
        rbind (GetToken (lm_NewToken E) addr (lm_tokens w)) (\<lambda>(t, r).
        rbind (deref t) (\<lambda>tok.
          Inr (addrs @ [addr], w\<lparr>lm_tokens := r,
            decimalsAndPool := (decimalsAndPool w)(tok_Symbol tok \<mapsto> (tok_Decimals tok, pool))\<rparr>))))
      (dieselTokens (lm_tokens w)) ([], w)"

section \<open>Rows\<close>

record diesel_balance =
  BalanceBI :: int
  db_Balance :: rat
  db_User :: address
  db_Diesel :: string

definition GetDieselBalances :: "lm_env \<Rightarrow> lm_world \<Rightarrow> diesel_balance list res" where
  "GetDieselBalances E w =
    (if \<not> hasDataToSave w then Inr []
     else rfold (\<lambda>(tokenSym, balances) rows.
         rbind (deref (decimalsAndPool w tokenSym)) (\<lambda>(decimals, _).
           Inr (rows @ map (\<lambda>(user, b). \<lparr>BalanceBI = b, db_Balance = lm_GetFloat64Decimal E b decimals,
             db_User = user, db_Diesel = tokenSym\<rparr>) balances)))
       (dieselBalances w) [])"

definition set_at :: "'k \<Rightarrow> 'u \<Rightarrow> int \<Rightarrow> ('k \<times> ('u \<times> int) list) list \<Rightarrow> ('k \<times> ('u \<times> int) list) list" where
  "set_at k u amount m = AList.update k (AList.update u amount (aget [] m k)) m"

definition LoadDieselBalances :: "diesel_balance list \<Rightarrow> lm_world \<Rightarrow> lm_world" where
  "LoadDieselBalances rows w =
    foldl (\<lambda>w row. w\<lparr>dieselBalances := set_at (db_Diesel row) (db_User row) (BalanceBI row) (dieselBalances w)\<rparr>) w rows"

text \<open>A reward row: user, pool, reward.\<close>

definition GetLMRewards :: "lm_world \<Rightarrow> (address \<times> address \<times> int) list" where
  "GetLMRewards w =
    (if \<not> hasDataToSave w then []
     else concat (map (\<lambda>(pool, rewardForUsers). map (\<lambda>(user, reward). (user, pool, reward)) rewardForUsers) (lm_rewards w)))"

definition LoadLMRewards :: "(address \<times> address \<times> int) list \<Rightarrow> lm_world \<Rightarrow> lm_world" where
  "LoadLMRewards rows w = foldl (\<lambda>w (user, pool, reward). w\<lparr>lm_rewards := set_at pool user reward (lm_rewards w)\<rparr>) w rows"

definition SyncComplete :: "lm_world \<Rightarrow> lm_world" where
  "SyncComplete w = w\<lparr>hasDataToSave := False\<rparr>"

end
