(* ===== verification/LM_Rewards_Correct.thy ===== *)
theory LM_Rewards_Correct
  imports LM_Rewards
begin

text \<open>
  Correctness of the rewards: supplies are the sums of balances, what is paid for a range of blocks is bounded by the
  reward of the range, and a token whose supply has gone back to zero stops the process.
\<close>

section \<open>Sums\<close>

abbreviation total_of :: "('u \<times> int) list \<Rightarrow> int" where
  "total_of al \<equiv> sum_list (map snd al)"

definition held :: "lm_world \<Rightarrow> string \<Rightarrow> int" where
  "held w dsym = total_of (aget [] (dieselBalances w) dsym)"

definition supplied :: "lm_world \<Rightarrow> string \<Rightarrow> int" where
  "supplied w dsym = aget 0 (totalSupplies w) dsym"

definition paid :: "lm_world \<Rightarrow> address \<Rightarrow> int" where
  "paid w pool = total_of (aget [] (lm_rewards w) pool)"

lemma total_update: "total_of (AList.update u v al) = total_of al - aget 0 al u + v"
  by (induction al) auto

lemma total_add_at: "total_of (aget [] (add_at k u a m) k') = total_of (aget [] m k') + (if k' = k then a else 0)"
  by (simp add: add_at_def Let_def total_update)

lemma held_addBalance [simp]: "held (addBalance s u a w) = (held w)(s := held w s + a)"
  by (rule ext) (simp add: held_def addBalance_def total_add_at)

lemma supply_addBalance [simp]: "supplied (addBalance s u a w) = supplied w"
  by (rule ext) (simp add: supplied_def addBalance_def)

lemma held_addSupply [simp]: "held (addSupply s a w) = held w"
  by (rule ext) (simp add: held_def addSupply_def)

lemma supply_addSupply [simp]: "supplied (addSupply s a w) = (supplied w)(s := supplied w s + a)"
  by (rule ext) (simp add: supplied_def addSupply_def)

lemma lm_view_fields [simp]:
  "held (w\<lparr>lm_tokens := r\<rparr>) = held w" "supplied (w\<lparr>lm_tokens := r\<rparr>) = supplied w"
  "held (w\<lparr>lm_blocks := bs\<rparr>) = held w" "supplied (w\<lparr>lm_blocks := bs\<rparr>) = supplied w"
  "held (w\<lparr>pendingCalcBlock := b\<rparr>) = held w" "supplied (w\<lparr>pendingCalcBlock := b\<rparr>) = supplied w"
  by (simp_all add: held_def supplied_def fun_eq_iff)

section \<open>Rewards leave balances alone\<close>

lemma addUserReward_only:
  "dieselBalances (addUserReward p u x w) = dieselBalances w" "totalSupplies (addUserReward p u x w) = totalSupplies w"
  "decimalsAndPool (addUserReward p u x w) = decimalsAndPool w"
  by (simp_all add: addUserReward_def)

lemma reward_diesel_keeps:
  assumes "reward_diesel s n e w = Inr w'"
  shows "dieselBalances w' = dieselBalances w \<and> totalSupplies w' = totalSupplies w"
proof -
  obtain dsym us pool d where e: "e = (dsym, us)" and "rfold (\<lambda>(user, balance) w.
      rbind (user_reward (map_of (totalSupplies w) dsym) balance (zget 0 (RewardPerBlock s) dsym) n) (\<lambda>reward.
        Inr (addUserReward pool user reward w))) us w = Inr w'"
    using assms by (cases e) (auto simp: reward_diesel_def Let_def elim!: rbind_InrE)
  from this(2) show ?thesis
    by (rule rfold_invariant) (auto simp: addUserReward_only elim!: rbind_InrE)
qed

lemma calc_snapshots_keeps:
  "calc_snapshots ss fr till w = Inr w' \<Longrightarrow> dieselBalances w' = dieselBalances w \<and> totalSupplies w' = totalSupplies w"
proof (induction ss arbitrary: fr w)
  case (Cons s ss)
  then obtain n fr' w1 where w1: "rfold (reward_diesel s n) (dieselBalances w) w = Inr w1" "calc_snapshots ss fr' till w1 = Inr w'"
    by (auto simp: Let_def elim!: rbind_InrE)
  from w1(1) have "dieselBalances w1 = dieselBalances w \<and> totalSupplies w1 = totalSupplies w"
    by (rule rfold_invariant) (auto dest: reward_diesel_keeps)
  with Cons.IH[OF w1(2)] show ?case by simp
qed simp

lemma calculateRewards_keeps:
  "calculateRewards E fr till w = Inr w' \<Longrightarrow> held w' = held w \<and> supplied w' = supplied w"
  by (auto simp: calculateRewards_def Let_def held_def supplied_def fun_eq_iff dest!: calc_snapshots_keeps)

lemma lm_transfer_supply:
  assumes "lm_transfer E lg w = Inr w'" and "supplied w = held w"
  shows "supplied w' = held w'"
proof -
  obtain tfrom tto amount where p: "payload lg = (tfrom, tto, amount)" by (cases "payload lg")
  show ?thesis using assms p unfolding lm_transfer_def Let_def by (clarsimp simp: fun_eq_iff elim!: rbind_InrE)
qed

lemma lm_OnLog_supply:
  assumes "lm_OnLog E lg w = Inr w'" and "supplied w = held w"
  shows "supplied w' = held w'"
proof (cases "snd (snd (payload lg)) = 0")
  case False
  obtain w1 where w1: "held w1 = held w \<and> supplied w1 = supplied w" "lm_transfer E lg w1 = Inr w'"
  proof (cases "BlockNumber lg = pendingCalcBlock w")
    case True
    then show ?thesis using assms(1) False that[of w] by (simp add: lm_OnLog_def)
  next
    case new: False
    then obtain v where v: "calculateRewards E (pendingCalcBlock w) (BlockNumber lg - 1) w = Inr v"
      "lm_transfer E lg (v\<lparr>pendingCalcBlock := BlockNumber lg\<rparr>) = Inr w'"
      using assms(1) False by (auto simp: lm_OnLog_def rbind_assoc Let_def elim!: rbind_InrE)
    show ?thesis using calculateRewards_keeps[OF v(1)] v(2) by (intro that[of "v\<lparr>pendingCalcBlock := BlockNumber lg\<rparr>"]) simp_all
  qed
  then show ?thesis using lm_transfer_supply assms(2) by simp
qed (use assms in \<open>simp add: lm_OnLog_def\<close>)

text \<open>
  C36: the supply of every diesel token is the sum of the balances of its holders.  This holds after any
  transfers, mints and burns, with rewards calculated between them, when it held before; a new adapter
  starts with nothing held and no supply.
\<close>

theorem lm_supply_is_held:
  assumes "rfold (lm_OnLog E) logs w = Inr w'" and "supplied w = held w"
  shows "supplied w' = held w'"
  using assms(1,2) by (rule rfold_invariant) (rule lm_OnLog_supply)

section \<open>What is paid\<close>

lemma paid_addUserReward: "paid (addUserReward p u x w) p' = paid w p' + (if p' = p then x else 0)"
  by (simp add: paid_def addUserReward_def total_add_at)

lemma reward_loop_paid:
  assumes "rfold (\<lambda>(user, balance) w. rbind (user_reward (map_of (totalSupplies w) dsym) balance r n) (\<lambda>reward.
        Inr (addUserReward pool user reward w))) us w = Inr w'"
    and "map_of (totalSupplies w) dsym = Some S" and "0 < S"
  shows "paid w' pool = paid w pool + sum_list (map (\<lambda>(_, b). quo (b * r * n) S) us)"
  using assms
proof (induction us arbitrary: w)
  case (Cons e us)
  obtain u b where e: "e = (u, b)" by (cases e)
  have "rfold (\<lambda>(user, balance) w. rbind (user_reward (map_of (totalSupplies w) dsym) balance r n) (\<lambda>reward.
        Inr (addUserReward pool user reward w))) us (addUserReward pool u (quo (b * r * n) S) w) = Inr w'"
    using Cons.prems by (simp add: e user_reward_def)
  from Cons.IH[OF this] show ?case using Cons.prems(2,3) by (simp add: addUserReward_only paid_addUserReward e)
qed simp

lemma shares_bounds:
  assumes "\<forall>(u, b) \<in> set us. 0 \<le> b" and "0 < (S :: int)" and "0 \<le> x"
  shows "S * sum_list (map (\<lambda>(_, b). b * x div S) us) \<le> total_of us * x \<and>
    total_of us * x \<le> S * (sum_list (map (\<lambda>(_, b). b * x div S) us) + int (length us))"
  using assms(1)
proof (induction us)
  case (Cons e us)
  obtain u b where e: "e = (u, b)" by (cases e)
  have "S * (b * x div S) \<le> b * x" "b * x \<le> S * (b * x div S) + S"
    using assms(2) by (simp_all add: minus_mod_eq_mult_div[symmetric] less_imp_le)
  then show ?case using Cons by (simp add: e algebra_simps)
qed simp

text \<open>
  A pool never pays more than its reward.  For a token whose supply is the sum of its balances, the shares added for
  a number of blocks sum up to at most the reward of those blocks, and rounding keeps back less than one unit
  for each holder.
\<close>

theorem rewards_bounded:
  assumes "reward_diesel s n (dsym, aget [] (dieselBalances w) dsym) w = Inr w'" and "decimalsAndPool w dsym = Some (d, pool)"
    and "supplied w dsym = held w dsym" and "0 < supplied w dsym" and "\<forall>(u, b) \<in> set (aget [] (dieselBalances w) dsym). 0 \<le> b"
    and "RewardPerBlock s dsym = Some r" and "0 \<le> r" and "0 \<le> n"
  shows "paid w' pool \<le> paid w pool + r * n \<and>
    paid w pool + r * n - int (length (aget [] (dieselBalances w) dsym)) \<le> paid w' pool"
proof -
  let ?us = "aget [] (dieselBalances w) dsym" and ?S = "supplied w dsym"
  have S: "map_of (totalSupplies w) dsym = Some ?S" using assms(4) by (auto simp: supplied_def aget_def split: option.splits)
  have loop: "rfold (\<lambda>(user, balance) w. rbind (user_reward (map_of (totalSupplies w) dsym) balance r n) (\<lambda>reward.
        Inr (addUserReward pool user reward w))) ?us w = Inr w'"
    using assms(1,2,6) by (simp add: reward_diesel_def)
  have eq: "map (\<lambda>(_, b). quo (b * r * n) ?S) ?us = map (\<lambda>(_, b). b * (r * n) div ?S) ?us"
    using assms(4,5,7,8) by (auto simp: mult.assoc)
  have "?S * sum_list (map (\<lambda>(_, b). b * (r * n) div ?S) ?us) \<le> ?S * (r * n)"
    "?S * (r * n) \<le> ?S * (sum_list (map (\<lambda>(_, b). b * (r * n) div ?S) ?us) + int (length ?us))"
    using shares_bounds[OF assms(5,4), of "r * n"] assms(3,7,8) by (simp_all add: held_def)
  then have "sum_list (map (\<lambda>(_, b). b * (r * n) div ?S) ?us) \<le> r * n"
    "r * n \<le> sum_list (map (\<lambda>(_, b). b * (r * n) div ?S) ?us) + int (length ?us)"
    using assms(4) by (simp_all only: mult_le_cancel_left_pos)
  then show ?thesis using reward_loop_paid[OF loop S assms(4)] eq by simp
qed

section \<open>A token without supply\<close>

text \<open>
  A diesel token that was minted and burnt again stops the process.  Once the supply on record is zero and a former
  holder is still on record, calculating the rewards of any range with a reward snapshot divides by zero.
\<close>

theorem zero_supply_panics:
  assumes "dieselBalances w = [(dsym, (u, b) # us)]" and "map_of (totalSupplies w) dsym = Some 0" and "decimalsAndPool w dsym = Some p"
    and "GetRewardPerToken E fr till \<noteq> []"
  shows "calculateRewards E fr till w = Inl DivisionByZero"
proof -
  obtain s ss where "GetRewardPerToken E fr till = s # ss" using assms(4) by (cases "GetRewardPerToken E fr till") auto
  then show ?thesis using assms(1-3)
    by (cases p) (simp add: calculateRewards_def reward_diesel_def user_reward_def Quo_def Let_def)
qed

section \<open>A concrete adapter\<close>

definition demo_lm_env :: lm_env where
  "demo_lm_env = \<lparr>lm_chain = demo_chain, lm_NewToken = (\<lambda>a. Some \<lparr>tok_Address = a, tok_Symbol = ''dT'', tok_Decimals = 6\<rparr>),
     lm_GetFloat64Decimal = (\<lambda>x _. of_int x), GetRewardPerToken = (\<lambda>_ _. [\<lparr>rs_Block = 0, RewardPerBlock = [''dT'' \<mapsto> 100]\<rparr>]),
     ParseDecimal = (\<lambda>_. None)\<rparr>"

definition demo_lm :: lm_world where
  "demo_lm = \<lparr>lm_adapter = \<lparr>Address = ''lm'', ContractName = ''PoolLMRewards'', DiscoveredAt = 1, FirstLogAt = 1, LastSync = 0,
       Disabled = False, BlockToDisableOn = 0, V = 1, ErrorMsg = '''', Details = None, UnderlyingStateToSave = False,
       DataProcessType = 0, WillSyncTill = 0\<rparr>,
     pendingCalcBlock = 1, dieselBalances = [], lm_rewards = [], totalSupplies = [], decimalsAndPool = [''dT'' \<mapsto> (6, ''pool'')],
     hasDataToSave = False, lm_blocks = NewBlocksRepo,
     lm_tokens = \<lparr>wethAddr = '''', usdcAddr = '''', gearTokenAddr = '''', tr_tokens = [], dieselTokens = []\<rparr>\<rparr>"

definition demo_lm_log :: "int \<Rightarrow> address \<Rightarrow> address \<Rightarrow> int \<Rightarrow> lm_log" where
  "demo_lm_log b f t a = \<lparr>BlockNumber = b, Index = 0, TxIndex = 0, TxHash = '''', logAddress = ''d'', topic0 = '''', payload = (f, t, a)\<rparr>"

definition demo_lm_mint :: "lm_log list" where
  "demo_lm_mint = [demo_lm_log 5 NULL_ADDR ''ann'' 30, demo_lm_log 5 NULL_ADDR ''bob'' 10, demo_lm_log 9 ''ann'' ''bob'' 5]"

lemma demo_lm_run:
  "case rfold (lm_OnLog demo_lm_env) demo_lm_mint demo_lm of Inl _ \<Rightarrow> False
   | Inr w \<Rightarrow> dieselBalances w = [(''dT'', [(''ann'', 25), (''bob'', 15)])] \<and> totalSupplies w = [(''dT'', 40)] \<and>
       decimalsAndPool w ''dT'' = Some (6, ''pool'') \<and>
       (case reward_diesel \<lparr>rs_Block = 0, RewardPerBlock = [''dT'' \<mapsto> 101]\<rparr> 3 (''dT'', [(''ann'', 25), (''bob'', 15)]) w of
          Inl _ \<Rightarrow> False | Inr w' \<Rightarrow> True)"
  by code_simp

theorem lm_supply_is_held_witness:
  "\<exists>w'. rfold (lm_OnLog demo_lm_env) demo_lm_mint demo_lm = Inr w' \<and> held w' ''dT'' = 40 \<and> supplied w' ''dT'' = held w' ''dT''"
proof -
  obtain w' where w': "rfold (lm_OnLog demo_lm_env) demo_lm_mint demo_lm = Inr w'" "dieselBalances w' = [(''dT'', [(''ann'', 25), (''bob'', 15)])]"
    using case_InrD[OF demo_lm_run] by (elim exE conjE)
  have "supplied demo_lm = held demo_lm" by (simp add: supplied_def held_def demo_lm_def fun_eq_iff)
  from lm_supply_is_held[OF w'(1) this] show ?thesis using w' by (intro exI[of _ w']) (simp add: held_def)
qed

theorem rewards_bounded_witness:
  "\<exists>w w'. reward_diesel \<lparr>rs_Block = 0, RewardPerBlock = [''dT'' \<mapsto> 101]\<rparr> 3 (''dT'', [(''ann'', 25), (''bob'', 15)]) w = Inr w' \<and>
    paid w' ''pool'' \<le> paid w ''pool'' + 303 \<and> paid w ''pool'' + 301 \<le> paid w' ''pool''"
proof -
  obtain w where w: "dieselBalances w = [(''dT'', [(''ann'', 25), (''bob'', 15)])]" "totalSupplies w = [(''dT'', 40)]"
    "decimalsAndPool w ''dT'' = Some (6, ''pool'')"
    "case reward_diesel \<lparr>rs_Block = 0, RewardPerBlock = [''dT'' \<mapsto> 101]\<rparr> 3 (''dT'', [(''ann'', 25), (''bob'', 15)]) w of
          Inl _ \<Rightarrow> False | Inr w' \<Rightarrow> True"
    using case_InrD[OF demo_lm_run] by (elim exE conjE)
  obtain w' where w': "reward_diesel \<lparr>rs_Block = 0, RewardPerBlock = [''dT'' \<mapsto> 101]\<rparr> 3 (''dT'', [(''ann'', 25), (''bob'', 15)]) w = Inr w'"
    using case_InrD[OF w(4)] by (elim exE conjE)
  have us: "aget [] (dieselBalances w) ''dT'' = [(''ann'', 25), (''bob'', 15)]" "supplied w ''dT'' = 40" "held w ''dT'' = 40"
    using w(1,2) by (simp_all add: supplied_def held_def)
  show ?thesis using rewards_bounded[of "\<lparr>rs_Block = 0, RewardPerBlock = [''dT'' \<mapsto> 101]\<rparr>" 3 "''dT''" w w' 6 "''pool''" 101] w' us w(3)
    by (intro exI[of _ w] exI[of _ w']) simp
qed

lemma demo_lm_burnt:
  "case rfold (lm_OnLog demo_lm_env) [demo_lm_log 5 NULL_ADDR ''ann'' 30, demo_lm_log 6 ''ann'' NULL_ADDR 30] demo_lm of Inl _ \<Rightarrow> False
   | Inr w \<Rightarrow> dieselBalances w = [(''dT'', [(''ann'', 0)])] \<and> map_of (totalSupplies w) ''dT'' = Some 0 \<and>
       decimalsAndPool w ''dT'' = Some (6, ''pool'')"
  by code_simp

theorem zero_supply_panics_witness:
  "\<exists>w. rfold (lm_OnLog demo_lm_env) [demo_lm_log 5 NULL_ADDR ''ann'' 30, demo_lm_log 6 ''ann'' NULL_ADDR 30] demo_lm = Inr w \<and>
    calculateRewards demo_lm_env 6 9 w = Inl DivisionByZero"
proof -
  obtain w where w: "rfold (lm_OnLog demo_lm_env) [demo_lm_log 5 NULL_ADDR ''ann'' 30, demo_lm_log 6 ''ann'' NULL_ADDR 30] demo_lm = Inr w"
    "dieselBalances w = [(''dT'', [(''ann'', 0)])]" "map_of (totalSupplies w) ''dT'' = Some 0" "decimalsAndPool w ''dT'' = Some (6, ''pool'')"
    using case_InrD[OF demo_lm_burnt] by (elim exE conjE)
  have "calculateRewards demo_lm_env 6 9 w = Inl DivisionByZero"
    by (rule zero_supply_panics[OF w(2,3,4)]) (simp add: demo_lm_env_def)
  then show ?thesis using w(1) by (intro exI[of _ w]) simp
qed

end
