(* ===== verification/Gear_Token.thy ===== *)
theory Gear_Token
  imports Sync_Engine Refinement
begin

text \<open>
  Balances of the GEAR token (\<^verbatim>\<open>models/gear_token\<close>): kept from its transfers and saved when they changed.  Balances are
  objects; a transfer from a user to himself reads one object twice if the user is known, and makes two
  objects if not.
\<close>

record gear_balance =
  gb_Balance :: int
  gb_Updated :: bool

record gear_world =
  gear_adapter :: sync_adapter
  gear_State :: "(address \<times> gear_balance) list"
  arrayOfGearBalanceUpdates :: "(address \<times> gear_balance) list"

text \<open>The event: from, to, value; other events are \<open>None\<close>.\<close>

type_synonym gear_log = "(address \<times> address \<times> int) option txlog"

definition gear_balance_of :: "gear_world \<Rightarrow> address \<Rightarrow> int" where
  "gear_balance_of w u = (case map_of (gear_State w) u of None \<Rightarrow> 0 | Some b \<Rightarrow> gb_Balance b)"

definition UpdateStateBalances :: "address \<Rightarrow> address \<Rightarrow> int \<Rightarrow> gear_world \<Rightarrow> gear_world" where
  "UpdateStateBalances tfrom tto value w =
    (let fromBalance = gear_balance_of w tfrom - value;
         sameObject = (tfrom = tto \<and> map_of (gear_State w) tfrom \<noteq> None);
         toBalance = (if sameObject then fromBalance else gear_balance_of w tto) + value;
         state1 = AList.update tfrom \<lparr>gb_Balance = fromBalance, gb_Updated = True\<rparr> (gear_State w)
     in w\<lparr>gear_State := AList.update tto \<lparr>gb_Balance = toBalance, gb_Updated = True\<rparr> state1\<rparr>)"

definition gear_OnLog :: "gear_log \<Rightarrow> gear_world \<Rightarrow> gear_world res" where
  "gear_OnLog txLog w =
    Inr (case payload txLog of None \<Rightarrow> w | Some (tfrom, tto, value) \<Rightarrow> UpdateStateBalances tfrom tto value w)"

text \<open>\<^verbatim>\<open>HasUnderlyingStateToSave\<close> moves what changed to the array that \<^verbatim>\<open>GetUnderlyingState\<close> hands out.  The rows are the balance objects
  themselves, whose mark is reset.\<close>

definition gear_HasUnderlyingStateToSave :: "gear_world \<Rightarrow> bool \<times> gear_world" where
  "gear_HasUnderlyingStateToSave w =
    (let gb = map (\<lambda>(u, b). (u, b\<lparr>gb_Updated := False\<rparr>)) (filter (\<lambda>(_, b). gb_Updated b) (gear_State w))
     in (gb \<noteq> [], w\<lparr>gear_State := map (\<lambda>(u, b). (u, b\<lparr>gb_Updated := False\<rparr>)) (gear_State w), arrayOfGearBalanceUpdates := gb\<rparr>))"

definition gear_GetUnderlyingState :: "gear_world \<Rightarrow> (address \<times> gear_balance) list \<times> gear_world" where
  "gear_GetUnderlyingState w = (arrayOfGearBalanceUpdates w, w\<lparr>arrayOfGearBalanceUpdates := []\<rparr>)"

definition gear_SetUnderlyingState :: "(address \<times> gear_balance) list \<Rightarrow> gear_world \<Rightarrow> gear_world" where
  "gear_SetUnderlyingState gb w =
    w\<lparr>gear_adapter := (gear_adapter w)\<lparr>UnderlyingStateToSave := True\<rparr>,
      gear_State := foldl (\<lambda>m (u, b). AList.update u b m) [] gb\<rparr>"

section \<open>Balances\<close>

lemma sum_update: "sum_list (map (f \<circ> snd) (AList.update k v al)) =
    sum_list (map (f \<circ> snd) al) - (case map_of al k of None \<Rightarrow> 0 | Some x \<Rightarrow> f x) + (f v :: int)"
  by (induction al) auto

definition gear_total :: "gear_world \<Rightarrow> int" where
  "gear_total w = sum_list (map (gb_Balance \<circ> snd) (gear_State w))"

text \<open>Transfers between different users, which are all that can change a balance.\<close>

definition gear_transfer :: "gear_log \<Rightarrow> bool" where
  "gear_transfer lg \<longleftrightarrow> (case payload lg of Some (tfrom, tto, _) \<Rightarrow> tfrom \<noteq> tto | None \<Rightarrow> True)"

definition gear_spec :: "gear_log \<Rightarrow> (address \<Rightarrow> int) \<times> int \<Rightarrow> (address \<Rightarrow> int) \<times> int" where
  "gear_spec lg v = (case payload lg of
     Some (tfrom, tto, value) \<Rightarrow> ((fst v)(tfrom := fst v tfrom - value, tto := fst v tto + value), snd v)
   | None \<Rightarrow> v)"

lemma UpdateStateBalances_view:
  assumes "tfrom \<noteq> tto"
  shows "gear_balance_of (UpdateStateBalances tfrom tto v w) =
      (gear_balance_of w)(tfrom := gear_balance_of w tfrom - v, tto := gear_balance_of w tto + v)"
    and "gear_total (UpdateStateBalances tfrom tto v w) = gear_total w"
proof -
  show "gear_balance_of (UpdateStateBalances tfrom tto v w) =
      (gear_balance_of w)(tfrom := gear_balance_of w tfrom - v, tto := gear_balance_of w tto + v)"
    using assms by (intro ext) (simp add: UpdateStateBalances_def gear_balance_of_def Let_def)
  show "gear_total (UpdateStateBalances tfrom tto v w) = gear_total w"
    using assms by (simp add: gear_total_def UpdateStateBalances_def sum_update Let_def)
      (simp add: gear_balance_of_def split: option.splits)
qed

interpretation gear: event_refinement gear_OnLog gear_transfer "\<lambda>_. True" "\<lambda>w. (gear_balance_of w, gear_total w)" gear_spec
  by unfold_locales (auto simp: gear_OnLog_def gear_transfer_def gear_spec_def UpdateStateBalances_view split: option.splits)

text \<open>What a user received and what he sent.\<close>

definition received :: "address \<Rightarrow> gear_log list \<Rightarrow> int" where
  "received u logs = sum_list (map (\<lambda>lg. case payload lg of Some (_, tto, v) \<Rightarrow> if tto = u then v else 0 | None \<Rightarrow> 0) logs)"

definition sent :: "address \<Rightarrow> gear_log list \<Rightarrow> int" where
  "sent u logs = sum_list (map (\<lambda>lg. case payload lg of Some (tfrom, _, v) \<Rightarrow> if tfrom = u then v else 0 | None \<Rightarrow> 0) logs)"

lemma gear_spec_fold:
  assumes "\<forall>lg \<in> set logs. gear_transfer lg"
  shows "fst (fold gear_spec logs v) u = fst v u + received u logs - sent u logs \<and> snd (fold gear_spec logs v) = snd v"
  using assms
  by (induction logs arbitrary: v) (auto simp: gear_spec_def received_def sent_def gear_transfer_def split: option.splits)

text \<open>
  GEAR balances are exactly what the transfers say: after any logs every user has his old balance
  and what he received less what he sent, and the sum of all balances, with minted tokens as debt of the
  zero address, is the same as before.
\<close>

theorem gear_balances:
  assumes "\<forall>lg \<in> set logs. gear_transfer lg"
  shows "\<exists>w'. rfold gear_OnLog logs w = Inr w' \<and> gear_total w' = gear_total w \<and>
    gear_balance_of w' u = gear_balance_of w u + received u logs - sent u logs"
proof -
  obtain w' where w': "rfold gear_OnLog logs w = Inr w'"
    using rfold_total[of "\<lambda>_. True" w logs gear_OnLog] by (auto simp: gear_OnLog_def)
  have "(gear_balance_of w', gear_total w') = fold gear_spec logs (gear_balance_of w, gear_total w)"
    using gear.run_refines[OF w'] assms by simp
  then show ?thesis using w' gear_spec_fold[OF assms, of "(gear_balance_of w, gear_total w)" u] by (metis fst_conv snd_conv)
qed

definition demo_gear :: gear_world where
  "demo_gear = \<lparr>gear_adapter = \<lparr>Address = ''gear'', ContractName = ''GearToken'', DiscoveredAt = 1, FirstLogAt = 1, LastSync = 0,
       Disabled = False, BlockToDisableOn = 0, V = 1, ErrorMsg = '''', Details = None, UnderlyingStateToSave = True,
       DataProcessType = 0, WillSyncTill = 0\<rparr>,
     gear_State = [], arrayOfGearBalanceUpdates = []\<rparr>"

definition demo_gear_logs :: "gear_log list" where
  "demo_gear_logs = map (\<lambda>p. \<lparr>BlockNumber = 1, Index = 0, TxIndex = 0, TxHash = '''', logAddress = ''gear'', topic0 = '''', payload = p\<rparr>)
     [Some (''0x0'', ''ann'', 100), Some (''ann'', ''bob'', 30)]"

theorem gear_balances_witness:
  "\<exists>w'. rfold gear_OnLog demo_gear_logs demo_gear = Inr w' \<and> gear_total w' = 0 \<and> gear_balance_of w' ''ann'' = 70"
  using gear_balances[of demo_gear_logs demo_gear "''ann''"]
  by (simp add: demo_gear_def demo_gear_logs_def gear_transfer_def gear_total_def gear_balance_of_def received_def sent_def)

end
