(* ===== verification/Price_Feeds.thy ===== *)
theory Price_Feeds
  imports Repo_Config
begin

text \<open>
  Prices from chainlink: the main aggregator and the search for the block in which its feed changed
  (\<^verbatim>\<open>chainlink_main_aggregator.go\<close>), the feed of a token (\<^verbatim>\<open>models/chainlink_price_feed\<close>), composite feeds
  (\<^verbatim>\<open>models/composite_chainlink\<close>), the kind of a new feed (\<^verbatim>\<open>models/price_oracle\<close>) and the current oracles of
  tokens (\<^verbatim>\<open>repository/handlers/token_oracle.go\<close>).

  Calls of contracts are fields of \<open>feed_env\<close>; \<open>None\<close> is an error of the call.  The adapters that \<^verbatim>\<open>GetAdapter\<close> finds are one
  list; calls into the aggregated feed and its dependency fetcher are recorded.
\<close>

section \<open>Data\<close>

record main_agg =
  ma_Addr :: address
  ma_bounded :: bool

record feed_env =
  fe_chain :: chain_env
  ChainID :: int
  PhaseId :: "address \<Rightarrow> int \<Rightarrow> 16 word option"
  PhaseAggregators :: "address \<Rightarrow> int \<Rightarrow> 16 word \<Rightarrow> bool \<Rightarrow> address option"    \<comment> \<open>the last argument: the name without s\<close>
  Aggregator :: "address \<Rightarrow> int \<Rightarrow> address option"
  CallPriceFeed :: "address \<Rightarrow> int \<Rightarrow> address option"                  \<comment> \<open>\<^verbatim>\<open>741bef1a\<close>\<close>
  CallPhaseAggregator :: "address \<Rightarrow> int \<Rightarrow> 8 word \<Rightarrow> address option"    \<comment> \<open>\<^verbatim>\<open>d6bcd745\<close>\<close>
  UpperBound :: "address \<Rightarrow> int \<Rightarrow> int option"                          \<comment> \<open>\<^verbatim>\<open>b09ad8a0\<close>\<close>
  FindLastLogBound :: "address \<Rightarrow> int \<Rightarrow> int \<Rightarrow> int option"
  YVault :: "address \<Rightarrow> int \<Rightarrow> bool"                                   \<comment> \<open>whether the call succeeds\<close>
  Description :: "address \<Rightarrow> int \<Rightarrow> string option"
  IsRevert :: "address \<Rightarrow> int \<Rightarrow> bool"                                 \<comment> \<open>whether the error of \<^verbatim>\<open>PhaseId\<close> is a failed execution\<close>
  LatestAnswer :: "address \<Rightarrow> int \<Rightarrow> int option"
  CallSig :: "string \<Rightarrow> address \<Rightarrow> int \<Rightarrow> address option"
  CallDecimals :: "address \<Rightarrow> int \<Rightarrow> int option"
  FeedLogs :: "int \<Rightarrow> int \<Rightarrow> address list \<Rightarrow> (address \<times> int \<times> int) list res"   \<comment> \<open>answers in a range: feed, block, answer\<close>
  VersionDecimals :: "int \<Rightarrow> int"
  VersionInUSD :: "int \<Rightarrow> bool"
  fGetFloat64Decimal :: "int \<Rightarrow> int \<Rightarrow> rat"
  fGetInt64 :: "int \<Rightarrow> int \<Rightarrow> int"
  CompositeId :: "address \<Rightarrow> int \<Rightarrow> address"                       \<comment> \<open>the identifier made of oracle and block\<close>
  IsGBv1 :: "int \<Rightarrow> bool"
  rollbackAllowed :: bool

record feed_world =
  fw_blocks :: blocks_repo
  tokensCurrentOracle :: "int \<times> address \<rightharpoonup> token_oracle"
  zeroPFs :: "address \<Rightarrow> bool"
  fw_adapters :: "(address \<times> sync_adapter) list"
  feedOrTokens :: "(address \<times> address \<times> string \<times> int \<times> int) list"   \<comment> \<open>calls of \<^verbatim>\<open>AddFeedOrToken\<close>\<close>
  disabledYearn :: "(address \<times> address \<times> int) list"                \<comment> \<open>calls of \<^verbatim>\<open>DisableYearnFeed\<close>\<close>
  chainlinkUpdated :: "(address \<times> int list) list"                  \<comment> \<open>calls of \<^verbatim>\<open>ChainlinkPriceUpdatedAt\<close>\<close>

definition orFatal :: "'a option \<Rightarrow> string \<Rightarrow> 'a res" where
  "orFatal x msg = (case x of None \<Rightarrow> Inl (Fatal msg) | Some v \<Rightarrow> Inr v)"

lemma orFatal_Some [simp]: "orFatal (Some v) m = Inr v" "orFatal None m = Inl (Fatal m)"
  by (simp_all add: orFatal_def)

section \<open>The main aggregator\<close>

text \<open>
  The binary search for the block of a change.  It stops only when the bounds meet, so it runs with
  fuel: bounds that are the wrong way round would recurse for ever.
\<close>

fun feed_search :: "nat \<Rightarrow> (int \<Rightarrow> bool res) \<Rightarrow> int \<Rightarrow> int \<Rightarrow> int res" where
  "feed_search 0 changed lo hi = Inl OutOfFuel"
| "feed_search (Suc n) changed lo hi =
    (if lo = hi then Inr lo
     else
       let midBlockNum = quo (lo + hi) 2 in
       rbind (changed midBlockNum) (\<lambda>isNew.
         if \<not> isNew then feed_search n changed (midBlockNum + 1) hi
         else feed_search n changed lo midBlockNum))"

definition GetFeedUpdateBlockUsingPhaseId :: "nat \<Rightarrow> feed_env \<Rightarrow> main_agg \<Rightarrow> 16 word \<Rightarrow> int \<Rightarrow> int \<Rightarrow> int res" where
  "GetFeedUpdateBlockUsingPhaseId n E m newPhaseId =
    feed_search n (\<lambda>b. rbind (orFatal (PhaseId E (ma_Addr m) b) ''phaseId'') (\<lambda>phaseId. Inr (phaseId = newPhaseId)))"

definition GetFeedUpdateBlockAggregator :: "nat \<Rightarrow> feed_env \<Rightarrow> main_agg \<Rightarrow> address \<Rightarrow> int \<Rightarrow> int \<Rightarrow> int res" where
  "GetFeedUpdateBlockAggregator n E m newAggAddr =
    feed_search n (\<lambda>b. rbind (orFatal (Aggregator E (ma_Addr m) b) ''aggregator'') (\<lambda>aggAddr. Inr (aggAddr = newAggAddr)))"

text \<open>
  On goerli and kovan the error of the underlying feed is not looked at, the one of \<^verbatim>\<open>PhaseId\<close> is tested
  again: a failed call leaves the zero address.  The phase goes into one byte.
\<close>

definition getPriceFeedAddrOnBounded :: "feed_env \<Rightarrow> main_agg \<Rightarrow> int \<Rightarrow> (address \<times> int) res" where
  "getPriceFeedAddrOnBounded E m blockNum =
    (if ma_Addr m = ''0xE26FB07da646138553f635c94E2a345270240e30'' then Inr (''0xd6852347062aB885B6Fb9F7220BedCc5A39CE862'', -1)
     else case PhaseId E (ma_Addr m) blockNum of
       None \<Rightarrow> rbind (orFatal (Aggregator E (ma_Addr m) blockNum) ''MainAgg'') (\<lambda>newPhaseAgg. Inr (newPhaseAgg, -1))
     | Some phaseId \<Rightarrow>
         if ChainID E = 1 then
           rbind (orFatal (PhaseAggregators E (ma_Addr m) blockNum phaseId False) ''phaseAggregators'') (\<lambda>newPhaseAgg.
             Inr (newPhaseAgg, sint phaseId))
         else
           let underlying = (case CallPriceFeed E (ma_Addr m) blockNum of None \<Rightarrow> NULL_ADDR | Some a \<Rightarrow> a) in
           rbind (orFatal (CallPhaseAggregator E underlying blockNum (ucast phaseId)) ''phaseAggregator'') (\<lambda>newPhaseAgg.
             Inr (newPhaseAgg, sint phaseId)))"

definition GetPriceFeedAddr :: "feed_env \<Rightarrow> main_agg \<Rightarrow> int \<Rightarrow> (address \<times> int) res" where
  "GetPriceFeedAddr E m blockNum =
    (if ma_bounded m then getPriceFeedAddrOnBounded E m blockNum
     else
       rbind (orFatal (PhaseId E (ma_Addr m) blockNum) ''PhaseId not founded'') (\<lambda>phaseId.
       rbind (case PhaseAggregators E (ma_Addr m) blockNum phaseId False of
                Some a \<Rightarrow> Inr a
              | None \<Rightarrow>
                  if ChainID E = 42 \<or> ChainID E = 5
                  then orFatal (PhaseAggregators E (ma_Addr m) blockNum phaseId True) ''phaseAggregator''
                  else Inl (Fatal ''phaseAggregators'')) (\<lambda>newPhaseAgg.
         Inr (newPhaseAgg, sint phaseId))))"

section \<open>The oracle of a token\<close>

definition addTokenCurrentOracle :: "token_oracle \<Rightarrow> feed_world \<Rightarrow> feed_world" where
  "addTokenCurrentOracle oracle w =
    w\<lparr>tokensCurrentOracle := (tokensCurrentOracle w)((to_Version oracle, to_Token oracle) \<mapsto> oracle)\<rparr>"

definition alreadyActiveFeedForToken :: "token_oracle \<Rightarrow> feed_world \<Rightarrow> bool" where
  "alreadyActiveFeedForToken new w =
    (case tokensCurrentOracle w (to_Version new, to_Token new) of None \<Rightarrow> False | Some old \<Rightarrow> to_Feed old = to_Feed new)"

definition disable_feed :: "token_oracle \<Rightarrow> token_oracle \<Rightarrow> feed_world \<Rightarrow> feed_world" where
  "disable_feed new old w =
    (case map_of (fw_adapters w) (to_Feed old) of
       None \<Rightarrow> w    \<comment> \<open>a constant feed has no adapter; for others this is logged\<close>
     | Some adapter \<Rightarrow>
         if ContractName adapter \<noteq> QueryPriceFeed
         then w\<lparr>fw_adapters := AList.update (to_Feed old) (sa_SetBlockToDisableOn (to_BlockNumber new) adapter) (fw_adapters w)\<rparr>
         else w\<lparr>disabledYearn := disabledYearn w @ [(to_Token new, to_Feed old, to_BlockNumber new)]\<rparr>)"

definition disablePrevAdapterAndAddNewTokenOracle :: "feed_env \<Rightarrow> token_oracle \<Rightarrow> feed_world \<Rightarrow> feed_world res" where
  "disablePrevAdapterAndAddNewTokenOracle E new w =
    (let w1 = (case tokensCurrentOracle w (to_Version new, to_Token new) of None \<Rightarrow> w | Some old \<Rightarrow> disable_feed new old w);
         w2 = addTokenCurrentOracle new w1
     in rbind (add_row (fe_chain E) (to_BlockNumber new) (TokenOracleRow new) (fw_blocks w2)) (\<lambda>bs. Inr (w2\<lparr>fw_blocks := bs\<rparr>)))"

text \<open>The adapter of a chainlink feed: the address and the last answer before it was found.\<close>

definition NewChainlinkPriceFeed :: "feed_env \<Rightarrow> address \<Rightarrow> address \<Rightarrow> int \<Rightarrow> int \<Rightarrow> bool \<Rightarrow> sync_adapter res" where
  "NewChainlinkPriceFeed E tok oracle discoveredAt version bounded =
    rbind (if bounded then rbind (orFatal (UpperBound E oracle discoveredAt) ''upperBound'') (\<lambda>u. Inr (Some u)) else Inr None) (\<lambda>upperLimit.
    rbind (GetPriceFeedAddr E \<lparr>ma_Addr = oracle, ma_bounded = (case upperLimit of None \<Rightarrow> False | Some u \<Rightarrow> u \<noteq> 0)\<rparr> discoveredAt) (\<lambda>(pfAddr, _).
    rbind (orFatal (FindLastLogBound E pfAddr 1 (discoveredAt - 1)) ''chainlink'') (\<lambda>lastLog.
      Inr \<lparr>Address = pfAddr, ContractName = ChainlinkPriceFeed, DiscoveredAt = discoveredAt,
        FirstLogAt = (if lastLog \<noteq> 0 then lastLog else discoveredAt),
        LastSync = (if lastLog \<noteq> 0 then lastLog - 1 else discoveredAt - 1), Disabled = False, BlockToDisableOn = 0, V = version,
        ErrorMsg = '''', Details = Some ([(''oracle'', JString oracle), (''token'', JString tok)] @
          (case upperLimit of None \<Rightarrow> [] | Some u \<Rightarrow> [(''upperLimit'', JInt u)])),
        UnderlyingStateToSave = False, DataProcessType = ViaMultipleLogs, WillSyncTill = 0\<rparr>)))"

definition fw_AddSyncAdapter :: "feed_env \<Rightarrow> sync_adapter \<Rightarrow> feed_world \<Rightarrow> feed_world" where
  "fw_AddSyncAdapter E adapter w =
    (if rollbackAllowed E then w else w\<lparr>fw_adapters := AList.update (Address adapter) adapter (fw_adapters w)\<rparr>)"

definition fw_AddPriceFeed :: "feed_env \<Rightarrow> price_feed \<Rightarrow> feed_world \<Rightarrow> feed_world res" where
  "fw_AddPriceFeed E pf w = rbind (AddPriceFeed (fe_chain E) pf (fw_blocks w)) (\<lambda>bs. Inr (w\<lparr>fw_blocks := bs\<rparr>))"

definition add_constant_feed :: "feed_env \<Rightarrow> token_oracle \<Rightarrow> feed_world \<Rightarrow> feed_world res" where
  "add_constant_feed E new w =
    (let priceBI = (if to_FeedType new = ''AlmostZeroPF'' then 100 else 0) in
     rbind (fw_AddPriceFeed E \<lparr>pf_BlockNumber = to_BlockNumber new, pf_Token = to_Token new, pf_Feed = to_Oracle new, pf_RoundId = 0,
        pf_PriceBI = priceBI, pf_Price = fGetFloat64Decimal E priceBI (VersionDecimals E (to_Version new)),
        IsPriceInUSD = VersionInUSD E (to_Version new)\<rparr> w) (\<lambda>w1.
       Inr (w1\<lparr>zeroPFs := (zeroPFs w1)(to_Oracle new := True)\<rparr>)))"

section \<open>Composite feeds\<close>

definition getSig :: "string \<Rightarrow> int \<Rightarrow> int \<Rightarrow> string res" where
  "getSig targetMethod discoveredAt chainId =
    (let oldMethods = (discoveredAt \<le> 15997386 \<and> chainId = 1 \<or> discoveredAt \<le> 7966150 \<and> chainId = 5) in
     if targetMethod = ''targetETH'' then Inr (if oldMethods then ''f1a75c6e'' else ''a76d5447'')
     else if targetMethod = ''ETHUSD'' then Inr (if oldMethods then ''42f6fb29'' else ''51a799d6'')
     else Inl (Fatal ''not found''))"

definition getAddrFromRPC :: "feed_env \<Rightarrow> string \<Rightarrow> address \<Rightarrow> int \<Rightarrow> address res" where
  "getAddrFromRPC E targetMethod oracle blockNum =
    rbind (getSig targetMethod blockNum (ChainID E)) (\<lambda>sig. orFatal (CallSig E sig oracle blockNum) ''Oracle'')"

text \<open>The composite feed: aggregators and phases of target and base, prices and decimals.\<close>

record composite =
  co_adapter :: sync_adapter
  co_Token :: address
  co_Oracle :: address
  co_target :: address
  co_base :: address
  co_targetPhase :: address
  co_basePhase :: address
  TokenETHPrice :: int
  ETHUSDPrice :: int
  decimalsOfBasePF :: int

definition setPrices :: "feed_env \<Rightarrow> int \<Rightarrow> composite \<Rightarrow> composite res" where
  "setPrices E blockNum c =
    rbind (orFatal (LatestAnswer E (co_target c) blockNum) ''cant fetch price'') (\<lambda>t.
    rbind (orFatal (LatestAnswer E (co_base c) blockNum) ''cant fetch price'') (\<lambda>b.
      Inr (c\<lparr>TokenETHPrice := t, ETHUSDPrice := b\<rparr>)))"

definition addPriceToDB :: "feed_env \<Rightarrow> int \<Rightarrow> composite \<Rightarrow> feed_world \<Rightarrow> feed_world res" where
  "addPriceToDB E blockNum c w =
    (let answerBI = fGetInt64 E (TokenETHPrice c * ETHUSDPrice c) (decimalsOfBasePF c) in
     fw_AddPriceFeed E \<lparr>pf_BlockNumber = blockNum, pf_Token = co_Token c, pf_Feed = co_Oracle c, pf_RoundId = 0, pf_PriceBI = answerBI,
       pf_Price = fGetFloat64Decimal E answerBI 8, IsPriceInUSD = True\<rparr> w)"

definition NewCompositeChainlinkPF ::
  "feed_env \<Rightarrow> address \<Rightarrow> address \<Rightarrow> int \<Rightarrow> int \<Rightarrow> feed_world \<Rightarrow> (composite \<times> feed_world) res" where
  "NewCompositeChainlinkPF E tok oracle discoveredAt version w =
    rbind (getAddrFromRPC E ''targetETH'' oracle discoveredAt) (\<lambda>target.
    rbind (orFatal (CallDecimals E target discoveredAt) ''decimals'') (\<lambda>decimals0.
    let decimals = sint (word_of_int decimals0 :: 8 word) in
    rbind (getAddrFromRPC E ''ETHUSD'' oracle discoveredAt) (\<lambda>base.
    rbind (GetPriceFeedAddr E \<lparr>ma_Addr = target, ma_bounded = False\<rparr> discoveredAt) (\<lambda>(mainPhaseAgg, _).
    rbind (GetPriceFeedAddr E \<lparr>ma_Addr = base, ma_bounded = False\<rparr> discoveredAt) (\<lambda>(basePhaseAgg, _).
    rbind (setPrices E discoveredAt
       \<lparr>co_adapter = \<lparr>Address = CompositeId E oracle discoveredAt, ContractName = ''CompositeChainlinkPF'', DiscoveredAt = discoveredAt, FirstLogAt = discoveredAt,
          LastSync = discoveredAt, Disabled = False, BlockToDisableOn = 0, V = version, ErrorMsg = '''',
          Details = Some [(''oracle'', JString oracle), (''token'', JString tok), (''decimals'', JInt decimals),
            (''secAddrs'', JMap [(''target'', JString target), (''base'', JString base),
              (''targetPhase'', JString mainPhaseAgg), (''basePhase'', JString basePhaseAgg)])],
          UnderlyingStateToSave = False, DataProcessType = ViaMultipleLogs, WillSyncTill = 0\<rparr>,
        co_Token = tok, co_Oracle = oracle, co_target = target, co_base = base, co_targetPhase = mainPhaseAgg, co_basePhase = basePhaseAgg,
        TokenETHPrice = 0, ETHUSDPrice = 0, decimalsOfBasePF = decimals\<rparr>) (\<lambda>c.
    rbind (addPriceToDB E discoveredAt c w) (\<lambda>w1. Inr (c, w1))))))))"


definition breakPoint :: "nat \<Rightarrow> feed_env \<Rightarrow> address \<Rightarrow> address \<Rightarrow> composite \<Rightarrow> (address \<times> int) res" where
  "breakPoint n E previousPhaseAgg agg c =
    (let m = \<lparr>ma_Addr = agg, ma_bounded = False\<rparr>; lo = LastSync (co_adapter c) + 1; hi = WillSyncTill (co_adapter c) in
     rbind (GetPriceFeedAddr E m hi) (\<lambda>(newPhaseAgg, newPhaseId).
       if previousPhaseAgg \<noteq> newPhaseAgg \<and> newPhaseAgg \<noteq> NULL_ADDR then
         rbind (if newPhaseId \<noteq> -1 then GetFeedUpdateBlockUsingPhaseId n E m (word_of_int newPhaseId) lo hi
                else GetFeedUpdateBlockAggregator n E m newPhaseAgg lo hi) (\<lambda>discoveredAt. Inr (newPhaseAgg, discoveredAt))
       else Inr (newPhaseAgg, max_int64)))"

text \<open>The logs up to the break point: feed, block and answer, \<open>None\<close> for other events.\<close>

primrec composite_logs ::
  "feed_env \<Rightarrow> int \<Rightarrow> address \<Rightarrow> (address \<times> int \<times> int option) list \<Rightarrow> composite \<Rightarrow> feed_world \<Rightarrow> (composite \<times> feed_world) res" where
  "composite_logs E bp targetETHPF [] c w = Inr (c, w)"
| "composite_logs E bp targetETHPF (lg # rest) c w =
    (case lg of (feed, blockNum, answer) \<Rightarrow>
     if bp \<le> blockNum then Inr (c, w)
     else case answer of
       None \<Rightarrow> composite_logs E bp targetETHPF rest c w
     | Some answerBI \<Rightarrow>
         let c1 = (if feed = targetETHPF then c\<lparr>TokenETHPrice := answerBI\<rparr> else c\<lparr>ETHUSDPrice := answerBI\<rparr>) in
         if rest \<noteq> [] \<and> fst (snd (hd rest)) = blockNum then composite_logs E bp targetETHPF rest c1 w
         else rbind (addPriceToDB E blockNum c1 w) (composite_logs E bp targetETHPF rest c1))"

text \<open>After a break point the phases are those at the end of the range, so the second round has none; the fuel bounds the rounds.\<close>

fun composite_OnLogs ::
  "nat \<Rightarrow> feed_env \<Rightarrow> (address \<times> int \<times> int option) list \<Rightarrow> composite \<Rightarrow> feed_world \<Rightarrow> (composite \<times> feed_world) res" where
  "composite_OnLogs 0 E txLogs c w = Inl OutOfFuel"
| "composite_OnLogs (Suc n) E txLogs c w =
    rbind (breakPoint 64 E (co_targetPhase c) (co_target c) c) (\<lambda>(newMainPhaseAgg, bpOne).
    rbind (breakPoint 64 E (co_basePhase c) (co_base c) c) (\<lambda>(newBasePhaseAgg, bpTwo).
      let bp = min (min max_int64 bpOne) bpTwo in
      rbind (composite_logs E bp (co_targetPhase c) txLogs c w) (\<lambda>(c1, w1).
        if bp \<noteq> max_int64 then
          rbind (setPrices E bp (c1\<lparr>co_targetPhase := newMainPhaseAgg, co_basePhase := newBasePhaseAgg\<rparr>)) (\<lambda>c2.
          rbind (addPriceToDB E bp c2 w1) (\<lambda>w2.
          rbind (FeedLogs E (bp + 1) (WillSyncTill (co_adapter c2)) [newMainPhaseAgg, newBasePhaseAgg]) (\<lambda>logs.
            composite_OnLogs n E (map (\<lambda>(feed, b, a). (feed, b, Some a)) logs) c2 w2)))
        else Inr (c1, w1))))"

section \<open>New oracles\<close>

definition add_query_feed :: "token_oracle \<Rightarrow> feed_world \<Rightarrow> feed_world" where
  "add_query_feed new w =
    w\<lparr>feedOrTokens := feedOrTokens w @ [(to_Token new, to_Oracle new, to_FeedType new, to_BlockNumber new, to_Version new)]\<rparr>"

definition AddNewPriceOracleEvent :: "feed_env \<Rightarrow> token_oracle \<Rightarrow> bool \<Rightarrow> feed_world \<Rightarrow> feed_world res" where
  "AddNewPriceOracleEvent E new bounded w =
    (if to_Feed new = ''0xBc1c306920309F795fB5A740083eCBf5057349e9'' \<and> to_BlockNumber new = 15371802 then Inr w
     else if to_FeedType new \<in> {''CurvePF'', ''YearnPF'', ''ZeroPF'', ''AlmostZeroPF''} then
       (if alreadyActiveFeedForToken new w then Inr w
        else rbind (disablePrevAdapterAndAddNewTokenOracle E new w) (\<lambda>w1.
          if to_FeedType new = ''ZeroPF'' \<or> to_FeedType new = ''AlmostZeroPF'' then add_constant_feed E new w1
          else Inr (add_query_feed new w1)))
     else if to_FeedType new = ChainlinkPriceFeed then
       rbind (NewChainlinkPriceFeed E (to_Token new) (to_Oracle new) (to_BlockNumber new) (to_Version new) bounded) (\<lambda>obj.
         let new1 = new\<lparr>to_Feed := Address obj\<rparr> in
         if alreadyActiveFeedForToken new1 w then Inr w
         else rbind (disablePrevAdapterAndAddNewTokenOracle E new1 w) (\<lambda>w1.
           Inr (if to_Token new1 \<noteq> ''0x9683a59Ad8D7B5ac3eD01e4cff1D1A2a51A8f1c0'' then fw_AddSyncAdapter E obj w1 else w1)))
     else if to_FeedType new = CompositeChainlinkPF then
       rbind (NewCompositeChainlinkPF E (to_Token new) (to_Oracle new) (to_BlockNumber new) (to_Version new) w) (\<lambda>(obj, w1).
         if alreadyActiveFeedForToken new w1 then Inr w1
         else rbind (disablePrevAdapterAndAddNewTokenOracle E new w1) (\<lambda>w2. Inr (fw_AddSyncAdapter E (co_adapter obj) w2)))
     else Inl (Fatal ''not handled''))"

primrec str_contains :: "string \<Rightarrow> string \<Rightarrow> bool" where
  "str_contains [] sub = (sub = [])"
| "str_contains (c # s) sub = (take (length sub) (c # s) = sub \<or> str_contains s sub)"

definition checkPriceFeedContract :: "feed_env \<Rightarrow> int \<Rightarrow> address \<Rightarrow> (string \<times> bool) res" where
  "checkPriceFeedContract E discoveredAt oracle =
    (if oracle = ''0xE26FB07da646138553f635c94E2a345270240e30'' then Inr (ChainlinkPriceFeed, True)
     else case PhaseId E oracle discoveredAt of
       Some _ \<Rightarrow> Inr (ChainlinkPriceFeed, case Description E oracle discoveredAt of None \<Rightarrow> False | Some d \<Rightarrow> str_contains d ''Bounded'')
     | None \<Rightarrow>
         if \<not> IsRevert E oracle discoveredAt then Inl (Fatal ''PriceFeed type not found'')
         else if YVault E oracle discoveredAt then Inr (''YearnPF'', False)
         else let description = (case Description E oracle discoveredAt of None \<Rightarrow> '''' | Some d \<Rightarrow> d) in
           if str_contains description ''USD Composite'' then Inr (CompositeChainlinkPF, False)
           else if str_contains description ''CurveLP pricefeed'' then Inr (''CurvePF'', False)
           else if str_contains description ''Wrapped liquid staked Ether 2.0'' then Inr (''YearnPF'', False)
           else if str_contains description ''Bounded'' then Inr (ChainlinkPriceFeed, True)
           else if str_contains description ''Zero pricefeed'' then Inr (''ZeroPF'', False)
           else if str_contains description ''ZERO (one) priceFeed'' then Inr (''AlmostZeroPF'', False)
           else Inl (Fatal ''neither chainlink nor yearn nor curve price feed''))"

text \<open>The price oracle: the event carries token and feed; other events are \<open>None\<close>.\<close>

definition po_OnLog :: "feed_env \<Rightarrow> sync_adapter \<Rightarrow> (address \<times> address) option txlog \<Rightarrow> feed_world \<Rightarrow> feed_world res" where
  "po_OnLog E s txLog w =
    (case payload txLog of
       None \<Rightarrow> Inr w
     | Some (tok, oracle) \<Rightarrow>
         rbind (AddDAOOperation (fe_chain E) \<lparr>dao_BlockNumber = BlockNumber txLog, dao_LogID = Index txLog, dao_TxHash = TxHash txLog,
             dao_Contract = Address s, dao_Type = ''NewPriceFeed'',
             dao_Args = [(''priceFeed'', JString oracle), (''token'', JString tok)]\<rparr> (fw_blocks w)) (\<lambda>bs.
         rbind (checkPriceFeedContract E (BlockNumber txLog) oracle) (\<lambda>(feedType, bounded).
           AddNewPriceOracleEvent E \<lparr>to_Token = tok, to_Oracle = oracle, to_Feed = oracle, to_BlockNumber = BlockNumber txLog,
             to_Version = V s, to_FeedType = feedType\<rparr> bounded (w\<lparr>fw_blocks := bs\<rparr>))))"

section \<open>Chainlink feeds\<close>

record chainlink =
  cl_adapter :: sync_adapter
  cl_Token :: address
  MainAgg :: main_agg

text \<open>The limit is a decimal string in the details; it is the number here.\<close>

definition upperLimit :: "chainlink \<Rightarrow> int res" where
  "upperLimit m =
    (case Details (cl_adapter m) of
       None \<Rightarrow> Inr 0
     | Some d \<Rightarrow> (case map_of d ''upperLimit'' of None \<Rightarrow> Inr 0 | Some (JInt u) \<Rightarrow> Inr u | Some _ \<Rightarrow> Inl (Panic ''interface conversion'')))"

definition capped :: "int \<Rightarrow> int \<Rightarrow> int" where
  "capped limit answer = (if limit \<noteq> 0 \<and> answer > limit then limit else answer)"

definition cl_price :: "feed_env \<Rightarrow> chainlink \<Rightarrow> int \<Rightarrow> int \<Rightarrow> int \<Rightarrow> int \<Rightarrow> price_feed" where
  "cl_price E m limit blockNum answer roundId =
    \<lparr>pf_BlockNumber = blockNum, pf_Token = cl_Token m, pf_Feed = Address (cl_adapter m), pf_RoundId = roundId,
     pf_PriceBI = capped limit answer,
     pf_Price = fGetFloat64Decimal E (capped limit answer) (VersionDecimals E (V (cl_adapter m))),
     IsPriceInUSD = VersionInUSD E (V (cl_adapter m))\<rparr>"

text \<open>
  The logs of a range: block and, for an answer, its value and round.  The last log of a block counts; a round that does not
  fit 63 bits cannot be parsed.
\<close>

type_synonym cl_log = "int \<times> (int \<times> int) option"

primrec cl_logs :: "feed_env \<Rightarrow> chainlink \<Rightarrow> int \<Rightarrow> cl_log list \<Rightarrow> int list \<Rightarrow> feed_world \<Rightarrow> (int list \<times> feed_world) res" where
  "cl_logs E m limit [] bnums w = Inr (bnums, w)"
| "cl_logs E m limit (lg # rest) bnums w =
    (case lg of
       (blockNum, None) \<Rightarrow> cl_logs E m limit rest bnums w
     | (blockNum, Some (answer, roundId)) \<Rightarrow>
         if rest \<noteq> [] \<and> fst (hd rest) = blockNum then cl_logs E m limit rest bnums w
         else rbind (guard_fatal (roundId \<ge> 2 ^ 63) ''roundid failed'') (\<lambda>_.
              rbind (fw_AddPriceFeed E (cl_price E m limit blockNum answer roundId) w)
                (cl_logs E m limit rest (bnums @ [blockNum]))))"

definition cl_OnLogs :: "feed_env \<Rightarrow> chainlink \<Rightarrow> cl_log list \<Rightarrow> feed_world \<Rightarrow> feed_world res" where
  "cl_OnLogs E m txLogs w =
    rbind (upperLimit m) (\<lambda>limit.
    rbind (cl_logs E m limit txLogs [] w) (\<lambda>(bnums, w1).
      Inr (if \<not> IsGBv1 E (V (cl_adapter m)) \<and> bnums \<noteq> []
           then w1\<lparr>chainlinkUpdated := chainlinkUpdated w1 @ [(cl_Token m, bnums)]\<rparr> else w1)))"

definition cl_AfterSyncHook :: "nat \<Rightarrow> feed_env \<Rightarrow> int \<Rightarrow> chainlink \<Rightarrow> feed_world \<Rightarrow> (chainlink \<times> feed_world) res" where
  "cl_AfterSyncHook n E syncedTill m w =
    (let agg = MainAgg m; lo = LastSync (cl_adapter m) + 1 in
     rbind (GetPriceFeedAddr E agg syncedTill) (\<lambda>(newPriceFeed, newPhaseId).
     rbind (if newPriceFeed \<noteq> Address (cl_adapter m) \<and> newPriceFeed \<noteq> NULL_ADDR then
              rbind (if newPhaseId \<noteq> -1 then GetFeedUpdateBlockUsingPhaseId n E agg (word_of_int newPhaseId) lo syncedTill
                     else GetFeedUpdateBlockAggregator n E agg newPriceFeed lo syncedTill) (\<lambda>discoveredAt.
              rbind (upperLimit m) (\<lambda>limit.
                AddNewPriceOracleEvent E \<lparr>to_Token = cl_Token m, to_Oracle = ma_Addr agg, to_Feed = ma_Addr agg,
                  to_BlockNumber = discoveredAt, to_Version = V (cl_adapter m), to_FeedType = ChainlinkPriceFeed\<rparr> (limit \<noteq> 0) w))
            else Inr w) (\<lambda>w1.
       Inr (m\<lparr>cl_adapter := sa_AfterSyncHook syncedTill (cl_adapter m)\<rparr>, w1))))"

end
