(* ===== verification/Price_Feeds_Correct.thy ===== *)
theory Price_Feeds_Correct
  imports Price_Feeds
begin

text \<open>
  Correctness of the chainlink feeds: the search finds the block of a change, and the stored prices give the last
  answer of every block.
\<close>

section \<open>The search\<close>

lemma feed_search_correct:
  assumes "0 \<le> lo" and "lo \<le> c" and "c \<le> hi" and "nat (hi - lo) < 2 ^ k"
    and "\<And>b. lo \<le> b \<Longrightarrow> b \<le> hi \<Longrightarrow> changed b = Inr (c \<le> b)"
  shows "feed_search (Suc k) changed lo hi = Inr c"
  using assms
proof (induction k arbitrary: lo hi)
  case (Suc k)
  show ?case
  proof (cases "lo = hi")
    case False
    define mid where "mid = (lo + hi) div 2"
    have mid: "lo \<le> mid" "mid < hi" using False Suc.prems(1-3) by (auto simp: mid_def)
    have q: "quo (lo + hi) 2 = mid" using Suc.prems(1-3) by (simp add: mid_def)
    have ch: "changed mid = Inr (c \<le> mid)" using Suc.prems(5) mid by simp
    have half: "nat (hi - (mid + 1)) < 2 ^ k" "nat (mid - lo) < 2 ^ k" using Suc.prems(4) mid by (auto simp: mid_def nat_less_iff)
    have step: "feed_search (Suc (Suc k)) changed lo hi =
        (if c \<le> mid then feed_search (Suc k) changed lo mid else feed_search (Suc k) changed (mid + 1) hi)"
      using False ch by (subst feed_search.simps(2)) (simp add: Let_def q del: feed_search.simps)
    show ?thesis
    proof (cases "c \<le> mid")
      case True
      have "feed_search (Suc k) changed lo mid = Inr c"
        using Suc.prems(1,2,5) True half(2) mid by (intro Suc.IH) simp_all
      then show ?thesis unfolding step using True by simp
    next
      case new: False
      have "feed_search (Suc k) changed (mid + 1) hi = Inr c"
        using Suc.prems(1,3,5) new half(1) mid by (intro Suc.IH) simp_all
      then show ?thesis unfolding step using new by simp
    qed
  qed (use Suc.prems in auto)
qed auto

text \<open>
  The search finds the block in which the feed changed.  If an oracle has a new phase from a block of the range
  on and not before, the search returns exactly that block, and it always returns: 64 steps are enough
  for every range of 63 bit block numbers.
\<close>

theorem phase_search_finds_change:
  assumes "0 \<le> lo" and "lo \<le> c" and "c \<le> hi" and "hi < 2 ^ 63"
    and "\<And>b. lo \<le> b \<Longrightarrow> b \<le> hi \<Longrightarrow> \<exists>p. PhaseId E (ma_Addr m) b = Some p \<and> (p = phase \<longleftrightarrow> c \<le> b)"
  shows "GetFeedUpdateBlockUsingPhaseId 64 E m phase lo hi = Inr c"
proof -
  have "feed_search (Suc 63) (\<lambda>b. rbind (orFatal (PhaseId E (ma_Addr m) b) ''phaseId'') (\<lambda>phaseId. Inr (phaseId = phase))) lo hi = Inr c"
  proof (rule feed_search_correct[OF assms(1-3)])
    show "nat (hi - lo) < 2 ^ 63" using assms(1-4) by (simp add: nat_less_iff)
    fix b assume "lo \<le> b" "b \<le> hi"
    then show "rbind (orFatal (PhaseId E (ma_Addr m) b) ''phaseId'') (\<lambda>phaseId. Inr (phaseId = phase)) = Inr (c \<le> b)"
      using assms(5) by force
  qed
  then show ?thesis by (simp add: GetFeedUpdateBlockUsingPhaseId_def)
qed

section \<open>Prices\<close>

text \<open>The prices the loop reports: of the answers that are not followed by another log of their block.\<close>

primrec reports :: "feed_env \<Rightarrow> chainlink \<Rightarrow> int \<Rightarrow> cl_log list \<Rightarrow> price_feed list" where
  "reports E m limit [] = []"
| "reports E m limit (lg # rest) =
    (case snd lg of None \<Rightarrow> []
     | Some (answer, roundId) \<Rightarrow> if rest \<noteq> [] \<and> fst (hd rest) = fst lg then [] else [cl_price E m limit (fst lg) answer roundId]) @
    reports E m limit rest"

definition good_rounds :: "cl_log list \<Rightarrow> bool" where
  "good_rounds logs \<longleftrightarrow> (\<forall>lg \<in> set logs. case snd lg of None \<Rightarrow> True | Some (_, roundId) \<Rightarrow> roundId < 2 ^ 63)"

lemma cl_logs_reports:
  assumes "good_rounds logs" and "rfold (AddPriceFeed (fe_chain E)) (reports E m limit logs) (fw_blocks w) = Inr bs"
  shows "\<exists>bn'. cl_logs E m limit logs bn w = Inr (bn', w\<lparr>fw_blocks := bs\<rparr>)"
  using assms
proof (induction logs arbitrary: bn w)
  case (Cons lg rest)
  obtain b p where lg: "lg = (b, p)" by fastforce
  have good: "good_rounds rest" using Cons.prems(1) by (simp add: good_rounds_def)
  show ?case
  proof (cases p)
    case None
    then show ?thesis using Cons.IH[OF good, of w bn] Cons.prems(2) lg by simp
  next
    case (Some ar)
    obtain a r where ar: "ar = (a, r)" by fastforce
    have r: "r < 2 ^ 63" using Cons.prems(1) lg Some ar by (simp add: good_rounds_def)
    show ?thesis
    proof (cases "rest \<noteq> [] \<and> fst (hd rest) = b")
      case True
      then show ?thesis using Cons.IH[OF good, of w bn] Cons.prems(2) lg Some ar by simp
    next
      case False
      then obtain bs1 where bs1: "AddPriceFeed (fe_chain E) (cl_price E m limit b a r) (fw_blocks w) = Inr bs1"
        "rfold (AddPriceFeed (fe_chain E)) (reports E m limit rest) bs1 = Inr bs"
        using Cons.prems(2) lg Some ar by (auto elim!: rbind_InrE)
      then obtain bn' where "cl_logs E m limit rest (bn @ [b]) (w\<lparr>fw_blocks := bs1\<rparr>) = Inr (bn', w\<lparr>fw_blocks := bs\<rparr>)"
        using Cons.IH[OF good, of "w\<lparr>fw_blocks := bs1\<rparr>" "bn @ [b]"] by auto
      then show ?thesis using bs1(1) lg Some ar r False by (auto simp: fw_AddPriceFeed_def guard_fatal_def)
    qed
  qed
qed simp

lemma reports_blocks: "pf_BlockNumber ` set (reports E m limit logs) \<subseteq> fst ` set logs"
  by (induction logs) (auto simp: cl_price_def split: option.splits if_splits)

lemma reports_sorted: "sorted (map fst logs) \<Longrightarrow> sorted_wrt (<) (map pf_BlockNumber (reports E m limit logs))"
proof (induction logs)
  case (Cons lg rest)
  have IH: "sorted_wrt (<) (map pf_BlockNumber (reports E m limit rest))" using Cons by simp
  show ?case
  proof (cases "snd lg = None \<or> rest \<noteq> [] \<and> fst (hd rest) = fst lg")
    case True
    then have "reports E m limit (lg # rest) = reports E m limit rest" by (auto split: option.split)
    then show ?thesis using IH by simp
  next
    case False
    have "fst lg < x" if mem: "x \<in> fst ` set rest" for x
    proof -
      obtain h t where rest: "rest = h # t" using mem by (cases rest) auto
      then have "fst lg < fst h" "fst h \<le> x" using Cons.prems False mem by auto
      then show ?thesis by simp
    qed
    then have "\<forall>pf \<in> set (reports E m limit rest). fst lg < pf_BlockNumber pf" using reports_blocks by fastforce
    then show ?thesis using IH False by (auto simp: cl_price_def)
  qed
qed simp

text \<open>An answer is passed over when another log of its block follows, whatever that log is.\<close>

lemma answer_passed_over:
  "cl_logs E m limit ((b, Some answer) # (b, other) # rest) bnums w = cl_logs E m limit ((b, other) # rest) bnums w"
  by (cases answer) simp

subsection \<open>The reference\<close>

text \<open>
  The last answer up to a block, and the condition under which the comment of the loop and its test agree: in a block with an answer
  the last log is one.
\<close>

definition answer_by :: "cl_log list \<Rightarrow> int \<Rightarrow> int option" where
  "answer_by logs b =
    (let old = filter (\<lambda>lg. fst lg \<le> b \<and> snd lg \<noteq> None) logs in if old = [] then None else Some (fst (the (snd (last old)))))"

definition answers_last :: "cl_log list \<Rightarrow> bool" where
  "answers_last logs \<longleftrightarrow> (\<forall>lg \<in> set logs. snd lg \<noteq> None \<longrightarrow> snd (last (filter (\<lambda>other. fst other = fst lg) logs)) \<noteq> None)"

lemma answer_by_Cons:
  "answer_by (lg # rest) b = (case answer_by rest b of Some a \<Rightarrow> Some a | None \<Rightarrow> if fst lg \<le> b then map_option fst (snd lg) else None)"
  by (cases "snd lg") (auto simp: answer_by_def Let_def)

lemma price_at_Cons:
  "price_at (x # xs) b = (case price_at xs b of Some p \<Rightarrow> Some p | None \<Rightarrow> if pf_BlockNumber x \<le> b then Some (pf_PriceBI x) else None)"
  by (auto simp: price_at_def Let_def)

lemma answers_last_tl:
  assumes "answers_last (lg # rest)"
  shows "answers_last rest"
  unfolding answers_last_def
proof (intro ballI impI)
  fix x assume x: "x \<in> set rest" "snd x \<noteq> None"
  then have "filter (\<lambda>other. fst other = fst x) rest \<noteq> []" by (auto simp: filter_empty_conv)
  moreover have "snd (last (filter (\<lambda>other. fst other = fst x) (lg # rest))) \<noteq> None"
    using assms x unfolding answers_last_def by simp
  ultimately show "snd (last (filter (\<lambda>other. fst other = fst x) rest)) \<noteq> None" by (simp split: if_splits)
qed

lemma answer_follows:
  assumes "answers_last (lg # rest)" and "snd lg \<noteq> None" and "rest \<noteq> []" and "fst (hd rest) = fst lg" and "fst lg \<le> b"
  shows "answer_by rest b \<noteq> None"
proof -
  let ?f = "filter (\<lambda>other. fst other = fst lg) rest"
  have ne: "?f \<noteq> []" using assms(3,4) by (cases rest) auto
  have "snd (last (filter (\<lambda>other. fst other = fst lg) (lg # rest))) \<noteq> None"
    using assms(1,2) unfolding answers_last_def by simp
  then have "snd (last ?f) \<noteq> None" using ne by simp
  moreover have "last ?f \<in> set ?f" using ne by (rule last_in_set)
  ultimately have "last ?f \<in> set (filter (\<lambda>lg. fst lg \<le> b \<and> snd lg \<noteq> None) rest)" using assms(5) by simp
  then have "filter (\<lambda>lg. fst lg \<le> b \<and> snd lg \<noteq> None) rest \<noteq> []" by (metis empty_iff list.set(1))
  then show ?thesis by (simp add: answer_by_def)
qed

lemma price_at_reports:
  assumes "answers_last logs"
  shows "price_at (reports E m limit logs) b = map_option (\<lambda>a. if limit = 0 then a else min a limit) (answer_by logs b)"
  using assms
proof (induction logs)
  case (Cons lg rest)
  note IH = Cons.IH[OF answers_last_tl[OF Cons.prems]]
  show ?case
  proof (cases "snd lg")
    case None
    then show ?thesis using IH by (simp add: answer_by_Cons split: option.split)
  next
    case (Some ar)
    show ?thesis
    proof (cases "rest \<noteq> [] \<and> fst (hd rest) = fst lg")
      case True
      then have "answer_by (lg # rest) b = answer_by rest b"
        using answer_follows[OF Cons.prems, of b] Some by (cases "fst lg \<le> b"; cases "answer_by rest b") (simp_all add: answer_by_Cons)
      then show ?thesis using IH True Some by (simp split: prod.split)
    next
      case False
      then show ?thesis using IH Some
        by (cases ar) (auto simp: price_at_Cons answer_by_Cons cl_price_def capped_def split: option.split)
    qed
  qed
qed (simp add: price_at_def answer_by_def)

text \<open>
  C24: from the logs of a chainlink feed to the price table.  Let the node know every block, let the store of blocks be empty, let the logs of a range come in the order of blocks, answers and logs of
  other kinds, with round ids below 2^63, and let the last log of every block with an answer be an answer; a block may have several.
  Then the feed accepts all of them, and the table gives for every block the last answer up to it, that of the block itself if there is one, cut to the
  upper limit if the oracle is bounded, and nothing before the first answer.
\<close>

theorem chainlink_prices:
  assumes "\<And>b. \<exists>t. BlockByNumber (fe_chain E) b = Inr t" and "sorted (map fst logs)" and "good_rounds logs" and "answers_last logs"
    and "upperLimit m = Inr limit" and "fw_blocks w = NewBlocksRepo"
  shows "\<exists>w'. cl_OnLogs E m logs w = Inr w' \<and>
    (\<forall>b. price_at (stored_prices (VersionInUSD E (V (cl_adapter m)), cl_Token m, Address (cl_adapter m)) (fw_blocks w')) b =
      map_option (\<lambda>a. if limit = 0 then a else min a limit) (answer_by logs b))"
proof -
  let ?k = "(VersionInUSD E (V (cl_adapter m)), cl_Token m, Address (cl_adapter m))" and ?rs = "reports E m limit logs"
  have keys: "\<forall>pf \<in> set ?rs. pf_key pf = ?k" by (induction logs) (auto simp: cl_price_def pf_key_def split: option.splits if_splits)
  have rep: "reported k ?rs = (if k = ?k then ?rs else [])" for k
    using keys by (auto simp: reported_def filter_empty_conv intro!: filter_True)
  have sorted: "sorted_wrt (<) (map pf_BlockNumber (reported k ?rs))" for k using rep[of k] reports_sorted[OF assms(2)] by simp
  obtain bs where bs: "rfold (AddPriceFeed (fe_chain E)) ?rs NewBlocksRepo = Inr bs" and st: "stored_prices ?k bs = changes None ?rs"
    using AddPriceFeed_stores[OF assms(1) sorted] rep[of ?k] by auto
  obtain bn where "cl_logs E m limit logs [] w = Inr (bn, w\<lparr>fw_blocks := bs\<rparr>)"
    using cl_logs_reports[OF assms(3), of E m limit w bs "[]"] bs assms(6) by auto
  then obtain w' where w': "cl_OnLogs E m logs w = Inr w'" "fw_blocks w' = bs"
    using assms(5) by (cases "\<not> IsGBv1 E (V (cl_adapter m)) \<and> bn \<noteq> []") (auto simp: cl_OnLogs_def)
  have "price_at (stored_prices ?k bs) b = map_option (\<lambda>a. if limit = 0 then a else min a limit) (answer_by logs b)" for b
    unfolding st price_at_changes_any[OF reports_sorted[OF assms(2)]] by (rule price_at_reports[OF assms(4)])
  then show ?thesis using w' by blast
qed

section \<open>A concrete feed\<close>

definition demo_feed_env :: feed_env where
  "demo_feed_env = \<lparr>fe_chain = demo_chain, ChainID = 1, PhaseId = (\<lambda>_ b. Some (if b < 70 then 3 else 4)),
     PhaseAggregators = (\<lambda>_ _ p _. Some ''agg''), Aggregator = (\<lambda>_ _. None), CallPriceFeed = (\<lambda>_ _. None),
     CallPhaseAggregator = (\<lambda>_ _ _. None), UpperBound = (\<lambda>_ _. None), FindLastLogBound = (\<lambda>_ _ _. Some 0), YVault = (\<lambda>_ _. False),
     Description = (\<lambda>_ _. None), IsRevert = (\<lambda>_ _. False), LatestAnswer = (\<lambda>_ _. None), CallSig = (\<lambda>_ _ _. None),
     CallDecimals = (\<lambda>_ _. None), FeedLogs = (\<lambda>_ _ _. Inr []), VersionDecimals = (\<lambda>_. 8), VersionInUSD = (\<lambda>_. True),
     fGetFloat64Decimal = (\<lambda>x _. of_int x), fGetInt64 = (\<lambda>x n. quo x (10 ^ nat n)), CompositeId = (\<lambda>a _. a), IsGBv1 = (\<lambda>_. False),
     rollbackAllowed = False\<rparr>"

definition demo_feed :: chainlink where
  "demo_feed = \<lparr>cl_adapter = \<lparr>Address = ''feed'', ContractName = ChainlinkPriceFeed, DiscoveredAt = 1, FirstLogAt = 1, LastSync = 0,
       Disabled = False, BlockToDisableOn = 0, V = 2, ErrorMsg = '''', Details = Some [(''upperLimit'', JInt 1000)],
       UnderlyingStateToSave = False, DataProcessType = 1, WillSyncTill = 0\<rparr>,
     cl_Token = ''t'', MainAgg = \<lparr>ma_Addr = ''oracle'', ma_bounded = True\<rparr>\<rparr>"

definition demo_feed_world :: feed_world where
  "demo_feed_world = \<lparr>fw_blocks = NewBlocksRepo, tokensCurrentOracle = Map.empty, zeroPFs = (\<lambda>_. False), fw_adapters = [],
     feedOrTokens = [], disabledYearn = [], chainlinkUpdated = []\<rparr>"

theorem phase_search_finds_change_witness:
  "GetFeedUpdateBlockUsingPhaseId 64 demo_feed_env \<lparr>ma_Addr = ''oracle'', ma_bounded = False\<rparr> 4 10 1000 = Inr 70"
  by (rule phase_search_finds_change) (auto simp: demo_feed_env_def)

theorem chainlink_prices_witness:
  "\<exists>w'. cl_OnLogs demo_feed_env demo_feed [(5, Some (900, 1)), (5, None), (5, Some (950, 2)), (6, None), (8, Some (2000, 3))] demo_feed_world = Inr w' \<and>
    price_at (stored_prices (True, ''t'', ''feed'') (fw_blocks w')) 4 = None \<and>
    price_at (stored_prices (True, ''t'', ''feed'') (fw_blocks w')) 5 = Some 950 \<and>
    price_at (stored_prices (True, ''t'', ''feed'') (fw_blocks w')) 6 = Some 950 \<and>
    price_at (stored_prices (True, ''t'', ''feed'') (fw_blocks w')) 8 = Some 1000"
proof -
  let ?logs = "[(5, Some (900, 1)), (5, None), (5, Some (950, 2)), (6, None), (8, Some (2000, 3))] :: cl_log list"
  have "\<exists>t. BlockByNumber (fe_chain demo_feed_env) b = Inr t" for b by (simp add: demo_feed_env_def demo_chain_def)
  moreover have "sorted (map fst ?logs)" "good_rounds ?logs" "answers_last ?logs" by (simp_all add: good_rounds_def answers_last_def)
  moreover have "upperLimit demo_feed = Inr 1000" by (simp add: upperLimit_def demo_feed_def)
  moreover have "fw_blocks demo_feed_world = NewBlocksRepo" by (simp add: demo_feed_world_def)
  ultimately have "\<exists>w'. cl_OnLogs demo_feed_env demo_feed ?logs demo_feed_world = Inr w' \<and>
    (\<forall>b. price_at (stored_prices (VersionInUSD demo_feed_env (V (cl_adapter demo_feed)), cl_Token demo_feed, Address (cl_adapter demo_feed)) (fw_blocks w')) b =
      map_option (\<lambda>a. if (1000 :: int) = 0 then a else min a 1000) (answer_by ?logs b))" by (rule chainlink_prices)
  then obtain w' where w': "cl_OnLogs demo_feed_env demo_feed ?logs demo_feed_world = Inr w'"
    "\<And>b. price_at (stored_prices (VersionInUSD demo_feed_env (V (cl_adapter demo_feed)), cl_Token demo_feed, Address (cl_adapter demo_feed)) (fw_blocks w')) b =
      map_option (\<lambda>a. if (1000 :: int) = 0 then a else min a 1000) (answer_by ?logs b)" by blast
  have k: "(VersionInUSD demo_feed_env (V (cl_adapter demo_feed)), cl_Token demo_feed, Address (cl_adapter demo_feed)) = (True, ''t'', ''feed'')"
    by (simp add: demo_feed_env_def demo_feed_def)
  have "answer_by ?logs 4 = None" "answer_by ?logs 5 = Some 950" "answer_by ?logs 6 = Some 950" "answer_by ?logs 8 = Some 2000"
    by (simp_all add: answer_by_def)
  with w'(2)[unfolded k, of 4] w'(2)[unfolded k, of 5] w'(2)[unfolded k, of 6] w'(2)[unfolded k, of 8] w'(1) show ?thesis by simp
qed

end
