(* ===== verification/Trace_Service.thy ===== *)
theory Trace_Service
  imports Go_Prelude "HOL-Library.Sublist"
begin

text \<open>
  Transaction traces (\<^verbatim>\<open>services/trace_service\<close>): the call tree and the logs of a transaction, the conversion of the flat list a
  node returns into a call tree, and the store of logs by block.  The HTTP requests to the tracing service and to the nodes are
  parameters.  A Go slice whose capacity matters is a list with its capacity.
\<close>

section \<open>Numbers as text\<close>

text \<open>\<^verbatim>\<open>hex.EncodeToString\<close>, \<^verbatim>\<open>big.Int.SetString(s, 16)\<close> and \<^verbatim>\<open>big.Int.String\<close>.\<close>

definition hex_digits :: string where
  "hex_digits = ''0123456789abcdef''"

definition hex_value :: "char \<Rightarrow> int option" where
  "hex_value c =
    (let n = int (of_char c :: nat) in
     if 48 \<le> n \<and> n \<le> 57 then Some (n - 48)
     else if 97 \<le> n \<and> n \<le> 102 then Some (n - 87)
     else if 65 \<le> n \<and> n \<le> 70 then Some (n - 55) else None)"

definition EncodeToString :: "nat list \<Rightarrow> string" where
  "EncodeToString bs = concat (map (\<lambda>b. [hex_digits ! (b div 16 mod 16), hex_digits ! (b mod 16)]) bs)"

primrec hex_number :: "string \<Rightarrow> int \<Rightarrow> int option" where
  "hex_number [] acc = Some acc"
| "hex_number (c # cs) acc = (case hex_value c of None \<Rightarrow> None | Some d \<Rightarrow> hex_number cs (16 * acc + d))"

definition SetString16 :: "string \<Rightarrow> int option" where
  "SetString16 s =
    (let (neg, ds) = (case s of c # cs \<Rightarrow> if c = CHR ''-'' then (True, cs) else if c = CHR ''+'' then (False, cs) else (False, s)
                      | [] \<Rightarrow> (False, s)) in
     if ds = [] then None else map_option (\<lambda>n. if neg then - n else n) (hex_number ds 0))"

definition SetBytes :: "nat list \<Rightarrow> int" where
  "SetBytes bs = foldl (\<lambda>acc b. 256 * acc + int b) 0 bs"

fun decimal :: "nat \<Rightarrow> string" where
  "decimal n = (if n < 10 then [hex_digits ! n] else decimal (n div 10) @ [hex_digits ! (n mod 10)])"

definition int_String :: "int \<Rightarrow> string" where
  "int_String i = (if i < 0 then CHR ''-'' # decimal (nat (- i)) else decimal (nat i))"

definition ToUpper :: "string \<Rightarrow> string" where
  "ToUpper s = map (\<lambda>c. let n = of_char c :: nat in if 97 \<le> n \<and> n \<le> 122 then char_of (n - 32) else c) s"

text \<open>\<^verbatim>\<open>s[n:]\<close> panics when the string is shorter.\<close>

definition go_from :: "nat \<Rightarrow> 'a list \<Rightarrow> 'a list res" where
  "go_from n xs = (if n \<le> length xs then Inr (drop n xs) else Inl IndexOutOfRange)"

section \<open>Traces\<close>

datatype call =
  Call (call_From: string) (call_To: string) (CallerOp: string) (call_Input: string) (call_Value: string)
    (Calls: "call option list")

record raw_log =
  rl_Address :: address
  rl_Topics :: "string list"
  rl_Data :: string

record trace_log =
  tl_Name :: string
  Raw :: raw_log

record tenderly_trace =
  CallTrace :: "call option"
  tt_TxHash :: txhash
  tt_Logs :: "trace_log list"
  tt_BlockNumber :: int

section \<open>Traces of the node\<close>

record rpc_action =
  act_From :: string
  act_To :: string
  act_CallType :: string
  act_Value :: string
  act_Input :: string

record rpc_trace =
  Action :: rpc_action
  rpc_BlockNumber :: int
  Subtraces :: int
  TraceAddress :: "int list"

definition toTenderlyCall :: "rpc_trace \<Rightarrow> txhash \<Rightarrow> (call \<times> int list) res" where
  "toTenderlyCall old txHash =
    (let callerOp = ToUpper (act_CallType (Action old)) in
     rbind (if callerOp \<noteq> ''STATICCALL''
            then rbind (go_from 2 (act_Value (Action old))) (\<lambda>v.
              case SetString16 v of None \<Rightarrow> Inl (Fatal ''ethValue'') | Some value \<Rightarrow> Inr (int_String value))
            else Inr '''') (\<lambda>valueStr.
     Inr (Call (act_From (Action old)) (act_To (Action old)) (ToUpper (act_CallType (Action old))) (act_Input (Action old)) valueStr
            (if Subtraces old > 0 then replicate (nat (Subtraces old)) None else []), TraceAddress old)))"

text \<open>
  Following a path of indices from the root and writing the call at its end.  The empty path is \<^verbatim>\<open>path[:len(path)-1]\<close> out of
  bounds; a step into a call that was not written yet is a nil pointer.
\<close>

fun set_call :: "int list \<Rightarrow> call \<Rightarrow> call \<Rightarrow> call res" where
  "set_call [] new cur = Inl IndexOutOfRange"
| "set_call [i] new (Call f t op inp v cs) =
    rbind (go_index cs i) (\<lambda>_. Inr (Call f t op inp v (cs[nat i := Some new])))"
| "set_call (i # j # path) new (Call f t op inp v cs) =
    rbind (go_index cs i) (\<lambda>slot. rbind (deref slot) (\<lambda>c. rbind (set_call (j # path) new c) (\<lambda>c'.
      Inr (Call f t op inp v (cs[nat i := Some c'])))))"

definition add_entry :: "txhash \<Rightarrow> rpc_trace \<Rightarrow> call \<Rightarrow> call res" where
  "add_entry txHash rpcEntry root =
    rbind (toTenderlyCall rpcEntry txHash) (\<lambda>(nextCall, path). set_call path nextCall root)"

definition convertToTenderlyTrace :: "rpc_trace list \<Rightarrow> txhash \<Rightarrow> tenderly_trace res" where
  "convertToTenderlyTrace old txHash =
    rbind (go_index old 0) (\<lambda>first.
    rbind (toTenderlyCall first txHash) (\<lambda>(root, _).
    rbind (rfold (add_entry txHash) (tl old) root) (\<lambda>root'.
      Inr \<lparr>CallTrace = Some root', tt_TxHash = txHash, tt_Logs = [], tt_BlockNumber = rpc_BlockNumber first\<rparr>)))"

record fetch_env =
  getDataOnRPC :: "string \<Rightarrow> txhash \<Rightarrow> string + rpc_trace list"
  tenderly_getData :: "txhash \<Rightarrow> nat \<Rightarrow> tenderly_trace res"      \<comment> \<open>by attempt\<close>
  Errors_Error :: "string list \<Rightarrow> string"
  node_GetLogs :: "int \<Rightarrow> (txhash \<times> address \<times> string list \<times> nat list) list res"   \<comment> \<open>hash, address, topics and data of the logs of a block\<close>
  te_Topic :: "string \<Rightarrow> string"
  slice_grow :: "nat \<Rightarrow> nat \<Rightarrow> nat"                                   \<comment> \<open>the new capacity of \<^verbatim>\<open>append\<close>\<close>

primrec parity_getData :: "fetch_env \<Rightarrow> txhash \<Rightarrow> string list \<Rightarrow> string list \<Rightarrow> string list + rpc_trace list" where
  "parity_getData E txhash [] errs = Inl errs"
| "parity_getData E txhash (rpc # rpcs) errs =
    (case getDataOnRPC E rpc txhash of
       Inr d \<Rightarrow> Inr d
     | Inl err \<Rightarrow> parity_getData E txhash rpcs (errs @ [err]))"

definition parity_getTxTrace :: "fetch_env \<Rightarrow> string list \<Rightarrow> txhash \<Rightarrow> tenderly_trace res" where
  "parity_getTxTrace E rpc txHash =
    (case parity_getData E txHash rpc [] of
       Inl errs \<Rightarrow> Inl (Fatal (Errors_Error E errs))
     | Inr rpcTrace \<Rightarrow> convertToTenderlyTrace rpcTrace txHash)"

definition tenderly_getTxTrace :: "fetch_env \<Rightarrow> txhash \<Rightarrow> tenderly_trace res" where
  "tenderly_getTxTrace E txHash =
    rbind (tenderly_getData E txHash 0) (\<lambda>trace.
      if CallTrace trace = None then
        rbind (tenderly_getData E txHash 1) (\<lambda>trace'.
          if CallTrace trace' = None then Inl (Fatal ''Retry failed for tenderly'') else Inr trace')
      else Inr trace)"

section \<open>The logs of a block\<close>

type_synonym node_log = "txhash \<times> address \<times> string list \<times> nat list"
type_synonym log_store = "txhash \<rightharpoonup> trace_log list"

record operator =
  curTxHash :: txhash
  storeCurTxHash :: bool

definition op_next :: "txhash \<Rightarrow> operator \<times> log_store \<Rightarrow> operator \<times> log_store" where
  "op_next newTxHash = (\<lambda>(op, logStore).
    if curTxHash op \<noteq> newTxHash then
      (\<lparr>curTxHash = newTxHash, storeCurTxHash = False\<rparr>,
       if \<not> storeCurTxHash op then logStore(curTxHash op := None) else logStore)
    else (op, logStore))"

definition formattedLog :: "node_log \<Rightarrow> trace_log" where
  "formattedLog = (\<lambda>(h, addr, topics, d). \<lparr>tl_Name = '''', Raw = \<lparr>rl_Address = addr, rl_Topics = topics, rl_Data = ''0x'' @ EncodeToString d\<rparr>\<rparr>)"

definition wanted_log :: "fetch_env \<Rightarrow> node_log \<Rightarrow> bool" where
  "wanted_log E = (\<lambda>(h, addr, topics, d).
    topics \<noteq> [] \<and> (hd topics = te_Topic E ''ExecuteOrder(address,address)'' \<or> hd topics = te_Topic E ''CloseCreditAccount(address,address)''))"

definition store_log :: "fetch_env \<Rightarrow> operator \<times> log_store \<Rightarrow> node_log \<Rightarrow> operator \<times> log_store" where
  "store_log E s txLog =
    (let newTxHash = fst txLog; (op, logStore) = op_next newTxHash s in
     (op\<lparr>storeCurTxHash := storeCurTxHash op \<or> wanted_log E txLog\<rparr>,
      logStore(newTxHash \<mapsto> zget [] logStore newTxHash @ [formattedLog txLog])))"

definition logs_by_tx :: "fetch_env \<Rightarrow> node_log list \<Rightarrow> log_store" where
  "logs_by_tx E txLogs =
    snd (op_next '''' (foldl (store_log E) (\<lparr>curTxHash = '''', storeCurTxHash = False\<rparr>, Map.empty) txLogs))"

definition fetchLogs :: "fetch_env \<Rightarrow> int \<Rightarrow> log_store res" where
  "fetchLogs E blockNum = rbind (node_GetLogs E blockNum) (\<lambda>txLogs. Inr (logs_by_tx E txLogs))"

section \<open>The store of logs\<close>

record int_slice =
  elems :: "int list"
  slice_cap :: nat

record tx_logger =
  tlog_store :: "int \<rightharpoonup> log_store"
  nums :: int_slice
  storeLen :: int

definition NewTxLogger :: "int \<Rightarrow> tx_logger" where
  "NewTxLogger len = \<lparr>tlog_store = Map.empty, nums = \<lparr>elems = [], slice_cap = nat (quo len 2)\<rparr>, storeLen = len\<rparr>"

definition SearchInts :: "int list \<Rightarrow> int \<Rightarrow> nat" where
  "SearchInts xs x = search_first (\<lambda>y. y \<ge> x) xs"

text \<open>
  \<^verbatim>\<open>append(nums[:ind+1], nums[ind:]...)\<close> makes room at \<^verbatim>\<open>ind\<close>; the slice expression panics beyond the capacity.
\<close>

definition insertInSlice :: "fetch_env \<Rightarrow> int_slice \<Rightarrow> int \<Rightarrow> int_slice res" where
  "insertInSlice E s block =
    (let ind = SearchInts (elems s) block in
     if ind \<noteq> 0 \<and> elems s ! (ind - 1) = block then Inr s
     else if ind + 1 > slice_cap s then Inl IndexOutOfRange
     else Inr \<lparr>elems = take ind (elems s) @ block # drop ind (elems s),
               slice_cap = (if length (elems s) + 1 \<le> slice_cap s then slice_cap s else slice_grow E (slice_cap s) (length (elems s) + 1))\<rparr>)"

definition deleteInSlice :: "int_slice \<Rightarrow> int \<Rightarrow> (int \<rightharpoonup> log_store) \<Rightarrow> int_slice \<times> (int \<rightharpoonup> log_store)" where
  "deleteInSlice s deleteTill st =
    (let ind = SearchInts (elems s) deleteTill in
     (s\<lparr>elems := drop ind (elems s)\<rparr>, foldl (\<lambda>st b. st(b := None)) st (take ind (elems s))))"

definition tlog_missing :: "tx_logger \<Rightarrow> int \<Rightarrow> txhash \<Rightarrow> bool" where
  "tlog_missing m blockNum txHash = (case tlog_store m blockNum of None \<Rightarrow> True | Some ls \<Rightarrow> ls txHash = None)"

definition tlog_GetLogs :: "fetch_env \<Rightarrow> int \<Rightarrow> txhash \<Rightarrow> tx_logger \<Rightarrow> (trace_log list \<times> tx_logger) res" where
  "tlog_GetLogs E blockNum txHash m =
    rbind (if tlog_missing m blockNum txHash
           then rbind (insertInSlice E (nums m) blockNum) (\<lambda>s.
                rbind (fetchLogs E blockNum) (\<lambda>ls.
                  Inr (m\<lparr>nums := s, tlog_store := (tlog_store m)(blockNum \<mapsto> ls)\<rparr>)))
           else Inr m) (\<lambda>m1.
      let ansTxLogs = (case tlog_store m1 blockNum of None \<Rightarrow> [] | Some ls \<Rightarrow> zget [] ls txHash);
          (s, st) = deleteInSlice (nums m1) (blockNum - storeLen m1) (tlog_store m1)
      in if ansTxLogs = [] then Inl (Fatal ''TxLogger returned 0 logs'')
         else Inr (ansTxLogs, m1\<lparr>nums := s, tlog_store := st\<rparr>))"

section \<open>The fetcher\<close>

record internal_fetcher =
  txLogger :: tx_logger
  rpcs :: "string list"
  useTenderlyTrace :: bool

definition fetcher_check :: "fetch_env \<Rightarrow> internal_fetcher \<Rightarrow> unit res" where
  "fetcher_check E ep =
    (if useTenderlyTrace ep then Inr ()
     else case parity_getData E '''' (rpcs ep) [] of
       Inr _ \<Rightarrow> Inr ()
     | Inl errs \<Rightarrow>
         guard_fatal (\<not> sublist ''invalid argument 0: hex string has length 0, want 64 for common.Hash'' (Errors_Error E errs))
           (Errors_Error E errs))"

definition NewInternalFetcher :: "fetch_env \<Rightarrow> int \<Rightarrow> string list \<Rightarrow> bool \<Rightarrow> internal_fetcher res" where
  "NewInternalFetcher E batchSize rpc useTenderly =
    (let fetcher = \<lparr>txLogger = NewTxLogger batchSize, rpcs = rpc, useTenderlyTrace = useTenderly\<rparr> in
     rbind (fetcher_check E fetcher) (\<lambda>_. Inr fetcher))"

text \<open>
  The fetcher is a value receiver: the method works on a copy.  The map of the store is shared with the original, the slice header
  \<^verbatim>\<open>nums\<close> is not, so the changes of \<^verbatim>\<open>nums\<close> end with the call.
\<close>

definition GetTxTrace :: "fetch_env \<Rightarrow> txhash \<Rightarrow> bool \<Rightarrow> internal_fetcher \<Rightarrow> (tenderly_trace \<times> internal_fetcher) res" where
  "GetTxTrace E txHash canLoadLogsFromRPC ep =
    rbind (if useTenderlyTrace ep then tenderly_getTxTrace E txHash else parity_getTxTrace E (rpcs ep) txHash) (\<lambda>trace.
      if canLoadLogsFromRPC \<and> tt_Logs trace = [] then
        rbind (tlog_GetLogs E (tt_BlockNumber trace) (tt_TxHash trace) (txLogger ep)) (\<lambda>(ls, m).
          Inr (trace\<lparr>tt_Logs := ls\<rparr>, ep\<lparr>txLogger := (txLogger ep)\<lparr>tlog_store := tlog_store m\<rparr>\<rparr>))
      else Inr (trace, ep))"

end
