(* ===== verification/Trace_Correct.thy ===== *)
theory Trace_Correct
  imports Trace_Service
begin

text \<open>
  Correctness of the trace service: the flat list of a node is turned into the call tree it describes, the logs of a block are
  divided by transaction, and what the store of logs holds after any number of requests.
\<close>

section \<open>The logs of a block by transaction\<close>

lemma distinct_adj_snoc:
  assumes "distinct (remdups_adj (xs @ [x]))"
  shows "distinct (remdups_adj xs)" and "xs \<noteq> [] \<Longrightarrow> last xs \<noteq> x \<Longrightarrow> x \<notin> set xs"
proof -
  have split: "remdups_adj (xs @ [x]) = remdups_adj xs @ (if last xs = x then [] else [x])" if "xs \<noteq> []"
    using that by (cases xs rule: rev_cases) (auto simp: remdups_adj_append_two)
  show "distinct (remdups_adj xs)" using assms split by (cases "xs = []") auto
  show "x \<notin> set xs" if "xs \<noteq> []" "last xs \<noteq> x"
    using assms split[OF that(1)] that(2) by simp
qed

text \<open>Deleting the current transaction unless it is wanted leaves the wanted ones.\<close>

lemma drop_unwanted:
  assumes "F = (\<lambda>tx. if \<exists>l \<in> S. k l = tx \<and> (tx = c \<or> W l) then Some (G tx) else None)"
  shows "(if \<exists>l \<in> S. k l = c \<and> W l then F else F(c := None)) = (\<lambda>tx. if \<exists>l \<in> S. k l = tx \<and> W l then Some (G tx) else None)"
proof (rule ext)
  show "(if \<exists>l \<in> S. k l = c \<and> W l then F else F(c := None)) tx = (if \<exists>l \<in> S. k l = tx \<and> W l then Some (G tx) else None)" for tx
    by (cases "tx = c"; cases "\<exists>l \<in> S. k l = c \<and> W l") (auto simp: assms)
qed

lemma store_log_inv:
  assumes "distinct (remdups_adj (map fst xs))" and "'''' \<notin> fst ` set xs"
    and "foldl (store_log E) (\<lparr>curTxHash = '''', storeCurTxHash = False\<rparr>, Map.empty) xs = (op, st)"
  shows "curTxHash op = (if xs = [] then '''' else fst (last xs)) \<and>
    storeCurTxHash op = (\<exists>l \<in> set xs. fst l = curTxHash op \<and> wanted_log E l) \<and>
    st = (\<lambda>tx. if \<exists>l \<in> set xs. fst l = tx \<and> (tx = curTxHash op \<or> wanted_log E l)
               then Some (map formattedLog (filter (\<lambda>l. fst l = tx) xs)) else None)"
  using assms
proof (induction xs arbitrary: op st rule: rev_induct)
  case (snoc l xs)
  obtain op0 st0 where prev: "foldl (store_log E) (\<lparr>curTxHash = '''', storeCurTxHash = False\<rparr>, Map.empty) xs = (op0, st0)"
    by (meson surj_pair)
  have d: "distinct (remdups_adj (map fst xs))" and new: "xs \<noteq> [] \<Longrightarrow> fst (last xs) \<noteq> fst l \<Longrightarrow> fst l \<notin> fst ` set xs"
    using distinct_adj_snoc[of "map fst xs" "fst l"] snoc.prems(1) by (simp_all add: last_map)
  have IH: "curTxHash op0 = (if xs = [] then '''' else fst (last xs))"
      "storeCurTxHash op0 = (\<exists>l \<in> set xs. fst l = curTxHash op0 \<and> wanted_log E l)"
      "st0 = (\<lambda>tx. if \<exists>l \<in> set xs. fst l = tx \<and> (tx = curTxHash op0 \<or> wanted_log E l)
               then Some (map formattedLog (filter (\<lambda>l. fst l = tx) xs)) else None)"
    using snoc.IH[OF d _ prev] snoc.prems(2) by auto
  have step: "(op, st) = store_log E (op0, st0) l" using snoc.prems(3) prev by simp
  show ?case
  proof (cases "curTxHash op0 = fst l")
    case True
    then have "xs \<noteq> []" using IH(1) snoc.prems(2) by auto
    then obtain y where "y \<in> set xs" "fst y = fst l" using IH(1) True by (metis last_in_set)
    then have "\<exists>y \<in> set xs. fst y = fst l" by blast
    moreover have "op = op0\<lparr>storeCurTxHash := storeCurTxHash op0 \<or> wanted_log E l\<rparr>"
      and "st = st0(fst l \<mapsto> zget [] st0 (fst l) @ [formattedLog l])"
      using step True by (simp_all add: store_log_def op_next_def Let_def)
    ultimately show ?thesis using True IH(2)
      by (simp add: IH(3) zget_def fun_eq_iff) blast
  next
    case False
    then have notin: "fst l \<notin> fst ` set xs" using new IH(1) by (cases "xs = []") auto
    then have none: "\<not> (\<exists>y \<in> set xs. fst y = fst l)" by (metis image_eqI)
    then have "filter (\<lambda>y. fst y = fst l) xs = []" by (simp add: filter_empty_conv)
    moreover note none
    moreover have "op = \<lparr>curTxHash = fst l, storeCurTxHash = wanted_log E l\<rparr>"
      and "st = (if storeCurTxHash op0 then st0 else st0(curTxHash op0 := None))(fst l \<mapsto> zget [] st0 (fst l) @ [formattedLog l])"
      using step False by (simp_all add: store_log_def op_next_def Let_def zget_def)
    moreover have "zget [] st0 (fst l) = []" using none by (simp add: IH(3) zget_def)
    moreover note drop_unwanted[OF IH(3)]
    ultimately show ?thesis using none IH(2) by (simp add: fun_eq_iff)
  qed
qed (simp add: fun_eq_iff)

lemma logs_by_tx_exact:
  assumes "distinct (remdups_adj (map fst xs))" and "'''' \<notin> fst ` set xs"
  shows "logs_by_tx E xs = (\<lambda>tx. if \<exists>l \<in> set xs. fst l = tx \<and> wanted_log E l
      then Some (map formattedLog (filter (\<lambda>l. fst l = tx) xs)) else None)"
proof -
  obtain op st where run: "foldl (store_log E) (\<lparr>curTxHash = '''', storeCurTxHash = False\<rparr>, Map.empty) xs = (op, st)"
    by (meson surj_pair)
  have cur: "curTxHash op = (if xs = [] then '''' else fst (last xs))"
    and kept: "storeCurTxHash op = (\<exists>l \<in> set xs. fst l = curTxHash op \<and> wanted_log E l)"
    and st: "st = (\<lambda>tx. if \<exists>l \<in> set xs. fst l = tx \<and> (tx = curTxHash op \<or> wanted_log E l)
               then Some (map formattedLog (filter (\<lambda>l. fst l = tx) xs)) else None)"
    using store_log_inv[OF assms run] by blast+
  show ?thesis
  proof (cases "xs = []")
    case False
    then have "curTxHash op \<in> fst ` set xs" using cur by simp
    then have "curTxHash op \<noteq> ''''" using assms(2) by metis
    then have "logs_by_tx E xs = (if storeCurTxHash op then st else st(curTxHash op := None))"
      using run by (simp add: logs_by_tx_def op_next_def)
    then show ?thesis using drop_unwanted[OF st] unfolding kept by (rule trans)
  qed (simp add: logs_by_tx_def op_next_def)
qed

section \<open>The call tree\<close>

text \<open>What the flat list of a node describes: a tree of calls, listed in preorder, each with the path to it.\<close>

datatype action_tree = ATree rpc_action "action_tree list"

definition below :: "nat \<Rightarrow> rpc_trace \<Rightarrow> rpc_trace" where
  "below i e = e\<lparr>TraceAddress := int i # TraceAddress e\<rparr>"

definition head_entry :: "int \<Rightarrow> rpc_action \<Rightarrow> nat \<Rightarrow> rpc_trace" where
  "head_entry b a n = \<lparr>Action = a, rpc_BlockNumber = b, Subtraces = int n, TraceAddress = []\<rparr>"

lemma enumerate_snd [termination_simp]: "(i, t) \<in> set (List.enumerate n ts) \<Longrightarrow> size t < Suc (size_list size ts)"
proof -
  assume "(i, t) \<in> set (List.enumerate n ts)"
  then have "t \<in> set ts" by (auto simp: in_set_enumerate_eq)
  then show ?thesis by (simp add: less_Suc_eq_le size_list_estimation')
qed

fun preorder :: "int \<Rightarrow> action_tree \<Rightarrow> rpc_trace list" where
  "preorder b (ATree a ts) =
    head_entry b a (length ts) # concat (map (\<lambda>(i, t). map (below i) (preorder b t)) (List.enumerate 0 ts))"

definition valid_action :: "rpc_action \<Rightarrow> bool" where
  "valid_action a \<longleftrightarrow> ToUpper (act_CallType a) = ''STATICCALL'' \<or>
    2 \<le> length (act_Value a) \<and> SetString16 (drop 2 (act_Value a)) \<noteq> None"

definition action_value :: "rpc_action \<Rightarrow> string" where
  "action_value a = (if ToUpper (act_CallType a) = ''STATICCALL'' then '''' else int_String (the (SetString16 (drop 2 (act_Value a)))))"

abbreviation call_of :: "rpc_action \<Rightarrow> call option list \<Rightarrow> call" where
  "call_of a \<equiv> Call (act_From a) (act_To a) (ToUpper (act_CallType a)) (act_Input a) (action_value a)"

fun valid_tree :: "action_tree \<Rightarrow> bool" where
  "valid_tree (ATree a ts) \<longleftrightarrow> valid_action a \<and> list_all valid_tree ts"

fun tree_call :: "action_tree \<Rightarrow> call" where
  "tree_call (ATree a ts) = call_of a (map (\<lambda>t. Some (tree_call t)) ts)"

fun unfilled :: "action_tree \<Rightarrow> call" where
  "unfilled (ATree a ts) = call_of a (replicate (length ts) None)"

lemma toTenderlyCall_head:
  "valid_action a \<Longrightarrow> toTenderlyCall (head_entry b a n) tx = Inr (call_of a (replicate n None), [])"
  by (auto simp: toTenderlyCall_def head_entry_def valid_action_def action_value_def go_from_def)

lemma toTenderlyCall_below:
  "toTenderlyCall (below i e) tx = rbind (toTenderlyCall e tx) (\<lambda>(c, p). Inr (c, int i # p))"
  by (simp add: toTenderlyCall_def below_def Let_def rbind_assoc split: option.splits)

lemma toTenderlyCall_path: "toTenderlyCall e tx = Inr (c, p) \<Longrightarrow> p = TraceAddress e"
  by (auto simp: toTenderlyCall_def Let_def elim!: rbind_InrE)

text \<open>The entries below a child only change that child.\<close>

lemma add_entries_below:
  assumes "i < length cs" and "\<forall>e \<in> set es. TraceAddress e \<noteq> []"
  shows "rfold (add_entry tx) (map (below i) es) (Call f t op inp v (cs[i := Some c])) =
    rbind (rfold (add_entry tx) es c) (\<lambda>c'. Inr (Call f t op inp v (cs[i := Some c'])))"
  using assms(2)
proof (induction es arbitrary: c)
  case (Cons e es)
  have one: "add_entry tx (below i e) (Call f t op inp v (cs[i := Some c])) =
      rbind (add_entry tx e c) (\<lambda>c'. Inr (Call f t op inp v (cs[i := Some c'])))"
  proof (cases "toTenderlyCall e tx")
    case (Inr r)
    then obtain n p where r: "toTenderlyCall e tx = Inr (n, p)" by (cases r) simp
    then have "p \<noteq> []" using toTenderlyCall_path Cons.prems by fastforce
    then show ?thesis using assms(1) r
      by (cases p) (simp_all add: add_entry_def toTenderlyCall_below)
  qed (simp add: add_entry_def toTenderlyCall_below)
  show ?case using Cons by (simp add: one rbind_assoc)
qed simp

lemma preorder_tl_paths: "e \<in> set (tl (preorder b t)) \<Longrightarrow> TraceAddress e \<noteq> []"
  by (cases t) (auto simp: below_def)

lemma preorder_split: "preorder b (ATree a ts) = head_entry b a (length ts) # tl (preorder b (ATree a ts))"
  by simp

lemma fill_children:
  assumes "\<forall>t \<in> set ts. valid_tree t \<and> rfold (add_entry tx) (tl (preorder b t)) (unfilled t) = Inr (tree_call t)"
  shows "rfold (add_entry tx) (concat (map (\<lambda>(i, t). map (below i) (preorder b t)) (List.enumerate (length done) ts)))
      (Call f x op inp v (done @ replicate (length ts) None)) = Inr (Call f x op inp v (done @ map (\<lambda>t. Some (tree_call t)) ts))"
  using assms
proof (induction ts arbitrary: "done")
  case (Cons t ts)
  obtain a us where t: "t = ATree a us" by (cases t)
  let ?slot = "\<lambda>c. done @ Some c # replicate (length ts) None"
  have slot: "?slot c = (?slot c0)[length done := Some c]" for c c0 by simp
  have fill: "rfold (add_entry tx) (tl (preorder b t)) (unfilled t) = Inr (tree_call t)" and "valid_action a"
    using Cons.prems t by auto
  then have first: "add_entry tx (below (length done) (head_entry b a (length us))) (Call f x op inp v (done @ None # replicate (length ts) None)) =
      Inr (Call f x op inp v (?slot (unfilled t)))"
    by (simp add: add_entry_def toTenderlyCall_below toTenderlyCall_head t)
  have rest: "rfold (add_entry tx) (map (below (length done)) (tl (preorder b t))) (Call f x op inp v (?slot (unfilled t))) =
      Inr (Call f x op inp v (?slot (tree_call t)))"
    using add_entries_below[of "length done" "?slot (unfilled t)" "tl (preorder b t)" tx f x op inp v "unfilled t"] preorder_tl_paths fill
    by simp
  have next_done: "rfold (add_entry tx) (concat (map (\<lambda>(i, t). map (below i) (preorder b t)) (List.enumerate (Suc (length done)) ts)))
      (Call f x op inp v (?slot (tree_call t))) = Inr (Call f x op inp v (done @ Some (tree_call t) # map (\<lambda>t. Some (tree_call t)) ts))"
    using Cons.IH[of "done @ [Some (tree_call t)]"] Cons.prems by simp
  have "preorder b t = head_entry b a (length us) # tl (preorder b t)" using t preorder_split by simp
  then have "map (below (length done)) (preorder b t) =
      below (length done) (head_entry b a (length us)) # map (below (length done)) (tl (preorder b t))" by (metis list.map(2))
  then show ?case using first rest next_done by (simp add: rfold_append)
qed simp

lemma fill_tree: "valid_tree t \<Longrightarrow> rfold (add_entry tx) (tl (preorder b t)) (unfilled t) = Inr (tree_call t)"
proof (induction t)
  case (ATree a ts)
  then have "\<forall>t \<in> set ts. valid_tree t \<and> rfold (add_entry tx) (tl (preorder b t)) (unfilled t) = Inr (tree_call t)"
    by (auto simp: list_all_iff)
  from fill_children[OF this, of "[]"] show ?case by simp
qed

text \<open>
  C11: For a transaction whose calls form a tree, listed by the node in preorder with the path of every call, the conversion succeeds
  and yields exactly that tree: every call is at its place, with its caller, callee, input and kind, and no slot is left empty.
\<close>

theorem convertToTenderlyTrace_preorder:
  assumes "valid_tree t"
  shows "convertToTenderlyTrace (preorder b t) txHash =
    Inr \<lparr>CallTrace = Some (tree_call t), tt_TxHash = txHash, tt_Logs = [], tt_BlockNumber = b\<rparr>"
proof -
  obtain a ts where t: "t = ATree a ts" by (cases t)
  with assms have "toTenderlyCall (head_entry b a (length ts)) txHash = Inr (unfilled t, [])"
    by (simp add: toTenderlyCall_head)
  moreover have "preorder b t = head_entry b a (length ts) # tl (preorder b t)" using t preorder_split by simp
  ultimately show ?thesis using fill_tree[OF assms, of txHash b]
    by (simp add: convertToTenderlyTrace_def go_index_def head_entry_def)
      (metis (no_types, lifting) head_entry_def nth_Cons_0 rbind_simps(2) length_greater_0_conv list.discI rpc_trace.select_convs(2) case_prod_conv)
qed

definition sample_action :: "string \<Rightarrow> rpc_action" where
  "sample_action to = \<lparr>act_From = ''0xa'', act_To = to, act_CallType = ''call'', act_Value = ''0x1f'', act_Input = ''0x''\<rparr>"

theorem convertToTenderlyTrace_preorder_witness:
  "convertToTenderlyTrace (preorder 7 (ATree (sample_action ''0xb'') [ATree (sample_action ''0xc'') [], ATree (sample_action ''0xd'') []])) ''tx'' =
    Inr \<lparr>CallTrace = Some (Call ''0xa'' ''0xb'' ''CALL'' ''0x'' ''31''
      [Some (Call ''0xa'' ''0xc'' ''CALL'' ''0x'' ''31'' []), Some (Call ''0xa'' ''0xd'' ''CALL'' ''0x'' ''31'' [])]),
      tt_TxHash = ''tx'', tt_Logs = [], tt_BlockNumber = 7\<rparr>"
proof -
  let ?t = "ATree (sample_action ''0xb'') [ATree (sample_action ''0xc'') [], ATree (sample_action ''0xd'') []]"
  have v: "valid_tree ?t" by code_simp
  have "tree_call ?t = Call ''0xa'' ''0xb'' ''CALL'' ''0x'' ''31''
      [Some (Call ''0xa'' ''0xc'' ''CALL'' ''0x'' ''31'' []), Some (Call ''0xa'' ''0xd'' ''CALL'' ''0x'' ''31'' [])]" by code_simp
  with convertToTenderlyTrace_preorder[OF v, of 7 "''tx''"] show ?thesis by (simp only:)
qed

section \<open>The store of logs\<close>

text \<open>The store holds for a block what the node reports for it.\<close>

definition store_ok :: "fetch_env \<Rightarrow> tx_logger \<Rightarrow> bool" where
  "store_ok E m \<longleftrightarrow> (\<forall>b ls. tlog_store m b = Some ls \<longrightarrow> fetchLogs E b = Inr ls)"

lemma foldl_delete_keys: "foldl (\<lambda>st b. st(b := None)) m bs = (\<lambda>b. if b \<in> set bs then None else m b)"
  by (induction bs arbitrary: m) auto

lemma tlog_GetLogs_cases:
  assumes "tlog_GetLogs E b tx m = Inr (ls, m')"
  obtains (fetched) s st where "insertInSlice E (nums m) b = Inr s" "fetchLogs E b = Inr st" "st tx = Some ls"
      "tlog_store m' = snd (deleteInSlice s (b - storeLen m) ((tlog_store m)(b \<mapsto> st)))"
  | (cached) st where "tlog_store m b = Some st" "st tx = Some ls"
      "tlog_store m' = snd (deleteInSlice (nums m) (b - storeLen m) (tlog_store m))"
proof (cases "tlog_missing m b tx")
  case True
  with assms obtain s st where f: "insertInSlice E (nums m) b = Inr s" "fetchLogs E b = Inr st"
    by (auto simp: tlog_GetLogs_def elim!: rbind_InrE)
  with assms True have "ls = zget [] st tx" "ls \<noteq> []"
      "tlog_store m' = snd (deleteInSlice s (b - storeLen m) ((tlog_store m)(b \<mapsto> st)))"
    by (auto simp: tlog_GetLogs_def Let_def split: prod.splits if_splits)
  moreover from this(1,2) have "st tx = Some ls" by (auto simp: zget_def split: option.splits)
  ultimately show ?thesis using f fetched by blast
next
  case False
  then obtain st ls0 where st: "tlog_store m b = Some st" "st tx = Some ls0"
    by (auto simp: tlog_missing_def split: option.splits)
  with assms False have "ls0 = ls" "tlog_store m' = snd (deleteInSlice (nums m) (b - storeLen m) (tlog_store m))"
    by (auto simp: tlog_GetLogs_def Let_def split: prod.splits if_splits)
  with st show ?thesis using cached by blast
qed

lemma deleteInSlice_store: "snd (deleteInSlice s x st) b = Some ls \<Longrightarrow> st b = Some ls"
  by (auto simp: deleteInSlice_def Let_def foldl_delete_keys split: if_splits)

lemma tlog_GetLogs_ok:
  assumes "tlog_GetLogs E b tx m = Inr (ls, m')" and "store_ok E m"
  shows "\<exists>st. fetchLogs E b = Inr st \<and> st tx = Some ls" and "store_ok E m'"
proof -
  show "\<exists>st. fetchLogs E b = Inr st \<and> st tx = Some ls"
    using assms(1) by (cases rule: tlog_GetLogs_cases) (use assms(2) in \<open>auto simp: store_ok_def\<close>)
  show "store_ok E m'"
    using assms(1) by (cases rule: tlog_GetLogs_cases)
      (use assms(2) in \<open>auto simp: store_ok_def dest!: deleteInSlice_store split: if_splits\<close>)
qed

section \<open>Requests to the fetcher\<close>

definition bare_trace :: "fetch_env \<Rightarrow> internal_fetcher \<Rightarrow> txhash \<Rightarrow> tenderly_trace res" where
  "bare_trace E ep txHash = (if useTenderlyTrace ep then tenderly_getTxTrace E txHash else parity_getTxTrace E (rpcs ep) txHash)"

definition fetch_all :: "fetch_env \<Rightarrow> txhash list \<Rightarrow> internal_fetcher \<Rightarrow> internal_fetcher res" where
  "fetch_all E = rfold (\<lambda>txHash ep. rbind (GetTxTrace E txHash True ep) (\<lambda>(trace, ep'). Inr ep'))"

lemma GetTxTrace_cases:
  assumes "GetTxTrace E tx True ep = Inr (trace, ep')"
  obtains (logged) "bare_trace E ep tx = Inr trace" "tt_Logs trace \<noteq> []" "ep' = ep"
  | (stored) t m where "bare_trace E ep tx = Inr t" "tt_Logs t = []"
      "tlog_GetLogs E (tt_BlockNumber t) (tt_TxHash t) (txLogger ep) = Inr (tt_Logs trace, m)"
      "ep' = ep\<lparr>txLogger := (txLogger ep)\<lparr>tlog_store := tlog_store m\<rparr>\<rparr>"
proof -
  from assms obtain t where t: "bare_trace E ep tx = Inr t" and r: "(if tt_Logs t = [] then
        rbind (tlog_GetLogs E (tt_BlockNumber t) (tt_TxHash t) (txLogger ep)) (\<lambda>(ls, m).
          Inr (t\<lparr>tt_Logs := ls\<rparr>, ep\<lparr>txLogger := (txLogger ep)\<lparr>tlog_store := tlog_store m\<rparr>\<rparr>))
      else Inr (t, ep)) = Inr (trace, ep')"
    unfolding GetTxTrace_def bare_trace_def by (elim rbind_InrE) simp
  show ?thesis
  proof (cases "tt_Logs t = []")
    case True
    then show ?thesis using r stored[OF t] by (auto elim!: rbind_InrE)
  next
    case False
    with r have "t = trace" "ep' = ep" by simp_all
    with t False show ?thesis using logged by blast
  qed
qed

text \<open>Every call on the fetcher starts with no block numbers, so no block is ever old enough to be deleted.\<close>

lemma tlog_GetLogs_keeps:
  assumes "tlog_GetLogs E b tx m = Inr (ls, m')" and "elems (nums m) = []" and "0 \<le> storeLen m"
  shows "dom (tlog_store m') = insert b (dom (tlog_store m))"
proof -
  have none: "SearchInts [] x = 0" "SearchInts [b] (b - storeLen m) = 0" for x
    using assms(3) by (simp_all add: SearchInts_def search_first_def)
  show ?thesis using assms(1)
  proof (cases rule: tlog_GetLogs_cases)
    case (fetched s st)
    have "insertInSlice E (nums m) b = Inr s \<Longrightarrow> elems s = [b]"
      using assms(2) none(1) by (simp add: insertInSlice_def Let_def split: if_splits) force
    then have "elems s = [b]" using fetched(1) by blast
    with fetched(4) none(2) show ?thesis by (simp add: deleteInSlice_def)
  next
    case (cached st)
    then have "b \<in> dom (tlog_store m)" and "tlog_store m' = tlog_store m"
      using assms(2) none(1) by (simp_all add: deleteInSlice_def dom_def)
    then show ?thesis by (simp add: insert_absorb)
  qed
qed

definition fetcher_inv :: "fetch_env \<Rightarrow> internal_fetcher \<Rightarrow> internal_fetcher \<Rightarrow> bool" where
  "fetcher_inv E ep0 ep \<longleftrightarrow> rpcs ep = rpcs ep0 \<and> useTenderlyTrace ep = useTenderlyTrace ep0 \<and>
    elems (nums (txLogger ep)) = [] \<and> storeLen (txLogger ep) = storeLen (txLogger ep0) \<and> store_ok E (txLogger ep)"

lemma fetcher_inv_bare: "fetcher_inv E ep0 ep \<Longrightarrow> bare_trace E ep tx = bare_trace E ep0 tx"
  by (simp add: fetcher_inv_def bare_trace_def)

lemma fetcher_inv_step:
  assumes "GetTxTrace E tx True ep = Inr (trace, ep')" and "fetcher_inv E ep0 ep"
  shows "fetcher_inv E ep0 ep'"
  using assms(1)
proof (cases rule: GetTxTrace_cases)
  case (stored t m)
  then have "store_ok E m" using assms(2) tlog_GetLogs_ok(2) by (auto simp: fetcher_inv_def)
  with stored assms(2) show ?thesis by (simp add: fetcher_inv_def store_ok_def)
qed (use assms(2) in simp)

lemma NewInternalFetcher_inv:
  assumes "NewInternalFetcher E n rpc ut = Inr ep"
  shows "fetcher_inv E ep ep" and "tlog_store (txLogger ep) = Map.empty" and "storeLen (txLogger ep) = n"
  using assms
  by (auto simp: NewInternalFetcher_def NewTxLogger_def Let_def fetcher_inv_def store_ok_def elim!: rbind_InrE)

lemma fetch_all_inv:
  "fetch_all E txs ep = Inr ep' \<Longrightarrow> fetcher_inv E ep0 ep \<Longrightarrow> fetcher_inv E ep0 ep'"
  unfolding fetch_all_def by (erule rfold_invariant) (auto elim!: rbind_InrE dest: fetcher_inv_step)

lemma GetTxTrace_dom:
  assumes "GetTxTrace E tx True ep = Inr (trace, ep')" and "fetcher_inv E ep0 ep" and "0 \<le> storeLen (txLogger ep0)"
  shows "dom (tlog_store (txLogger ep')) = dom (tlog_store (txLogger ep)) \<union>
    {b. \<exists>t. bare_trace E ep0 tx = Inr t \<and> tt_Logs t = [] \<and> b = tt_BlockNumber t}"
  using assms(1)
proof (cases rule: GetTxTrace_cases)
  case (stored t m)
  then have "dom (tlog_store m) = insert (tt_BlockNumber t) (dom (tlog_store (txLogger ep)))"
    using assms(2,3) tlog_GetLogs_keeps by (auto simp: fetcher_inv_def)
  with stored show ?thesis by (simp add: fetcher_inv_bare[OF assms(2)])
qed (simp add: fetcher_inv_bare[OF assms(2)])

lemma fetch_all_dom:
  assumes "fetch_all E txs ep = Inr ep'" and "fetcher_inv E ep0 ep" and "0 \<le> storeLen (txLogger ep0)"
  shows "dom (tlog_store (txLogger ep')) = dom (tlog_store (txLogger ep)) \<union>
    {b. \<exists>tx \<in> set txs. \<exists>t. bare_trace E ep0 tx = Inr t \<and> tt_Logs t = [] \<and> b = tt_BlockNumber t}"
  using assms(1,2)
proof (induction txs arbitrary: ep)
  case (Cons tx txs)
  then obtain trace ep1 where step: "GetTxTrace E tx True ep = Inr (trace, ep1)" and rest: "fetch_all E txs ep1 = Inr ep'"
    by (auto simp: fetch_all_def elim!: rbind_InrE)
  from Cons.IH[OF rest fetcher_inv_step[OF step Cons.prems(2)]] GetTxTrace_dom[OF step Cons.prems(2) assms(3)]
  show ?case by auto
qed (simp add: fetch_all_def)

text \<open>
  C12: After any number of earlier requests, a trace without logs gets the logs the node has for that transaction in its block: all of
  them, in their order, formatted once, and none of another transaction, whether the block was stored before or not.  The logs of a
  block come grouped by transaction.
\<close>

theorem GetTxTrace_logs:
  assumes "NewInternalFetcher E n rpc ut = Inr ep0" and "fetch_all E txs ep0 = Inr ep"
    and "GetTxTrace E tx True ep = Inr (trace, ep')"
    and "bare_trace E ep0 tx = Inr t" and "tt_Logs t = []" and "node_GetLogs E (tt_BlockNumber t) = Inr logs"
    and "distinct (remdups_adj (map fst logs))" and "'''' \<notin> fst ` set logs"
  shows "tt_Logs trace = map formattedLog (filter (\<lambda>l. fst l = tt_TxHash t) logs)"
proof -
  have inv: "fetcher_inv E ep0 ep" using fetch_all_inv[OF assms(2)] NewInternalFetcher_inv(1)[OF assms(1)] .
  from assms(3) show ?thesis
  proof (cases rule: GetTxTrace_cases)
    case logged
    then show ?thesis using assms(4,5) by (simp add: fetcher_inv_bare[OF inv])
  next
    case (stored t' m)
    then have "t' = t" using assms(4) by (simp add: fetcher_inv_bare[OF inv])
    moreover have "store_ok E (txLogger ep)" using inv by (simp add: fetcher_inv_def)
    ultimately obtain st where "fetchLogs E (tt_BlockNumber t) = Inr st" "st (tt_TxHash t) = Some (tt_Logs trace)"
      using tlog_GetLogs_ok(1)[OF stored(3)] by blast
    then have "logs_by_tx E logs (tt_TxHash t) = Some (tt_Logs trace)" using assms(6) by (simp add: fetchLogs_def)
    then show ?thesis using logs_by_tx_exact[OF assms(7,8)] by (simp split: if_splits)
  qed
qed

definition sample_env :: fetch_env where
  "sample_env = \<lparr>getDataOnRPC = (\<lambda>_ _. Inl ''unused''),
     tenderly_getData = (\<lambda>tx _. Inr \<lparr>CallTrace = Some (Call '''' '''' '''' '''' '''' []), tt_TxHash = tx, tt_Logs = [],
       tt_BlockNumber = (if tx = ''t1'' then 10 else 1000)\<rparr>),
     Errors_Error = concat,
     node_GetLogs = (\<lambda>b. Inr [(''t0'', ''0xe'', [''x''], [1]), (if b = 10 then ''t1'' else ''t2'', ''0xe'', [''ExecuteOrder(address,address)''], [255])]),
     te_Topic = (\<lambda>s. s), slice_grow = (\<lambda>_ n. 2 * n)\<rparr>"

theorem GetTxTrace_logs_witness:
  "\<exists>ep0 ep trace ep'. NewInternalFetcher sample_env 2 [] True = Inr ep0 \<and> fetch_all sample_env [''t1''] ep0 = Inr ep \<and>
    GetTxTrace sample_env ''t2'' True ep = Inr (trace, ep') \<and>
    tt_Logs trace = [\<lparr>tl_Name = '''', Raw = \<lparr>rl_Address = ''0xe'', rl_Topics = [''ExecuteOrder(address,address)''], rl_Data = ''0xff''\<rparr>\<rparr>]"
proof -
  have "case NewInternalFetcher sample_env 2 [] True of Inl _ \<Rightarrow> False | Inr ep0 \<Rightarrow>
      (case fetch_all sample_env [''t1''] ep0 of Inl _ \<Rightarrow> False | Inr ep \<Rightarrow>
      (case GetTxTrace sample_env ''t2'' True ep of Inl _ \<Rightarrow> False | Inr (trace, ep') \<Rightarrow>
        \<not> Option.is_none (case bare_trace sample_env ep0 ''t2'' of Inl _ \<Rightarrow> None | Inr t \<Rightarrow>
          if tt_Logs t = [] \<and> tt_BlockNumber t = 1000 \<and> tt_TxHash t = ''t2'' then Some () else None)))"
    by code_simp
  then obtain ep0 ep trace ep' t where run: "NewInternalFetcher sample_env 2 [] True = Inr ep0" "fetch_all sample_env [''t1''] ep0 = Inr ep"
    "GetTxTrace sample_env ''t2'' True ep = Inr (trace, ep')" and t: "bare_trace sample_env ep0 ''t2'' = Inr t" "tt_Logs t = []"
    "tt_BlockNumber t = 1000" "tt_TxHash t = ''t2''"
    by (auto split: sum.splits prod.splits if_splits)
  let ?logs = "[(''t0'', ''0xe'', [''x''], [1]), (''t2'', ''0xe'', [''ExecuteOrder(address,address)''], [255])]"
  have "node_GetLogs sample_env (tt_BlockNumber t) = Inr ?logs" by (simp add: t(3) sample_env_def)
  from GetTxTrace_logs[OF run t(1,2) this] have "tt_Logs trace = map formattedLog (filter (\<lambda>l. fst l = ''t2'') ?logs)"
    by (simp add: t(4))
  also have "\<dots> = [\<lparr>tl_Name = '''', Raw = \<lparr>rl_Address = ''0xe'', rl_Topics = [''ExecuteOrder(address,address)''], rl_Data = ''0xff''\<rparr>\<rparr>]"
    by code_simp
  finally show ?thesis using run by blast
qed

text \<open>
  The store of logs never forgets a block: after any requests it holds every block a trace without logs was asked for, however
  many and however old they are, although it was created with the number of blocks it is meant to keep.
\<close>

theorem fetcher_store_keeps_all_blocks:
  assumes "NewInternalFetcher E n rpc ut = Inr ep0" and "0 \<le> n" and "fetch_all E txs ep0 = Inr ep"
  shows "dom (tlog_store (txLogger ep)) =
    {b. \<exists>tx \<in> set txs. \<exists>t. bare_trace E ep0 tx = Inr t \<and> tt_Logs t = [] \<and> b = tt_BlockNumber t}"
  using fetch_all_dom[OF assms(3) NewInternalFetcher_inv(1)[OF assms(1)]] NewInternalFetcher_inv(2,3)[OF assms(1)] assms(2)
  by simp

theorem fetcher_store_keeps_all_blocks_witness:
  "\<exists>ep0 ep. NewInternalFetcher sample_env 2 [] True = Inr ep0 \<and> fetch_all sample_env [''t1'', ''t2''] ep0 = Inr ep \<and>
    storeLen (txLogger ep) = 2 \<and> {10, 1000} \<subseteq> dom (tlog_store (txLogger ep))"
proof -
  have "case NewInternalFetcher sample_env 2 [] True of Inl _ \<Rightarrow> False | Inr ep0 \<Rightarrow>
      (case fetch_all sample_env [''t1'', ''t2''] ep0 of Inl _ \<Rightarrow> False | Inr ep \<Rightarrow> storeLen (txLogger ep) = 2)"
    by code_simp
  then obtain ep0 ep where run: "NewInternalFetcher sample_env 2 [] True = Inr ep0" "fetch_all sample_env [''t1'', ''t2''] ep0 = Inr ep"
    and len: "storeLen (txLogger ep) = 2" by (auto split: sum.splits)
  from run(1) have "useTenderlyTrace ep0" by (auto simp: NewInternalFetcher_def Let_def elim!: rbind_InrE)
  then have "\<exists>t. bare_trace sample_env ep0 ''t1'' = Inr t \<and> tt_Logs t = [] \<and> 10 = tt_BlockNumber t"
    and "\<exists>t. bare_trace sample_env ep0 ''t2'' = Inr t \<and> tt_Logs t = [] \<and> 1000 = tt_BlockNumber t"
    by (simp_all add: bare_trace_def tenderly_getTxTrace_def sample_env_def)
  with fetcher_store_keeps_all_blocks[OF run(1) _ run(2)] have "{10, 1000} \<subseteq> dom (tlog_store (txLogger ep))" by auto
  with run len show ?thesis by blast
qed

end
