(* ===== verification/Execute_Parser.thy ===== *)
theory Execute_Parser
  imports Credit_Manager_State Trace_Service
begin

text \<open>
  The parser behind \<^verbatim>\<open>ds.ExecuteParserI\<close> (\<^verbatim>\<open>services/execute_parser.go\<close>, \<^verbatim>\<open>services/execute_filter.go\<close>): from the call tree and the logs of a
  transaction it takes the calls to protocols with their token transfers, the calls of the facade, and what a borrower got at
  closing.  The ABIs (method tables, unpacking), the hash of an event signature and the conversions of addresses are parameters.
\<close>

record abi_method =
  meth_Sig :: string
  meth_Inputs :: "string list"
  meth_Unpack :: "nat list \<Rightarrow> json_obj option"

record exec_env =
  ex_HexToAddress :: "string \<Rightarrow> address"
  ex_BytesToAddress :: "string \<Rightarrow> address"                      \<comment> \<open>of a topic\<close>
  ex_Topic :: "string \<Rightarrow> string"
  IgnoreCMEventIds :: "string list"
  abiParsers :: "(nat list \<Rightarrow> abi_method option) list"           \<comment> \<open>\<^verbatim>\<open>MethodById\<close> of every ABI\<close>
  creditFacadeParser :: "nat list \<Rightarrow> (string \<times> (nat list \<Rightarrow> (address \<times> nat list) list option option)) option"
    \<comment> \<open>name and arguments: \<open>None\<close> if unpacking fails, \<open>Some None\<close> if there is no list of calls\<close>

section \<open>Call data\<close>

fun DecodeString :: "string \<Rightarrow> nat list option" where
  "DecodeString [] = Some []"
| "DecodeString [c] = None"
| "DecodeString (a # b # cs) =
    (case (hex_value a, hex_value b, DecodeString cs) of
       (Some x, Some y, Some bs) \<Rightarrow> Some (nat (16 * x + y) # bs)
     | _ \<Rightarrow> None)"

text \<open>
  Looking the method up in one ABI after the other.  Call data of less than four bytes ends the process: the selector or the
  arguments are sliced out of range, or no ABI knows the method.
\<close>

primrec parse_with :: "(nat list \<Rightarrow> abi_method option) list \<Rightarrow> nat list \<Rightarrow> (string \<times> json_obj) res" where
  "parse_with [] hexData = Inl (Fatal ''No method for input'')"
| "parse_with (p # ps) hexData =
    (if length hexData < 4 then Inl IndexOutOfRange
     else case p (take 4 hexData) of
       None \<Rightarrow> parse_with ps hexData
     | Some method \<Rightarrow>
         (case meth_Unpack method (drop 4 hexData) of
            None \<Rightarrow> Inl (Fatal ''unpack'')
          | Some d \<Rightarrow> Inr (meth_Sig method, AList.update ''_order'' (JList (map JString (meth_Inputs method))) d)))"

definition ParseCallData :: "exec_env \<Rightarrow> string \<Rightarrow> (string \<times> json_obj) res" where
  "ParseCallData E input =
    rbind (go_from 2 input) (\<lambda>hex.
      case DecodeString hex of None \<Rightarrow> Inl (Fatal ''hex'') | Some hexData \<Rightarrow> parse_with (abiParsers E) hexData)"

definition visited_op :: "call \<Rightarrow> bool" where
  "visited_op c \<longleftrightarrow> CallerOp c \<in> {''CALL'', ''DELEGATECALL'', ''JUMP''}"

section \<open>Calls to protocols\<close>

lemma call_size: "x \<in> set (Calls c) \<Longrightarrow> size_option size x < Suc (size c)"
  using size_list_estimation'[of x "Calls c" "size_option size x" "size_option size"] by (cases c) simp

text \<open>\<^verbatim>\<open>dappCall\<close>: the first call to the protocol in preorder.  A nil call is dereferenced.\<close>

function dappCall :: "exec_env \<Rightarrow> address \<Rightarrow> call option \<Rightarrow> known_call option res" where
  "dappCall E dappAddr oc =
    rbind (deref oc) (\<lambda>c.
      if visited_op c \<and> dappAddr = ex_HexToAddress E (call_To c) then
        rbind (ParseCallData E (call_Input c)) (\<lambda>(name, arguments).
          Inr (Some \<lparr>kc_Name = name, kc_Args = Some arguments, kc_Transfers = []\<rparr>))
      else rfold (\<lambda>x found. if found = None then dappCall E dappAddr x else Inr found) (Calls c) None)"
  by pat_completeness auto
termination
  by (relation "measure (\<lambda>(E, d, oc). size_option size oc)") (auto intro: call_size)

text \<open>
  \<^verbatim>\<open>getExecuteCalls\<close> moves \<^verbatim>\<open>paramsIndex\<close> along the parameters and stops when they are used up.  A call of the manager may have no
  call to the protocol in it; the list then has a nil entry.
\<close>

function getExecuteCalls ::
  "exec_env \<Rightarrow> address \<Rightarrow> execute_params list \<Rightarrow> call option \<Rightarrow> nat \<Rightarrow> (known_call option list \<times> nat) res" where
  "getExecuteCalls E cm paramsList oc paramsIndex =
    (if paramsIndex \<ge> length paramsList then Inr ([], paramsIndex)
     else rbind (deref oc) (\<lambda>c.
       if visited_op c then
         if cm = ex_HexToAddress E (call_To c) \<and> 10 \<le> length (call_Input c) \<and> take 10 (call_Input c) = ''0x6ce4074a'' then
           rbind (dappCall E (ep_Protocol (paramsList ! paramsIndex)) (Some c)) (\<lambda>dappcall. Inr ([dappcall], paramsIndex + 1))
         else rfold (\<lambda>x (calls, ind). rbind (getExecuteCalls E cm paramsList x ind) (\<lambda>(more, ind'). Inr (calls @ more, ind')))
                (Calls c) ([], paramsIndex)
       else Inr ([], paramsIndex)))"
  by pat_completeness auto
termination
  by (relation "measure (\<lambda>(E, cm, ps, oc, i). size_option size oc)") (auto intro: call_size)

section \<open>Transfers of the orders\<close>

abbreviation "ExecuteOrderSig \<equiv> ''ExecuteOrder(address,address)''"
abbreviation "TransferSig \<equiv> ''Transfer(address,address,uint256)''"

text \<open>\<^verbatim>\<open>new(big.Int).SetString(eventLog.Data[2:], 16)\<close>, fatal if it is no number.\<close>

definition data_amount :: "raw_log \<Rightarrow> int res" where
  "data_amount l = rbind (go_from 2 (rl_Data l)) (\<lambda>d.
    case SetString16 d of None \<Rightarrow> Inl (Fatal ''failed at serializing transfer data in int'') | Some amt \<Rightarrow> Inr amt)"

type_synonym transfers = "(address \<times> int) list"

definition order_balance :: "exec_env \<Rightarrow> execute_params list \<Rightarrow> int \<Rightarrow> raw_log \<Rightarrow> transfers \<Rightarrow> transfers res" where
  "order_balance E paramsList paramsIndex l balances =
    rbind (data_amount l) (\<lambda>amt.
    rbind (go_index paramsList paramsIndex) (\<lambda>params.
      let src = ex_BytesToAddress E (rl_Topics l ! 1);
          dest = ex_BytesToAddress E (rl_Topics l ! 2);
          old = aget 0 balances (rl_Address l)
      in Inr (AList.update (rl_Address l)
           (if src = ep_CreditAccount params then old - amt else if dest = ep_CreditAccount params then old + amt else old) balances)))"

definition exec_transfer_step ::
  "exec_env \<Rightarrow> execute_params list \<Rightarrow> trace_log \<Rightarrow> transfers \<times> transfers list \<times> bool \<times> int \<Rightarrow>
    (transfers \<times> transfers list \<times> bool \<times> int) res" where
  "exec_transfer_step E paramsList raw = (\<lambda>(balances, execEventBalances, parsingTransfer, paramsIndex).
    rbind (go_index (rl_Topics (Raw raw)) 0) (\<lambda>eventSig.
      let flush = eventSig \<in> set (IgnoreCMEventIds E) \<and> parsingTransfer;
          execs = (if flush then execEventBalances @ [balances] else execEventBalances);
          order = eventSig = ex_Topic E ExecuteOrderSig;
          index' = (if order then paramsIndex + 1 else paramsIndex);
          bal' = (if flush \<or> order then [] else balances);
          parsing' = (order \<or> parsingTransfer \<and> \<not> flush)
      in if eventSig = ex_Topic E TransferSig \<and> length (rl_Topics (Raw raw)) = 3 \<and> parsing'
         then rbind (order_balance E paramsList index' (Raw raw) bal') (\<lambda>b. Inr (b, execs, parsing', index'))
         else Inr (bal', execs, parsing', index')))"

definition getExecuteTransfers :: "exec_env \<Rightarrow> execute_params list \<Rightarrow> trace_log list \<Rightarrow> transfers list res" where
  "getExecuteTransfers E paramsList txLogs =
    rbind (rfold (exec_transfer_step E paramsList) txLogs ([], [], False, -1)) (\<lambda>(balances, execs, parsing, _).
      Inr (if parsing then execs @ [balances] else execs))"

text \<open>Writing the transfers through the pointers of the calls.\<close>

primrec set_transfers :: "known_call option list \<Rightarrow> transfers list \<Rightarrow> known_call list res" where
  "set_transfers [] ts = Inr []"
| "set_transfers (oc # calls) ts =
    rbind (deref oc) (\<lambda>c. rbind (go_index ts 0) (\<lambda>t. rbind (set_transfers calls (tl ts)) (\<lambda>cs. Inr (c\<lparr>kc_Transfers := t\<rparr> # cs))))"

definition ep_GetExecuteCalls ::
  "fetch_env \<Rightarrow> exec_env \<Rightarrow> txhash \<Rightarrow> address \<Rightarrow> execute_params list \<Rightarrow> internal_fetcher \<Rightarrow>
    (known_call list \<times> internal_fetcher) res" where
  "ep_GetExecuteCalls F E txHash creditManagerAddr paramsList ep =
    (if paramsList = [] then Inr ([], ep)
     else rbind (GetTxTrace F txHash True ep) (\<lambda>(trace, ep').
          rbind (getExecuteCalls E (ex_HexToAddress E creditManagerAddr) paramsList (CallTrace trace) 0) (\<lambda>(calls, _).
          rbind (getExecuteTransfers E paramsList (tt_Logs trace)) (\<lambda>executeTransfers.
            if length calls = length executeTransfers
            then rbind (set_transfers calls executeTransfers) (\<lambda>cs. Inr (cs, ep'))
            else Inl (Fatal ''Calls execute details'')))))"

section \<open>Calls of the facade\<close>

text \<open>
  The calls of a multicall are kept by their selectors, which is what the comparison with the events reads of them.
\<close>

definition getCreditFacadeMainEvent :: "exec_env \<Rightarrow> string \<Rightarrow> facade_call res" where
  "getCreditFacadeMainEvent E input =
    rbind (go_from 2 input) (\<lambda>hex.
    case DecodeString hex of
      None \<Rightarrow> Inl (Fatal ''hex'')
    | Some hexData \<Rightarrow>
        if length hexData < 4 then Inl IndexOutOfRange
        else case creditFacadeParser E (take 4 hexData) of
          None \<Rightarrow> Inl (Fatal ''no method'')
        | Some (name, unpack) \<Rightarrow>
            (case unpack (drop 4 hexData) of
               None \<Rightarrow> Inl (Fatal ''unpack'')
             | Some None \<Rightarrow> Inl (Fatal ''calls type is different the creditFacade multicall'')
             | Some (Some calls) \<Rightarrow>
                 rbind (FacadeAccountMethodSigToCallName name) (\<lambda>callName.
                   Inr \<lparr>fc_Name = callName, fc_multiCalls = map (\<lambda>(target, d). EncodeToString (take 4 d)) calls, TestLen = 0\<rparr>)))"

definition main_selectors :: "string list" where
  "main_selectors = [''caa5c23f'', ''5f73fbec'', ''82871ace'', ''5d91a0e0'', ''7071b7c5'']"

function getMainEvents :: "exec_env \<Rightarrow> address \<Rightarrow> call option \<Rightarrow> facade_call list res" where
  "getMainEvents E creditFacade oc =
    rbind (deref oc) (\<lambda>c.
      if visited_op c then
        if creditFacade = ex_HexToAddress E (call_To c) \<and> 10 \<le> length (call_Input c) then
          if take 8 (drop 2 (call_Input c)) \<in> set main_selectors
          then rbind (getCreditFacadeMainEvent E (call_Input c)) (\<lambda>event. Inr [event])
          else Inr []
        else rfold (\<lambda>x mainEvents. rbind (getMainEvents E creditFacade x) (\<lambda>d. Inr (mainEvents @ d))) (Calls c) []
      else Inr [])"
  by pat_completeness auto
termination
  by (relation "measure (\<lambda>(E, f, oc). size_option size oc)") (auto intro: call_size)

definition ep_GetMainCalls ::
  "fetch_env \<Rightarrow> exec_env \<Rightarrow> txhash \<Rightarrow> address \<Rightarrow> internal_fetcher \<Rightarrow> (facade_call list \<times> internal_fetcher) res" where
  "ep_GetMainCalls F E txHash creditFacade ep =
    rbind (GetTxTrace F txHash False ep) (\<lambda>(trace, ep').
    rbind (getMainEvents E (ex_HexToAddress E creditFacade) (CallTrace trace)) (\<lambda>d. Inr (d, ep')))"

section \<open>Transfers at closing\<close>

definition user_transfer_step ::
  "exec_env \<Rightarrow> address \<Rightarrow> address \<Rightarrow> address \<Rightarrow> address \<Rightarrow> trace_log \<Rightarrow> transfers \<Rightarrow> transfers res" where
  "user_transfer_step E account underlyingToken borrower receiver raw sent =
    (let eventLog = Raw raw in
     rbind (go_index (rl_Topics eventLog) 0) (\<lambda>sig.
       if sig \<noteq> ex_Topic E TransferSig then Inr sent
       else
         rbind (go_index (rl_Topics eventLog) 2) (\<lambda>t2.
         rbind (go_index (rl_Topics eventLog) 1) (\<lambda>t1.
           let to = ex_BytesToAddress E t2; sender = ex_BytesToAddress E t1; token = rl_Address eventLog;
               paid = sender = borrower \<and> to = account \<and> token = underlyingToken
           in if \<not> paid \<and> to \<noteq> borrower \<and> to \<noteq> receiver then Inr sent
              else rbind (data_amount eventLog) (\<lambda>amt.
                Inr (AList.update token ((if paid then - amt else amt) + aget 0 sent token) sent))))))"

definition getTransfersToUser ::
  "exec_env \<Rightarrow> trace_log list \<Rightarrow> address \<Rightarrow> address \<Rightarrow> address \<Rightarrow> address \<Rightarrow> transfers res" where
  "getTransfersToUser E txLogs account underlyingToken borrower receiver =
    rfold (user_transfer_step E account underlyingToken borrower receiver) txLogs []"

text \<open>
  \<^verbatim>\<open>unwrapWETH(address,uint256)\<close> to the receiver, first in preorder; an amount that is no number is a nil result.
\<close>

function ethTransferDueToConvertWETH :: "exec_env \<Rightarrow> address \<Rightarrow> call option \<Rightarrow> int option res" where
  "ethTransferDueToConvertWETH E receiver oc =
    rbind (deref oc) (\<lambda>c.
      if length (call_Input c) = 10 + 64 * 2 \<and> take 10 (call_Input c) = ''0x5869dba8'' \<and>
         ex_HexToAddress E (take 64 (drop 10 (call_Input c))) = receiver
      then Inr (SetString16 (drop 74 (call_Input c)))
      else rfold (\<lambda>x found. if found = None then ethTransferDueToConvertWETH E receiver x else Inr found) (Calls c) None)"
  by pat_completeness auto
termination
  by (relation "measure (\<lambda>(E, r, oc). size_option size oc)") (auto intro: call_size)

definition getCloseAccountv2Transfers ::
  "exec_env \<Rightarrow> tenderly_trace \<Rightarrow> address \<Rightarrow> address \<Rightarrow> address \<Rightarrow> address \<Rightarrow> transfers res" where
  "getCloseAccountv2Transfers E trace account underlyingToken borrower receiver =
    rbind (getTransfersToUser E (tt_Logs trace) account underlyingToken borrower receiver) (\<lambda>sent.
    rbind (deref (CallTrace trace)) (\<lambda>c.
      if length (call_Input c) < 10 then Inl IndexOutOfRange
      else if take 10 (call_Input c) \<noteq> ''0x5f73fbec'' then Inr sent
      else rbind (go_index (call_Input c) (2 + 8 + 64 + 64 + 64 - 1)) (\<lambda>flag.
        if flag \<noteq> CHR ''1'' then Inr sent
        else rbind (ethTransferDueToConvertWETH E receiver (CallTrace trace)) (\<lambda>ethAmount.
          let amount = (case ethAmount of None \<Rightarrow> 0 | Some a \<Rightarrow> a) in
          Inr (AList.update underlyingToken (aget 0 sent underlyingToken + amount) sent)))))"

definition ep_GetTransfersAtClosev2 ::
  "fetch_env \<Rightarrow> exec_env \<Rightarrow> txhash \<Rightarrow> address \<Rightarrow> address \<Rightarrow> address \<Rightarrow> address \<Rightarrow> internal_fetcher \<Rightarrow>
    (transfers \<times> internal_fetcher) res" where
  "ep_GetTransfersAtClosev2 F E txHash account underlyingToken borrower receiver ep =
    rbind (GetTxTrace F txHash True ep) (\<lambda>(trace, ep').
    rbind (getCloseAccountv2Transfers E trace account underlyingToken borrower receiver) (\<lambda>t. Inr (t, ep')))"

declare dappCall.simps [simp del] getExecuteCalls.simps [simp del] getMainEvents.simps [simp del]
  ethTransferDueToConvertWETH.simps [simp del]

end
