(* ===== verification/Execute_Correct.thy ===== *)
theory Execute_Correct
  imports Execute_Parser
begin

text \<open>
  Correctness of the parser of transactions: the transfers of every order are those between its event and the next event of the
  manager, and what a borrower got at closing is the sum of the transfers to and from the borrower.
\<close>

section \<open>Reference: orders and their transfers\<close>

definition log_sig :: "trace_log \<Rightarrow> string" where
  "log_sig l = hd (rl_Topics (Raw l))"

text \<open>The logs that belong to an order: those after its event, up to the next event of the manager or the facade.\<close>

fun order_segments :: "exec_env \<Rightarrow> trace_log list \<Rightarrow> trace_log list list" where
  "order_segments E [] = []"
| "order_segments E (l # ls) =
    (if log_sig l = ex_Topic E ExecuteOrderSig
     then takeWhile (\<lambda>l. log_sig l \<notin> set (IgnoreCMEventIds E)) ls # order_segments E ls
     else order_segments E ls)"

text \<open>What a log adds to the balance of an account in a token.\<close>

definition log_amount :: "trace_log \<Rightarrow> int" where
  "log_amount l = (case data_amount (Raw l) of Inl _ \<Rightarrow> 0 | Inr a \<Rightarrow> a)"

definition account_delta :: "exec_env \<Rightarrow> address \<Rightarrow> address \<Rightarrow> trace_log \<Rightarrow> int" where
  "account_delta E acc tok l =
    (if log_sig l = ex_Topic E TransferSig \<and> length (rl_Topics (Raw l)) = 3 \<and> rl_Address (Raw l) = tok then
       if ex_BytesToAddress E (rl_Topics (Raw l) ! 1) = acc then - log_amount l
       else if ex_BytesToAddress E (rl_Topics (Raw l) ! 2) = acc then log_amount l else 0
     else 0)"

definition segment_delta :: "exec_env \<Rightarrow> execute_params list \<Rightarrow> int \<Rightarrow> trace_log list \<Rightarrow> address \<Rightarrow> int" where
  "segment_delta E ps i seg tok = (\<Sum>l\<leftarrow>seg. account_delta E (ep_CreditAccount (ps ! nat i)) tok l)"

section \<open>The loop over the logs\<close>

fun order_deltas :: "exec_env \<Rightarrow> execute_params list \<Rightarrow> int \<Rightarrow> trace_log list \<Rightarrow> (address \<Rightarrow> int) list" where
  "order_deltas E ps i [] = []"
| "order_deltas E ps i (l # ls) =
    (if log_sig l = ex_Topic E ExecuteOrderSig
     then segment_delta E ps i (takeWhile (\<lambda>l. log_sig l \<notin> set (IgnoreCMEventIds E)) ls) # order_deltas E ps (i + 1) ls
     else order_deltas E ps i ls)"

lemma order_deltas_nth:
  "length (order_deltas E ps i ls) = length (order_segments E ls)"
  "k < length (order_segments E ls) \<Longrightarrow> order_deltas E ps i ls ! k = segment_delta E ps (i + int k) (order_segments E ls ! k)"
proof -
  show "length (order_deltas E ps i ls) = length (order_segments E ls)"
    by (induction ls arbitrary: i) auto
  show "k < length (order_segments E ls) \<Longrightarrow> order_deltas E ps i ls ! k = segment_delta E ps (i + int k) (order_segments E ls ! k)"
    by (induction ls arbitrary: i k) (auto simp: nth_Cons' algebra_simps of_nat_diff)
qed

lemma order_balance_delta:
  assumes "order_balance E ps i (Raw l) bal = Inr bal'" and "log_sig l = ex_Topic E TransferSig"
    and "length (rl_Topics (Raw l)) = 3"
  shows "aget 0 bal' tok = aget 0 bal tok + account_delta E (ep_CreditAccount (ps ! nat i)) tok l"
  using assms
  by (auto simp: order_balance_def account_delta_def log_amount_def Let_def go_index_eq_Inr elim!: rbind_InrE split: if_splits)

lemma exec_transfer_loop:
  assumes "rfold (exec_transfer_step E ps) ls (bal, execs, parsing, i) = Inr (bal', execs', parsing', i')"
    and "ex_Topic E ExecuteOrderSig \<in> set (IgnoreCMEventIds E)" and "ex_Topic E ExecuteOrderSig \<noteq> ex_Topic E TransferSig"
  shows "map (aget 0) (if parsing' then execs' @ [bal'] else execs') =
    map (aget 0) execs @
    (if parsing then [\<lambda>tok. aget 0 bal tok + segment_delta E ps i (takeWhile (\<lambda>l. log_sig l \<notin> set (IgnoreCMEventIds E)) ls) tok] else []) @
    order_deltas E ps (i + 1) ls"
  using assms(1)
proof (induction ls arbitrary: bal execs parsing i)
  case (Cons l ls)
  from Cons.prems obtain b1 e1 p1 i1 where step: "exec_transfer_step E ps l (bal, execs, parsing, i) = Inr (b1, e1, p1, i1)"
    and rest: "rfold (exec_transfer_step E ps) ls (b1, e1, p1, i1) = Inr (bal', execs', parsing', i')"
    by (auto elim!: rbind_InrE)
  have sig: "go_index (rl_Topics (Raw l)) 0 = Inr (log_sig l)"
    using step by (auto simp: exec_transfer_step_def log_sig_def go_index_eq_Inr hd_conv_nth elim!: rbind_InrE)
  let ?cm = "log_sig l \<in> set (IgnoreCMEventIds E)" and ?order = "log_sig l = ex_Topic E ExecuteOrderSig"
  consider (order) "?order" | (ev) "\<not> ?order" "?cm" | (other) "\<not> ?order" "\<not> ?cm" by blast
  then show ?case
  proof cases
    case order
    then have "b1 = []" "p1" "i1 = i + 1" "e1 = (if parsing then execs @ [bal] else execs)"
      using step sig assms(2,3) by (auto simp: exec_transfer_step_def Let_def split: if_splits)
    with order assms(2) Cons.IH[OF rest] show ?thesis by (simp add: segment_delta_def fun_eq_iff)
  next
    case ev
    then have "\<not> p1" "i1 = i" "e1 = (if parsing then execs @ [bal] else execs)"
      using step sig by (auto simp: exec_transfer_step_def Let_def split: if_splits elim!: rbind_InrE)
    with ev Cons.IH[OF rest] show ?thesis by (simp add: segment_delta_def fun_eq_iff)
  next
    case other
    have e: "p1 = parsing" "i1 = i" "e1 = execs"
      using step sig other by (auto simp: exec_transfer_step_def Let_def split: if_splits elim!: rbind_InrE)
    have "aget 0 b1 tok = aget 0 bal tok + account_delta E (ep_CreditAccount (ps ! nat i)) tok l" if "parsing" for tok
    proof (cases "log_sig l = ex_Topic E TransferSig \<and> length (rl_Topics (Raw l)) = 3")
      case True
      then have "order_balance E ps i (Raw l) bal = Inr b1"
        using step sig other that by (auto simp: exec_transfer_step_def Let_def elim!: rbind_InrE)
      then show ?thesis using order_balance_delta True by blast
    next
      case False
      then have "b1 = bal" using step sig other that by (auto simp: exec_transfer_step_def Let_def split: if_splits)
      with False show ?thesis by (auto simp: account_delta_def)
    qed
    with e other Cons.IH[OF rest] show ?thesis by (cases parsing) (simp_all add: segment_delta_def fun_eq_iff algebra_simps)
  qed
qed (simp add: segment_delta_def)

lemma getExecuteTransfers_deltas:
  assumes "getExecuteTransfers E ps ls = Inr ts"
    and "ex_Topic E ExecuteOrderSig \<in> set (IgnoreCMEventIds E)" and "ex_Topic E ExecuteOrderSig \<noteq> ex_Topic E TransferSig"
  shows "map (aget 0) ts = order_deltas E ps 0 ls"
proof -
  from assms(1) obtain b e p i where "rfold (exec_transfer_step E ps) ls ([], [], False, -1) = Inr (b, e, p, i)"
    and "ts = (if p then e @ [b] else e)" by (auto simp: getExecuteTransfers_def elim!: rbind_InrE)
  with exec_transfer_loop[OF this(1) assms(2,3)] show ?thesis by simp
qed

lemma set_transfers_transfers:
  "set_transfers calls ts = Inr cs \<Longrightarrow> length calls = length ts \<Longrightarrow> map kc_Transfers cs = ts"
proof (induction calls arbitrary: ts cs)
  case (Cons c calls)
  then show ?case by (cases ts) (auto elim!: rbind_InrE)
qed simp
text \<open>
  C9: When the calls of a transaction are returned, there is one for every order event, and its transfers are, for every token, what the
  credit account of that order received less what it sent in the logs between the event of the order and the next event of the
  manager or the facade.  Transfers before the first order, after another event of the manager, or of other accounts do not count.
\<close>

theorem GetExecuteCalls_transfers:
  assumes "ep_GetExecuteCalls F E txHash cm ps ep = Inr (calls, ep')" and "ps \<noteq> []"
    and "GetTxTrace F txHash True ep = Inr (trace, ep'')"
    and "ex_Topic E ExecuteOrderSig \<in> set (IgnoreCMEventIds E)" and "ex_Topic E ExecuteOrderSig \<noteq> ex_Topic E TransferSig"
  shows "length calls = length (order_segments E (tt_Logs trace)) \<and>
    (\<forall>k < length calls. \<forall>tok. aget 0 (kc_Transfers (calls ! k)) tok =
      (\<Sum>l\<leftarrow>order_segments E (tt_Logs trace) ! k. account_delta E (ep_CreditAccount (ps ! k)) tok l))"
proof -
  from assms(1-3) obtain cs n ts where ts: "getExecuteTransfers E ps (tt_Logs trace) = Inr ts"
    and set: "set_transfers cs ts = Inr calls" "length cs = length ts"
    by (auto simp: ep_GetExecuteCalls_def elim!: rbind_InrE split: if_splits prod.splits)
  have eq: "map kc_Transfers calls = ts" using set_transfers_transfers[OF set] .
  have deltas: "map (aget 0) ts = order_deltas E ps 0 (tt_Logs trace)" using getExecuteTransfers_deltas[OF ts assms(4,5)] .
  have len: "length calls = length (order_segments E (tt_Logs trace))"
    using arg_cong[OF eq, of length] arg_cong[OF deltas, of length] by (simp add: order_deltas_nth)
  have "aget 0 (kc_Transfers (calls ! k)) = segment_delta E ps (int k) (order_segments E (tt_Logs trace) ! k)" if "k < length calls" for k
    using arg_cong[OF deltas, of "\<lambda>xs. xs ! k"] order_deltas_nth(2)[of k E "tt_Logs trace" ps 0] that len eq
    by (metis (no_types, lifting) add_0 length_map nth_map)
  then show ?thesis using len by (simp add: segment_delta_def)
qed

definition xlog :: "address \<Rightarrow> string list \<Rightarrow> string \<Rightarrow> trace_log" where
  "xlog addr topics d = \<lparr>tl_Name = '''', Raw = \<lparr>rl_Address = addr, rl_Topics = topics, rl_Data = d\<rparr>\<rparr>"

definition xenv :: exec_env where
  "xenv = \<lparr>ex_HexToAddress = (\<lambda>s. s), ex_BytesToAddress = (\<lambda>s. s), ex_Topic = (\<lambda>s. s),
     IgnoreCMEventIds = [ExecuteOrderSig, ''TokenEnabled(address,address)''],
     abiParsers = [\<lambda>_. Some \<lparr>meth_Sig = ''swap()'', meth_Inputs = [], meth_Unpack = (\<lambda>_. Some [])\<rparr>],
     creditFacadeParser = (\<lambda>_. None)\<rparr>"

definition xtrace :: tenderly_trace where
  "xtrace = \<lparr>CallTrace = Some (Call ''0xu'' ''0xcm'' ''CALL'' ''0x6ce4074a'' ''0''
       [Some (Call ''0xcm'' ''0xdapp'' ''CALL'' ''0x00000000'' ''0'' [])]), tt_TxHash = ''tx'',
     tt_Logs = [xlog ''0xt'' [TransferSig, ''0xu'', ''0xacc''] ''0xff'', xlog ''0xcm'' [ExecuteOrderSig, ''0xb'', ''0xdapp''] ''0x'',
       xlog ''0xt'' [TransferSig, ''0xacc'', ''0xdapp''] ''0x05'', xlog ''0xs'' [TransferSig, ''0xdapp'', ''0xacc''] ''0x07'',
       xlog ''0xcm'' [''TokenEnabled(address,address)''] ''0x'', xlog ''0xt'' [TransferSig, ''0xacc'', ''0xz''] ''0x09''],
     tt_BlockNumber = 5\<rparr>"

definition xparams :: execute_params where
  "xparams = \<lparr>ep_SessionId = ''s'', ep_CreditAccount = ''0xacc'', ep_Protocol = ''0xdapp'', ep_Borrower = ''0xb'', ep_Index = 1, ep_BlockNumber = 5\<rparr>"

definition xfetch :: fetch_env where
  "xfetch = \<lparr>getDataOnRPC = (\<lambda>_ _. Inl ''''), tenderly_getData = (\<lambda>_ _. Inr xtrace), Errors_Error = concat,
     node_GetLogs = (\<lambda>_. Inr []), te_Topic = (\<lambda>s. s), slice_grow = (\<lambda>_ n. n)\<rparr>"

definition xfetcher :: internal_fetcher where
  "xfetcher = \<lparr>txLogger = NewTxLogger 10, rpcs = [], useTenderlyTrace = True\<rparr>"

lemma xfetch_trace: "GetTxTrace xfetch ''tx'' True xfetcher = Inr (xtrace, xfetcher)"
  by (simp add: GetTxTrace_def xfetcher_def tenderly_getTxTrace_def xfetch_def xtrace_def)

theorem GetExecuteCalls_transfers_witness:
  "\<exists>c. ep_GetExecuteCalls xfetch xenv ''tx'' ''0xcm'' [xparams] xfetcher = Inr ([c], xfetcher) \<and> kc_Name c = ''swap()'' \<and>
    aget 0 (kc_Transfers c) ''0xt'' = -5 \<and> aget 0 (kc_Transfers c) ''0xs'' = 7"
proof -
  have "case ep_GetExecuteCalls xfetch xenv ''tx'' ''0xcm'' [xparams] xfetcher of Inl _ \<Rightarrow> False
      | Inr (cs, ep) \<Rightarrow> map kc_Name cs = [''swap()'']" by code_simp
  moreover have "snd r = xfetcher" if "ep_GetExecuteCalls xfetch xenv ''tx'' ''0xcm'' [xparams] xfetcher = Inr r" for r
    using that xfetch_trace by (auto simp: ep_GetExecuteCalls_def elim!: rbind_InrE split: if_splits)
  ultimately obtain c where run: "ep_GetExecuteCalls xfetch xenv ''tx'' ''0xcm'' [xparams] xfetcher = Inr ([c], xfetcher)"
    and name: "kc_Name c = ''swap()''" by (fastforce split: sum.splits)
  have hyps: "ex_Topic xenv ExecuteOrderSig \<in> set (IgnoreCMEventIds xenv)" "ex_Topic xenv ExecuteOrderSig \<noteq> ex_Topic xenv TransferSig"
    by code_simp+
  have segs: "(\<Sum>l\<leftarrow>order_segments xenv (tt_Logs xtrace) ! 0. account_delta xenv ''0xacc'' ''0xt'' l) = -5"
    "(\<Sum>l\<leftarrow>order_segments xenv (tt_Logs xtrace) ! 0. account_delta xenv ''0xacc'' ''0xs'' l) = 7"
    by code_simp+
  have "\<forall>tok. aget 0 (kc_Transfers c) tok = (\<Sum>l\<leftarrow>order_segments xenv (tt_Logs xtrace) ! 0. account_delta xenv ''0xacc'' tok l)"
    using GetExecuteCalls_transfers[OF run _ xfetch_trace hyps] by (simp add: xparams_def)
  with run name segs show ?thesis by simp
qed

section \<open>Transfers at closing\<close>

definition user_delta :: "exec_env \<Rightarrow> address \<Rightarrow> address \<Rightarrow> address \<Rightarrow> address \<Rightarrow> address \<Rightarrow> trace_log \<Rightarrow> int" where
  "user_delta E account underlying borrower receiver tok l =
    (let to = ex_BytesToAddress E (rl_Topics (Raw l) ! 2); sender = ex_BytesToAddress E (rl_Topics (Raw l) ! 1) in
     if log_sig l \<noteq> ex_Topic E TransferSig \<or> rl_Address (Raw l) \<noteq> tok then 0
     else if sender = borrower \<and> to = account \<and> tok = underlying then - log_amount l
     else if to = borrower \<or> to = receiver then log_amount l else 0)"

definition unwrapped_eth :: "exec_env \<Rightarrow> address \<Rightarrow> call \<Rightarrow> int" where
  "unwrapped_eth E receiver c =
    (if take 10 (call_Input c) = ''0x5f73fbec'' \<and> call_Input c ! 201 = CHR ''1''
     then case ethTransferDueToConvertWETH E receiver (Some c) of Inr (Some a) \<Rightarrow> a | _ \<Rightarrow> 0 else 0)"

lemma user_transfer_step_delta:
  assumes "user_transfer_step E account u borrower receiver l ts = Inr ts'"
  shows "aget 0 ts' tok = aget 0 ts tok + user_delta E account u borrower receiver tok l"
  using assms
  by (auto simp: user_transfer_step_def user_delta_def log_sig_def log_amount_def Let_def go_index_eq_Inr hd_conv_nth
      elim!: rbind_InrE split: if_splits)

lemma user_transfer_loop:
  "rfold (user_transfer_step E account u borrower receiver) ls ts = Inr ts' \<Longrightarrow>
    aget 0 ts' tok = aget 0 ts tok + (\<Sum>l\<leftarrow>ls. user_delta E account u borrower receiver tok l)"
proof (induction ls arbitrary: ts)
  case (Cons l ls)
  then obtain t1 where "user_transfer_step E account u borrower receiver l ts = Inr t1"
    and "rfold (user_transfer_step E account u borrower receiver) ls t1 = Inr ts'" by (auto elim: rbind_InrE)
  with Cons.IH user_transfer_step_delta show ?case by fastforce
qed simp

text \<open>
  C10: What a closing in version 2 records for a token is the sum of the transfers of that token to the borrower or the receiver, less what
  the borrower paid to the account in the underlying token, and for the underlying token also the ether that was unwrapped for the
  receiver if the closing asked for it.
\<close>

theorem close_transfers_net:
  assumes "getCloseAccountv2Transfers E trace account u borrower receiver = Inr ts" and "CallTrace trace = Some c"
  shows "aget 0 ts tok = (\<Sum>l\<leftarrow>tt_Logs trace. user_delta E account u borrower receiver tok l) +
    (if tok = u then unwrapped_eth E receiver c else 0)"
proof -
  from assms obtain sent where sent: "getTransfersToUser E (tt_Logs trace) account u borrower receiver = Inr sent"
    by (auto simp: getCloseAccountv2Transfers_def elim!: rbind_InrE)
  have sums: "aget 0 sent t = (\<Sum>l\<leftarrow>tt_Logs trace. user_delta E account u borrower receiver t l)" for t
    using user_transfer_loop[of E account u borrower receiver "tt_Logs trace" "[]"] sent by (simp add: getTransfersToUser_def)
  have "aget 0 ts t = aget 0 sent t + (if t = u then unwrapped_eth E receiver c else 0)" for t
    using assms sent
    by (auto simp: getCloseAccountv2Transfers_def unwrapped_eth_def go_index_eq_Inr Let_def
        elim!: rbind_InrE split: if_splits option.splits sum.splits)
  with sums show ?thesis by simp
qed

definition close_input :: string where
  "close_input = ''0x5f73fbec'' @ replicate 191 CHR ''0'' @ ''1''"

definition unwrap_input :: string where
  "unwrap_input = ''0x5869dba8'' @ replicate 64 CHR ''a'' @ replicate 62 CHR ''0'' @ ''0c''"

definition xclose :: tenderly_trace where
  "xclose = \<lparr>CallTrace = Some (Call ''0xb'' ''0xf'' ''CALL'' close_input ''0''
       [Some (Call ''0xf'' ''0xg'' ''CALL'' unwrap_input ''0'' [])]), tt_TxHash = ''tx'',
     tt_Logs = [xlog ''0xu'' [TransferSig, ''0xb'', ''0xacc''] ''0x02'', xlog ''0xt'' [TransferSig, ''0xacc'', ''0xb''] ''0x05''],
     tt_BlockNumber = 5\<rparr>"

theorem close_transfers_net_witness:
  "\<exists>ts. getCloseAccountv2Transfers xenv xclose ''0xacc'' ''0xu'' ''0xb'' (replicate 64 CHR ''a'') = Inr ts \<and>
    aget 0 ts ''0xu'' = 10 \<and> aget 0 ts ''0xt'' = 5"
proof -
  have "\<not> isl (getCloseAccountv2Transfers xenv xclose ''0xacc'' ''0xu'' ''0xb'' (replicate 64 CHR ''a''))" by code_simp
  then obtain ts where run: "getCloseAccountv2Transfers xenv xclose ''0xacc'' ''0xu'' ''0xb'' (replicate 64 CHR ''a'') = Inr ts"
    by (metis obj_sumE isl_def)
  let ?c = "Call ''0xb'' ''0xf'' ''CALL'' close_input ''0'' [Some (Call ''0xf'' ''0xg'' ''CALL'' unwrap_input ''0'' [])]"
  have c: "CallTrace xclose = Some ?c" by (simp add: xclose_def)
  have "(\<Sum>l\<leftarrow>tt_Logs xclose. user_delta xenv ''0xacc'' ''0xu'' ''0xb'' (replicate 64 CHR ''a'') ''0xu'' l) = -2"
    "(\<Sum>l\<leftarrow>tt_Logs xclose. user_delta xenv ''0xacc'' ''0xu'' ''0xb'' (replicate 64 CHR ''a'') ''0xt'' l) = 5"
    "unwrapped_eth xenv (replicate 64 CHR ''a'') ?c = 12"
    by code_simp+
  with close_transfers_net[OF run c, of "''0xu''"] close_transfers_net[OF run c, of "''0xt''"] run show ?thesis by simp
qed

end
