(* ===== verification/Query_Feeds.thy ===== *)
theory Query_Feeds
  imports Price_Feeds
begin

text \<open>
  Prices that are queried instead of read from events (\<^verbatim>\<open>models/aggregated_block_feed\<close>): curve and yearn feeds.  A feed serves several
  tokens, each in an interval of blocks kept in the details of its adapter; the wrapper asks all feeds every few blocks, and
  the feeds that depend on a chainlink price also at the blocks where that price changed.

  The multicall contract, single contract calls and the list of token addresses of the sdk are parameters.  The goroutines of a
  query append their prices under a mutex and the result is sorted by block; they run one after the other here.
\<close>

section \<open>Data\<close>

record yearn_internal =
  mainPFAddress :: address
  yVaultAddr :: address
  underlyingPF :: "address option"
  decimalDivider :: "int option"

record query_feed =
  qf_adapter :: sync_adapter
  qf_yearn :: yearn_internal

datatype round_entry = RFailed | REmpty | RMalformed | RData int int    \<comment> \<open>round and answer\<close>

record query_env =
  qe_chain :: chain_env
  RoundData :: "address \<Rightarrow> int \<Rightarrow> round_entry"              \<comment> \<open>the entry of a multicall\<close>
  LatestRoundData :: "address \<Rightarrow> int \<Rightarrow> (int \<times> int) option"
  CallFuncWithExtraBytes :: "string \<Rightarrow> address \<Rightarrow> int \<Rightarrow> nat list option"
  qBytesToAddress :: "nat list \<Rightarrow> address"
  qSetBytes :: "nat list \<Rightarrow> int"
  GetExpInt :: "int \<Rightarrow> int"
  qGetFloat64Decimal :: "int \<Rightarrow> int \<Rightarrow> rat"
  qVersionDecimals :: "int \<Rightarrow> int"
  qVersionInUSD :: "int \<Rightarrow> bool"
  GetSymToAddr :: "int \<Rightarrow> (string \<times> address) list"        \<comment> \<open>tokens of a chain\<close>
  TokenSymbols :: "(address \<times> string) list"             \<comment> \<open>tokens of the repository\<close>

record aqf_world =
  aqf_adapter :: sync_adapter
  QueryFeeds :: "(address \<times> query_feed) list"
  queryFeedPrices :: "price_feed list"
  Interval :: int
  ChainlinkSymToUpdatedBlocks :: "(string \<times> int list) list"
  aggregatedFetchedBlocks :: "int list"
  depBasedExtraPrices :: "price_feed list"
  symToAddr :: "string \<rightharpoonup> address"
  addrToSym :: "address \<rightharpoonup> string"
  aq_chainId :: int
  aq_oracles :: "int \<times> address \<rightharpoonup> token_oracle"        \<comment> \<open>\<^verbatim>\<open>TokenOracleRepo.tokensCurrentOracle\<close>\<close>
  aq_blocks :: blocks_repo

section \<open>The tokens of a feed\<close>

definition int_of_json :: "json \<Rightarrow> int res" where
  "int_of_json v = (case v of JInt i \<Rightarrow> Inr i | JFloat i \<Rightarrow> Inr i | _ \<Rightarrow> Inl (Fatal ''QueryPriceFeed token start/end block_num not in int format''))"

definition ConvertToListOfInt64 :: "json option \<Rightarrow> int list res" where
  "ConvertToListOfInt64 v =
    (case v of
       Some (JList xs) \<Rightarrow> rfold (\<lambda>x acc. rbind (int_of_json x) (\<lambda>i. Inr (acc @ [i]))) xs []
     | _ \<Rightarrow> Inr [])"

definition json_nil :: "json option \<Rightarrow> bool" where
  "json_nil v \<longleftrightarrow> v = None \<or> v = Some JNull"

text \<open>
  \<^verbatim>\<open>parseLogArray\<close> asserts \<^verbatim>\<open>[]interface{}\<close> and returns \<^verbatim>\<open>[][]interface{}\<close>.
\<close>

definition parse_log_element :: "json \<Rightarrow> json list res" where
  "parse_log_element ele =
    (case ele of
       JList obj \<Rightarrow>
         rbind (go_index obj 0) (\<lambda>t.
         rbind (case t of JString s \<Rightarrow> Inr s | _ \<Rightarrow> Inl (Panic ''interface conversion'')) (\<lambda>s.
         rbind (go_index obj 1) (\<lambda>v.
         rbind (ConvertToListOfInt64 (Some v)) (\<lambda>ints. Inr [JString s, JList (map JInt ints)]))))
     | _ \<Rightarrow> Inl (Fatal ''failed in converting to log array element''))"

definition parseLogArray :: "json option \<Rightarrow> json list list res" where
  "parseLogArray logs =
    (if json_nil logs then Inr []
     else case logs of
       Some (JList l) \<Rightarrow> rfold (\<lambda>ele acc. rbind (parse_log_element ele) (\<lambda>e. Inr (acc @ [e]))) l []
     | _ \<Rightarrow> Inl (Fatal ''failed in converting to log array''))"

definition AddToken :: "address \<Rightarrow> int \<Rightarrow> query_feed \<Rightarrow> query_feed res" where
  "AddToken token discoveredAt mdl =
    (let d = (case Details (qf_adapter mdl) of None \<Rightarrow> [] | Some d \<Rightarrow> d);
         put = (\<lambda>d. mdl\<lparr>qf_adapter := (qf_adapter mdl)\<lparr>Details := Some d\<rparr>\<rparr>);
         enable = (\<lambda>obj d. Inr (put (AList.update ''token'' (JMap (AList.update token (JList [JInt discoveredAt]) obj)) d))) in
     if json_nil (map_of d ''token'') then Inl (Fatal ''Can't reach this part in the yearn price feed'')
     else case map_of d ''token'' of
       Some (JMap obj) \<Rightarrow>
         rbind (ConvertToListOfInt64 (map_of obj token)) (\<lambda>ints.
           if \<not> json_nil (map_of obj token) \<and> length ints = 1 then Inr (put d)
           else if length ints = 2 then
             rbind (parseLogArray (map_of d ''logs'')) (\<lambda>logs.
               enable obj (AList.update ''logs'' (JLists (logs @ [[JString token, JList (map JInt ints)]])) d))
           else enable obj d)
     | _ \<Rightarrow> enable [] d)"

definition DisableToken :: "address \<Rightarrow> int \<Rightarrow> query_feed \<Rightarrow> query_feed res" where
  "DisableToken token disabledAt mdl =
    (let put = (\<lambda>d. mdl\<lparr>qf_adapter := (qf_adapter mdl)\<lparr>Details := Some d\<rparr>\<rparr>) in
     case Details (qf_adapter mdl) of
       None \<Rightarrow> Inl (Panic ''assignment to entry in nil map'')
     | Some d \<Rightarrow>
         (case map_of d ''token'' of
            Some (JMap obj) \<Rightarrow>
              rbind (ConvertToListOfInt64 (map_of obj token)) (\<lambda>ints.
              rbind (guard_fatal (length ints \<noteq> 1) ''enable block number for pricefeed is malformed'') (\<lambda>_.
                Inr (put (AList.update ''token'' (JMap (AList.update token (JList (map JInt (ints @ [disabledAt]))) obj)) d))))
          | _ \<Rightarrow> Inr (put (AList.update ''token'' (JMap []) d))))"

definition valid_at :: "int \<Rightarrow> int list \<Rightarrow> bool res" where
  "valid_at blockNum ints =
    rbind (go_index ints 0) (\<lambda>start.
      if start + 1 \<le> blockNum then
        if length ints = 1 then Inr True else rbind (go_index ints 1) (\<lambda>stop. Inr (blockNum < stop))
      else Inr False)"

definition TokensValidAtBlock :: "int \<Rightarrow> query_feed \<Rightarrow> address list res" where
  "TokensValidAtBlock blockNum mdl =
    (case Details (qf_adapter mdl) of
       None \<Rightarrow> Inr []
     | Some d \<Rightarrow>
         (case map_of d ''token'' of
            Some (JMap obj) \<Rightarrow>
              rfold (\<lambda>(token, info) tokens.
                rbind (ConvertToListOfInt64 (Some info)) (\<lambda>ints.
                rbind (valid_at blockNum ints) (\<lambda>ok. Inr (if ok then tokens @ [token] else tokens)))) obj []
          | _ \<Rightarrow> Inr []))"

definition NewQueryPriceFeedFromAdapter :: "sync_adapter \<Rightarrow> query_feed" where
  "NewQueryPriceFeedFromAdapter adapter =
    \<lparr>qf_adapter = adapter\<lparr>DataProcessType := ViaQuery\<rparr>,
     qf_yearn = \<lparr>mainPFAddress = Address adapter, yVaultAddr = NULL_ADDR, underlyingPF = None, decimalDivider = None\<rparr>\<rparr>"

definition NewQueryPriceFeed :: "address \<Rightarrow> address \<Rightarrow> string \<Rightarrow> int \<Rightarrow> int \<Rightarrow> query_feed" where
  "NewQueryPriceFeed token oracle pfType discoveredAt version =
    NewQueryPriceFeedFromAdapter
      \<lparr>Address = oracle, ContractName = QueryPriceFeed, DiscoveredAt = discoveredAt, FirstLogAt = discoveredAt,
       LastSync = discoveredAt, Disabled = False, BlockToDisableOn = 0, V = version, ErrorMsg = '''',
       Details = Some [(''token'', JMap [(token, JList [JInt discoveredAt])]), (''pfType'', JString pfType)],
       UnderlyingStateToSave = False, DataProcessType = 0, WillSyncTill = 0\<rparr>"

section \<open>Yearn prices\<close>

text \<open>
  \<^verbatim>\<open>setContracts\<close> writes field after field; an error leaves those already written.  Results are the error or the value with the
  state.
\<close>

definition setContracts :: "query_env \<Rightarrow> int \<Rightarrow> yearn_internal \<Rightarrow> bool \<times> yearn_internal" where
  "setContracts E blockNum m =
    (case CallFuncWithExtraBytes E ''741bef1a'' (mainPFAddress m) blockNum of
       None \<Rightarrow> (False, m)
     | Some pfBytes \<Rightarrow>
         if qBytesToAddress E pfBytes = NULL_ADDR then (False, m)
         else
           let m1 = m\<lparr>underlyingPF := Some (qBytesToAddress E pfBytes)\<rparr> in
           (case CallFuncWithExtraBytes E ''33303f8e'' (mainPFAddress m1) blockNum of
              None \<Rightarrow> (False, m1)
            | Some vBytes \<Rightarrow>
                let m2 = m1\<lparr>yVaultAddr := qBytesToAddress E vBytes\<rparr> in
                (case CallFuncWithExtraBytes E ''313ce567'' (yVaultAddr m2) blockNum of
                   None \<Rightarrow> (False, m2)
                 | Some dBytes \<Rightarrow> (True, m2\<lparr>decimalDivider := Some (GetExpInt E (Int64 (qSetBytes E dBytes)))\<rparr>))))"

definition empty_price :: price_feed where
  "empty_price = \<lparr>pf_BlockNumber = 0, pf_Token = '''', pf_Feed = '''', pf_RoundId = 0, pf_PriceBI = 0, pf_Price = 0, IsPriceInUSD = False\<rparr>"

text \<open>A divider that was never set is a nil pointer in \<^verbatim>\<open>Quo\<close>.\<close>

definition calculatePrice :: "query_env \<Rightarrow> int \<Rightarrow> int \<Rightarrow> yearn_internal \<Rightarrow> (price_feed option \<times> yearn_internal) res" where
  "calculatePrice E blockNum version m0 =
    (let (ok, m) = (if underlyingPF m0 = None then setContracts E blockNum m0 else (True, m0)) in
     if \<not> ok then Inr (None, m)
     else case CallFuncWithExtraBytes E ''99530b06'' (yVaultAddr m) blockNum of
       None \<Rightarrow> Inr (None, m)
     | Some pps \<Rightarrow>
         rbind (deref (underlyingPF m)) (\<lambda>pf.
         case LatestRoundData E pf blockNum of
           None \<Rightarrow> Inr (None, m)
         | Some (roundId, answer) \<Rightarrow>
             rbind (deref (decimalDivider m)) (\<lambda>dv.
             rbind (Quo (qSetBytes E pps * answer) dv) (\<lambda>newAnswer.
               Inr (Some (empty_price\<lparr>pf_RoundId := Int64 roundId, pf_PriceBI := newAnswer,
                 pf_Price := qGetFloat64Decimal E newAnswer (qVersionDecimals E version), IsPriceInUSD := qVersionInUSD E version\<rparr>), m)))))"

definition calculateYearnPFInternally :: "query_env \<Rightarrow> int \<Rightarrow> query_feed \<Rightarrow> (price_feed option \<times> query_feed) res" where
  "calculateYearnPFInternally E blockNum mdl =
    rbind (calculatePrice E blockNum (V (qf_adapter mdl)) (qf_yearn mdl)) (\<lambda>(p, m). Inr (p, mdl\<lparr>qf_yearn := m\<rparr>))"

definition parseRoundData :: "query_env \<Rightarrow> round_entry \<Rightarrow> bool \<Rightarrow> price_feed res" where
  "parseRoundData E entry isPriceInUSD =
    (case entry of
       RData roundId answer \<Rightarrow>
         Inr (empty_price\<lparr>pf_RoundId := Int64 roundId, pf_PriceBI := answer,
           pf_Price := qGetFloat64Decimal E answer (if isPriceInUSD then 8 else 18), IsPriceInUSD := isPriceInUSD\<rparr>)
     | _ \<Rightarrow> Inl (Fatal ''can't get the lastestRounData''))"

abbreviation "YearnPF \<equiv> ''YearnPF''"

section \<open>Dependencies on chainlink prices\<close>

definition getDepGraph :: "(string \<times> string list) list" where
  "getDepGraph =
    [(''yvCURVE_FRAX'', [''FRAX'', ''USDC'', ''USDT'', ''DAI'']), (''FRAX3CRV'', [''FRAX'', ''USDC'', ''USDT'', ''DAI'']),
     (''stkcvxFRAX3CRV'', [''FRAX'', ''USDC'', ''USDT'', ''DAI'']), (''cvxFRAX3CRV'', [''FRAX'', ''USDC'', ''USDT'', ''DAI'']),
     (''crvFRAX'', [''USDC'', ''FRAX'']), (''cvxcrvFRAX'', [''USDC'', ''FRAX'']), (''stkcvxcrvFRAX'', [''USDC'', ''FRAX'']),
     (''yvWBTC'', [''WBTC'']), (''yvWETH'', [''WETH'']), (''yvDAI'', [''DAI'']), (''yvUSDC'', [''USDC'']), (''wstETH'', [''stETH'']),
     (''3CRV'', [''USDC'', ''USDT'', ''DAI'']), (''stkcvx3Crv'', [''USDC'', ''USDT'', ''DAI'']), (''cvx3Crv'', [''USDC'', ''USDT'', ''DAI'']),
     (''LUSD3CRV'', [''LUSD'', ''DAI'', ''USDC'', ''USDT'']), (''stkcvxLUSD3CRV'', [''LUSD'', ''DAI'', ''USDC'', ''USDT'']),
     (''cvxLUSD3CRV'', [''LUSD'', ''DAI'', ''USDC'', ''USDT'']),
     (''cvxcrvPlain3andSUSD'', [''SUSD'', ''DAI'', ''USDC'', ''USDT'']), (''stkcvxcrvPlain3andSUSD'', [''SUSD'', ''DAI'', ''USDC'', ''USDT'']),
     (''crvPlain3andSUSD'', [''SUSD'', ''DAI'', ''USDC'', ''USDT'']),
     (''stkcvxgusd3CRV'', [''GUSD'', ''DAI'', ''USDC'', ''USDT'']), (''cvxgusd3CRV'', [''GUSD'', ''DAI'', ''USDC'', ''USDT'']),
     (''GUSD3CRV'', [''GUSD'', ''DAI'', ''USDC'', ''USDT'']),
     (''stkcvxsteCRV'', [''stETH'', ''WETH'']), (''steCRV'', [''stETH'', ''WETH'']),
     (''yvCurve_stETH'', [''stETH'', ''WETH'']), (''cvxsteCRV'', [''stETH'', ''WETH''])]"

definition getInvertDependencyGraph :: "(string \<times> string list) list \<Rightarrow> (string \<times> string list) list" where
  "getInvertDependencyGraph depGraph =
    foldl (\<lambda>inv (token, deps). foldl (\<lambda>inv chainlinkSym. AList.update chainlinkSym (aget [] inv chainlinkSym @ [token]) inv) inv deps)
      [] depGraph"

definition updateIfTest :: "query_env \<Rightarrow> aqf_world \<Rightarrow> aqf_world" where
  "updateIfTest E w =
    (if aq_chainId w \<noteq> 1337 then w
     else w\<lparr>symToAddr := foldl (\<lambda>m (token, s). m(s \<mapsto> token)) Map.empty (TokenSymbols E),
            addrToSym := foldl (\<lambda>m (token, s). m(token \<mapsto> s)) Map.empty (TokenSymbols E)\<rparr>)"

definition tokenSymMapFromchainId :: "query_env \<Rightarrow> int \<Rightarrow> (string \<rightharpoonup> address) \<times> (address \<rightharpoonup> string)" where
  "tokenSymMapFromchainId E chainId =
    (map_of (GetSymToAddr E chainId), foldl (\<lambda>m (s, addr). m(addr \<mapsto> s)) Map.empty (GetSymToAddr E chainId))"

definition getTokenAddr :: "string \<Rightarrow> aqf_world \<Rightarrow> address res" where
  "getTokenAddr s w =
    (let addr = zget NULL_ADDR (symToAddr w) s in
     if addr = NULL_ADDR then Inl (Fatal ''Token sym not found in embedded jsonnet'') else Inr addr)"

definition getTokenSym :: "address \<Rightarrow> aqf_world \<Rightarrow> string res" where
  "getTokenSym addr w =
    (let s = zget '''' (addrToSym w) addr in
     if s = '''' then Inl (Fatal ''Token addr not found in embedded jsonnet'') else Inr s)"

definition ChainlinkPriceUpdatedAt :: "query_env \<Rightarrow> address \<Rightarrow> int list \<Rightarrow> aqf_world \<Rightarrow> aqf_world res" where
  "ChainlinkPriceUpdatedAt E token blockNs w0 =
    (let w = updateIfTest E w0 in
     rbind (getTokenSym token w) (\<lambda>chainlinkSym.
       Inr (w\<lparr>ChainlinkSymToUpdatedBlocks := AList.update chainlinkSym blockNs (ChainlinkSymToUpdatedBlocks w)\<rparr>)))"

definition checkInDepGraph :: "address \<Rightarrow> aqf_world \<Rightarrow> unit res" where
  "checkInDepGraph token w =
    rbind (getTokenSym token w) (\<lambda>s. guard_fatal (map_of getDepGraph s = None) ''Dep for query based price feed not found'')"

text \<open>The updates: for a block the tokens to ask for.\<close>

type_synonym updates = "(int \<times> address list) list"

definition add_update :: "int \<Rightarrow> address \<Rightarrow> int \<Rightarrow> updates \<Rightarrow> updates" where
  "add_update clearExtraBefore depAddr blockNum us =
    (if blockNum \<le> clearExtraBefore then us
     else let toks = aget [] us blockNum in
       AList.update blockNum (if depAddr \<in> set toks then toks else toks @ [depAddr]) us)"

definition getChainlinkBasedQueryUpdates :: "int \<Rightarrow> aqf_world \<Rightarrow> (updates \<times> aqf_world) res" where
  "getChainlinkBasedQueryUpdates clearExtraBefore w =
    rbind (rfold (\<lambda>(chainlinkSym, blockNs) us.
        rfold (\<lambda>dependentSym us.
            rbind (getTokenAddr dependentSym w) (\<lambda>depAddr. Inr (foldl (\<lambda>us b. add_update clearExtraBefore depAddr b us) us blockNs)))
          (aget [] (getInvertDependencyGraph getDepGraph) chainlinkSym) us)
      (ChainlinkSymToUpdatedBlocks w) []) (\<lambda>us.
    Inr (us, w\<lparr>ChainlinkSymToUpdatedBlocks := []\<rparr>))"

definition GetOracleForV2Token :: "address \<Rightarrow> aqf_world \<Rightarrow> token_oracle option" where
  "GetOracleForV2Token token w = aq_oracles w (2, token)"

definition dep_price :: "query_env \<Rightarrow> int \<Rightarrow> token_oracle \<Rightarrow> aqf_world \<Rightarrow> (price_feed option \<times> aqf_world) res" where
  "dep_price E blockNum details w =
    (case RoundData E (to_Feed details) blockNum of
       entry \<Rightarrow>
         if entry \<noteq> RFailed \<and> entry \<noteq> REmpty then rbind (parseRoundData E entry True) (\<lambda>p. Inr (Some p, w))
         else case map_of (QueryFeeds w) (to_Feed details) of
           None \<Rightarrow> Inl (Fatal ''Conversion of adapter to queryPriceFeed failed'')
         | Some adapter \<Rightarrow>
             rbind (GetDetailsByKey ''pfType'' (qf_adapter adapter)) (\<lambda>pfType.
               if pfType = YearnPF then
                 rbind (calculateYearnPFInternally E blockNum adapter) (\<lambda>(p, adapter').
                   Inr (p, w\<lparr>QueryFeeds := AList.update (to_Feed details) adapter' (QueryFeeds w)\<rparr>))
               else Inr (None, w)))"

definition fetchRoundData :: "query_env \<Rightarrow> int \<times> address list \<Rightarrow> aqf_world \<Rightarrow> aqf_world res" where
  "fetchRoundData E = (\<lambda>(blockNum, tokens) w.
    (let tokenOracles = List.map_filter (\<lambda>token. GetOracleForV2Token token w) tokens in
     rbind (rfold (\<lambda>details (newPrices, w).
         rbind (dep_price E blockNum details w) (\<lambda>(p, w').
           Inr (case p of None \<Rightarrow> newPrices
                | Some newPrice \<Rightarrow> newPrices @ [newPrice\<lparr>pf_Token := to_Token details, pf_Feed := to_Feed details, pf_BlockNumber := blockNum\<rparr>], w')))
       tokenOracles ([], w)) (\<lambda>(newPrices, w').
     Inr (w'\<lparr>depBasedExtraPrices := depBasedExtraPrices w' @ newPrices\<rparr>))))"

definition extraPriceForQueryFeed :: "query_env \<Rightarrow> int \<Rightarrow> aqf_world \<Rightarrow> (price_feed list \<times> aqf_world) res" where
  "extraPriceForQueryFeed E clearExtraBefore w =
    rbind (getChainlinkBasedQueryUpdates clearExtraBefore w) (\<lambda>(us, w1).
      let us1 = foldl (\<lambda>us blockToDelete. AList.delete blockToDelete us) us (aggregatedFetchedBlocks w1) in
      rbind (rfold (fetchRoundData E) us1 w1) (\<lambda>w2.
        Inr (depBasedExtraPrices w2, w2\<lparr>depBasedExtraPrices := []\<rparr>)))"

section \<open>The wrapper\<close>

definition NewAQFWrapper :: "query_env \<Rightarrow> int \<Rightarrow> int \<Rightarrow> (int \<times> address \<rightharpoonup> token_oracle) \<Rightarrow> blocks_repo \<Rightarrow> aqf_world" where
  "NewAQFWrapper E chainId interval oracles bs =
    (let (s2a, a2s) = (if chainId = 1337 then (Map.empty, Map.empty) else tokenSymMapFromchainId E chainId) in
     \<lparr>aqf_adapter = \<lparr>Address = AggregatedQueryFeedWrapper, ContractName = AggregatedQueryFeedWrapper, DiscoveredAt = 0, FirstLogAt = 0,
        LastSync = max_int64 - 1, Disabled = False, BlockToDisableOn = 0, V = 0, ErrorMsg = '''', Details = None,
        UnderlyingStateToSave = False, DataProcessType = ViaQuery, WillSyncTill = 0\<rparr>,
      QueryFeeds = [], queryFeedPrices = [], Interval = interval, ChainlinkSymToUpdatedBlocks = [], aggregatedFetchedBlocks = [],
      depBasedExtraPrices = [], symToAddr = s2a, addrToSym = a2s, aq_chainId = chainId, aq_oracles = oracles, aq_blocks = bs\<rparr>)"

definition AddYearnFeed :: "query_feed \<Rightarrow> aqf_world \<Rightarrow> aqf_world" where
  "AddYearnFeed feed w =
    w\<lparr>aqf_adapter := (aqf_adapter w)\<lparr>LastSync := min (LastSync (qf_adapter feed)) (LastSync (aqf_adapter w))\<rparr>,
      QueryFeeds := AList.update (Address (qf_adapter feed)) feed (QueryFeeds w)\<rparr>"

definition createPriceFeedOnInit :: "query_env \<Rightarrow> query_feed \<Rightarrow> address \<Rightarrow> int \<Rightarrow> price_feed list res" where
  "createPriceFeedOnInit E qpf token discoveredAt =
    rbind (orFatal (LatestRoundData E (Address (qf_adapter qpf)) discoveredAt) ''LatestRoundData'') (\<lambda>(roundId, answer).
      Inr [\<lparr>pf_BlockNumber = discoveredAt, pf_Token = token, pf_Feed = Address (qf_adapter qpf), pf_RoundId = Int64 roundId,
            pf_PriceBI = answer, pf_Price = qGetFloat64Decimal E answer (qVersionDecimals E (V (qf_adapter qpf))),
            IsPriceInUSD = qVersionInUSD E (V (qf_adapter qpf))\<rparr>])"

abbreviation "old_yvUSDC \<equiv> ''0x5f18C75AbDAe578b483E5F43f12a39cF75b973a9''"

definition updateQueryPrices :: "price_feed list \<Rightarrow> aqf_world \<Rightarrow> aqf_world" where
  "updateQueryPrices pfs w = w\<lparr>queryFeedPrices := queryFeedPrices w @ pfs\<rparr>"

definition AddFeedOrToken :: "query_env \<Rightarrow> address \<Rightarrow> address \<Rightarrow> string \<Rightarrow> int \<Rightarrow> int \<Rightarrow> aqf_world \<Rightarrow> aqf_world res" where
  "AddFeedOrToken E token oracle pfType discoveredAt version w =
    rbind (if token \<noteq> old_yvUSDC then checkInDepGraph token w else Inr ()) (\<lambda>_.
    rbind (case map_of (QueryFeeds w) oracle of
             Some feed \<Rightarrow> rbind (AddToken token discoveredAt feed) (\<lambda>feed'. Inr (w\<lparr>QueryFeeds := AList.update oracle feed' (QueryFeeds w)\<rparr>))
           | None \<Rightarrow>
               let feed = NewQueryPriceFeed token oracle pfType discoveredAt version; w1 = AddYearnFeed feed w in
               if token = old_yvUSDC
               then rbind (DisableToken token 13856183 feed) (\<lambda>feed'. Inr (w1\<lparr>QueryFeeds := AList.update oracle feed' (QueryFeeds w1)\<rparr>))
               else Inr w1) (\<lambda>w2.
    rbind (deref (map_of (QueryFeeds w2) oracle)) (\<lambda>feed.
    rbind (createPriceFeedOnInit E feed token discoveredAt) (\<lambda>pfs. Inr (updateQueryPrices pfs w2)))))"

definition DisableYearnFeed :: "address \<Rightarrow> address \<Rightarrow> int \<Rightarrow> aqf_world \<Rightarrow> aqf_world res" where
  "DisableYearnFeed token oracle disabledAt w =
    rbind (deref (map_of (QueryFeeds w) oracle)) (\<lambda>feed.
    rbind (DisableToken token disabledAt feed) (\<lambda>feed'. Inr (w\<lparr>QueryFeeds := AList.update oracle feed' (QueryFeeds w)\<rparr>)))"

section \<open>Queries\<close>

definition getRoundDataCalls :: "int \<Rightarrow> aqf_world \<Rightarrow> address list res" where
  "getRoundDataCalls blockNum w =
    rfold (\<lambda>(addr, feed) acc.
        if blockNum \<le> LastSync (qf_adapter feed) then Inr acc
        else rbind (TokensValidAtBlock blockNum feed) (\<lambda>toks. Inr (if toks = [] then acc else acc @ [addr])))
      (QueryFeeds w) []"

definition processRoundData :: "query_env \<Rightarrow> int \<Rightarrow> query_feed \<Rightarrow> (price_feed list \<times> query_feed) res" where
  "processRoundData E blockNum adapter =
    (let addr = Address (qf_adapter adapter); entry = RoundData E addr blockNum in
     rbind (if entry \<noteq> RFailed
            then rbind (parseRoundData E entry (qVersionInUSD E (V (qf_adapter adapter)))) (\<lambda>p. Inr (Some p, adapter))
            else rbind (GetDetailsByKey ''pfType'' (qf_adapter adapter)) (\<lambda>pfType.
              if pfType = YearnPF then
                rbind (calculateYearnPFInternally E blockNum adapter) (\<lambda>(p, a).
                rbind (orFatal p ''can't calculate yearnfeed's price internally'') (\<lambda>pr. Inr (Some pr, a)))
              else Inr (None, adapter))) (\<lambda>(priceData, adapter').
     rbind (TokensValidAtBlock blockNum adapter') (\<lambda>toks.
     rbind (rfold (\<lambda>token acc. rbind (deref priceData) (\<lambda>p.
         Inr (acc @ [p\<lparr>pf_BlockNumber := blockNum, pf_Token := token, pf_Feed := addr\<rparr>]))) toks []) (\<lambda>pfs.
     Inr (pfs, adapter')))))"

definition QueryData :: "query_env \<Rightarrow> int \<Rightarrow> aqf_world \<Rightarrow> (price_feed list \<times> aqf_world) res" where
  "QueryData E blockNum w =
    rbind (getRoundDataCalls blockNum w) (\<lambda>queryAbleAdapters.
      rfold (\<lambda>addr (pfs, w).
          rbind (deref (map_of (QueryFeeds w) addr)) (\<lambda>adapter.
          rbind (processRoundData E blockNum adapter) (\<lambda>(pf, adapter').
            Inr (pfs @ pf, w\<lparr>QueryFeeds := AList.update addr adapter' (QueryFeeds w)\<rparr>))))
        queryAbleAdapters ([], w))"

definition queryAsync :: "query_env \<Rightarrow> int \<Rightarrow> aqf_world \<Rightarrow> aqf_world res" where
  "queryAsync E blockNum w = rbind (QueryData E blockNum w) (\<lambda>(pfs, w'). Inr (updateQueryPrices pfs w'))"

fun query_loop :: "nat \<Rightarrow> query_env \<Rightarrow> int \<Rightarrow> int \<Rightarrow> aqf_world \<Rightarrow> aqf_world res" where
  "query_loop 0 E blockNum queryTill w = Inl OutOfFuel"
| "query_loop (Suc n) E blockNum queryTill w =
    (if blockNum \<le> queryTill then
       rbind (queryAsync E blockNum (w\<lparr>aggregatedFetchedBlocks := aggregatedFetchedBlocks w @ [blockNum]\<rparr>))
         (query_loop n E (blockNum + Interval w) queryTill)
     else Inr w)"

definition aq_AddPriceFeed :: "query_env \<Rightarrow> price_feed \<Rightarrow> aqf_world \<Rightarrow> aqf_world res" where
  "aq_AddPriceFeed E pf w = rbind (AddPriceFeed (qe_chain E) pf (aq_blocks w)) (\<lambda>r. Inr (w\<lparr>aq_blocks := r\<rparr>))"

definition addQueryPrices :: "query_env \<Rightarrow> int \<Rightarrow> aqf_world \<Rightarrow> aqf_world res" where
  "addQueryPrices E clearExtraBefore w =
    rbind (extraPriceForQueryFeed E clearExtraBefore w) (\<lambda>(extra, w1).
      let w2 = updateQueryPrices extra w1;
          w3 = w2\<lparr>queryFeedPrices := sort_key pf_BlockNumber (queryFeedPrices w2)\<rparr>
      in rbind (rfold (aq_AddPriceFeed E) (queryFeedPrices w3) w3) (\<lambda>w4. Inr (w4\<lparr>queryFeedPrices := []\<rparr>)))"

definition sync_feeds :: "int \<Rightarrow> (address \<times> query_feed) list \<Rightarrow> (address \<times> query_feed) list" where
  "sync_feeds queryTill fs =
    map (\<lambda>(addr, f). (addr, if queryTill \<le> LastSync (qf_adapter f) \<or> Disabled (qf_adapter f) then f
       else f\<lparr>qf_adapter := sa_AfterSyncHook queryTill (qf_adapter f)\<rparr>)) fs"

definition aqf_Query :: "nat \<Rightarrow> query_env \<Rightarrow> int \<Rightarrow> aqf_world \<Rightarrow> aqf_world res" where
  "aqf_Query n E queryTill w =
    (if QueryFeeds w = [] then Inr w
     else
       let queryFrom = LastSync (aqf_adapter w) + Interval w in
       rbind (query_loop n E queryFrom queryTill w) (\<lambda>w1.
         addQueryPrices E queryFrom (w1\<lparr>QueryFeeds := sync_feeds queryTill (QueryFeeds w1)\<rparr>)))"

end
