(* ===== verification/Query_Correct.thy ===== *)
theory Query_Correct
  imports Query_Feeds Refinement
begin

text \<open>
  Correctness of the queried prices: the tokens a feed serves at a block, the blocks at which dependent prices are asked for, and
  the prices a query hands to the price table.
\<close>

section \<open>The tokens of a feed\<close>

definition json_ints :: "json \<Rightarrow> int list option" where
  "json_ints v = (case v of
     JList xs \<Rightarrow> if list_all (\<lambda>x. case x of JInt i \<Rightarrow> True | JFloat i \<Rightarrow> True | _ \<Rightarrow> False) xs
       then Some (map (\<lambda>x. case x of JInt i \<Rightarrow> i | JFloat i \<Rightarrow> i | _ \<Rightarrow> 0) xs) else None
   | _ \<Rightarrow> None)"

text \<open>The intervals a token is served in: from the block after the first number, up to the second if there is one.\<close>

definition interval_of :: "int list \<Rightarrow> (int \<times> int option) option" where
  "interval_of is = (case is of [s] \<Rightarrow> Some (s, None) | [s, e] \<Rightarrow> Some (s, Some e) | _ \<Rightarrow> None)"

definition token_map :: "query_feed \<Rightarrow> (address \<times> json) list" where
  "token_map q = (case Details (qf_adapter q) of Some d \<Rightarrow> (case map_of d ''token'' of Some (JMap obj) \<Rightarrow> obj | _ \<Rightarrow> []) | None \<Rightarrow> [])"

definition served :: "query_feed \<Rightarrow> address \<rightharpoonup> int \<times> int option" where
  "served q t = Option.bind (Option.bind (map_of (token_map q) t) json_ints) interval_of"

definition feed_ok :: "query_feed \<Rightarrow> bool" where
  "feed_ok q \<longleftrightarrow> (\<exists>d obj. Details (qf_adapter q) = Some d \<and> map_of d ''token'' = Some (JMap obj) \<and> distinct (map fst obj) \<and>
    (\<forall>(t, v) \<in> set obj. \<exists>is. json_ints v = Some is \<and> (length is = 1 \<or> length is = 2)))"

datatype token_event = Enable address int | Disable address int

definition token_step :: "token_event \<Rightarrow> query_feed \<Rightarrow> query_feed res" where
  "token_step e q = (case e of Enable t b \<Rightarrow> AddToken t b q | Disable t b \<Rightarrow> DisableToken t b q)"

definition token_spec :: "token_event \<Rightarrow> (address \<rightharpoonup> int \<times> int option) \<Rightarrow> (address \<rightharpoonup> int \<times> int option)" where
  "token_spec e m = (case e of
     Enable t b \<Rightarrow> (case m t of Some (s, None) \<Rightarrow> m | _ \<Rightarrow> m(t \<mapsto> (b, None)))
   | Disable t b \<Rightarrow> (case m t of Some (s, None) \<Rightarrow> m(t \<mapsto> (s, Some b)) | _ \<Rightarrow> m))"

lemma convert_loop:
  assumes "list_all (\<lambda>x. case x of JInt i \<Rightarrow> True | JFloat i \<Rightarrow> True | _ \<Rightarrow> False) xs"
  shows "rfold (\<lambda>x acc. rbind (int_of_json x) (\<lambda>i. Inr (acc @ [i]))) xs acc =
    Inr (acc @ map (\<lambda>x. case x of JInt i \<Rightarrow> i | JFloat i \<Rightarrow> i | _ \<Rightarrow> 0) xs)"
  using assms by (induction xs arbitrary: acc) (auto simp: int_of_json_def split: json.splits)

lemma ConvertToListOfInt64_ints: "json_ints v = Some is \<Longrightarrow> ConvertToListOfInt64 (Some v) = Inr is"
  by (auto simp: json_ints_def ConvertToListOfInt64_def convert_loop split: json.splits if_splits)

lemma json_ints_JInt [simp]: "json_ints (JList (map JInt is)) = Some is" "json_ints (JList [JInt b]) = Some [b]"
  by (simp_all add: json_ints_def list_all_iff comp_def)

lemma json_ints_not_nil: "json_ints v = Some is \<Longrightarrow> v \<noteq> JNull"
  by (auto simp: json_ints_def)

lemma ConvertToListOfInt64_None [simp]: "ConvertToListOfInt64 None = Inr []"
  by (simp add: ConvertToListOfInt64_def)

lemma feed_okE:
  assumes "feed_ok q"
  obtains d where "Details (qf_adapter q) = Some d" "map_of d ''token'' = Some (JMap (token_map q))" "distinct (map fst (token_map q))"
    "\<And>t v. map_of (token_map q) t = Some v \<Longrightarrow> \<exists>is. json_ints v = Some is \<and> (length is = 1 \<or> length is = 2)"
proof -
  from assms obtain d obj where d: "Details (qf_adapter q) = Some d" "map_of d ''token'' = Some (JMap obj)" "distinct (map fst obj)"
    and v: "\<forall>(t, v) \<in> set obj. \<exists>is. json_ints v = Some is \<and> (length is = 1 \<or> length is = 2)"
    by (auto simp: feed_ok_def)
  then have "token_map q = obj" by (simp add: token_map_def)
  then have all: "\<And>t v. map_of (token_map q) t = Some v \<Longrightarrow> \<exists>is. json_ints v = Some is \<and> (length is = 1 \<or> length is = 2)"
    using v map_of_SomeD by fastforce
  from that[OF d(1) _ _ all] d(2,3) \<open>token_map q = obj\<close> show ?thesis by simp
qed

text \<open>A token at a feed is unknown, being served, or no longer served.\<close>

lemma token_state:
  assumes "feed_ok q"
  obtains (none) "map_of (token_map q) t = None" "served q t = None"
  | (on) v s where "map_of (token_map q) t = Some v" "json_ints v = Some [s]" "served q t = Some (s, None)"
  | (off) v s e where "map_of (token_map q) t = Some v" "json_ints v = Some [s, e]" "served q t = Some (s, Some e)"
proof (cases "map_of (token_map q) t")
  case (Some v)
  from feed_okE[OF assms] Some obtain ns where "json_ints v = Some ns" "length ns = 1 \<or> length ns = 2" by metis
  then show ?thesis using Some on off
    by (auto simp: served_def interval_of_def length_Suc_conv eval_nat_numeral)
qed (use none in \<open>simp add: served_def\<close>)

text \<open>Writing the interval of a token.\<close>

lemma put_token:
  assumes "feed_ok q" and "Details (qf_adapter q) = Some d" and "map_of d' ''token'' = map_of d ''token''"
    and "json_ints v = Some is" and "length is = 1 \<or> length is = 2"
    and q': "q' = q\<lparr>qf_adapter := (qf_adapter q)\<lparr>Details := Some (AList.update ''token'' (JMap (AList.update t v (token_map q))) d')\<rparr>\<rparr>"
  shows "feed_ok q'" and "served q' = (served q)(t \<mapsto> the (interval_of is))"
proof -
  have tm: "token_map q' = AList.update t v (token_map q)" by (simp add: q' token_map_def)
  from feed_okE[OF assms(1)] have "distinct (map fst (token_map q))" and all: "\<And>t v. map_of (token_map q) t = Some v \<Longrightarrow>
      \<exists>is. json_ints v = Some is \<and> (length is = 1 \<or> length is = 2)" by metis+
  then have d: "distinct (map fst (AList.update t v (token_map q)))" by (simp add: distinct_update)
  have "\<exists>is. json_ints v' = Some is \<and> (length is = 1 \<or> length is = 2)" if "(t', v') \<in> set (AList.update t v (token_map q))" for t' v'
  proof -
    have "map_of (AList.update t v (token_map q)) t' = Some v'" using map_of_is_SomeI[OF d that] .
    then show ?thesis using all assms(4,5) by (auto split: if_splits)
  qed
  with d show "feed_ok q'" by (auto simp: feed_ok_def q')
  have "interval_of is \<noteq> None" using assms(5) by (auto simp: interval_of_def length_Suc_conv eval_nat_numeral)
  then show "served q' = (served q)(t \<mapsto> the (interval_of is))" using assms(4) by (auto simp: served_def tm fun_eq_iff)
qed

lemma AddToken_refines:
  assumes "feed_ok q" and "AddToken t b q = Inr q'"
  shows "feed_ok q' \<and> served q' = token_spec (Enable t b) (served q)"
proof -
  from feed_okE[OF assms(1)] obtain d where d: "Details (qf_adapter q) = Some d" "map_of d ''token'' = Some (JMap (token_map q))" by metis
  show ?thesis using assms(1)
  proof (cases rule: token_state[of q t])
    case none
    then have "q' = q\<lparr>qf_adapter := (qf_adapter q)\<lparr>Details := Some (AList.update ''token'' (JMap (AList.update t (JList [JInt b]) (token_map q))) d)\<rparr>\<rparr>"
      using assms(2) d by (simp add: AddToken_def json_nil_def)
    from put_token[OF assms(1) d(1) refl _ _ this, of "[b]"] none show ?thesis by (simp add: token_spec_def interval_of_def)
  next
    case (on v s)
    then have "q' = q\<lparr>qf_adapter := (qf_adapter q)\<lparr>Details := Some d\<rparr>\<rparr>"
      using assms(2) d json_ints_not_nil by (auto simp: AddToken_def json_nil_def ConvertToListOfInt64_ints)
    then have "q' = q" using d(1) by simp
    with on assms(1) show ?thesis by (simp add: token_spec_def)
  next
    case (off v s e)
    then obtain d' where "q' = q\<lparr>qf_adapter := (qf_adapter q)\<lparr>Details := Some (AList.update ''token'' (JMap (AList.update t (JList [JInt b]) (token_map q))) d')\<rparr>\<rparr>"
      and "map_of d' ''token'' = map_of d ''token''"
      using assms(2) d by (auto simp: AddToken_def json_nil_def ConvertToListOfInt64_ints elim!: rbind_InrE)
    from put_token[OF assms(1) d(1) this(2) _ _ this(1), of "[b]"] off show ?thesis by (simp add: token_spec_def interval_of_def)
  qed
qed

lemma DisableToken_refines:
  assumes "feed_ok q" and "DisableToken t b q = Inr q'"
  shows "feed_ok q' \<and> served q' = token_spec (Disable t b) (served q)"
proof -
  from feed_okE[OF assms(1)] obtain d where d: "Details (qf_adapter q) = Some d" "map_of d ''token'' = Some (JMap (token_map q))" by metis
  show ?thesis using assms(1)
  proof (cases rule: token_state[of q t])
    case (on v s)
    then have "q' = q\<lparr>qf_adapter := (qf_adapter q)\<lparr>Details := Some (AList.update ''token'' (JMap (AList.update t (JList (map JInt [s, b])) (token_map q))) d)\<rparr>\<rparr>"
      using assms(2) d by (simp add: DisableToken_def ConvertToListOfInt64_ints)
    from put_token[OF assms(1) d(1) refl _ _ this, of "[s, b]"] on show ?thesis
      using json_ints_JInt(1)[of "[s, b]"] by (simp add: token_spec_def interval_of_def)
  qed (use assms(2) d in \<open>simp_all add: DisableToken_def ConvertToListOfInt64_ints\<close>)
qed

interpretation tokens: event_refinement token_step "\<lambda>_. True" feed_ok served token_spec
  by unfold_locales (auto simp: token_step_def dest: AddToken_refines DisableToken_refines split: token_event.splits)
definition serves_at :: "int \<Rightarrow> (int \<times> int option) option \<Rightarrow> bool" where
  "serves_at b i = (case i of None \<Rightarrow> False | Some (s, e) \<Rightarrow> s < b \<and> (case e of None \<Rightarrow> True | Some e \<Rightarrow> b < e))"

lemma valid_at_interval: "length ns = 1 \<or> length ns = 2 \<Longrightarrow> valid_at b ns = Inr (serves_at b (interval_of ns))"
  by (auto simp: valid_at_def serves_at_def interval_of_def go_index_def length_Suc_conv eval_nat_numeral)

lemma valid_loop:
  assumes "\<forall>(t, v) \<in> set obj. \<exists>ns. json_ints v = Some ns \<and> (length ns = 1 \<or> length ns = 2)"
  shows "rfold (\<lambda>(token, info) tokens. rbind (ConvertToListOfInt64 (Some info)) (\<lambda>ints.
      rbind (valid_at b ints) (\<lambda>ok. Inr (if ok then tokens @ [token] else tokens)))) obj acc =
    Inr (acc @ map fst (filter (\<lambda>(t, v). serves_at b (Option.bind (json_ints v) interval_of)) obj))"
  using assms
proof (induction obj arbitrary: acc)
  case (Cons p obj)
  obtain t v where p: "p = (t, v)" by (cases p)
  from Cons.prems p obtain ns where ns: "json_ints v = Some ns" "length ns = 1 \<or> length ns = 2" by auto
  with Cons p show ?case by (simp add: ConvertToListOfInt64_ints valid_at_interval)
qed simp

lemma TokensValidAtBlock_served:
  assumes "feed_ok q"
  obtains toks where "TokensValidAtBlock b q = Inr toks" "distinct toks" "set toks = {t. serves_at b (served q t)}"
proof -
  from assms obtain d obj where d: "Details (qf_adapter q) = Some d" "map_of d ''token'' = Some (JMap obj)" "distinct (map fst obj)"
    and v: "\<forall>(t, v) \<in> set obj. \<exists>ns. json_ints v = Some ns \<and> (length ns = 1 \<or> length ns = 2)"
    by (auto simp: feed_ok_def)
  let ?f = "filter (\<lambda>(t, v). serves_at b (Option.bind (json_ints v) interval_of)) obj"
  have run: "TokensValidAtBlock b q = Inr (map fst ?f)"
    using d valid_loop[OF v, of b "[]"] by (simp add: TokensValidAtBlock_def)
  have tm: "token_map q = obj" using d by (simp add: token_map_def)
  have "t \<in> fst ` set ?f \<longleftrightarrow> serves_at b (served q t)" for t
  proof
    assume "t \<in> fst ` set ?f"
    then obtain v where "(t, v) \<in> set obj" "serves_at b (Option.bind (json_ints v) interval_of)" by auto
    then show "serves_at b (served q t)" using d(3) tm by (simp add: served_def map_of_is_SomeI)
  next
    assume s: "serves_at b (served q t)"
    then obtain v where "map_of obj t = Some v" "serves_at b (Option.bind (json_ints v) interval_of)"
      by (cases "map_of obj t") (auto simp: served_def tm serves_at_def)
    then have "(t, v) \<in> set ?f" by (auto dest: map_of_SomeD)
    then show "t \<in> fst ` set ?f" by force
  qed
  moreover have "distinct (map fst ?f)" using d(3) distinct_map_filter by blast
  ultimately show ?thesis using that[OF run] by auto
qed

lemma NewQueryPriceFeed_ok:
  "feed_ok (NewQueryPriceFeed token oracle pfType b v)" "served (NewQueryPriceFeed token oracle pfType b v) = [token \<mapsto> (b, None)]"
  by (auto simp: feed_ok_def served_def token_map_def NewQueryPriceFeed_def NewQueryPriceFeedFromAdapter_def interval_of_def fun_eq_iff)

text \<open>
  C26: After any sequence of additions and removals of tokens, the tokens a feed serves at a block are exactly those whose last
  interval contains the block: added at an earlier block and not removed up to it.  Adding a token that is being served
  changes nothing, and reading the tokens never fails.
\<close>

theorem feed_serves_intervals:
  assumes "rfold token_step evs (NewQueryPriceFeed token oracle pfType start v) = Inr q"
  shows "\<exists>toks. TokensValidAtBlock b q = Inr toks \<and> distinct toks \<and>
    set toks = {t. serves_at b (fold token_spec evs [token \<mapsto> (start, None)] t)}"
proof -
  from tokens.run_refines[OF assms NewQueryPriceFeed_ok(1)] have "feed_ok q" "served q = fold token_spec evs [token \<mapsto> (start, None)]"
    by (simp_all add: NewQueryPriceFeed_ok(2))
  with TokensValidAtBlock_served[of q b] show ?thesis by metis
qed

theorem feed_serves_intervals_witness:
  "\<exists>q toks. rfold token_step [Enable ''0xb'' 20, Disable ''0xa'' 30, Enable ''0xb'' 25] (NewQueryPriceFeed ''0xa'' ''0xo'' ''CurvePF'' 10 2) = Inr q \<and>
    TokensValidAtBlock 30 q = Inr toks \<and> set toks = {''0xb''}"
proof -
  let ?evs = "[Enable ''0xb'' 20, Disable ''0xa'' 30, Enable ''0xb'' 25]"
  have "\<not> isl (rfold token_step ?evs (NewQueryPriceFeed ''0xa'' ''0xo'' ''CurvePF'' 10 2))" by code_simp
  then obtain q where q: "rfold token_step ?evs (NewQueryPriceFeed ''0xa'' ''0xo'' ''CurvePF'' 10 2) = Inr q"
    by (metis isl_def obj_sumE)
  have "fold token_spec ?evs [''0xa'' \<mapsto> (10, None)] = [''0xa'' \<mapsto> (10, Some 30), ''0xb'' \<mapsto> (20, None)]"
    by (simp add: token_spec_def fun_eq_iff)
  then have "serves_at 30 (fold token_spec ?evs [''0xa'' \<mapsto> (10, None)] t) \<longleftrightarrow> t = ''0xb''" for t
    by (simp add: serves_at_def)
  with feed_serves_intervals[OF q, of 30] q show ?thesis by auto
qed

text \<open>
  A token that is enabled a third time in one run of the program ends the process: the list of its past intervals was
  written with the type of a list of lists, and the next addition asserts a plain list.
\<close>

theorem third_enable_is_fatal:
  "rfold token_step [Disable token b1, Enable token b2, Disable token b3, Enable token b4] (NewQueryPriceFeed token oracle pfType b0 v) =
    Inl (Fatal ''failed in converting to log array'')"
  by (simp add: token_step_def DisableToken_def AddToken_def NewQueryPriceFeed_def NewQueryPriceFeedFromAdapter_def
      ConvertToListOfInt64_def int_of_json_def json_nil_def parseLogArray_def Let_def)

section \<open>Dependencies\<close>

lemma invert_deps:
  "set (aget [] (foldl (\<lambda>inv chainlinkSym. AList.update chainlinkSym (aget [] inv chainlinkSym @ [token]) inv) g deps) s) =
    set (aget [] g s) \<union> (if s \<in> set deps then {token} else {})"
  by (induction deps arbitrary: g) auto

lemma getInvertDependencyGraph_set:
  "t \<in> set (aget [] (getInvertDependencyGraph g) s) \<longleftrightarrow> (\<exists>deps. (t, deps) \<in> set g \<and> s \<in> set deps)"
proof -
  have "t \<in> set (aget [] (foldl (\<lambda>inv (token, deps).
        foldl (\<lambda>inv chainlinkSym. AList.update chainlinkSym (aget [] inv chainlinkSym @ [token]) inv) inv deps) g0 g) s) \<longleftrightarrow>
      t \<in> set (aget [] g0 s) \<or> (\<exists>deps. (t, deps) \<in> set g \<and> s \<in> set deps)" for g0
    by (induction g arbitrary: g0) (auto simp: invert_deps split: if_splits)
  from this[of "[]"] show ?thesis by (simp add: getInvertDependencyGraph_def)
qed

lemma add_update_set:
  "tok \<in> set (aget [] (add_update clear a b us) b') \<longleftrightarrow> tok \<in> set (aget [] us b') \<or> b' = b \<and> clear < b \<and> tok = a"
  by (auto simp: add_update_def Let_def)

lemma add_updates_set:
  "tok \<in> set (aget [] (foldl (\<lambda>us b. add_update clear a b us) us bs) b') \<longleftrightarrow>
    tok \<in> set (aget [] us b') \<or> b' \<in> set bs \<and> clear < b' \<and> tok = a"
  by (induction bs arbitrary: us) (auto simp: add_update_set)

lemma dependents_set:
  assumes "rfold (\<lambda>dep us. rbind (getTokenAddr dep w) (\<lambda>a. Inr (foldl (\<lambda>us b. add_update clear a b us) us bs))) deps us = Inr us'"
  shows "tok \<in> set (aget [] us' b) \<longleftrightarrow> tok \<in> set (aget [] us b) \<or>
    b \<in> set bs \<and> clear < b \<and> (\<exists>d \<in> set deps. getTokenAddr d w = Inr tok)"
  using assms
proof (induction deps arbitrary: us)
  case (Cons d deps)
  then obtain a where "getTokenAddr d w = Inr a"
    and "rfold (\<lambda>dep us. rbind (getTokenAddr dep w) (\<lambda>a. Inr (foldl (\<lambda>us b. add_update clear a b us) us bs))) deps
      (foldl (\<lambda>us b. add_update clear a b us) us bs) = Inr us'" by (auto elim!: rbind_InrE)
  with Cons.IH show ?case by (auto simp: add_updates_set)
qed simp

definition dep_update :: "int \<Rightarrow> aqf_world \<Rightarrow> int \<Rightarrow> address \<Rightarrow> bool" where
  "dep_update clear w b tok \<longleftrightarrow> clear < b \<and> (\<exists>s bs d deps. (s, bs) \<in> set (ChainlinkSymToUpdatedBlocks w) \<and> b \<in> set bs \<and>
    (d, deps) \<in> set getDepGraph \<and> s \<in> set deps \<and> getTokenAddr d w = Inr tok)"

lemma updates_loop:
  assumes "rfold (\<lambda>(chainlinkSym, blockNs) us.
        rfold (\<lambda>dependentSym us.
            rbind (getTokenAddr dependentSym w) (\<lambda>depAddr. Inr (foldl (\<lambda>us b. add_update clear depAddr b us) us blockNs)))
          (aget [] (getInvertDependencyGraph getDepGraph) chainlinkSym) us) ups us = Inr us'"
  shows "tok \<in> set (aget [] us' b) \<longleftrightarrow> tok \<in> set (aget [] us b) \<or>
    clear < b \<and> (\<exists>s bs d deps. (s, bs) \<in> set ups \<and> b \<in> set bs \<and> (d, deps) \<in> set getDepGraph \<and> s \<in> set deps \<and> getTokenAddr d w = Inr tok)"
  using assms
proof (induction ups arbitrary: us)
  case (Cons p ups)
  obtain s bs where p: "p = (s, bs)" by (cases p)
  with Cons.prems obtain us1 where one: "rfold (\<lambda>dependentSym us.
      rbind (getTokenAddr dependentSym w) (\<lambda>depAddr. Inr (foldl (\<lambda>us b. add_update clear depAddr b us) us bs)))
      (aget [] (getInvertDependencyGraph getDepGraph) s) us = Inr us1" by (auto elim: rbind_InrE)
  have "tok \<in> set (aget [] us' b) \<longleftrightarrow> tok \<in> set (aget [] us1 b) \<or>
    clear < b \<and> (\<exists>s bs d deps. (s, bs) \<in> set ups \<and> b \<in> set bs \<and> (d, deps) \<in> set getDepGraph \<and> s \<in> set deps \<and> getTokenAddr d w = Inr tok)"
    using Cons.IH[of us1] Cons.prems one p by simp
  then show ?case unfolding dependents_set[OF one, of tok b] p Bex_def getInvertDependencyGraph_set
    by (simp only: list.set insert_iff prod.inject) blast
qed simp

lemma getChainlinkBasedQueryUpdates_set:
  assumes "getChainlinkBasedQueryUpdates clear w = Inr (us, w')"
  shows "tok \<in> set (aget [] us b) \<longleftrightarrow> dep_update clear w b tok" and "w' = w\<lparr>ChainlinkSymToUpdatedBlocks := []\<rparr>"
  using assms by (auto simp: getChainlinkBasedQueryUpdates_def dep_update_def dest!: updates_loop[where tok = tok and b = b] elim!: rbind_InrE)

section \<open>What a query leaves alone\<close>

text \<open>The feeds keep their adapters; only the contracts a yearn feed remembers may change.\<close>

definition same_feeds :: "aqf_world \<Rightarrow> aqf_world \<Rightarrow> bool" where
  "same_feeds w w' \<longleftrightarrow> map fst (QueryFeeds w') = map fst (QueryFeeds w) \<and>
    (\<forall>a. map_option qf_adapter (map_of (QueryFeeds w') a) = map_option qf_adapter (map_of (QueryFeeds w) a))"

lemma same_feeds_refl [simp]: "same_feeds w w"
  by (simp add: same_feeds_def)

lemma same_feeds_trans: "same_feeds a b \<Longrightarrow> same_feeds b c \<Longrightarrow> same_feeds a c"
  by (simp add: same_feeds_def)

lemma same_feeds_update:
  assumes "map_of (QueryFeeds w) a = Some f" and "qf_adapter f' = qf_adapter f"
  shows "same_feeds w (w\<lparr>QueryFeeds := AList.update a f' (QueryFeeds w)\<rparr>)"
proof -
  have "a \<in> fst ` set (QueryFeeds w)" using map_of_SomeD[OF assms(1)] by force
  then show ?thesis using assms by (simp add: same_feeds_def update_keys)
qed

lemma calculateYearn_adapter: "calculateYearnPFInternally E b f = Inr (p, f') \<Longrightarrow> qf_adapter f' = qf_adapter f"
  by (auto simp: calculateYearnPFInternally_def elim!: rbind_InrE)


section \<open>Extra prices\<close>

definition oracle_price :: "int \<Rightarrow> token_oracle \<Rightarrow> price_feed \<Rightarrow> bool" where
  "oracle_price b oc p \<longleftrightarrow> pf_BlockNumber p = b \<and> pf_Token p = to_Token oc \<and> pf_Feed p = to_Feed oc"

lemma dep_price_frame:
  assumes "dep_price E b oc w = Inr (p, w')"
  shows "same_feeds w w'" and "w' = w\<lparr>QueryFeeds := QueryFeeds w'\<rparr>"
    and "RoundData E (to_Feed oc) b = RData r a \<Longrightarrow> \<exists>q. p = Some q \<and> pf_PriceBI q = a"
proof -
  show "same_feeds w w'" and "w' = w\<lparr>QueryFeeds := QueryFeeds w'\<rparr>"
    using assms same_feeds_update calculateYearn_adapter
    by (auto simp: dep_price_def elim!: rbind_InrE split: if_splits option.splits)
  show "\<exists>q. p = Some q \<and> pf_PriceBI q = a" if "RoundData E (to_Feed oc) b = RData r a"
    using assms that by (auto simp: dep_price_def parseRoundData_def)
qed

abbreviation dep_step :: "query_env \<Rightarrow> int \<Rightarrow> token_oracle \<Rightarrow> price_feed list \<times> aqf_world \<Rightarrow> (price_feed list \<times> aqf_world) res" where
  "dep_step E b \<equiv> \<lambda>details (newPrices, w).
     rbind (dep_price E b details w) (\<lambda>(p, w').
       Inr (case p of None \<Rightarrow> newPrices
            | Some newPrice \<Rightarrow> newPrices @ [newPrice\<lparr>pf_Token := to_Token details, pf_Feed := to_Feed details, pf_BlockNumber := b\<rparr>], w'))"

lemma dep_step_one:
  assumes "dep_step E b oc (ps, w) = Inr (ps', w')"
  obtains new where "ps' = ps @ new" "same_feeds w w'" "w' = w\<lparr>QueryFeeds := QueryFeeds w'\<rparr>" "\<forall>p \<in> set new. oracle_price b oc p"
    "\<And>r a. RoundData E (to_Feed oc) b = RData r a \<Longrightarrow> \<exists>p \<in> set new. oracle_price b oc p \<and> pf_PriceBI p = a"
proof -
  from assms obtain p where p: "dep_price E b oc w = Inr (p, w')"
    and ps': "ps' = (case p of None \<Rightarrow> ps | Some q \<Rightarrow> ps @ [q\<lparr>pf_Token := to_Token oc, pf_Feed := to_Feed oc, pf_BlockNumber := b\<rparr>])"
    by (auto elim!: rbind_InrE)
  let ?new = "case p of None \<Rightarrow> [] | Some q \<Rightarrow> [q\<lparr>pf_Token := to_Token oc, pf_Feed := to_Feed oc, pf_BlockNumber := b\<rparr>]"
  have "ps' = ps @ ?new" "\<forall>p \<in> set ?new. oracle_price b oc p" using ps' by (auto simp: oracle_price_def split: option.splits)
  moreover have "\<exists>p \<in> set ?new. oracle_price b oc p \<and> pf_PriceBI p = a" if "RoundData E (to_Feed oc) b = RData r a" for r a
    using dep_price_frame(3)[OF p that] by (auto simp: oracle_price_def)
  ultimately show ?thesis using that dep_price_frame(1,2)[OF p] by blast
qed

lemma dep_loop:
  assumes "rfold (dep_step E b) ocs (ps, w) = Inr (ps', w')"
  shows "\<exists>new. ps' = ps @ new \<and> same_feeds w w' \<and> w' = w\<lparr>QueryFeeds := QueryFeeds w'\<rparr> \<and>
    (\<forall>p \<in> set new. \<exists>oc \<in> set ocs. oracle_price b oc p) \<and>
    (\<forall>oc \<in> set ocs. \<forall>r a. RoundData E (to_Feed oc) b = RData r a \<longrightarrow> (\<exists>p \<in> set new. oracle_price b oc p \<and> pf_PriceBI p = a))"
  using assms
proof (induction ocs arbitrary: ps w)
  case (Cons oc ocs)
  obtain ps1 w1 where step: "dep_step E b oc (ps, w) = Inr (ps1, w1)" and rest: "rfold (dep_step E b) ocs (ps1, w1) = Inr (ps', w')"
    using Cons.prems unfolding rfold.simps by (elim rbind_InrE) force
  obtain n1 where n1: "ps1 = ps @ n1" "same_feeds w w1" "w1 = w\<lparr>QueryFeeds := QueryFeeds w1\<rparr>" "\<forall>p \<in> set n1. oracle_price b oc p"
    "\<And>r a. RoundData E (to_Feed oc) b = RData r a \<Longrightarrow> \<exists>p \<in> set n1. oracle_price b oc p \<and> pf_PriceBI p = a"
    using dep_step_one[OF step] by metis
  obtain n2 where n2: "ps' = ps1 @ n2" "same_feeds w1 w'" "w' = w1\<lparr>QueryFeeds := QueryFeeds w'\<rparr>"
    "\<forall>p \<in> set n2. \<exists>oc \<in> set ocs. oracle_price b oc p"
    "\<forall>oc \<in> set ocs. \<forall>r a. RoundData E (to_Feed oc) b = RData r a \<longrightarrow> (\<exists>p \<in> set n2. oracle_price b oc p \<and> pf_PriceBI p = a)"
    using Cons.IH[OF rest] by blast
  have "w' = w\<lparr>QueryFeeds := QueryFeeds w'\<rparr>" using n1(3) n2(3) by (metis aqf_world.update_convs(2) aqf_world.surjective aqf_world.select_convs(2))
  moreover have "same_feeds w w'" using n1(2) n2(2) same_feeds_trans by blast
  ultimately show ?case using n1 n2 by (intro exI[of _ "n1 @ n2"]) (auto, blast+)
qed simp

definition has_price :: "query_env \<Rightarrow> int \<Rightarrow> token_oracle \<Rightarrow> price_feed list \<Rightarrow> bool" where
  "has_price E b oc ps \<longleftrightarrow> (\<forall>r a. RoundData E (to_Feed oc) b = RData r a \<longrightarrow> (\<exists>p \<in> set ps. oracle_price b oc p \<and> pf_PriceBI p = a))"

lemma has_price_mono: "has_price E b oc ps \<Longrightarrow> set ps \<subseteq> set ps' \<Longrightarrow> has_price E b oc ps'"
  unfolding has_price_def by blast

lemma fetchRoundData_one:
  assumes "fetchRoundData E (b, toks) w = Inr w'"
  obtains new where "depBasedExtraPrices w' = depBasedExtraPrices w @ new" "same_feeds w w'"
    "w' = w\<lparr>QueryFeeds := QueryFeeds w', depBasedExtraPrices := depBasedExtraPrices w'\<rparr>"
    "\<forall>p \<in> set new. \<exists>tok \<in> set toks. \<exists>oc. aq_oracles w (2, tok) = Some oc \<and> oracle_price b oc p"
    "\<forall>tok \<in> set toks. \<forall>oc. aq_oracles w (2, tok) = Some oc \<longrightarrow> has_price E b oc new"
proof -
  let ?ocs = "List.map_filter (\<lambda>token. GetOracleForV2Token token w) toks"
  from assms obtain ps w1 where run: "rfold (dep_step E b) ?ocs ([], w) = Inr (ps, w1)"
    and w': "w' = w1\<lparr>depBasedExtraPrices := depBasedExtraPrices w1 @ ps\<rparr>"
    by (auto simp: fetchRoundData_def Let_def elim!: rbind_InrE)
  have ocs: "oc \<in> set ?ocs \<longleftrightarrow> (\<exists>tok \<in> set toks. aq_oracles w (2, tok) = Some oc)" for oc
    by (force simp: List.map_filter_def GetOracleForV2Token_def)
  have frame: "same_feeds w w1" "w1 = w\<lparr>QueryFeeds := QueryFeeds w1\<rparr>"
    and sound: "\<forall>p \<in> set ps. \<exists>oc \<in> set ?ocs. oracle_price b oc p" and complete: "\<forall>oc \<in> set ?ocs. has_price E b oc ps"
    using dep_loop[OF run] by (auto simp: has_price_def)
  have w1: "depBasedExtraPrices w1 = depBasedExtraPrices w" using frame(2) by (metis aqf_world.select_convs(7) aqf_world.surjective aqf_world.update_convs(2))
  have eq: "w' = w\<lparr>QueryFeeds := QueryFeeds w', depBasedExtraPrices := depBasedExtraPrices w'\<rparr>"
    using w' frame(2) by (cases w, cases w1) simp
  have "same_feeds w w'" using frame(1) w' by (simp add: same_feeds_def)
  moreover have "depBasedExtraPrices w' = depBasedExtraPrices w @ ps" using w' w1 by simp
  ultimately show ?thesis using that eq sound complete unfolding Bex_def Ball_def ocs by blast
qed

lemma fetch_loop:
  assumes "rfold (fetchRoundData E) us w = Inr w'"
  shows "\<exists>new. depBasedExtraPrices w' = depBasedExtraPrices w @ new \<and> same_feeds w w' \<and>
    w' = w\<lparr>QueryFeeds := QueryFeeds w', depBasedExtraPrices := depBasedExtraPrices w'\<rparr> \<and>
    (\<forall>p \<in> set new. \<exists>b toks tok oc. (b, toks) \<in> set us \<and> tok \<in> set toks \<and> aq_oracles w (2, tok) = Some oc \<and> oracle_price b oc p) \<and>
    (\<forall>b toks tok oc. (b, toks) \<in> set us \<longrightarrow> tok \<in> set toks \<longrightarrow> aq_oracles w (2, tok) = Some oc \<longrightarrow> has_price E b oc new)"
  using assms
proof (induction us arbitrary: w)
  case (Cons u us)
  obtain b0 t0 where u: "u = (b0, t0)" by (cases u)
  with Cons.prems obtain w1 where step: "fetchRoundData E (b0, t0) w = Inr w1" and rest: "rfold (fetchRoundData E) us w1 = Inr w'"
    by (auto elim: rbind_InrE)
  from fetchRoundData_one[OF step] obtain n1 where n1: "depBasedExtraPrices w1 = depBasedExtraPrices w @ n1" "same_feeds w w1"
    "w1 = w\<lparr>QueryFeeds := QueryFeeds w1, depBasedExtraPrices := depBasedExtraPrices w1\<rparr>"
    "\<forall>p \<in> set n1. \<exists>tok \<in> set t0. \<exists>oc. aq_oracles w (2, tok) = Some oc \<and> oracle_price b0 oc p"
    "\<forall>tok \<in> set t0. \<forall>oc. aq_oracles w (2, tok) = Some oc \<longrightarrow> has_price E b0 oc n1" by metis
  have oc: "aq_oracles w1 = aq_oracles w" using n1(3) by (metis aqf_world.select_convs(11) aqf_world.surjective aqf_world.update_convs(2,7))
  obtain n2 where n2: "depBasedExtraPrices w' = depBasedExtraPrices w1 @ n2" "same_feeds w1 w'"
    "w' = w1\<lparr>QueryFeeds := QueryFeeds w', depBasedExtraPrices := depBasedExtraPrices w'\<rparr>"
    "\<forall>p \<in> set n2. \<exists>b toks tok oc. (b, toks) \<in> set us \<and> tok \<in> set toks \<and> aq_oracles w (2, tok) = Some oc \<and> oracle_price b oc p"
    "\<forall>b toks tok oc. (b, toks) \<in> set us \<longrightarrow> tok \<in> set toks \<longrightarrow> aq_oracles w (2, tok) = Some oc \<longrightarrow> has_price E b oc n2"
    using Cons.IH[OF rest] unfolding oc by blast
  have eq: "w' = w\<lparr>QueryFeeds := QueryFeeds w', depBasedExtraPrices := depBasedExtraPrices w'\<rparr>"
    using n1(3) n2(3) by (cases w, cases w1, cases w') simp
  have sound: "\<forall>p \<in> set (n1 @ n2). \<exists>b toks tok oc. (b, toks) \<in> set (u # us) \<and> tok \<in> set toks \<and> aq_oracles w (2, tok) = Some oc \<and> oracle_price b oc p"
    using n1(4) n2(4) u by (metis Un_iff list.set_intros(1,2) set_append)
  have complete: "has_price E b oc (n1 @ n2)" if "(b, toks) \<in> set (u # us)" "tok \<in> set toks" "aq_oracles w (2, tok) = Some oc" for b toks tok oc
  proof (cases "(b, toks) = u")
    case True
    then have "has_price E b oc n1" using n1(5) that u by auto
    then show ?thesis by (rule has_price_mono) simp
  next
    case False
    then have "has_price E b oc n2" using n2(5) that by auto
    then show ?thesis by (rule has_price_mono) simp
  qed
  show ?case
    by (intro exI[of _ "n1 @ n2"] conjI) (use n1(1) n2(1) eq sound complete same_feeds_trans[OF n1(2) n2(2)] in auto)
qed simp

lemma add_update_keys: "distinct (map fst us) \<Longrightarrow> distinct (map fst (add_update c a b us))"
  by (simp add: add_update_def Let_def distinct_update)

lemma updates_distinct:
  assumes "getChainlinkBasedQueryUpdates clear w = Inr (us, w')"
  shows "distinct (map fst us)"
proof -
  have inner: "distinct (map fst us) \<Longrightarrow> distinct (map fst (foldl (\<lambda>us b. add_update clear a b us) us bs))" for us a bs
    by (rule foldl_invariant) (auto intro: add_update_keys)
  from assms have "rfold (\<lambda>(chainlinkSym, blockNs) us. rfold (\<lambda>dependentSym us.
      rbind (getTokenAddr dependentSym w) (\<lambda>depAddr. Inr (foldl (\<lambda>us b. add_update clear depAddr b us) us blockNs)))
      (aget [] (getInvertDependencyGraph getDepGraph) chainlinkSym) us) (ChainlinkSymToUpdatedBlocks w) [] = Inr us"
    by (auto simp: getChainlinkBasedQueryUpdates_def elim!: rbind_InrE)
  then show ?thesis
  proof (rule rfold_invariant)
    fix x us us'
    assume "distinct (map fst us)" and "(case x of (chainlinkSym, blockNs) \<Rightarrow> \<lambda>us. rfold (\<lambda>dependentSym us.
      rbind (getTokenAddr dependentSym w) (\<lambda>depAddr. Inr (foldl (\<lambda>us b. add_update clear depAddr b us) us blockNs)))
      (aget [] (getInvertDependencyGraph getDepGraph) chainlinkSym) us) us = Inr us'"
    then show "distinct (map fst us')"
      by (cases x) (simp, erule rfold_invariant, auto elim!: rbind_InrE intro: inner)
  qed simp
qed

lemma foldl_delete_set:
  "set (foldl (\<lambda>us b. AList.delete b us) us bs) = {u \<in> set us. fst u \<notin> set bs}"
  by (induction bs arbitrary: us) (auto simp: AList.delete_eq)

text \<open>The extra prices are those of the dependent tokens at the blocks of the updates that were not queried anyway.\<close>

lemma extraPriceForQueryFeed_prices:
  assumes "extraPriceForQueryFeed E clear w = Inr (ps, w')" and "depBasedExtraPrices w = []"
  shows "\<forall>p \<in> set ps. \<exists>b tok oc. dep_update clear w b tok \<and> b \<notin> set (aggregatedFetchedBlocks w) \<and>
      aq_oracles w (2, tok) = Some oc \<and> oracle_price b oc p"
    and "\<forall>b tok oc. dep_update clear w b tok \<longrightarrow> b \<notin> set (aggregatedFetchedBlocks w) \<longrightarrow> aq_oracles w (2, tok) = Some oc \<longrightarrow> has_price E b oc ps"
    and "w' = w\<lparr>QueryFeeds := QueryFeeds w', ChainlinkSymToUpdatedBlocks := []\<rparr>" and "same_feeds w w'"
proof -
  from assms(1) obtain us w1 w2 where us: "getChainlinkBasedQueryUpdates clear w = Inr (us, w1)"
    and loop: "rfold (fetchRoundData E) (foldl (\<lambda>us b. AList.delete b us) us (aggregatedFetchedBlocks w1)) w1 = Inr w2"
    and ps: "ps = depBasedExtraPrices w2" "w' = w2\<lparr>depBasedExtraPrices := []\<rparr>"
    by (auto simp: extraPriceForQueryFeed_def Let_def elim!: rbind_InrE)
  have w1: "w1 = w\<lparr>ChainlinkSymToUpdatedBlocks := []\<rparr>" using getChainlinkBasedQueryUpdates_set(2)[OF us] .
  have aget: "(b, toks) \<in> set us \<Longrightarrow> aget [] us b = toks" for b toks
    using updates_distinct[OF us] by (simp add: aget_def)
  have mem: "(\<exists>toks. (b, toks) \<in> set us \<and> tok \<in> set toks) \<longleftrightarrow> dep_update clear w b tok" for b tok
  proof
    assume "\<exists>toks. (b, toks) \<in> set us \<and> tok \<in> set toks"
    then show "dep_update clear w b tok" using aget getChainlinkBasedQueryUpdates_set(1)[OF us] by metis
  next
    assume "dep_update clear w b tok"
    then have "tok \<in> set (aget [] us b)" using getChainlinkBasedQueryUpdates_set(1)[OF us] by blast
    then show "\<exists>toks. (b, toks) \<in> set us \<and> tok \<in> set toks"
      by (cases "map_of us b") (auto simp: aget_def dest: map_of_SomeD)
  qed
  obtain new where new: "depBasedExtraPrices w2 = depBasedExtraPrices w1 @ new" "same_feeds w1 w2"
    "w2 = w1\<lparr>QueryFeeds := QueryFeeds w2, depBasedExtraPrices := depBasedExtraPrices w2\<rparr>"
    "\<forall>p \<in> set new. \<exists>b toks tok oc. (b, toks) \<in> {u \<in> set us. fst u \<notin> set (aggregatedFetchedBlocks w1)} \<and> tok \<in> set toks \<and>
      aq_oracles w1 (2, tok) = Some oc \<and> oracle_price b oc p"
    "\<forall>b toks tok oc. (b, toks) \<in> {u \<in> set us. fst u \<notin> set (aggregatedFetchedBlocks w1)} \<longrightarrow> tok \<in> set toks \<longrightarrow>
      aq_oracles w1 (2, tok) = Some oc \<longrightarrow> has_price E b oc new"
    using fetch_loop[OF loop] unfolding foldl_delete_set by blast
  have "new = ps" using new(1) ps(1) w1 assms(2) by simp
  have sel: "aggregatedFetchedBlocks w1 = aggregatedFetchedBlocks w" "aq_oracles w1 = aq_oracles w" using w1 by simp_all
  show "\<forall>p \<in> set ps. \<exists>b tok oc. dep_update clear w b tok \<and> b \<notin> set (aggregatedFetchedBlocks w) \<and> aq_oracles w (2, tok) = Some oc \<and> oracle_price b oc p"
    using new(4) unfolding mem[symmetric] sel \<open>new = ps\<close> mem_Collect_eq fst_conv by blast
  show "\<forall>b tok oc. dep_update clear w b tok \<longrightarrow> b \<notin> set (aggregatedFetchedBlocks w) \<longrightarrow> aq_oracles w (2, tok) = Some oc \<longrightarrow> has_price E b oc ps"
    using new(5) unfolding mem[symmetric] sel \<open>new = ps\<close> mem_Collect_eq fst_conv by blast
  show "w' = w\<lparr>QueryFeeds := QueryFeeds w', ChainlinkSymToUpdatedBlocks := []\<rparr>"
    using new(3) w1 ps(2) assms(2) by (cases w, cases w2) simp
  show "same_feeds w w'" using new(2) w1 ps(2) by (simp add: same_feeds_def)
qed

section \<open>Regular prices\<close>

definition feeds_wf :: "aqf_world \<Rightarrow> bool" where
  "feeds_wf w \<longleftrightarrow> distinct (map fst (QueryFeeds w)) \<and> (\<forall>a f. map_of (QueryFeeds w) a = Some f \<longrightarrow> Address (qf_adapter f) = a)"












abbreviation query_step :: "query_env \<Rightarrow> int \<Rightarrow> address \<Rightarrow> price_feed list \<times> aqf_world \<Rightarrow> (price_feed list \<times> aqf_world) res" where
  "query_step E b \<equiv> \<lambda>addr (pfs, w).
    rbind (deref (map_of (QueryFeeds w) addr)) (\<lambda>adapter.
    rbind (processRoundData E b adapter) (\<lambda>(pf, adapter').
      Inr (pfs @ pf, w\<lparr>QueryFeeds := AList.update addr adapter' (QueryFeeds w)\<rparr>)))"




section \<open>A query\<close>





lemma add_prices_run:
  "rfold (aq_AddPriceFeed E) ps w = Inr w' \<Longrightarrow>
    rfold (AddPriceFeed (qe_chain E)) ps (aq_blocks w) = Inr (aq_blocks w') \<and> w' = w\<lparr>aq_blocks := aq_blocks w'\<rparr>"
proof (induction ps arbitrary: w)
  case (Cons p ps)
  from Cons.prems obtain w1 where w1: "aq_AddPriceFeed E p w = Inr w1" and rest: "rfold (aq_AddPriceFeed E) ps w1 = Inr w'"
    by (auto elim: rbind_InrE)
  from w1 obtain r where "AddPriceFeed (qe_chain E) p (aq_blocks w) = Inr r" "w1 = w\<lparr>aq_blocks := r\<rparr>"
    by (auto simp: aq_AddPriceFeed_def elim!: rbind_InrE)
  with Cons.IH[OF rest] show ?case by simp
qed simp

text \<open>Taking a successful query apart.\<close>

lemma aqf_Query_parts:
  assumes "aqf_Query n E till w = Inr w'" and "QueryFeeds w \<noteq> []"
  obtains w1 extra w2 where "query_loop n E (LastSync (aqf_adapter w) + Interval w) till w = Inr w1"
    "extraPriceForQueryFeed E (LastSync (aqf_adapter w) + Interval w) (w1\<lparr>QueryFeeds := sync_feeds till (QueryFeeds w1)\<rparr>) = Inr (extra, w2)"
    "rfold (AddPriceFeed (qe_chain E)) (sort_key pf_BlockNumber (queryFeedPrices w2 @ extra)) (aq_blocks w2) = Inr (aq_blocks w')"
    "w' = w2\<lparr>aq_blocks := aq_blocks w', queryFeedPrices := []\<rparr>"
proof -
  from assms obtain w1 extra w2 w4 where p: "query_loop n E (LastSync (aqf_adapter w) + Interval w) till w = Inr w1"
    "extraPriceForQueryFeed E (LastSync (aqf_adapter w) + Interval w) (w1\<lparr>QueryFeeds := sync_feeds till (QueryFeeds w1)\<rparr>) = Inr (extra, w2)"
    and run: "rfold (aq_AddPriceFeed E) (sort_key pf_BlockNumber (queryFeedPrices w2 @ extra))
        (w2\<lparr>queryFeedPrices := sort_key pf_BlockNumber (queryFeedPrices w2 @ extra)\<rparr>) = Inr w4" "w' = w4\<lparr>queryFeedPrices := []\<rparr>"
    by (auto simp: aqf_Query_def addQueryPrices_def updateQueryPrices_def Let_def elim!: rbind_InrE)
  from add_prices_run[OF run(1)] have r: "rfold (AddPriceFeed (qe_chain E)) (sort_key pf_BlockNumber (queryFeedPrices w2 @ extra)) (aq_blocks w2) = Inr (aq_blocks w4)"
    and w4: "w4 = w2\<lparr>queryFeedPrices := sort_key pf_BlockNumber (queryFeedPrices w2 @ extra), aq_blocks := aq_blocks w4\<rparr>" by simp_all
  have "aq_blocks w' = aq_blocks w4" "w' = w2\<lparr>aq_blocks := aq_blocks w4, queryFeedPrices := []\<rparr>"
    using run(2) w4 by (cases w2, cases w4, simp)+
  with p r show ?thesis using that by simp
qed






text \<open>
  When a range is shorter than the interval, a query asks no feed at all, forgets every chainlink update of the range, and still moves the
  feeds on to the end of the range: the only prices added are those that were waiting.  So a chain of short ranges leaves a
  queried price unchanged however often its chainlink price changes.
\<close>

theorem short_range_asks_nothing:
  assumes "aqf_Query (Suc n) E till w = Inr w'" and "QueryFeeds w \<noteq> []" and "depBasedExtraPrices w = []"
    and "till < LastSync (aqf_adapter w) + Interval w"
    and "\<forall>(s, bs) \<in> set (ChainlinkSymToUpdatedBlocks w). \<forall>b \<in> set bs. b \<le> till"
  shows "rfold (AddPriceFeed (qe_chain E)) (sort_key pf_BlockNumber (queryFeedPrices w)) (aq_blocks w) = Inr (aq_blocks w') \<and>
    ChainlinkSymToUpdatedBlocks w' = [] \<and>
    (\<forall>addr f. map_of (QueryFeeds w) addr = Some f \<longrightarrow> LastSync (qf_adapter f) < till \<longrightarrow> \<not> Disabled (qf_adapter f) \<longrightarrow>
      map_option (\<lambda>f. LastSync (qf_adapter f)) (map_of (QueryFeeds w') addr) = Some till)"
proof -
  let ?start = "LastSync (aqf_adapter w) + Interval w" and ?v = "w\<lparr>QueryFeeds := sync_feeds till (QueryFeeds w)\<rparr>"
  obtain extra w2 where ex: "extraPriceForQueryFeed E ?start ?v = Inr (extra, w2)"
    and run: "rfold (AddPriceFeed (qe_chain E)) (sort_key pf_BlockNumber (queryFeedPrices w2 @ extra)) (aq_blocks w2) = Inr (aq_blocks w')"
    and w': "w' = w2\<lparr>aq_blocks := aq_blocks w', queryFeedPrices := []\<rparr>"
    using aqf_Query_parts[OF assms(1,2)] assms(4) by (metis query_loop.simps(2) not_le sum.inject(2))
  have v: "depBasedExtraPrices ?v = []" using assms(3) by simp
  note extra = extraPriceForQueryFeed_prices[OF ex v]
  have "\<not> dep_update ?start ?v b tok" for b tok
    using assms(4,5) by (fastforce simp: dep_update_def)
  then have "extra = []" using extra(1) by (metis all_not_in_conv set_empty)
  moreover have "queryFeedPrices w2 = queryFeedPrices w" "aq_blocks w2 = aq_blocks w" "ChainlinkSymToUpdatedBlocks w2 = []"
    using extra(3) by (cases w, cases w2, simp)+
  moreover have "ChainlinkSymToUpdatedBlocks w' = ChainlinkSymToUpdatedBlocks w2" "QueryFeeds w' = QueryFeeds w2"
    using w' by (cases w2, cases w', simp)+
  moreover have "map_option (\<lambda>f. LastSync (qf_adapter f)) (map_of (QueryFeeds w2) addr) = Some till"
    if f: "map_of (QueryFeeds w) addr = Some f" "LastSync (qf_adapter f) < till" "\<not> Disabled (qf_adapter f)" for addr f
  proof -
    have "map_of (sync_feeds till fs) addr = map_option (\<lambda>f. if till \<le> LastSync (qf_adapter f) \<or> Disabled (qf_adapter f) then f
        else f\<lparr>qf_adapter := sa_AfterSyncHook till (qf_adapter f)\<rparr>) (map_of fs addr)" for fs
      by (induction fs) (auto simp: sync_feeds_def)
    then have "map_option qf_adapter (map_of (QueryFeeds ?v) addr) = Some (sa_AfterSyncHook till (qf_adapter f))" using f by simp
    then have "map_option qf_adapter (map_of (QueryFeeds w2) addr) = Some (sa_AfterSyncHook till (qf_adapter f))"
      using extra(4) by (simp add: same_feeds_def)
    then show ?thesis by auto
  qed
  ultimately show ?thesis using run by simp
qed

section \<open>Fuel and examples\<close>

lemma queryAsync_Interval:
  assumes "queryAsync E b w = Inr w'"
  shows "Interval w' = Interval w"
proof -
  from assms obtain addrs ps w1 where loop: "rfold (query_step E b) addrs ([], w) = Inr (ps, w1)" and w': "w' = updateQueryPrices ps w1"
    by (auto simp: queryAsync_def QueryData_def elim!: rbind_InrE)
  from loop have "(\<lambda>(ps, v). Interval v = Interval w) (ps, w1)"
    by (rule rfold_invariant) (auto elim!: rbind_InrE)
  then show ?thesis using w' by (simp add: updateQueryPrices_def)
qed

text \<open>With a positive interval more fuel than the length of the range changes nothing.\<close>

lemma query_loop_fuel:
  "0 < Interval w \<Longrightarrow> nat (till - b0) + 2 \<le> n \<Longrightarrow> query_loop (n + k) E b0 till w = query_loop n E b0 till w"
proof (induction n arbitrary: b0 w)
  case (Suc n)
  show ?case
  proof (cases "b0 \<le> till")
    case True
    let ?w0 = "w\<lparr>aggregatedFetchedBlocks := aggregatedFetchedBlocks w @ [b0]\<rparr>"
    have "query_loop (n + k) E (b0 + Interval w) till w1 = query_loop n E (b0 + Interval w) till w1"
      if "queryAsync E b0 ?w0 = Inr w1" for w1
    proof -
      have "Interval w1 = Interval w" using queryAsync_Interval[OF that] by simp
      moreover have "b0 + Interval w > till \<or> nat (till - (b0 + Interval w)) + 2 \<le> n" using Suc.prems by linarith
      ultimately show ?thesis using Suc.IH[of w1 "b0 + Interval w"] Suc.prems by (cases n) auto
    qed
    then have "rbind (queryAsync E b0 ?w0) (query_loop (n + k) E (b0 + Interval w) till) =
        rbind (queryAsync E b0 ?w0) (query_loop n E (b0 + Interval w) till)" by (intro rbind_cong) auto
    with True show ?thesis by simp
  qed simp
qed simp

definition demo_query_env :: query_env where
  "demo_query_env = \<lparr>qe_chain = demo_chain, RoundData = (\<lambda>_ b. RData b (100 * b)), LatestRoundData = (\<lambda>_ b. Some (b, 100 * b)),
     CallFuncWithExtraBytes = (\<lambda>_ _ _. None), qBytesToAddress = (\<lambda>_. NULL_ADDR), qSetBytes = (\<lambda>_. 0), GetExpInt = (\<lambda>_. 1),
     qGetFloat64Decimal = (\<lambda>i _. of_int i), qVersionDecimals = (\<lambda>_. 8), qVersionInUSD = (\<lambda>_. True),
     GetSymToAddr = (\<lambda>_. map (\<lambda>(t, _). (t, if t = ''yvDAI'' then ''0xyv'' else t)) getDepGraph), TokenSymbols = []\<rparr>"

definition demo_oracle :: token_oracle where
  "demo_oracle = \<lparr>to_Token = ''0xyv'', to_Oracle = ''0xpo'', to_Feed = ''0xf'', to_BlockNumber = 10, to_Version = 2, to_FeedType = ''CurvePF''\<rparr>"

definition demo_aqf :: aqf_world where
  "demo_aqf = (AddYearnFeed (NewQueryPriceFeed ''0xyv'' ''0xf'' ''CurvePF'' 10 2)
     (NewAQFWrapper demo_query_env 1 5 [(2, ''0xyv'') \<mapsto> demo_oracle] NewBlocksRepo))
     \<lparr>aggregatedFetchedBlocks := [], ChainlinkSymToUpdatedBlocks := [(''DAI'', [9, 15, 17])]\<rparr>"

lemma demo_aqf_facts:
  "QueryFeeds demo_aqf \<noteq> []" "feeds_wf demo_aqf" "0 < Interval demo_aqf" "depBasedExtraPrices demo_aqf = []"
  "LastSync (aqf_adapter demo_aqf) + Interval demo_aqf = 15" "Interval demo_aqf = 5" "aggregatedFetchedBlocks demo_aqf = []"
  "LastSync (aqf_adapter demo_aqf) = 10" "ChainlinkSymToUpdatedBlocks demo_aqf = [(''DAI'', [9, 15, 17])]"
  by (simp_all add: demo_aqf_def feeds_wf_def AddYearnFeed_def NewAQFWrapper_def tokenSymMapFromchainId_def NewQueryPriceFeed_def
      NewQueryPriceFeedFromAdapter_def max_int64_def)




theorem short_range_asks_nothing_witness:
  "\<exists>w'. aqf_Query 20 demo_query_env 14 (demo_aqf\<lparr>ChainlinkSymToUpdatedBlocks := [(''DAI'', [13])]\<rparr>) = Inr w' \<and> aq_blocks w' = NewBlocksRepo \<and>
    ChainlinkSymToUpdatedBlocks w' = [] \<and> map_option (\<lambda>f. LastSync (qf_adapter f)) (map_of (QueryFeeds w') ''0xf'') = Some 14"
proof -
  let ?w = "demo_aqf\<lparr>ChainlinkSymToUpdatedBlocks := [(''DAI'', [13])]\<rparr>"
  have "\<not> isl (aqf_Query (Suc 19) demo_query_env 14 ?w)" by code_simp
  then obtain w' where run: "aqf_Query (Suc 19) demo_query_env 14 ?w = Inr w'" by (metis isl_def obj_sumE)
  have "map_option (\<lambda>f. (LastSync (qf_adapter f), Disabled (qf_adapter f))) (map_of (QueryFeeds ?w) ''0xf'') = Some (10, False)" by code_simp
  then obtain f where f: "map_of (QueryFeeds ?w) ''0xf'' = Some f" "LastSync (qf_adapter f) < 14" "\<not> Disabled (qf_adapter f)" by auto
  have "queryFeedPrices ?w = []" "aq_blocks ?w = NewBlocksRepo"
    by (simp_all add: demo_aqf_def AddYearnFeed_def NewAQFWrapper_def tokenSymMapFromchainId_def)
  with short_range_asks_nothing[OF run] f demo_aqf_facts show ?thesis using run by auto
qed

end
