(* ===== verification/Rebase_Token.thy ===== *)
theory Rebase_Token
  imports Sync_Engine Repo_Blocks_Correct Trace_Service
begin

text \<open>
  The rebasing token (\<^verbatim>\<open>models/rebase_token\<close>, stETH): pooled ether and shares are followed through the events of the contract,
  checked against the totals that the contract reports, and written at the end of a block when the ratio of ether
  to shares has grown.  Then the search that finds the blocks in which a stored value changed
  (\<^verbatim>\<open>fetch_values_manually.go\<close>) and the list of validators by block.

  The contract, the storage of the node and the methods of the sdk on the state are parameters.
\<close>

section \<open>State\<close>

record rebase_state =
  st_TotalShares :: "int option"
  DepositBalance :: "int option"
  DepositValidators :: int
  CLBalance :: "int option"
  CLValidators :: int
  st_Kernel :: address

record rebase_env =
  rt_chain :: chain_env
  rt_ChainId :: int
  GetTotalShares :: "int \<Rightarrow> int res"
  GetTotalPooledEther :: "int \<Rightarrow> int res"
  StorageAt :: "address \<Rightarrow> string \<Rightarrow> int \<Rightarrow> nat list res"
  Kernel :: "int \<Rightarrow> address option"                          \<comment> \<open>\<open>None\<close> for an error\<close>
  Implementation :: "int \<Rightarrow> address res"
  GetPostTotalEther :: "rebase_state \<Rightarrow> int"
  GetDataForDB :: "rebase_state \<Rightarrow> int \<Rightarrow> rebase_row"
  rt_GetInt64 :: "int \<Rightarrow> int \<Rightarrow> int"
  DiffMoreThanFraction :: "int \<Rightarrow> int \<Rightarrow> rat \<Rightarrow> bool"
  Serialize :: "rebase_state \<Rightarrow> json_obj"
  Unserialize :: "json_obj \<Rightarrow> rebase_state"

record rebase_world =
  rt_adapter :: sync_adapter
  rt_state :: rebase_state
  rt_lastBlockNum :: int
  prevRatio :: int
  rt_blocks :: blocks_repo

definition knownImplmentations :: "address list" where
  "knownImplmentations =
    [''0xC7B5aF82B05Eb3b64F12241B04B2cF14469E39F7'', ''0x47EbaB13B806773ec2A2d16873e2dF770D130b50'',
     ''0x17144556fd3424EDC8Fc8A4C940B2D04936d17eb'']"

definition checkImplementationAddr :: "address \<Rightarrow> unit res" where
  "checkImplementationAddr implementationAddr =
    guard_fatal (implementationAddr \<notin> set knownImplmentations) ''implmentation addr is unknown''"

section \<open>Reading the state from the chain\<close>

text \<open>\<^verbatim>\<open>key[:2]\<close> panics on a shorter key.\<close>

definition GetStorageAt :: "rebase_env \<Rightarrow> int \<Rightarrow> string \<Rightarrow> address \<Rightarrow> int res" where
  "GetStorageAt E blockNum key addr =
    (if length key < 2 then Inl IndexOutOfRange
     else rbind (StorageAt E addr (if take 2 key = ''0x'' then drop 2 key else key) blockNum) (\<lambda>value. Inr (SetBytes value)))"

definition depositedBalanceKey :: string where
  "depositedBalanceKey = ''0xed310af23f61f96daefbcd140b306c0bdbf8c178398299741687b90e794772b0''"

definition depositedValidatorsKey :: string where
  "depositedValidatorsKey = ''0xe6e35175eb53fc006520a2a9c3e9711a7c00de6ff2c32dd31df8c5a24cac1b5c''"

definition clBalanceKey :: string where
  "clBalanceKey = ''0xa66d35f054e68143c18f32c990ed5cb972bb68a68f500cd2dd3a16bbf3686483''"

definition validatorsKey :: string where
  "validatorsKey = ''0x9f70001d82b6ef54e9d3725b46581c3eb9ee3aa02b941b6aa54d678a9ca35b10''"

definition totalSharesKey :: string where
  "totalSharesKey = ''0xe3b4b636e601189b5f4c6742edf2538ac12bb61ed03e6da26949d69838fa447e''"

definition getStateAt :: "rebase_env \<Rightarrow> address \<Rightarrow> int \<Rightarrow> rebase_state res" where
  "getStateAt E addr blockNum =
    rbind (GetTotalShares E blockNum) (\<lambda>totalShares.
    rbind (GetTotalPooledEther E blockNum) (\<lambda>poolEth.
    rbind (GetStorageAt E blockNum depositedBalanceKey addr) (\<lambda>depositBalance.
    rbind (GetStorageAt E blockNum depositedValidatorsKey addr) (\<lambda>depositValidators.
    rbind (GetStorageAt E blockNum clBalanceKey addr) (\<lambda>clBalance.
    rbind (GetStorageAt E blockNum validatorsKey addr) (\<lambda>clValidators.
      let calc = \<lparr>st_TotalShares = Some totalShares, DepositBalance = Some depositBalance, DepositValidators = Int64 depositValidators,
                  CLBalance = Some clBalance, CLValidators = Int64 clValidators, st_Kernel = NULL_ADDR\<rparr>
      in rbind (guard_fatal (GetPostTotalEther E calc \<noteq> poolEth) ''poolTotal Eth calculated is different from call fetched'') (\<lambda>_.
         Inr calc)))))))"

definition operationsAtInit :: "rebase_env \<Rightarrow> address \<Rightarrow> int \<Rightarrow> rebase_state res" where
  "operationsAtInit E addr startFrom =
    rbind (getStateAt E addr startFrom) (\<lambda>st.
      let st1 = (case Kernel E startFrom of None \<Rightarrow> st | Some k \<Rightarrow> st\<lparr>st_Kernel := k\<rparr>) in
      rbind (Implementation E startFrom) (\<lambda>implementationAddr.
      rbind (checkImplementationAddr implementationAddr) (\<lambda>_. Inr st1)))"

definition NewRebaseTokenFromAdapter :: "rebase_env \<Rightarrow> sync_adapter \<Rightarrow> blocks_repo \<Rightarrow> rebase_world res" where
  "NewRebaseTokenFromAdapter E adapter bs =
    rbind (case Details adapter of
             Some d \<Rightarrow> (case map_of d ''kernel'' of
                 None \<Rightarrow> operationsAtInit E (Address adapter) (LastSync adapter)
               | Some JNull \<Rightarrow> operationsAtInit E (Address adapter) (LastSync adapter)
               | Some _ \<Rightarrow> Inr (Unserialize E d))
           | None \<Rightarrow> operationsAtInit E (Address adapter) (LastSync adapter)) (\<lambda>st.
      Inr \<lparr>rt_adapter = adapter, rt_state = st, rt_lastBlockNum = 0, prevRatio = 0, rt_blocks = bs\<rparr>)"

definition NewRebaseToken :: "rebase_env \<Rightarrow> address \<Rightarrow> blocks_repo \<Rightarrow> rebase_world res" where
  "NewRebaseToken E addr bs =
    (let startFrom = (if rt_ChainId E = 1 then 17266004 else if rt_ChainId E = 5 then 7692351 else 0) in
     NewRebaseTokenFromAdapter E
       \<lparr>Address = addr, ContractName = RebaseToken, DiscoveredAt = startFrom, FirstLogAt = 0, LastSync = startFrom, Disabled = False,
        BlockToDisableOn = 0, V = 1, ErrorMsg = '''', Details = Some [], UnderlyingStateToSave = False, DataProcessType = ViaLog,
        WillSyncTill = 0\<rparr> bs)"

definition rt_GetAllAddrsForLogs :: "rebase_world \<Rightarrow> address list" where
  "rt_GetAllAddrsForLogs mdl = [Address (rt_adapter mdl), st_Kernel (rt_state mdl)]"

section \<open>Events\<close>

datatype rebase_event =
    SetApp "nat list" "nat list" address                \<comment> \<open>namespace, app, implementation\<close>
  | DepositedValidatorsChanged int
  | Unbuffered "nat list"                               \<comment> \<open>the bytes of the data\<close>
  | Submitted address int address
  | ETHDistributed int int                              \<comment> \<open>balance of validators and buffered ether afterwards\<close>
  | CLValidatorsUpdated int
  | TokenRebased int int                                \<comment> \<open>ether and shares afterwards\<close>
  | SharesBurnt address int
  | TransferShares address address int
  | OtherRebaseEvent

type_synonym rebase_log = "rebase_event txlog"

definition rebase_step :: "rebase_env \<Rightarrow> rebase_log \<Rightarrow> rebase_state \<Rightarrow> rebase_state res" where
  "rebase_step E txLog st =
    (case payload txLog of
       SetApp namespace appId implementationAddr \<Rightarrow>
         if EncodeToString appId = ''3ca7c3e38968823ccb4c78ea688df41356f182ae1d159e4ee608d30d68cef320'' \<and>
            EncodeToString namespace = ''f1f3eb40f5bc1ad1344716ced8b8a0431d840b5783aea1fd01786bc26f35ac0f''
         then rbind (checkImplementationAddr implementationAddr) (\<lambda>_. Inr st) else Inr st
     | DepositedValidatorsChanged n \<Rightarrow> Inr (st\<lparr>DepositValidators := Int64 n\<rparr>)
     | Unbuffered d \<Rightarrow>
         let old = (case DepositBalance st of None \<Rightarrow> 0 | Some b \<Rightarrow> b) in
         Inr (st\<lparr>DepositBalance := Some (old - SetBytes d)\<rparr>)
     | Submitted _ amount _ \<Rightarrow> rbind (deref (DepositBalance st)) (\<lambda>old. Inr (st\<lparr>DepositBalance := Some (old + amount)\<rparr>))
     | ETHDistributed postCLBalance postBufferedEther \<Rightarrow>
         Inr (st\<lparr>DepositBalance := Some postBufferedEther, CLBalance := Some postCLBalance\<rparr>)
     | CLValidatorsUpdated n \<Rightarrow> Inr (st\<lparr>CLValidators := Int64 n\<rparr>)
     | TokenRebased postTotalEther postTotalShares \<Rightarrow>
         rbind (guard_fatal (GetPostTotalEther E st \<noteq> postTotalEther) ''TotalETH calculated is different'') (\<lambda>_.
         rbind (deref (st_TotalShares st)) (\<lambda>shares.
         rbind (guard_fatal (shares \<noteq> postTotalShares) ''TotalShares calculated is different'') (\<lambda>_. Inr st)))
     | SharesBurnt _ sharesAmount \<Rightarrow> rbind (deref (st_TotalShares st)) (\<lambda>old. Inr (st\<lparr>st_TotalShares := Some (old - sharesAmount)\<rparr>))
     | TransferShares tfrom _ sharesValue \<Rightarrow>
         if tfrom = NULL_ADDR
         then rbind (deref (st_TotalShares st)) (\<lambda>old. Inr (st\<lparr>st_TotalShares := Some (old + sharesValue)\<rparr>))
         else Inr st
     | OtherRebaseEvent \<Rightarrow> Inr st)"

definition getETHToSharesRatio :: "rebase_env \<Rightarrow> rebase_row \<Rightarrow> int res" where
  "getETHToSharesRatio E d = Quo (rt_GetInt64 E (rd_TotalETH d) (-18)) (rd_TotalShares d)"

definition rt_save :: "rebase_env \<Rightarrow> int \<Rightarrow> rebase_world \<Rightarrow> rebase_world res" where
  "rt_save E blockNum mdl =
    (if blockNum = 0 then Inr mdl
     else let dataToSave = GetDataForDB E (rt_state mdl) blockNum in
       rbind (getETHToSharesRatio E dataToSave) (\<lambda>newRatio.
       rbind (guard_fatal (newRatio < prevRatio mdl) ''ratio'') (\<lambda>_.
         if DiffMoreThanFraction E newRatio (prevRatio mdl) (1 / 100000)
         then rbind (AddRebaseDetailsForDB (rt_chain E) dataToSave (rt_blocks mdl)) (\<lambda>bs.
           Inr (mdl\<lparr>rt_blocks := bs, prevRatio := newRatio\<rparr>))
         else Inr mdl)))"

definition rt_OnLog :: "rebase_env \<Rightarrow> rebase_log \<Rightarrow> rebase_world \<Rightarrow> rebase_world res" where
  "rt_OnLog E txLog mdl =
    (let blockNum = BlockNumber txLog in
     rbind (if rt_lastBlockNum mdl \<noteq> blockNum then rt_save E (rt_lastBlockNum mdl) mdl else Inr mdl) (\<lambda>mdl1.
     rbind (rebase_step E txLog (rt_state mdl1)) (\<lambda>st.
       Inr (mdl1\<lparr>rt_lastBlockNum := blockNum, rt_state := st\<rparr>))))"

definition rt_AfterSyncHook :: "rebase_env \<Rightarrow> int \<Rightarrow> rebase_world \<Rightarrow> rebase_world res" where
  "rt_AfterSyncHook E block mdl =
    rbind (rt_save E (rt_lastBlockNum mdl) mdl) (\<lambda>mdl1.
      Inr (mdl1\<lparr>rt_lastBlockNum := 0,
                rt_adapter := sa_AfterSyncHook block ((rt_adapter mdl1)\<lparr>Details := Some (Serialize E (rt_state mdl1))\<rparr>)\<rparr>))"

definition rt_SetUnderlyingState :: "rebase_env \<Rightarrow> rebase_row \<Rightarrow> rebase_world \<Rightarrow> rebase_world res" where
  "rt_SetUnderlyingState E v mdl = rbind (getETHToSharesRatio E v) (\<lambda>q. Inr (mdl\<lparr>prevRatio := q\<rparr>))"

section \<open>Blocks in which a stored value changed\<close>

record block_and_validator =
  bv_Block :: int
  bv_Validator :: int
  bv_TotalShares :: "int option"

definition getValue :: "rebase_env \<Rightarrow> int \<Rightarrow> string \<Rightarrow> int res" where
  "getValue E block key = GetStorageAt E block key ''0xae7ab96520DE3A18E5e111B5EaAb095312D7fE84''"

definition note_change :: "int \<Rightarrow> int \<Rightarrow> string \<Rightarrow> (int \<times> block_and_validator) list \<Rightarrow> (int \<times> block_and_validator) list" where
  "note_change b v key m =
    (let old = aget \<lparr>bv_Block = 0, bv_Validator = 0, bv_TotalShares = None\<rparr> m b in
     AList.update b
       (if key = validatorsKey then old\<lparr>bv_Block := b, bv_Validator := Int64 v\<rparr>
        else if key = totalSharesKey then old\<lparr>bv_Block := b, bv_TotalShares := Some v\<rparr> else old) m)"

text \<open>The search halves the range; with the values of an empty range in disagreement it would not end.\<close>

fun check_changes ::
  "nat \<Rightarrow> rebase_env \<Rightarrow> string \<Rightarrow> int \<Rightarrow> int \<Rightarrow> int \<Rightarrow> int \<Rightarrow> (int \<times> block_and_validator) list \<Rightarrow>
    (int \<times> block_and_validator) list res" where
  "check_changes 0 E key start startV end' endV m = Inl OutOfFuel"
| "check_changes (Suc n) E key start startV end' endV m =
    (if end' - start = 1 \<and> startV \<noteq> endV then Inr (note_change end' endV key m)
     else if startV = endV then Inr m
     else let block = quo (start + end') 2 in
       rbind (getValue E block key) (\<lambda>mid.
         if mid \<noteq> startV \<and> mid \<noteq> endV then
           rbind (check_changes n E key start startV block mid m) (check_changes n E key block mid end' endV)
         else if mid = startV then check_changes n E key block startV end' endV m
         else check_changes n E key start startV block endV m))"

definition FetchRebaseDetails :: "nat \<Rightarrow> rebase_env \<Rightarrow> block_and_validator list res" where
  "FetchRebaseDetails n E =
    (let start = 13810899; end' = 17266004 in
     rbind (rfold (\<lambda>key m.
         rbind (getValue E start key) (\<lambda>startV.
         rbind (getValue E end' key) (\<lambda>endV. check_changes n E key start startV end' endV m))) [totalSharesKey] []) (\<lambda>m.
       Inr (sort_key bv_Block (map snd m))))"

section \<open>Validators by block\<close>

record validator_handler =
  validators :: "block_and_validator list"
  vh_ind :: nat

definition GetValuesBefore :: "int \<Rightarrow> validator_handler \<Rightarrow> (block_and_validator list \<times> validator_handler) res" where
  "GetValuesBefore block h =
    rbind (go_from (vh_ind h) (validators h)) (\<lambda>checkIn.
      let endInd = search_first (\<lambda>v. bv_Block v > block) checkIn in
      Inr (take endInd checkIn, h\<lparr>vh_ind := vh_ind h + endInd\<rparr>))"

end
