(* ===== verification/Rebase_Correct.thy ===== *)
theory Rebase_Correct
  imports Rebase_Token
begin

text \<open>
  Correctness of the rebasing token: the rows are the states at the ends of blocks whose ratio moved enough, stored ratios
  never fall, and the search finds the changes of a stored value.
\<close>

section \<open>Rows\<close>

text \<open>The state after the logs up to a block.\<close>

definition state_at :: "rebase_env \<Rightarrow> rebase_state \<Rightarrow> rebase_log list \<Rightarrow> int \<Rightarrow> rebase_state res" where
  "state_at E st logs b = rfold (rebase_step E) (filter (\<lambda>lg. BlockNumber lg \<le> b) logs) st"

definition rt_ratio :: "rebase_env \<Rightarrow> rebase_row \<Rightarrow> int" where
  "rt_ratio E d = quo (rt_GetInt64 E (rd_TotalETH d) (-18)) (rd_TotalShares d)"

text \<open>The rows kept: those whose ratio differs enough from the last one kept.\<close>

primrec kept :: "rebase_env \<Rightarrow> int \<Rightarrow> rebase_row list \<Rightarrow> rebase_row list" where
  "kept E prev [] = []"
| "kept E prev (d # ds) =
    (if DiffMoreThanFraction E (rt_ratio E d) prev (1 / 100000) then d # kept E (rt_ratio E d) ds else kept E prev ds)"

text \<open>The states at the ends of blocks, as the run meets them: \<open>b\<close> is the block under way, 0 for none.\<close>

fun block_ends :: "rebase_env \<Rightarrow> int \<Rightarrow> rebase_state \<Rightarrow> rebase_log list \<Rightarrow> (int \<times> rebase_state) list" where
  "block_ends E b st [] = (if b = 0 then [] else [(b, st)])"
| "block_ends E b st (lg # logs) =
    (if b \<noteq> 0 \<and> b \<noteq> BlockNumber lg then [(b, st)] else []) @
    (case rebase_step E lg st of Inl _ \<Rightarrow> [] | Inr st' \<Rightarrow> block_ends E (BlockNumber lg) st' logs)"

abbreviation "end_rows E ends \<equiv> map (\<lambda>(b, st). GetDataForDB E st b) ends"

text \<open>What happens to the rows and the ratio when the given rows are offered.\<close>

definition offered :: "rebase_env \<Rightarrow> rebase_row list \<Rightarrow> rebase_world \<Rightarrow> rebase_world \<Rightarrow> bool" where
  "offered E ds w w' \<longleftrightarrow>
    mset (all_rows (rt_blocks w')) = mset (all_rows (rt_blocks w)) + mset (map RebaseRow (kept E (prevRatio w) ds)) \<and>
    prevRatio w' = last (prevRatio w # map (rt_ratio E) (kept E (prevRatio w) ds)) \<and>
    sorted (prevRatio w # map (rt_ratio E) (kept E (prevRatio w) ds))"

lemma offered_Nil: "prevRatio w' = prevRatio w \<Longrightarrow> rt_blocks w' = rt_blocks w \<Longrightarrow> offered E [] w w'"
  by (simp add: offered_def)

lemma kept_append: "kept E p (xs @ ys) = kept E p xs @ kept E (last (p # map (rt_ratio E) (kept E p xs))) ys"
  by (induction xs arbitrary: p) auto

lemma offered_append:
  assumes "offered E xs w w1" and "offered E ys w1 w2"
  shows "offered E (xs @ ys) w w2"
proof -
  let ?k = "map (rt_ratio E) (kept E (prevRatio w) xs)" and ?q = "map (rt_ratio E) (kept E (prevRatio w1) ys)"
  have p: "prevRatio w1 = last (prevRatio w # ?k)" and s1: "sorted (prevRatio w # ?k)" using assms(1) by (auto simp: offered_def)
  have s2: "sorted (prevRatio w1 # ?q)" using assms(2) by (auto simp: offered_def)
  have "x \<le> last (prevRatio w # ?k)" if "x \<in> set (prevRatio w # ?k)" for x
    using sorted_le_last[OF s1 that] .
  moreover have "last (prevRatio w # ?k) \<le> y" if "y \<in> set ?q" for y using s2 that unfolding p[symmetric] by auto
  ultimately have s: "sorted ((prevRatio w # ?k) @ ?q)" using s1 s2 unfolding sorted_append by (meson order_trans sorted_wrt.simps(2))
  have k: "map (rt_ratio E) (kept E (prevRatio w) (xs @ ys)) = ?k @ ?q" using p by (simp add: kept_append)
  have l: "last (prevRatio w # ?k @ ?q) = last (prevRatio w1 # ?q)" using p by (cases "kept E (prevRatio w1) ys = []") simp_all
  show ?thesis using assms s p unfolding offered_def k l by (simp add: kept_append)
qed

lemma rt_save_offered:
  assumes "rt_save E b w = Inr w'"
  shows "offered E (if b = 0 then [] else [GetDataForDB E (rt_state w) b]) w w'" "rt_state w' = rt_state w"
    "rt_lastBlockNum w' = rt_lastBlockNum w" "rt_adapter w' = rt_adapter w"
proof -
  show "offered E (if b = 0 then [] else [GetDataForDB E (rt_state w) b]) w w'"
    using assms by (auto simp: rt_save_def offered_def getETHToSharesRatio_def rt_ratio_def Quo_def AddRebaseDetailsForDB_def Let_def
        dest: add_row_effect(1) split: if_splits elim!: rbind_InrE)
  show "rt_state w' = rt_state w" "rt_lastBlockNum w' = rt_lastBlockNum w" "rt_adapter w' = rt_adapter w"
    using assms by (auto simp: rt_save_def Let_def split: if_splits elim!: rbind_InrE)
qed

lemma rt_OnLog_cases:
  assumes "rt_OnLog E lg w = Inr w'"
  obtains w1 st where "offered E (if rt_lastBlockNum w \<noteq> 0 \<and> rt_lastBlockNum w \<noteq> BlockNumber lg
      then [GetDataForDB E (rt_state w) (rt_lastBlockNum w)] else []) w w1"
    "rebase_step E lg (rt_state w) = Inr st" "w' = w1\<lparr>rt_lastBlockNum := BlockNumber lg, rt_state := st\<rparr>"
proof -
  from assms obtain w1 st where w1: "(if rt_lastBlockNum w \<noteq> BlockNumber lg then rt_save E (rt_lastBlockNum w) w else Inr w) = Inr w1"
    "rebase_step E lg (rt_state w1) = Inr st" "w' = w1\<lparr>rt_lastBlockNum := BlockNumber lg, rt_state := st\<rparr>"
    by (auto simp: rt_OnLog_def Let_def elim!: rbind_InrE)
  have "rt_state w1 = rt_state w" using w1(1) rt_save_offered(2) by (auto split: if_splits)
  moreover have "offered E (if rt_lastBlockNum w \<noteq> 0 \<and> rt_lastBlockNum w \<noteq> BlockNumber lg
      then [GetDataForDB E (rt_state w) (rt_lastBlockNum w)] else []) w w1"
    using w1(1) rt_save_offered(1)[of E "rt_lastBlockNum w" w w1] by (auto split: if_splits intro: offered_Nil)
  ultimately show thesis using that w1 by simp
qed

lemma offered_cong: "prevRatio v = prevRatio w \<Longrightarrow> rt_blocks v = rt_blocks w \<Longrightarrow> offered E ds v u = offered E ds w u"
  by (simp add: offered_def)

lemma offered_cong2: "prevRatio v = prevRatio w \<Longrightarrow> rt_blocks v = rt_blocks w \<Longrightarrow> offered E ds u v = offered E ds u w"
  by (simp add: offered_def)

lemma run_offered:
  assumes "rfold (rt_OnLog E) logs w = Inr w1" and "rt_AfterSyncHook E n w1 = Inr w2"
  shows "offered E (end_rows E (block_ends E (rt_lastBlockNum w) (rt_state w) logs)) w w2 \<and>
    rfold (rebase_step E) logs (rt_state w) = Inr (rt_state w2)"
  using assms(1)
proof (induction logs arbitrary: w)
  case Nil
  from assms(2) obtain v where v: "rt_save E (rt_lastBlockNum w1) w1 = Inr v"
    "w2 = v\<lparr>rt_lastBlockNum := 0, rt_adapter := sa_AfterSyncHook n ((rt_adapter v)\<lparr>Details := Some (Serialize E (rt_state v))\<rparr>)\<rparr>"
    by (auto simp: rt_AfterSyncHook_def elim!: rbind_InrE)
  have "offered E ds w1 w2 = offered E ds w1 v" for ds by (rule offered_cong2) (simp_all add: v(2))
  moreover have "rt_state w2 = rt_state w1" using rt_save_offered(2)[OF v(1)] by (simp add: v(2))
  ultimately show ?case using Nil rt_save_offered(1)[OF v(1)] by (auto split: if_splits)
next
  case (Cons lg logs)
  from Cons.prems obtain v where v: "rt_OnLog E lg w = Inr v" "rfold (rt_OnLog E) logs v = Inr w1" by (auto elim: rbind_InrE)
  from v(1) obtain u st where u: "offered E (if rt_lastBlockNum w \<noteq> 0 \<and> rt_lastBlockNum w \<noteq> BlockNumber lg
      then [GetDataForDB E (rt_state w) (rt_lastBlockNum w)] else []) w u"
    "rebase_step E lg (rt_state w) = Inr st" "v = u\<lparr>rt_lastBlockNum := BlockNumber lg, rt_state := st\<rparr>"
    by (rule rt_OnLog_cases)
  have "offered E ds v w2 = offered E ds u w2" for ds by (rule offered_cong) (simp_all add: u(3))
  then have "offered E (end_rows E (block_ends E (BlockNumber lg) st logs)) u w2" using Cons.IH[OF v(2)] by (simp add: u(3))
  from offered_append[OF u(1) this] show ?case using Cons.IH[OF v(2)] u(2) by (cases "rt_lastBlockNum w = 0"; cases "rt_lastBlockNum w = BlockNumber lg") (simp_all add: u(3))
qed

text \<open>The ends met are the states after the logs up to every block.\<close>

lemma block_ends_states:
  assumes "sorted (map BlockNumber (pre @ logs))" and "\<forall>lg \<in> set (pre @ logs). BlockNumber lg > 0"
    and "rfold (rebase_step E) pre st0 = Inr st" and "rfold (rebase_step E) logs st = Inr st'"
    and "b = (if pre = [] then 0 else BlockNumber (last pre))"
  shows "map fst (block_ends E b st logs) = remdups_adj ((if pre = [] then [] else [b]) @ map BlockNumber logs) \<and>
    (\<forall>(b', s) \<in> set (block_ends E b st logs). state_at E st0 (pre @ logs) b' = Inr s)"
  using assms
proof (induction logs arbitrary: pre st b)
  case Nil
  then have "filter (\<lambda>lg. BlockNumber lg \<le> BlockNumber (last pre)) pre = pre" if "pre \<noteq> []"
    using that by (auto intro!: filter_True sorted_le_last[of "map BlockNumber pre", unfolded last_map[OF that]])
  moreover have "b \<noteq> 0" if "pre \<noteq> []" using Nil(2,5) that last_in_set[OF that] by (metis append_Nil2 less_irrefl)
  ultimately show ?case using Nil by (auto simp: state_at_def)
next
  case (Cons lg logs)
  from Cons.prems(4) obtain s1 where s1: "rebase_step E lg st = Inr s1" "rfold (rebase_step E) logs s1 = Inr st'"
    by (auto elim: rbind_InrE)
  have pre1: "rfold (rebase_step E) (pre @ [lg]) st0 = Inr s1" using Cons.prems(3) s1(1) by (simp add: rfold_append)
  have IH: "map fst (block_ends E (BlockNumber lg) s1 logs) = remdups_adj (BlockNumber lg # map BlockNumber logs)"
    "\<forall>(b', s) \<in> set (block_ends E (BlockNumber lg) s1 logs). state_at E st0 (pre @ lg # logs) b' = Inr s"
    using Cons.IH[OF _ _ pre1 s1(2) refl] Cons.prems(1,2)
    unfolding append_assoc append_Cons append_Nil snoc_eq_iff_butlast by auto
  show ?case
  proof (cases "pre = []")
    case True
    then show ?thesis using IH s1(1) Cons.prems(5) by simp
  next
    case False
    then have b: "b = BlockNumber (last pre)" "b > 0" using Cons.prems(2,5) last_in_set[OF False] by auto
    have le: "b \<le> BlockNumber lg" "\<forall>l \<in> set pre. BlockNumber l \<le> b" "\<forall>l \<in> set logs. BlockNumber lg \<le> BlockNumber l"
      using Cons.prems(1) False sorted_le_last[of "map BlockNumber pre", unfolded last_map[OF False]]
      by (auto simp: b(1) sorted_append)
    show ?thesis
    proof (cases "b = BlockNumber lg")
      case True
      then show ?thesis using IH s1(1) False by simp
    next
      case neq: False
      have "filter (\<lambda>l. BlockNumber l \<le> b) (pre @ lg # logs) = pre"
        using le neq by (fastforce simp: filter_empty_conv intro: filter_True)
      then have "state_at E st0 (pre @ lg # logs) b = Inr st" using Cons.prems(3) by (simp add: state_at_def)
      then show ?thesis using IH s1(1) False neq b(2) by simp
    qed
  qed
qed

text \<open>
  C27: A run over the logs of a range, in the order of blocks, and the hook at its end offer the state at the end of every
  block that has logs, in order: a row is written exactly where the ratio of ether to shares differs from that of the last row by more
  than the fraction, nothing else is written, and the ratios of the rows never fall.  The hook
  leaves the full state in the details, and no block under way.
\<close>

theorem rebase_rows:
  assumes "rfold (rt_OnLog E) logs w = Inr w1" and "rt_AfterSyncHook E n w1 = Inr w2" and "rt_lastBlockNum w = 0"
    and "sorted (map BlockNumber logs)" and "\<forall>lg \<in> set logs. BlockNumber lg > 0"
  shows "\<exists>sts. let bs = remdups_adj (map BlockNumber logs); new = kept E (prevRatio w) (map2 (GetDataForDB E) sts bs) in
    list_all2 (\<lambda>b st. state_at E (rt_state w) logs b = Inr st) bs sts \<and>
    mset (all_rows (rt_blocks w2)) = mset (all_rows (rt_blocks w)) + mset (map RebaseRow new) \<and>
    sorted (prevRatio w # map (rt_ratio E) new) \<and> prevRatio w2 = last (prevRatio w # map (rt_ratio E) new) \<and>
    rfold (rebase_step E) logs (rt_state w) = Inr (rt_state w2) \<and>
    Details (rt_adapter w2) = Some (Serialize E (rt_state w2)) \<and> rt_lastBlockNum w2 = 0"
proof -
  let ?e = "block_ends E 0 (rt_state w) logs" and ?bs = "remdups_adj (map BlockNumber logs)"
  have run: "offered E (end_rows E ?e) w w2" "rfold (rebase_step E) logs (rt_state w) = Inr (rt_state w2)"
    using run_offered[OF assms(1,2)] assms(3) by auto
  have ends: "map fst ?e = ?bs" "\<forall>(b, st) \<in> set ?e. state_at E (rt_state w) logs b = Inr st"
    using block_ends_states[of "[]" logs E "rt_state w" "rt_state w" "rt_state w2" 0] assms(4,5) run(2) by simp_all
  have "list_all2 (\<lambda>b st. state_at E (rt_state w) logs b = Inr st) (map fst ?e) (map snd ?e)"
    using ends(2) by (auto simp: list_all2_conv_all_nth split: prod.splits) (metis nth_mem prod.collapse)
  moreover have "end_rows E ?e = map2 (GetDataForDB E) (map snd ?e) (map fst ?e)"
    by (induction ?e) (auto simp: zip_map1 zip_map2 zip_same_conv_map intro!: nth_equalityI split: prod.splits)
  moreover have "Details (rt_adapter w2) = Some (Serialize E (rt_state w2))" "rt_lastBlockNum w2 = 0"
    using assms(2) by (auto simp: rt_AfterSyncHook_def elim!: rbind_InrE)
  ultimately show ?thesis using run ends(1) unfolding offered_def by (intro exI[of _ "map snd ?e"]) (simp add: Let_def)
qed

section \<open>The search\<close>

lemma quo_half: "0 \<le> a \<Longrightarrow> a + 1 < b \<Longrightarrow> a < quo (a + b) 2 \<and> quo (a + b) 2 < b"
  by (simp) linarith

definition changed :: "(int \<Rightarrow> int) \<Rightarrow> int \<Rightarrow> int \<Rightarrow> int set" where
  "changed v a b = {c. a < c \<and> c \<le> b \<and> v c \<noteq> v (c - 1)}"

lemma changed_split: "a \<le> c \<Longrightarrow> c \<le> b \<Longrightarrow> changed v a b = changed v a c \<union> changed v c b"
  by (auto simp: changed_def)

lemma changed_flat:
  assumes "\<And>c d. a \<le> c \<Longrightarrow> c \<le> d \<Longrightarrow> d \<le> b \<Longrightarrow> v c \<le> v d" and "v a = v b"
  shows "changed v a b = {}"
proof -
  have flat: "v c = v a" if "a \<le> c" "c \<le> b" for c using assms(1)[of a c] assms(1)[of c b] that assms(2) by linarith
  have "v c = v (c - 1)" if "a < c" "c \<le> b" for c
    using flat[of c] flat[of "c - 1"] that by linarith
  then show ?thesis by (auto simp: changed_def)
qed

definition noted :: "(int \<Rightarrow> int) \<Rightarrow> string \<Rightarrow> int list \<Rightarrow> (int \<times> block_and_validator) list \<Rightarrow> (int \<times> block_and_validator) list" where
  "noted v key bs m = foldl (\<lambda>m b. note_change b (v b) key m) m bs"

lemma noted_append: "noted v key ys (noted v key xs m) = noted v key (xs @ ys) m"
  by (simp add: noted_def)

text \<open>The blocks found: in order, all of them changes, at least one if the ends differ, and all changes if the value never falls.\<close>

definition finds :: "(int \<Rightarrow> int) \<Rightarrow> int \<Rightarrow> int \<Rightarrow> int list \<Rightarrow> bool" where
  "finds v a b bs \<longleftrightarrow> sorted_wrt (<) bs \<and> set bs \<subseteq> changed v a b \<and> (v a \<noteq> v b \<longrightarrow> bs \<noteq> []) \<and>
    ((\<forall>c d. a \<le> c \<and> c \<le> d \<and> d \<le> b \<longrightarrow> v c \<le> v d) \<longrightarrow> set bs = changed v a b)"

lemma finds_append:
  assumes "finds v a c xs" and "finds v c b ys" and "a \<le> c" and "c \<le> b"
  shows "finds v a b (xs @ ys)"
proof -
  have "x < y" if "x \<in> set xs" "y \<in> set ys" for x y using assms(1,2) that unfolding finds_def changed_def by fastforce
  then have "sorted_wrt (<) (xs @ ys)" using assms(1,2) by (simp add: finds_def sorted_wrt_append)
  moreover have "set (xs @ ys) \<subseteq> changed v a b" using assms(1,2) changed_split[OF assms(3,4), of v] by (auto simp: finds_def)
  moreover have "xs @ ys \<noteq> []" if "v a \<noteq> v b" using assms(1,2) that by (auto simp: finds_def)
  moreover have "set (xs @ ys) = changed v a b" if m: "\<forall>c d. a \<le> c \<and> c \<le> d \<and> d \<le> b \<longrightarrow> v c \<le> v d"
  proof -
    have "set xs = changed v a c" "set ys = changed v c b" using assms m unfolding finds_def by (meson order_trans)+
    then show ?thesis using changed_split[OF assms(3,4), of v] by simp
  qed
  ultimately show ?thesis by (simp add: finds_def)
qed

lemma finds_Nil: "v a = v b \<Longrightarrow> finds v a b []"
  using changed_flat[of a b v] by (auto simp: finds_def)

lemma check_changes_finds:
  assumes "\<And>c. a \<le> c \<Longrightarrow> c \<le> b \<Longrightarrow> getValue E c key = Inr (v c)" and "0 \<le> a" and "a < b" and "nat (b - a) \<le> n"
  shows "\<exists>bs. check_changes n E key a (v a) b (v b) m = Inr (noted v key bs m) \<and> finds v a b bs"
  using assms
proof (induction n arbitrary: a b m)
  case (Suc n)
  consider "b - a = 1" "v a \<noteq> v b" | "v a = v b" | "b - a \<noteq> 1" "v a \<noteq> v b" by blast
  then show ?case
  proof cases
    case 1
    then have a: "a = b - 1" by simp
    then have "changed v a b = {b}" using 1(2) by (auto simp: changed_def)
    then have "finds v a b [b]" by (simp add: finds_def)
    then show ?thesis using 1 by (intro exI[of _ "[b]"]) (simp add: noted_def)
  next
    case 2
    then show ?thesis using finds_Nil[of v a b] by (intro exI[of _ "[]"]) (simp add: noted_def)
  next
    case 3
    let ?c = "quo (a + b) 2"
    have c: "a < ?c" "?c < b" using quo_half[of a b] Suc.prems 3 by auto
    have left: "\<exists>bs. check_changes n E key a (v a) ?c (v ?c) m' = Inr (noted v key bs m') \<and> finds v a ?c bs" for m'
      using Suc.prems c by (intro Suc.IH) auto
    have right: "\<exists>bs. check_changes n E key ?c (v ?c) b (v b) m' = Inr (noted v key bs m') \<and> finds v ?c b bs" for m'
      using Suc.prems c by (intro Suc.IH) auto
    have mid: "getValue E ?c key = Inr (v ?c)" using Suc.prems c by simp
    obtain xs where xs: "check_changes n E key a (v a) ?c (v ?c) m = Inr (noted v key xs m)" "finds v a ?c xs" using left by blast
    obtain ys where ys: "check_changes n E key ?c (v ?c) b (v b) (noted v key xs m) = Inr (noted v key ys (noted v key xs m))" "finds v ?c b ys"
      using right by blast
    obtain zs where zs: "check_changes n E key ?c (v ?c) b (v b) m = Inr (noted v key zs m)" "finds v ?c b zs" using right by blast
    consider "v ?c \<noteq> v a" "v ?c \<noteq> v b" | "v ?c = v a" | "v ?c = v b" by blast
    then show ?thesis
    proof cases
      case 1
      then have "check_changes (Suc n) E key a (v a) b (v b) m = Inr (noted v key (xs @ ys) m)"
        using 3 mid xs(1) ys(1) by (simp add: Let_def noted_append)
      then show ?thesis using finds_append[OF xs(2) ys(2)] c by auto
    next
      case eq: 2
      then have "check_changes (Suc n) E key a (v a) b (v b) m = Inr (noted v key zs m)"
        using 3 mid zs(1) by (simp add: Let_def)
      then show ?thesis using finds_append[OF finds_Nil zs(2), of a] eq c by auto
    next
      case eq: 3
      then have "check_changes (Suc n) E key a (v a) b (v b) m = Inr (noted v key xs m)"
        using 3 mid xs(1) by (simp add: Let_def)
      then show ?thesis using finds_append[OF xs(2) finds_Nil, of b] eq c by auto
    qed
  qed
qed simp

definition share_entry :: "(int \<Rightarrow> int) \<Rightarrow> int \<Rightarrow> block_and_validator" where
  "share_entry v b = \<lparr>bv_Block = b, bv_Validator = 0, bv_TotalShares = Some (v b)\<rparr>"

lemma noted_shares: "distinct bs \<Longrightarrow> noted v totalSharesKey bs [] = map (\<lambda>b. (b, share_entry v b)) bs"
proof (induction bs rule: rev_induct)
  case (snoc b bs)
  have "map_of (map (\<lambda>b. (b, share_entry v b)) bs) b = None" using snoc.prems by (auto simp: map_of_eq_None_iff)
  moreover have "AList.update b e al = al @ [(b, e)]" if "map_of al b = None" for e :: block_and_validator and al
    using that by (induction al) (auto split: if_splits)
  moreover have "totalSharesKey \<noteq> validatorsKey" by (simp add: totalSharesKey_def validatorsKey_def)
  ultimately show ?case using snoc by (simp add: noted_def note_change_def aget_def share_entry_def Let_def)
qed (simp add: noted_def)

lemma changed_list:
  assumes "sorted_wrt (<) bs" and "set bs = changed v a b"
  shows "bs = filter (\<lambda>c. v c \<noteq> v (c - 1)) [a + 1..b]"
proof (rule sorted_distinct_set_unique)
  show "sorted bs" "distinct bs" using assms(1) by (simp_all add: strict_sorted_iff)
  show "sorted (filter (\<lambda>c. v c \<noteq> v (c - 1)) [a + 1..b])" by (rule sorted_wrt_filter) simp
  show "set bs = set (filter (\<lambda>c. v c \<noteq> v (c - 1)) [a + 1..b])"
    unfolding assms(2) changed_def set_filter set_upto by (rule Collect_cong) (simp add: zless_iff_Suc_zadd int_one_le_iff_zero_less add1_zle_eq conj_ac)
qed simp

text \<open>
  C39: The search for the blocks in which the total of shares changed ends and finds every one of them, in
  order and with the value from that block on, as long as the total never falls between its ends.
\<close>

theorem FetchRebaseDetails_finds_all:
  assumes "\<And>b. 13810899 \<le> b \<Longrightarrow> b \<le> 17266004 \<Longrightarrow> getValue E b totalSharesKey = Inr (v b)"
    and "\<And>b c. 13810899 \<le> b \<Longrightarrow> b \<le> c \<Longrightarrow> c \<le> 17266004 \<Longrightarrow> v b \<le> v c"
    and "3455105 \<le> n"
  shows "FetchRebaseDetails n E = Inr (map (share_entry v) (filter (\<lambda>b. v b \<noteq> v (b - 1)) [13810899 + 1..17266004]))"
proof -
  let ?a = "13810899 :: int" and ?b = "17266004 :: int"
  obtain bs where bs: "check_changes n E totalSharesKey ?a (v ?a) ?b (v ?b) [] = Inr (noted v totalSharesKey bs [])" "finds v ?a ?b bs"
    using check_changes_finds[of ?a ?b E totalSharesKey v n "[]"] assms(1,3) by auto
  have sorted: "sorted_wrt (<) bs" and set: "set bs = changed v ?a ?b" using bs(2) assms(2) by (auto simp: finds_def)
  note list = changed_list[OF sorted set]
  have snd: "map snd (noted v totalSharesKey bs []) = map (share_entry v) bs"
    using noted_shares[of bs v] sorted by (simp add: strict_sorted_iff)
  have sort: "sort_key bv_Block (map (share_entry v) bs) = map (share_entry v) bs"
    using sorted by (intro sort_key_id_if_sorted) (simp add: o_def share_entry_def strict_sorted_iff)
  have "FetchRebaseDetails n E = Inr (map (share_entry v) bs)"
    using bs(1) assms(1) by (simp add: FetchRebaseDetails_def Let_def snd sort)
  then show ?thesis unfolding list .
qed

section \<open>Validators\<close>

text \<open>Asking for growing blocks hands out every entry once, in order, no later than its block is asked for.\<close>

lemma GetValuesBefore_splits:
  assumes "GetValuesBefore b h = Inr (vs, h')" and "sorted (map bv_Block (validators h))"
  shows "vs @ drop (vh_ind h') (validators h') = drop (vh_ind h) (validators h)" "vh_ind h' \<le> length (validators h')"
    "vs = filter (\<lambda>v. bv_Block v \<le> b) (drop (vh_ind h) (validators h))"
proof -
  have h: "vs = takeWhile (\<lambda>v. bv_Block v \<le> b) (drop (vh_ind h) (validators h))"
    "h' = h\<lparr>vh_ind := vh_ind h + length vs\<rparr>" "vh_ind h \<le> length (validators h)"
    using assms(1) by (auto simp: GetValuesBefore_def go_from_def search_first_def Let_def not_less takeWhile_eq_take[symmetric] split: if_splits)
  have d: "drop (length vs) (drop (vh_ind h) (validators h)) = dropWhile (\<lambda>v. bv_Block v \<le> b) (drop (vh_ind h) (validators h))"
    by (simp add: h(1) dropWhile_eq_drop)
  show "vs @ drop (vh_ind h') (validators h') = drop (vh_ind h) (validators h)"
    using d h(1,2) by (simp add: add.commute)
  show "vh_ind h' \<le> length (validators h')" using h length_takeWhile_le[of _ "drop (vh_ind h) (validators h)"] by (simp add: le_diff_conv2 add.commute)
  have "sorted (map bv_Block (drop (vh_ind h) (validators h)))" using assms(2) by (simp add: drop_map[symmetric] sorted_wrt_drop)
  then show "vs = filter (\<lambda>v. bv_Block v \<le> b) (drop (vh_ind h) (validators h))"
    using takeWhile_eq_filter_sorted[of bv_Block _ "b + 1"] h(1) by simp
qed

section \<open>A concrete token\<close>

definition demo_rebase :: rebase_env where
  "demo_rebase = \<lparr>rt_chain = demo_chain, rt_ChainId = 1, GetTotalShares = (\<lambda>_. Inr 10), GetTotalPooledEther = (\<lambda>_. Inr 100),
     StorageAt = (\<lambda>_ _ b. Inr [if b < 14000000 then 3 else 5]), Kernel = (\<lambda>_. None), Implementation = (\<lambda>_. Inr (hd knownImplmentations)),
     GetPostTotalEther = (\<lambda>st. (case DepositBalance st of None \<Rightarrow> 0 | Some x \<Rightarrow> x)),
     GetDataForDB = (\<lambda>st b. \<lparr>rd_BlockNum = b, rd_TotalETH = (case DepositBalance st of None \<Rightarrow> 0 | Some x \<Rightarrow> x), rd_TotalShares = (case st_TotalShares st of None \<Rightarrow> 0 | Some x \<Rightarrow> x)\<rparr>),
     rt_GetInt64 = (\<lambda>x _. x * 1000), DiffMoreThanFraction = (\<lambda>a b f. of_int \<bar>a - b\<bar> > f * of_int \<bar>b\<bar>),
     Serialize = (\<lambda>_. []), Unserialize = (\<lambda>_. \<lparr>st_TotalShares = None, DepositBalance = None, DepositValidators = 0, CLBalance = None,
       CLValidators = 0, st_Kernel = NULL_ADDR\<rparr>)\<rparr>"

definition demo_rebase_world :: rebase_world where
  "demo_rebase_world =
    \<lparr>rt_adapter = \<lparr>Address = ''steth'', ContractName = RebaseToken, DiscoveredAt = 1, FirstLogAt = 0, LastSync = 1, Disabled = False,
        BlockToDisableOn = 0, V = 1, ErrorMsg = '''', Details = None, UnderlyingStateToSave = False, DataProcessType = 0, WillSyncTill = 0\<rparr>,
     rt_state = \<lparr>st_TotalShares = Some 10, DepositBalance = Some 100, DepositValidators = 0, CLBalance = None, CLValidators = 0, st_Kernel = NULL_ADDR\<rparr>,
     rt_lastBlockNum = 0, prevRatio = 10000, rt_blocks = NewBlocksRepo\<rparr>"

definition demo_rebase_logs :: "rebase_log list" where
  "demo_rebase_logs = map (\<lambda>(b, ev). \<lparr>BlockNumber = b, Index = 0, TxIndex = 0, TxHash = '''', logAddress = ''steth'', topic0 = '''', payload = ev\<rparr>)
     [(5, Submitted ''ann'' 100 ''''), (5, TransferShares NULL_ADDR ''ann'' 10), (7, SharesBurnt ''ann'' 4)]"

lemma demo_rebase_run:
  "case rfold (rt_OnLog demo_rebase) demo_rebase_logs demo_rebase_world of Inl _ \<Rightarrow> False
   | Inr w1 \<Rightarrow> (case rt_AfterSyncHook demo_rebase 9 w1 of Inl _ \<Rightarrow> False | Inr w2 \<Rightarrow> prevRatio w2 = 12500)"
  by code_simp

theorem rebase_rows_witness:
  "\<exists>w1 w2 new. rfold (rt_OnLog demo_rebase) demo_rebase_logs demo_rebase_world = Inr w1 \<and> rt_AfterSyncHook demo_rebase 9 w1 = Inr w2 \<and>
    mset (all_rows (rt_blocks w2)) = mset (map RebaseRow new) \<and> sorted (map (rt_ratio demo_rebase) new) \<and>
    last (10000 # map (rt_ratio demo_rebase) new) = 12500"
proof -
  obtain w1 w2 where w: "rfold (rt_OnLog demo_rebase) demo_rebase_logs demo_rebase_world = Inr w1" "rt_AfterSyncHook demo_rebase 9 w1 = Inr w2"
    "prevRatio w2 = 12500"
    using demo_rebase_run by (auto split: sum.splits)
  have start: "rt_lastBlockNum demo_rebase_world = 0" "prevRatio demo_rebase_world = 10000" "all_rows (rt_blocks demo_rebase_world) = []"
    by (simp_all add: demo_rebase_world_def all_rows_def NewBlocksRepo_def)
  have logs: "sorted (map BlockNumber demo_rebase_logs)" "\<forall>lg \<in> set demo_rebase_logs. BlockNumber lg > 0"
    by (simp_all add: demo_rebase_logs_def)
  show ?thesis using rebase_rows[OF w(1,2) start(1) logs] w(1,2) unfolding start(2,3) w(3) Let_def
    by (metis (no_types, lifting) add_0 mset.simps(1) sorted_simps(2))
qed

definition demo_shares :: "int \<Rightarrow> int" where
  "demo_shares b = (if b < 14000000 then 3 else 5)"

theorem FetchRebaseDetails_finds_all_witness:
  "FetchRebaseDetails 3455105 demo_rebase = Inr [share_entry demo_shares 14000000]"
proof -
  have v: "getValue demo_rebase b totalSharesKey = Inr (demo_shares b)" for b
    by (simp add: getValue_def GetStorageAt_def totalSharesKey_def demo_rebase_def demo_shares_def SetBytes_def)
  have l: "[14000000] = filter (\<lambda>b. demo_shares b \<noteq> demo_shares (b - 1)) [13810899 + 1..17266004]"
    by (rule changed_list) (auto simp: changed_def demo_shares_def split: if_splits)
  have m: "demo_shares b \<le> demo_shares c" if "b \<le> c" for b c using that by (simp add: demo_shares_def)
  have "FetchRebaseDetails 3455105 demo_rebase = Inr (map (share_entry demo_shares) [14000000])"
    unfolding l by (rule FetchRebaseDetails_finds_all) (simp_all only: v m order_refl)
  then show ?thesis by (simp only: list.simps)
qed

end
