(* ===== verification/CM_Wrapper.thy ===== *)
theory CM_Wrapper
  imports Sync_Wrapper
begin

text \<open>
  The wrapper of the credit managers (\<^verbatim>\<open>models/wrappers/cm_wrapper\<close>).  A credit manager listens to its facade and configurator too,
  and both may change while its logs are processed.  After every log the wrapper asks the manager whether its addresses
  changed; if so, it fetches the rest of the range again for the new addresses and goes on behind the log.

  The methods of the wrapped managers, the node and the multicall are the record \<open>cm_methods\<close>; an object is named by its address.
\<close>

record ('w, 'e, 'c, 'd) cm_methods =
  m_LastSync :: "address \<Rightarrow> 'w \<Rightarrow> int"
  m_IsDisabled :: "address \<Rightarrow> 'w \<Rightarrow> bool"
  m_AllAddrs :: "address \<Rightarrow> 'w \<Rightarrow> address list res"                  \<comment> \<open>\<^verbatim>\<open>GetAllAddrsForLogs\<close>\<close>
  m_OnLog :: "address \<Rightarrow> 'e txlog \<Rightarrow> 'w \<Rightarrow> 'w res"
  m_IsAddrChanged :: "address \<Rightarrow> 'w \<Rightarrow> bool \<times> 'w"
  m_OnBlockChange :: "address \<Rightarrow> int \<Rightarrow> 'w \<Rightarrow> ('c list \<times> 'w) res"      \<comment> \<open>calls, each with what processes its result\<close>
  m_processFn :: "'c \<Rightarrow> 'd \<Rightarrow> 'w \<Rightarrow> 'w res"
  m_UpdateSession :: "address \<Rightarrow> int \<Rightarrow> 'w \<Rightarrow> 'w res"               \<comment> \<open>\<^verbatim>\<open>UpdateSessionWithDirectTokenTransferBefore\<close>\<close>
  m_MakeMultiCall :: "int \<Rightarrow> 'c list \<Rightarrow> 'd list"
  m_GetLogs :: "int \<Rightarrow> int \<Rightarrow> address list \<Rightarrow> 'e txlog list res"

type_synonym 'w cmw = "address ordered_map \<times> 'w"

definition cmw_GetAllAddrsForLogs :: "('w, 'e, 'c, 'd) cm_methods \<Rightarrow> 'w cmw \<Rightarrow> address list res" where
  "cmw_GetAllAddrsForLogs M = (\<lambda>(om, w).
    rfold (\<lambda>cf addrs. if \<not> m_IsDisabled M cf w then rbind (m_AllAddrs M cf w) (\<lambda>as. Inr (addrs @ as)) else Inr addrs)
      (om_GetAll om) [])"

definition cmw_OnLog :: "('w, 'e, 'c, 'd) cm_methods \<Rightarrow> 'e txlog \<Rightarrow> 'w cmw \<Rightarrow> 'w cmw res" where
  "cmw_OnLog M txLog = (\<lambda>(om, w).
    rbind (deref (om_GetFromLogAddr om (logAddress txLog))) (\<lambda>adapter.
      if m_LastSync M adapter w < BlockNumber txLog then rbind (m_OnLog M adapter txLog w) (\<lambda>w'. Inr (om, w')) else Inr (om, w)))"

definition cmw_onBlockChange :: "('w, 'e, 'c, 'd) cm_methods \<Rightarrow> int \<Rightarrow> int \<Rightarrow> 'w cmw \<Rightarrow> 'w cmw res" where
  "cmw_onBlockChange M lastBlockNum newBlockNum = (\<lambda>(om, w).
    rbind (rfold (\<lambda>adapter (calls, w).
        if m_LastSync M adapter w \<ge> lastBlockNum then Inr (calls, w)
        else rbind (m_OnBlockChange M adapter lastBlockNum w) (\<lambda>(call, w'). Inr (calls @ call, w')))
      (om_GetAll om) ([], w)) (\<lambda>(calls, w1).
    rbind (rfold (\<lambda>(ind, result) w. rbind (go_index calls (int ind)) (\<lambda>c. m_processFn M c result w))
      (List.enumerate 0 (m_MakeMultiCall M lastBlockNum calls)) w1) (\<lambda>w2.
    rbind (rfold (\<lambda>adapter w. if m_LastSync M adapter w \<ge> lastBlockNum then Inr w else m_UpdateSession M adapter newBlockNum w)
      (om_GetAll om) w2) (\<lambda>w3. Inr (om, w3)))))"

definition adapterAddrsChanged :: "('w, 'e, 'c, 'd) cm_methods \<Rightarrow> address \<Rightarrow> 'w cmw \<Rightarrow> (bool \<times> 'w cmw) res" where
  "adapterAddrsChanged M addr = (\<lambda>(om, w).
    rbind (deref (om_GetFromLogAddr om addr)) (\<lambda>adapter.
      let (changed, w1) = m_IsAddrChanged M adapter w in
      if changed then rbind (m_AllAddrs M adapter w1) (\<lambda>addrs. Inr (True, om_Add adapter addrs adapter om, w1))
      else Inr (False, om, w1)))"

text \<open>The body of the loop up to the question whether the addresses changed.\<close>

definition cmw_step :: "('w, 'e, 'c, 'd) cm_methods \<Rightarrow> int \<Rightarrow> 'e txlog \<Rightarrow> 'w cmw \<Rightarrow> (bool \<times> 'w cmw) res" where
  "cmw_step M lastBlockNum txLog st =
    (let newBlockNum = BlockNumber txLog;
         last1 = (if lastBlockNum = 0 then newBlockNum else lastBlockNum)
     in rbind (if last1 \<noteq> newBlockNum then cmw_onBlockChange M last1 newBlockNum st else Inr st) (\<lambda>st1.
        rbind (cmw_OnLog M txLog st1) (adapterAddrsChanged M (logAddress txLog))))"

text \<open>\<^verbatim>\<open>sort.Search\<close> for the first log behind the given one.\<close>

definition behind :: "'e txlog \<Rightarrow> 'e txlog \<Rightarrow> bool" where
  "behind txLog l \<longleftrightarrow> BlockNumber l > BlockNumber txLog \<or> BlockNumber l = BlockNumber txLog \<and> Index l > Index txLog"

definition refetch :: "('w, 'e, 'c, 'd) cm_methods \<Rightarrow> int \<Rightarrow> 'e txlog \<Rightarrow> address list \<Rightarrow> 'e txlog list res" where
  "refetch M willSyncTill txLog addrs =
    rbind (m_GetLogs M (BlockNumber txLog) willSyncTill addrs) (\<lambda>newTxLogs.
      let splitInd = search_first (behind txLog) newTxLogs in Inr (drop splitInd newTxLogs))"

fun cmw_loop :: "nat \<Rightarrow> ('w, 'e, 'c, 'd) cm_methods \<Rightarrow> int \<Rightarrow> 'e txlog list \<Rightarrow> int \<Rightarrow> 'w cmw \<Rightarrow> (int \<times> 'w cmw) res" where
  "cmw_loop 0 M willSyncTill txLogs lastBlockNum st = Inl OutOfFuel"
| "cmw_loop (Suc n) M willSyncTill [] lastBlockNum st = Inr (lastBlockNum, st)"
| "cmw_loop (Suc n) M willSyncTill (txLog # txLogs) lastBlockNum st =
    rbind (cmw_step M lastBlockNum txLog st) (\<lambda>(changed, st1).
    rbind (if changed then rbind (cmw_GetAllAddrsForLogs M st1) (refetch M willSyncTill txLog) else Inr txLogs) (\<lambda>txLogs1.
      cmw_loop n M willSyncTill txLogs1 (BlockNumber txLog) st1))"

definition cmw_finish :: "('w, 'e, 'c, 'd) cm_methods \<Rightarrow> int \<Rightarrow> int \<times> 'w cmw \<Rightarrow> 'w cmw res" where
  "cmw_finish M willSyncTill = (\<lambda>(lastBlockNum, st).
    if lastBlockNum \<noteq> 0 then cmw_onBlockChange M lastBlockNum (willSyncTill + 1) st else Inr st)"

definition cmw_OnLogs :: "nat \<Rightarrow> ('w, 'e, 'c, 'd) cm_methods \<Rightarrow> int \<Rightarrow> 'e txlog list \<Rightarrow> 'w cmw \<Rightarrow> 'w cmw res" where
  "cmw_OnLogs n M willSyncTill txLogs st = rbind (cmw_loop n M willSyncTill txLogs 0 st) (cmw_finish M willSyncTill)"

section \<open>Watching the chain\<close>

text \<open>
  The reference: go over all logs of the range once, handle those of an address under watch, and watch the new addresses
  from the moment a manager reports a change.
\<close>

fun cmw_watch :: "('w, 'e, 'c, 'd) cm_methods \<Rightarrow> address list \<Rightarrow> 'e txlog list \<Rightarrow> int \<Rightarrow> 'w cmw \<Rightarrow> (int \<times> 'w cmw) res" where
  "cmw_watch M addrs [] lastBlockNum st = Inr (lastBlockNum, st)"
| "cmw_watch M addrs (l # ls) lastBlockNum st =
    (if logAddress l \<in> set addrs
     then rbind (cmw_step M lastBlockNum l st) (\<lambda>(changed, st1).
          rbind (if changed then cmw_GetAllAddrsForLogs M st1 else Inr addrs) (\<lambda>addrs1.
            cmw_watch M addrs1 ls (BlockNumber l) st1))
     else cmw_watch M addrs ls lastBlockNum st)"

text \<open>The node answers from a chain whose logs are in order of block and index.\<close>

definition node_of :: "('w, 'e, 'c, 'd) cm_methods \<Rightarrow> 'e txlog list \<Rightarrow> bool" where
  "node_of M chain \<longleftrightarrow> sorted_wrt behind chain \<and> m_GetLogs M = (\<lambda>lo hi addrs. Inr (chain_logs chain lo hi addrs))"

abbreviation in_range :: "int \<Rightarrow> int \<Rightarrow> 'e txlog \<Rightarrow> bool" where
  "in_range lo hi l \<equiv> lo \<le> BlockNumber l \<and> BlockNumber l \<le> hi"

lemma search_first_append:
  assumes "\<forall>x \<in> set xs. \<not> P x" and "\<forall>y \<in> set ys. P y"
  shows "drop (search_first P (xs @ ys)) (xs @ ys) = ys"
  unfolding search_first_drop using assms by (cases ys) (simp_all add: dropWhile_append2)

lemma refetch_rest:
  assumes "node_of M chain" and "chain = pre @ l # post"
  shows "refetch M hi l addrs = Inr (filter (\<lambda>x. BlockNumber x \<le> hi \<and> logAddress x \<in> set addrs) post)"
proof -
  let ?Q = "\<lambda>x. BlockNumber l \<le> BlockNumber x \<and> BlockNumber x \<le> hi \<and> logAddress x \<in> set addrs"
  have sorted: "\<forall>x \<in> set pre. behind x l" "\<forall>y \<in> set post. behind l y"
    using assms by (auto simp: node_of_def sorted_wrt_append)
  have logs: "chain_logs chain (BlockNumber l) hi addrs = filter ?Q (pre @ [l]) @ filter ?Q post"
    unfolding chain_logs_def assms(2) filter_append[symmetric] by (simp only: append_assoc append_Cons append_Nil)
  have before: "\<forall>x \<in> set (filter ?Q (pre @ [l])). \<not> behind l x"
  proof
    fix x
    assume "x \<in> set (filter ?Q (pre @ [l]))"
    then have "x = l \<or> behind x l" using sorted(1) unfolding set_filter by auto
    then show "\<not> behind l x" by (auto simp: behind_def)
  qed
  have after: "\<forall>y \<in> set (filter ?Q post). behind l y" using sorted(2) by simp
  have post: "filter ?Q post = filter (\<lambda>x. BlockNumber x \<le> hi \<and> logAddress x \<in> set addrs) post"
    using sorted(2) by (intro filter_cong) (auto simp: behind_def)
  have "m_GetLogs M (BlockNumber l) hi addrs = Inr (filter ?Q (pre @ [l]) @ filter ?Q post)"
    using assms(1) logs by (simp add: node_of_def)
  then show ?thesis
    unfolding refetch_def Let_def post[symmetric] by (simp only: rbind_simps search_first_append[OF before after])
qed

lemma cmw_loop_watch:
  assumes "node_of M chain" and "chain = pre @ post" and "length (filter (\<lambda>x. BlockNumber x \<le> hi) post) < n"
  shows "cmw_loop n M hi (filter (\<lambda>x. BlockNumber x \<le> hi \<and> logAddress x \<in> set addrs) post) b st
    = cmw_watch M addrs (filter (\<lambda>x. BlockNumber x \<le> hi) post) b st"
  using assms(2,3)
proof (induction post arbitrary: pre n addrs b st)
  case Nil
  then show ?case by (cases n) auto
next
  case (Cons l post)
  have rest: "chain = (pre @ [l]) @ post" using Cons.prems(1) by simp
  show ?case
  proof (cases "BlockNumber l \<le> hi")
    case True
    then obtain m where n: "n = Suc m" "length (filter (\<lambda>x. BlockNumber x \<le> hi) post) < m" using Cons.prems(2) by (cases n) auto
    note IH = Cons.IH[OF rest]
    show ?thesis
    proof (cases "logAddress l \<in> set addrs")
      case True
      have "rbind (if ch then rbind (cmw_GetAllAddrsForLogs M st1) (refetch M hi l)
               else Inr (filter (\<lambda>x. BlockNumber x \<le> hi \<and> logAddress x \<in> set addrs) post))
             (\<lambda>txLogs1. cmw_loop m M hi txLogs1 (BlockNumber l) st1)
           = rbind (if ch then cmw_GetAllAddrsForLogs M st1 else Inr addrs)
             (\<lambda>addrs1. cmw_watch M addrs1 (filter (\<lambda>x. BlockNumber x \<le> hi) post) (BlockNumber l) st1)" for ch st1
        using IH[OF n(2)] refetch_rest[OF assms(1) Cons.prems(1)]
        by (cases "cmw_GetAllAddrsForLogs M st1") simp_all
      then show ?thesis using True \<open>BlockNumber l \<le> hi\<close> by (simp add: n(1) case_prod_unfold)
    next
      case False
      have "length (filter (\<lambda>x. BlockNumber x \<le> hi) post) < n" using n by simp
      then show ?thesis using False \<open>BlockNumber l \<le> hi\<close> IH by simp
    qed
  next
    case False
    then show ?thesis using Cons.IH[OF rest] Cons.prems(2) by simp
  qed
qed

text \<open>
  C6: Fetching again loses and repeats nothing.  Starting from the logs of the current addresses in a range, the wrapper does exactly
  what going once over all logs of the range does, handling a log if and only if its address is among those under
  watch when it comes, where a change of addresses takes effect with the next log.  In
  particular it ends, with as many steps as the range has logs, and it fails only where that does.
\<close>

theorem cmw_OnLogs_watches:
  assumes "node_of M chain" and "cmw_GetAllAddrsForLogs M st = Inr addrs"
    and "length (filter (in_range lo hi) chain) < n"
  shows "cmw_OnLogs n M hi (chain_logs chain lo hi addrs) st =
    rbind (cmw_watch M addrs (filter (in_range lo hi) chain) 0 st) (cmw_finish M hi)"
proof -
  have "sorted_wrt behind chain" using assms(1) by (simp add: node_of_def)
  then have split: "chain = takeWhile (\<lambda>l. BlockNumber l < lo) chain @ filter (\<lambda>l. lo \<le> BlockNumber l) chain"
  proof (induction chain)
    case (Cons l chain)
    show ?case
    proof (cases "BlockNumber l < lo")
      case False
      then have "\<forall>x \<in> set chain. lo \<le> BlockNumber x" using Cons.prems by (auto simp: behind_def)
      then show ?thesis using False by simp
    qed (use Cons in simp)
  qed simp
  let ?post = "filter (\<lambda>l. lo \<le> BlockNumber l) chain"
  have f: "filter (\<lambda>x. BlockNumber x \<le> hi) ?post = filter (in_range lo hi) chain"
    "filter (\<lambda>x. BlockNumber x \<le> hi \<and> logAddress x \<in> set addrs) ?post = chain_logs chain lo hi addrs"
    unfolding chain_logs_def filter_filter by (auto intro: filter_cong)
  have "cmw_loop n M hi (chain_logs chain lo hi addrs) 0 st = cmw_watch M addrs (filter (in_range lo hi) chain) 0 st"
    using cmw_loop_watch[OF assms(1) split, of hi n addrs 0 st] assms(3) unfolding f by blast
  then show ?thesis by (simp add: cmw_OnLogs_def)
qed

section \<open>A concrete wrapper\<close>

record demo_managers =
  demo_facade :: "address list"
  demo_changed :: bool
  demo_handled :: "(int \<times> int) list"

definition demo_cms :: "address option txlog list \<Rightarrow> (demo_managers, address option, unit, unit) cm_methods" where
  "demo_cms chain =
    \<lparr>m_LastSync = (\<lambda>_ _. 0), m_IsDisabled = (\<lambda>_ _. False), m_AllAddrs = (\<lambda>a w. Inr (a # demo_facade w)),
     m_OnLog = (\<lambda>_ l w. Inr (case payload l of
         None \<Rightarrow> w\<lparr>demo_handled := demo_handled w @ [(BlockNumber l, Index l)]\<rparr>
       | Some f \<Rightarrow> w\<lparr>demo_handled := demo_handled w @ [(BlockNumber l, Index l)], demo_facade := [f], demo_changed := True\<rparr>)),
     m_IsAddrChanged = (\<lambda>_ w. (demo_changed w, w\<lparr>demo_changed := False\<rparr>)),
     m_OnBlockChange = (\<lambda>_ _ w. Inr ([], w)), m_processFn = (\<lambda>_ _ w. Inr w), m_UpdateSession = (\<lambda>_ _ w. Inr w),
     m_MakeMultiCall = (\<lambda>_ _. []), m_GetLogs = (\<lambda>lo hi addrs. Inr (chain_logs chain lo hi addrs))\<rparr>"

definition demo_cm_chain :: "address option txlog list" where
  "demo_cm_chain = map (\<lambda>(b, i, a, p). \<lparr>BlockNumber = b, Index = i, TxIndex = 0, TxHash = '''', logAddress = a, topic0 = '''', payload = p\<rparr>)
     [(4, 7, ''f'', None), (5, 0, ''m'', Some ''f''), (5, 1, ''f'', None), (6, 3, ''g'', None), (8, 0, ''m'', None)]"

definition demo_cmw :: "demo_managers cmw" where
  "demo_cmw = (om_Add ''m'' [''m''] ''m'' NewOrderedMap, \<lparr>demo_facade = [], demo_changed = False, demo_handled = []\<rparr>)"

lemma demo_cms_watch:
  "case rbind (cmw_watch (demo_cms demo_cm_chain) [''m''] (filter (in_range 1 9) demo_cm_chain) 0 demo_cmw) (cmw_finish (demo_cms demo_cm_chain) 9) of
     Inl _ \<Rightarrow> False | Inr st \<Rightarrow> demo_handled (snd st) = [(5, 0), (5, 1), (8, 0)]"
  by code_simp

theorem cmw_OnLogs_watches_witness:
  "\<exists>st. cmw_OnLogs 6 (demo_cms demo_cm_chain) 9 (chain_logs demo_cm_chain 1 9 [''m'']) demo_cmw = Inr st \<and>
    demo_handled (snd st) = [(5, 0), (5, 1), (8, 0)]"
proof -
  have "node_of (demo_cms demo_cm_chain) demo_cm_chain"
    by (simp add: node_of_def demo_cms_def demo_cm_chain_def behind_def)
  moreover have "cmw_GetAllAddrsForLogs (demo_cms demo_cm_chain) demo_cmw = Inr [''m'']" by code_simp
  moreover have "length (filter (in_range 1 9) demo_cm_chain) < 6" by (simp add: demo_cm_chain_def)
  ultimately show ?thesis
    using cmw_OnLogs_watches[of "demo_cms demo_cm_chain" demo_cm_chain demo_cmw "[''m'']" 1 9 6] case_InrD[OF demo_cms_watch] by simp
qed

end
