(* ===== verification/DC_Wrapper.thy ===== *)
theory DC_Wrapper
  imports Trace_Service Sync_Adapter
begin

text \<open>
  The wrapper of the data compressors (\<^verbatim>\<open>ds/dc_wrapper\<close>): which contract answers for a block, the call that asks it, and the translation of
  its answers into one format.  A call is kept as target, method and arguments, before it is packed; packing and
  unpacking are parameters, as are the answers of the test double.
\<close>

section \<open>Numbers in strings\<close>

text \<open>\<^verbatim>\<open>strconv.ParseInt(s, 10, 64)\<close>: a sign, at least one digit, and the range of 64 bits.\<close>

primrec dec_number :: "string \<Rightarrow> int \<Rightarrow> int option" where
  "dec_number [] acc = Some acc"
| "dec_number (c # cs) acc =
    (let n = of_char c :: nat in if 48 \<le> n \<and> n \<le> 57 then dec_number cs (acc * 10 + int (n - 48)) else None)"

definition ParseInt :: "string \<Rightarrow> int option" where
  "ParseInt s =
    (let neg = (s \<noteq> [] \<and> hd s = CHR ''-'');
         digits = (if s \<noteq> [] \<and> hd s \<in> {CHR ''-'', CHR ''+''} then tl s else s)
     in if digits = [] then None
        else case dec_number digits 0 of
          None \<Rightarrow> None
        | Some n \<Rightarrow> let i = (if neg then - n else n) in if - (2 ^ 63) \<le> i \<and> i < 2 ^ 63 then Some i else None)"

section \<open>Data compressors by block\<close>

abbreviation "DCV1 \<equiv> ''DCV1''"
abbreviation "DCV2 \<equiv> ''DCV2''"
abbreviation "TESTING \<equiv> ''TESTING''"

record dc_wrapper =
  DCBlockNum :: "int list"
  BlockNumToName :: "int \<rightharpoonup> string"
  discoveredAtToAddr :: "int \<rightharpoonup> address"
  creditManagerToFilter :: "address \<rightharpoonup> address"        \<comment> \<open>of the embedded \<^verbatim>\<open>MainnetDC\<close>\<close>

definition NewDataCompressorWrapper :: dc_wrapper where
  "NewDataCompressorWrapper =
    \<lparr>DCBlockNum = [], BlockNumToName = Map.empty, discoveredAtToAddr = Map.empty, creditManagerToFilter = Map.empty\<rparr>"

definition dc_key :: "int \<Rightarrow> nat \<Rightarrow> string" where
  "dc_key chainId n =
    (if chainId = 1 \<or> chainId = 5 then (if n = 0 then DCV1 else if n = 1 \<or> n = 2 then DCV2 else '''')
     else if chainId = 42 then (if n = 0 then DCV1 else if n < 9 then DCV2 else '''')
     else TESTING)"

definition addDataCompressor :: "int \<Rightarrow> int \<Rightarrow> address \<Rightarrow> dc_wrapper \<Rightarrow> dc_wrapper res" where
  "addDataCompressor chainId blockNum addr dcw =
    rbind (guard_fatal (DCBlockNum dcw \<noteq> [] \<and> last (DCBlockNum dcw) \<ge> blockNum) ''Current dc added at'') (\<lambda>_.
      Inr (dcw\<lparr>BlockNumToName := (BlockNumToName dcw)(blockNum \<mapsto> dc_key chainId (length (DCBlockNum dcw))),
               discoveredAtToAddr := (discoveredAtToAddr dcw)(blockNum \<mapsto> addr),
               DCBlockNum := DCBlockNum dcw @ [blockNum]\<rparr>))"

definition dc_parse_key :: "string \<times> json \<Rightarrow> int list \<Rightarrow> int list res" where
  "dc_parse_key = (\<lambda>(k, _) blockNums.
    case ParseInt k of None \<Rightarrow> Inl (Fatal ''parse'') | Some b \<Rightarrow> Inr (blockNums @ [b]))"

definition dc_load_one :: "int \<Rightarrow> (string \<times> json) list \<Rightarrow> int \<Rightarrow> dc_wrapper \<Rightarrow> dc_wrapper res" where
  "dc_load_one chainId dcMap blockNum dcw =
    (case map_of dcMap (int_String blockNum) of
       Some (JString dcAddr) \<Rightarrow> addDataCompressor chainId blockNum dcAddr dcw
     | _ \<Rightarrow> Inl (Panic ''interface conversion''))"

definition LoadMultipleDC :: "int \<Rightarrow> json \<Rightarrow> dc_wrapper \<Rightarrow> dc_wrapper res" where
  "LoadMultipleDC chainId multiDCs dcw =
    (case multiDCs of
       JMap dcMap \<Rightarrow>
         rbind (rfold dc_parse_key dcMap []) (\<lambda>blockNums. rfold (dc_load_one chainId dcMap) (sort blockNums) dcw)
     | _ \<Rightarrow> Inl (Fatal ''Converting address provider() details for dc to map failed''))"

text \<open>The last compressor before the block: the loop stops at the first one that is not.\<close>

definition getDataCompressorIndex :: "int \<Rightarrow> dc_wrapper \<Rightarrow> string \<times> int" where
  "getDataCompressorIndex blockNum dcw =
    (let nums = takeWhile (\<lambda>num. num < blockNum) (DCBlockNum dcw) in
     if nums = [] then ('''', 0) else (zget '''' (BlockNumToName dcw) (last nums), last nums))"

definition AddCreditManagerToFilter :: "address \<Rightarrow> address \<Rightarrow> dc_wrapper \<Rightarrow> dc_wrapper" where
  "AddCreditManagerToFilter cmAddr cfAddr dcw = dcw\<lparr>creditManagerToFilter := (creditManagerToFilter dcw)(cmAddr \<mapsto> cfAddr)\<rparr>"

abbreviation "ZERO_ADDR \<equiv> ''0x0000000000000000000000000000000000000000''"

definition getDCAddr :: "int \<Rightarrow> dc_wrapper \<Rightarrow> address" where
  "getDCAddr discoveredAt dcw = zget ZERO_ADDR (discoveredAtToAddr dcw) discoveredAt"

section \<open>Answers\<close>

record v1_balance =
  v1b_Token :: address
  v1b_Balance :: int
  v1b_IsAllowed :: bool

record v2_balance = v1_balance +
  v2b_IsEnabled :: bool

record account_fields =
  acc_Addr :: address
  acc_Borrower :: address
  acc_InUse :: bool
  acc_CreditManager :: address
  acc_Underlying :: address
  acc_BorrowedAmountPlusInterest :: int
  acc_TotalValue :: int
  acc_HealthFactor :: int
  acc_BorrowRate :: int
  acc_RepayAmount :: int
  acc_LiquidationAmount :: int
  acc_CanBeClosed :: bool
  acc_BorrowedAmount :: int
  acc_CumulativeIndexAtOpen :: int
  acc_Since :: int

record v1_account = account_fields +
  v1_Balances :: "v1_balance list"

record v2_account = account_fields +
  v2_Balances :: "v2_balance list"

record v1_pool =
  vp_Addr :: address
  vp_IsWETH :: bool
  vp_Underlying :: address
  vp_DieselToken :: address
  vp_LinearCumulativeIndex :: int
  vp_AvailableLiquidity :: int
  vp_ExpectedLiquidity :: int
  vp_ExpectedLiquidityLimit :: int
  vp_TotalBorrowed :: int
  vp_DepositAPYRAY :: int
  vp_BorrowAPYRAY :: int
  vp_DieselRateRAY :: int
  vp_WithdrawFee :: int
  vp_CumulativeIndexRAY :: int
  vp_TimestampLU :: int

record v2_pool = v1_pool +
  vp_Version :: int

record v1_manager =
  vm_Addr :: address
  vm_Underlying :: address
  vm_IsWETH :: bool
  vm_CanBorrow :: bool
  vm_BorrowRate :: int
  vm_MinAmount :: int
  vm_MaxAmount :: int
  vm_MaxLeverageFactor :: int
  vm_AvailableLiquidity :: int
  vm_CollateralTokens :: "address list"

text \<open>\<^verbatim>\<open>fmt.Sprintf("%b", mask)\<close> of a number that is not negative.\<close>

fun binary :: "nat \<Rightarrow> string" where
  "binary n = (if n < 2 then [if n = 1 then CHR ''1'' else CHR ''0''] else binary (n div 2) @ [if n mod 2 = 1 then CHR ''1'' else CHR ''0''])"

declare binary.simps [simp del]

definition mask_enabled :: "string \<Rightarrow> nat \<Rightarrow> bool" where
  "mask_enabled maskInBits i = (length maskInBits > i \<and> maskInBits ! (length maskInBits - i - 1) = CHR ''1'')"

definition convertTodcv2Balance :: "v1_balance list \<Rightarrow> int \<Rightarrow> v2_balance list" where
  "convertTodcv2Balance bals msk =
    (let maskInBits = binary (nat msk) in
     map (\<lambda>(i, balance). \<lparr>v1b_Token = v1b_Token balance, v1b_Balance = v1b_Balance balance, v1b_IsAllowed = v1b_IsAllowed balance,
            v2b_IsEnabled = mask_enabled maskInBits i\<rparr>) (List.enumerate 0 bals))"

definition getPoolDataV1 :: "v1_pool \<Rightarrow> v2_pool" where
  "getPoolDataV1 d =
    \<lparr>vp_Addr = vp_Addr d, vp_IsWETH = vp_IsWETH d, vp_Underlying = vp_Underlying d,
     vp_DieselToken = vp_DieselToken d, vp_LinearCumulativeIndex = vp_LinearCumulativeIndex d, vp_AvailableLiquidity = vp_AvailableLiquidity d,
     vp_ExpectedLiquidity = vp_ExpectedLiquidity d, vp_ExpectedLiquidityLimit = vp_ExpectedLiquidityLimit d, vp_TotalBorrowed = vp_TotalBorrowed d,
     vp_DepositAPYRAY = vp_DepositAPYRAY d, vp_BorrowAPYRAY = vp_BorrowAPYRAY d, vp_DieselRateRAY = vp_DieselRateRAY d,
     vp_WithdrawFee = vp_WithdrawFee d, vp_CumulativeIndexRAY = vp_CumulativeIndexRAY d, vp_TimestampLU = vp_TimestampLU d, vp_Version = 1\<rparr>"

definition getCMDataV1 :: "v1_manager \<Rightarrow> v1_manager" where
  "getCMDataV1 d =
    \<lparr>vm_Addr = vm_Addr d, vm_Underlying = vm_Underlying d, vm_IsWETH = vm_IsWETH d,
     vm_CanBorrow = vm_CanBorrow d, vm_BorrowRate = vm_BorrowRate d, vm_MinAmount = vm_MinAmount d,
     vm_MaxAmount = vm_MaxAmount d, vm_MaxLeverageFactor = vm_MaxLeverageFactor d, vm_AvailableLiquidity = vm_AvailableLiquidity d,
     vm_CollateralTokens = vm_CollateralTokens d\<rparr>"

text \<open>
  \<open>getMask\<close> is the call of the filter for the enabled tokens of an account: it returns bytes, or an error.
\<close>

record dc_env =
  getMask_call :: "int \<Rightarrow> address \<Rightarrow> address \<Rightarrow> nat list res"
  UnpackAccountV1 :: "nat list \<Rightarrow> v1_account option"
  UnpackAccountV2 :: "nat list \<Rightarrow> v2_account option"
  UnpackManagerV1 :: "nat list \<Rightarrow> v1_manager option"
  UnpackManagerV2 :: "nat list \<Rightarrow> v1_manager option"
  UnpackPoolV1 :: "nat list \<Rightarrow> v1_pool option"
  UnpackPoolV2 :: "nat list \<Rightarrow> v2_pool option"
  testing_Account :: "int \<Rightarrow> address \<Rightarrow> address \<Rightarrow> v2_account res"
  testing_Manager :: "int \<Rightarrow> address \<Rightarrow> v1_manager res"
  testing_Pool :: "int \<Rightarrow> address \<Rightarrow> v2_pool res"

definition getMask :: "dc_env \<Rightarrow> int \<Rightarrow> address \<Rightarrow> address \<Rightarrow> int res" where
  "getMask E blockNum cfAddr accountAddr = rbind (getMask_call E blockNum cfAddr accountAddr) (\<lambda>returnData. Inr (SetBytes returnData))"

definition v1_getCreditAccountData :: "dc_env \<Rightarrow> int \<Rightarrow> v1_account \<Rightarrow> dc_wrapper \<Rightarrow> v2_account res" where
  "v1_getCreditAccountData E blockNum d dcw =
    (let cfAddr = zget ZERO_ADDR (creditManagerToFilter dcw) (acc_CreditManager d) in
     rbind (getMask E blockNum cfAddr (acc_Addr d)) (\<lambda>msk.
       Inr \<lparr>acc_Addr = acc_Addr d, acc_Borrower = acc_Borrower d, acc_InUse = acc_InUse d,
            acc_CreditManager = acc_CreditManager d, acc_Underlying = acc_Underlying d, acc_BorrowedAmountPlusInterest = acc_BorrowedAmountPlusInterest d,
            acc_TotalValue = acc_TotalValue d, acc_HealthFactor = acc_HealthFactor d, acc_BorrowRate = acc_BorrowRate d,
            acc_RepayAmount = acc_RepayAmount d, acc_LiquidationAmount = acc_LiquidationAmount d, acc_CanBeClosed = acc_CanBeClosed d,
            acc_BorrowedAmount = acc_BorrowedAmount d, acc_CumulativeIndexAtOpen = acc_CumulativeIndexAtOpen d, acc_Since = acc_Since d,
            v2_Balances = convertTodcv2Balance (v1_Balances d) msk\<rparr>))"

section \<open>Calls\<close>

record dc_call =
  dc_Target :: address
  dc_Abi :: string
  dc_Method :: string
  dc_Args :: "address list"

abbreviation "TEST_TARGET \<equiv> ''0x0000000000000000000000000000000000000001''"

text \<open>The call and the function for its answer; the function returns \<open>None\<close> for an error of unpacking.\<close>

definition GetCreditAccountData :: "dc_env \<Rightarrow> int \<Rightarrow> address \<Rightarrow> address \<Rightarrow> dc_wrapper \<Rightarrow> (dc_call \<times> (nat list \<Rightarrow> v2_account option res)) res" where
  "GetCreditAccountData E blockNum creditManager borrower dcw =
    (let (key, discoveredAt) = getDataCompressorIndex blockNum dcw; args = [creditManager, borrower];
         resultFn = (\<lambda>bytes.
           if key = DCV2 then Inr (UnpackAccountV2 E bytes)
           else if key = DCV1 then
             (case UnpackAccountV1 E bytes of None \<Rightarrow> Inr None
              | Some accountData \<Rightarrow> rbind (v1_getCreditAccountData E blockNum accountData dcw) (\<lambda>a. Inr (Some a)))
           else if key = TESTING then rbind (testing_Account E blockNum creditManager borrower) (\<lambda>a. Inr (Some a))
           else Inl (Panic ''data compressor number not found''))
     in if key = DCV2 then
          Inr (\<lparr>dc_Target = getDCAddr discoveredAt dcw, dc_Abi = ''DataCompressorV2'', dc_Method = ''getCreditAccountData'', dc_Args = args\<rparr>, resultFn)
        else if key = DCV1 then
          Inr (\<lparr>dc_Target = getDCAddr discoveredAt dcw, dc_Abi = ''DataCompressorMainnet'', dc_Method = ''getCreditAccountDataExtended'', dc_Args = args\<rparr>, resultFn)
        else if key = TESTING then
          Inr (\<lparr>dc_Target = TEST_TARGET, dc_Abi = ''DataCompressorMainnet'', dc_Method = ''getCreditAccountDataExtended'', dc_Args = args\<rparr>, resultFn)
        else Inl (Panic ''data compressor number not found for credit account data extended''))"

text \<open>Here an unknown compressor gives the empty call, and only its answer panics.\<close>

definition GetCreditManagerData :: "dc_env \<Rightarrow> int \<Rightarrow> address \<Rightarrow> dc_wrapper \<Rightarrow> dc_call \<times> (nat list \<Rightarrow> v1_manager option res)" where
  "GetCreditManagerData E blockNum creditManager dcw =
    (let (key, discoveredAt) = getDataCompressorIndex blockNum dcw;
         resultFn = (\<lambda>bytes.
           if key = DCV2 then Inr (UnpackManagerV2 E bytes)
           else if key = DCV1 then Inr (map_option getCMDataV1 (UnpackManagerV1 E bytes))
           else if key = TESTING then rbind (testing_Manager E blockNum creditManager) (\<lambda>a. Inr (Some a))
           else Inl (Panic ''data compressor number not found''))
     in if key = DCV2 then
          (\<lparr>dc_Target = getDCAddr discoveredAt dcw, dc_Abi = ''DataCompressorV2'', dc_Method = ''getCreditManagerData'', dc_Args = [creditManager]\<rparr>, resultFn)
        else if key = DCV1 then
          (\<lparr>dc_Target = getDCAddr discoveredAt dcw, dc_Abi = ''DataCompressorMainnet'', dc_Method = ''getCreditManagerData'', dc_Args = [creditManager, creditManager]\<rparr>, resultFn)
        else if key = TESTING then
          (\<lparr>dc_Target = TEST_TARGET, dc_Abi = ''DataCompressorMainnet'', dc_Method = ''getCreditManagerData'', dc_Args = [creditManager, creditManager]\<rparr>, resultFn)
        else (\<lparr>dc_Target = ZERO_ADDR, dc_Abi = '''', dc_Method = '''', dc_Args = []\<rparr>, resultFn))"

definition GetPoolData :: "dc_env \<Rightarrow> int \<Rightarrow> address \<Rightarrow> dc_wrapper \<Rightarrow> (dc_call \<times> (nat list \<Rightarrow> v2_pool option res)) res" where
  "GetPoolData E blockNum pool dcw =
    (let (key, discoveredAt) = getDataCompressorIndex blockNum dcw;
         resultFn = (\<lambda>bytes.
           if key = DCV2 then Inr (UnpackPoolV2 E bytes)
           else if key = DCV1 then Inr (map_option getPoolDataV1 (UnpackPoolV1 E bytes))
           else if key = TESTING then rbind (testing_Pool E blockNum pool) (\<lambda>a. Inr (Some a))
           else Inl (Panic ''data compressor number not found for pool data''))
     in if key = DCV2 then
          Inr (\<lparr>dc_Target = getDCAddr discoveredAt dcw, dc_Abi = ''DataCompressorV2'', dc_Method = ''getPoolData'', dc_Args = [pool]\<rparr>, resultFn)
        else if key = DCV1 then
          Inr (\<lparr>dc_Target = getDCAddr discoveredAt dcw, dc_Abi = ''DataCompressorMainnet'', dc_Method = ''getPoolData'', dc_Args = [pool]\<rparr>, resultFn)
        else if key = TESTING then
          Inr (\<lparr>dc_Target = TEST_TARGET, dc_Abi = ''DataCompressorMainnet'', dc_Method = ''getPoolData'', dc_Args = [pool]\<rparr>, resultFn)
        else Inl (Panic ''data compressor number not found for pool data''))"

section \<open>Asking the contracts one by one\<close>

text \<open>
  \<^verbatim>\<open>AccountCallv2\<close> of \<^verbatim>\<open>dcv2.go\<close>: the data of an account without a compressor, in three rounds of calls.  Unpacking an answer, with the type
  assertion on its first value, is a parameter that may fail.
\<close>

record mc_result =
  mc_Success :: bool
  mc_ReturnData :: "nat list"

record manual_env =
  man_MakeMultiCall :: "int \<Rightarrow> bool \<Rightarrow> dc_call list \<Rightarrow> mc_result list"
  Unpack_address :: "nat list \<Rightarrow> address res"
  Unpack_int :: "nat list \<Rightarrow> int res"
  Unpack_ints :: "nat list \<Rightarrow> (int \<times> int) res"
  Unpack_bool :: "nat list \<Rightarrow> bool res"

definition getAddr :: "manual_env \<Rightarrow> mc_result \<Rightarrow> address res" where
  "getAddr E result = (if mc_Success result then Unpack_address E (mc_ReturnData result) else Inl (Panic ''''))"

definition getBigInt :: "manual_env \<Rightarrow> mc_result \<Rightarrow> int res" where
  "getBigInt E result = (if mc_Success result then Unpack_int E (mc_ReturnData result) else Inl (Panic ''''))"

definition get2BigInt :: "manual_env \<Rightarrow> mc_result \<Rightarrow> (int \<times> int) res" where
  "get2BigInt E result = (if mc_Success result then Unpack_ints E (mc_ReturnData result) else Inl (Panic ''''))"

definition balance_calls :: "address list \<Rightarrow> address \<Rightarrow> address \<Rightarrow> dc_call list" where
  "balance_calls tokens account creditFacade =
    concat (map (\<lambda>token. [\<lparr>dc_Target = token, dc_Abi = ''Token'', dc_Method = ''balanceOf'', dc_Args = [account]\<rparr>,
                          \<lparr>dc_Target = creditFacade, dc_Abi = ''CreditFacade'', dc_Method = ''isTokenAllowed'', dc_Args = [token]\<rparr>]) tokens)"

text \<open>Even answers are balances, odd ones say whether the token is allowed; \<^verbatim>\<open>balance\<close> is a variable outside of the loop.\<close>

definition balance_step ::
  "manual_env \<Rightarrow> address list \<Rightarrow> nat \<times> mc_result \<Rightarrow> int option \<times> v2_balance list \<Rightarrow> (int option \<times> v2_balance list) res" where
  "balance_step E tokens = (\<lambda>(i, entry) (balance, bals).
    if mc_Success entry then
      (if i mod 2 = 0 then rbind (Unpack_int E (mc_ReturnData entry)) (\<lambda>amount. Inr (Some amount, bals))
       else rbind (Unpack_bool E (mc_ReturnData entry)) (\<lambda>isAllowed.
            rbind (go_index tokens (int (i div 2))) (\<lambda>token.
            rbind (deref balance) (\<lambda>b.
              Inr (balance, bals @ [\<lparr>v1b_Token = token, v1b_Balance = b, v1b_IsAllowed = isAllowed, v2b_IsEnabled = False\<rparr>])))))
    else rbind (go_index tokens (int (i div 2))) (\<lambda>_. Inl (Fatal ''balance'')))"

definition manual_getBalances :: "manual_env \<Rightarrow> int \<Rightarrow> address list \<Rightarrow> address \<Rightarrow> address \<Rightarrow> v2_balance list res" where
  "manual_getBalances E blockNum tokens account creditFacade =
    (let result = man_MakeMultiCall E blockNum False (balance_calls tokens account creditFacade) in
     rbind (rfold (balance_step E tokens) (List.enumerate 0 result) (None, [])) (\<lambda>(_, bals). Inr bals))"

definition manualAccountCall :: "manual_env \<Rightarrow> int \<Rightarrow> address \<Rightarrow> address \<Rightarrow> v2_account res" where
  "manualAccountCall E blockNum creditManager borrower =
    (let cm = (\<lambda>m args. \<lparr>dc_Target = creditManager, dc_Abi = ''CreditManagerv2'', dc_Method = m, dc_Args = args\<rparr>);
         result1 = man_MakeMultiCall E blockNum False [cm ''creditAccounts'' [borrower], cm ''creditFacade'' [], cm ''collateralTokensCount'' []]
     in rbind (rbind (go_index result1 0) (getAddr E)) (\<lambda>account.
        rbind (rbind (go_index result1 1) (getAddr E)) (\<lambda>creditFacade.
        rbind (rbind (go_index result1 2) (getBigInt E)) (\<lambda>count.
          let tokensCount = sint (word_of_int count :: 64 word);
              facade = (\<lambda>m. \<lparr>dc_Target = creditFacade, dc_Abi = ''CreditFacade'', dc_Method = m, dc_Args = [account]\<rparr>);
              result2 = man_MakeMultiCall E blockNum False
                ([cm ''calcCreditAccountAccruedInterest'' [account], facade ''calcCreditAccountHealthFactor'', facade ''calcTotalValue'',
                  \<lparr>dc_Target = account, dc_Abi = ''CreditAccount'', dc_Method = ''cumulativeIndexAtOpen'', dc_Args = []\<rparr>] @
                 map (\<lambda>i. cm ''collateralTokens'' [int_String i]) [0..tokensCount - 1])
          in rbind (rbind (go_index result2 0) (get2BigInt E)) (\<lambda>(borrowedAmount, amountWithInterest).
             rbind (rbind (go_index result2 1) (getBigInt E)) (\<lambda>hf.
             rbind (rbind (go_index result2 2) (get2BigInt E)) (\<lambda>(totalValue, _).
             rbind (rbind (go_index result2 3) (getBigInt E)) (\<lambda>cumIndex.
             rbind (rfold (\<lambda>entry tokens. rbind (getAddr E entry) (\<lambda>a. Inr (tokens @ [a]))) (drop 4 result2) []) (\<lambda>tokens.
             rbind (manual_getBalances E blockNum tokens account creditFacade) (\<lambda>bals.
               Inr \<lparr>acc_Addr = account, acc_Borrower = borrower, acc_InUse = False, acc_CreditManager = creditManager, acc_Underlying = ZERO_ADDR,
                    acc_BorrowedAmountPlusInterest = amountWithInterest, acc_TotalValue = totalValue, acc_HealthFactor = hf, acc_BorrowRate = 0,
                    acc_RepayAmount = 0, acc_LiquidationAmount = 0, acc_CanBeClosed = False, acc_BorrowedAmount = borrowedAmount,
                    acc_CumulativeIndexAtOpen = cumIndex, acc_Since = 0, v2_Balances = bals\<rparr>))))))))))"

end
