(* ===== verification/DC_Correct.thy ===== *)
theory DC_Correct
  imports DC_Wrapper "HOL-Library.Multiset"
begin

text \<open>
  Correctness of the data compressor wrapper: block numbers survive being keys of a JSON object, so the compressors saved by the address
  provider come back as they were; the compressor of a block is the last one before it; and the enabled tokens of a version 1
  account are the bits of its mask.
\<close>

section \<open>Printing and parsing\<close>

lemma dec_number_append: "dec_number (xs @ ys) acc = Option.bind (dec_number xs acc) (dec_number ys)"
  by (induction xs arbitrary: acc) (simp_all add: Let_def)

lemma digit_char: "d < 10 \<Longrightarrow> of_char (hex_digits ! d) = 48 + d"
proof -
  assume "d < 10"
  then have "d = 0 \<or> d = 1 \<or> d = 2 \<or> d = 3 \<or> d = 4 \<or> d = 5 \<or> d = 6 \<or> d = 7 \<or> d = 8 \<or> d = 9" by arith
  then show ?thesis by (elim disjE) (simp_all add: hex_digits_def)
qed

lemma dec_number_digit: "d < 10 \<Longrightarrow> dec_number [hex_digits ! d] acc = Some (acc * 10 + int d)"
  using digit_char[of d] by (simp add: Let_def)

lemma dec_number_decimal: "dec_number (decimal n) 0 = Some (int n)"
proof (induction n rule: decimal.induct)
  case (1 n)
  show ?case
  proof (cases "n < 10")
    case True
    then show ?thesis by (subst decimal.simps) (simp add: dec_number_digit del: dec_number.simps)
  next
    case False
    have "decimal n = decimal (n div 10) @ [hex_digits ! (n mod 10)]" using False by (subst decimal.simps) simp
    then show ?thesis using 1[OF False] False
      by (simp add: dec_number_append dec_number_digit del: dec_number.simps decimal.simps) (simp add: zdiv_int zmod_int)
  qed
qed

lemma decimal_hd: "decimal n \<noteq> [] \<and> hd (decimal n) \<in> set (map (\<lambda>d. hex_digits ! d) [0..<10])"
proof (induction n rule: decimal.induct)
  case (1 n)
  show ?case
  proof (cases "n < 10")
    case False
    have "decimal n = decimal (n div 10) @ [hex_digits ! (n mod 10)]" using False by (subst decimal.simps) simp
    then show ?thesis using 1[OF False] by (simp del: decimal.simps)
  qed (subst decimal.simps, simp)+
qed

lemma decimal_no_sign: "hd (decimal n) \<noteq> CHR ''-''" "hd (decimal n) \<noteq> CHR ''+''"
proof -
  obtain d where d: "d < 10" "hd (decimal n) = hex_digits ! d" using decimal_hd[of n] by (auto simp del: decimal.simps)
  have "48 \<le> (of_char (hd (decimal n)) :: nat)" unfolding d(2) digit_char[OF d(1)] by simp
  then show "hd (decimal n) \<noteq> CHR ''-''" "hd (decimal n) \<noteq> CHR ''+''" by (auto simp del: decimal.simps)
qed

lemma ParseInt_decimal:
  "ParseInt (CHR ''-'' # decimal n) = (if - (2 ^ 63) \<le> - int n \<and> - int n < 2 ^ 63 then Some (- int n) else None)"
  "ParseInt (decimal n) = (if - (2 ^ 63) \<le> int n \<and> int n < 2 ^ 63 then Some (int n) else None)"
  using decimal_hd[of n] decimal_no_sign[of n]
  by (simp_all only: ParseInt_def Let_def list.sel list.simps dec_number_decimal option.case if_True if_False simp_thms
      insert_iff empty_iff)

lemma ParseInt_int_String:
  assumes "- (2 ^ 63) \<le> b" and "b < 2 ^ 63"
  shows "ParseInt (int_String b) = Some b"
proof (cases "b < 0")
  case True
  then have n: "- int (nat (- b)) = b" by simp
  show ?thesis using assms ParseInt_decimal(1)[of "nat (- b)", unfolded n] True by (simp only: int_String_def if_True simp_thms)
next
  case False
  then have n: "int (nat b) = b" by simp
  show ?thesis using assms ParseInt_decimal(2)[of "nat b", unfolded n] False by (simp only: int_String_def if_False if_True simp_thms)
qed

section \<open>Saved compressors\<close>

abbreviation add_dcs :: "int \<Rightarrow> (int \<times> address) list \<Rightarrow> dc_wrapper \<Rightarrow> dc_wrapper res" where
  "add_dcs chainId \<equiv> rfold (\<lambda>(b, a). addDataCompressor chainId b a)"

text \<open>The object the address provider saves: a key per block, in any order.\<close>

definition saved_dcs :: "(int \<times> address) list \<Rightarrow> (string \<times> json) list \<Rightarrow> bool" where
  "saved_dcs adds dcMap \<longleftrightarrow> mset dcMap = mset (map (\<lambda>(b, a). (int_String b, JString a)) adds)"

lemma parse_keys:
  assumes "\<forall>e \<in> set dcMap. ParseInt (fst e) = Some (f e)"
  shows "rfold dc_parse_key dcMap acc = Inr (acc @ map f dcMap)"
  using assms by (induction dcMap arbitrary: acc) (auto simp: dc_parse_key_def)

lemma load_saved:
  assumes saved: "saved_dcs adds dcMap" and sorted: "sorted_wrt (<) (map fst adds)"
    and range: "\<forall>(b, _) \<in> set adds. - (2 ^ 63) \<le> b \<and> b < 2 ^ 63"
  shows "LoadMultipleDC chainId (JMap dcMap) dcw = add_dcs chainId adds dcw"
proof -
  let ?entry = "\<lambda>(b, a). (int_String b, JString a)" and ?block = "\<lambda>e :: string \<times> json. the (ParseInt (fst e))"
  have parse: "ParseInt (int_String b) = Some b" if "(b, a) \<in> set adds" for b a
    using range that by (intro ParseInt_int_String) auto
  have set: "set dcMap = ?entry ` set adds" using saved unfolding saved_dcs_def by (metis list.set_map set_mset_mset)
  have keys: "\<forall>e \<in> set dcMap. ParseInt (fst e) = Some (?block e)" unfolding set using parse by fastforce
  have "mset (map ?block dcMap) = mset (map fst adds)"
  proof -
    have "mset (map ?block dcMap) = image_mset ?block (mset (map ?entry adds))" using saved by (simp add: saved_dcs_def)
    also have "\<dots> = mset (map (?block \<circ> ?entry) adds)" by (simp add: image_mset.compositionality)
    also have "map (?block \<circ> ?entry) adds = map fst adds" using parse by (auto intro!: map_cong)
    finally show ?thesis .
  qed
  then have order: "sort (map ?block dcMap) = map fst adds"
    using sorted by (simp add: properties_for_sort strict_sorted_iff)
  have inj: "inj_on int_String (fst ` set adds)"
    using parse by (auto intro!: inj_onI) (metis option.inject)
  have "distinct (map fst dcMap)"
  proof -
    have "mset (map fst dcMap) = mset (map int_String (map fst adds))"
      using saved by (simp add: saved_dcs_def image_mset.compositionality comp_def case_prod_unfold)
    moreover have "distinct (map int_String (map fst adds))"
      using sorted inj unfolding strict_sorted_iff distinct_map[of int_String] by simp
    ultimately show ?thesis by (metis mset_eq_imp_distinct_iff)
  qed
  then have look: "map_of dcMap (int_String b) = Some (JString a)" if "(b, a) \<in> set adds" for b a
    using that set by (intro map_of_is_SomeI) force+
  have "rfold (dc_load_one chainId dcMap) (map fst adds) dcw = add_dcs chainId adds dcw"
    unfolding rfold_map using look by (intro rfold_cong) (auto simp: dc_load_one_def)
  then show ?thesis by (simp add: LoadMultipleDC_def parse_keys[OF keys] order)
qed

text \<open>What the compressors added so far make of the wrapper.\<close>

definition dcs_inv :: "int \<Rightarrow> (int \<times> address) list \<Rightarrow> dc_wrapper \<Rightarrow> bool" where
  "dcs_inv chainId adds dcw \<longleftrightarrow> DCBlockNum dcw = map fst adds \<and> sorted_wrt (<) (map fst adds) \<and>
    (\<forall>i < length adds. BlockNumToName dcw (fst (adds ! i)) = Some (dc_key chainId i) \<and>
      discoveredAtToAddr dcw (fst (adds ! i)) = Some (snd (adds ! i)))"

lemma add_dcs_inv:
  assumes "add_dcs chainId adds NewDataCompressorWrapper = Inr dcw"
  shows "dcs_inv chainId adds dcw"
  using assms
proof (induction adds arbitrary: dcw rule: rev_induct)
  case Nil
  then have "dcw = NewDataCompressorWrapper" by simp
  then show ?case by (simp add: dcs_inv_def NewDataCompressorWrapper_def)
next
  case (snoc x adds)
  obtain b a where x: "x = (b, a)" by fastforce
  from snoc.prems obtain d where d: "add_dcs chainId adds NewDataCompressorWrapper = Inr d" "addDataCompressor chainId b a d = Inr dcw"
    by (auto simp: rfold_append x elim!: rbind_InrE)
  have inv: "DCBlockNum d = map fst adds" "sorted_wrt (<) (map fst adds)"
    "\<forall>i < length adds. BlockNumToName d (fst (adds ! i)) = Some (dc_key chainId i) \<and> discoveredAtToAddr d (fst (adds ! i)) = Some (snd (adds ! i))"
    using snoc.IH[OF d(1)] by (auto simp: dcs_inv_def)
  have dcw: "dcw = d\<lparr>BlockNumToName := (BlockNumToName d)(b \<mapsto> dc_key chainId (length adds)),
      discoveredAtToAddr := (discoveredAtToAddr d)(b \<mapsto> a), DCBlockNum := map fst adds @ [b]\<rparr>"
    and last: "adds \<noteq> [] \<longrightarrow> last (map fst adds) < b"
    using d(2) inv(1) by (auto simp: addDataCompressor_def elim!: rbind_InrE)
  have lt: "c < b" if "c \<in> set (map fst adds)" for c
  proof -
    have "c \<le> last (map fst adds)" using inv(2) that sorted_le_last[of "map fst adds" c] by (simp only: strict_sorted_iff)
    moreover have "adds \<noteq> []" using that by auto
    ultimately show ?thesis using last by simp
  qed
  have "fst (adds ! i) \<noteq> b" if "i < length adds" for i using lt[of "fst (adds ! i)"] that by force
  then show ?case unfolding dcs_inv_def dcw x using inv lt
    by (auto simp: sorted_wrt_append nth_append less_Suc_eq)
qed

lemma filter_sorted_prefix:
  fixes adds :: "(int \<times> address) list"
  assumes "sorted_wrt (<) (map fst adds)"
  shows "takeWhile (\<lambda>n. n < b) (map fst adds) = map fst (take (length (filter (\<lambda>e. fst e < b) adds)) adds)"
  using assms
proof (induction adds)
  case (Cons x adds)
  show ?case
  proof (cases "fst x < b")
    case False
    then have "filter (\<lambda>e. fst e < b) adds = []" using Cons.prems by (fastforce simp: filter_empty_conv)
    then show ?thesis using False by simp
  qed (use Cons in simp)
qed simp

lemma last_take_fst:
  assumes "k \<le> length adds" and "k \<noteq> 0"
  shows "last (map fst (take k adds)) = fst (adds ! (k - 1))" "map fst (take k adds) \<noteq> []" "k - 1 < length adds"
proof -
  show "map fst (take k adds) \<noteq> []" "k - 1 < length adds" using assms by auto
  then show "last (map fst (take k adds)) = fst (adds ! (k - 1))" using assms by (simp add: last_conv_nth)
qed

lemma dcs_inv_index:
  assumes "dcs_inv chainId adds dcw"
  shows "let k = length (filter (\<lambda>e. fst e < b) adds); (name, num) = getDataCompressorIndex b dcw in
    if k = 0 then name = '''' else name = dc_key chainId (k - 1) \<and> (num, getDCAddr num dcw) = adds ! (k - 1) \<and> num < b"
proof -
  let ?k = "length (filter (\<lambda>e. fst e < b) adds)"
  have k: "?k \<le> length adds" by simp
  have nums: "takeWhile (\<lambda>n. n < b) (DCBlockNum dcw) = map fst (take ?k adds)"
    using assms filter_sorted_prefix by (simp add: dcs_inv_def)
  show ?thesis
  proof (cases "?k = 0")
    case True
    then show ?thesis using nums by (simp add: getDataCompressorIndex_def Let_def)
  next
    case False
    then have l: "last (map fst (take ?k adds)) = fst (adds ! (?k - 1))" "map fst (take ?k adds) \<noteq> []" "?k - 1 < length adds"
      using last_take_fst[OF k] by simp_all
    have "fst (adds ! (?k - 1)) < b" using l nums by (metis last_in_set set_takeWhileD)
    then show ?thesis using assms False l unfolding dcs_inv_def getDataCompressorIndex_def Let_def nums
      by (simp add: getDCAddr_def prod_eq_iff)
  qed
qed

text \<open>
  Compressors that were added one after the other and saved in the details of the address provider come back after a restart as they
  were, in whatever order the object is read; and for every block, before and after, the wrapper chooses the last compressor
  deployed before it, with its own address and the version that belongs to its place.
\<close>

theorem compressors_survive_restart:
  assumes "add_dcs chainId adds NewDataCompressorWrapper = Inr dcw" and "saved_dcs adds dcMap"
    and "\<forall>(b, _) \<in> set adds. - (2 ^ 63) \<le> b \<and> b < 2 ^ 63"
  shows "LoadMultipleDC chainId (JMap dcMap) NewDataCompressorWrapper = Inr dcw \<and>
    (let k = length (filter (\<lambda>e. fst e < b) adds); (name, num) = getDataCompressorIndex b dcw in
     if k = 0 then name = '''' else name = dc_key chainId (k - 1) \<and> (num, getDCAddr num dcw) = adds ! (k - 1) \<and> num < b)"
proof -
  have inv: "dcs_inv chainId adds dcw" by (rule add_dcs_inv) (rule assms(1))
  then have "LoadMultipleDC chainId (JMap dcMap) NewDataCompressorWrapper = add_dcs chainId adds NewDataCompressorWrapper"
    using assms(2,3) by (intro load_saved) (simp_all add: dcs_inv_def)
  then show ?thesis using assms(1) dcs_inv_index[OF inv] by simp
qed

section \<open>Masks\<close>

lemma mask_enabled_snoc: "mask_enabled (s @ [c]) 0 \<longleftrightarrow> c = CHR ''1''" "mask_enabled (s @ [c]) (Suc i) \<longleftrightarrow> mask_enabled s i"
  by (auto simp: mask_enabled_def nth_append)

lemma mask_enabled_binary: "mask_enabled (binary n) i \<longleftrightarrow> bit n i"
proof (induction n arbitrary: i rule: binary.induct)
  case (1 n)
  show ?case
  proof (cases "n < 2")
    case True
    then have "n = 0 \<or> n = 1" by auto
    then show ?thesis by (cases i) (auto simp: binary.simps[of n] mask_enabled_def bit_Suc bit_0)
  next
    case False
    then have n: "binary n = binary (n div 2) @ [if n mod 2 = 1 then CHR ''1'' else CHR ''0'']" by (simp add: binary.simps[of n])
    show ?thesis
    proof (cases i)
      case 0
      then show ?thesis by (simp add: n mask_enabled_snoc bit_0 odd_iff_mod_2_eq_one)
    next
      case (Suc j)
      then show ?thesis using 1[OF False, of j] by (simp add: n mask_enabled_snoc bit_Suc)
    qed
  qed
qed

text \<open>
  The account of a version 1 manager keeps its tokens and balances in order, and the token at a position is enabled
  exactly if the bit of that position is set in the mask that the filter of the manager reports for the account.
\<close>

theorem v1_account_enabled_bits:
  assumes "v1_getCreditAccountData E blockNum d dcw = Inr a"
  shows "\<exists>msk. getMask E blockNum (zget ZERO_ADDR (creditManagerToFilter dcw) (acc_CreditManager d)) (acc_Addr d) = Inr msk \<and>
    length (v2_Balances a) = length (v1_Balances d) \<and>
    (\<forall>i < length (v1_Balances d). v1_balance.truncate (v2_Balances a ! i) = v1_Balances d ! i \<and>
      v2b_IsEnabled (v2_Balances a ! i) = bit (nat msk) i)"
proof -
  from assms obtain msk where msk: "getMask E blockNum (zget ZERO_ADDR (creditManagerToFilter dcw) (acc_CreditManager d)) (acc_Addr d) = Inr msk"
    "v2_Balances a = convertTodcv2Balance (v1_Balances d) msk"
    by (auto simp: v1_getCreditAccountData_def Let_def elim!: rbind_InrE)
  then show ?thesis
    by (intro exI[of _ msk]) (simp add: convertTodcv2Balance_def nth_enumerate_eq mask_enabled_binary Let_def v1_balance.truncate_def)
qed

section \<open>Balances asked one by one\<close>

text \<open>If every call succeeds and the answers come in the order of the calls, the token of an account keeps its own balance and permission.\<close>

lemma balance_step_pairs:
  assumes "\<forall>t \<in> set tokens. Unpack_int E (bal t) = Inr (amount t) \<and> Unpack_bool E (alw t) = Inr (isAllowed t)"
  shows "rfold (balance_step E (pre @ tokens))
      (List.enumerate (2 * length pre) (concat (map (\<lambda>t. [\<lparr>mc_Success = True, mc_ReturnData = bal t\<rparr>, \<lparr>mc_Success = True, mc_ReturnData = alw t\<rparr>]) tokens)))
      (b0, acc) =
    Inr (if tokens = [] then b0 else Some (amount (last tokens)),
      acc @ map (\<lambda>t. \<lparr>v1b_Token = t, v1b_Balance = amount t, v1b_IsAllowed = isAllowed t, v2b_IsEnabled = False\<rparr>) tokens)"
  using assms
proof (induction tokens arbitrary: pre b0 acc)
  case (Cons t tokens)
  have "go_index (pre @ t # tokens) (int ((2 * length pre + 1) div 2)) = Inr t" by (simp add: go_index_def nth_append)
  moreover have "(2 * length pre + 1) mod 2 = (1::nat)" by simp
  ultimately show ?case using Cons.IH[of "pre @ [t]" "Some (amount t)"] Cons.prems
    by (simp add: balance_step_def)
qed simp

section \<open>A concrete wrapper\<close>

theorem compressors_survive_restart_witness:
  "\<exists>dcw. LoadMultipleDC 1 (JMap [(''-7'', JString ''b''), (''-10'', JString ''a''), (''100'', JString ''c'')]) NewDataCompressorWrapper = Inr dcw \<and>
    getDataCompressorIndex 100 dcw = (DCV2, -7) \<and> getDCAddr (-7) dcw = ''b''"
proof -
  let ?adds = "[(-10, ''a''), (-7, ''b''), (100, ''c'')] :: (int \<times> address) list"
  obtain dcw where dcw: "add_dcs 1 ?adds NewDataCompressorWrapper = Inr dcw"
    by (simp add: addDataCompressor_def NewDataCompressorWrapper_def)
  have "saved_dcs ?adds [(''-7'', JString ''b''), (''-10'', JString ''a''), (''100'', JString ''c'')]"
    by (simp add: saved_dcs_def int_String_def hex_digits_def)
  from compressors_survive_restart[OF dcw this, of 100]
  have r: "LoadMultipleDC 1 (JMap [(''-7'', JString ''b''), (''-10'', JString ''a''), (''100'', JString ''c'')]) NewDataCompressorWrapper = Inr dcw"
    and i: "case getDataCompressorIndex 100 dcw of (name, num) \<Rightarrow> name = dc_key 1 1 \<and> (num, getDCAddr num dcw) = (-7, ''b'')"
    by (auto simp: Let_def)
  have "getDataCompressorIndex 100 dcw = (dc_key 1 1, -7) \<and> getDCAddr (-7) dcw = ''b''"
    using i by (cases "getDataCompressorIndex 100 dcw") simp
  then show ?thesis using r by (simp add: dc_key_def)
qed

definition demo_dc :: dc_env where
  "demo_dc = \<lparr>getMask_call = (\<lambda>_ _ _. Inr [1, 5]), UnpackAccountV1 = (\<lambda>_. None), UnpackAccountV2 = (\<lambda>_. None), UnpackManagerV1 = (\<lambda>_. None),
     UnpackManagerV2 = (\<lambda>_. None), UnpackPoolV1 = (\<lambda>_. None), UnpackPoolV2 = (\<lambda>_. None), testing_Account = (\<lambda>_ _ _. Inl NilDereference),
     testing_Manager = (\<lambda>_ _. Inl NilDereference), testing_Pool = (\<lambda>_ _. Inl NilDereference)\<rparr>"

definition demo_v1_account :: v1_account where
  "demo_v1_account =
    \<lparr>acc_Addr = ''a'', acc_Borrower = ''b'', acc_InUse = True, acc_CreditManager = ''cm'', acc_Underlying = ''u'', acc_BorrowedAmountPlusInterest = 0,
     acc_TotalValue = 0, acc_HealthFactor = 0, acc_BorrowRate = 0, acc_RepayAmount = 0, acc_LiquidationAmount = 0, acc_CanBeClosed = False,
     acc_BorrowedAmount = 0, acc_CumulativeIndexAtOpen = 0, acc_Since = 0,
     v1_Balances = map (\<lambda>t. \<lparr>v1b_Token = t, v1b_Balance = 1, v1b_IsAllowed = True\<rparr>) [''t0'', ''t1'', ''t2'']\<rparr>"

theorem v1_account_enabled_bits_witness:
  "\<exists>a. v1_getCreditAccountData demo_dc 5 demo_v1_account NewDataCompressorWrapper = Inr a \<and> map v2b_IsEnabled (v2_Balances a) = [True, False, True]"
proof -
  obtain a where a: "v1_getCreditAccountData demo_dc 5 demo_v1_account NewDataCompressorWrapper = Inr a"
    by (simp add: v1_getCreditAccountData_def demo_dc_def getMask_def)
  have msk: "getMask demo_dc 5 c f = Inr 261" for c f by (simp add: getMask_def demo_dc_def SetBytes_def)
  have bits: "\<forall>i < 3. v2b_IsEnabled (v2_Balances a ! i) = bit (261 :: nat) i" and len: "length (v2_Balances a) = 3"
    using v1_account_enabled_bits[OF a, unfolded msk] by (fastforce simp: demo_v1_account_def)+
  obtain x y z where bals: "v2_Balances a = [x, y, z]" using len by (auto simp: numeral_3_eq_3 length_Suc_conv)
  have "v2b_IsEnabled x = bit (261 :: nat) 0" "v2b_IsEnabled y = bit (261 :: nat) 1" "v2b_IsEnabled z = bit (261 :: nat) 2"
    using bits[rule_format, of 0] bits[rule_format, of 1] bits[rule_format, of 2] unfolding bals by simp_all
  then have "map v2b_IsEnabled (v2_Balances a) = [True, False, True]" unfolding bals by simp
  then show ?thesis by (intro exI[of _ a] conjI a)
qed

end
