(* ===== verification/Adapter_Repo.thy ===== *)
theory Adapter_Repo
  imports Sync_Wrapper Query_Feeds DC_Wrapper
begin

text \<open>
  The adapters of the repository (\<^verbatim>\<open>repository/handlers/kit_handler.go\<close>, \<^verbatim>\<open>repository/handlers/sync_adapters.go\<close>) and the
  constructors of the four wrappers: where a new adapter goes, how it is found again, what is saved, and which price oracle
  answers for a block.  Adapters are objects named by their address, feeds of the aggregated feed are named by theirs.
\<close>

section \<open>State\<close>

record 'r adapters_repo =
  ar_world :: "'r sync_world"
  ar_feeds :: aqf_world                       \<comment> \<open>\<^verbatim>\<open>aggregatedBlockFeed\<close>\<close>
  nameToAddr :: "string \<Rightarrow> address list"      \<comment> \<open>of the admin wrapper\<close>
  ar_dc :: dc_wrapper
  rollbackAllowed :: bool

datatype adapter_obj = AdapterObj sync_adapter | FeedObj query_feed

datatype adapter_ref = Ref address | FeedRef address

definition obj_state :: "adapter_obj \<Rightarrow> sync_adapter" where
  "obj_state obj = (case obj of AdapterObj a \<Rightarrow> a | FeedObj f \<Rightarrow> qf_adapter f)"

definition NewAdminWrapper :: sync_wrapper where
  "NewAdminWrapper = (NewSyncWrapper AdminWrapper)\<lparr>sw_ViaDataProcess := ViaLog\<rparr>"

definition NewCFWrapper :: sync_wrapper where
  "NewCFWrapper = (NewSyncWrapper CFWrapper)\<lparr>sw_ViaDataProcess := ViaLog\<rparr>"

definition NewCMWrapper :: sync_wrapper where
  "NewCMWrapper = (NewSyncWrapper CMWrapper)\<lparr>sw_ViaDataProcess := ViaMultipleLogs\<rparr>"

definition NewPoolWrapper :: sync_wrapper where
  "NewPoolWrapper = (NewSyncWrapper PoolWrapper)\<lparr>sw_ViaDataProcess := ViaMultipleLogs\<rparr>"

definition wrapper_names :: "string list" where
  "wrapper_names = [AggregatedQueryFeedWrapper, AdminWrapper, CFWrapper, CMWrapper, PoolWrapper]"

definition NewAdapterKitHandler :: "'r \<Rightarrow> aqf_world \<Rightarrow> bool \<Rightarrow> 'r adapters_repo res" where
  "NewAdapterKitHandler r feeds rollback =
    rbind (rfold (\<lambda>name. kit_Add name name name) wrapper_names NewAdapterKit) (\<lambda>kit.
      Inr \<lparr>ar_world = \<lparr>heap = (\<lambda>_. aqf_adapter feeds), wrappers = [AdminWrapper \<mapsto> NewAdminWrapper, CFWrapper \<mapsto> NewCFWrapper,
             CMWrapper \<mapsto> NewCMWrapper, PoolWrapper \<mapsto> NewPoolWrapper], world_kit = kit, pauses = [], repo = r\<rparr>,
           ar_feeds = feeds, nameToAddr = (\<lambda>_. []), ar_dc = NewDataCompressorWrapper, rollbackAllowed = rollback\<rparr>)"

section \<open>Where an adapter goes\<close>

definition put_adapter :: "sync_adapter \<Rightarrow> 'r adapters_repo \<Rightarrow> 'r adapters_repo" where
  "put_adapter a r = r\<lparr>ar_world := upd_adapter (Address a) (\<lambda>_. a) (ar_world r)\<rparr>"

definition wrapper_AddSyncAdapter :: "string \<Rightarrow> sync_adapter \<Rightarrow> 'r adapters_repo \<Rightarrow> 'r adapters_repo res" where
  "wrapper_AddSyncAdapter name a r =
    rbind (deref (wrappers (ar_world r) name)) (\<lambda>s.
    rbind (sw_AddSyncAdapter a s) (\<lambda>s'.
      Inr (put_adapter a (r\<lparr>ar_world := (ar_world r)\<lparr>wrappers := (wrappers (ar_world r))(name \<mapsto> s')\<rparr>\<rparr>))))"

definition admin_AddSyncAdapter :: "sync_adapter \<Rightarrow> 'r adapters_repo \<Rightarrow> 'r adapters_repo res" where
  "admin_AddSyncAdapter a r =
    wrapper_AddSyncAdapter AdminWrapper a
      (r\<lparr>nameToAddr := (nameToAddr r)(ContractName a := nameToAddr r (ContractName a) @ [Address a])\<rparr>)"

definition admin_names :: "string list" where
  "admin_names = [ContractRegister, ACL, AccountFactory, GearToken]"

definition kit_AddSyncAdapter :: "sync_adapter \<Rightarrow> 'r adapters_repo \<Rightarrow> 'r adapters_repo res" where
  "kit_AddSyncAdapter a r =
    rbind (kit_Add (ContractName a) (Address a) (Address a) (world_kit (ar_world r))) (\<lambda>kit.
      Inr (put_adapter a (r\<lparr>ar_world := (ar_world r)\<lparr>world_kit := kit\<rparr>\<rparr>)))"

definition addSyncAdapter :: "adapter_obj \<Rightarrow> 'r adapters_repo \<Rightarrow> 'r adapters_repo res" where
  "addSyncAdapter obj r =
    (let a = obj_state obj; name = ContractName a in
     if name = QueryPriceFeed then
       (case obj of FeedObj f \<Rightarrow> Inr (r\<lparr>ar_feeds := AddYearnFeed f (ar_feeds r)\<rparr>)
        | AdapterObj _ \<Rightarrow> Inl (Fatal ''Failed in parsing yearn feed for aggregated yearn feed''))
     else if name \<in> set admin_names then admin_AddSyncAdapter a r
     else if name = CreditFilter \<or> name = CreditConfigurator then wrapper_AddSyncAdapter CFWrapper a r
     else if name = CreditManager then wrapper_AddSyncAdapter CMWrapper a r
     else if name = Pool then wrapper_AddSyncAdapter PoolWrapper a r
     else kit_AddSyncAdapter a r)"

section \<open>Finding adapters\<close>

definition wrapper_GetAdapter :: "string \<Rightarrow> address \<Rightarrow> 'r adapters_repo \<Rightarrow> adapter_ref option" where
  "wrapper_GetAdapter name addr r =
    (case wrappers (ar_world r) name of None \<Rightarrow> None | Some s \<Rightarrow> map_option Ref (om_Get (sw_Adapters s) addr))"

primrec first_some :: "'a option list \<Rightarrow> 'a option" where
  "first_some [] = None"
| "first_some (x # xs) = (case x of None \<Rightarrow> first_some xs | Some _ \<Rightarrow> x)"

definition feed_GetAdapter :: "address \<Rightarrow> 'r adapters_repo \<Rightarrow> adapter_ref option" where
  "feed_GetAdapter addr r =
    map_option (\<lambda>(k, _). FeedRef k) (find (\<lambda>(_, f). Address (qf_adapter f) = addr) (QueryFeeds (ar_feeds r)))"

definition GetAdapter :: "address \<Rightarrow> 'r adapters_repo \<Rightarrow> adapter_ref option" where
  "GetAdapter addr r =
    first_some [map_option Ref (kit_GetAdapter addr (world_kit (ar_world r))),
      wrapper_GetAdapter AdminWrapper addr r, wrapper_GetAdapter CFWrapper addr r, wrapper_GetAdapter CMWrapper addr r,
      wrapper_GetAdapter PoolWrapper addr r, feed_GetAdapter addr r]"

definition ref_state :: "adapter_ref \<Rightarrow> 'r adapters_repo \<Rightarrow> sync_adapter option" where
  "ref_state ref r =
    (case ref of Ref a \<Rightarrow> Some (heap (ar_world r) a) | FeedRef k \<Rightarrow> map_option qf_adapter (map_of (QueryFeeds (ar_feeds r)) k))"

definition wrapper_GetAdapters :: "string \<Rightarrow> 'r adapters_repo \<Rightarrow> adapter_ref list" where
  "wrapper_GetAdapters name r =
    (case wrappers (ar_world r) name of None \<Rightarrow> [] | Some s \<Rightarrow> map Ref (om_GetAll (sw_Adapters s)))"

definition GetAdaptersFromWrapper :: "'r adapters_repo \<Rightarrow> adapter_ref list" where
  "GetAdaptersFromWrapper r =
    map (\<lambda>(k, _). FeedRef k) (QueryFeeds (ar_feeds r)) @
    concat (map (\<lambda>name. wrapper_GetAdapters name r) [AdminWrapper, CFWrapper, CMWrapper, PoolWrapper])"

definition GetYearnFeedAddrs :: "'r adapters_repo \<Rightarrow> address list" where
  "GetYearnFeedAddrs r = map (\<lambda>(_, f). Address (qf_adapter f)) (QueryFeeds (ar_feeds r))"

definition ar_GetAdapterAddressByName :: "string \<Rightarrow> 'r adapters_repo \<Rightarrow> address list res" where
  "ar_GetAdapterAddressByName name r =
    (if name = CreditManager then
       rbind (deref (wrappers (ar_world r) CMWrapper)) (\<lambda>s. Inr (GetUnderlyingAdapterAddrs s (ar_world r)))
     else if name \<in> set admin_names then Inr (nameToAddr r name)
     else kit_GetAdapterAddressByName name (world_kit (ar_world r)))"

section \<open>New adapters\<close>

text \<open>A new price oracle disables the ones before it from its block on.\<close>

definition disable_oracle :: "int \<Rightarrow> address \<Rightarrow> 'r adapters_repo \<Rightarrow> 'r adapters_repo res" where
  "disable_oracle discoveredAt addr r =
    rbind (deref (GetAdapter addr r)) (\<lambda>ref.
      case ref of
        Ref a \<Rightarrow>
          if Disabled (heap (ar_world r) a) then Inr r
          else Inr (r\<lparr>ar_world := upd_adapter a (sa_SetBlockToDisableOn discoveredAt) (ar_world r)\<rparr>)
      | FeedRef k \<Rightarrow>
          Inr (r\<lparr>ar_feeds := (ar_feeds r)\<lparr>QueryFeeds := map (\<lambda>(k', f).
            (k', if k' = k \<and> \<not> Disabled (qf_adapter f) then f\<lparr>qf_adapter := sa_SetBlockToDisableOn discoveredAt (qf_adapter f)\<rparr> else f))
            (QueryFeeds (ar_feeds r))\<rparr>\<rparr>))"

definition AddSyncAdapter :: "adapter_obj \<Rightarrow> 'r adapters_repo \<Rightarrow> 'r adapters_repo res" where
  "AddSyncAdapter obj r =
    (if rollbackAllowed r then Inr r
     else rbind (if ContractName (obj_state obj) = PriceOracle
                 then rbind (kit_GetAdapterAddressByName PriceOracle (world_kit (ar_world r))) (\<lambda>oldPriceOracleAddrs.
                      rfold (disable_oracle (DiscoveredAt (obj_state obj))) oldPriceOracleAddrs r)
                 else Inr r) (addSyncAdapter obj))"

text \<open>
  Adapters loaded from the database.  The constructors of the contract types are those of their theories; here they are an argument,
  and what matters is what the repository does besides.
\<close>

definition plain_names :: "string list" where
  "plain_names = [ACL, PoolLMRewards, AccountFactory, Pool, CreditManager, PriceOracle, ChainlinkPriceFeed, CompositeChainlinkPF,
     QueryPriceFeed, ContractRegister, GearToken, Treasury, RebaseToken, AccountManager, CreditConfigurator]"

definition PrepareSyncAdapter ::
  "int \<Rightarrow> (sync_adapter \<Rightarrow> adapter_obj res) \<Rightarrow> sync_adapter \<Rightarrow> 'r adapters_repo \<Rightarrow> (adapter_obj option \<times> 'r adapters_repo) res" where
  "PrepareSyncAdapter chainId fromAdapter a r =
    (let detail = (\<lambda>k. case Details a of None \<Rightarrow> None | Some d \<Rightarrow> (case map_of d k of Some JNull \<Rightarrow> None | v \<Rightarrow> v));
         built = rbind (fromAdapter a) (\<lambda>obj. Inr (Some obj, r))
     in if ContractName a = AddressProvider then
          rbind (fromAdapter a) (\<lambda>ap.
            case detail ''dc'' of
              None \<Rightarrow> Inr (Some ap, r)
            | Some dcs \<Rightarrow> rbind (LoadMultipleDC chainId dcs (ar_dc r)) (\<lambda>dc. Inr (Some ap, r\<lparr>ar_dc := dc\<rparr>)))
        else if ContractName a \<in> set plain_names then built
        else if ContractName a = CreditFilter then
          (case detail ''creditManager'' of
             None \<Rightarrow> Inl (Fatal ''Credit filter doesn't have credit manager'')
           | Some (JString cmAddr) \<Rightarrow>
               rbind (fromAdapter a) (\<lambda>cf. Inr (Some cf, r\<lparr>ar_dc := AddCreditManagerToFilter cmAddr (Address a) (ar_dc r)\<rparr>))
           | Some _ \<Rightarrow> Inl (Panic ''interface conversion''))
        else Inr (None, r))"

definition LoadSyncAdapters ::
  "int \<Rightarrow> (sync_adapter \<Rightarrow> adapter_obj res) \<Rightarrow> sync_adapter list \<Rightarrow> 'r adapters_repo \<Rightarrow> 'r adapters_repo res" where
  "LoadSyncAdapters chainId fromAdapter loaded r =
    rfold (\<lambda>a r. rbind (PrepareSyncAdapter chainId fromAdapter a r) (\<lambda>(p, r').
      rbind (deref p) (\<lambda>obj. addSyncAdapter obj r'))) loaded r"

section \<open>The price oracle of a block\<close>

text \<open>\<open>MoreThan\<close> is the comparison of versions of the sdk.\<close>

definition active_oracle_step ::
  "(int \<Rightarrow> int \<Rightarrow> bool) \<Rightarrow> int \<Rightarrow> 'r adapters_repo \<Rightarrow> address \<Rightarrow> int \<times> address \<times> int \<Rightarrow> (int \<times> address \<times> int) res" where
  "active_oracle_step MoreThan blockNum r addr = (\<lambda>(latestBlock, latestOracle, version).
    rbind (deref (Option.bind (GetAdapter addr r) (\<lambda>ref. ref_state ref r))) (\<lambda>oracleAdapter.
      let found = DiscoveredAt oracleAdapter in
      if found \<le> blockNum \<and> (latestBlock < found \<or> latestBlock = found \<and> MoreThan (V oracleAdapter) version)
      then Inr (found, addr, V oracleAdapter) else Inr (latestBlock, latestOracle, version)))"

text \<open>The oracle, its version and whether there was an error.\<close>

definition GetActivePriceOracleByBlockNum :: "(int \<Rightarrow> int \<Rightarrow> bool) \<Rightarrow> int \<Rightarrow> 'r adapters_repo \<Rightarrow> (address \<times> int \<times> bool) res" where
  "GetActivePriceOracleByBlockNum MoreThan blockNum r =
    rbind (kit_GetAdapterAddressByName PriceOracle (world_kit (ar_world r))) (\<lambda>oracles.
    rbind (rfold (active_oracle_step MoreThan blockNum r) oracles (0, '''', 0)) (\<lambda>(_, latestOracle, version).
      Inr (latestOracle, version, latestOracle = '''')))"

section \<open>Saving\<close>

text \<open>
  \<^verbatim>\<open>Save\<close> collects the adapters it writes, with those that have a state of their own to write.
\<close>

definition obj_name :: "'r adapters_repo \<Rightarrow> address \<Rightarrow> string" where
  "obj_name r a = (if a \<in> set wrapper_names then a else ContractName (heap (ar_world r) a))"

definition save_one :: "(adapter_ref \<Rightarrow> bool) \<Rightarrow> adapter_ref \<Rightarrow> adapter_ref list \<times> adapter_ref list \<Rightarrow> adapter_ref list \<times> adapter_ref list" where
  "save_one hasState ref = (\<lambda>(adapters, states). (adapters @ [ref], if hasState ref then states @ [ref] else states))"

definition save_kit_obj ::
  "'r adapters_repo \<Rightarrow> (adapter_ref \<Rightarrow> bool) \<Rightarrow> address \<Rightarrow> adapter_ref list \<times> adapter_ref list \<Rightarrow> adapter_ref list \<times> adapter_ref list" where
  "save_kit_obj r hasState a acc = (if IsWrapperAdapter (obj_name r a) then acc else save_one hasState (Ref a) acc)"

definition save_level ::
  "nat \<Rightarrow> 'r adapters_repo \<Rightarrow> (adapter_ref \<Rightarrow> bool) \<Rightarrow> int \<Rightarrow> (adapter_ref list \<times> adapter_ref list) \<times> address adapter_kit \<Rightarrow>
    ((adapter_ref list \<times> adapter_ref list) \<times> address adapter_kit) res" where
  "save_level fuel r hasState lvlIndex = (\<lambda>(acc, kit).
    rbind (for_next fuel (\<lambda>(acc, kit). rbind (kit_Next lvlIndex kit) (\<lambda>(more, kit'). Inr (more, (acc, kit'))))
        (\<lambda>(acc, kit). rbind (rbind (kit_Get lvlIndex kit) deref) (\<lambda>a. Inr (save_kit_obj r hasState a acc, kit))) (acc, kit)) (\<lambda>(acc', kit').
    rbind (kit_Reset lvlIndex kit') (\<lambda>kit''. Inr (acc', kit''))))"

definition ar_Save :: "nat \<Rightarrow> (adapter_ref \<Rightarrow> bool) \<Rightarrow> 'r adapters_repo \<Rightarrow> ((adapter_ref list \<times> adapter_ref list) \<times> 'r adapters_repo) res" where
  "ar_Save fuel hasState r =
    rbind (rfold (save_level fuel r hasState) (map int [0..<nat (kit_len (world_kit (ar_world r)))]) (([], []), world_kit (ar_world r))) (\<lambda>(acc, kit).
      Inr (fold (save_one hasState) (GetAdaptersFromWrapper r) acc, r\<lparr>ar_world := (ar_world r)\<lparr>world_kit := kit\<rparr>\<rparr>))"

end
