(* ===== verification/Adapter_Repo_Correct.thy ===== *)
theory Adapter_Repo_Correct
  imports Adapter_Repo
begin

text \<open>
  Correctness of the adapter registry: it stays well-formed, a new adapter is found again where it was put and disturbs no other, every
  adapter is saved, and the price oracle of a block is the newest one known by then.
\<close>

section \<open>Well-formedness\<close>

definition wrapper_ok :: "sync_wrapper \<Rightarrow> bool" where
  "wrapper_ok s \<longleftrightarrow> distinct (om_GetAll (sw_Adapters s)) \<and> sw_ViaDataProcess s \<noteq> -1 \<and>
    (\<forall>a. om_Get (sw_Adapters s) a = (if a \<in> set (om_GetAll (sw_Adapters s)) then Some a else None))"

text \<open>
  The registry is well-formed if objects are stored under their own address, every wrapper is there, lists each of its adapters once and knows
  exactly those, the names of the admin wrapper list adapters it has, and feeds are stored under their address.
\<close>

definition registry_wf :: "'r adapters_repo \<Rightarrow> bool" where
  "registry_wf r \<longleftrightarrow> kit_reach (world_kit (ar_world r)) \<and>
    (\<forall>a b. addressMap (world_kit (ar_world r)) a = Some b \<longrightarrow> b = a) \<and>
    (\<forall>n \<in> {AdminWrapper, CFWrapper, CMWrapper, PoolWrapper}. \<exists>s. wrappers (ar_world r) n = Some s \<and> wrapper_ok s) \<and>
    (\<forall>n. \<forall>a \<in> set (nameToAddr r n). wrapper_GetAdapter AdminWrapper a r = Some (Ref a)) \<and>
    (\<forall>(k, f) \<in> set (QueryFeeds (ar_feeds r)). Address (qf_adapter f) = k)"

lemma sw_AddSyncAdapter_cases:
  assumes "sw_AddSyncAdapter a s = Inr s'"
  obtains addrs where "sa_GetAllAddrsForLogs a = Inr addrs" "sw_ViaDataProcess s \<noteq> -1"
    "s' = s\<lparr>sw_Adapters := om_Add (Address a) addrs (Address a) (sw_Adapters s), sw_lastSync := min (LastSync a) (sw_lastSync s)\<rparr>"
  using assms by (auto simp: sw_AddSyncAdapter_def elim!: rbind_InrE)

lemma om_Add_get: "om_Get (om_Add addr addrs v x) b = (if b = addr then Some v else om_Get x b)"
  by (simp add: om_Add_def om_Get_def Let_def)

lemma om_Add_all: "om_GetAll (om_Add addr addrs v x) = om_GetAll x @ (if om_Get x addr = None then [v] else [])"
  by (simp add: om_Add_def om_Get_def om_GetAll_def Let_def)

lemma sw_AddSyncAdapter_ok:
  assumes "sw_AddSyncAdapter a s = Inr s'" and "wrapper_ok s"
  shows "wrapper_ok s'"
proof -
  from assms(1) obtain addrs where s': "s' = s\<lparr>sw_Adapters := om_Add (Address a) addrs (Address a) (sw_Adapters s), sw_lastSync := min (LastSync a) (sw_lastSync s)\<rparr>"
    by (rule sw_AddSyncAdapter_cases)
  show ?thesis using assms(2) unfolding wrapper_ok_def s' by (simp add: om_Add_get om_Add_all)
qed

lemma wrapper_Add_cases:
  assumes "wrapper_AddSyncAdapter name a r = Inr r'"
  obtains s s' where "wrappers (ar_world r) name = Some s" "sw_AddSyncAdapter a s = Inr s'"
    "r' = put_adapter a (r\<lparr>ar_world := (ar_world r)\<lparr>wrappers := (wrappers (ar_world r))(name \<mapsto> s')\<rparr>\<rparr>)"
  using assms by (auto simp: wrapper_AddSyncAdapter_def elim!: rbind_InrE)

lemma put_adapter_fields [simp]:
  "wrappers (ar_world (put_adapter a r)) = wrappers (ar_world r)" "world_kit (ar_world (put_adapter a r)) = world_kit (ar_world r)"
  "nameToAddr (put_adapter a r) = nameToAddr r" "ar_feeds (put_adapter a r) = ar_feeds r"
  "heap (ar_world (put_adapter a r)) = (heap (ar_world r))(Address a := a)" "rollbackAllowed (put_adapter a r) = rollbackAllowed r"
  by (simp_all add: put_adapter_def upd_adapter_def)

text \<open>How a successful addition changes the registry, by the place it goes to.\<close>

lemma addSyncAdapter_cases:
  assumes "addSyncAdapter obj r = Inr r'"
  obtains (feed) f where "obj = FeedObj f" "r' = r\<lparr>ar_feeds := AddYearnFeed f (ar_feeds r)\<rparr>"
    | (wrapped) name s s' names where "name \<in> {AdminWrapper, CFWrapper, CMWrapper, PoolWrapper}"
        "wrappers (ar_world r) name = Some s" "sw_AddSyncAdapter (obj_state obj) s = Inr s'"
        "r' = put_adapter (obj_state obj) (r\<lparr>nameToAddr := names, ar_world := (ar_world r)\<lparr>wrappers := (wrappers (ar_world r))(name \<mapsto> s')\<rparr>\<rparr>)"
        "names = nameToAddr r \<or> name = AdminWrapper \<and> ContractName (obj_state obj) \<in> set admin_names \<and>
          names = (nameToAddr r)(ContractName (obj_state obj) := nameToAddr r (ContractName (obj_state obj)) @ [Address (obj_state obj)])"
    | (kit) kit where "ContractName (obj_state obj) \<notin> set admin_names" "ContractName (obj_state obj) \<notin> {QueryPriceFeed, CreditFilter, CreditConfigurator, CreditManager, Pool}"
        "kit_Add (ContractName (obj_state obj)) (Address (obj_state obj)) (Address (obj_state obj)) (world_kit (ar_world r)) = Inr kit"
        "r' = put_adapter (obj_state obj) (r\<lparr>ar_world := (ar_world r)\<lparr>world_kit := kit\<rparr>\<rparr>)"
proof -
  let ?a = "obj_state obj" let ?n = "ContractName ?a"
  have wrap: thesis if "wrapper_AddSyncAdapter name ?a r = Inr r'" "name \<in> {CFWrapper, CMWrapper, PoolWrapper}" for name
    using that(1)
  proof (cases rule: wrapper_Add_cases)
    case (1 s s')
    then show ?thesis using wrapped[of name s s' "nameToAddr r"] that(2) by simp
  qed
  consider "?n = QueryPriceFeed" | "?n \<in> set admin_names" "?n \<noteq> QueryPriceFeed" | "?n = CreditFilter \<or> ?n = CreditConfigurator" | "?n = CreditManager" | "?n = Pool"
    | "?n \<notin> set admin_names" "?n \<notin> {QueryPriceFeed, CreditFilter, CreditConfigurator, CreditManager, Pool}" by blast
  then show ?thesis
  proof cases
    case 1
    then show ?thesis using assms feed by (cases obj) (auto simp: addSyncAdapter_def Let_def)
  next
    case 2
    let ?names = "(nameToAddr r)(?n := nameToAddr r ?n @ [Address ?a])"
    have "wrapper_AddSyncAdapter AdminWrapper ?a (r\<lparr>nameToAddr := ?names\<rparr>) = Inr r'"
      using assms 2 by (simp add: addSyncAdapter_def admin_AddSyncAdapter_def Let_def)
    then show ?thesis
    proof (cases rule: wrapper_Add_cases)
      case (1 s s')
      then show ?thesis using wrapped[of AdminWrapper s s' ?names] 2 by simp
    qed
  next
    case 3
    then show ?thesis using assms by (intro wrap[of CFWrapper]) (auto simp: addSyncAdapter_def admin_names_def)
  next
    case 4
    then show ?thesis using assms by (intro wrap[of CMWrapper]) (auto simp: addSyncAdapter_def admin_names_def)
  next
    case 5
    then show ?thesis using assms by (intro wrap[of PoolWrapper]) (auto simp: addSyncAdapter_def admin_names_def)
  next
    case 6
    then have "kit_AddSyncAdapter ?a r = Inr r'" using assms by (simp add: addSyncAdapter_def Let_def)
    then show ?thesis using kit 6 by (auto simp: kit_AddSyncAdapter_def elim!: rbind_InrE)
  qed
qed

lemma kit_Add_map: "kit_Add name addr a kit = Inr kit' \<Longrightarrow> addressMap kit' = (addressMap kit)(addr \<mapsto> a)"
  by (auto simp: kit_Add_def Let_def elim!: rbind_InrE)

lemma wrapper_Get_upd:
  "wrapper_GetAdapter n b (put_adapter a (r\<lparr>nameToAddr := nm, ar_world := (ar_world r)\<lparr>wrappers := (wrappers (ar_world r))(name \<mapsto> s')\<rparr>\<rparr>)) =
    (if n = name then map_option Ref (om_Get (sw_Adapters s') b) else wrapper_GetAdapter n b r)"
  by (simp add: wrapper_GetAdapter_def)

lemma sw_AddSyncAdapter_get:
  assumes "sw_AddSyncAdapter a s = Inr s'"
  shows "om_Get (sw_Adapters s') b = (if b = Address a then Some (Address a) else om_Get (sw_Adapters s) b)"
  using assms by (auto simp: om_Add_get elim!: sw_AddSyncAdapter_cases)

lemma addSyncAdapter_wf:
  assumes "addSyncAdapter obj r = Inr r'" and "registry_wf r"
  shows "registry_wf r'"
  using assms(1)
proof (cases rule: addSyncAdapter_cases)
  case (feed f)
  have "set (AList.update k v al) \<subseteq> insert (k, v) (set al)" for k v and al :: "(address \<times> query_feed) list"
    by (induction al) auto
  then have "\<forall>(k, g) \<in> set (QueryFeeds (ar_feeds r')). Address (qf_adapter g) = k"
    using assms(2) unfolding registry_wf_def feed(2) AddYearnFeed_def by fastforce
  then show ?thesis using assms(2) feed(2) by (simp add: registry_wf_def wrapper_GetAdapter_def)
next
  case (wrapped name s s' names)
  let ?a = "obj_state obj"
  have ok: "wrapper_ok s" using assms(2) wrapped(1,2) unfolding registry_wf_def by fastforce
  have ok': "wrapper_ok s'" by (rule sw_AddSyncAdapter_ok[OF wrapped(3) ok])
  have get: "wrapper_GetAdapter AdminWrapper b r' = Some (Ref b)"
    if "wrapper_GetAdapter AdminWrapper b r = Some (Ref b) \<or> name = AdminWrapper \<and> b = Address ?a" for b
    using that wrapped(2) unfolding wrapped(4) wrapper_Get_upd sw_AddSyncAdapter_get[OF wrapped(3)]
    by (auto simp: wrapper_GetAdapter_def)
  have names: "wrapper_GetAdapter AdminWrapper b r = Some (Ref b) \<or> name = AdminWrapper \<and> b = Address ?a" if "b \<in> set (names n)" for n b
    using that wrapped(5) assms(2) unfolding registry_wf_def by (auto split: if_splits)
  have w: "\<exists>t. wrappers (ar_world r') n = Some t \<and> wrapper_ok t" if "n \<in> {AdminWrapper, CFWrapper, CMWrapper, PoolWrapper}" for n
    using that ok' assms(2) unfolding registry_wf_def wrapped(4) by (cases "n = name") auto
  show ?thesis using assms(2) get names w unfolding registry_wf_def
    by (simp add: wrapped(4))
next
  case (kit kit)
  have "kit_reach kit" using assms(2) kit(3) by (auto simp: registry_wf_def intro: kit_reach.add)
  then show ?thesis using assms(2) kit_Add_map[OF kit(3)] unfolding registry_wf_def
    by (auto simp: kit(4) wrapper_GetAdapter_def)
qed

lemma upd_adapter_registry:
  "registry_wf (r\<lparr>ar_world := upd_adapter a f (ar_world r)\<rparr>) = registry_wf r"
  "GetAdapter b (r\<lparr>ar_world := upd_adapter a f (ar_world r)\<rparr>) = GetAdapter b r"
  by (simp_all add: registry_wf_def wrapper_GetAdapter_def GetAdapter_def feed_GetAdapter_def upd_adapter_def)

lemma first_some_eq: "first_some xs = Some x \<Longrightarrow> Some x \<in> set xs"
  by (induction xs) (auto split: option.splits)

lemma feed_GetAdapter_ref: "feed_GetAdapter a r \<noteq> Some (Ref b)"
  by (auto simp: feed_GetAdapter_def)

text \<open>What well-formedness and lookup depend on.\<close>

lemma registry_cong:
  assumes "world_kit (ar_world r') = world_kit (ar_world r)" and "wrappers (ar_world r') = wrappers (ar_world r)"
  shows "nameToAddr r' = nameToAddr r \<Longrightarrow>
      (\<forall>(k, f) \<in> set (QueryFeeds (ar_feeds r')). Address (qf_adapter f) = k) = (\<forall>(k, f) \<in> set (QueryFeeds (ar_feeds r)). Address (qf_adapter f) = k) \<Longrightarrow>
      registry_wf r' = registry_wf r"
    and "feed_GetAdapter b r' = feed_GetAdapter b r \<Longrightarrow> GetAdapter b r' = GetAdapter b r"
  using assms by (simp_all add: registry_wf_def wrapper_GetAdapter_def GetAdapter_def)

lemma find_map_addr:
  assumes "\<And>k f. fst (g (k, f)) = k \<and> Address (qf_adapter (snd (g (k, f)))) = Address (qf_adapter f)"
  shows "map_option fst (find (\<lambda>e. Address (qf_adapter (snd e)) = b) (map g fs)) = map_option fst (find (\<lambda>e. Address (qf_adapter (snd e)) = b) fs)"
  using assms by (induction fs) (auto simp: split_paired_all)

lemma feed_GetAdapter_fst:
  "feed_GetAdapter b r = map_option FeedRef (map_option fst (find (\<lambda>e. Address (qf_adapter (snd e)) = b) (QueryFeeds (ar_feeds r))))"
  by (simp add: feed_GetAdapter_def case_prod_unfold option.map_comp comp_def)

lemma disable_oracle_cases:
  assumes "disable_oracle n a r = Inr r'"
  obtains (same) "r' = r"
    | (obj) c where "GetAdapter a r = Some (Ref c)" "\<not> Disabled (heap (ar_world r) c)"
        "r' = r\<lparr>ar_world := upd_adapter c (sa_SetBlockToDisableOn n) (ar_world r)\<rparr>"
    | (feed) k where "GetAdapter a r = Some (FeedRef k)" "r' = r\<lparr>ar_feeds := (ar_feeds r)\<lparr>QueryFeeds := map (\<lambda>(k', f).
            (k', if k' = k \<and> \<not> Disabled (qf_adapter f) then f\<lparr>qf_adapter := sa_SetBlockToDisableOn n (qf_adapter f)\<rparr> else f))
            (QueryFeeds (ar_feeds r))\<rparr>\<rparr>"
proof -
  from assms obtain ref where ref: "GetAdapter a r = Some ref" by (auto simp: disable_oracle_def elim!: rbind_InrE)
  show thesis
  proof (cases ref)
    case (Ref c)
    show ?thesis
    proof (cases "Disabled (heap (ar_world r) c)")
      case True
      then have "r' = r" using assms ref Ref by (simp add: disable_oracle_def)
      then show ?thesis by (rule same)
    next
      case False
      then have "r' = r\<lparr>ar_world := upd_adapter c (sa_SetBlockToDisableOn n) (ar_world r)\<rparr>"
        using assms ref Ref by (simp add: disable_oracle_def)
      with ref Ref False show ?thesis by (intro obj) simp_all
    qed
  next
    case (FeedRef k)
    then have "disable_oracle n a r = Inr (r\<lparr>ar_feeds := (ar_feeds r)\<lparr>QueryFeeds := map (\<lambda>(k', f).
            (k', if k' = k \<and> \<not> Disabled (qf_adapter f) then f\<lparr>qf_adapter := sa_SetBlockToDisableOn n (qf_adapter f)\<rparr> else f))
            (QueryFeeds (ar_feeds r))\<rparr>\<rparr>)" using ref by (simp add: disable_oracle_def)
    with ref FeedRef assms show ?thesis by (intro feed[of k]) simp_all
  qed
qed

lemma disable_oracle_wf:
  assumes "disable_oracle n a r = Inr r'"
  shows "registry_wf r' = registry_wf r \<and> GetAdapter b r' = GetAdapter b r \<and> world_kit (ar_world r') = world_kit (ar_world r)"
  using assms
proof (cases rule: disable_oracle_cases)
  case (obj c)
  then show ?thesis by (simp add: upd_adapter_registry) (simp add: upd_adapter_def)
next
  case (feed k)
  let ?g = "\<lambda>(k', f). (k', if k' = k \<and> \<not> Disabled (qf_adapter f) then f\<lparr>qf_adapter := sa_SetBlockToDisableOn n (qf_adapter f)\<rparr> else f)"
  have q: "QueryFeeds (ar_feeds r') = map ?g (QueryFeeds (ar_feeds r))" by (simp add: feed(2))
  have "feed_GetAdapter b r' = feed_GetAdapter b r"
    unfolding feed_GetAdapter_fst q by (subst find_map_addr) (simp_all add: sa_SetBlockToDisableOn_def)
  moreover have "(\<forall>(k, f) \<in> set (QueryFeeds (ar_feeds r')). Address (qf_adapter f) = k) =
      (\<forall>(k, f) \<in> set (QueryFeeds (ar_feeds r)). Address (qf_adapter f) = k)"
    unfolding q by (simp add: case_prod_unfold sa_SetBlockToDisableOn_def if_distrib[of qf_adapter] if_distrib[of Address])
      (auto 0 3)
  ultimately show ?thesis using registry_cong[of r' r] feed(2) by simp
qed simp

lemma disable_oracles_keep:
  assumes "rfold (disable_oracle n) as r = Inr r'"
  shows "registry_wf r' = registry_wf r \<and> (\<forall>b. GetAdapter b r' = GetAdapter b r) \<and> world_kit (ar_world r') = world_kit (ar_world r)"
  by (rule rfold_invariant[OF assms]) (use disable_oracle_wf in fastforce)+

lemma AddSyncAdapter_cases:
  assumes "AddSyncAdapter obj r = Inr r'"
  obtains (rollback) "rollbackAllowed r" "r' = r"
    | (add) r1 as where "\<not> rollbackAllowed r" "addSyncAdapter obj r1 = Inr r'" "rfold (disable_oracle (DiscoveredAt (obj_state obj))) as r = Inr r1"
        "if ContractName (obj_state obj) = PriceOracle then kit_GetAdapterAddressByName PriceOracle (world_kit (ar_world r)) = Inr as else as = []"
proof (cases "rollbackAllowed r")
  case True
  then have "r' = r" using assms by (simp add: AddSyncAdapter_def)
  with True show ?thesis by (rule rollback)
next
  case False
  show ?thesis
  proof (cases "ContractName (obj_state obj) = PriceOracle")
    case True
    from assms obtain as r1 where "kit_GetAdapterAddressByName PriceOracle (world_kit (ar_world r)) = Inr as"
      "rfold (disable_oracle (DiscoveredAt (obj_state obj))) as r = Inr r1" "addSyncAdapter obj r1 = Inr r'"
      unfolding AddSyncAdapter_def if_not_P[OF False] if_P[OF True] by (elim rbind_InrE) blast
    then show ?thesis using False True by (intro add[of r1 as]) simp_all
  next
    case other: False
    then have "addSyncAdapter obj r = Inr r'" using assms False by (simp add: AddSyncAdapter_def)
    then show ?thesis using False other by (intro add[of r "[]"]) simp_all
  qed
qed

lemma AddSyncAdapter_wf: "AddSyncAdapter obj r = Inr r' \<Longrightarrow> registry_wf r \<Longrightarrow> registry_wf r'"
  by (erule AddSyncAdapter_cases) (auto dest: disable_oracles_keep intro: addSyncAdapter_wf)

lemma NewAdapterKitHandler_wf:
  assumes "NewAdapterKitHandler w feeds rb = Inr r" and "QueryFeeds feeds = []"
  shows "registry_wf r"
proof -
  from assms(1) obtain kit where kit: "rfold (\<lambda>name. kit_Add name name name) wrapper_names NewAdapterKit = Inr kit"
    and r: "wrappers (ar_world r) = [AdminWrapper \<mapsto> NewAdminWrapper, CFWrapper \<mapsto> NewCFWrapper, CMWrapper \<mapsto> NewCMWrapper, PoolWrapper \<mapsto> NewPoolWrapper]"
      "world_kit (ar_world r) = kit" "nameToAddr r = (\<lambda>_. [])" "ar_feeds r = feeds"
    by (auto simp: NewAdapterKitHandler_def elim!: rbind_InrE)
  have "addressMap (NewAdapterKit :: address adapter_kit) = Map.empty" by (simp add: NewAdapterKit_def kit_init_def kit_AddLevel_def Let_def)
  then have "kit_reach (NewAdapterKit :: address adapter_kit) \<and> (\<forall>a b. addressMap (NewAdapterKit :: address adapter_kit) a = Some b \<longrightarrow> b = a)"
    by (simp add: kit_reach.new)
  then have "kit_reach kit \<and> (\<forall>a b. addressMap kit a = Some b \<longrightarrow> b = a)"
    by (rule rfold_invariant[OF kit, where I = "\<lambda>k. kit_reach k \<and> (\<forall>a b. addressMap k a = Some b \<longrightarrow> b = a)"])
      (auto intro: kit_reach.add dest: kit_Add_map split: if_splits)
  moreover have "wrapper_ok NewAdminWrapper" "wrapper_ok NewCFWrapper" "wrapper_ok NewCMWrapper" "wrapper_ok NewPoolWrapper"
    by (simp_all add: wrapper_ok_def NewAdminWrapper_def NewCFWrapper_def NewCMWrapper_def NewPoolWrapper_def NewSyncWrapper_def
        NewOrderedMap_def om_GetAll_def om_Get_def)
  ultimately show ?thesis using assms(2) by (simp add: registry_wf_def r)
qed

text \<open>
  C14: The registry is well-formed after any additions to a new one: objects are stored under their own address, every
  wrapper lists each of its adapters once and finds exactly those, the lists by name hold adapters that are there,
  and feeds are stored under their address.
\<close>

theorem registry_stays_wf:
  assumes "NewAdapterKitHandler w feeds rollback = Inr r0" and "QueryFeeds feeds = []" and "rfold AddSyncAdapter objs r0 = Inr r"
  shows "registry_wf r"
  using NewAdapterKitHandler_wf[OF assms(1,2)]
  by (rule rfold_invariant[OF assms(3), where I = registry_wf]) (rule AddSyncAdapter_wf)

section \<open>Lookup\<close>

lemma feed_GetAdapter_wf:
  assumes "\<forall>(k, f) \<in> set fs. Address (qf_adapter f) = k" and "fs = QueryFeeds (ar_feeds r)"
  shows "feed_GetAdapter b r = (if b \<in> fst ` set fs then Some (FeedRef b) else None)"
proof -
  have "map_option fst (find (\<lambda>e. Address (qf_adapter (snd e)) = b) fs) = (if b \<in> fst ` set fs then Some b else None)"
    using assms(1)
  proof (induction fs)
    case (Cons e fs)
    then have e: "Address (qf_adapter (snd e)) = fst e" by (simp add: case_prod_unfold)
    show ?case
    proof (cases "fst e = b")
      case False
      then have "find (\<lambda>e. Address (qf_adapter (snd e)) = b) (e # fs) = find (\<lambda>e. Address (qf_adapter (snd e)) = b) fs" using e by simp
      then show ?thesis using Cons False by simp
    qed (use e in simp)
  qed simp
  then show ?thesis unfolding feed_GetAdapter_fst assms(2)[symmetric] by simp
qed

lemma first_some_None: "first_some xs = None \<longleftrightarrow> (\<forall>x \<in> set xs. x = None)"
  by (induction xs) (auto split: option.splits)

lemma addSyncAdapter_found:
  assumes "addSyncAdapter obj r = Inr r'" and "registry_wf r" and "GetAdapter (Address (obj_state obj)) r = None"
  shows "(\<exists>ref. GetAdapter (Address (obj_state obj)) r' = Some ref \<and> ref_state ref r' = Some (obj_state obj)) \<and>
    (\<forall>b. b \<noteq> Address (obj_state obj) \<longrightarrow> GetAdapter b r' = GetAdapter b r)"
  using assms(1)
proof (cases rule: addSyncAdapter_cases)
  case (feed f)
  let ?fs = "QueryFeeds (ar_feeds r)"
  have wf: "\<forall>(k, f) \<in> set ?fs. Address (qf_adapter f) = k" "\<forall>(k, f) \<in> set (QueryFeeds (ar_feeds r')). Address (qf_adapter f) = k"
    using assms(2) addSyncAdapter_wf[OF assms(1,2)] by (simp_all add: registry_wf_def)
  have fs: "fst ` set (QueryFeeds (ar_feeds r')) = insert (Address (qf_adapter f)) (fst ` set ?fs)"
    "map_of (QueryFeeds (ar_feeds r')) (Address (qf_adapter f)) = Some f"
    by (simp_all add: feed(2) AddYearnFeed_def)
  have get: "GetAdapter b r' = (case GetAdapter b (r\<lparr>ar_feeds := (ar_feeds r)\<lparr>QueryFeeds := []\<rparr>\<rparr>) of
      None \<Rightarrow> feed_GetAdapter b r' | Some ref \<Rightarrow> Some ref)" for b
    by (simp add: GetAdapter_def feed(2) wrapper_GetAdapter_def feed_GetAdapter_def split: option.splits)
  have get0: "GetAdapter b r = (case GetAdapter b (r\<lparr>ar_feeds := (ar_feeds r)\<lparr>QueryFeeds := []\<rparr>\<rparr>) of
      None \<Rightarrow> feed_GetAdapter b r | Some ref \<Rightarrow> Some ref)" for b
    by (simp add: GetAdapter_def wrapper_GetAdapter_def feed_GetAdapter_def split: option.splits)
  have none: "GetAdapter (Address (qf_adapter f)) (r\<lparr>ar_feeds := (ar_feeds r)\<lparr>QueryFeeds := []\<rparr>\<rparr>) = None"
    using assms(3) get0[of "Address (qf_adapter f)"] feed(1) by (simp add: obj_state_def split: option.splits)
  show ?thesis
    using none fs feed_GetAdapter_wf[OF wf(2) refl] feed_GetAdapter_wf[OF wf(1) refl] feed(1)
    by (simp add: get get0 ref_state_def obj_state_def split: option.split)
next
  case (wrapped name s s' names)
  let ?a = "obj_state obj"
  have none: "\<forall>x \<in> set [map_option Ref (kit_GetAdapter (Address ?a) (world_kit (ar_world r))), wrapper_GetAdapter AdminWrapper (Address ?a) r,
      wrapper_GetAdapter CFWrapper (Address ?a) r, wrapper_GetAdapter CMWrapper (Address ?a) r, wrapper_GetAdapter PoolWrapper (Address ?a) r,
      feed_GetAdapter (Address ?a) r]. x = None"
    using assms(3) unfolding GetAdapter_def first_some_None .
  have get: "wrapper_GetAdapter n b r' = (if n = name \<and> b = Address ?a then Some (Ref b) else wrapper_GetAdapter n b r)" for n b
    unfolding wrapped(4) wrapper_Get_upd sw_AddSyncAdapter_get[OF wrapped(3)] using wrapped(2) by (simp add: wrapper_GetAdapter_def)
  have rest: "feed_GetAdapter b r' = feed_GetAdapter b r" "world_kit (ar_world r') = world_kit (ar_world r)" "heap (ar_world r') (Address ?a) = ?a" for b
    by (simp_all add: wrapped(4) feed_GetAdapter_def)
  show ?thesis using wrapped(1) none by (auto simp: GetAdapter_def get rest ref_state_def)
next
  case (kit kit)
  let ?a = "obj_state obj"
  have "wrapper_GetAdapter n b r' = wrapper_GetAdapter n b r" "feed_GetAdapter b r' = feed_GetAdapter b r" "heap (ar_world r') (Address ?a) = ?a"
    "kit_GetAdapter b (world_kit (ar_world r')) = (if b = Address ?a then Some b else kit_GetAdapter b (world_kit (ar_world r)))" for n b
    using kit_Add_map[OF kit(3)] by (simp_all add: kit(4) wrapper_GetAdapter_def feed_GetAdapter_def kit_GetAdapter_def)
  then show ?thesis by (auto simp: GetAdapter_def ref_state_def)
qed

text \<open>
  C13: An adapter with a new address is found again by its address, in the state it was added with, whichever wrapper or level its type sends
  it to, and every other address leads where it led before.
\<close>

theorem AddSyncAdapter_found:
  assumes "AddSyncAdapter obj r = Inr r'" and "\<not> rollbackAllowed r" and "registry_wf r" and "GetAdapter (Address (obj_state obj)) r = None"
  shows "(\<exists>ref. GetAdapter (Address (obj_state obj)) r' = Some ref \<and> ref_state ref r' = Some (obj_state obj)) \<and>
    (\<forall>b. b \<noteq> Address (obj_state obj) \<longrightarrow> GetAdapter b r' = GetAdapter b r)"
  using assms(1)
proof (cases rule: AddSyncAdapter_cases)
  case rollback
  then show ?thesis using assms(2) by simp
next
  case (add r1 as)
  have keep: "registry_wf r1" "\<And>b. GetAdapter b r1 = GetAdapter b r" using disable_oracles_keep[OF add(3)] assms(3) by auto
  then show ?thesis using addSyncAdapter_found[OF add(2)] assms(4) by simp
qed

section \<open>Price oracles\<close>

text \<open>What the loop over the old oracles does to the objects.\<close>

lemma disable_oracle_heap:
  assumes "disable_oracle n a r = Inr r'" and "GetAdapter a r = Some (Ref a)"
  shows "heap (ar_world r') = (if Disabled (heap (ar_world r) a) then heap (ar_world r)
    else (heap (ar_world r))(a := sa_SetBlockToDisableOn n (heap (ar_world r) a)))"
  using assms by (cases "Disabled (heap (ar_world r) a)") (auto simp: disable_oracle_def upd_adapter_def)

lemma disable_oracles_heap:
  assumes "rfold (disable_oracle n) as r = Inr r'" and "\<forall>a \<in> set as. GetAdapter a r = Some (Ref a)"
  shows "heap (ar_world r') a = (if a \<in> set as \<and> \<not> Disabled (heap (ar_world r) a) then sa_SetBlockToDisableOn n (heap (ar_world r) a)
    else heap (ar_world r) a)"
  using assms
proof (induction as arbitrary: r)
  case (Cons b as)
  from Cons.prems(1) obtain r1 where r1: "disable_oracle n b r = Inr r1" "rfold (disable_oracle n) as r1 = Inr r'" by (auto elim: rbind_InrE)
  have "\<forall>a \<in> set as. GetAdapter a r1 = Some (Ref a)" using disable_oracle_wf[OF r1(1)] Cons.prems(2) by simp
  note IH = Cons.IH[OF r1(2) this]
  show ?case unfolding IH using disable_oracle_heap[OF r1(1)] Cons.prems(2)
    by (auto simp: sa_SetBlockToDisableOn_def)
qed simp

text \<open>Every address a level lists is that of an object.\<close>

lemma listed_adapter:
  assumes "registry_wf r" and "kit_GetAdapterAddressByName name (world_kit (ar_world r)) = Inr as" and "a \<in> set as"
  shows "GetAdapter a r = Some (Ref a)"
proof -
  let ?kit = "world_kit (ar_world r)"
  have reach: "kit_reach ?kit" and self: "\<And>a b. addressMap ?kit a = Some b \<Longrightarrow> b = a" using assms(1) by (simp_all add: registry_wf_def)
  from assms(2) obtain l where "go_index (kit_levels ?kit) (zget 0 (adapterNameToLevel ?kit) name) = Inr l" "as = level_GetAddressByName l name"
    unfolding kit_GetAdapterAddressByName_def by (auto simp: Let_def elim!: rbind_InrE)
  then have l: "l \<in> set (kit_levels ?kit)" "as = lvl_adapters l name"
    by (auto simp: level_GetAddressByName_def go_index_eq_Inr nat_less_iff)
  have "level_known (addressMap ?kit) l" using kit_reach_wf[OF reach] l(1) by (auto simp: kit_wf_def)
  then have "a \<in> dom (addressMap ?kit)" using l(2) assms(3) unfolding level_known_def by blast
  then show ?thesis using self by (auto simp: GetAdapter_def kit_GetAdapter_def)
qed

text \<open>
  C33: A new price oracle puts its own block as the disabling block on every older oracle that is not disabled yet, also on one that a
  successor has already given an earlier block: with two replacements before a sync reaches the first, the oldest oracle stays
  active up to the second.  Other adapters keep their state.
\<close>

theorem new_oracle_moves_disable_block:
  assumes "AddSyncAdapter obj r = Inr r'" and "\<not> rollbackAllowed r" and "registry_wf r" and "ContractName (obj_state obj) = PriceOracle"
    and "kit_GetAdapterAddressByName PriceOracle (world_kit (ar_world r)) = Inr olds" and "a \<noteq> Address (obj_state obj)"
  shows "heap (ar_world r') a = (if a \<in> set olds \<and> \<not> Disabled (heap (ar_world r) a)
    then (heap (ar_world r) a)\<lparr>BlockToDisableOn := DiscoveredAt (obj_state obj)\<rparr> else heap (ar_world r) a)"
  using assms(1)
proof (cases rule: AddSyncAdapter_cases)
  case rollback
  then show ?thesis using assms(2) by simp
next
  case (add r1 as)
  then have as: "as = olds" using assms(4,5) by simp
  have "heap (ar_world r') a = heap (ar_world r1) a"
    using add(2)
  proof (cases rule: addSyncAdapter_cases)
    case (feed f)
    then show ?thesis by simp
  next
    case (wrapped name s s' names)
    then show ?thesis using assms(6) by simp
  next
    case (kit kit)
    then show ?thesis using assms(6) by simp
  qed
  then show ?thesis
    using disable_oracles_heap[OF add(3)] listed_adapter[OF assms(3,5)] unfolding as by (simp add: sa_SetBlockToDisableOn_def)
qed

text \<open>Newer: a later block, or the same block and a higher version.\<close>

definition newer :: "int \<times> int \<Rightarrow> int \<times> int \<Rightarrow> bool" where
  "newer x y \<longleftrightarrow> fst y < fst x \<or> fst y = fst x \<and> snd y < snd x"

definition oracle_age :: "'r adapters_repo \<Rightarrow> address \<Rightarrow> int \<times> int" where
  "oracle_age r a = (DiscoveredAt (heap (ar_world r) a), V (heap (ar_world r) a))"

text \<open>The oracles of a block: discovered by then, and newer than nothing.\<close>

definition oracle_candidates :: "'r adapters_repo \<Rightarrow> int \<Rightarrow> address list \<Rightarrow> address list" where
  "oracle_candidates r b as = filter (\<lambda>a. fst (oracle_age r a) \<le> b \<and> newer (oracle_age r a) (0, 0)) as"

definition best_oracle :: "'r adapters_repo \<Rightarrow> int \<Rightarrow> address list \<Rightarrow> int \<times> address \<times> int \<Rightarrow> bool" where
  "best_oracle r b as = (\<lambda>(blk, o', v).
    if oracle_candidates r b as = [] then (blk, o', v) = (0, '''', 0)
    else o' \<in> set (oracle_candidates r b as) \<and> oracle_age r o' = (blk, v) \<and> (\<forall>a \<in> set (oracle_candidates r b as). \<not> newer (oracle_age r a) (blk, v)))"

lemma active_oracle_fold:
  assumes "\<forall>a \<in> set as. GetAdapter a r = Some (Ref a)"
  shows "\<exists>st. rfold (active_oracle_step (\<lambda>v v'. v > v') b r) as (0, '''', 0) = Inr st \<and> best_oracle r b as st"
  using assms
proof (induction as rule: rev_induct)
  case Nil
  then show ?case by (simp add: best_oracle_def oracle_candidates_def)
next
  case (snoc a as)
  then obtain blk o' v where st: "rfold (active_oracle_step (\<lambda>v v'. v > v') b r) as (0, '''', 0) = Inr (blk, o', v)" "best_oracle r b as (blk, o', v)"
    by fastforce
  let ?d = "DiscoveredAt (heap (ar_world r) a)" and ?v = "V (heap (ar_world r) a)"
  have step: "active_oracle_step (\<lambda>v v'. v > v') b r a (blk, o', v) =
      Inr (if ?d \<le> b \<and> newer (?d, ?v) (blk, v) then (?d, a, ?v) else (blk, o', v))"
    using snoc.prems by (auto simp: active_oracle_step_def ref_state_def newer_def Let_def)
  have cands: "oracle_candidates r b (as @ [a]) = oracle_candidates r b as @ (if ?d \<le> b \<and> newer (?d, ?v) (0, 0) then [a] else [])"
    by (simp add: oracle_candidates_def oracle_age_def)
  have pos: "newer (blk, v) (0, 0)" if "oracle_candidates r b as \<noteq> []"
    using st(2) that by (auto simp: best_oracle_def oracle_candidates_def)
  have "best_oracle r b (as @ [a]) (if ?d \<le> b \<and> newer (?d, ?v) (blk, v) then (?d, a, ?v) else (blk, o', v))"
  proof (cases "oracle_candidates r b as = []")
    case True
    then show ?thesis using st(2) by (auto simp: best_oracle_def cands oracle_age_def newer_def)
  next
    case False
    then show ?thesis using st(2) pos by (auto simp: best_oracle_def cands oracle_age_def newer_def)
  qed
  then show ?case using st(1) step by (simp add: rfold_append)
qed

text \<open>The newest of the oracles is returned, whether it is disabled or not.\<close>

lemma newest_oracle_even_disabled:
  assumes "registry_wf r" and "kit_GetAdapterAddressByName PriceOracle (world_kit (ar_world r)) = Inr oracles" and "'''' \<notin> set oracles"
  shows "\<exists>o' v err. GetActivePriceOracleByBlockNum (\<lambda>v v'. v > v') b r = Inr (o', v, err) \<and>
    (err \<longleftrightarrow> oracle_candidates r b oracles = []) \<and>
    (\<not> err \<longrightarrow> o' \<in> set (oracle_candidates r b oracles) \<and> v = snd (oracle_age r o') \<and>
      (\<forall>a \<in> set (oracle_candidates r b oracles). \<not> newer (oracle_age r a) (oracle_age r o')))"
proof -
  obtain blk o' v where st: "rfold (active_oracle_step (\<lambda>v v'. v > v') b r) oracles (0, '''', 0) = Inr (blk, o', v)" "best_oracle r b oracles (blk, o', v)"
    using active_oracle_fold[of oracles r b] listed_adapter[OF assms(1,2)] by fastforce
  have "o' = '''' \<longleftrightarrow> oracle_candidates r b oracles = []"
  proof (cases "oracle_candidates r b oracles = []")
    case True
    then show ?thesis using st(2) by (simp add: best_oracle_def)
  next
    case False
    then have "o' \<in> set oracles" using st(2) by (simp add: best_oracle_def) (simp add: oracle_candidates_def)
    then show ?thesis using False assms(3) by auto
  qed
  then show ?thesis using st assms(2) by (auto simp: GetActivePriceOracleByBlockNum_def best_oracle_def)
qed

text \<open>
  What syncing past the disabling blocks leaves of the oracles of a block: one that is still active is newer, by block and then by
  version, than all the others.
\<close>

definition replaced_in_order :: "'r adapters_repo \<Rightarrow> address list \<Rightarrow> bool" where
  "replaced_in_order r as \<longleftrightarrow>
    (\<forall>x \<in> set as. \<forall>y \<in> set as. x \<noteq> y \<and> \<not> Disabled (heap (ar_world r) x) \<longrightarrow> newer (oracle_age r x) (oracle_age r y))"

text \<open>
  C32: The active price oracle of a block is found, and a disabled one only if all are disabled.  Let an oracle that is still active be newer, by
  block and then by version, than the other ones discovered by the block.  Then there is an error exactly if no oracle has been
  discovered by the block; the active oracle is returned with its version if there is one, and else the last one, than which none is newer.
\<close>

theorem active_oracle_found:
  assumes "registry_wf r" and "kit_GetAdapterAddressByName PriceOracle (world_kit (ar_world r)) = Inr oracles" and "'''' \<notin> set oracles"
    and "replaced_in_order r (oracle_candidates r b oracles)"
  shows "\<exists>o' v err. GetActivePriceOracleByBlockNum (\<lambda>v v'. v > v') b r = Inr (o', v, err) \<and>
    (err \<longleftrightarrow> oracle_candidates r b oracles = []) \<and>
    (\<forall>a \<in> set (oracle_candidates r b oracles). \<not> Disabled (heap (ar_world r) a) \<longrightarrow> o' = a \<and> v = V (heap (ar_world r) a)) \<and>
    (\<not> err \<and> (\<forall>a \<in> set (oracle_candidates r b oracles). Disabled (heap (ar_world r) a)) \<longrightarrow>
      o' \<in> set (oracle_candidates r b oracles) \<and> v = V (heap (ar_world r) o') \<and>
      (\<forall>a \<in> set (oracle_candidates r b oracles). \<not> newer (oracle_age r a) (oracle_age r o')))"
proof -
  obtain o' v err where run: "GetActivePriceOracleByBlockNum (\<lambda>v v'. v > v') b r = Inr (o', v, err)"
    "err \<longleftrightarrow> oracle_candidates r b oracles = []"
    and best: "\<not> err \<longrightarrow> o' \<in> set (oracle_candidates r b oracles) \<and> v = snd (oracle_age r o') \<and>
      (\<forall>a \<in> set (oracle_candidates r b oracles). \<not> newer (oracle_age r a) (oracle_age r o'))"
    using newest_oracle_even_disabled[OF assms(1-3), of b] by blast
  have active: "o' = a \<and> v = V (heap (ar_world r) a)"
    if a: "a \<in> set (oracle_candidates r b oracles)" "\<not> Disabled (heap (ar_world r) a)" for a
  proof -
    have found: "\<not> err" using run(2) a(1) by auto
    then have "\<not> newer (oracle_age r a) (oracle_age r o')" using best a(1) by blast
    moreover have "o' \<in> set (oracle_candidates r b oracles)" using best found by blast
    then have "o' = a \<or> newer (oracle_age r a) (oracle_age r o')"
      using assms(4)[unfolded replaced_in_order_def, rule_format, of a o'] a by (cases "a = o'") auto
    ultimately have "o' = a" by simp
    then show ?thesis using best found by (simp add: oracle_age_def)
  qed
  have v: "snd (oracle_age r o') = V (heap (ar_world r) o')" by (simp add: oracle_age_def)
  show ?thesis using run best active v by (intro exI[of _ o'] exI[of _ v] exI[of _ err]) simp
qed

section \<open>A concrete registry\<close>

definition demo_sa :: "string \<Rightarrow> address \<Rightarrow> int \<Rightarrow> sync_adapter" where
  "demo_sa name addr n = \<lparr>Address = addr, ContractName = name, DiscoveredAt = n, FirstLogAt = n, LastSync = n, Disabled = False,
     BlockToDisableOn = 0, V = 1, ErrorMsg = '''', Details = None, UnderlyingStateToSave = False, DataProcessType = 0, WillSyncTill = 0\<rparr>"

definition demo_feeds :: aqf_world where
  "demo_feeds = \<lparr>aqf_adapter = demo_sa AggregatedQueryFeedWrapper AggregatedQueryFeedWrapper 0, QueryFeeds = [], queryFeedPrices = [], Interval = 25,
     ChainlinkSymToUpdatedBlocks = [], aggregatedFetchedBlocks = [], depBasedExtraPrices = [], symToAddr = (\<lambda>_. None), addrToSym = (\<lambda>_. None),
     aq_chainId = 1, aq_oracles = (\<lambda>_. None), aq_blocks = NewBlocksRepo\<rparr>"

definition demo_objs :: "adapter_obj list" where
  "demo_objs = [AdapterObj (demo_sa PriceOracle ''o1'' 10), AdapterObj (demo_sa ACL ''acl'' 5), AdapterObj (demo_sa PriceOracle ''o2'' 20)]"

definition demo_registry :: "unit adapters_repo res" where
  "demo_registry = rbind (NewAdapterKitHandler () demo_feeds False) (rfold AddSyncAdapter demo_objs)"

lemma demo_registry_eval:
  "case demo_registry of Inl _ \<Rightarrow> False | Inr r \<Rightarrow>
    \<not> rollbackAllowed r \<and> kit_GetAdapterAddressByName PriceOracle (world_kit (ar_world r)) = Inr [''o1'', ''o2''] \<and>
    map (\<lambda>a. (DiscoveredAt (heap (ar_world r) a), V (heap (ar_world r) a), Disabled (heap (ar_world r) a))) [''o1'', ''o2''] =
      [(10, 1, False), (20, 1, False)] \<and> GetAdapter ''o3'' r = None \<and> BlockToDisableOn (heap (ar_world r) ''o1'') = 20"
  by code_simp

lemma demo_registry_facts:
  assumes "demo_registry = Inr r"
  shows "\<not> rollbackAllowed r" "kit_GetAdapterAddressByName PriceOracle (world_kit (ar_world r)) = Inr [''o1'', ''o2'']"
    "DiscoveredAt (heap (ar_world r) ''o1'') = 10" "V (heap (ar_world r) ''o1'') = 1" "\<not> Disabled (heap (ar_world r) ''o1'')"
    "DiscoveredAt (heap (ar_world r) ''o2'') = 20" "GetAdapter ''o3'' r = None" "BlockToDisableOn (heap (ar_world r) ''o1'') = 20"
    "V (heap (ar_world r) ''o2'') = 1" "\<not> Disabled (heap (ar_world r) ''o2'')"
  using demo_registry_eval unfolding assms sum.case list.map list.inject prod.inject by (elim conjE; simp only: simp_thms)+

lemma demo_registry_run:
  assumes "demo_registry = Inr r"
  obtains r0 where "NewAdapterKitHandler () demo_feeds False = Inr r0" "rfold AddSyncAdapter demo_objs r0 = Inr r"
  using assms unfolding demo_registry_def by (elim rbind_InrE)

lemma demo_registry_ok:
  obtains r where "demo_registry = Inr r"
  using case_InrD[OF demo_registry_eval] by (elim exE conjE)

theorem registry_stays_wf_witness: "\<exists>r. demo_registry = Inr r \<and> registry_wf r"
proof -
  obtain r where r: "demo_registry = Inr r" by (rule demo_registry_ok)
  obtain r0 where r0: "NewAdapterKitHandler () demo_feeds False = Inr r0" "rfold AddSyncAdapter demo_objs r0 = Inr r"
    by (rule demo_registry_run[OF r])
  have "QueryFeeds demo_feeds = []" by (simp add: demo_feeds_def)
  from r registry_stays_wf[OF r0(1) this r0(2)] show ?thesis by (intro exI conjI)
qed

lemma demo_registry_wf:
  assumes "demo_registry = Inr r"
  shows "registry_wf r"
proof -
  obtain r0 where r0: "NewAdapterKitHandler () demo_feeds False = Inr r0" "rfold AddSyncAdapter demo_objs r0 = Inr r"
    by (rule demo_registry_run[OF assms])
  have "QueryFeeds demo_feeds = []" by (simp add: demo_feeds_def)
  from NewAdapterKitHandler_wf[OF r0(1) this] show ?thesis
    by (rule rfold_invariant[OF r0(2), where I = registry_wf]) (rule AddSyncAdapter_wf)
qed

abbreviation (input) demo_o3 :: adapter_obj where "demo_o3 \<equiv> AdapterObj (demo_sa PriceOracle ''o3'' 30)"

lemma demo_add:
  obtains r r' where "demo_registry = Inr r" "AddSyncAdapter demo_o3 r = Inr r'"
proof -
  have "\<not> isl (rbind demo_registry (AddSyncAdapter demo_o3))" by code_simp
  then obtain r' where "rbind demo_registry (AddSyncAdapter demo_o3) = Inr r'" by (metis isl_def obj_sumE)
  then show thesis using that by (elim rbind_InrE)
qed

lemma demo_o3_facts:
  "obj_state demo_o3 = demo_sa PriceOracle ''o3'' 30" "Address (demo_sa PriceOracle ''o3'' 30) = ''o3''"
  "ContractName (demo_sa PriceOracle ''o3'' 30) = PriceOracle" "DiscoveredAt (demo_sa PriceOracle ''o3'' 30) = 30"
  by (simp_all add: obj_state_def demo_sa_def)

theorem AddSyncAdapter_found_witness:
  "\<exists>r r' ref. demo_registry = Inr r \<and> AddSyncAdapter demo_o3 r = Inr r' \<and> GetAdapter ''o3'' r' = Some ref \<and>
    ref_state ref r' = Some (demo_sa PriceOracle ''o3'' 30) \<and> GetAdapter ''o1'' r' = GetAdapter ''o1'' r"
proof -
  obtain r r' where r: "demo_registry = Inr r" "AddSyncAdapter demo_o3 r = Inr r'" by (rule demo_add)
  note f = demo_registry_facts[OF r(1)]
  from AddSyncAdapter_found[OF r(2) f(1) demo_registry_wf[OF r(1)], unfolded demo_o3_facts, OF f(7)] obtain ref where
    ref: "GetAdapter ''o3'' r' = Some ref" "ref_state ref r' = Some (demo_sa PriceOracle ''o3'' 30)"
    and other: "\<forall>b. b \<noteq> ''o3'' \<longrightarrow> GetAdapter b r' = GetAdapter b r" by (elim conjE exE)
  have "GetAdapter ''o1'' r' = GetAdapter ''o1'' r" by (rule other[rule_format]) simp
  with r ref show ?thesis by (intro exI conjI)
qed

theorem new_oracle_moves_disable_block_witness:
  "\<exists>r r'. demo_registry = Inr r \<and> AddSyncAdapter demo_o3 r = Inr r' \<and>
    BlockToDisableOn (heap (ar_world r) ''o1'') = 20 \<and> BlockToDisableOn (heap (ar_world r') ''o1'') = 30"
proof -
  obtain r r' where r: "demo_registry = Inr r" "AddSyncAdapter demo_o3 r = Inr r'" by (rule demo_add)
  note f = demo_registry_facts[OF r(1)]
  have "''o1'' \<noteq> ''o3''" by simp
  from new_oracle_moves_disable_block[OF r(2) f(1) demo_registry_wf[OF r(1)], unfolded demo_o3_facts, OF refl f(2) this]
  have "heap (ar_world r') ''o1'' = (heap (ar_world r) ''o1'')\<lparr>BlockToDisableOn := 30\<rparr>" using f(5) by simp
  then have "BlockToDisableOn (heap (ar_world r') ''o1'') = 30" by simp
  with r f(8) show ?thesis by (intro exI conjI)
qed

text \<open>The registry after a sync up to block 20 has disabled the first oracle.\<close>

theorem active_oracle_found_witness:
  "\<exists>r r'. demo_registry = Inr r \<and> r' = r\<lparr>ar_world := upd_adapter ''o1'' (sa_AfterSyncHook 20) (ar_world r)\<rparr> \<and>
    Disabled (heap (ar_world r') ''o1'') \<and> \<not> Disabled (heap (ar_world r') ''o2'') \<and>
    GetActivePriceOracleByBlockNum (\<lambda>v v'. v > v') 25 r' = Inr (''o2'', 1, False)"
proof -
  obtain r where r: "demo_registry = Inr r" by (rule demo_registry_ok)
  note f = demo_registry_facts[OF r]
  define r' where "r' = r\<lparr>ar_world := upd_adapter ''o1'' (sa_AfterSyncHook 20) (ar_world r)\<rparr>"
  have k: "world_kit (ar_world r') = world_kit (ar_world r)" by (simp add: r'_def upd_adapter_def)
  have wf: "registry_wf r'" using demo_registry_wf[OF r] by (simp add: r'_def registry_wf_def wrapper_GetAdapter_def upd_adapter_def)
  have h: "Disabled (heap (ar_world r') ''o1'')" "\<not> Disabled (heap (ar_world r') ''o2'')"
    "DiscoveredAt (heap (ar_world r') ''o1'') = 10" "V (heap (ar_world r') ''o1'') = 1" "DiscoveredAt (heap (ar_world r') ''o2'') = 20"
    "V (heap (ar_world r') ''o2'') = 1"
    using f by (simp_all add: r'_def sa_AfterSyncHook_def disableOnBlock_def setLastSync_def)
  have cand: "oracle_candidates r' 25 [''o1'', ''o2''] = [''o1'', ''o2'']"
    by (simp add: oracle_candidates_def oracle_age_def newer_def h)
  have ord: "replaced_in_order r' (oracle_candidates r' 25 [''o1'', ''o2''])"
    unfolding cand by (simp add: replaced_in_order_def oracle_age_def newer_def h)
  have "'''' \<notin> set [''o1'', ''o2'']" by simp
  from active_oracle_found[OF wf f(2)[folded k] this ord, unfolded cand] have
    "GetActivePriceOracleByBlockNum (\<lambda>v v'. v > v') 25 r' = Inr (''o2'', 1, False)" using h(2,6) by auto
  with r r'_def h(1,2) show ?thesis by auto
qed

end
