(* ===== verification/Administration.thy ===== *)
theory Administration
  imports Adapter_Repo_Correct DC_Correct
begin

text \<open>
  The contracts that announce the others: the address provider with its price oracles and data compressors
  (\<^verbatim>\<open>models/address_provider\<close>), the access list (\<^verbatim>\<open>models/acl\<close>), the account factory (\<^verbatim>\<open>models/account_factory\<close>) and the
  register of contracts (\<^verbatim>\<open>models/contract_register\<close>); the account manager that follows the transfers of all accounts
  (\<^verbatim>\<open>models/account_manager\<close>), and what the repository does for them (\<^verbatim>\<open>repository/credit_session.go\<close>,
  \<^verbatim>\<open>repository/token.go\<close>, \<^verbatim>\<open>repository/index.go\<close>, \<^verbatim>\<open>repository/save.go\<close>).

  The constructors of pools and credit managers ask the chain and are parameters, as are the contracts.
\<close>

section \<open>State\<close>

record account_manager =
  AccountHashes :: "address list"
  isAccount :: "address \<Rightarrow> bool"

record 'r admin_world =
  aw_adapters :: "'r adapters_repo"
  aw_blocks :: blocks_repo
  aw_tokens :: tokens_repo
  aw_transfers :: direct_transfer_manager
  aw_managers :: "address \<rightharpoonup> account_manager"
  priceOracles :: "(int \<times> address) list option"      \<comment> \<open>of the address provider; \<open>None\<close> is \<^verbatim>\<open>nil\<close>\<close>

text \<open>Token transfers: sender, receiver and value.\<close>

type_synonym transfer_log = "(address \<times> address \<times> int) option txlog"

record 'r admin_env =
  ae_chain :: chain_env
  ae_chainId :: int
  ae_NewContract :: "address \<Rightarrow> int \<Rightarrow> int \<times> int"
  ae_FetchVersion :: "address \<Rightarrow> int \<Rightarrow> int"
  ae_NewToken :: "address \<Rightarrow> token option"
  ConvertToListOfString :: "json \<Rightarrow> string list res"
  GetLogsForTransfer :: "int \<Rightarrow> int \<Rightarrow> address list \<Rightarrow> address list \<Rightarrow> transfer_log list res"
  Convert :: "address \<Rightarrow> bool \<Rightarrow> int \<Rightarrow> int \<Rightarrow> address \<Rightarrow> address \<Rightarrow> int option"   \<comment> \<open>oracle, version 1, block, amount, tokens\<close>
  ae_IsGBv1 :: "int \<Rightarrow> bool"
  NewPool :: "address \<Rightarrow> int \<Rightarrow> 'r admin_world \<Rightarrow> (sync_adapter \<times> 'r admin_world) res"
  NewCreditManager :: "address \<Rightarrow> int \<Rightarrow> 'r admin_world \<Rightarrow> (sync_adapter \<times> 'r admin_world) res"

definition aw_adapter :: "address \<Rightarrow> 'r admin_world \<Rightarrow> sync_adapter" where
  "aw_adapter a w = heap (ar_world (aw_adapters w)) a"

definition aw_upd :: "address \<Rightarrow> (sync_adapter \<Rightarrow> sync_adapter) \<Rightarrow> 'r admin_world \<Rightarrow> 'r admin_world" where
  "aw_upd a f w = w\<lparr>aw_adapters := (aw_adapters w)\<lparr>ar_world := upd_adapter a f (ar_world (aw_adapters w))\<rparr>\<rparr>"

definition details_of :: "sync_adapter \<Rightarrow> json_obj" where
  "details_of a = (case Details a of None \<Rightarrow> [] | Some d \<Rightarrow> d)"

text \<open>\<^verbatim>\<open>if mdl.Details == nil { mdl.Details = make(...) }\<close>, and \<^verbatim>\<open>mdl.Details[k] = v\<close> after it.\<close>

definition init_details :: "sync_adapter \<Rightarrow> sync_adapter" where
  "init_details a = a\<lparr>Details := Some (details_of a)\<rparr>"

definition set_detail :: "string \<Rightarrow> json \<Rightarrow> sync_adapter \<Rightarrow> sync_adapter" where
  "set_detail k v a = a\<lparr>Details := Some (AList.update k v (details_of a))\<rparr>"

definition aw_AddSyncAdapter :: "sync_adapter \<Rightarrow> 'r admin_world \<Rightarrow> 'r admin_world res" where
  "aw_AddSyncAdapter a w = rbind (AddSyncAdapter (AdapterObj a) (aw_adapters w)) (\<lambda>r. Inr (w\<lparr>aw_adapters := r\<rparr>))"

definition aw_GetToken :: "'r admin_env \<Rightarrow> address \<Rightarrow> 'r admin_world \<Rightarrow> 'r admin_world res" where
  "aw_GetToken E addr w = rbind (GetToken (ae_NewToken E) addr (aw_tokens w)) (\<lambda>(_, r). Inr (w\<lparr>aw_tokens := r\<rparr>))"

definition aw_NewSyncAdapter :: "'r admin_env \<Rightarrow> address \<Rightarrow> string \<Rightarrow> int \<Rightarrow> sync_adapter" where
  "aw_NewSyncAdapter E = NewSyncAdapter (ae_NewContract E) (ae_FetchVersion E)"

definition admin_dao :: "'r admin_env \<Rightarrow> address \<Rightarrow> 'e txlog \<Rightarrow> string \<Rightarrow> json_obj \<Rightarrow> 'r admin_world \<Rightarrow> 'r admin_world res" where
  "admin_dao E self txLog ty args w =
    rbind (AddDAOOperation (ae_chain E) \<lparr>dao_BlockNumber = BlockNumber txLog, dao_LogID = Index txLog, dao_TxHash = TxHash txLog,
      dao_Contract = self, dao_Type = ty, dao_Args = args\<rparr> (aw_blocks w)) (\<lambda>r. Inr (w\<lparr>aw_blocks := r\<rparr>))"

section \<open>Access list and register\<close>

datatype acl_event =
    PausableAdminAdded address
  | PausableAdminRemoved address
  | UnpausableAdminAdded address
  | UnpausableAdminRemoved address
  | OwnershipTransferred address address       \<comment> \<open>previous and new owner\<close>
  | OtherACLEvent

definition acl_OnLog :: "'r admin_env \<Rightarrow> address \<Rightarrow> acl_event txlog \<Rightarrow> 'r admin_world \<Rightarrow> 'r admin_world res" where
  "acl_OnLog E self txLog w =
    (case payload txLog of
       PausableAdminAdded admin \<Rightarrow> admin_dao E self txLog ''PausableAdminAdded'' [(''admin'', JString admin)] w
     | PausableAdminRemoved admin \<Rightarrow> admin_dao E self txLog ''PausableAdminRemoved'' [(''admin'', JString admin)] w
     | UnpausableAdminAdded admin \<Rightarrow> admin_dao E self txLog ''UnpausableAdminAdded'' [(''admin'', JString admin)] w
     | UnpausableAdminRemoved admin \<Rightarrow> admin_dao E self txLog ''UnpausableAdminRemoved'' [(''admin'', JString admin)] w
     | OwnershipTransferred old new \<Rightarrow>
         admin_dao E self txLog ''OwnershipTransferred'' [(''oldOwner'', JString old), (''newOwner'', JString new)] w
     | OtherACLEvent \<Rightarrow> Inr w)"

datatype register_event = NewPoolAdded address | NewCreditManagerAdded address | OtherRegisterEvent

definition register_OnLog :: "'r admin_env \<Rightarrow> register_event txlog \<Rightarrow> 'r admin_world \<Rightarrow> 'r admin_world res" where
  "register_OnLog E txLog w =
    (case payload txLog of
       NewPoolAdded addr \<Rightarrow> rbind (NewPool E addr (BlockNumber txLog) w) (\<lambda>(obj, w1). aw_AddSyncAdapter obj w1)
     | NewCreditManagerAdded addr \<Rightarrow> rbind (NewCreditManager E addr (BlockNumber txLog) w) (\<lambda>(cm, w1). aw_AddSyncAdapter cm w1)
     | OtherRegisterEvent \<Rightarrow> Inr w)"

section \<open>The account manager\<close>

definition getAccountAddrs :: "'r admin_env \<Rightarrow> address \<Rightarrow> 'r admin_world \<Rightarrow> (address list \<times> 'r admin_world) res" where
  "getAccountAddrs E self w =
    (let w1 = aw_upd self init_details w in
     case map_of (details_of (aw_adapter self w1)) ''accounts'' of
       None \<Rightarrow> Inr ([], w1)
     | Some JNull \<Rightarrow> Inr ([], w1)
     | Some v \<Rightarrow> rbind (ConvertToListOfString E v) (\<lambda>accountAddrs. Inr (accountAddrs, w1)))"

definition populateInternalData :: "'r admin_env \<Rightarrow> address \<Rightarrow> 'r admin_world \<Rightarrow> 'r admin_world res" where
  "populateInternalData E self w =
    rbind (deref (aw_managers w self)) (\<lambda>m.
    rbind (getAccountAddrs E self w) (\<lambda>(accountAddrs, w1).
      Inr (w1\<lparr>aw_managers := (aw_managers w1)(self \<mapsto>
        m\<lparr>isAccount := (\<lambda>a. isAccount m a \<or> a \<in> set accountAddrs), AccountHashes := accountAddrs\<rparr>)\<rparr>)))"

definition AddAccount :: "'r admin_env \<Rightarrow> address \<Rightarrow> address \<Rightarrow> 'r admin_world \<Rightarrow> 'r admin_world res" where
  "AddAccount E self addr w =
    rbind (getAccountAddrs E self w) (\<lambda>(accounts, w1).
      populateInternalData E self (aw_upd self (set_detail ''accounts'' (JList (map JString (accounts @ [addr])))) w1))"

definition manager_adapter :: "string \<Rightarrow> address \<Rightarrow> int \<Rightarrow> sync_adapter" where
  "manager_adapter name addr discoveredAt =
    \<lparr>Address = addr, ContractName = name, DiscoveredAt = discoveredAt, FirstLogAt = discoveredAt, LastSync = discoveredAt - 1, Disabled = False,
     BlockToDisableOn = 0, V = 0, ErrorMsg = '''', Details = None, UnderlyingStateToSave = False, DataProcessType = ViaQuery, WillSyncTill = 0\<rparr>"

text \<open>A new account manager has no accounts in its details; it replaces the object of its address when it is added.\<close>

definition add_account_manager :: "address \<Rightarrow> int \<Rightarrow> 'r admin_world \<Rightarrow> 'r admin_world res" where
  "add_account_manager addr discoveredAt w =
    rbind (aw_AddSyncAdapter (init_details (manager_adapter AccountManager addr discoveredAt)) w) (\<lambda>w1.
      Inr (if rollbackAllowed (aw_adapters w) then w1
           else w1\<lparr>aw_managers := (aw_managers w1)(addr \<mapsto> \<lparr>AccountHashes = [], isAccount = (\<lambda>_. False)\<rparr>)\<rparr>))"

definition AddAccountTokenTransfer :: "'r admin_env \<Rightarrow> token_transfer \<Rightarrow> 'r admin_world \<Rightarrow> 'r admin_world res" where
  "AddAccountTokenTransfer E tt w =
    rbind (setBlock (ae_chain E) (tt_BlockNum tt) (aw_blocks w)) (\<lambda>r.
      Inr (w\<lparr>aw_blocks := r, aw_transfers := AddTokenTransfer tt (aw_transfers w)\<rparr>))"

definition manager_OnLog :: "'r admin_env \<Rightarrow> address \<Rightarrow> transfer_log \<Rightarrow> 'r admin_world \<Rightarrow> 'r admin_world res" where
  "manager_OnLog E self txLog w =
    (case payload txLog of
       None \<Rightarrow> Inr w
     | Some (tfrom, tto, amount) \<Rightarrow>
         rbind (deref (aw_managers w self)) (\<lambda>m.
           AddAccountTokenTransfer E \<lparr>token_transfer.tt_TxHash = TxHash txLog, tt_BlockNum = BlockNumber txLog, tt_LogID = Index txLog, tt_From = tfrom,
             tt_To = tto, tt_Token = logAddress txLog, tt_Amount = amount, IsFromAccount = isAccount m tfrom, IsToAccount = isAccount m tto\<rparr> w))"

definition manager_Query :: "'r admin_env \<Rightarrow> address \<Rightarrow> int \<Rightarrow> 'r admin_world \<Rightarrow> 'r admin_world res" where
  "manager_Query E self queryTill w =
    rbind (deref (aw_managers w self)) (\<lambda>m.
    rbind (GetLogsForTransfer E (LastSync (aw_adapter self w) + 1) queryTill (GetTokens (aw_tokens w)) (AccountHashes m)) (\<lambda>logs.
      rfold (manager_OnLog E self) logs w))"

definition manager_AfterSyncHook :: "address \<Rightarrow> int \<Rightarrow> 'r admin_world \<Rightarrow> 'r admin_world" where
  "manager_AfterSyncHook self syncedTill w =
    aw_upd self (sa_AfterSyncHook syncedTill) (w\<lparr>aw_transfers := dtm_Init (aw_transfers w)\<rparr>)"

section \<open>The account factory\<close>

text \<open>\<^verbatim>\<open>Repository.AddAccountAddr\<close>: exactly one account manager is expected.\<close>

definition AddAccountAddr :: "'r admin_env \<Rightarrow> address \<Rightarrow> 'r admin_world \<Rightarrow> 'r admin_world res" where
  "AddAccountAddr E account w =
    rbind (ar_GetAdapterAddressByName AccountManager (aw_adapters w)) (\<lambda>addrs.
      if length addrs = 1 then
        rbind (deref (GetAdapter (hd addrs) (aw_adapters w))) (\<lambda>acntManager.
          case acntManager of Ref a \<Rightarrow> AddAccount E a account w | FeedRef _ \<Rightarrow> Inl (Panic ''interface conversion''))
      else Inl (Fatal ''account manager model available in adapter kit''))"

definition NewAccountFactory :: "'r admin_env \<Rightarrow> address \<Rightarrow> int \<Rightarrow> 'r admin_world \<Rightarrow> (sync_adapter \<times> 'r admin_world) res" where
  "NewAccountFactory E addr discoveredAt w =
    rbind (add_account_manager ZERO_ADDR discoveredAt w) (\<lambda>w1.
      Inr (aw_NewSyncAdapter E addr AccountFactory discoveredAt, w1))"

datatype factory_event = TakeForever address address | NewCreditAccount address | OtherFactoryEvent

definition factory_OnLog :: "'r admin_env \<Rightarrow> address \<Rightarrow> factory_event txlog \<Rightarrow> 'r admin_world \<Rightarrow> 'r admin_world res" where
  "factory_OnLog E self txLog w =
    (case payload txLog of
       TakeForever account tto \<Rightarrow> admin_dao E self txLog ''TakeForever'' [(''creditAccount'', JString account), (''to'', JString tto)] w
     | NewCreditAccount account \<Rightarrow> AddAccountAddr E account w
     | OtherFactoryEvent \<Rightarrow> Inr w)"

section \<open>The address provider\<close>

definition detail_map :: "string \<Rightarrow> sync_adapter \<Rightarrow> (string \<times> json) list" where
  "detail_map k a = (case map_of (details_of a) k of Some (JMap m) \<Rightarrow> m | _ \<Rightarrow> [])"

definition getPriceOracleMap :: "address \<Rightarrow> 'r admin_world \<Rightarrow> (string \<times> json) list \<times> 'r admin_world" where
  "getPriceOracleMap self w =
    (let w1 = aw_upd self init_details w in (detail_map ''priceOracles'' (aw_adapter self w1), w1))"

definition addPriceOracle :: "address \<Rightarrow> int \<Rightarrow> address \<Rightarrow> 'r admin_world \<Rightarrow> 'r admin_world" where
  "addPriceOracle self blockNum oracle w =
    (let (priceOraclesMap, w1) = getPriceOracleMap self w;
         w2 = aw_upd self (set_detail ''priceOracles'' (JMap (AList.update (int_String blockNum) (JString oracle) priceOraclesMap))) w1
     in w2\<lparr>priceOracles := Some (case_option [] id (priceOracles w2) @ [(blockNum, oracle)])\<rparr>)"

definition load_oracle :: "string \<times> json \<Rightarrow> (int \<times> address) list \<Rightarrow> (int \<times> address) list res" where
  "load_oracle = (\<lambda>(strBlockNum, oracle) acc.
    case ParseInt strBlockNum of
      None \<Rightarrow> Inl (Fatal ''parse'')
    | Some b \<Rightarrow> (case oracle of JString o' \<Rightarrow> Inr (acc @ [(b, o')]) | _ \<Rightarrow> Inl (Panic ''interface conversion'')))"

definition provider_GetDetailsByKey :: "address \<Rightarrow> string \<Rightarrow> 'r admin_world \<Rightarrow> (string \<times> 'r admin_world) res" where
  "provider_GetDetailsByKey self strBlockNum w =
    (case ParseInt strBlockNum of
       None \<Rightarrow> rbind (GetDetailsByKey strBlockNum (aw_adapter self w)) (\<lambda>v. Inr (v, w))
     | Some blockNum \<Rightarrow>
         let (oracles, w1) = getPriceOracleMap self w in
         rbind (case priceOracles w1 of
                  Some os \<Rightarrow> Inr (Some os)
                | None \<Rightarrow> rbind (rfold load_oracle oracles []) (\<lambda>os. Inr (if os = [] then None else Some (sort_key fst os)))) (\<lambda>cache.
         let os = case_option [] id cache in
         rbind (go_index os (int (search_first (\<lambda>po. fst po > blockNum) os) - 1)) (\<lambda>po.
           Inr (snd po, w1\<lparr>priceOracles := cache\<rparr>))))"

definition GetPriceOracleByDiscoveredAt :: "int \<Rightarrow> 'r admin_world \<Rightarrow> (address option \<times> 'r admin_world) res" where
  "GetPriceOracleByDiscoveredAt blockNum w =
    rbind (kit_GetAdapterAddressByName AddressProvider (world_kit (ar_world (aw_adapters w)))) (\<lambda>addrs.
    rbind (go_index addrs 0) (\<lambda>addr.
    rbind (deref (GetAdapter addr (aw_adapters w))) (\<lambda>ref.
    rbind (case ref of Ref a \<Rightarrow> provider_GetDetailsByKey a (int_String blockNum) w | FeedRef _ \<Rightarrow> Inl NilDereference) (\<lambda>(priceOracle, w1).
      Inr (if priceOracle = '''' then None else Some priceOracle, w1)))))"

definition repo_GetValueInCurrency ::
  "'r admin_env \<Rightarrow> int \<Rightarrow> int \<Rightarrow> address \<Rightarrow> string \<Rightarrow> int \<Rightarrow> 'r admin_world \<Rightarrow> (int \<times> 'r admin_world) res" where
  "repo_GetValueInCurrency E blockNum version tok currency amount w =
    rbind (GetPriceOracleByDiscoveredAt blockNum w) (\<lambda>(oracle, w1).
      case oracle of
        None \<Rightarrow> Inl (Fatal ''not Found'')
      | Some priceOracle \<Rightarrow>
          let currencyAddr = (if currency \<noteq> ''USDC'' then currency else usdcAddr (aw_tokens w1)) in
          rbind (orFatal (Convert E priceOracle (ae_IsGBv1 E version) blockNum amount tok currencyAddr) ''Convert'') (\<lambda>usdcAmount.
            Inr (usdcAmount, w1)))"

text \<open>The name is the topic without its trailing zeros.\<close>

type_synonym provider_log = "(string \<times> address) option txlog"

definition provider_OnLog :: "'r admin_env \<Rightarrow> address \<Rightarrow> provider_log \<Rightarrow> 'r admin_world \<Rightarrow> 'r admin_world res" where
  "provider_OnLog E self txLog w =
    (case payload txLog of
       None \<Rightarrow> Inr w
     | Some (contract, addr) \<Rightarrow>
         let blockNum = BlockNumber txLog; new = (\<lambda>name. aw_NewSyncAdapter E addr name blockNum) in
         if contract = ''ACL'' then aw_AddSyncAdapter (new ACL) w
         else if contract = ''CONTRACTS_REGISTER'' then aw_AddSyncAdapter (new ContractRegister) w
         else if contract = ''PRICE_ORACLE'' then aw_AddSyncAdapter (new PriceOracle) (addPriceOracle self blockNum addr w)
         else if contract = ''ACCOUNT_FACTORY'' then
           rbind (NewAccountFactory E addr blockNum w) (\<lambda>(af, w1). aw_AddSyncAdapter af w1)
         else if contract = ''WETH_TOKEN'' then aw_GetToken E addr (aw_upd self init_details w)
         else if contract = ''GEAR_TOKEN'' then
           rbind (aw_GetToken E addr w) (aw_AddSyncAdapter ((new GearToken)\<lparr>UnderlyingStateToSave := True\<rparr>))
         else if contract = ''TREASURY_CONTRACT'' then aw_AddSyncAdapter (manager_adapter Treasury addr blockNum) w
         else if contract = ''DATA_COMPRESSOR'' then
           let w1 = aw_upd self init_details w;
               dcObj = AList.update (int_String blockNum) (JString addr) (detail_map ''dc'' (aw_adapter self w1));
               w2 = aw_upd self (set_detail ''dc'' (JMap dcObj)) w1
           in rbind (addDataCompressor (ae_chainId E) blockNum addr (ar_dc (aw_adapters w2))) (\<lambda>dc.
                Inr (w2\<lparr>aw_adapters := (aw_adapters w2)\<lparr>ar_dc := dc\<rparr>\<rparr>))
         else Inr w)"

section \<open>The repository at the end of a sync and at start\<close>

definition repo_AfterSync :: "'r admin_env \<Rightarrow> 'r admin_world \<Rightarrow> 'r admin_world res" where
  "repo_AfterSync E w =
    rbind (rfold (\<lambda>(_, txs). rfold (\<lambda>tx bs. rbind (RecentMsgf (ae_chain E) (tt_BlockNum tx) ''AMQP'' bs) (add_row (ae_chain E) (tt_BlockNum tx) (NoSessionTxRow tx))) txs)
      (dtm_GetNoSessionTxs (aw_transfers w)) (aw_blocks w)) (\<lambda>bs.
      Inr (w\<lparr>aw_blocks := bs, aw_transfers := dtm_Clear (aw_transfers w)\<rparr>))"

record last_sync_and_type =
  ls_Type :: string
  ls_LastSync :: int
  ls_Address :: address

definition check_entry :: "last_sync_and_type \<Rightarrow> int \<times> int \<times> int \<Rightarrow> int \<times> int \<times> int" where
  "check_entry e = (\<lambda>(factory, manager, cm).
    if ls_Type e = AccountFactory then (ls_LastSync e, manager, cm)
    else if ls_Type e = AccountManager then (factory, ls_LastSync e, cm)
    else if ls_Type e = CreditManager then (factory, manager, min (ls_LastSync e) cm)
    else (factory, manager, cm))"

definition initChecks :: "last_sync_and_type list \<Rightarrow> unit res" where
  "initChecks data =
    (let (accountFactoryLastSync, accountManagerLastSync, cmLastSync) = fold check_entry data (0, 0, 0) in
     guard_fatal (accountFactoryLastSync \<noteq> accountManagerLastSync \<or> cmLastSync < accountManagerLastSync)
       ''Account manager/credit manager/AccountFactory are not synchronised'')"

end
