(* ===== verification/Administration_Correct.thy ===== *)
theory Administration_Correct
  imports Administration
begin

text \<open>
  Correctness of the administration: what the address provider remembers of price oracles and data compressors, before and after a
  restart, how many account managers there are, and which accounts they follow.
\<close>

section \<open>What an addition leaves alone\<close>

lemma disable_oracles_frame:
  assumes "rfold (disable_oracle n) as r = Inr r'"
  shows "Details (heap (ar_world r') a) = Details (heap (ar_world r) a) \<and> ar_dc r' = ar_dc r \<and> rollbackAllowed r' = rollbackAllowed r"
proof -
  let ?I = "\<lambda>s. Details (heap (ar_world s) a) = Details (heap (ar_world r) a) \<and> ar_dc s = ar_dc r \<and> rollbackAllowed s = rollbackAllowed r"
  have "?I s'" if "disable_oracle n b s = Inr s'" "?I s" for b s s'
    using that(1)
  proof (cases rule: disable_oracle_cases)
    case (obj c)
    then show ?thesis using that(2) by (cases "a = c") (simp_all add: upd_adapter_def sa_SetBlockToDisableOn_def)
  qed (use that(2) in simp_all)
  then show ?thesis by (intro rfold_invariant[OF assms, where I = ?I]) auto
qed

lemma AddSyncAdapter_frame:
  assumes "AddSyncAdapter (AdapterObj a) r = Inr r'"
  shows "b \<noteq> Address a \<Longrightarrow> Details (heap (ar_world r') b) = Details (heap (ar_world r) b)"
    and "ar_dc r' = ar_dc r" and "rollbackAllowed r' = rollbackAllowed r"
proof -
  have "(b \<noteq> Address a \<longrightarrow> Details (heap (ar_world r') b) = Details (heap (ar_world r) b)) \<and> ar_dc r' = ar_dc r \<and> rollbackAllowed r' = rollbackAllowed r"
    using assms
  proof (cases rule: AddSyncAdapter_cases)
    case (add r1 as)
    note fr = disable_oracles_frame[OF add(3), of b]
    show ?thesis using add(2)
    proof (cases rule: addSyncAdapter_cases)
      case (feed f)
      then show ?thesis using fr by simp
    next
      case (wrapped name s s' names)
      then show ?thesis using fr by (simp add: obj_state_def put_adapter_def upd_adapter_def)
    next
      case (kit k)
      then show ?thesis using fr by (simp add: obj_state_def put_adapter_def upd_adapter_def)
    qed
  qed simp
  then show "b \<noteq> Address a \<Longrightarrow> Details (heap (ar_world r') b) = Details (heap (ar_world r) b)"
    "ar_dc r' = ar_dc r" "rollbackAllowed r' = rollbackAllowed r" by simp_all
qed

lemma aw_AddSyncAdapter_frame:
  assumes "aw_AddSyncAdapter a w = Inr w'"
  shows "b \<noteq> Address a \<Longrightarrow> details_of (aw_adapter b w') = details_of (aw_adapter b w)"
    and "ar_dc (aw_adapters w') = ar_dc (aw_adapters w)" and "rollbackAllowed (aw_adapters w') = rollbackAllowed (aw_adapters w)"
    and "priceOracles w' = priceOracles w" and "aw_managers w' = aw_managers w"
  using assms AddSyncAdapter_frame[of a "aw_adapters w"]
  by (auto simp: aw_AddSyncAdapter_def aw_adapter_def details_of_def elim!: rbind_InrE)

lemma aw_upd_simps [simp]:
  "aw_adapter b (aw_upd a f w) = (if b = a then f (aw_adapter a w) else aw_adapter b w)"
  "ar_dc (aw_adapters (aw_upd a f w)) = ar_dc (aw_adapters w)" "rollbackAllowed (aw_adapters (aw_upd a f w)) = rollbackAllowed (aw_adapters w)"
  "priceOracles (aw_upd a f w) = priceOracles w" "aw_managers (aw_upd a f w) = aw_managers w" "aw_tokens (aw_upd a f w) = aw_tokens w"
  "aw_blocks (aw_upd a f w) = aw_blocks w" "aw_transfers (aw_upd a f w) = aw_transfers w"
  by (simp_all add: aw_upd_def aw_adapter_def upd_adapter_def)

lemma details_simps [simp]:
  "details_of (init_details a) = details_of a" "details_of (set_detail k v a) = AList.update k v (details_of a)"
  "detail_map k (init_details a) = detail_map k a" "detail_map k (set_detail k' (JMap m) a) = (if k = k' then m else detail_map k a)"
  by (simp_all add: init_details_def set_detail_def details_of_def detail_map_def)

lemma detail_map_cong: "details_of a = details_of b \<Longrightarrow> detail_map k a = detail_map k b"
  by (simp add: detail_map_def)

lemma aw_GetToken_frame:
  assumes "aw_GetToken E a w = Inr w'"
  shows "aw_adapters w' = aw_adapters w" "aw_managers w' = aw_managers w" "priceOracles w' = priceOracles w"
  using assms by (auto simp: aw_GetToken_def elim!: rbind_InrE)

lemma new_adapter_Address [simp]:
  "Address (aw_NewSyncAdapter E a name n) = a" "ContractName (aw_NewSyncAdapter E a name n) = name"
  "Address (init_details s) = Address s" "ContractName (init_details s) = ContractName s"
  "Address (manager_adapter name a n) = a" "ContractName (manager_adapter name a n) = name"
  by (simp_all add: aw_NewSyncAdapter_def NewSyncAdapter_def case_prod_unfold Let_def init_details_def manager_adapter_def)

section \<open>The address provider\<close>

lemma NewAccountFactory_frame:
  assumes "NewAccountFactory E a n w = Inr (af, w')"
  shows "b \<noteq> ZERO_ADDR \<Longrightarrow> details_of (aw_adapter b w') = details_of (aw_adapter b w)"
    and "ar_dc (aw_adapters w') = ar_dc (aw_adapters w)" and "rollbackAllowed (aw_adapters w') = rollbackAllowed (aw_adapters w)"
    and "priceOracles w' = priceOracles w" and "af = aw_NewSyncAdapter E a AccountFactory n"
proof -
  let ?am = "init_details (manager_adapter AccountManager ZERO_ADDR n)"
  from assms obtain w1 where w1: "aw_AddSyncAdapter ?am w = Inr w1"
    and w': "w' = (if rollbackAllowed (aw_adapters w) then w1
      else w1\<lparr>aw_managers := (aw_managers w1)(ZERO_ADDR \<mapsto> \<lparr>AccountHashes = [], isAccount = (\<lambda>_. False)\<rparr>)\<rparr>)"
      "af = aw_NewSyncAdapter E a AccountFactory n"
    unfolding NewAccountFactory_def add_account_manager_def by (elim rbind_InrE) (simp only: sum.inject prod.inject)
  show "b \<noteq> ZERO_ADDR \<Longrightarrow> details_of (aw_adapter b w') = details_of (aw_adapter b w)"
    using aw_AddSyncAdapter_frame(1)[OF w1, of b] w' by (auto simp: aw_adapter_def)
  show "ar_dc (aw_adapters w') = ar_dc (aw_adapters w)" "rollbackAllowed (aw_adapters w') = rollbackAllowed (aw_adapters w)"
    "priceOracles w' = priceOracles w" "af = aw_NewSyncAdapter E a AccountFactory n"
    using aw_AddSyncAdapter_frame(2-4)[OF w1] w' by auto
qed

lemma addPriceOracle_view:
  "details_of (aw_adapter self (addPriceOracle self n a w)) =
    AList.update ''priceOracles'' (JMap (AList.update (int_String n) (JString a) (detail_map ''priceOracles'' (aw_adapter self w))))
      (details_of (aw_adapter self w))"
  "priceOracles (addPriceOracle self n a w) = Some (case_option [] id (priceOracles w) @ [(n, a)])"
  "aw_adapters (addPriceOracle self n a w) = aw_adapters (aw_upd self (set_detail ''priceOracles''
    (JMap (AList.update (int_String n) (JString a) (detail_map ''priceOracles'' (aw_adapter self w))))) (aw_upd self init_details w))"
  "ar_dc (aw_adapters (addPriceOracle self n a w)) = ar_dc (aw_adapters w)"
proof -
  show ad: "aw_adapters (addPriceOracle self n a w) = aw_adapters (aw_upd self (set_detail ''priceOracles''
    (JMap (AList.update (int_String n) (JString a) (detail_map ''priceOracles'' (aw_adapter self w))))) (aw_upd self init_details w))"
    by (simp add: addPriceOracle_def getPriceOracleMap_def)
  then have "aw_adapter self (addPriceOracle self n a w) = aw_adapter self (aw_upd self (set_detail ''priceOracles''
    (JMap (AList.update (int_String n) (JString a) (detail_map ''priceOracles'' (aw_adapter self w))))) (aw_upd self init_details w))"
    unfolding aw_adapter_def[of self "addPriceOracle self n a w"] by (simp only: aw_adapter_def)
  then show "details_of (aw_adapter self (addPriceOracle self n a w)) =
    AList.update ''priceOracles'' (JMap (AList.update (int_String n) (JString a) (detail_map ''priceOracles'' (aw_adapter self w))))
      (details_of (aw_adapter self w))" by simp
  show "priceOracles (addPriceOracle self n a w) = Some (case_option [] id (priceOracles w) @ [(n, a)])"
    by (simp add: addPriceOracle_def getPriceOracleMap_def)
  show "ar_dc (aw_adapters (addPriceOracle self n a w)) = ar_dc (aw_adapters w)" unfolding ad by simp
qed

text \<open>What a log of the address provider does to what it remembers.\<close>

definition announces :: "string \<Rightarrow> provider_log \<Rightarrow> (int \<times> address) list" where
  "announces name l = (case payload l of Some (c, a) \<Rightarrow> if c = name then [(BlockNumber l, a)] else [] | None \<Rightarrow> [])"

definition put_block :: "int \<times> address \<Rightarrow> (string \<times> json) list \<Rightarrow> (string \<times> json) list" where
  "put_block = (\<lambda>(b, a). AList.update (int_String b) (JString a))"

lemma provider_step:
  assumes "provider_OnLog E self l w = Inr w'" and "self \<noteq> ZERO_ADDR" and "\<forall>c a. payload l = Some (c, a) \<longrightarrow> a \<noteq> self"
  shows "detail_map ''priceOracles'' (aw_adapter self w') = fold put_block (announces ''PRICE_ORACLE'' l) (detail_map ''priceOracles'' (aw_adapter self w))"
    and "detail_map ''dc'' (aw_adapter self w') = fold put_block (announces ''DATA_COMPRESSOR'' l) (detail_map ''dc'' (aw_adapter self w))"
    and "priceOracles w' = (if announces ''PRICE_ORACLE'' l = [] then priceOracles w
      else Some (case_option [] id (priceOracles w) @ announces ''PRICE_ORACLE'' l))"
    and "add_dcs (ae_chainId E) (announces ''DATA_COMPRESSOR'' l) (ar_dc (aw_adapters w)) = Inr (ar_dc (aw_adapters w'))"
proof -
  let ?P = "\<lambda>w'. detail_map ''priceOracles'' (aw_adapter self w') = fold put_block (announces ''PRICE_ORACLE'' l) (detail_map ''priceOracles'' (aw_adapter self w)) \<and>
    detail_map ''dc'' (aw_adapter self w') = fold put_block (announces ''DATA_COMPRESSOR'' l) (detail_map ''dc'' (aw_adapter self w)) \<and>
    priceOracles w' = (if announces ''PRICE_ORACLE'' l = [] then priceOracles w
      else Some (case_option [] id (priceOracles w) @ announces ''PRICE_ORACLE'' l)) \<and>
    add_dcs (ae_chainId E) (announces ''DATA_COMPRESSOR'' l) (ar_dc (aw_adapters w)) = Inr (ar_dc (aw_adapters w'))"
  have plain: "?P v" if "announces ''PRICE_ORACLE'' l = []" "announces ''DATA_COMPRESSOR'' l = []"
    "details_of (aw_adapter self v) = details_of (aw_adapter self w)" "priceOracles v = priceOracles w" "ar_dc (aw_adapters v) = ar_dc (aw_adapters w)" for v
    using that detail_map_cong[OF that(3)] by simp
  have "?P w'"
  proof (cases "payload l")
    case None
    then show ?thesis using assms(1) by (intro plain) (simp_all add: provider_OnLog_def announces_def)
  next
    case (Some ca)
    then obtain c a where ca: "payload l = Some (c, a)" by (cases ca) simp
    then have a: "self \<noteq> a" using assms(3) by blast
    let ?new = "\<lambda>name. aw_NewSyncAdapter E a name (BlockNumber l)"
    note run = assms(1)[unfolded provider_OnLog_def ca option.case prod.case Let_def]
    note added = aw_AddSyncAdapter_frame
    consider (acl) "c = ''ACL''" | (register) "c = ''CONTRACTS_REGISTER''" | (price) "c = ''PRICE_ORACLE''" | (factory) "c = ''ACCOUNT_FACTORY''" | (weth) "c = ''WETH_TOKEN''"
      | (gear) "c = ''GEAR_TOKEN''" | (treasury) "c = ''TREASURY_CONTRACT''" | (dc) "c = ''DATA_COMPRESSOR''"
      | (other) "c \<noteq> ''ACL'' \<and> c \<noteq> ''CONTRACTS_REGISTER'' \<and> c \<noteq> ''PRICE_ORACLE'' \<and> c \<noteq> ''ACCOUNT_FACTORY'' \<and> c \<noteq> ''WETH_TOKEN'' \<and>
          c \<noteq> ''GEAR_TOKEN'' \<and> c \<noteq> ''TREASURY_CONTRACT'' \<and> c \<noteq> ''DATA_COMPRESSOR''"
      by argo
    then show ?thesis
    proof cases
      case acl
      then have r: "aw_AddSyncAdapter (?new ACL) w = Inr w'" using run by simp
      then show ?thesis using acl ca added[OF r] a by (intro plain) (simp_all add: announces_def)
    next
      case register
      then have r: "aw_AddSyncAdapter (?new ContractRegister) w = Inr w'" using run by simp
      then show ?thesis using register ca added[OF r] a by (intro plain) (simp_all add: announces_def)
    next
    case price
      then have r: "aw_AddSyncAdapter (?new PriceOracle) (addPriceOracle self (BlockNumber l) a w) = Inr w'" using run by simp
      have "details_of (aw_adapter self w') = details_of (aw_adapter self (addPriceOracle self (BlockNumber l) a w))"
        using added(1)[OF r] a by simp
      then have d: "detail_map k (aw_adapter self w') = (if k = ''priceOracles''
          then AList.update (int_String (BlockNumber l)) (JString a) (detail_map ''priceOracles'' (aw_adapter self w)) else detail_map k (aw_adapter self w))" for k
        by (simp add: addPriceOracle_view detail_map_def)
      have ann: "announces ''PRICE_ORACLE'' l = [(BlockNumber l, a)]" "announces ''DATA_COMPRESSOR'' l = []"
        using price ca by (simp_all add: announces_def)
      show ?thesis unfolding ann d added(4)[OF r] added(2)[OF r] addPriceOracle_view by (simp add: put_block_def)
    next
      case factory
      then obtain af w1 where r: "NewAccountFactory E a (BlockNumber l) w = Inr (af, w1)" "aw_AddSyncAdapter af w1 = Inr w'"
        using run by (auto elim!: rbind_InrE)
      have "details_of (aw_adapter self w') = details_of (aw_adapter self w)"
        using added(1)[OF r(2)] NewAccountFactory_frame(1,5)[OF r(1)] a assms(2) by simp
      then show ?thesis using factory ca added[OF r(2)] NewAccountFactory_frame[OF r(1)] by (intro plain) (simp_all add: announces_def)
    next
      case weth
      then have r: "aw_GetToken E a (aw_upd self init_details w) = Inr w'" using run by simp
      then show ?thesis using weth ca aw_GetToken_frame[OF r] by (intro plain) (simp_all add: announces_def aw_adapter_def aw_upd_def upd_adapter_def)
    next
      case gear
      then obtain w1 where r: "aw_GetToken E a w = Inr w1" "aw_AddSyncAdapter ((?new GearToken)\<lparr>UnderlyingStateToSave := True\<rparr>) w1 = Inr w'"
        using run by (auto elim!: rbind_InrE)
      have ad: "Address ((?new GearToken)\<lparr>UnderlyingStateToSave := True\<rparr>) = a" using new_adapter_Address(1)[of E a GearToken "BlockNumber l"]
        by (metis sync_adapter.select_convs(1) sync_adapter.surjective sync_adapter.update_convs(11))
      show ?thesis using gear ca aw_GetToken_frame[OF r(1)] added[OF r(2)] ad a by (intro plain) (simp_all add: announces_def aw_adapter_def)
    next
      case treasury
      then have r: "aw_AddSyncAdapter (manager_adapter Treasury a (BlockNumber l)) w = Inr w'" using run by simp
      then show ?thesis using treasury ca added[OF r] a by (intro plain) (simp_all add: announces_def)
    next
      case dc
      then show ?thesis using run ca
        by (auto simp: announces_def put_block_def aw_adapter_def[of _ "_\<lparr>aw_adapters := _\<rparr>"] elim!: rbind_InrE)
          (auto simp: aw_adapter_def aw_upd_def upd_adapter_def)
    next
      case other
      then show ?thesis using run ca by (intro plain) (simp_all add: announces_def)
    qed
  qed
  then show "detail_map ''priceOracles'' (aw_adapter self w') = fold put_block (announces ''PRICE_ORACLE'' l) (detail_map ''priceOracles'' (aw_adapter self w))"
    "detail_map ''dc'' (aw_adapter self w') = fold put_block (announces ''DATA_COMPRESSOR'' l) (detail_map ''dc'' (aw_adapter self w))"
    "priceOracles w' = (if announces ''PRICE_ORACLE'' l = [] then priceOracles w
      else Some (case_option [] id (priceOracles w) @ announces ''PRICE_ORACLE'' l))"
    "add_dcs (ae_chainId E) (announces ''DATA_COMPRESSOR'' l) (ar_dc (aw_adapters w)) = Inr (ar_dc (aw_adapters w'))" by blast+
qed

definition announced :: "string \<Rightarrow> provider_log list \<Rightarrow> (int \<times> address) list" where
  "announced name logs = concat (map (announces name) logs)"

text \<open>No announced contract is the address provider itself.\<close>

definition others :: "address \<Rightarrow> provider_log list \<Rightarrow> bool" where
  "others self logs \<longleftrightarrow> self \<noteq> ZERO_ADDR \<and> (\<forall>l \<in> set logs. \<forall>c a. payload l = Some (c, a) \<longrightarrow> a \<noteq> self)"

lemma provider_run:
  assumes "rfold (provider_OnLog E self) logs w = Inr w'" and "others self logs"
  shows "detail_map ''priceOracles'' (aw_adapter self w') = fold put_block (announced ''PRICE_ORACLE'' logs) (detail_map ''priceOracles'' (aw_adapter self w)) \<and>
    detail_map ''dc'' (aw_adapter self w') = fold put_block (announced ''DATA_COMPRESSOR'' logs) (detail_map ''dc'' (aw_adapter self w)) \<and>
    priceOracles w' = (if announced ''PRICE_ORACLE'' logs = [] then priceOracles w
      else Some (case_option [] id (priceOracles w) @ announced ''PRICE_ORACLE'' logs)) \<and>
    add_dcs (ae_chainId E) (announced ''DATA_COMPRESSOR'' logs) (ar_dc (aw_adapters w)) = Inr (ar_dc (aw_adapters w'))"
  using assms
proof (induction logs arbitrary: w)
  case Nil
  then show ?case by (simp add: announced_def)
next
  case (Cons l logs)
  from Cons.prems(1) obtain w1 where w1: "provider_OnLog E self l w = Inr w1" "rfold (provider_OnLog E self) logs w1 = Inr w'"
    by (auto elim: rbind_InrE)
  have o: "self \<noteq> ZERO_ADDR" "\<forall>c a. payload l = Some (c, a) \<longrightarrow> a \<noteq> self" "others self logs"
    using Cons.prems(2) by (simp_all add: others_def)
  note s = provider_step[OF w1(1) o(1,2)] and IH = Cons.IH[OF w1(2) o(3)]
  have a: "announced n (l # logs) = announces n l @ announced n logs" for n by (simp add: announced_def)
  have "add_dcs (ae_chainId E) (announced ''DATA_COMPRESSOR'' (l # logs)) (ar_dc (aw_adapters w)) = Inr (ar_dc (aw_adapters w'))"
    unfolding a rfold_append s(4) using IH by simp
  then show ?case using IH s(1-3) unfolding a by simp
qed

lemma update_fresh: "k \<notin> fst ` set al \<Longrightarrow> AList.update k v al = al @ [(k, v)]"
  by (induction al) auto

lemma put_block_fresh:
  assumes "distinct (map (\<lambda>e. int_String (fst e)) os)" and "\<forall>e \<in> set os. int_String (fst e) \<notin> fst ` set m"
  shows "fold put_block os m = m @ map (\<lambda>(b, a). (int_String b, JString a)) os"
  using assms
proof (induction os arbitrary: m)
  case (Cons e os)
  obtain b a where e: "e = (b, a)" by fastforce
  have new: "AList.update (int_String b) (JString a) m = m @ [(int_String b, JString a)]"
    using Cons.prems(2) by (intro update_fresh) (simp add: e)
  have "\<forall>e \<in> set os. int_String (fst e) \<noteq> int_String b" using Cons.prems(1) by (force simp: e)
  then show ?case using Cons.IH[of "m @ [(int_String b, JString a)]"] Cons.prems by (simp add: e put_block_def new)
qed simp

text \<open>Blocks are 64 bit integers.\<close>

definition int64_blocks :: "(int \<times> address) list \<Rightarrow> bool" where
  "int64_blocks os \<longleftrightarrow> (\<forall>(b, _) \<in> set os. - (2 ^ 63) \<le> b \<and> b < 2 ^ 63)"

lemma strict_keys:
  assumes "sorted_wrt (<) (map fst os)" and "int64_blocks os"
  shows "distinct (map (\<lambda>e. int_String (fst e)) os)"
proof -
  have "inj_on int_String (fst ` set os)"
  proof (rule inj_onI)
    fix x y assume "x \<in> fst ` set os" "y \<in> fst ` set os" and eq: "int_String x = int_String y"
    moreover have "ParseInt (int_String z) = Some z" if "z \<in> fst ` set os" for z
      using assms(2) that by (intro ParseInt_int_String) (auto simp: int64_blocks_def)
    ultimately have "Some x = Some y" by metis
    then show "x = y" by simp
  qed
  moreover have "distinct (map fst os)" using assms(1) by (simp add: strict_sorted_iff)
  ultimately have "distinct (map int_String (map fst os))" unfolding distinct_map[of int_String] by simp
  then show ?thesis by (simp add: comp_def)
qed

lemma saved_blocks:
  assumes "sorted_wrt (<) (map fst os)" and "int64_blocks os"
  shows "fold put_block os [] = map (\<lambda>(b, a). (int_String b, JString a)) os"
  using put_block_fresh[OF strict_keys[OF assms], of "[]"] by simp

text \<open>
  C30: The address provider and the wrapper of the data compressors agree: whatever logs the provider has seen since it was new, the
  compressors it keeps in its details, loaded after a restart in any order, give the wrapper back as it is; and
  for every block the wrapper chooses the last compressor announced before it, with the version of its place.
\<close>

theorem provider_compressors_reload:
  assumes "rfold (provider_OnLog E self) logs w = Inr w'" and "others self logs" and "int64_blocks (announced ''DATA_COMPRESSOR'' logs)"
    and "detail_map ''dc'' (aw_adapter self w) = []" and "ar_dc (aw_adapters w) = NewDataCompressorWrapper"
    and "mset dcMap = mset (detail_map ''dc'' (aw_adapter self w'))"
  shows "LoadMultipleDC (ae_chainId E) (JMap dcMap) NewDataCompressorWrapper = Inr (ar_dc (aw_adapters w')) \<and>
    (let before = filter (\<lambda>e. fst e < b) (announced ''DATA_COMPRESSOR'' logs); (name, num) = getDataCompressorIndex b (ar_dc (aw_adapters w')) in
     if before = [] then name = ''''
     else name = dc_key (ae_chainId E) (length before - 1) \<and> (num, getDCAddr num (ar_dc (aw_adapters w'))) = last before)"
proof -
  let ?adds = "announced ''DATA_COMPRESSOR'' logs" and ?dcw = "ar_dc (aw_adapters w')"
  have run: "add_dcs (ae_chainId E) ?adds NewDataCompressorWrapper = Inr ?dcw" "detail_map ''dc'' (aw_adapter self w') = fold put_block ?adds []"
    using provider_run[OF assms(1,2)] assms(4,5) by simp_all
  have inv: "dcs_inv (ae_chainId E) ?adds ?dcw" by (rule add_dcs_inv) (rule run(1))
  then have sorted: "sorted_wrt (<) (map fst ?adds)" by (simp add: dcs_inv_def)
  have "saved_dcs ?adds dcMap"
    using assms(6) saved_blocks[OF sorted assms(3)] unfolding saved_dcs_def run(2) by (simp add: case_prod_unfold)
  then have "LoadMultipleDC (ae_chainId E) (JMap dcMap) NewDataCompressorWrapper = add_dcs (ae_chainId E) ?adds NewDataCompressorWrapper"
    using assms(3) by (intro load_saved sorted) (simp_all add: int64_blocks_def)
  moreover have "filter (\<lambda>e. fst e < b) ?adds = take (length (filter (\<lambda>e. fst e < b) ?adds)) ?adds"
    using takeWhile_eq_filter_sorted[of fst ?adds b] sorted by (metis strict_sorted_imp_sorted takeWhile_eq_take)
  ultimately show ?thesis using run(1) dcs_inv_index[OF inv, of b]
    by (auto simp: Let_def last_conv_nth) (metis One_nat_def diff_Suc_less length_greater_0_conv nth_take)+
qed

section \<open>The price oracle of a block\<close>

lemma search_last:
  fixes os :: "(int \<times> address) list"
  assumes "sorted_wrt (<) (map fst os)"
  shows "go_index os (int (search_first (\<lambda>o'. fst o' > b) os) - 1) =
    (case filter (\<lambda>o'. fst o' \<le> b) os of [] \<Rightarrow> Inl IndexOutOfRange | fs \<Rightarrow> Inr (last fs))"
proof -
  let ?fs = "filter (\<lambda>o'. fst o' < b + 1) os"
  have f: "filter (\<lambda>o'. fst o' \<le> b) os = ?fs" by (intro filter_cong) auto
  have tw: "takeWhile (\<lambda>o'. \<not> fst o' > b) os = ?fs"
    using takeWhile_eq_filter_sorted[of fst os "b + 1"] assms
    by (simp add: strict_sorted_imp_sorted not_less zle_add1_eq_le)
  then have n: "search_first (\<lambda>o'. fst o' > b) os = length ?fs" by (simp add: search_first_def)
  have len: "length ?fs \<le> length os" by (rule length_filter_le)
  have pre: "?fs = take (length ?fs) os" using tw by (metis takeWhile_eq_take)
  show ?thesis
  proof (cases "?fs = []")
    case True
    then show ?thesis unfolding f n by (simp add: go_index_def)
  next
    case False
    then have pos: "0 < length ?fs" by blast
    have "last ?fs = take (length ?fs) os ! (length ?fs - 1)" using False pre by (metis last_conv_nth)
    also have "\<dots> = os ! (length ?fs - 1)" using pos by simp
    finally have l: "last ?fs = os ! (length ?fs - 1)" .
    have i: "length ?fs - 1 < length os" "int (length ?fs) - 1 = int (length ?fs - 1)" using pos len by linarith+
    show ?thesis unfolding f n i(2) go_index_nat[OF i(1)] l[symmetric] using False by (simp add: list.case_eq_if)
  qed
qed

text \<open>Loading the oracles from the saved map, in any order.\<close>

lemma load_oracles:
  assumes "sorted_wrt (<) (map fst os)" and "int64_blocks os" and "mset m = mset (map (\<lambda>(b, a). (int_String b, JString a)) os)"
  shows "\<exists>acc. rfold load_oracle m [] = Inr acc \<and> sort_key fst acc = os"
proof -
  let ?entry = "\<lambda>(b, a). (int_String b, JString a)"
  let ?read = "\<lambda>e. (the (ParseInt (fst e)), case snd e of JString a \<Rightarrow> a | _ \<Rightarrow> '''')"
  have entry: "load_oracle e acc = Inr (acc @ [?read e])" "?read e \<in> set os" if "e \<in> set m" for e acc
  proof -
    have "e \<in> set (map ?entry os)" using that mset_eq_setD[OF assms(3)] by simp
    then obtain b a where ba: "(b, a) \<in> set os" "e = (int_String b, JString a)" by auto
    then have "ParseInt (int_String b) = Some b" using assms(2) by (intro ParseInt_int_String) (auto simp: int64_blocks_def)
    then show "load_oracle e acc = Inr (acc @ [?read e])" "?read e \<in> set os" using ba by (simp_all add: load_oracle_def)
  qed
  have fold: "rfold load_oracle xs acc = Inr (acc @ map ?read xs)" if "set xs \<subseteq> set m" for xs acc
    using that by (induction xs arbitrary: acc) (auto simp: entry)
  have "mset (map ?read m) = image_mset ?read (mset m)" by simp
  also have "\<dots> = mset (map (?read \<circ> ?entry) os)" unfolding assms(3) by (simp add: image_mset.compositionality)
  also have "map (?read \<circ> ?entry) os = os"
    using assms(2) by (intro map_idI) (auto simp: int64_blocks_def ParseInt_int_String)
  finally have ms: "mset (map ?read m) = mset os" .
  have os: "sorted (map fst os)" "inj_on fst (set os)" using assms(1) by (simp_all add: strict_sorted_iff distinct_map)
  have "inj_on fst (set (map ?read m))" using os(2) unfolding mset_eq_setD[OF ms] .
  then have "sort_key fst (map ?read m) = os" using ms os(1) by (intro sort_key_inj_key_eq)
  then show ?thesis using fold[of m "[]"] by simp
qed

text \<open>A provider as it was left, or loaded again from its details.\<close>

definition same_or_reloaded :: "address \<Rightarrow> 'r admin_world \<Rightarrow> 'r admin_world \<Rightarrow> bool" where
  "same_or_reloaded self w v \<longleftrightarrow> v = w \<or>
    priceOracles v = None \<and> mset (detail_map ''priceOracles'' (aw_adapter self v)) = mset (detail_map ''priceOracles'' (aw_adapter self w))"

text \<open>
  C16: The address provider knows the price oracle of every block: after any logs, and again after a restart, it names the last
  oracle announced up to the block; for a block before the first one it ends the process with an index out of range.
\<close>

theorem provider_price_oracles:
  assumes "rfold (provider_OnLog E self) logs w = Inr w'" and "others self logs"
    and "sorted_wrt (<) (map fst (announced ''PRICE_ORACLE'' logs))" and "int64_blocks (announced ''PRICE_ORACLE'' logs)"
    and "detail_map ''priceOracles'' (aw_adapter self w) = []" and "priceOracles w = None"
    and "same_or_reloaded self w' v" and "- (2 ^ 63) \<le> b" and "b < 2 ^ 63"
  shows "case filter (\<lambda>o'. fst o' \<le> b) (announced ''PRICE_ORACLE'' logs) of
      [] \<Rightarrow> provider_GetDetailsByKey self (int_String b) v = Inl IndexOutOfRange
    | known \<Rightarrow> \<exists>v'. provider_GetDetailsByKey self (int_String b) v = Inr (snd (last known), v')"
proof -
  let ?os = "announced ''PRICE_ORACLE'' logs"
  have map: "detail_map ''priceOracles'' (aw_adapter self w') = map (\<lambda>(b, a). (int_String b, JString a)) ?os"
    and cache: "priceOracles w' = (if ?os = [] then None else Some ?os)"
    using provider_run[OF assms(1,2)] assms(5,6) saved_blocks[OF assms(3,4)] by simp_all
  have fresh: "\<exists>cache. case_option [] id cache = ?os \<and>
      (case priceOracles v of Some os \<Rightarrow> Inr (Some os)
       | None \<Rightarrow> rbind (rfold load_oracle (detail_map ''priceOracles'' (aw_adapter self v)) []) (\<lambda>os.
           Inr (if os = [] then None else Some (sort_key fst os)))) = Inr cache"
  proof (cases "priceOracles v")
    case None
    then have "mset (detail_map ''priceOracles'' (aw_adapter self v)) = mset (map (\<lambda>(b, a). (int_String b, JString a)) ?os)"
      using assms(7) map by (auto simp: same_or_reloaded_def)
    from load_oracles[OF assms(3,4) this] obtain acc where
      "rfold load_oracle (detail_map ''priceOracles'' (aw_adapter self v)) [] = Inr acc" "sort_key fst acc = ?os" by blast
    then show ?thesis using None by auto
  next
    case (Some os)
    then show ?thesis using assms(7) cache by (auto simp: same_or_reloaded_def split: if_splits)
  qed
  then obtain cache where c: "case_option [] id cache = ?os"
    "(case priceOracles v of Some os \<Rightarrow> Inr (Some os)
       | None \<Rightarrow> rbind (rfold load_oracle (detail_map ''priceOracles'' (aw_adapter self v)) []) (\<lambda>os.
           Inr (if os = [] then None else Some (sort_key fst os)))) = Inr cache" by blast
  have p: "ParseInt (int_String b) = Some b" using assms(8,9) by (rule ParseInt_int_String)
  have "provider_GetDetailsByKey self (int_String b) v = rbind (go_index ?os (int (search_first (\<lambda>o'. fst o' > b) ?os) - 1))
      (\<lambda>po. Inr (snd po, (aw_upd self init_details v)\<lparr>priceOracles := cache\<rparr>))"
    using c by (simp add: provider_GetDetailsByKey_def p getPriceOracleMap_def Let_def)
  then show ?thesis unfolding search_last[OF assms(3)] by (auto split: list.splits)
qed

text \<open>
  C38: A restarted address provider that sees a new price oracle before it was asked for one forgets all the earlier oracles, though they
  are in its details: asking for a block before the new one ends the process.
\<close>

theorem restart_forgets_oracles:
  assumes "priceOracles w = None" and "payload l = Some (''PRICE_ORACLE'', a)" and "provider_OnLog E self l w = Inr w'" and "a \<noteq> self"
    and "self \<noteq> ZERO_ADDR" and "b < BlockNumber l" and "- (2 ^ 63) \<le> b" and "b < 2 ^ 63"
  shows "provider_GetDetailsByKey self (int_String b) w' = Inl IndexOutOfRange"
proof -
  have "announces ''PRICE_ORACLE'' l = [(BlockNumber l, a)]" using assms(2) by (simp add: announces_def)
  then have "priceOracles w' = Some [(BlockNumber l, a)]" using provider_step(3)[OF assms(3,5)] assms(1,2,4) by simp
  moreover have "ParseInt (int_String b) = Some b" using assms(7,8) by (rule ParseInt_int_String)
  ultimately show ?thesis using assms(6)
    by (simp add: provider_GetDetailsByKey_def getPriceOracleMap_def search_first_def go_index_def)
qed

section \<open>Account managers\<close>

lemma kit_Add_names:
  assumes "kit_Add name addr a kit = Inr kit'" and "kit_GetAdapterAddressByName n kit = Inr as"
  shows "kit_GetAdapterAddressByName n kit' = Inr (if n = name then as @ [addr] else as)"
  using assms
  by (auto simp: kit_Add_def kit_GetAdapterAddressByName_def level_GetAddressByName_def level_Add_def Let_def nth_list_update go_simps
      elim!: rbind_InrE split: if_splits)

text \<open>The state of the registry that matters here: it is well-formed, not rolling back, and lists these account managers.\<close>

definition managers :: "address list \<Rightarrow> 'r adapters_repo \<Rightarrow> bool" where
  "managers as r \<longleftrightarrow> registry_wf r \<and> \<not> rollbackAllowed r \<and> kit_GetAdapterAddressByName AccountManager (world_kit (ar_world r)) = Inr as"

lemma AddSyncAdapter_managers:
  assumes "AddSyncAdapter (AdapterObj a) r = Inr r'" and "managers as r"
  shows "managers (as @ (if ContractName a = AccountManager then [Address a] else [])) r'"
proof -
  have r: "registry_wf r" "\<not> rollbackAllowed r" "kit_GetAdapterAddressByName AccountManager (world_kit (ar_world r)) = Inr as"
    using assms(2) by (simp_all add: managers_def)
  have "kit_GetAdapterAddressByName AccountManager (world_kit (ar_world r')) = Inr (as @ (if ContractName a = AccountManager then [Address a] else []))"
    using assms(1)
  proof (cases rule: AddSyncAdapter_cases)
    case rollback
    then show ?thesis using r(2) by simp
  next
    case (add r1 os)
    have r1: "kit_GetAdapterAddressByName AccountManager (world_kit (ar_world r1)) = Inr as" using disable_oracles_keep[OF add(3)] r(3) by simp
    show ?thesis using add(2)
    proof (cases rule: addSyncAdapter_cases)
      case (feed f)
      then show ?thesis by simp
    next
      case (wrapped name s s' names)
      have "ContractName a \<noteq> AccountManager"
      proof
        assume am: "ContractName a = AccountManager"
        obtain k where k: "kit_Add AccountManager (Address a) (Address a) (world_kit (ar_world r1)) = Inr k" "world_kit (ar_world r') = k"
          using add(2) am by (auto simp: addSyncAdapter_def obj_state_def admin_names_def kit_AddSyncAdapter_def elim!: rbind_InrE)
        have "kit_GetAdapterAddressByName AccountManager k = Inr (as @ [Address a])" using kit_Add_names[OF k(1) r1] by simp
        moreover have "k = world_kit (ar_world r1)" using k(2) wrapped(4) by simp
        ultimately have "Inr (as @ [Address a]) = (Inr as :: address list res)" using r1 by (simp only:)
        then show False by simp
      qed
      then show ?thesis using r1 wrapped(4) by simp
    next
      case (kit k)
      then show ?thesis using kit_Add_names[OF kit(3) r1] by (simp add: obj_state_def)
    qed
  qed
  then show ?thesis using AddSyncAdapter_wf[OF assms(1) r(1)] AddSyncAdapter_frame(3)[OF assms(1)] r(2) by (simp add: managers_def)
qed

lemma aw_AddSyncAdapter_managers:
  assumes "aw_AddSyncAdapter a w = Inr w'" and "managers as (aw_adapters w)"
  shows "managers (as @ (if ContractName a = AccountManager then [Address a] else [])) (aw_adapters w')"
proof -
  from assms(1) obtain r where r: "AddSyncAdapter (AdapterObj a) (aw_adapters w) = Inr r" "w' = w\<lparr>aw_adapters := r\<rparr>"
    unfolding aw_AddSyncAdapter_def by (elim rbind_InrE) simp
  show ?thesis using AddSyncAdapter_managers[OF r(1) assms(2)] unfolding r(2) by simp
qed

lemma managers_upd [simp]:
  "managers as (aw_adapters (aw_upd a f w)) = managers as (aw_adapters w)" "managers as (r\<lparr>ar_dc := d\<rparr>) = managers as r"
proof -
  show "managers as (aw_adapters (aw_upd a f w)) = managers as (aw_adapters w)"
    unfolding managers_def aw_upd_def by (simp add: upd_adapter_registry) (simp add: upd_adapter_def)
  have "registry_wf (r\<lparr>ar_dc := d\<rparr>) = registry_wf r" by (rule registry_cong) simp_all
  then show "managers as (r\<lparr>ar_dc := d\<rparr>) = managers as r" by (simp add: managers_def)
qed

lemma managers_addPriceOracle [simp]: "managers as (aw_adapters (addPriceOracle self n a w)) = managers as (aw_adapters w)"
  unfolding addPriceOracle_view(3) by simp

lemma provider_managers:
  assumes "provider_OnLog E self l w = Inr w'" and "managers as (aw_adapters w)"
  shows "managers (as @ map (\<lambda>_. ZERO_ADDR) (announces ''ACCOUNT_FACTORY'' l)) (aw_adapters w')"
proof (cases "payload l")
  case None
  then show ?thesis using assms by (simp add: provider_OnLog_def announces_def)
next
  case (Some ca)
  then obtain c a where ca: "payload l = Some (c, a)" by (cases ca) simp
  note run = assms(1)[unfolded provider_OnLog_def ca option.case prod.case Let_def]
  have plain: ?thesis if "managers as (aw_adapters w')" "c \<noteq> ''ACCOUNT_FACTORY''" using that ca by (simp add: announces_def)
  have one: "managers as (aw_adapters w2)" if "aw_AddSyncAdapter s w1 = Inr w2" "managers as (aw_adapters w1)" "ContractName s \<noteq> AccountManager" for s w1 w2
    using aw_AddSyncAdapter_managers[OF that(1,2)] that(3) by simp
  consider (acl) "c = ''ACL''" | (register) "c = ''CONTRACTS_REGISTER''" | (price) "c = ''PRICE_ORACLE''" | (factory) "c = ''ACCOUNT_FACTORY''" | (weth) "c = ''WETH_TOKEN''"
    | (gear) "c = ''GEAR_TOKEN''" | (treasury) "c = ''TREASURY_CONTRACT''" | (dc) "c = ''DATA_COMPRESSOR''"
    | (other) "c \<noteq> ''ACL'' \<and> c \<noteq> ''CONTRACTS_REGISTER'' \<and> c \<noteq> ''PRICE_ORACLE'' \<and> c \<noteq> ''ACCOUNT_FACTORY'' \<and> c \<noteq> ''WETH_TOKEN'' \<and>
        c \<noteq> ''GEAR_TOKEN'' \<and> c \<noteq> ''TREASURY_CONTRACT'' \<and> c \<noteq> ''DATA_COMPRESSOR''"
    by argo
  then show ?thesis
  proof cases
    case acl
    then have r: "aw_AddSyncAdapter (aw_NewSyncAdapter E a ACL (BlockNumber l)) w = Inr w'" using run by simp
    show ?thesis by (intro plain one[OF r]) (simp_all add: assms(2) acl)
  next
    case register
    then have r: "aw_AddSyncAdapter (aw_NewSyncAdapter E a ContractRegister (BlockNumber l)) w = Inr w'" using run by simp
    show ?thesis by (intro plain one[OF r]) (simp_all add: assms(2) register)
  next
    case price
    then have r: "aw_AddSyncAdapter (aw_NewSyncAdapter E a PriceOracle (BlockNumber l)) (addPriceOracle self (BlockNumber l) a w) = Inr w'" using run by simp
    show ?thesis by (intro plain one[OF r]) (simp_all add: assms(2) price)
  next
    case factory
    then obtain w1 w2 where r: "aw_AddSyncAdapter (init_details (manager_adapter AccountManager ZERO_ADDR (BlockNumber l))) w = Inr w1"
      "w2 = (if rollbackAllowed (aw_adapters w) then w1
        else w1\<lparr>aw_managers := (aw_managers w1)(ZERO_ADDR \<mapsto> \<lparr>AccountHashes = [], isAccount = (\<lambda>_. False)\<rparr>)\<rparr>)"
      "aw_AddSyncAdapter (aw_NewSyncAdapter E a AccountFactory (BlockNumber l)) w2 = Inr w'"
      using run by (auto simp: NewAccountFactory_def add_account_manager_def elim!: rbind_InrE)
    have "managers (as @ [ZERO_ADDR]) (aw_adapters w1)" using aw_AddSyncAdapter_managers[OF r(1) assms(2)] by simp
    then have "managers (as @ [ZERO_ADDR]) (aw_adapters w')" using aw_AddSyncAdapter_managers[OF r(3)] r(2) by simp
    then show ?thesis using factory ca by (simp add: announces_def)
  next
    case weth
    then have r: "aw_GetToken E a (aw_upd self init_details w) = Inr w'" using run by simp
    show ?thesis by (intro plain) (simp_all add: assms(2) weth aw_GetToken_frame(1)[OF r])
  next
    case gear
    then obtain w1 where r: "aw_GetToken E a w = Inr w1"
      "aw_AddSyncAdapter ((aw_NewSyncAdapter E a GearToken (BlockNumber l))\<lparr>UnderlyingStateToSave := True\<rparr>) w1 = Inr w'"
      using run by (auto elim!: rbind_InrE)
    then show ?thesis using gear assms(2) aw_GetToken_frame(1)[OF r(1)]
      by (intro plain one[OF r(2)]) (simp_all add: aw_NewSyncAdapter_def NewSyncAdapter_def case_prod_unfold Let_def)
  next
    case treasury
    then have r: "aw_AddSyncAdapter (manager_adapter Treasury a (BlockNumber l)) w = Inr w'" using run by simp
    show ?thesis by (intro plain one[OF r]) (simp_all add: assms(2) treasury)
  next
    case dc
    then obtain w2 d where "w' = w2\<lparr>aw_adapters := (aw_adapters w2)\<lparr>ar_dc := d\<rparr>\<rparr>" "managers as (aw_adapters w2)"
      using run assms(2) by (auto elim!: rbind_InrE)
    then show ?thesis using dc by (intro plain) simp_all
  next
    case other
    then show ?thesis using run assms(2) by (intro plain) simp_all
  qed
qed

lemma provider_run_managers:
  assumes "rfold (provider_OnLog E self) logs w = Inr w'" and "managers as (aw_adapters w)"
  shows "managers (as @ map (\<lambda>_. ZERO_ADDR) (announced ''ACCOUNT_FACTORY'' logs)) (aw_adapters w')"
  using assms
proof (induction logs arbitrary: w as)
  case Nil
  then show ?case by (simp add: announced_def)
next
  case (Cons l logs)
  from Cons.prems(1) obtain w1 where w1: "provider_OnLog E self l w = Inr w1" "rfold (provider_OnLog E self) logs w1 = Inr w'"
    by (auto elim: rbind_InrE)
  from Cons.IH[OF w1(2) provider_managers[OF w1(1) Cons.prems(2)]] show ?case by (simp add: announced_def)
qed

text \<open>
  C37: Every account factory the address provider announces brings an account manager of its own, all at the zero address, and the repository
  insists on exactly one: the first account opened after a second factory, or without any, ends the process.
\<close>

theorem account_managers_counted:
  assumes "rfold (provider_OnLog E self) logs w = Inr w'" and "registry_wf (aw_adapters w)" and "\<not> rollbackAllowed (aw_adapters w)"
    and "kit_GetAdapterAddressByName AccountManager (world_kit (ar_world (aw_adapters w))) = Inr []"
    and "length (announced ''ACCOUNT_FACTORY'' logs) \<noteq> 1" and "payload l = NewCreditAccount account"
  shows "factory_OnLog E self' l w' = Inl (Fatal ''account manager model available in adapter kit'')"
proof -
  have "managers [] (aw_adapters w)" using assms(2-4) by (simp add: managers_def)
  from provider_run_managers[OF assms(1) this]
  have "kit_GetAdapterAddressByName AccountManager (world_kit (ar_world (aw_adapters w'))) =
      Inr (map (\<lambda>_. ZERO_ADDR) (announced ''ACCOUNT_FACTORY'' logs))" by (simp add: managers_def)
  then show ?thesis using assms(5,6)
    by (simp add: factory_OnLog_def AddAccountAddr_def ar_GetAdapterAddressByName_def admin_names_def)
qed

text \<open>The accounts a manager follows, in its fields and in its details.\<close>

definition account_list :: "'r admin_env \<Rightarrow> json_obj \<Rightarrow> address list res" where
  "account_list E d = (case map_of d ''accounts'' of None \<Rightarrow> Inr [] | Some JNull \<Rightarrow> Inr [] | Some v \<Rightarrow> ConvertToListOfString E v)"

lemma getAccountAddrs_eq:
  "getAccountAddrs E m w = rbind (account_list E (details_of (aw_adapter m w))) (\<lambda>as. Inr (as, aw_upd m init_details w))"
  by (simp add: getAccountAddrs_def account_list_def split: option.split json.split)

definition follows :: "'r admin_env \<Rightarrow> address \<Rightarrow> address list \<Rightarrow> 'r admin_world \<Rightarrow> bool" where
  "follows E m accs w \<longleftrightarrow> managers [m] (aw_adapters w) \<and> account_list E (details_of (aw_adapter m w)) = Inr accs \<and>
    (\<exists>mg. aw_managers w m = Some mg \<and> AccountHashes mg = accs \<and> isAccount mg = (\<lambda>a. a \<in> set accs))"

definition opened :: "factory_event txlog list \<Rightarrow> address list" where
  "opened logs = concat (map (\<lambda>l. case payload l of NewCreditAccount a \<Rightarrow> [a] | _ \<Rightarrow> []) logs)"

lemma account_list_set:
  assumes "\<forall>xs. ConvertToListOfString E (JList (map JString xs)) = Inr xs"
  shows "account_list E (AList.update ''accounts'' (JList (map JString accs)) d) = Inr accs"
  using assms by (simp add: account_list_def)

lemma AddAccount_follows:
  assumes "follows E m accs w" and "\<forall>xs. ConvertToListOfString E (JList (map JString xs)) = Inr xs"
  shows "\<exists>w'. AddAccount E m a w = Inr w' \<and> follows E m (accs @ [a]) w'"
proof -
  let ?set = "aw_upd m (set_detail ''accounts'' (JList (map JString (accs @ [a]))))"
  let ?w1 = "?set (aw_upd m init_details w)"
  obtain mg where mg: "aw_managers w m = Some mg" "isAccount mg = (\<lambda>a. a \<in> set accs)" using assms(1) by (auto simp: follows_def)
  let ?mg = "mg\<lparr>isAccount := (\<lambda>b. isAccount mg b \<or> b \<in> set (accs @ [a])), AccountHashes := accs @ [a]\<rparr>"
  let ?w2 = "aw_upd m init_details ?w1"
  let ?w' = "?w2\<lparr>aw_managers := (aw_managers ?w2)(m \<mapsto> ?mg)\<rparr>"
  note l = account_list_set[OF assms(2), of "accs @ [a]"]
  have run: "AddAccount E m a w = Inr ?w'"
    using assms(1) mg(1)
    by (simp only: AddAccount_def follows_def rbind_simps prod.case populateInternalData_def getAccountAddrs_eq aw_upd_simps deref_simps
        if_True simp_thms details_simps l)
  have "aw_adapter m ?w' = aw_adapter m ?w2" by (simp add: aw_adapter_def)
  then have "account_list E (details_of (aw_adapter m ?w')) = Inr (accs @ [a])" by (simp only: aw_upd_simps if_True simp_thms details_simps l)
  moreover have "managers [m] (aw_adapters ?w')" using assms(1) by (simp add: follows_def)
  ultimately have "follows E m (accs @ [a]) ?w'" using mg(2) by (auto simp: follows_def)
  with run show ?thesis by blast
qed

lemma factory_new_account:
  assumes "follows E m accs w" and "payload l = NewCreditAccount a"
  shows "factory_OnLog E f l w = AddAccount E m a w"
proof -
  have m: "managers [m] (aw_adapters w)" using assms(1) by (simp add: follows_def)
  then have "GetAdapter m (aw_adapters w) = Some (Ref m)" using listed_adapter[of "aw_adapters w" AccountManager "[m]" m] by (simp add: managers_def)
  then show ?thesis using m assms(2)
    by (simp add: factory_OnLog_def AddAccountAddr_def ar_GetAdapterAddressByName_def admin_names_def managers_def)
qed

lemma factory_step_follows:
  assumes "follows E m accs w" and "\<forall>xs. ConvertToListOfString E (JList (map JString xs)) = Inr xs" and "factory_OnLog E f l w = Inr w'"
  shows "follows E m (accs @ opened [l]) w'"
proof (cases "payload l")
  case (TakeForever a b)
  then obtain r where "w' = w\<lparr>aw_blocks := r\<rparr>" using assms(3) by (auto simp: factory_OnLog_def admin_dao_def elim!: rbind_InrE)
  then show ?thesis using assms(1) TakeForever
    by (simp add: follows_def opened_def aw_adapter_def)
next
  case (NewCreditAccount a)
  then show ?thesis using AddAccount_follows[OF assms(1,2), of a] factory_new_account[OF assms(1), of l a f] assms(3) by (auto simp: opened_def)
next
  case OtherFactoryEvent
  then show ?thesis using assms by (simp add: factory_OnLog_def opened_def)
qed

lemma factory_run_follows:
  assumes "rfold (factory_OnLog E f) logs w = Inr w'" and "follows E m accs w" and "\<forall>xs. ConvertToListOfString E (JList (map JString xs)) = Inr xs"
  shows "follows E m (accs @ opened logs) w'"
  using assms(1,2)
proof (induction logs arbitrary: w accs)
  case Nil
  then show ?case by (simp add: opened_def)
next
  case (Cons l logs)
  from Cons.prems(1) obtain w1 where w1: "factory_OnLog E f l w = Inr w1" "rfold (factory_OnLog E f) logs w1 = Inr w'"
    by (auto elim: rbind_InrE)
  from Cons.IH[OF w1(2) factory_step_follows[OF Cons.prems(2) assms(3) w1(1)]] show ?case by (simp add: opened_def)
qed

lemma NewAccountFactory_follows:
  assumes "NewAccountFactory E a n w = Inr (af, w1)" and "managers [] (aw_adapters w)"
  shows "follows E ZERO_ADDR [] w1"
proof -
  let ?am = "init_details (manager_adapter AccountManager ZERO_ADDR n)" and ?mg = "\<lparr>AccountHashes = [], isAccount = (\<lambda>_. False)\<rparr>"
  have "\<not> rollbackAllowed (aw_adapters w)" using assms(2) by (simp add: managers_def)
  then obtain w0 where w0: "aw_AddSyncAdapter ?am w = Inr w0" "w1 = w0\<lparr>aw_managers := (aw_managers w0)(ZERO_ADDR \<mapsto> ?mg)\<rparr>"
    using assms(1) unfolding NewAccountFactory_def add_account_manager_def by (auto elim!: rbind_InrE)
  have m: "managers [ZERO_ADDR] (aw_adapters w0)" using aw_AddSyncAdapter_managers[OF w0(1) assms(2)] by simp
  obtain r where r: "AddSyncAdapter (AdapterObj ?am) (aw_adapters w) = Inr r" "w0 = w\<lparr>aw_adapters := r\<rparr>"
    using w0(1) unfolding aw_AddSyncAdapter_def by (elim rbind_InrE) simp
  have "heap (ar_world r) ZERO_ADDR = ?am"
    using r(1)
  proof (cases rule: AddSyncAdapter_cases)
    case rollback
    then show ?thesis using assms(2) by (simp add: managers_def)
  next
    case (add r1 as)
    show ?thesis using add(2)
    proof (cases rule: addSyncAdapter_cases)
      case (feed f)
      then show ?thesis by simp
    qed (simp_all add: obj_state_def)
  qed
  then have ad: "aw_adapter ZERO_ADDR w1 = ?am" by (simp add: aw_adapter_def w0(2) r(2))
  have "details_of ?am = []" by (simp add: init_details_def manager_adapter_def details_of_def)
  then have "account_list E (details_of (aw_adapter ZERO_ADDR w1)) = Inr []" using ad by (simp add: account_list_def)
  then show ?thesis using m by (simp add: follows_def w0(2))
qed

text \<open>
  C15: The account manager of a factory follows exactly the accounts the factory has opened, in order: these are what it asks
  transfers for, and a transfer is handed on with a mark for each end that is one of them.
\<close>

theorem accounts_followed:
  assumes "NewAccountFactory E a n w = Inr (af, w1)" and "registry_wf (aw_adapters w)" and "\<not> rollbackAllowed (aw_adapters w)"
    and "kit_GetAdapterAddressByName AccountManager (world_kit (ar_world (aw_adapters w))) = Inr []"
    and "rfold (factory_OnLog E f) logs w1 = Inr w2" and "\<forall>xs. ConvertToListOfString E (JList (map JString xs)) = Inr xs"
  shows "map_option AccountHashes (aw_managers w2 ZERO_ADDR) = Some (opened logs) \<and>
    (\<forall>l src dst amount w3. payload l = Some (src, dst, amount) \<and> manager_OnLog E ZERO_ADDR l w2 = Inr w3 \<longrightarrow>
      aw_transfers w3 = AddTokenTransfer \<lparr>token_transfer.tt_TxHash = TxHash l, tt_BlockNum = BlockNumber l, tt_LogID = Index l, tt_From = src,
        tt_To = dst, tt_Token = logAddress l, tt_Amount = amount, IsFromAccount = src \<in> set (opened logs), IsToAccount = dst \<in> set (opened logs)\<rparr>
        (aw_transfers w2))"
proof -
  have "managers [] (aw_adapters w)" using assms(2-4) by (simp add: managers_def)
  from factory_run_follows[OF assms(5) NewAccountFactory_follows[OF assms(1) this] assms(6)]
  obtain mg where mg: "aw_managers w2 ZERO_ADDR = Some mg" "AccountHashes mg = opened logs" "isAccount mg = (\<lambda>a. a \<in> set (opened logs))"
    by (auto simp: follows_def)
  show ?thesis using mg by (auto simp: manager_OnLog_def AddAccountTokenTransfer_def elim!: rbind_InrE)
qed

section \<open>The check at start\<close>

lemma check_entries_zero:
  assumes "\<forall>e \<in> set data. ls_LastSync e = 0"
  shows "fold check_entry data (0, 0, 0) = (0, 0, 0)"
  using assms by (induction data) (auto simp: check_entry_def)

lemma check_entries_cm:
  assumes "\<forall>e \<in> set data. 0 \<le> ls_LastSync e" and "0 \<le> m"
  shows "\<exists>f m'. fold check_entry data (f0, m, 0) = (f, m', 0) \<and>
    m' = last (m # map ls_LastSync (filter (\<lambda>e. ls_Type e = AccountManager) data))"
  using assms
proof (induction data arbitrary: f0 m)
  case (Cons e data)
  let ?f1 = "if ls_Type e = AccountFactory then ls_LastSync e else f0" and ?m1 = "if ls_Type e = AccountManager then ls_LastSync e else m"
  have e: "check_entry e (f0, m, 0) = (?f1, ?m1, 0)" using Cons.prems by (auto simp: check_entry_def)
  have "0 \<le> ?m1" using Cons.prems by auto
  from Cons.IH[OF _ this, of ?f1] Cons.prems(1) show ?case unfolding fold.simps comp_def e by auto
qed simp

text \<open>
  The check at start that accounts, factory and managers are in step: with the zeros it reads (the query renames the
  column of the last sync to one the struct does not have) it passes, and with the values in the database it would stop
  every program whose account manager has been synced, as the least sync of the credit managers starts at zero.
\<close>

theorem start_check_checks_nothing:
  shows "((\<forall>e \<in> set data. ls_LastSync e = 0) \<longrightarrow> initChecks data = Inr ()) \<and>
    ((\<forall>e \<in> set data. 0 \<le> ls_LastSync e) \<and> last (0 # map ls_LastSync (filter (\<lambda>e. ls_Type e = AccountManager) data)) > 0 \<longrightarrow>
      (\<exists>msg. initChecks data = Inl (Fatal msg)))"
  using check_entries_cm[of data 0 0] check_entries_zero[of data] by (auto simp: initChecks_def)

section \<open>A concrete provider\<close>

definition demo_admin_env :: "unit admin_env" where
  "demo_admin_env = \<lparr>ae_chain = demo_chain, ae_chainId = 1, ae_NewContract = (\<lambda>_ n. (n, n)), ae_FetchVersion = (\<lambda>_ _. 1),
     ae_NewToken = (\<lambda>_. None), ConvertToListOfString = (\<lambda>v. case v of JList vs \<Rightarrow>
       Inr (map (\<lambda>v. case v of JString s \<Rightarrow> s | _ \<Rightarrow> '''') vs) | _ \<Rightarrow> Inl (Fatal ''parsing accounts'')),
     GetLogsForTransfer = (\<lambda>_ _ _ _. Inr []), Convert = (\<lambda>_ _ _ x _ _. Some x), ae_IsGBv1 = (\<lambda>v. v = 1),
     NewPool = (\<lambda>a n w. Inr (demo_sa Pool a n, w)), NewCreditManager = (\<lambda>a n w. Inr (demo_sa CreditManager a n, w))\<rparr>"

definition demo_admin :: "unit admin_world res" where
  "demo_admin = rbind (NewAdapterKitHandler () demo_feeds False) (\<lambda>r. Inr \<lparr>aw_adapters = r, aw_blocks = NewBlocksRepo,
     aw_tokens = \<lparr>wethAddr = '''', usdcAddr = '''', gearTokenAddr = '''', tr_tokens = [], dieselTokens = []\<rparr>,
     aw_transfers = NewDirectTransferManager, aw_managers = (\<lambda>_. None), priceOracles = None\<rparr>)"

definition demo_set :: "int \<Rightarrow> string \<Rightarrow> address \<Rightarrow> provider_log" where
  "demo_set b name a = \<lparr>BlockNumber = b, Index = 0, TxIndex = 0, TxHash = ''h'', logAddress = ''ap'', topic0 = ''AddressSet(bytes32,address)'',
     payload = Some (name, a)\<rparr>"

definition demo_sets :: "provider_log list" where
  "demo_sets = [demo_set 5 ''PRICE_ORACLE'' ''o1'', demo_set 6 ''DATA_COMPRESSOR'' ''d1'', demo_set 7 ''ACCOUNT_FACTORY'' ''f1'',
     demo_set 12 ''PRICE_ORACLE'' ''o2'', demo_set 20 ''ACCOUNT_FACTORY'' ''f2'']"

definition demo_account :: "address \<Rightarrow> factory_event txlog" where
  "demo_account a = \<lparr>BlockNumber = 30, Index = 1, TxIndex = 0, TxHash = ''h'', logAddress = ''f1'', topic0 = ''NewCreditAccount(address)'',
     payload = NewCreditAccount a\<rparr>"

lemma demo_admin_new:
  assumes "demo_admin = Inr w"
  shows "detail_map ''dc'' (aw_adapter ''ap'' w) = []" "detail_map ''priceOracles'' (aw_adapter ''ap'' w) = []"
    "ar_dc (aw_adapters w) = NewDataCompressorWrapper" "priceOracles w = None" "registry_wf (aw_adapters w)" "\<not> rollbackAllowed (aw_adapters w)"
proof -
  obtain r where r: "NewAdapterKitHandler () demo_feeds False = Inr r" "aw_adapters w = r" "priceOracles w = None"
    using assms by (auto simp: demo_admin_def elim!: rbind_InrE)
  have "QueryFeeds demo_feeds = []" by (simp add: demo_feeds_def)
  then show "registry_wf (aw_adapters w)" using NewAdapterKitHandler_wf[OF r(1)] r(2) by simp
  have "heap (ar_world r) = (\<lambda>_. aqf_adapter demo_feeds)" "ar_dc r = NewDataCompressorWrapper" "\<not> rollbackAllowed r"
    using r(1) by (auto simp: NewAdapterKitHandler_def elim!: rbind_InrE)
  then show "detail_map ''dc'' (aw_adapter ''ap'' w) = []" "detail_map ''priceOracles'' (aw_adapter ''ap'' w) = []"
    "ar_dc (aw_adapters w) = NewDataCompressorWrapper" "priceOracles w = None" "\<not> rollbackAllowed (aw_adapters w)"
    by (simp_all add: r(2,3) aw_adapter_def detail_map_def details_of_def demo_feeds_def demo_sa_def)
qed

lemma demo_sets_run:
  obtains w w' where "demo_admin = Inr w" "rfold (provider_OnLog demo_admin_env ''ap'') demo_sets w = Inr w'"
    "kit_GetAdapterAddressByName AccountManager (world_kit (ar_world (aw_adapters w))) = Inr []"
proof -
  have "case demo_admin of Inl _ \<Rightarrow> False | Inr w \<Rightarrow> \<not> isl (rfold (provider_OnLog demo_admin_env ''ap'') demo_sets w) \<and>
      kit_GetAdapterAddressByName AccountManager (world_kit (ar_world (aw_adapters w))) = Inr []" by code_simp
  then obtain w where w: "demo_admin = Inr w" "\<not> isl (rfold (provider_OnLog demo_admin_env ''ap'') demo_sets w)"
    "kit_GetAdapterAddressByName AccountManager (world_kit (ar_world (aw_adapters w))) = Inr []"
    using case_InrD by blast
  from w(2) obtain w' where "rfold (provider_OnLog demo_admin_env ''ap'') demo_sets w = Inr w'" by (metis isl_def obj_sumE)
  with w(1,3) show thesis by (intro that)
qed

lemma demo_sets_facts:
  "announced ''DATA_COMPRESSOR'' demo_sets = [(6, ''d1'')]" "announced ''PRICE_ORACLE'' demo_sets = [(5, ''o1''), (12, ''o2'')]"
  "announced ''ACCOUNT_FACTORY'' demo_sets = [(7, ''f1''), (20, ''f2'')]"
  by (simp_all add: announced_def announces_def demo_sets_def demo_set_def)

lemma demo_sets_others: "others ''ap'' demo_sets"
  by (simp add: others_def demo_sets_def demo_set_def)

theorem provider_compressors_reload_witness:
  "\<exists>w w'. demo_admin = Inr w \<and> rfold (provider_OnLog demo_admin_env ''ap'') demo_sets w = Inr w' \<and>
    LoadMultipleDC 1 (JMap (detail_map ''dc'' (aw_adapter ''ap'' w'))) NewDataCompressorWrapper = Inr (ar_dc (aw_adapters w')) \<and>
    getDataCompressorIndex 8 (ar_dc (aw_adapters w')) = (DCV1, 6)"
proof -
  obtain w w' where r: "demo_admin = Inr w" "rfold (provider_OnLog demo_admin_env ''ap'') demo_sets w = Inr w'" by (rule demo_sets_run)
  have id: "ae_chainId demo_admin_env = 1" by (simp add: demo_admin_env_def)
  have "int64_blocks (announced ''DATA_COMPRESSOR'' demo_sets)" by (simp add: demo_sets_facts int64_blocks_def)
  from provider_compressors_reload[OF r(2) demo_sets_others this demo_admin_new(1,3)[OF r(1)] refl, of 8, unfolded demo_sets_facts id]
  have l: "LoadMultipleDC 1 (JMap (detail_map ''dc'' (aw_adapter ''ap'' w'))) NewDataCompressorWrapper = Inr (ar_dc (aw_adapters w'))"
    and i: "case getDataCompressorIndex 8 (ar_dc (aw_adapters w')) of (name, num) \<Rightarrow> name = dc_key 1 0 \<and> num = 6"
    by (auto simp: Let_def)
  have "getDataCompressorIndex 8 (ar_dc (aw_adapters w')) = (DCV1, 6)"
    using i by (cases "getDataCompressorIndex 8 (ar_dc (aw_adapters w'))") (simp add: dc_key_def)
  with r l show ?thesis by (intro exI conjI)
qed

theorem provider_price_oracles_witness:
  "\<exists>w w' v'. demo_admin = Inr w \<and> rfold (provider_OnLog demo_admin_env ''ap'') demo_sets w = Inr w' \<and>
    provider_GetDetailsByKey ''ap'' (int_String 11) (w'\<lparr>priceOracles := None\<rparr>) = Inr (''o1'', v')"
proof -
  obtain w w' where r: "demo_admin = Inr w" "rfold (provider_OnLog demo_admin_env ''ap'') demo_sets w = Inr w'" by (rule demo_sets_run)
  have os: "sorted_wrt (<) (map fst (announced ''PRICE_ORACLE'' demo_sets))" "int64_blocks (announced ''PRICE_ORACLE'' demo_sets)"
    by (simp_all add: demo_sets_facts int64_blocks_def)
  have re: "same_or_reloaded ''ap'' w' (w'\<lparr>priceOracles := None\<rparr>)" by (simp add: same_or_reloaded_def aw_adapter_def)
  have "- (2 ^ 63) \<le> (11 :: int)" "(11 :: int) < 2 ^ 63" by simp_all
  from provider_price_oracles[OF r(2) demo_sets_others os demo_admin_new(2,4)[OF r(1)] re this]
  obtain v' where "provider_GetDetailsByKey ''ap'' (int_String 11) (w'\<lparr>priceOracles := None\<rparr>) = Inr (''o1'', v')"
    by (auto simp: demo_sets_facts)
  with r show ?thesis by (intro exI conjI)
qed

definition demo_reload :: "unit admin_world \<Rightarrow> unit admin_world" where
  "demo_reload = aw_upd ''ap'' (\<lambda>a. a\<lparr>Details := Some [(''priceOracles'', JMap [(''5'', JString ''o1'')])]\<rparr>)"

theorem restart_forgets_oracles_witness:
  "\<exists>w v. demo_admin = Inr w \<and> detail_map ''priceOracles'' (aw_adapter ''ap'' (demo_reload w)) = [(''5'', JString ''o1'')] \<and>
    provider_OnLog demo_admin_env ''ap'' (demo_set 40 ''PRICE_ORACLE'' ''o3'') (demo_reload w) = Inr v \<and>
    provider_GetDetailsByKey ''ap'' (int_String 11) v = Inl IndexOutOfRange"
proof -
  let ?l = "demo_set 40 ''PRICE_ORACLE'' ''o3''"
  have "\<not> isl (rbind demo_admin (\<lambda>w. provider_OnLog demo_admin_env ''ap'' ?l (demo_reload w)))" by code_simp
  then obtain v where "rbind demo_admin (\<lambda>w. provider_OnLog demo_admin_env ''ap'' ?l (demo_reload w)) = Inr v" by (metis isl_def obj_sumE)
  then obtain w where r: "demo_admin = Inr w" "provider_OnLog demo_admin_env ''ap'' ?l (demo_reload w) = Inr v" by (elim rbind_InrE)
  have l: "payload ?l = Some (''PRICE_ORACLE'', ''o3'')" "11 < BlockNumber ?l" by (simp_all add: demo_set_def)
  have n: "priceOracles (demo_reload w) = None" "''o3'' \<noteq> ''ap''" "''ap'' \<noteq> ZERO_ADDR" "- (2 ^ 63) \<le> (11 :: int)" "(11 :: int) < 2 ^ 63"
    using demo_admin_new(4)[OF r(1)] by (simp_all add: demo_reload_def)
  have "detail_map ''priceOracles'' (aw_adapter ''ap'' (demo_reload w)) = [(''5'', JString ''o1'')]"
    by (simp add: demo_reload_def detail_map_def details_of_def)
  with restart_forgets_oracles[OF n(1) l(1) r(2) n(2,3) l(2) n(4,5)] r show ?thesis by (intro exI conjI)
qed

theorem account_managers_counted_witness:
  "\<exists>w w'. demo_admin = Inr w \<and> rfold (provider_OnLog demo_admin_env ''ap'') demo_sets w = Inr w' \<and>
    factory_OnLog demo_admin_env ''f1'' (demo_account ''acc'') w' = Inl (Fatal ''account manager model available in adapter kit'')"
proof -
  obtain w w' where r: "demo_admin = Inr w" "rfold (provider_OnLog demo_admin_env ''ap'') demo_sets w = Inr w'"
    "kit_GetAdapterAddressByName AccountManager (world_kit (ar_world (aw_adapters w))) = Inr []" by (rule demo_sets_run)
  have l: "length (announced ''ACCOUNT_FACTORY'' demo_sets) \<noteq> 1" "payload (demo_account ''acc'') = NewCreditAccount ''acc''"
    by (simp_all add: demo_sets_facts demo_account_def)
  from account_managers_counted[OF r(2) demo_admin_new(5,6)[OF r(1)] r(3) l] r(1,2) show ?thesis by (intro exI conjI)
qed

theorem accounts_followed_witness:
  "\<exists>w af w1 w2. demo_admin = Inr w \<and> NewAccountFactory demo_admin_env ''f1'' 7 w = Inr (af, w1) \<and>
    rfold (factory_OnLog demo_admin_env ''f1'') [demo_account ''a1'', demo_account ''a2''] w1 = Inr w2 \<and>
    map_option AccountHashes (aw_managers w2 ZERO_ADDR) = Some [''a1'', ''a2'']"
proof -
  let ?logs = "[demo_account ''a1'', demo_account ''a2'']"
  have "\<not> isl (rbind demo_admin (NewAccountFactory demo_admin_env ''f1'' 7))" by code_simp
  then obtain x where "rbind demo_admin (NewAccountFactory demo_admin_env ''f1'' 7) = Inr x" by (metis isl_def obj_sumE)
  then obtain w where r: "demo_admin = Inr w" "NewAccountFactory demo_admin_env ''f1'' 7 w = Inr x" by (elim rbind_InrE)
  obtain af w1 where x: "x = (af, w1)" by (cases x)
  obtain v where v: "demo_admin = Inr v" "kit_GetAdapterAddressByName AccountManager (world_kit (ar_world (aw_adapters v))) = Inr []"
    by (rule demo_sets_run)
  have "w = v" using r(1) v(1) by (metis sum.inject(2))
  then have none: "kit_GetAdapterAddressByName AccountManager (world_kit (ar_world (aw_adapters w))) = Inr []" using v(2) by (simp only:)
  have conv: "\<forall>xs. ConvertToListOfString demo_admin_env (JList (map JString xs)) = Inr xs" by (simp add: demo_admin_env_def comp_def)
  have "managers [] (aw_adapters w)" using demo_admin_new(5,6)[OF r(1)] none by (simp add: managers_def)
  then have w1: "follows demo_admin_env ZERO_ADDR [] w1" by (rule NewAccountFactory_follows[OF r(2)[unfolded x]])
  have acc: "payload (demo_account a) = NewCreditAccount a" for a by (simp add: demo_account_def)
  obtain v1 where v1: "AddAccount demo_admin_env ZERO_ADDR ''a1'' w1 = Inr v1" "follows demo_admin_env ZERO_ADDR [''a1''] v1"
    using AddAccount_follows[OF w1 conv] by fastforce
  obtain w2 where w2: "AddAccount demo_admin_env ZERO_ADDR ''a2'' v1 = Inr w2" using AddAccount_follows[OF v1(2) conv] by blast
  have run: "rfold (factory_OnLog demo_admin_env ''f1'') ?logs w1 = Inr w2"
    using factory_new_account[OF w1 acc] factory_new_account[OF v1(2) acc] v1(1) w2 by simp
  have "opened ?logs = [''a1'', ''a2'']" by (simp add: opened_def demo_account_def)
  then have "map_option AccountHashes (aw_managers w2 ZERO_ADDR) = Some [''a1'', ''a2'']"
    using accounts_followed[OF r(2)[unfolded x] demo_admin_new(5,6)[OF r(1)] none run conv] by simp
  with r(1) r(2)[unfolded x] run show ?thesis by (intro exI conjI)
qed

theorem start_check_checks_nothing_witness:
  "initChecks [\<lparr>ls_Type = AccountFactory, ls_LastSync = 0, ls_Address = ''f''\<rparr>] = Inr () \<and>
   (\<exists>msg. initChecks [\<lparr>ls_Type = CreditManager, ls_LastSync = 9, ls_Address = ''c''\<rparr>,
      \<lparr>ls_Type = AccountManager, ls_LastSync = 9, ls_Address = ''m''\<rparr>, \<lparr>ls_Type = AccountFactory, ls_LastSync = 9, ls_Address = ''f''\<rparr>] = Inl (Fatal msg))"
  using start_check_checks_nothing[of "[\<lparr>ls_Type = AccountFactory, ls_LastSync = 0, ls_Address = ''f''\<rparr>]"]
    start_check_checks_nothing[of "[\<lparr>ls_Type = CreditManager, ls_LastSync = 9, ls_Address = ''c''\<rparr>,
      \<lparr>ls_Type = AccountManager, ls_LastSync = 9, ls_Address = ''m''\<rparr>, \<lparr>ls_Type = AccountFactory, ls_LastSync = 9, ls_Address = ''f''\<rparr>]"]
  by simp

end
