(* ===== verification/Treasury_Repo.thy ===== *)
theory Treasury_Repo
  imports Adapter_Repo_Correct
begin

text \<open>
  The treasury: its transfers (\<^verbatim>\<open>models/treasury\<close>), the balances kept from them, a snapshot with prices at the end of every day
  (\<^verbatim>\<open>repository/handlers/treasury/treasury.go\<close>) and the prices of tokens and pool shares
  (\<^verbatim>\<open>price.go\<close>, \<^verbatim>\<open>calls.go\<close>).

  Times are seconds since 1970 in UTC.  The multicall, the end of a day, dates as text, and the value of balances at
  prices are parameters.  \<^verbatim>\<open>treasurySnapshot\<close> is what \<^verbatim>\<open>LoadTreasurySnapshot\<close> left, with both maps present.
\<close>

section \<open>State\<close>

datatype treasury_call =
    DieselRateCall address
  | ConvertCall address int address address       \<comment> \<open>oracle, amount, token, USDC\<close>
  | GetPriceCall address address                  \<comment> \<open>oracle, token\<close>

datatype treasury_answer = AFailed | AEmpty | AMalformed | AValue int

record treasury_env =
  te_chain :: chain_env
  te_chainId :: int
  EtherscanAPI :: string
  GetBlockNumForTs :: "int \<Rightarrow> int option"
  TimeToDateEndTime :: "int \<Rightarrow> int"
  TimeToDate :: "int \<Rightarrow> string"
  te_NewToken :: "address \<Rightarrow> token option"
  te_GetFloat64Decimal :: "int \<Rightarrow> int \<Rightarrow> rat"
  te_FloatAdd :: "rat \<Rightarrow> rat \<Rightarrow> rat"            \<comment> \<open>the sum of two float64, rounded\<close>
  te_GetInt64 :: "int \<Rightarrow> int \<Rightarrow> int"
  te_GetExpInt :: "int \<Rightarrow> int"
  MoreThan :: "int \<Rightarrow> int \<Rightarrow> bool"
  MakeMultiCall :: "int \<Rightarrow> treasury_call list \<Rightarrow> treasury_answer list"
  mapValueInUSD :: "json_float_map \<Rightarrow> json_float_map \<Rightarrow> rat"
  te_TransferLogs :: "int \<Rightarrow> int \<Rightarrow> address list \<Rightarrow> address list \<Rightarrow> (address \<times> address \<times> int) option txlog list res"

record 'r treasury_world =
  tw_blocks :: blocks_repo
  tw_tokens :: tokens_repo
  tw_adapters :: "'r adapters_repo"
  treasurySnapshot :: treasury_snapshot
  lastTreasureTime :: int

definition LoadTreasurySnapshot :: "treasury_snapshot \<Rightarrow> 'r treasury_world \<Rightarrow> 'r treasury_world" where
  "LoadTreasurySnapshot ss w = w\<lparr>treasurySnapshot := ss\<rparr>"

definition LoadLastTreasuryTs :: "treasury_env \<Rightarrow> int \<Rightarrow> 'r treasury_world \<Rightarrow> 'r treasury_world" where
  "LoadLastTreasuryTs E lastCalculatedAt w =
    w\<lparr>lastTreasureTime := (if lastCalculatedAt \<noteq> 0 then TimeToDateEndTime E lastCalculatedAt else lastCalculatedAt)\<rparr>"

text \<open>The row that is saved, if any.\<close>

definition treasury_Save :: "'r treasury_world \<Rightarrow> treasury_snapshot option" where
  "treasury_Save w = (if tss_Date (treasurySnapshot w) \<noteq> '''' then Some (treasurySnapshot w) else None)"

section \<open>Prices\<close>

definition dieselCalls :: "address list \<Rightarrow> treasury_call list" where
  "dieselCalls poolForDieselRate = map DieselRateCall poolForDieselRate"

definition dieselAnswer :: "treasury_answer \<Rightarrow> int list \<Rightarrow> int list res" where
  "dieselAnswer entry dieselRates =
    (case entry of
       AFailed \<Rightarrow> Inl (Fatal ''dieselRates fetching failed'')
     | AEmpty \<Rightarrow> Inr (dieselRates @ [0])
     | AMalformed \<Rightarrow> Inl (Fatal ''Unpack'')
     | AValue v \<Rightarrow> Inr (dieselRates @ [v]))"

definition v1PriceCall ::
  "treasury_env \<Rightarrow> address \<Rightarrow> address \<Rightarrow> address \<Rightarrow> treasury_call list \<times> tokens_repo \<Rightarrow> (treasury_call list \<times> tokens_repo) res" where
  "v1PriceCall E oracle usdcToken tokenAddr = (\<lambda>(calls, r).
    rbind (GetToken (te_NewToken E) tokenAddr r) (\<lambda>(t, r').
    rbind (deref t) (\<lambda>t.
      Inr (calls @ [ConvertCall oracle (te_GetExpInt E (tok_Decimals t)) tokenAddr usdcToken], r'))))"

definition v1PriceCalls :: "treasury_env \<Rightarrow> address \<Rightarrow> address list \<Rightarrow> tokens_repo \<Rightarrow> (treasury_call list \<times> tokens_repo) res" where
  "v1PriceCalls E oracle tokenAddrs r = rfold (v1PriceCall E oracle (usdcAddr r)) tokenAddrs ([], r)"

definition v2PriceCalls :: "address \<Rightarrow> address list \<Rightarrow> treasury_call list" where
  "v2PriceCalls oracle tokenAddrs = map (GetPriceCall oracle) tokenAddrs"

definition priceAnswer :: "int \<Rightarrow> treasury_answer \<Rightarrow> int list \<Rightarrow> int list res" where
  "priceAnswer factor entry prices =
    (case entry of
       AFailed \<Rightarrow> Inr (prices @ [0])
     | AEmpty \<Rightarrow> Inl (Fatal ''Unpack'')
     | AMalformed \<Rightarrow> Inl (Fatal ''Unpack'')
     | AValue v \<Rightarrow> Inr (prices @ [v * factor]))"

definition v1PriceAnswers :: "treasury_answer list \<Rightarrow> int list res" where
  "v1PriceAnswers entries = rfold (priceAnswer 100) entries []"

definition v2PriceAnswers :: "treasury_answer list \<Rightarrow> int list res" where
  "v2PriceAnswers entries = rfold (priceAnswer 1) entries []"

definition dieselAnswers :: "treasury_answer list \<Rightarrow> int list res" where
  "dieselAnswers entries = rfold dieselAnswer entries []"

text \<open>\<^verbatim>\<open>result[:n]\<close> and \<^verbatim>\<open>result[n:]\<close>.\<close>

definition slice_to :: "nat \<Rightarrow> 'a list \<Rightarrow> 'a list res" where
  "slice_to n xs = (if n \<le> length xs then Inr (take n xs) else Inl IndexOutOfRange)"

definition slice_after :: "nat \<Rightarrow> 'a list \<Rightarrow> 'a list res" where
  "slice_after n xs = (if n \<le> length xs then Inr (drop n xs) else Inl IndexOutOfRange)"

definition getPricesInBatch ::
  "treasury_env \<Rightarrow> address \<Rightarrow> int \<Rightarrow> int \<Rightarrow> address list \<Rightarrow> address list \<Rightarrow> tokens_repo \<Rightarrow> ((int list \<times> int list) \<times> tokens_repo) res" where
  "getPricesInBatch E oracle version blockNum tokenAddrs poolForDieselRate r =
    (if oracle = '''' then Inr ((map (\<lambda>_. 0) tokenAddrs, map (\<lambda>_. 0) poolForDieselRate), r)
     else
       rbind (if version = 1 then v1PriceCalls E oracle tokenAddrs r
              else Inr (if version = 2 then v2PriceCalls oracle tokenAddrs else [], r)) (\<lambda>(calls, r').
       let result = MakeMultiCall E blockNum (calls @ dieselCalls poolForDieselRate) in
       rbind (if version = 1 then rbind (slice_to (length tokenAddrs) result) v1PriceAnswers
              else if version = 2 then rbind (slice_to (length tokenAddrs) result) v2PriceAnswers
              else Inr []) (\<lambda>prices.
       rbind (rbind (slice_after (length tokenAddrs) result) dieselAnswers) (\<lambda>dieselRates.
         Inr ((prices, dieselRates), r')))))"

definition price_step ::
  "treasury_env \<Rightarrow> tokens_repo \<Rightarrow> int list \<Rightarrow> int list \<Rightarrow> nat \<times> address \<Rightarrow> nat \<times> json_float_map \<Rightarrow> (nat \<times> json_float_map) res" where
  "price_step E r prices dieselRates = (\<lambda>(i, tok) (poolIndex, priceByToken).
    rbind (if tr_IsDieselToken tok r then
             rbind (go_index dieselRates (int poolIndex)) (\<lambda>dieselRate.
             rbind (go_index prices (int i)) (\<lambda>price.
               Inr (te_GetInt64 E (dieselRate * price) 27, Suc poolIndex)))
           else rbind (go_index prices (int i)) (\<lambda>price. Inr (price, poolIndex))) (\<lambda>(price, poolIndex').
      Inr (poolIndex', AList.update tok (te_GetFloat64Decimal E price 8) priceByToken)))"

definition GetPricesInUSD :: "treasury_env \<Rightarrow> int \<Rightarrow> address list \<Rightarrow> 'r treasury_world \<Rightarrow> (json_float_map \<times> 'r treasury_world) res" where
  "GetPricesInUSD E blockNum tokenAddrs w =
    (let r = tw_tokens w;
         tokenForCalls = map (\<lambda>tok. case GetDieselToken tok r of Some (uToken, _) \<Rightarrow> uToken | None \<Rightarrow> tok) tokenAddrs;
         poolForDieselRate = concat (map (\<lambda>tok. case GetDieselToken tok r of Some (_, pool) \<Rightarrow> [pool] | None \<Rightarrow> []) tokenAddrs)
     in rbind (GetActivePriceOracleByBlockNum (MoreThan E) blockNum (tw_adapters w)) (\<lambda>(priceOracle, version, _).
        rbind (getPricesInBatch E priceOracle version blockNum tokenForCalls poolForDieselRate r) (\<lambda>((prices, dieselRates), r').
        rbind (rfold (price_step E r' prices dieselRates) (List.enumerate 0 tokenAddrs) (0, [])) (\<lambda>(_, priceByToken).
          Inr (priceByToken, w\<lparr>tw_tokens := r'\<rparr>)))))"

section \<open>Snapshots\<close>

definition calFieldsOfTreasurySnapshot ::
  "treasury_env \<Rightarrow> int \<Rightarrow> treasury_snapshot \<Rightarrow> 'r treasury_world \<Rightarrow> (treasury_snapshot \<times> 'r treasury_world) res" where
  "calFieldsOfTreasurySnapshot E blockNum tss w =
    (let tokenAddrs = filter (\<lambda>tok. tok \<noteq> gearTokenAddr (tw_tokens w)) (map fst (tss_Balances tss)) in
     rbind (GetPricesInUSD E blockNum tokenAddrs w) (\<lambda>(prices, w').
       Inr (tss\<lparr>PricesInUSD := prices, ValueInUSD := mapValueInUSD E (tss_Balances tss) prices,
                OperationalValueInUSD := mapValueInUSD E (OperationalBalances tss) prices\<rparr>, w')))"

definition treasury_block :: "treasury_env \<Rightarrow> int \<Rightarrow> 'r treasury_world \<Rightarrow> (int \<times> 'r treasury_world) res" where
  "treasury_block E ts w =
    (case GetBlockDatePairs ts (tw_blocks w) of
       Some blockDate \<Rightarrow> Inr (bd_BlockNum blockDate, w)
     | None \<Rightarrow>
         if EtherscanAPI E \<noteq> '''' then
           rbind (orFatal (GetBlockNumForTs E ts) ''Etherscan err'') (\<lambda>blockNum.
           rbind (setBlock (te_chain E) blockNum (tw_blocks w)) (\<lambda>bs. Inr (blockNum, w\<lparr>tw_blocks := bs\<rparr>)))
         else Inl (Fatal ''can't find the blocknum for ts and etherscan api key is also missing''))"

definition saveTreasurySnapshot :: "treasury_env \<Rightarrow> 'r treasury_world \<Rightarrow> 'r treasury_world res" where
  "saveTreasurySnapshot E w =
    rbind (treasury_block E (lastTreasureTime w) w) (\<lambda>(blockNum, w1).
      let tss = \<lparr>tss_Date = TimeToDate E (lastTreasureTime w1), tss_BlockNum = blockNum, PricesInUSD = [],
        tss_Balances = tss_Balances (treasurySnapshot w1), OperationalBalances = OperationalBalances (treasurySnapshot w1),
        ValueInUSD = 0, OperationalValueInUSD = 0\<rparr> in
      rbind (calFieldsOfTreasurySnapshot E blockNum tss w1) (\<lambda>(tss', w2).
      rbind (add_row (te_chain E) blockNum (TreasurySnapshotRow tss') (tw_blocks w2)) (\<lambda>bs.
        Inr (w2\<lparr>tw_blocks := bs\<rparr>))))"

definition CalCurrentTreasuryValue :: "treasury_env \<Rightarrow> int \<Rightarrow> 'r treasury_world \<Rightarrow> 'r treasury_world res" where
  "CalCurrentTreasuryValue E blockNum w =
    rbind (calFieldsOfTreasurySnapshot E blockNum (treasurySnapshot w) w) (\<lambda>(tss, w'). Inr (w'\<lparr>treasurySnapshot := tss\<rparr>))"

section \<open>Transfers\<close>

abbreviation day :: int where "day \<equiv> 86400"

text \<open>The next day to close, from the last one closed; the first is the day before.\<close>

definition next_day :: "treasury_env \<Rightarrow> int \<Rightarrow> int \<Rightarrow> int" where
  "next_day E currentTime last' =
    (if last' = 0 then TimeToDateEndTime E (currentTime - day) else TimeToDateEndTime E (last' + day))"

definition close_day :: "treasury_env \<Rightarrow> int \<Rightarrow> int \<Rightarrow> 'r treasury_world \<Rightarrow> 'r treasury_world res" where
  "close_day E blockNum currentTime w =
    (let w1 = w\<lparr>lastTreasureTime := next_day E currentTime (lastTreasureTime w)\<rparr> in
     if \<not> (blockNum = 32476006 \<and> te_chainId E = 42) then saveTreasurySnapshot E w1 else Inr w1)"

text \<open>What a transfer does to the current snapshot.\<close>

definition enter_transfer :: "treasury_env \<Rightarrow> int \<Rightarrow> address \<Rightarrow> int \<Rightarrow> bool \<Rightarrow> 'r treasury_world \<Rightarrow> 'r treasury_world res" where
  "enter_transfer E currentTime tok amount operationTransfer w =
    rbind (GetToken (te_NewToken E) tok (tw_tokens w)) (\<lambda>(tokenObj, r).
    rbind (deref tokenObj) (\<lambda>tokenObj.
    let amt = te_GetFloat64Decimal E amount (tok_Decimals tokenObj);
        tss = (treasurySnapshot w)\<lparr>tss_Date := TimeToDate E currentTime\<rparr>;
        tss1 = tss\<lparr>tss_Balances := AList.update tok (te_FloatAdd E (aget 0 (tss_Balances tss) tok) amt) (tss_Balances tss)\<rparr>;
        tss2 = (if operationTransfer
                then tss1\<lparr>OperationalBalances := AList.update tok (te_FloatAdd E (aget 0 (OperationalBalances tss1) tok) amt) (OperationalBalances tss1)\<rparr>
                else tss1)
    in Inr (w\<lparr>tw_tokens := r, treasurySnapshot := tss2\<rparr>)))"

definition AddTreasuryTransfer ::
  "nat \<Rightarrow> treasury_env \<Rightarrow> int \<Rightarrow> int \<Rightarrow> address \<Rightarrow> int \<Rightarrow> bool \<Rightarrow> 'r treasury_world \<Rightarrow> 'r treasury_world res" where
  "AddTreasuryTransfer fuel E blockNum logID tok amount operationTransfer w =
    rbind (add_row (te_chain E) blockNum (TreasuryTransferRow \<lparr>trt_BlockNum = blockNum, trt_LogID = logID, trt_Token = tok, trt_Amount = amount,
        OperationalTransfer = operationTransfer\<rparr>) (tw_blocks w)) (\<lambda>bs.
    rbind (deref (map_of (br_blocks bs) blockNum)) (\<lambda>block.
    let currentTime = sint (rb_Timestamp block) in
    rbind (for_next fuel (\<lambda>w. Inr (currentTime - lastTreasureTime w \<ge> day, w)) (close_day E blockNum currentTime) (w\<lparr>tw_blocks := bs\<rparr>))
      (enter_transfer E currentTime tok amount operationTransfer)))"

section \<open>The treasury contract\<close>

type_synonym treasury_log = "(address \<times> address \<times> int) option txlog"

definition treasury_onLog :: "nat \<Rightarrow> treasury_env \<Rightarrow> address \<Rightarrow> address list \<Rightarrow> treasury_log \<Rightarrow> 'r treasury_world \<Rightarrow> 'r treasury_world res" where
  "treasury_onLog fuel E self pools txLog w =
    (case payload txLog of
       None \<Rightarrow> Inr w
     | Some (tfrom, tto, amount) \<Rightarrow>
         let operationTransfer = (tfrom = NULL_ADDR \<and> tto = self) \<or> (tfrom = self \<and> tto = NULL_ADDR) \<or> (tfrom \<in> set pools \<and> tto = self) in
         if self = tfrom then AddTreasuryTransfer fuel E (BlockNumber txLog) (Index txLog) (logAddress txLog) (- amount) operationTransfer w
         else if self = tto then AddTreasuryTransfer fuel E (BlockNumber txLog) (Index txLog) (logAddress txLog) amount operationTransfer w
         else Inr w)"

definition getAddrs :: "'r treasury_world \<Rightarrow> address list \<times> address list" where
  "getAddrs w =
    (concat (map (\<lambda>(dieselToken, uToken, _). [dieselToken, uToken]) (dieselTokens (tw_tokens w))),
     map (\<lambda>(_, _, pool). pool) (dieselTokens (tw_tokens w)))"

definition treasury_Query :: "nat \<Rightarrow> treasury_env \<Rightarrow> address \<Rightarrow> int \<Rightarrow> 'r treasury_world \<Rightarrow> 'r treasury_world res" where
  "treasury_Query fuel E self queryTill w =
    (let queryFrom = LastSync (heap (ar_world (tw_adapters w)) self) + 1; (tokenAddrs, pools) = getAddrs w in
     if queryTill < queryFrom then Inr w
     else if tokenAddrs = [] then Inr w
     else rbind (te_TransferLogs E queryFrom queryTill tokenAddrs [self]) (\<lambda>txLogs.
       rfold (treasury_onLog fuel E self pools) txLogs w))"

definition treasury_AfterSyncHook :: "treasury_env \<Rightarrow> address \<Rightarrow> int \<Rightarrow> 'r treasury_world \<Rightarrow> 'r treasury_world res" where
  "treasury_AfterSyncHook E self syncTill w =
    rbind (CalCurrentTreasuryValue E syncTill w) (\<lambda>w1.
      Inr (w1\<lparr>tw_adapters := (tw_adapters w1)\<lparr>ar_world := upd_adapter self (sa_AfterSyncHook syncTill) (ar_world (tw_adapters w1))\<rparr>\<rparr>))"

end
