(* ===== verification/Treasury_Correct.thy ===== *)
theory Treasury_Correct
  imports Treasury_Repo
begin

text \<open>
  Correctness of the treasury: which days a transfer closes and with what balances, what the balances are after any transfers, and the
  prices of tokens and of pool shares.
\<close>

section \<open>Days\<close>

text \<open>\<open>TimeToDateEndTime\<close> is the last second of the day in UTC.\<close>

definition day_ends :: "treasury_env \<Rightarrow> bool" where
  "day_ends E \<longleftrightarrow> (\<forall>t. TimeToDateEndTime E t = t div day * day + (day - 1))"

text \<open>The days that a block of a time closes, after the last one closed: none yet is 0.\<close>

definition first_close :: "int \<Rightarrow> int \<Rightarrow> int" where
  "first_close last' currentTime = (if last' = 0 then (currentTime - day) div day * day + (day - 1) else last' + day)"

definition closed_days :: "int \<Rightarrow> int \<Rightarrow> int list" where
  "closed_days last' currentTime =
    (if currentTime - last' < day then []
     else let day1 = first_close last' currentTime in map (\<lambda>k. day1 + day * int k) [0..<Suc (nat ((currentTime - day1) div day))])"

definition is_day_end :: "int \<Rightarrow> bool" where
  "is_day_end t \<longleftrightarrow> 0 < t \<and> t mod day = day - 1"

lemma day_end_next:
  assumes "is_day_end t"
  shows "(t + day) div day * day + (day - 1) = t + day" "is_day_end (t + day)"
proof -
  have m: "t mod day = day - 1" using assms by (simp add: is_day_end_def)
  have "(t + day) div day = t div day + 1" by simp
  moreover have "t div day * day + t mod day = t" by simp
  ultimately show "(t + day) div day * day + (day - 1) = t + day" using m by linarith
  have "(t + day) mod day = t mod day" by simp
  then show "is_day_end (t + day)" using assms by (simp add: is_day_end_def)
qed

lemma first_close_ok:
  assumes "last' = 0 \<or> is_day_end last'" and "day \<le> c - last'"
  shows "is_day_end (first_close last' c)" "first_close last' c \<le> c" "last' < first_close last' c"
proof -
  have "is_day_end (first_close last' c) \<and> first_close last' c \<le> c \<and> last' < first_close last' c"
  proof (cases "last' = 0")
    case True
    have q: "0 \<le> (c - day) div day" using assms(2) True by simp
    have "(c - day) div day * day \<le> c - day" by (simp add: minus_mod_eq_div_mult[symmetric])
    moreover have "((c - day) div day * day + (day - 1)) mod day = day - 1" by simp
    ultimately show ?thesis using q True by (auto simp: first_close_def is_day_end_def)
  next
    case False
    then show ?thesis using assms day_end_next(2)[of last'] by (simp add: first_close_def)
  qed
  then show "is_day_end (first_close last' c)" "first_close last' c \<le> c" "last' < first_close last' c" by blast+
qed

lemma next_day_eq:
  assumes "day_ends E" and "last' = 0 \<or> is_day_end last'"
  shows "next_day E c last' = first_close last' c"
  using assms day_end_next(1)[of last'] by (auto simp: next_day_def day_ends_def first_close_def)

lemma closed_days_step:
  assumes "last' = 0 \<or> is_day_end last'"
  shows "closed_days last' c = (if c - last' < day then [] else first_close last' c # closed_days (first_close last' c) c)"
proof (cases "c - last' < day")
  case False
  let ?n = "first_close last' c"
  have n: "is_day_end ?n" "?n \<le> c" using first_close_ok[OF assms] False by simp_all
  then have pos: "?n \<noteq> 0" by (simp add: is_day_end_def)
  have c0: "closed_days last' c = map (\<lambda>k. ?n + day * int k) [0..<Suc (nat ((c - ?n) div day))]"
    using False by (simp add: closed_days_def Let_def)
  show ?thesis
  proof (cases "c - ?n < day")
    case True
    then have "(c - ?n) div day = 0" using n(2) by simp
    then show ?thesis using False True unfolding c0 by (simp add: closed_days_def)
  next
    case more: False
    have "(c - (?n + day)) div day = (c - ?n) div day - 1" by (simp add: diff_diff_eq[symmetric])
    moreover have "1 \<le> (c - ?n) div day" using more by (simp add: pos_imp_zdiv_pos_iff int_one_le_iff_zero_less)
    ultimately obtain m where m: "nat ((c - ?n) div day) = Suc m" "nat ((c - (?n + day)) div day) = m"
      by (metis Suc_nat_eq_nat_zadd1 diff_add_cancel diff_ge_0_iff_ge add.commute)
    have "first_close ?n c = ?n + day" using pos by (simp add: first_close_def)
    then have "closed_days ?n c = map (\<lambda>k. ?n + day + day * int k) [0..<Suc (nat ((c - (?n + day)) div day))]"
      using more unfolding closed_days_def[of ?n] by (simp only: if_False Let_def)
    note tl = this[unfolded m(2)]
    have "map (\<lambda>k. ?n + day * int k) [0..<Suc (Suc m)] = ?n # map (\<lambda>k. ?n + day + day * int k) [0..<Suc m]"
      by (subst map_upt_Suc) (simp add: algebra_simps)
    then show ?thesis using False unfolding c0 m(1) tl by simp
  qed
qed (simp add: closed_days_def)

lemma closed_days_facts:
  assumes "last' = 0 \<or> is_day_end last'"
  shows "(\<forall>t \<in> set (closed_days last' c). is_day_end t \<and> t \<le> c) \<and> c - last (last' # closed_days last' c) < day"
  using assms
proof (induction "nat (c - last')" arbitrary: last' rule: less_induct)
  case less
  let ?n = "first_close last' c"
  show ?case
  proof (cases "c - last' < day")
    case True
    then show ?thesis by (simp add: closed_days_def)
  next
    case False
    then have n: "is_day_end ?n" "?n \<le> c" "last' < ?n" using first_close_ok[OF less.prems] by simp_all
    then have "nat (c - ?n) < nat (c - last')" using False by linarith
    from less.hyps[OF this] n closed_days_step[OF less.prems, of c] False show ?thesis by auto
  qed
qed

section \<open>Snapshots\<close>

definition row_snapshot :: "row \<Rightarrow> (string \<times> json_float_map \<times> json_float_map) list" where
  "row_snapshot r = (case r of TreasurySnapshotRow s \<Rightarrow> [(tss_Date s, tss_Balances s, OperationalBalances s)] | _ \<Rightarrow> [])"

text \<open>Date and balances of the snapshots in the blocks.\<close>

definition snapshots :: "blocks_repo \<Rightarrow> (string \<times> json_float_map \<times> json_float_map) multiset" where
  "snapshots r = mset (concat (map row_snapshot (all_rows r)))"

lemma snapshots_add_row: "add_row C b x r = Inr r' \<Longrightarrow> snapshots r' = mset (row_snapshot x) + snapshots r"
  unfolding snapshots_def by (rule mset_concat_add) (rule add_row_effect)

lemma snapshots_setBlock: "setBlock C b r = Inr r' \<Longrightarrow> snapshots r' = snapshots r"
  using mset_concat_add[of "x # all_rows r'" x "all_rows r" row_snapshot for x] setBlock_keeps(1)[of C b r r']
  by (simp add: snapshots_def)

text \<open>What prices leave alone: all but the tokens.\<close>

lemma GetPricesInUSD_frame: "GetPricesInUSD E b as w = Inr (ps, w') \<Longrightarrow> \<exists>r. w' = w\<lparr>tw_tokens := r\<rparr>"
  by (auto simp: GetPricesInUSD_def Let_def elim!: rbind_InrE)

lemma calFields_frame:
  assumes "calFieldsOfTreasurySnapshot E b tss w = Inr (tss', w')"
  shows "\<exists>r. w' = w\<lparr>tw_tokens := r\<rparr>" "tss_Date tss' = tss_Date tss" "tss_Balances tss' = tss_Balances tss" "OperationalBalances tss' = OperationalBalances tss"
  using assms by (auto simp: calFieldsOfTreasurySnapshot_def Let_def dest: GetPricesInUSD_frame elim!: rbind_InrE)

lemma treasury_block_frame:
  assumes "treasury_block E ts w = Inr (b, w')"
  shows "\<exists>bs. w' = w\<lparr>tw_blocks := bs\<rparr> \<and> snapshots bs = snapshots (tw_blocks w)"
proof (cases "GetBlockDatePairs ts (tw_blocks w)")
  case None
  then obtain bs where "setBlock (te_chain E) b (tw_blocks w) = Inr bs" "w' = w\<lparr>tw_blocks := bs\<rparr>"
    using assms by (auto simp: treasury_block_def elim!: rbind_InrE split: if_splits)
  then show ?thesis using snapshots_setBlock by blast
next
  case (Some x)
  then have "w' = w\<lparr>tw_blocks := tw_blocks w\<rparr>" using assms by (simp add: treasury_block_def)
  then show ?thesis by blast
qed

lemma saveTreasurySnapshot_effect:
  assumes "saveTreasurySnapshot E w = Inr w'"
  shows "\<exists>bs r. w' = w\<lparr>tw_blocks := bs, tw_tokens := r\<rparr> \<and>
    snapshots bs = add_mset (TimeToDate E (lastTreasureTime w), tss_Balances (treasurySnapshot w), OperationalBalances (treasurySnapshot w))
      (snapshots (tw_blocks w))"
proof -
  from assms obtain b w1 where w1: "treasury_block E (lastTreasureTime w) w = Inr (b, w1)" by (auto simp: saveTreasurySnapshot_def elim!: rbind_InrE)
  obtain bs1 where bs1: "w1 = w\<lparr>tw_blocks := bs1\<rparr>" "snapshots bs1 = snapshots (tw_blocks w)" using treasury_block_frame[OF w1] by blast
  let ?tss = "\<lparr>tss_Date = TimeToDate E (lastTreasureTime w), tss_BlockNum = b, PricesInUSD = [], tss_Balances = tss_Balances (treasurySnapshot w),
    OperationalBalances = OperationalBalances (treasurySnapshot w), ValueInUSD = 0, OperationalValueInUSD = 0\<rparr>"
  from assms w1 obtain tss w2 bs where c: "calFieldsOfTreasurySnapshot E b ?tss w1 = Inr (tss, w2)"
    and r: "add_row (te_chain E) b (TreasurySnapshotRow tss) (tw_blocks w2) = Inr bs" "w' = w2\<lparr>tw_blocks := bs\<rparr>"
    by (auto simp: saveTreasurySnapshot_def Let_def bs1(1) elim!: rbind_InrE)
  obtain tk where tk: "w2 = w1\<lparr>tw_tokens := tk\<rparr>" using calFields_frame(1)[OF c] by blast
  have "snapshots bs = add_mset (TimeToDate E (lastTreasureTime w), tss_Balances (treasurySnapshot w), OperationalBalances (treasurySnapshot w))
      (snapshots (tw_blocks w))"
    using snapshots_add_row[OF r(1)] calFields_frame(2-4)[OF c] bs1 tk by (simp add: row_snapshot_def)
  moreover have "w' = w\<lparr>tw_blocks := bs, tw_tokens := tk\<rparr>" using r(2) tk bs1(1) by simp
  ultimately show ?thesis by blast
qed

section \<open>Closing days\<close>

definition close_at :: "treasury_env \<Rightarrow> int \<Rightarrow> 'r treasury_world \<Rightarrow> 'r treasury_world res" where
  "close_at E t w = saveTreasurySnapshot E (w\<lparr>lastTreasureTime := t\<rparr>)"

lemma close_at_effect:
  assumes "close_at E t w = Inr w'"
  shows "lastTreasureTime w' = t \<and> treasurySnapshot w' = treasurySnapshot w \<and> tw_adapters w' = tw_adapters w \<and>
    snapshots (tw_blocks w') = add_mset (TimeToDate E t, tss_Balances (treasurySnapshot w), OperationalBalances (treasurySnapshot w)) (snapshots (tw_blocks w))"
  using saveTreasurySnapshot_effect[OF assms[unfolded close_at_def]] by auto

lemma close_days_effect:
  assumes "rfold (close_at E) ts w = Inr w'"
  shows "lastTreasureTime w' = last (lastTreasureTime w # ts) \<and> treasurySnapshot w' = treasurySnapshot w \<and> tw_adapters w' = tw_adapters w \<and>
    snapshots (tw_blocks w') = snapshots (tw_blocks w) +
      mset (map (\<lambda>t. (TimeToDate E t, tss_Balances (treasurySnapshot w), OperationalBalances (treasurySnapshot w))) ts)"
  using assms
proof (induction ts arbitrary: w)
  case (Cons t ts)
  from Cons.prems obtain w1 where w1: "close_at E t w = Inr w1" "rfold (close_at E) ts w1 = Inr w'" by (auto elim: rbind_InrE)
  show ?case using Cons.IH[OF w1(2)] close_at_effect[OF w1(1)] by (cases ts) auto
qed simp

text \<open>The redeployment on kovan: a transfer that closes no day.\<close>

abbreviation kovan_case :: "treasury_env \<Rightarrow> int \<Rightarrow> bool" where
  "kovan_case E b \<equiv> b = 32476006 \<and> te_chainId E = 42"

lemma days_loop:
  assumes "day_ends E" and "lastTreasureTime w = 0 \<or> is_day_end (lastTreasureTime w)" and "\<not> kovan_case E b"
    and "length (closed_days (lastTreasureTime w) c) < fuel"
  shows "for_next fuel (\<lambda>w. Inr (c - lastTreasureTime w \<ge> day, w)) (close_day E b c) w = rfold (close_at E) (closed_days (lastTreasureTime w) c) w"
  using assms(2,4)
proof (induction fuel arbitrary: w)
  case (Suc fuel)
  let ?l = "lastTreasureTime w"
  let ?n = "first_close ?l c"
  note step = closed_days_step[OF Suc.prems(1), of c]
  show ?case
  proof (cases "c - ?l < day")
    case True
    then show ?thesis using step by simp
  next
    case False
    have cd: "close_day E b c w = close_at E ?n w"
      using assms(3) next_day_eq[OF assms(1) Suc.prems(1), of c] by (simp add: close_day_def close_at_def)
    have n: "is_day_end ?n" using first_close_ok[OF Suc.prems(1)] False by simp
    have "rbind (close_at E ?n w) (for_next fuel (\<lambda>w. Inr (c - lastTreasureTime w \<ge> day, w)) (close_day E b c)) =
        rbind (close_at E ?n w) (rfold (close_at E) (closed_days ?n c))"
    proof (rule rbind_cong[OF refl])
      fix w1 assume w1: "close_at E ?n w = Inr w1"
      then have l: "lastTreasureTime w1 = ?n" using close_at_effect by blast
      show "for_next fuel (\<lambda>w. Inr (c - lastTreasureTime w \<ge> day, w)) (close_day E b c) w1 = rfold (close_at E) (closed_days ?n c) w1"
        using Suc.IH[of w1] n l Suc.prems(2) step False by simp
    qed
    then show ?thesis using False step cd by simp
  qed
qed simp

text \<open>The time of a block: of the block in the store, or the node's.\<close>

definition block_time :: "chain_env \<Rightarrow> int \<Rightarrow> blocks_repo \<Rightarrow> 64 word res" where
  "block_time C b bs = (case map_of (br_blocks bs) b of Some blk \<Rightarrow> Inr (rb_Timestamp blk) | None \<Rightarrow> BlockByNumber C b)"

lemma add_row_time:
  assumes "add_row C b x bs = Inr bs'"
  shows "\<exists>blk. map_of (br_blocks bs') b = Some blk \<and> block_time C b bs = Inr (rb_Timestamp blk)"
  using assms
  by (auto simp: add_row_def setBlock_def block_time_def addBlockDate_def Let_def elim!: rbind_InrE split: option.splits if_splits)

lemma AddTreasuryTransfer_parts:
  assumes "block_time (te_chain E) b (tw_blocks w) = Inr t" and "day_ends E" and "lastTreasureTime w = 0 \<or> is_day_end (lastTreasureTime w)"
    and "\<not> kovan_case E b" and "length (closed_days (lastTreasureTime w) (sint t)) < fuel"
  shows "AddTreasuryTransfer fuel E b logID tok amount op w =
    rbind (add_row (te_chain E) b (TreasuryTransferRow \<lparr>trt_BlockNum = b, trt_LogID = logID, trt_Token = tok, trt_Amount = amount,
        OperationalTransfer = op\<rparr>) (tw_blocks w)) (\<lambda>bs.
    rbind (rfold (close_at E) (closed_days (lastTreasureTime w) (sint t)) (w\<lparr>tw_blocks := bs\<rparr>)) (enter_transfer E (sint t) tok amount op))"
proof -
  let ?row = "TreasuryTransferRow \<lparr>trt_BlockNum = b, trt_LogID = logID, trt_Token = tok, trt_Amount = amount, OperationalTransfer = op\<rparr>"
  show ?thesis unfolding AddTreasuryTransfer_def
  proof (rule rbind_cong[OF refl])
    fix bs assume bs: "add_row (te_chain E) b ?row (tw_blocks w) = Inr bs"
    from add_row_time[OF bs] assms(1) obtain blk where blk: "map_of (br_blocks bs) b = Some blk" "rb_Timestamp blk = t" by auto
    show "rbind (deref (map_of (br_blocks bs) b)) (\<lambda>block. let currentTime = sint (rb_Timestamp block) in
        rbind (for_next fuel (\<lambda>w. Inr (day \<le> currentTime - lastTreasureTime w, w)) (close_day E b currentTime) (w\<lparr>tw_blocks := bs\<rparr>))
          (enter_transfer E currentTime tok amount op)) =
        rbind (rfold (close_at E) (closed_days (lastTreasureTime w) (sint t)) (w\<lparr>tw_blocks := bs\<rparr>)) (enter_transfer E (sint t) tok amount op)"
      using days_loop[OF assms(2) _ assms(4), of "w\<lparr>tw_blocks := bs\<rparr>" "sint t" fuel] assms(3,5) blk
      by (simp add: Let_def)
  qed
qed

lemma enter_transfer_effect:
  assumes "enter_transfer E c tok amount op w = Inr w'"
  shows "tw_blocks w' = tw_blocks w \<and> lastTreasureTime w' = lastTreasureTime w \<and> tw_adapters w' = tw_adapters w"
  using assms by (auto simp: enter_transfer_def Let_def elim!: rbind_InrE)

text \<open>
  C17: The loop over the days ends, on every outcome.  Let the last closed day be none yet or the last second of a day in UTC, let
  \<open>TimeToDateEndTime\<close> give the last second of a day, and let the transfer not be the one of the redeployment on kovan.  Then a
  transfer does exactly this, whatever the bound on the rounds of the loop, if it exceeds the number of days: it enters its row, closes the days that have ended
  since the last one closed, one after the other in this order, and enters the amount into the balances; it fails only where one of these
  steps fails.  Every one of these days ends no later than the transfer, the last of them less than a day before it, and if nothing fails there is one
  more snapshot for each, with its date and the balances as they were before the transfer, and the last closed day is the last of them.
\<close>

theorem treasury_days_closed:
  assumes "block_time (te_chain E) b (tw_blocks w) = Inr t" and "day_ends E"
    and "lastTreasureTime w = 0 \<or> is_day_end (lastTreasureTime w)" and "\<not> kovan_case E b"
    and "length (closed_days (lastTreasureTime w) (sint t)) < fuel"
  shows "let days = closed_days (lastTreasureTime w) (sint t) in
    AddTreasuryTransfer fuel E b logID tok amount op w =
      rbind (add_row (te_chain E) b (TreasuryTransferRow \<lparr>trt_BlockNum = b, trt_LogID = logID, trt_Token = tok, trt_Amount = amount,
        OperationalTransfer = op\<rparr>) (tw_blocks w)) (\<lambda>bs.
      rbind (rfold (close_at E) days (w\<lparr>tw_blocks := bs\<rparr>)) (enter_transfer E (sint t) tok amount op)) \<and>
    (\<forall>d \<in> set days. is_day_end d \<and> d \<le> sint t) \<and> sint t - last (lastTreasureTime w # days) < day \<and>
    (\<forall>w'. AddTreasuryTransfer fuel E b logID tok amount op w = Inr w' \<longrightarrow>
      snapshots (tw_blocks w') = snapshots (tw_blocks w) +
        mset (map (\<lambda>d. (TimeToDate E d, tss_Balances (treasurySnapshot w), OperationalBalances (treasurySnapshot w))) days) \<and>
      lastTreasureTime w' = last (lastTreasureTime w # days))"
proof -
  let ?days = "closed_days (lastTreasureTime w) (sint t)"
  let ?row = "TreasuryTransferRow \<lparr>trt_BlockNum = b, trt_LogID = logID, trt_Token = tok, trt_Amount = amount, OperationalTransfer = op\<rparr>"
  note parts = AddTreasuryTransfer_parts[OF assms, of logID tok amount op]
  have "snapshots (tw_blocks w') = snapshots (tw_blocks w) +
        mset (map (\<lambda>d. (TimeToDate E d, tss_Balances (treasurySnapshot w), OperationalBalances (treasurySnapshot w))) ?days) \<and>
      lastTreasureTime w' = last (lastTreasureTime w # ?days)" if run: "AddTreasuryTransfer fuel E b logID tok amount op w = Inr w'" for w'
  proof -
    from run[unfolded parts] obtain bs w1 where
      bs: "add_row (te_chain E) b ?row (tw_blocks w) = Inr bs" and w1: "rfold (close_at E) ?days (w\<lparr>tw_blocks := bs\<rparr>) = Inr w1"
      and w': "enter_transfer E (sint t) tok amount op w1 = Inr w'" by (auto elim!: rbind_InrE)
    have sn: "snapshots bs = snapshots (tw_blocks w)" using snapshots_add_row[OF bs] by (simp add: row_snapshot_def)
    show ?thesis using close_days_effect[OF w1] enter_transfer_effect[OF w'] sn by simp
  qed
  then show ?thesis unfolding Let_def using parts closed_days_facts[OF assms(3), of "sint t"] by blast
qed

section \<open>Balances\<close>

lemma addTokenObj_lookup:
  "map_of (tr_tokens (addTokenObj n r)) a = (case map_of (tr_tokens r) a of Some x \<Rightarrow> Some x
    | None \<Rightarrow> if a = tok_Address n then Some (if a = ''0xEe8Adf657c5EF8e10622b6B47014D2C6f6993E5E'' then n\<lparr>tok_Symbol := ''yvWETH''\<rparr> else n) else None)"
  by (auto simp: addTokenObj_def Let_def split: option.split)

lemma GetToken_dec:
  assumes "GetToken N a r = Inr (t, r')" and "\<forall>a t. map_of (tr_tokens r) a = Some t \<longrightarrow> tok_Decimals t = dec a"
    and "\<forall>a t. N a = Some t \<longrightarrow> tok_Decimals t = dec (tok_Address t)"
  shows "(\<forall>a t. map_of (tr_tokens r') a = Some t \<longrightarrow> tok_Decimals t = dec a) \<and> t = map_of (tr_tokens r') a"
proof (cases "map_of (tr_tokens r) a")
  case (Some x)
  then show ?thesis using assms by (auto simp: GetToken_def)
next
  case None
  then obtain n where n: "N a = Some n" "r' = addTokenObj n r" "t = map_of (tr_tokens r') a"
    using assms(1) by (auto simp: GetToken_def addToken_def Let_def split: option.splits)
  have d: "tok_Decimals n = dec (tok_Address n)" using assms(3) n(1) by blast
  have "tok_Decimals x = dec c" if "map_of (tr_tokens (addTokenObj n r)) c = Some x" for c x
  proof (cases "map_of (tr_tokens r) c")
    case None
    then have "c = tok_Address n" "x = n \<or> x = n\<lparr>tok_Symbol := ''yvWETH''\<rparr>"
      using that unfolding addTokenObj_lookup by (auto split: if_splits)
    then show ?thesis using d by auto
  next
    case (Some y)
    then show ?thesis using that assms(2) unfolding addTokenObj_lookup by simp
  qed
  then show ?thesis using n(2,3) by simp
qed

lemma for_next_invariant:
  assumes "for_next n nxt body s = Inr s'" and "I s"
    and "\<And>s b t. I s \<Longrightarrow> nxt s = Inr (b, t) \<Longrightarrow> I t" and "\<And>s t. I s \<Longrightarrow> body s = Inr t \<Longrightarrow> I t"
  shows "I s'"
  using assms(1,2)
proof (induction n arbitrary: s)
  case (Suc n)
  from Suc.prems(1) obtain m t where t: "nxt s = Inr (m, t)" "(if m then rbind (body t) (for_next n nxt body) else Inr t) = Inr s'"
    by (auto elim!: rbind_InrE)
  have I: "I t" using assms(3) Suc.prems(2) t(1) by blast
  show ?case
  proof (cases m)
    case True
    then obtain u where "body t = Inr u" "for_next n nxt body u = Inr s'" using t(2) by (auto elim: rbind_InrE)
    then show ?thesis using Suc.IH assms(4) I by blast
  next
    case False
    then show ?thesis using t(2) I by simp
  qed
qed simp

text \<open>All tokens, known or new, have the decimals \<open>dec\<close>.\<close>

definition dec_ok :: "(address \<Rightarrow> int) \<Rightarrow> tokens_repo \<Rightarrow> bool" where
  "dec_ok dec r \<longleftrightarrow> (\<forall>a t. map_of (tr_tokens r) a = Some t \<longrightarrow> tok_Decimals t = dec a)"

definition chain_dec :: "treasury_env \<Rightarrow> (address \<Rightarrow> int) \<Rightarrow> bool" where
  "chain_dec E dec \<longleftrightarrow> (\<forall>a t. te_NewToken E a = Some t \<longrightarrow> tok_Decimals t = dec (tok_Address t))"

lemma GetToken_ok:
  assumes "GetToken (te_NewToken E) a r = Inr (t, r')" and "dec_ok dec r" and "chain_dec E dec"
  shows "dec_ok dec r'" "t = map_of (tr_tokens r') a"
proof -
  note g = GetToken_dec[OF assms(1) assms(2)[unfolded dec_ok_def] assms(3)[unfolded chain_dec_def]]
  show "dec_ok dec r'" unfolding dec_ok_def by (rule conjunct1[OF g])
  show "t = map_of (tr_tokens r') a" by (rule conjunct2[OF g])
qed

lemma GetPricesInUSD_dec:
  assumes "GetPricesInUSD E b as w = Inr (ps, w')" and "dec_ok dec (tw_tokens w)" and "chain_dec E dec"
  shows "dec_ok dec (tw_tokens w')"
proof -
  have step: "dec_ok dec (snd y)" if "v1PriceCall E o' u a x = Inr y" "dec_ok dec (snd x)" for o' u a x y
  proof -
    from that(1) obtain t r where "GetToken (te_NewToken E) a (snd x) = Inr (t, r)" "snd y = r"
      unfolding v1PriceCall_def case_prod_unfold by (elim rbind_InrE) auto
    then show ?thesis using GetToken_ok(1)[OF _ that(2) assms(3)] by simp
  qed
  have v1: "dec_ok dec (snd x')" if "rfold (v1PriceCall E o' u) ts x = Inr x'" "dec_ok dec (snd x)" for o' u ts x x'
    using that(2) by (rule rfold_invariant[OF that(1)]) (rule step)
  have "dec_ok dec r'" if run: "getPricesInBatch E o' v b ts ps (tw_tokens w) = Inr (x, r')" for o' v ts ps x r'
  proof (cases "o' = ''''")
    case True
    then show ?thesis using run assms(2) by (simp add: getPricesInBatch_def)
  next
    case False
    from run False obtain calls where "(if v = 1 then v1PriceCalls E o' ts (tw_tokens w)
        else Inr (if v = 2 then v2PriceCalls o' ts else [], tw_tokens w)) = Inr (calls, r')"
      by (auto simp: getPricesInBatch_def Let_def elim!: rbind_InrE)
    then show ?thesis using v1[of o' "usdcAddr (tw_tokens w)" ts "([], tw_tokens w)"] assms(2)
      by (auto simp: v1PriceCalls_def split: if_splits)
  qed
  then show ?thesis using assms(1) by (auto simp: GetPricesInUSD_def Let_def elim!: rbind_InrE)
qed

text \<open>The current balances, and what is needed of the tokens.\<close>

definition balances_are :: "(address \<Rightarrow> int) \<Rightarrow> treasury_snapshot \<Rightarrow> 'r treasury_world \<Rightarrow> bool" where
  "balances_are dec tss w \<longleftrightarrow> dec_ok dec (tw_tokens w) \<and> treasurySnapshot w = tss"

lemma close_day_balances:
  assumes "close_day E b c w = Inr w'" and "balances_are dec tss w" and "chain_dec E dec"
  shows "balances_are dec tss w'"
proof -
  have save: "balances_are dec tss w'" if run: "saveTreasurySnapshot E v = Inr w'" and v: "balances_are dec tss v" for v :: "'a treasury_world"
  proof -
    have "treasurySnapshot w' = treasurySnapshot v" using saveTreasurySnapshot_effect[OF run] by auto
    moreover from run obtain n w1 x y tss' w2 bs where "treasury_block E (lastTreasureTime v) v = Inr (n, w1)"
      and c: "calFieldsOfTreasurySnapshot E n x w1 = Inr (tss', w2)" and "w' = w2\<lparr>tw_blocks := bs\<rparr>"
      by (auto simp: saveTreasurySnapshot_def Let_def elim!: rbind_InrE)
    moreover have "tw_tokens w1 = tw_tokens v" using treasury_block_frame[OF calculation(2)] by auto
    moreover have "dec_ok dec (tw_tokens w2)" if "dec_ok dec (tw_tokens w1)"
      using c GetPricesInUSD_dec[OF _ that assms(3)] by (auto simp: calFieldsOfTreasurySnapshot_def Let_def elim!: rbind_InrE)
    ultimately show ?thesis using v by (simp add: balances_are_def)
  qed
  show ?thesis using assms(1,2) save by (auto simp: close_day_def Let_def balances_are_def split: if_splits)
qed

text \<open>Adding to a balance of one token.\<close>

definition add_to :: "treasury_env \<Rightarrow> (address \<Rightarrow> int) \<Rightarrow> address \<Rightarrow> rat \<Rightarrow> int \<Rightarrow> rat" where
  "add_to E dec tok balance amount = te_FloatAdd E balance (te_GetFloat64Decimal E amount (dec tok))"

lemma enter_transfer_balances:
  assumes "enter_transfer E c tok amount op w = Inr w'" and "dec_ok dec (tw_tokens w)" and "chain_dec E dec"
  shows "dec_ok dec (tw_tokens w')"
    and "aget 0 (tss_Balances (treasurySnapshot w')) a = (if a = tok then add_to E dec tok (aget 0 (tss_Balances (treasurySnapshot w)) a) amount
      else aget 0 (tss_Balances (treasurySnapshot w)) a)"
    and "aget 0 (OperationalBalances (treasurySnapshot w')) a =
      (if a = tok \<and> op then add_to E dec tok (aget 0 (OperationalBalances (treasurySnapshot w)) a) amount
      else aget 0 (OperationalBalances (treasurySnapshot w)) a)"
proof -
  from assms(1) obtain t r where t: "GetToken (te_NewToken E) tok (tw_tokens w) = Inr (Some t, r)" "tw_tokens w' = r"
    and b: "tss_Balances (treasurySnapshot w') = AList.update tok
      (te_FloatAdd E (aget 0 (tss_Balances (treasurySnapshot w)) tok) (te_GetFloat64Decimal E amount (tok_Decimals t)))
      (tss_Balances (treasurySnapshot w))"
    and o': "OperationalBalances (treasurySnapshot w') = (if op then AList.update tok (te_FloatAdd E (aget 0 (OperationalBalances (treasurySnapshot w)) tok)
      (te_GetFloat64Decimal E amount (tok_Decimals t))) (OperationalBalances (treasurySnapshot w)) else OperationalBalances (treasurySnapshot w))"
    by (auto simp: enter_transfer_def Let_def elim!: rbind_InrE)
  note g = GetToken_ok[OF t(1) assms(2,3)]
  then have "tok_Decimals t = dec tok" by (simp add: dec_ok_def)
  then show "dec_ok dec (tw_tokens w')"
    "aget 0 (tss_Balances (treasurySnapshot w')) a = (if a = tok then add_to E dec tok (aget 0 (tss_Balances (treasurySnapshot w)) a) amount
      else aget 0 (tss_Balances (treasurySnapshot w)) a)"
    "aget 0 (OperationalBalances (treasurySnapshot w')) a =
      (if a = tok \<and> op then add_to E dec tok (aget 0 (OperationalBalances (treasurySnapshot w)) a) amount
      else aget 0 (OperationalBalances (treasurySnapshot w)) a)"
    using g(1) t(2) by (simp_all add: b o' add_to_def)
qed

lemma AddTreasuryTransfer_balances:
  assumes "AddTreasuryTransfer fuel E b logID tok amount op w = Inr w'" and "dec_ok dec (tw_tokens w)" and "chain_dec E dec"
  shows "dec_ok dec (tw_tokens w') \<and>
    aget 0 (tss_Balances (treasurySnapshot w')) a = (if a = tok then add_to E dec tok (aget 0 (tss_Balances (treasurySnapshot w)) a) amount
      else aget 0 (tss_Balances (treasurySnapshot w)) a) \<and>
    aget 0 (OperationalBalances (treasurySnapshot w')) a =
      (if a = tok \<and> op then add_to E dec tok (aget 0 (OperationalBalances (treasurySnapshot w)) a) amount
      else aget 0 (OperationalBalances (treasurySnapshot w)) a)"
proof -
  from assms(1) obtain bs c w1 where loop: "for_next fuel (\<lambda>w. Inr (c - lastTreasureTime w \<ge> day, w)) (close_day E b c) (w\<lparr>tw_blocks := bs\<rparr>) = Inr w1"
    and e: "enter_transfer E c tok amount op w1 = Inr w'"
    by (auto simp: AddTreasuryTransfer_def Let_def elim!: rbind_InrE)
  have "balances_are dec (treasurySnapshot w) (w\<lparr>tw_blocks := bs\<rparr>)" using assms(2) by (simp add: balances_are_def)
  then have w1: "balances_are dec (treasurySnapshot w) w1"
    by (rule for_next_invariant[OF loop]) (simp, rule close_day_balances[OF _ _ assms(3)])
  then show ?thesis using enter_transfer_balances[OF e _ assms(3)] by (simp add: balances_are_def)
qed

text \<open>
  Reference definitions, from the transfer event alone: whether it moves tokens to or from the treasury, and how much the treasury holds
  more after it, which is what it received less what it sent.
\<close>

definition touches :: "address \<Rightarrow> treasury_log \<Rightarrow> bool" where
  "touches self l \<longleftrightarrow> (case payload l of Some (src, dst, _) \<Rightarrow> self \<in> {src, dst} | None \<Rightarrow> False)"

definition received :: "address \<Rightarrow> treasury_log \<Rightarrow> int" where
  "received self l = (case payload l of Some (_, dst, amount) \<Rightarrow> if dst = self then amount else 0 | None \<Rightarrow> 0)"

definition sent :: "address \<Rightarrow> treasury_log \<Rightarrow> int" where
  "sent self l = (case payload l of Some (src, _, amount) \<Rightarrow> if src = self then amount else 0 | None \<Rightarrow> 0)"

definition to_itself :: "address \<Rightarrow> treasury_log \<Rightarrow> bool" where
  "to_itself self l \<longleftrightarrow> (case payload l of Some (src, dst, _) \<Rightarrow> src = self \<and> dst = self | None \<Rightarrow> False)"

text \<open>Transfers of the protocol: minted or burned shares, and withdrawals from a pool.\<close>

definition operational :: "address \<Rightarrow> address list \<Rightarrow> treasury_log \<Rightarrow> bool" where
  "operational self pools l \<longleftrightarrow> (\<exists>src dst amount. payload l = Some (src, dst, amount) \<and>
    (dst = self \<and> (src = NULL_ADDR \<or> src \<in> set pools) \<or> src = self \<and> dst = NULL_ADDR))"

text \<open>A balance after some transfers of its token, one added after the other.\<close>

definition balance_after :: "treasury_env \<Rightarrow> (address \<Rightarrow> int) \<Rightarrow> address \<Rightarrow> address \<Rightarrow> rat \<Rightarrow> treasury_log list \<Rightarrow> rat" where
  "balance_after E dec self tok balance logs =
    foldl (\<lambda>b l. te_FloatAdd E b (te_GetFloat64Decimal E (received self l - sent self l) (dec tok))) balance
      (filter (\<lambda>l. logAddress l = tok \<and> touches self l) logs)"

lemma treasury_onLog_balances:
  assumes "treasury_onLog fuel E self pools l w = Inr w'" and "dec_ok dec (tw_tokens w)" and "chain_dec E dec" and "\<not> to_itself self l"
  shows "dec_ok dec (tw_tokens w') \<and>
    aget 0 (tss_Balances (treasurySnapshot w')) a = balance_after E dec self a (aget 0 (tss_Balances (treasurySnapshot w)) a) [l] \<and>
    aget 0 (OperationalBalances (treasurySnapshot w')) a =
      balance_after E dec self a (aget 0 (OperationalBalances (treasurySnapshot w)) a) (if operational self pools l then [l] else [])"
proof (cases "payload l")
  case None
  then show ?thesis using assms by (simp add: treasury_onLog_def balance_after_def touches_def operational_def)
next
  case (Some p)
  obtain src dst amount where p: "p = (src, dst, amount)" by (cases p)
  let ?op = "(src = NULL_ADDR \<and> dst = self) \<or> (src = self \<and> dst = NULL_ADDR) \<or> (src \<in> set pools \<and> dst = self)"
  have op: "operational self pools l \<longleftrightarrow> ?op" using Some p by (auto simp: operational_def)
  have run: "(if self = src then AddTreasuryTransfer fuel E (BlockNumber l) (Index l) (logAddress l) (- amount) ?op w
      else if self = dst then AddTreasuryTransfer fuel E (BlockNumber l) (Index l) (logAddress l) amount ?op w else Inr w) = Inr w'"
    using assms(1) Some p by (simp add: treasury_onLog_def Let_def)
  note ref = balance_after_def touches_def received_def sent_def add_to_def
  consider (sent) "self = src" "self \<noteq> dst" | (got) "self \<noteq> src" "self = dst" | (none) "self \<noteq> src" "self \<noteq> dst"
    using assms(4) Some p by (auto simp: to_itself_def)
  then show ?thesis
  proof cases
    case sent
    then have "AddTreasuryTransfer fuel E (BlockNumber l) (Index l) (logAddress l) (- amount) ?op w = Inr w'" using run by (simp only: if_True simp_thms)
    from AddTreasuryTransfer_balances[OF this assms(2,3), of a] sent Some p show ?thesis unfolding op by (auto simp: ref)
  next
    case got
    then have "AddTreasuryTransfer fuel E (BlockNumber l) (Index l) (logAddress l) amount ?op w = Inr w'" using run by (simp only: if_True if_False simp_thms)
    from AddTreasuryTransfer_balances[OF this assms(2,3), of a] got Some p show ?thesis unfolding op by (auto simp: ref)
  next
    case none
    then show ?thesis using run assms(2) Some p unfolding op by (auto simp: ref)
  qed
qed

text \<open>The self transfer: it is entered as one from the treasury and lowers its balance.\<close>

lemma treasury_self_transfer:
  assumes "payload l = Some (self, self, amount)"
  shows "treasury_onLog fuel E self pools l w = AddTreasuryTransfer fuel E (BlockNumber l) (Index l) (logAddress l) (- amount)
    (self = NULL_ADDR \<or> self \<in> set pools) w"
  using assms by (auto simp: treasury_onLog_def Let_def intro!: arg_cong[where f = "\<lambda>x. AddTreasuryTransfer fuel E _ _ _ _ x w"])

text \<open>
  C18: The balances of the treasury follow its transfers.  If no transfer of a query is from the treasury to itself, every balance
  after the query is the old one with the transfers of its token to or from the treasury added one after the other in the order of
  the logs, each as what was received less what was sent, converted with the decimals of the token; the operational balance
  takes exactly the mints, the burns and the withdrawals from pools among them.  Addition is that of float64, a parameter of which
  no law is used: nothing is reordered.
\<close>

theorem treasury_balances:
  assumes "treasury_Query fuel E self till w = Inr w'" and "LastSync (heap (ar_world (tw_adapters w)) self) < till" and "fst (getAddrs w) \<noteq> []"
    and "te_TransferLogs E (LastSync (heap (ar_world (tw_adapters w)) self) + 1) till (fst (getAddrs w)) [self] = Inr logs"
    and "\<forall>l \<in> set logs. \<not> to_itself self l" and "dec_ok dec (tw_tokens w)" and "chain_dec E dec"
  shows "aget 0 (tss_Balances (treasurySnapshot w')) tok =
      balance_after E dec self tok (aget 0 (tss_Balances (treasurySnapshot w)) tok) logs \<and>
    aget 0 (OperationalBalances (treasurySnapshot w')) tok =
      balance_after E dec self tok (aget 0 (OperationalBalances (treasurySnapshot w)) tok) (filter (operational self (snd (getAddrs w))) logs)"
proof -
  let ?pools = "snd (getAddrs w)"
  have run: "rfold (treasury_onLog fuel E self ?pools) logs w = Inr w'"
    using assms(1-4) by (simp add: treasury_Query_def case_prod_unfold Let_def)
  have snoc: "balance_after E dec self tok x (xs @ ys) = balance_after E dec self tok (balance_after E dec self tok x xs) ys" for x xs ys
    by (simp add: balance_after_def)
  have "aget 0 (tss_Balances (treasurySnapshot w')) tok = balance_after E dec self tok (aget 0 (tss_Balances (treasurySnapshot v)) tok) ls \<and>
      aget 0 (OperationalBalances (treasurySnapshot w')) tok =
        balance_after E dec self tok (aget 0 (OperationalBalances (treasurySnapshot v)) tok) (filter (operational self ?pools) ls)"
    if "rfold (treasury_onLog fuel E self ?pools) ls v = Inr w'" "dec_ok dec (tw_tokens v)" "\<forall>l \<in> set ls. \<not> to_itself self l" for ls v
    using that
  proof (induction ls arbitrary: v)
    case (Cons l ls)
    from Cons.prems(1) obtain v1 where v1: "treasury_onLog fuel E self ?pools l v = Inr v1" "rfold (treasury_onLog fuel E self ?pools) ls v1 = Inr w'"
      by (auto elim: rbind_InrE)
    have l: "\<not> to_itself self l" "\<forall>l \<in> set ls. \<not> to_itself self l" using Cons.prems(3) by simp_all
    note one = treasury_onLog_balances[OF v1(1) Cons.prems(2) assms(7) l(1), of tok]
    show ?case using Cons.IH[OF v1(2) _ l(2)] one snoc[of _ "[l]" ls] snoc[of _ "[l]" "filter (operational self ?pools) ls"]
      by (cases "operational self ?pools l") (simp_all add: balance_after_def)
  qed (simp add: balance_after_def)
  from this[OF run assms(6,5)] show ?thesis .
qed

section \<open>Prices\<close>

text \<open>Each answer gives one number.\<close>

definition answer_value :: "treasury_answer \<Rightarrow> int" where
  "answer_value e = (case e of AValue v \<Rightarrow> v | _ \<Rightarrow> 0)"

lemma answers_map:
  assumes "rfold step entries acc = Inr xs" and "\<And>e acc acc'. step e acc = Inr acc' \<Longrightarrow> acc' = acc @ [g e]"
  shows "xs = acc @ map g entries"
  using assms(1)
proof (induction entries arbitrary: acc)
  case (Cons e entries)
  from Cons.prems obtain acc' where s: "step e acc = Inr acc'" "rfold step entries acc' = Inr xs" by (auto elim: rbind_InrE)
  show ?case using Cons.IH[OF s(2)] assms(2)[OF s(1)] by simp
qed simp

lemma priceAnswer_step: "priceAnswer f e acc = Inr acc' \<Longrightarrow> acc' = acc @ [answer_value e * f]"
  by (cases e) (auto simp: priceAnswer_def answer_value_def)

lemma dieselAnswer_step: "dieselAnswer e acc = Inr acc' \<Longrightarrow> acc' = acc @ [answer_value e]"
  by (cases e) (auto simp: dieselAnswer_def answer_value_def)

lemmas priceAnswers_map = answers_map[of "priceAnswer f", OF _ priceAnswer_step] for f
lemmas dieselAnswers_map = answers_map[of dieselAnswer, OF _ dieselAnswer_step]

lemma GetToken_diesel: "GetToken N a r = Inr (t, r') \<Longrightarrow> dieselTokens r' = dieselTokens r"
  by (auto simp: GetToken_def addToken_def addTokenObj_def Let_def split: option.splits if_splits)

lemma v1PriceCalls_map:
  assumes "rfold (v1PriceCall E orc usdc) ts (calls, r) = Inr (calls', r')" and "dec_ok dec r" and "chain_dec E dec"
  shows "calls' = calls @ map (\<lambda>t. ConvertCall orc (te_GetExpInt E (dec t)) t usdc) ts \<and> dieselTokens r' = dieselTokens r"
  using assms(1,2)
proof (induction ts arbitrary: calls r)
  case (Cons a ts)
  from Cons.prems(1) obtain acc where acc: "v1PriceCall E orc usdc a (calls, r) = Inr acc"
    "rfold (v1PriceCall E orc usdc) ts acc = Inr (calls', r')" by (auto elim: rbind_InrE)
  from acc(1) obtain t r1 where t: "GetToken (te_NewToken E) a r = Inr (Some t, r1)"
    and acc1: "acc = (calls @ [ConvertCall orc (te_GetExpInt E (tok_Decimals t)) a usdc], r1)"
    by (auto simp: v1PriceCall_def elim!: rbind_InrE)
  note run = acc(2)[unfolded acc1]
  note ok = GetToken_ok[OF t Cons.prems(2) assms(3)]
  have "tok_Decimals t = dec a" using ok unfolding dec_ok_def by (metis option.inject)
  then show ?case using Cons.IH[OF run ok(1)] GetToken_diesel[OF t] by simp
qed simp

text \<open>The token whose price is asked for another, and the rate that is asked for it.\<close>

definition priced :: "tokens_repo \<Rightarrow> address \<Rightarrow> address" where
  "priced r tok = (case GetDieselToken tok r of Some (uToken, _) \<Rightarrow> uToken | None \<Rightarrow> tok)"

definition rated :: "tokens_repo \<Rightarrow> address \<Rightarrow> address list" where
  "rated r tok = (case GetDieselToken tok r of Some (_, pool) \<Rightarrow> [pool] | None \<Rightarrow> [])"

definition token_price :: "treasury_env \<Rightarrow> tokens_repo \<Rightarrow> (address \<Rightarrow> int) \<Rightarrow> (address \<Rightarrow> int) \<Rightarrow> address \<Rightarrow> rat" where
  "token_price E r price rate tok =
    te_GetFloat64Decimal E (case GetDieselToken tok r of Some (uToken, pool) \<Rightarrow> te_GetInt64 E (rate pool * price uToken) 27 | None \<Rightarrow> price tok) 8"

lemma drop_ConsD: "drop i xs = y # ys \<Longrightarrow> i < length xs \<and> xs ! i = y \<and> drop (Suc i) xs = ys"
  by (metis Cons_nth_drop_Suc drop_all linorder_not_le list.distinct(1) list.inject)

lemma price_steps:
  assumes "rfold (price_step E r prices rates) (List.enumerate i toks) (k, m) = Inr (k', m')"
    and "drop i prices = map (\<lambda>tok. price (priced r tok)) toks" and "drop k rates = map rate (concat (map (rated r) toks))"
  shows "map_of m' t = (if t \<in> set toks then Some (token_price E r price rate t) else map_of m t)"
  using assms
proof (induction toks arbitrary: i k m)
  case (Cons tok toks)
  have i: "go_index prices (int i) = Inr (price (priced r tok))" "drop (Suc i) prices = map (\<lambda>tok. price (priced r tok)) toks"
    using drop_ConsD[of i prices "price (priced r tok)" "map (\<lambda>tok. price (priced r tok)) toks"] Cons.prems(2) by simp_all
  show ?case
  proof (cases "GetDieselToken tok r")
    case None
    then have "rfold (price_step E r prices rates) (List.enumerate (Suc i) toks) (k, AList.update tok (token_price E r price rate tok) m) = Inr (k', m')"
      using Cons.prems(1) i(1) by (auto simp: price_step_def token_price_def priced_def tr_IsDieselToken_def GetDieselToken_def elim!: rbind_InrE)
    from Cons.IH[OF this i(2)] show ?thesis using Cons.prems(3) None by (auto simp: rated_def)
  next
    case (Some up)
    obtain u pool where up: "up = (u, pool)" by fastforce
    have rt: "rated r tok = [pool]" using Some up by (simp add: rated_def)
    have k: "go_index rates (int k) = Inr (rate pool)" "drop (Suc k) rates = map rate (concat (map (rated r) toks))"
      using drop_ConsD[of k rates "rate pool" "map rate (concat (map (rated r) toks))"] Cons.prems(3) rt by simp_all
    then have "rfold (price_step E r prices rates) (List.enumerate (Suc i) toks) (Suc k, AList.update tok (token_price E r price rate tok) m) = Inr (k', m')"
      using Cons.prems(1) i(1) Some up
      by (auto simp: price_step_def token_price_def priced_def tr_IsDieselToken_def GetDieselToken_def elim!: rbind_InrE)
    from Cons.IH[OF this i(2) k(2)] show ?thesis by auto
  qed
qed simp

text \<open>What the oracle answers for a token: a failed call is a price of zero; version 1 answers with six decimals, not eight.\<close>

definition oracle_price :: "treasury_env \<Rightarrow> (treasury_call \<Rightarrow> treasury_answer) \<Rightarrow> address \<Rightarrow> int \<Rightarrow> address \<Rightarrow> (address \<Rightarrow> int) \<Rightarrow> address \<Rightarrow> int" where
  "oracle_price E answer orc version usdc dec tok =
    (if version = 1 then answer_value (answer (ConvertCall orc (te_GetExpInt E (dec tok)) tok usdc)) * 100
     else answer_value (answer (GetPriceCall orc tok)))"

definition pool_rate :: "(treasury_call \<Rightarrow> treasury_answer) \<Rightarrow> address \<Rightarrow> int" where
  "pool_rate answer pool = answer_value (answer (DieselRateCall pool))"

text \<open>
  C28: Prices and rates that are asked for in one batch end up with the tokens they belong to: every token has the price of the oracle of the
  block, a pool share the price of its underlying token times the rate of its own pool, and no other token has a price.
\<close>

theorem GetPricesInUSD_aligned:
  assumes "GetPricesInUSD E b toks w = Inr (ps, w')"
    and "GetActivePriceOracleByBlockNum (MoreThan E) b (tw_adapters w) = Inr (orc, version, False)" and "orc \<noteq> ''''" and "version = 1 \<or> version = 2"
    and "\<forall>calls. MakeMultiCall E b calls = map answer calls" and "dec_ok dec (tw_tokens w)" and "chain_dec E dec"
  shows "map_of ps tok = (if tok \<in> set toks
    then Some (token_price E (tw_tokens w) (oracle_price E answer orc version (usdcAddr (tw_tokens w)) dec) (pool_rate answer) tok) else None)"
proof -
  let ?r = "tw_tokens w" and ?usdc = "usdcAddr (tw_tokens w)"
  let ?ts = "map (priced ?r) toks" and ?ps = "concat (map (rated ?r) toks)"
  let ?call = "\<lambda>t. if version = 1 then ConvertCall orc (te_GetExpInt E (dec t)) t ?usdc else GetPriceCall orc t"
  let ?price = "oracle_price E answer orc version ?usdc dec"
  from assms(1,2) obtain prices rates r' k where batch: "getPricesInBatch E orc version b ?ts ?ps ?r = Inr ((prices, rates), r')"
    and steps: "rfold (price_step E r' prices rates) (List.enumerate 0 toks) (0, []) = Inr (k, ps)"
    by (auto simp: GetPricesInUSD_def Let_def priced_def[abs_def] rated_def[abs_def] elim!: rbind_InrE)
  from batch assms(3) obtain calls where
    c: "(if version = 1 then v1PriceCalls E orc ?ts ?r else Inr (if version = 2 then v2PriceCalls orc ?ts else [], ?r)) = Inr (calls, r')"
    and p: "(if version = 1 then rbind (slice_to (length ?ts) (MakeMultiCall E b (calls @ dieselCalls ?ps))) v1PriceAnswers
      else if version = 2 then rbind (slice_to (length ?ts) (MakeMultiCall E b (calls @ dieselCalls ?ps))) v2PriceAnswers else Inr []) = Inr prices"
    and d: "rbind (slice_after (length ?ts) (MakeMultiCall E b (calls @ dieselCalls ?ps))) dieselAnswers = Inr rates"
    unfolding getPricesInBatch_def if_not_P[OF assms(3)] Let_def by (elim rbind_InrE) auto
  have calls: "calls = map ?call ?ts" "dieselTokens r' = dieselTokens ?r"
    using c assms(4) v1PriceCalls_map[OF _ assms(6,7), of orc ?usdc ?ts "[]"] by (auto simp: v1PriceCalls_def v2PriceCalls_def split: if_splits)
  have len: "length calls = length ?ts" by (simp add: calls(1))
  have prices: "prices = map ?price ?ts"
    using p assms(4) len unfolding assms(5)[rule_format]
    by (auto simp: slice_to_def v1PriceAnswers_def v2PriceAnswers_def calls(1) oracle_price_def dest!: priceAnswers_map split: if_splits)
  have rates: "rates = map (pool_rate answer) ?ps"
    using d len unfolding assms(5)[rule_format]
    by (auto simp: slice_after_def dieselAnswers_def dieselCalls_def pool_rate_def dest!: dieselAnswers_map split: if_splits)
  have same: "priced r' = priced ?r" "rated r' = rated ?r" "token_price E r' = token_price E ?r"
    by (simp_all add: priced_def[abs_def] rated_def[abs_def] GetDieselToken_def token_price_def[abs_def] calls(2))
  have "map_of ps tok = (if tok \<in> set toks then Some (token_price E r' ?price (pool_rate answer) tok) else map_of [] tok)"
    by (rule price_steps[OF steps]) (simp_all add: prices rates same comp_def)
  then show ?thesis by (simp add: same(3))
qed

section \<open>A concrete treasury\<close>

definition demo_answer :: "treasury_call \<Rightarrow> treasury_answer" where
  "demo_answer c = (case c of DieselRateCall _ \<Rightarrow> AValue 2 | ConvertCall _ _ tok _ \<Rightarrow> if tok = ''u'' then AValue 5 else AFailed | GetPriceCall _ _ \<Rightarrow> AFailed)"

definition demo_treasury_env :: treasury_env where
  "demo_treasury_env = \<lparr>te_chain = demo_chain\<lparr>BlockByNumber := (\<lambda>b. Inr (word_of_int (b * day + 5)))\<rparr>, te_chainId = 1, EtherscanAPI = ''key'',
     GetBlockNumForTs = (\<lambda>ts. Some (ts div day)), TimeToDateEndTime = (\<lambda>t. t div day * day + (day - 1)),
     TimeToDate = (\<lambda>t. if t div day = 1 then ''day 1'' else ''day''), te_NewToken = (\<lambda>_. None), te_GetFloat64Decimal = (\<lambda>x _. of_int x), te_FloatAdd = (+),
     te_GetInt64 = (\<lambda>x _. x), te_GetExpInt = (\<lambda>n. 10 ^ nat n), MoreThan = (\<lambda>v v'. v > v'), MakeMultiCall = (\<lambda>_. map demo_answer),
     mapValueInUSD = (\<lambda>_ _. 0),
     te_TransferLogs = (\<lambda>_ _ _ _. Inr [\<lparr>BlockNumber = 3, Index = 0, TxIndex = 0, TxHash = ''h'', logAddress = ''u'', topic0 = ''Transfer(address,address,uint256)'',
        payload = Some (''p'', ''tr'', 7)\<rparr>])\<rparr>"

definition demo_snapshot :: treasury_snapshot where
  "demo_snapshot = \<lparr>tss_Date = '''', tss_BlockNum = 0, PricesInUSD = [], tss_Balances = [(''u'', 4)], OperationalBalances = [], ValueInUSD = 0,
     OperationalValueInUSD = 0\<rparr>"

definition demo_treasury_tokens :: tokens_repo where
  "demo_treasury_tokens = \<lparr>wethAddr = '''', usdcAddr = ''u'', gearTokenAddr = '''',
     tr_tokens = [(''u'', \<lparr>tok_Address = ''u'', tok_Symbol = ''USDC'', tok_Decimals = 6\<rparr>)], dieselTokens = [(''dt'', ''u'', ''p'')]\<rparr>"

definition demo_treasury :: "unit adapters_repo \<Rightarrow> int \<Rightarrow> unit treasury_world" where
  "demo_treasury r t = \<lparr>tw_blocks = NewBlocksRepo, tw_tokens = demo_treasury_tokens, tw_adapters = r, treasurySnapshot = demo_snapshot, lastTreasureTime = t\<rparr>"

lemma demo_treasury_facts:
  "day_ends demo_treasury_env" "dec_ok (\<lambda>_. 6) (tw_tokens (demo_treasury r t))" "chain_dec demo_treasury_env (\<lambda>_. 6)"
  "block_time (te_chain demo_treasury_env) 3 (tw_blocks (demo_treasury r t)) = Inr (word_of_int (3 * day + 5))"
  "te_chainId demo_treasury_env = 1" "lastTreasureTime (demo_treasury r t) = t" "treasurySnapshot (demo_treasury r t) = demo_snapshot"
  by (simp_all add: day_ends_def demo_treasury_env_def dec_ok_def demo_treasury_def demo_treasury_tokens_def chain_dec_def block_time_def NewBlocksRepo_def)

lemma demo_treasury_days: "closed_days (day - 1) (3 * day + 5) = [2 * day - 1, 3 * day - 1]"
  by code_simp

lemma demo_treasury_time: "sint (word_of_int (3 * day + 5) :: 64 word) = 3 * day + 5"
  by (simp add: signed_take_bit_int_eq_self)

theorem treasury_days_closed_witness:
  "\<exists>r w'. demo_registry = Inr r \<and> AddTreasuryTransfer 3 demo_treasury_env 3 0 ''u'' 7 False (demo_treasury r (day - 1)) = Inr w' \<and>
    snapshots (tw_blocks w') = {#(''day 1'', [(''u'', 4)], []), (''day'', [(''u'', 4)], [])#} \<and> lastTreasureTime w' = 3 * day - 1"
proof -
  have "\<not> isl (rbind demo_registry (\<lambda>r. AddTreasuryTransfer 3 demo_treasury_env 3 0 ''u'' 7 False (demo_treasury r (day - 1))))" by code_simp
  then obtain w' where "rbind demo_registry (\<lambda>r. AddTreasuryTransfer 3 demo_treasury_env 3 0 ''u'' 7 False (demo_treasury r (day - 1))) = Inr w'"
    by (metis isl_def obj_sumE)
  then obtain r where r: "demo_registry = Inr r" "AddTreasuryTransfer 3 demo_treasury_env 3 0 ''u'' 7 False (demo_treasury r (day - 1)) = Inr w'"
    by (elim rbind_InrE)
  let ?w = "demo_treasury r (day - 1)"
  note f = demo_treasury_facts
  have l: "lastTreasureTime ?w = 0 \<or> is_day_end (lastTreasureTime ?w)" by (simp add: f is_day_end_def)
  have k: "\<not> kovan_case demo_treasury_env 3" by simp
  have n: "length (closed_days (lastTreasureTime ?w) (sint (word_of_int (3 * day + 5) :: 64 word))) < 3"
    unfolding f demo_treasury_time demo_treasury_days by simp
  have s0: "snapshots (tw_blocks ?w) = {#}" by (simp add: demo_treasury_def snapshots_def all_rows_def NewBlocksRepo_def)
  have d: "TimeToDate demo_treasury_env (2 * day - 1) = ''day 1''" "TimeToDate demo_treasury_env (3 * day - 1) = ''day''"
    by (simp_all add: demo_treasury_env_def)
  have b: "tss_Balances demo_snapshot = [(''u'', 4)]" "OperationalBalances demo_snapshot = []" by (simp_all add: demo_snapshot_def)
  from treasury_days_closed[OF f(4) f(1) l k n, unfolded f(6,7) demo_treasury_time demo_treasury_days s0 Let_def list.map d b] r(2)
  have "snapshots (tw_blocks w') = {#(''day 1'', [(''u'', 4)], []), (''day'', [(''u'', 4)], [])#}" "lastTreasureTime w' = 3 * day - 1" by simp_all
  with r show ?thesis by (intro exI conjI)
qed

theorem treasury_balances_witness:
  "\<exists>r w'. demo_registry = Inr r \<and> treasury_Query 3 demo_treasury_env ''tr'' 5 (demo_treasury r (3 * day - 1)) = Inr w' \<and>
    aget 0 (tss_Balances (treasurySnapshot w')) ''u'' = 11 \<and> aget 0 (OperationalBalances (treasurySnapshot w')) ''u'' = 7"
proof -
  have "case demo_registry of Inl _ \<Rightarrow> False | Inr r \<Rightarrow>
      \<not> isl (treasury_Query 3 demo_treasury_env ''tr'' 5 (demo_treasury r (3 * day - 1))) \<and> LastSync (heap (ar_world r) ''tr'') < 5" by code_simp
  then obtain r where r: "demo_registry = Inr r" "\<not> isl (treasury_Query 3 demo_treasury_env ''tr'' 5 (demo_treasury r (3 * day - 1)))"
    "LastSync (heap (ar_world r) ''tr'') < 5" using case_InrD by blast
  from r(2) obtain w' where w': "treasury_Query 3 demo_treasury_env ''tr'' 5 (demo_treasury r (3 * day - 1)) = Inr w'" by (metis isl_def obj_sumE)
  let ?w = "demo_treasury r (3 * day - 1)"
  let ?l = "\<lparr>BlockNumber = 3, Index = 0, TxIndex = 0, TxHash = ''h'', logAddress = ''u'', topic0 = ''Transfer(address,address,uint256)'',
        payload = Some (''p'', ''tr'', 7)\<rparr> :: treasury_log"
  have a: "LastSync (heap (ar_world (tw_adapters ?w)) ''tr'') < 5" using r(3) by (simp add: demo_treasury_def)
  have g: "getAddrs ?w = ([''dt'', ''u''], [''p''])" by (simp add: getAddrs_def demo_treasury_def demo_treasury_tokens_def)
  have logs: "te_TransferLogs demo_treasury_env (LastSync (heap (ar_world (tw_adapters ?w)) ''tr'') + 1) 5 (fst (getAddrs ?w)) [''tr''] = Inr [?l]"
    by (simp add: demo_treasury_env_def)
  have ne: "fst (getAddrs ?w) \<noteq> []" unfolding g by simp
  have am: "balance_after demo_treasury_env (\<lambda>_. 6) ''tr'' ''u'' x [?l] = x + 7" "operational ''tr'' [''p''] ?l" for x
    by (simp_all add: balance_after_def touches_def received_def sent_def demo_treasury_env_def operational_def)
  have no: "\<forall>l \<in> set [?l]. \<not> to_itself ''tr'' l" by (simp add: to_itself_def)
  have b: "aget 0 (tss_Balances demo_snapshot) ''u'' = 4" "aget 0 (OperationalBalances demo_snapshot) ''u'' = 0" by (simp_all add: demo_snapshot_def)
  from treasury_balances[OF w' a ne logs no demo_treasury_facts(2,3), of "''u''", unfolded demo_treasury_facts(7) g b]
  have "aget 0 (tss_Balances (treasurySnapshot w')) ''u'' = 11" "aget 0 (OperationalBalances (treasurySnapshot w')) ''u'' = 7"
    using am by simp_all
  with r(1) w' show ?thesis by (intro exI conjI)
qed

theorem GetPricesInUSD_aligned_witness:
  "\<exists>r ps w'. demo_registry = Inr r \<and> GetPricesInUSD demo_treasury_env 15 [''u'', ''dt''] (demo_treasury r 0) = Inr (ps, w') \<and>
    map_of ps ''u'' = Some 500 \<and> map_of ps ''dt'' = Some 1000"
proof -
  have "case demo_registry of Inl _ \<Rightarrow> False | Inr r \<Rightarrow>
      \<not> isl (GetPricesInUSD demo_treasury_env 15 [''u'', ''dt''] (demo_treasury r 0)) \<and>
      GetActivePriceOracleByBlockNum (MoreThan demo_treasury_env) 15 r = Inr (''o1'', 1, False)" by code_simp
  then obtain r where r: "demo_registry = Inr r" "\<not> isl (GetPricesInUSD demo_treasury_env 15 [''u'', ''dt''] (demo_treasury r 0))"
    "GetActivePriceOracleByBlockNum (MoreThan demo_treasury_env) 15 r = Inr (''o1'', 1, False)" using case_InrD by blast
  from r(2) obtain ps w' where run: "GetPricesInUSD demo_treasury_env 15 [''u'', ''dt''] (demo_treasury r 0) = Inr (ps, w')"
    by (metis isl_def obj_sumE surj_pair)
  have orc: "GetActivePriceOracleByBlockNum (MoreThan demo_treasury_env) 15 (tw_adapters (demo_treasury r 0)) = Inr (''o1'', 1, False)"
    using r(3) by (simp add: demo_treasury_def)
  have h: "''o1'' \<noteq> ''''" "(1 :: int) = 1 \<or> (1 :: int) = 2" "\<forall>calls. MakeMultiCall demo_treasury_env 15 calls = map demo_answer calls"
    by (simp_all add: demo_treasury_env_def)
  note p = GetPricesInUSD_aligned[OF run orc h demo_treasury_facts(2,3)]
  have "map_of ps ''u'' = Some 500" "map_of ps ''dt'' = Some 1000"
    by (simp_all add: p token_price_def oracle_price_def pool_rate_def answer_value_def demo_answer_def GetDieselToken_def demo_treasury_def
        demo_treasury_tokens_def demo_treasury_env_def)
  with r(1) run show ?thesis by (intro exI conjI)
qed

end
