(* ===== verification/Spec2Isabelle.thy ===== *)
theory Spec2Isabelle
  imports Sync_Wrapper Credit_Manager_Theorems Session_Restart_Correct Debt_Correct Credit_Filter_Correct Pools_Correct LM_Rewards_Correct Gear_Token
    Price_Feeds_Correct Trace_Correct Execute_Correct Query_Correct Rebase_Correct CM_Wrapper DC_Correct
    Adapter_Repo_Correct Administration_Correct Treasury_Correct
begin

text \<open>
  Verification of third-eye, the indexer of the Gearbox protocol.

  The program follows the logs of the contracts of the protocol on an Ethereum node and keeps a database of
  credit accounts, pools, prices, parameters and debts.  Every contract has an adapter.  The engine takes the
  adapters level by level, fetches their logs for a range of blocks and hands them over; adapters write rows into
  the blocks of the repository and create further adapters.  After a range, the debt engine goes over the new blocks and calculates
  the debt of every open account, and everything is saved.

  \<^bold>\<open>How Go is read\<close> (\<open>Go_Prelude\<close>).  A function that may end the process (\<^verbatim>\<open>log.Fatal\<close>, a panic, a nil pointer, an index out of
  range, a division by zero) returns \<open>'a res\<close>.  Loops over slices and maps are folds; a loop without a bound
  has fuel, and a theorem says how much is enough.  Integers keep their width where the code converts or wraps; block numbers
  and big integers are \<open>int\<close>.  Floating point values are rationals, and the conversions of the sdk are parameters, as is the addition of the
  balances of the treasury (other sums of floats are exact here), and as are the contracts, the tracing service and the database.  Objects that several places point to and write (sessions, allowed
  tokens, parameters) live in stores and are named by id.

  \<^bold>\<open>Theories.\<close>

  \<^item> \<open>Go_Prelude\<close>, \<open>Refinement\<close>: failures, folds, maps and integers; the contracts \<open>event_refinement\<close> and \<open>block_refinement\<close> (a handler refines a
    specification on a view of the state), interpreted by pools, GEAR token and configurators.
  \<^item> \<open>Adapter_Kit\<close> (\<^verbatim>\<open>ds/adapter_name.go\<close>, \<^verbatim>\<open>ds/level.go\<close>, \<^verbatim>\<open>ds/adapter_kit.go\<close>), \<open>Sync_Adapter\<close> (\<^verbatim>\<open>ds/sync_adapter.go\<close>),
    \<open>Sync_Engine\<close> (\<^verbatim>\<open>engine/index.go\<close>), \<open>Sync_Wrapper\<close> (\<^verbatim>\<open>models/wrappers\<close>): levels and their cursor, one round of the engine, the
    wrapper that merges the logs of several adapters.  Shown: a sync takes the logs of exactly the blocks from the last one on,
    once and in order, batches meet without gap, also around a disable block, a disabled adapter stops at its block, and wrapped adapters see block changes.
    The handlers of wrapped and plain adapters are parameters there that change the repository and set disable blocks; handlers that add adapters or write
    details are modelled with the contracts, in theories of their own.
  \<^item> \<open>Direct_Transfers\<close> (\<^verbatim>\<open>ds/direct_token_manager.go\<close>): transfers to accounts outside of operations, attributed to the session
    that was open.  Shown: a request returns what lies between the opening and the closing log of
    the session that answers for a block, and nothing twice.
  \<^item> \<open>Multicalls\<close> (\<^verbatim>\<open>ds/multicall_processor.go\<close>, \<^verbatim>\<open>ds/execute_parser.go\<close>): the events of a transaction grouped into calls of the
    facade.  Shown: no event is lost or repeated.
  \<^item> \<open>Credit_Manager_State\<close>, \<open>Credit_Manager_V1\<close>, \<open>Credit_Manager_V2\<close>, \<open>Credit_Manager\<close> (\<^verbatim>\<open>models/credit_manager\<close>): all handlers of both
    contract versions, the end of a transaction and of a block.  \<open>Credit_Accounts\<close> is the abstract specification: the open
    accounts, counters and the ledger of the pool.  \<open>Credit_Manager_Steps\<close> and \<open>Credit_Manager_Frame\<close> state once what the helpers
    keep (locales \<open>tx_steps\<close> for predicates and \<open>tx_frame\<close> for views); \<open>Credit_Manager_Correct\<close>, \<open>Credit_Manager_Blocks\<close> and \<open>Credit_Manager_Theorems\<close> show that every log refines the
    specification, that counters add up, that borrowed less repaid is what the ledger says, and what happens at the end of blocks.
  \<^item> \<open>Session_Restart\<close>, \<open>Session_Restart_Correct\<close> (\<^verbatim>\<open>repository/handlers/credit_session.go\<close>, \<^verbatim>\<open>repository/credit_manager.go\<close>): saving the dirty
    sessions, dropping those that are over and loading them again.  Shown: a restart restores who owns which account.
  \<^item> \<open>Debt_State\<close>, \<open>Debt_Engine\<close>, \<open>Debt_Correct\<close> (\<^verbatim>\<open>debts\<close>): which sessions get a debt in a block, from the rows of the block, tracking of liquidable accounts under
    throttling, growth of the cumulative index, the repay amount, batches of the backlog.
  \<^item> \<open>Repo_Blocks\<close>, \<open>Repo_Blocks_Correct\<close> (\<^verbatim>\<open>repository/handlers/blocks.go\<close>, \<^verbatim>\<open>prev_price.go\<close>): rows of blocks and prices.  Shown: the price table
    is the reported prices without repetitions and loses nothing; the last block of a day is known.
  \<^item> \<open>Repo_Config\<close>, \<open>Credit_Filter\<close>, \<open>Credit_Filter_Correct\<close> (\<^verbatim>\<open>tokens.go\<close>, \<^verbatim>\<open>allowed_tokens.go\<close>, \<^verbatim>\<open>params.go\<close>, \<^verbatim>\<open>models/credit_filter\<close>): the configuration of
    managers.  Shown: allowed tokens follow the events and their entries never overlap; parameter rows are shared between
    blocks, which loses values.
  \<^item> \<open>Pools\<close>, \<open>Pools_Correct\<close> (\<^verbatim>\<open>models/pool\<close>): deposits and removals are stored once, with user and amount put right.
  \<^item> \<open>LM_Rewards\<close>, \<open>LM_Rewards_Correct\<close> (\<^verbatim>\<open>models/pool_lmrewards\<close>): supply and balances agree, rewards are bounded, and a
    supply that went back to zero stops the process.
  \<^item> \<open>Gear_Token\<close> (\<^verbatim>\<open>models/gear_token\<close>): balances are what the transfers say.
  \<^item> \<open>Price_Feeds\<close>, \<open>Price_Feeds_Correct\<close> (\<^verbatim>\<open>models/chainlink_price_feed\<close>, \<^verbatim>\<open>models/composite_chainlink\<close>, \<^verbatim>\<open>models/price_oracle\<close>,
    \<^verbatim>\<open>repository/handlers/token_oracle.go\<close>): the search for the block of a phase change, and from the logs of a chainlink feed
    to the price table: the last answer up to every block, if no other log follows the answers of a block (then the code loses them).
  \<^item> \<open>Query_Feeds\<close>, \<open>Query_Correct\<close> (\<^verbatim>\<open>models/aggregated_block_feed\<close>): the feed that asks curve, yearn and similar price
    contracts every few blocks and again whenever a price they depend on changes.  Shown: the intervals of every feed follow the oracle
    events, the rows are those of the blocks and tokens asked for
    (updates between the last sync and the first interval block are dropped), and a third enabling of a feed stops the process.  The adapter of a feed
    that gave no answer is looked up among the feeds, which is where \<^verbatim>\<open>repo.GetAdapter\<close> finds it.
  \<^item> \<open>Trace_Service\<close>, \<open>Trace_Correct\<close> (\<^verbatim>\<open>services/trace_service\<close>): call trees from the two formats of
    traces, and the store of the logs of a transaction.  Shown: the tree built from parity traces lists its calls in their order,
    and every log of a fetched range is answered.
  \<^item> \<open>Execute_Parser\<close>, \<open>Execute_Correct\<close> (\<^verbatim>\<open>services/execute_parser.go\<close>, \<^verbatim>\<open>services/execute_filter.go\<close>): the calls of an account to
    protocols, with the balance changes between them, and the transfers of closing an account.  Shown: the changes are the sums of the
    transfers of the logs in between.
  \<^item> \<open>Rebase_Token\<close>, \<open>Rebase_Correct\<close> (\<^verbatim>\<open>models/rebase_token\<close>): shares and totals of the staked token.  Shown: the search for the blocks in which
    the total changed finds all of them, and a run offers the state at the end of every block with a change.
  \<^item> \<open>CM_Wrapper\<close> (\<^verbatim>\<open>models/wrappers/cm_wrapper\<close>): the logs of all managers, fetched again when an event changes the watched
    addresses.  Shown: that is as good as going once through the logs with the addresses watched at each of them.
  \<^item> \<open>DC_Wrapper\<close>, \<open>DC_Correct\<close> (\<^verbatim>\<open>ds/dc_wrapper\<close>): which data compressor and version answers for a block, the calls and their answers
    turned into one format.
  \<^item> \<open>Adapter_Repo\<close>, \<open>Adapter_Repo_Correct\<close> (\<^verbatim>\<open>repository/handlers/sync_adapters.go\<close>, \<^verbatim>\<open>kit_handler.go\<close>, the wrappers of adapters): the registry
    of adapters.  Shown: it stays well-formed, an added adapter is found and no other is moved, and which price oracle is
    active in a block, if oracles are replaced in order (the code looks at the age only, never at whether an oracle is disabled).
  \<^item> \<open>Administration\<close>, \<open>Administration_Correct\<close> (\<^verbatim>\<open>models/address_provider\<close>, \<^verbatim>\<open>models/acl\<close>, \<^verbatim>\<open>models/account_factory\<close>,
    \<^verbatim>\<open>models/contract_register\<close>, \<^verbatim>\<open>models/account_manager\<close> and their entry points in \<^verbatim>\<open>repository\<close>): the contracts that announce the others.
    Shown: oracles and compressors are those announced, also after a restart; the account manager follows the accounts that
    were opened; and where a second account factory or a new oracle after a restart ends the process.
  \<^item> \<open>Treasury_Repo\<close>, \<open>Treasury_Correct\<close> (\<^verbatim>\<open>models/treasury\<close>, \<^verbatim>\<open>repository/handlers/treasury\<close>): balances, daily snapshots and prices of
    the treasury.  Shown: balances take the transfers one after the other, the loop over the days ends and closes every day once, and prices belong to
    their tokens.

  \<^bold>\<open>Fuel.\<close>  The cursor loop of a level, the catch-up batches, the backlog of debts, the interval loop of the aggregated feed and the
  binary search have fuel.  The length of the
  range (and two for the aggregated feed) is enough for batches and intervals of positive size; 64 steps are enough for the search in 63 bit block numbers; the second round of a composite
  feed is its last unless the oracle changes again.  The search of the rebase token
  has the length of its range, the wrapper of managers one round more than there are logs, and the treasury one more than the days to
  close.  With a batch size of zero the loops of the program do not end.

  \<^bold>\<open>Not modelled.\<close>  The decoding of call data, the packing of contract calls and the constructors that ask the chain are parameters.  SQL
  (loading and saving the repository, other than sessions and the state of managers), start-up, the node client, one-off commands, threads (the engine may run the adapters of a level
  in parallel; the model runs them one after the other) and logging are input and output, and are not modelled.
\<close>

end
